(* ===== verification/Prelude.thy ===== *)
theory Prelude
  imports Main "HOL-Library.Sublist"
begin

text \<open>
  Shared vocabulary of the development.

  \<^item> JavaScript values as the code uses them: \<open>T | null | undefined\<close> is an \<open>option\<close>
    (the code below never tells \<open>null\<close> from \<open>undefined\<close> unless a definition says so),
    \<open>a || b\<close> and \<open>a ?? b\<close> on such values, decimal rendering in template strings.
  \<^item> Effectful code: a handler is a function from a state to a result and a new state, the
    result being a thrown error or a value; \<open>try/catch\<close> and \<open>try/finally\<close> are combinators.
  \<^item> A small weakest-precondition calculus for these programs (collection \<open>wp\<close>).
  \<^item> Calls to services outside the modelled component: \<open>perform\<close> records the call in a trace
    and takes its outcome from an arbitrary function of everything called so far.
\<close>

section \<open>JavaScript values\<close>

datatype js_error = JsError (err_code: string) (err_message: string)

abbreviation new_Error :: "string \<Rightarrow> js_error" where
  "new_Error m \<equiv> JsError '''' m"

text \<open>Truthiness of an optional string or number: \<open>undefined\<close>, \<open>null\<close>, \<open>''\<close> and \<open>0\<close> are falsy.\<close>

fun truthy_s :: "string option \<Rightarrow> bool" where
  "truthy_s None = False"
| "truthy_s (Some s) = (s \<noteq> '''')"

fun truthy_n :: "int option \<Rightarrow> bool" where
  "truthy_n None = False"
| "truthy_n (Some n) = (n \<noteq> 0)"

text \<open>\<open>a || b\<close> where \<open>b\<close> is a definite value, and where it is optional too.\<close>

definition or_s :: "string option \<Rightarrow> string \<Rightarrow> string" where
  "or_s a b = (if truthy_s a then the a else b)"

definition or_so :: "string option \<Rightarrow> string option \<Rightarrow> string option" where
  "or_so a b = (if truthy_s a then a else b)"

definition or_n :: "int option \<Rightarrow> int \<Rightarrow> int" where
  "or_n a b = (if truthy_n a then the a else b)"

text \<open>\<open>a ?? b\<close>.\<close>

definition nullish :: "'a option \<Rightarrow> 'a \<Rightarrow> 'a" where
  "nullish a b = (case a of None \<Rightarrow> b | Some x \<Rightarrow> x)"

lemma or_s_simps [simp]:
  "or_s None b = b" "or_s (Some s) b = (if s = '''' then b else s)"
  by (simp_all add: or_s_def)

lemma or_so_simps [simp]:
  "or_so None b = b" "or_so (Some s) b = (if s = '''' then b else Some s)"
  by (simp_all add: or_so_def)

lemma or_n_simps [simp]:
  "or_n None b = b" "or_n (Some n) b = (if n = 0 then b else n)"
  by (simp_all add: or_n_def)

lemma nullish_simps [simp]:
  "nullish None b = b" "nullish (Some x) b = x"
  by (simp_all add: nullish_def)

lemma truthy_s_iff: "truthy_s a \<longleftrightarrow> (\<exists>s. a = Some s \<and> s \<noteq> '''')"
  by (cases a) auto

text \<open>Decimal rendering, as in \<open>${n}\<close>.\<close>

function str_digits :: "int \<Rightarrow> string" where
  "str_digits n = (if n < 10 then [char_of (48 + n)] else str_digits (n div 10) @ [char_of (48 + n mod 10)])"
  by pat_completeness auto
termination
  by (relation "measure nat") auto

declare str_digits.simps [simp del]

definition str_int :: "int \<Rightarrow> string" where
  "str_int i = (if i < 0 then ''-'' @ str_digits (- i) else str_digits i)"

definition str_nat :: "nat \<Rightarrow> string" where
  "str_nat n = str_digits (int n)"

text \<open>\<open>s.includes(t)\<close> and \<open>xs.join(sep)\<close>.\<close>

definition str_includes :: "string \<Rightarrow> string \<Rightarrow> bool" where
  "str_includes s t = sublist t s"

fun join_with :: "string \<Rightarrow> string list \<Rightarrow> string" where
  "join_with sep [] = ''''"
| "join_with sep [x] = x"
| "join_with sep (x # y # xs) = x @ sep @ join_with sep (y # xs)"

lemma str_includes_refl [simp]: "str_includes s s"
  by (simp add: str_includes_def)

section \<open>Programs with errors and state\<close>

type_synonym ('s, 'a) prog = "'s \<Rightarrow> (js_error + 'a) \<times> 's"

definition ret :: "'a \<Rightarrow> ('s, 'a) prog" where
  "ret x = (\<lambda>s. (Inr x, s))"

definition throw :: "js_error \<Rightarrow> ('s, 'a) prog" where
  "throw e = (\<lambda>s. (Inl e, s))"

definition bnd :: "('s, 'a) prog \<Rightarrow> ('a \<Rightarrow> ('s, 'b) prog) \<Rightarrow> ('s, 'b) prog" where
  "bnd m k = (\<lambda>s. case m s of (r, s') \<Rightarrow> (case r of Inl e \<Rightarrow> (Inl e, s') | Inr x \<Rightarrow> k x s'))"

abbreviation seqp :: "('s, 'a) prog \<Rightarrow> ('s, 'b) prog \<Rightarrow> ('s, 'b) prog" where
  "seqp m k \<equiv> bnd m (\<lambda>_. k)"

text \<open>\<open>try { m } catch (e) { h e }\<close>\<close>

definition try_catch :: "('s, 'a) prog \<Rightarrow> (js_error \<Rightarrow> ('s, 'a) prog) \<Rightarrow> ('s, 'a) prog" where
  "try_catch m h = (\<lambda>s. case m s of (r, s') \<Rightarrow> (case r of Inl e \<Rightarrow> h e s' | Inr x \<Rightarrow> (Inr x, s')))"

text \<open>\<open>try { m } finally { f }\<close>: an error of \<open>f\<close> replaces the outcome of \<open>m\<close>.\<close>

definition try_finally :: "('s, 'a) prog \<Rightarrow> ('s, unit) prog \<Rightarrow> ('s, 'a) prog" where
  "try_finally m f = (\<lambda>s. case m s of (r, s') \<Rightarrow>
     (case f s' of (r', s'') \<Rightarrow> (case r' of Inl e \<Rightarrow> (Inl e, s'') | Inr _ \<Rightarrow> (r, s''))))"

definition get_st :: "('s, 's) prog" where
  "get_st = (\<lambda>s. (Inr s, s))"

definition gets :: "('s \<Rightarrow> 'a) \<Rightarrow> ('s, 'a) prog" where
  "gets f = (\<lambda>s. (Inr (f s), s))"

definition modify_st :: "('s \<Rightarrow> 's) \<Rightarrow> ('s, unit) prog" where
  "modify_st f = (\<lambda>s. (Inr (), f s))"

text \<open>A pure computation that may throw.\<close>

definition lift_res :: "js_error + 'a \<Rightarrow> ('s, 'a) prog" where
  "lift_res r = (\<lambda>s. (r, s))"

text \<open>A program on one component of a pair of states.\<close>

definition on_fst :: "('l, 'a) prog \<Rightarrow> ('l \<times> 't, 'a) prog" where
  "on_fst m = (\<lambda>(l, t). case m l of (r, l') \<Rightarrow> (r, (l', t)))"

definition on_snd :: "('t, 'a) prog \<Rightarrow> ('l \<times> 't, 'a) prog" where
  "on_snd m = (\<lambda>(l, t). case m t of (r, t') \<Rightarrow> (r, (l, t')))"

fun for_each :: "'x list \<Rightarrow> ('x \<Rightarrow> ('s, unit) prog) \<Rightarrow> ('s, unit) prog" where
  "for_each [] f = ret ()"
| "for_each (x # xs) f = seqp (f x) (for_each xs f)"

definition when_p :: "bool \<Rightarrow> ('s, unit) prog \<Rightarrow> ('s, unit) prog" where
  "when_p b m = (if b then m else ret ())"

lemmas prog_defs = ret_def throw_def bnd_def try_catch_def try_finally_def get_st_def gets_def
  modify_st_def lift_res_def when_p_def

lemma bnd_ret [simp]: "bnd (ret x) k = k x"
  by (simp add: prog_defs)

lemma bnd_throw [simp]: "bnd (throw e) k = throw e"
  by (simp add: prog_defs)

lemma bnd_assoc: "bnd (bnd m k) l = bnd m (\<lambda>x. bnd (k x) l)"
  by (rule ext) (simp add: prog_defs split: prod.splits sum.splits)

lemma ret_app: "ret x s = (Inr x, s)"
  by (simp add: ret_def)

lemma throw_app: "throw e s = (Inl e, s)"
  by (simp add: throw_def)

lemma fst_throw_ne [simp]: "throw e s \<noteq> (Inr x, t)" "ret y s \<noteq> (Inl e, t)"
  by (simp_all add: prog_defs)

lemma bnd_Inr_iff:
  "bnd m k s = (Inr y, s'') \<longleftrightarrow> (\<exists>x s'. m s = (Inr x, s') \<and> k x s' = (Inr y, s''))"
  by (auto simp: bnd_def split: prod.splits sum.splits)

lemma bnd_Inl_iff:
  "bnd m k s = (Inl e, s'') \<longleftrightarrow>
     m s = (Inl e, s'') \<or> (\<exists>x s'. m s = (Inr x, s') \<and> k x s' = (Inl e, s''))"
  by (auto simp: bnd_def split: prod.splits sum.splits)

lemma bnd_InrE:
  assumes "bnd m k s = (Inr y, s'')"
  obtains x s' where "m s = (Inr x, s')" and "k x s' = (Inr y, s'')"
  using assms unfolding bnd_Inr_iff by blast

text \<open>For runs on concrete states, step by step.\<close>

lemma run_obtain:
  assumes "fst x = Inr a"
  obtains s' where "x = (Inr a, s')" and "s' = snd x"
  using assms by (metis prod.collapse)

section \<open>Weakest preconditions\<close>

text \<open>
  \<open>wp m Q E s\<close>: run from \<open>s\<close>, the program either returns a value and a state in \<open>Q\<close> or
  throws an error in a state in \<open>E\<close>. Programs are total functions, so this is total
  correctness.
\<close>

definition wp :: "('s, 'a) prog \<Rightarrow> ('a \<Rightarrow> 's \<Rightarrow> bool) \<Rightarrow> (js_error \<Rightarrow> 's \<Rightarrow> bool) \<Rightarrow> 's \<Rightarrow> bool" where
  "wp m Q E s = (case m s of (r, s') \<Rightarrow> (case r of Inr x \<Rightarrow> Q x s' | Inl e \<Rightarrow> E e s'))"

named_theorems wp

lemma wp_ret [wp]: "wp (ret x) Q E s = Q x s"
  by (simp add: wp_def prog_defs)

lemma wp_ret_fun: "wp (ret x) Q E = Q x"
  by (rule ext) (simp add: wp_ret)

lemma wp_throw [wp]: "wp (throw e) Q E s = E e s"
  by (simp add: wp_def prog_defs)

lemma wp_bnd [wp]: "wp (bnd m k) Q E s = wp m (\<lambda>x. wp (k x) Q E) E s"
  by (simp add: wp_def prog_defs split: prod.splits sum.splits)

lemma wp_try_catch [wp]: "wp (try_catch m h) Q E s = wp m Q (\<lambda>e. wp (h e) Q E) s"
  by (simp add: wp_def prog_defs split: prod.splits sum.splits)

lemma wp_try_finally [wp]:
  "wp (try_finally m f) Q E s =
     wp m (\<lambda>x. wp f (\<lambda>_. Q x) E) (\<lambda>e. wp f (\<lambda>_. E e) E) s"
  by (simp add: wp_def prog_defs split: prod.splits sum.splits)

lemma wp_get_st [wp]: "wp get_st Q E s = Q s s"
  by (simp add: wp_def prog_defs)

lemma wp_gets [wp]: "wp (gets f) Q E s = Q (f s) s"
  by (simp add: wp_def prog_defs)

lemma wp_modify_st [wp]: "wp (modify_st f) Q E s = Q () (f s)"
  by (simp add: wp_def prog_defs)

lemma wp_lift_res [wp]: "wp (lift_res r) Q E s = (case r of Inr x \<Rightarrow> Q x s | Inl e \<Rightarrow> E e s)"
  by (simp add: wp_def prog_defs split: sum.splits)

lemma wp_when_p [wp]: "wp (when_p b m) Q E s = (if b then wp m Q E s else Q () s)"
  by (simp add: wp_def prog_defs)

lemma wp_if [wp]: "wp (if b then m else n) Q E s = (if b then wp m Q E s else wp n Q E s)"
  by simp

lemma wp_mono:
  assumes "wp m Q E s"
    and "\<And>x s. Q x s \<Longrightarrow> Q' x s" and "\<And>e s. E e s \<Longrightarrow> E' e s"
  shows "wp m Q' E' s"
  using assms by (simp add: wp_def split: prod.splits sum.splits)

lemma wp_conj:
  "wp m (\<lambda>x s. Q x s \<and> Q' x s) (\<lambda>e s. E e s \<and> E' e s) s \<longleftrightarrow> wp m Q E s \<and> wp m Q' E' s"
  by (simp add: wp_def split: prod.splits sum.splits)

lemma wp_True [simp]: "wp m (\<lambda>_ _. True) (\<lambda>_ _. True) s"
  by (simp add: wp_def split: prod.splits sum.splits)

lemma wp_Inr: "wp m Q E s \<Longrightarrow> m s = (Inr x, s') \<Longrightarrow> Q x s'"
  by (simp add: wp_def)

lemma wp_Inl: "wp m Q E s \<Longrightarrow> m s = (Inl e, s') \<Longrightarrow> E e s'"
  by (simp add: wp_def)

lemma wp_snd: "wp m (\<lambda>_. I) (\<lambda>_. I) s \<longleftrightarrow> I (snd (m s))"
  by (simp add: wp_def split: prod.splits sum.splits)

lemma wp_for_each:
  assumes "\<And>x s. x \<in> set xs \<Longrightarrow> I s \<Longrightarrow> wp (f x) (\<lambda>_. I) E s" and "I s"
  shows "wp (for_each xs f) (\<lambda>_. I) E s"
  using assms
proof (induction xs arbitrary: s)
  case Nil
  then show ?case by (simp add: wp)
next
  case (Cons x xs)
  have rest: "wp (for_each xs f) (\<lambda>_. I) E t" if "I t" for t
    by (rule Cons.IH [OF _ that]) (simp add: Cons.prems)
  have "wp (f x) (\<lambda>_. I) E s" using Cons.prems by simp
  then show ?case unfolding for_each.simps wp_bnd
    by (rule wp_mono) (simp_all add: rest)
qed

section \<open>Predicates a program keeps\<close>

text \<open>\<open>stable P m\<close>: whatever the outcome, \<open>m\<close> keeps \<open>P\<close>. With \<open>P s = (view s = v)\<close> it says
  that \<open>m\<close> leaves a part of the state alone.\<close>

definition stable :: "('s \<Rightarrow> bool) \<Rightarrow> ('s, 'a) prog \<Rightarrow> bool" where
  "stable P m \<longleftrightarrow> (\<forall>s. P s \<longrightarrow> P (snd (m s)))"

named_theorems stable

lemma stableD: "stable P m \<Longrightarrow> m s = (r, s') \<Longrightarrow> P s \<Longrightarrow> P s'"
  by (force simp: stable_def)

lemma stable_ret [stable]: "stable P (ret x)"
  by (simp add: stable_def prog_defs)

lemma stable_throw [stable]: "stable P (throw e)"
  by (simp add: stable_def prog_defs)

lemma stable_gets [stable]: "stable P (gets f)"
  by (simp add: stable_def prog_defs)

lemma stable_lift_res [stable]: "stable P (lift_res r)"
  by (simp add: stable_def prog_defs)

lemma stable_modify: "(\<And>s. P s \<Longrightarrow> P (f s)) \<Longrightarrow> stable P (modify_st f)"
  by (simp add: stable_def prog_defs)

lemma stable_bnd [stable]: "stable P m \<Longrightarrow> (\<And>x. stable P (k x)) \<Longrightarrow> stable P (bnd m k)"
  by (auto simp: stable_def bnd_def split: prod.split sum.split)

lemma stable_try_catch [stable]: "stable P m \<Longrightarrow> (\<And>e. stable P (h e)) \<Longrightarrow> stable P (try_catch m h)"
  by (auto simp: stable_def try_catch_def split: prod.split sum.split)

lemma stable_try_finally [stable]: "stable P m \<Longrightarrow> stable P f \<Longrightarrow> stable P (try_finally m f)"
  by (auto simp: stable_def try_finally_def split: prod.split sum.split)

lemma stable_when [stable]: "stable P m \<Longrightarrow> stable P (when_p b m)"
  by (simp add: when_p_def stable_ret)

lemma stable_if [stable]: "stable P m \<Longrightarrow> stable P n \<Longrightarrow> stable P (if b then m else n)"
  by simp

lemma stable_for_each [stable]: "(\<And>x. stable P (f x)) \<Longrightarrow> stable P (for_each xs f)"
  by (induction xs) (auto intro: stable)

section \<open>Calls to the outside\<close>

text \<open>
  The outcome of a call is an argument of the model: any function of the calls made before
  it. Nothing is assumed about the callee, so a theorem that quantifies over these
  functions covers every pattern of failures and replies.
\<close>

type_synonym ('c, 'a) reply = "'c list \<Rightarrow> js_error + 'a"

definition perform :: "'c \<Rightarrow> ('c, 'a) reply \<Rightarrow> ('c list, 'a) prog" where
  "perform c f = (\<lambda>tr. (f tr, tr @ [c]))"

lemma wp_perform [wp]:
  "wp (perform c f) Q E tr = (case f tr of Inr x \<Rightarrow> Q x (tr @ [c]) | Inl e \<Rightarrow> E e (tr @ [c]))"
  by (simp add: wp_def perform_def)

text \<open>A call whose failure is logged and swallowed.\<close>

definition perform_quiet :: "'c \<Rightarrow> ('c, 'a) reply \<Rightarrow> ('c list, unit) prog" where
  "perform_quiet c f = try_catch (seqp (perform c f) (ret ())) (\<lambda>_. ret ())"

lemma perform_quiet_app [simp]: "perform_quiet c f tr = (Inr (), tr @ [c])"
  by (simp add: perform_quiet_def perform_def prog_defs split: sum.splits)

lemma wp_perform_quiet [wp]: "wp (perform_quiet c f) Q E tr = Q () (tr @ [c])"
  by (simp add: wp_def)

section \<open>Lists of records kept by key\<close>

text \<open>
  The code keeps several stores as arrays searched by an identifier: \<open>find\<close>, \<open>filter\<close> and
  \<open>push\<close>. These lemmas are shared by all of them.
\<close>

named_theorems keyed

lemma find_filter_ne [keyed]:
  "List.find (\<lambda>x. f x = k) (filter (\<lambda>x. f x \<noteq> k) xs) = None"
  by (induction xs) auto

lemma find_filter_other [keyed]:
  "k \<noteq> j \<Longrightarrow> List.find (\<lambda>x. f x = k) (filter (\<lambda>x. f x \<noteq> j) xs) = List.find (\<lambda>x. f x = k) xs"
  by (induction xs) auto

lemma find_append [keyed]:
  "List.find P (xs @ ys) = (case List.find P xs of None \<Rightarrow> List.find P ys | Some x \<Rightarrow> Some x)"
  by (induction xs) auto

lemma find_SomeD: "List.find P xs = Some x \<Longrightarrow> P x \<and> x \<in> set xs"
  by (induction xs) (auto split: if_splits)

lemma find_NoneD: "List.find P xs = None \<Longrightarrow> x \<in> set xs \<Longrightarrow> \<not> P x"
  by (induction xs) (auto split: if_splits)

lemma find_distinct:
  assumes "distinct (map f xs)" and "x \<in> set xs"
  shows "List.find (\<lambda>y. f y = f x) xs = Some x"
  using assms by (induction xs) (auto simp: image_iff)

lemma distinct_map_filter_keyed: "distinct (map f xs) \<Longrightarrow> distinct (map f (filter P xs))"
  by (induction xs) auto

end
