(* ===== verification/FileLock.thy ===== *)
theory FileLock
  imports Prelude
begin

text \<open>
  The reentrant lock file of \<open>microservices/database-services/mysql/locks/reentrant-file-lock.ts\<close>.

  One instance is the record \<open>flock\<close>; \<open>flock_acquire\<close> is the retry loop, with the results of
  \<open>openSync(lockFile, 'wx')\<close> at each attempt as an argument and the delays it slept as an
  output; \<open>flock_release\<close> drops one reference. A system of processes that share the lock file
  is the step relation \<open>lock_step\<close>; mutual exclusion is an invariant of its reachable states.
  The locale \<open>reentrant_lock\<close> is the contract the backup manager relies on.
\<close>

section \<open>One instance\<close>

record flock =
  lock_fd :: "nat option"
  ref_count :: int

definition new_flock :: flock where
  "new_flock = \<lparr>lock_fd = None, ref_count = 0\<rparr>"

definition maxRetries :: nat where "maxRetries = 5"
definition retryDelay :: nat where "retryDelay = 100"

datatype open_result = Opened nat | OpenFailed js_error

definition lock_exhausted :: js_error where
  "lock_exhausted = new_Error (''Failed to acquire lock after '' @ str_nat maxRetries @ '' attempts'')"

function acquire_loop :: "(nat \<Rightarrow> open_result) \<Rightarrow> nat \<Rightarrow> flock \<Rightarrow> nat list \<Rightarrow>
    (js_error + unit) \<times> flock \<times> nat list" where
  "acquire_loop opn attempts l slept =
    (if attempts < maxRetries then
       (case opn attempts of
          Opened fd \<Rightarrow> (Inr (), l\<lparr>lock_fd := Some fd, ref_count := 1\<rparr>, slept)
        | OpenFailed e \<Rightarrow>
            if err_code e = ''EEXIST'' then
              (if attempts + 1 < maxRetries
               then acquire_loop opn (attempts + 1) l (slept @ [retryDelay * (attempts + 1)])
               else (Inl lock_exhausted, l, slept))
            else (Inl e, l, slept))
     else (Inr (), l, slept))"
  by pat_completeness auto
termination
  by (relation "measure (\<lambda>(opn, attempts, l, slept). maxRetries - attempts)") auto

declare acquire_loop.simps [simp del]

definition flock_acquire :: "(nat \<Rightarrow> open_result) \<Rightarrow> flock \<Rightarrow> (js_error + unit) \<times> flock \<times> nat list" where
  "flock_acquire opn l =
    (if lock_fd l \<noteq> None then (Inr (), l\<lparr>ref_count := ref_count l + 1\<rparr>, [])
     else acquire_loop opn 0 l [])"

text \<open>
  \<open>closeSync\<close> and \<open>unlinkSync\<close> may throw; the error is logged and the fields are reset all the
  same. The result says whether the lock file is still on disk.
\<close>

definition flock_release :: "bool \<Rightarrow> bool \<Rightarrow> flock \<Rightarrow> bool \<Rightarrow> flock \<times> bool" where
  "flock_release close_ok unlink_ok l present =
    (if lock_fd l = None then (l, present)
     else let n = ref_count l - 1 in
       if n > 0 then (l\<lparr>ref_count := n\<rparr>, present)
       else (l\<lparr>lock_fd := None, ref_count := 0\<rparr>,
             if close_ok \<and> present \<and> unlink_ok then False else present))"

definition flock_isHeld :: "flock \<Rightarrow> bool" where
  "flock_isHeld l \<longleftrightarrow> lock_fd l \<noteq> None"

text \<open>Well-formed instances: a reference count of at least one exactly while held.\<close>

definition flock_ok :: "flock \<Rightarrow> bool" where
  "flock_ok l \<longleftrightarrow> (if lock_fd l = None then ref_count l = 0 else ref_count l \<ge> 1)"

definition flock_depth :: "flock \<Rightarrow> nat" where
  "flock_depth l = (if lock_fd l = None then 0 else nat (ref_count l))"

subsection \<open>The retry loop\<close>

lemma acquire_loop_opened [simp]:
  "n < maxRetries \<Longrightarrow> opn n = Opened fd \<Longrightarrow>
     acquire_loop opn n l sl = (Inr (), l\<lparr>lock_fd := Some fd, ref_count := 1\<rparr>, sl)"
  by (subst acquire_loop.simps) simp

lemma acquire_loop_again [simp]:
  "n + 1 < maxRetries \<Longrightarrow> opn n = OpenFailed e \<Longrightarrow> err_code e = ''EEXIST'' \<Longrightarrow>
     acquire_loop opn n l sl = acquire_loop opn (Suc n) l (sl @ [retryDelay * Suc n])"
  by (subst acquire_loop.simps) simp

lemma acquire_loop_last [simp]:
  "n < maxRetries \<Longrightarrow> \<not> Suc n < maxRetries \<Longrightarrow> opn n = OpenFailed e \<Longrightarrow> err_code e = ''EEXIST'' \<Longrightarrow>
     acquire_loop opn n l sl = (Inl lock_exhausted, l, sl)"
  by (subst acquire_loop.simps) simp

lemma acquire_loop_error [simp]:
  "n < maxRetries \<Longrightarrow> opn n = OpenFailed e \<Longrightarrow> err_code e \<noteq> ''EEXIST'' \<Longrightarrow>
     acquire_loop opn n l sl = (Inl e, l, sl)"
  by (subst acquire_loop.simps) simp

lemma acquire_loop_done [simp]: "\<not> n < maxRetries \<Longrightarrow> acquire_loop opn n l sl = (Inr (), l, sl)"
  by (subst acquire_loop.simps) simp

lemma acquire_loop_spec:
  "n < maxRetries \<Longrightarrow> acquire_loop opn n l sl = (r, l', sl') \<Longrightarrow>
     (case r of
        Inl e \<Rightarrow> l' = l
      | Inr _ \<Rightarrow> \<exists>k fd. n \<le> k \<and> k < maxRetries \<and> opn k = Opened fd \<and>
          l' = l\<lparr>lock_fd := Some fd, ref_count := 1\<rparr>)"
proof (induction "maxRetries - n" arbitrary: n sl)
  case 0
  then show ?case by simp
next
  case (Suc d)
  show ?case
  proof (cases "opn n")
    case (Opened fd)
    with Suc.prems have "r = Inr ()" "l' = l\<lparr>lock_fd := Some fd, ref_count := 1\<rparr>" by auto
    with Suc.prems(1) Opened show ?thesis by (simp, intro exI [of _ n]) simp
  next
    case (OpenFailed e)
    show ?thesis
    proof (cases "err_code e = ''EEXIST'' \<and> Suc n < maxRetries")
      case True
      with Suc.prems OpenFailed have "acquire_loop opn (Suc n) l (sl @ [retryDelay * Suc n]) = (r, l', sl')"
        by simp
      with Suc.hyps True show ?thesis by (fastforce split: sum.splits dest: Suc_leD)
    next
      case False
      with Suc.prems OpenFailed show ?thesis by (cases "err_code e = ''EEXIST''") auto
    qed
  qed
qed

lemma acquire_loop_held:
  "n < maxRetries \<Longrightarrow> acquire_loop opn n l sl = (Inr (), l', sl') \<Longrightarrow>
     \<exists>k fd. n \<le> k \<and> k < maxRetries \<and> opn k = Opened fd \<and>
       l' = l\<lparr>lock_fd := Some fd, ref_count := 1\<rparr>"
  by (drule (1) acquire_loop_spec) simp

lemma acquire_loop_Inl: "n < maxRetries \<Longrightarrow> acquire_loop opn n l sl = (Inl e, l', sl') \<Longrightarrow> l' = l"
  by (drule (1) acquire_loop_spec) simp

lemma maxRetries_pos [simp]: "0 < maxRetries"
  by (simp add: maxRetries_def)

lemma flock_acquire_Inr:
  assumes "flock_acquire opn l = (Inr (), l', sl)" and "flock_ok l"
  shows "flock_ok l' \<and> lock_fd l' \<noteq> None \<and> flock_depth l' = Suc (flock_depth l)"
proof (cases "lock_fd l")
  case None
  with assms(1) have "acquire_loop opn 0 l [] = (Inr (), l', sl)" by (simp add: flock_acquire_def)
  from acquire_loop_held [OF _ this] obtain fd where "l' = l\<lparr>lock_fd := Some fd, ref_count := 1\<rparr>"
    by auto
  with None show ?thesis by (simp add: flock_ok_def flock_depth_def)
next
  case (Some fd)
  with assms have "l' = l\<lparr>ref_count := ref_count l + 1\<rparr>" and "ref_count l \<ge> 1"
    by (auto simp: flock_acquire_def flock_ok_def)
  with Some show ?thesis by (simp add: flock_ok_def flock_depth_def nat_add_distrib)
qed

lemma flock_acquire_Inl: "flock_acquire opn l = (Inl e, l', sl) \<Longrightarrow> l' = l \<and> lock_fd l = None"
  by (auto simp: flock_acquire_def split: if_splits dest: acquire_loop_Inl [rotated])

lemma flock_release_ok:
  assumes "flock_release c u l p = (l', p')" and "flock_ok l"
  shows "flock_ok l' \<and> flock_depth l' = flock_depth l - 1"
  using assms by (auto simp: flock_release_def flock_ok_def flock_depth_def Let_def split: if_splits)

lemma flock_release_file:
  assumes "flock_release c u l p = (l', p')"
  shows "lock_fd l' \<noteq> None \<Longrightarrow> l' = l\<lparr>ref_count := ref_count l'\<rparr> \<and> p' = p"
    and "lock_fd l = None \<Longrightarrow> p' = p \<and> l' = l" and "p' \<Longrightarrow> p"
  using assms by (auto simp: flock_release_def Let_def split: if_splits)

section \<open>Several processes and one lock file\<close>

text \<open>\<open>fs.openSync(path, 'wx')\<close>: creates the file, or fails with \<open>EEXIST\<close> when it is there.\<close>

definition eexist :: js_error where
  "eexist = JsError ''EEXIST'' ''EEXIST: file already exists''"

definition open_wx :: "bool \<Rightarrow> nat \<Rightarrow> open_result \<times> bool" where
  "open_wx present fd = (if present then (OpenFailed eexist, present) else (Opened fd, True))"

record lock_system =
  lock_file :: bool
  procs :: "nat \<Rightarrow> flock"

definition init_lock_system :: lock_system where
  "init_lock_system = \<lparr>lock_file = False, procs = (\<lambda>_. new_flock)\<rparr>"

text \<open>
  \<open>acquire\<close>: a call whose first \<open>k\<close> attempts failed earlier (other processes moved in
  between) and whose later attempts see the present file. \<open>crash\<close>: the process dies and a
  new one takes its place; the lock file stays.
\<close>

inductive lock_step :: "lock_system \<Rightarrow> lock_system \<Rightarrow> bool" where
  acquire: "k < maxRetries \<Longrightarrow>
     flock_acquire (\<lambda>i. if i < k then OpenFailed eexist else fst (open_wx (lock_file s) fd)) (procs s p)
       = (r, l', slept) \<Longrightarrow>
     lock_step s (s\<lparr>procs := (procs s)(p := l'),
       lock_file := (if lock_fd (procs s p) = None then snd (open_wx (lock_file s) fd) else lock_file s)\<rparr>)"
| release: "flock_release close_ok unlink_ok (procs s p) (lock_file s) = (l', f') \<Longrightarrow>
     lock_step s (s\<lparr>procs := (procs s)(p := l'), lock_file := f'\<rparr>)"
| crash: "lock_step s (s\<lparr>procs := (procs s)(p := new_flock)\<rparr>)"

inductive lock_reachable :: "lock_system \<Rightarrow> bool" where
  start: "lock_reachable init_lock_system"
| step: "lock_reachable s \<Longrightarrow> lock_step s t \<Longrightarrow> lock_reachable t"

definition lock_inv :: "lock_system \<Rightarrow> bool" where
  "lock_inv s \<longleftrightarrow> (\<forall>p. flock_ok (procs s p)) \<and>
     (\<forall>p. lock_fd (procs s p) \<noteq> None \<longrightarrow> lock_file s) \<and>
     (\<forall>p q. lock_fd (procs s p) \<noteq> None \<longrightarrow> lock_fd (procs s q) \<noteq> None \<longrightarrow> p = q)"

lemma acquire_step_fd:
  assumes "flock_acquire (\<lambda>i. if i < k then OpenFailed eexist else fst (open_wx pr fd)) l = (r, l', sl)"
    and "lock_fd l = None" and "lock_fd l' \<noteq> None"
  shows "\<not> pr"
proof -
  from assms have loop: "acquire_loop (\<lambda>i. if i < k then OpenFailed eexist else fst (open_wx pr fd)) 0 l []
      = (r, l', sl)" by (simp add: flock_acquire_def)
  with assms(2,3) have "r = Inr ()" by (cases r) (auto dest: acquire_loop_Inl [rotated])
  with loop acquire_loop_held [of 0 _ l "[]" l' sl] show ?thesis
    by (fastforce simp: open_wx_def split: if_splits)
qed

lemma acquire_ok: "flock_acquire opn l = (r, l', sl) \<Longrightarrow> flock_ok l \<Longrightarrow> flock_ok l'"
  by (cases r) (auto dest: flock_acquire_Inr flock_acquire_Inl)

lemma lock_step_inv: "lock_step s t \<Longrightarrow> lock_inv s \<Longrightarrow> lock_inv t"
proof (induction rule: lock_step.induct)
  case (acquire k s fd p r l' slept)
  have ok: "flock_ok l'" using acquire by (auto simp: lock_inv_def intro: acquire_ok)
  show ?case
  proof (cases "lock_fd (procs s p)")
    case None
    have new: "\<not> lock_file s" if "lock_fd l' \<noteq> None"
      by (rule acquire_step_fd [OF acquire.hyps(2) None that])
    have "lock_fd (procs s q) = None" if "\<not> lock_file s" for q
      using acquire.prems that by (auto simp: lock_inv_def)
    with new have "lock_fd (procs s q) = None" if "lock_fd l' \<noteq> None" for q
      using that by blast
    with acquire.prems ok None show ?thesis
      by (simp add: lock_inv_def open_wx_def) (metis option.exhaust option.discI)
  next
    case (Some fd')
    with acquire.prems ok show ?thesis by (auto simp: lock_inv_def)
  qed
next
  case (release close_ok unlink_ok s p l' f')
  note file_facts = flock_release_file [OF release.hyps]
  have ok: "flock_ok l'" using release by (auto simp: lock_inv_def dest: flock_release_ok)
  show ?case
  proof (cases "lock_fd (procs s p)")
    case None
    with file_facts release.prems show ?thesis by (simp add: fun_upd_idem)
  next
    case (Some fd)
    then have others: "lock_fd (procs s q) = None" if "q \<noteq> p" for q
      using that release.prems by (auto simp: lock_inv_def)
    with Some ok file_facts(1) release.prems show ?thesis
      by (auto simp: lock_inv_def)
  qed
next
  case (crash s p)
  then show ?case by (auto simp: lock_inv_def new_flock_def flock_ok_def)
qed

lemma lock_reachable_inv: "lock_reachable s \<Longrightarrow> lock_inv s"
proof (induction rule: lock_reachable.induct)
  case start
  show ?case by (simp add: lock_inv_def init_lock_system_def new_flock_def flock_ok_def)
next
  case (step s t)
  then show ?case by (blast intro: lock_step_inv)
qed

section \<open>The contract its client relies on\<close>

text \<open>
  \<open>acq\<close> either raises the depth by one or fails and changes nothing; \<open>rel\<close> never throws and
  undoes one \<open>acq\<close>. The client lemma: a section bracketed by \<open>acq\<close> and \<open>rel\<close>, as in
  \<open>await acquire(); try { ... } finally { release(); }\<close>, keeps the depth whatever its body
  does, as long as the body itself is balanced.
\<close>

locale reentrant_lock =
  fixes acq :: "('s, unit) prog"
    and rel :: "('s, unit) prog"
    and depth :: "'s \<Rightarrow> nat"
    and inv :: "'s \<Rightarrow> bool"
  assumes acq_ok: "inv s \<Longrightarrow> acq s = (Inr u, s') \<Longrightarrow> inv s' \<and> depth s' = Suc (depth s)"
    and acq_fails: "inv s \<Longrightarrow> acq s = (Inl e, s') \<Longrightarrow> inv s' \<and> depth s' = depth s"
    and rel_ok: "inv s \<Longrightarrow> \<exists>s'. rel s = (Inr (), s') \<and> inv s' \<and> depth s' = depth s - 1"
begin

definition balanced :: "('s, 'a) prog \<Rightarrow> bool" where
  "balanced m \<longleftrightarrow> (\<forall>s. inv s \<longrightarrow> inv (snd (m s)) \<and> depth (snd (m s)) = depth s)"

lemma balancedD: "balanced m \<Longrightarrow> inv s \<Longrightarrow> m s = (r, s') \<Longrightarrow> inv s' \<and> depth s' = depth s"
  by (force simp: balanced_def)

lemma balanced_locked: "balanced m \<Longrightarrow> balanced (seqp acq (try_finally m rel))"
  unfolding balanced_def
proof (intro allI impI)
  fix s
  assume m: "\<forall>s. inv s \<longrightarrow> inv (snd (m s)) \<and> depth (snd (m s)) = depth s" and s: "inv s"
  obtain r s1 where a: "acq s = (r, s1)" by (cases "acq s")
  obtain r2 s2 where b: "m s1 = (r2, s2)" by (cases "m s1")
  show "inv (snd (seqp acq (try_finally m rel) s)) \<and> depth (snd (seqp acq (try_finally m rel) s)) = depth s"
  proof (cases r)
    case (Inl e)
    with a s show ?thesis by (auto simp: prog_defs dest: acq_fails)
  next
    case (Inr u)
    with a s have s1: "inv s1" "depth s1 = Suc (depth s)" by (auto dest: acq_ok)
    with m b have s2: "inv s2" "depth s2 = Suc (depth s)" by force+
    then obtain s3 where "rel s2 = (Inr (), s3)" "inv s3" "depth s3 = depth s" using rel_ok by fastforce
    with a b Inr show ?thesis by (simp add: prog_defs)
  qed
qed

lemma balanced_ret: "balanced (ret x)"
  by (simp add: balanced_def prog_defs)

lemma balanced_throw: "balanced (throw e)"
  by (simp add: balanced_def prog_defs)

lemma balanced_lift_res: "balanced (lift_res r)"
  by (simp add: balanced_def prog_defs)

lemma balanced_gets: "balanced (gets f)"
  by (simp add: balanced_def prog_defs)

lemma balanced_modify: "(\<And>s. inv s \<Longrightarrow> inv (f s) \<and> depth (f s) = depth s) \<Longrightarrow> balanced (modify_st f)"
  by (simp add: balanced_def prog_defs)

lemma balancedI: "(\<And>s r s'. inv s \<Longrightarrow> m s = (r, s') \<Longrightarrow> inv s' \<and> depth s' = depth s) \<Longrightarrow> balanced m"
  by (auto simp: balanced_def) (metis prod.collapse)+

lemma balanced_bnd:
  assumes m: "balanced m" and k: "\<And>x. balanced (k x)"
  shows "balanced (bnd m k)"
proof (rule balancedI)
  fix s r s'
  assume s: "inv s" and run: "bnd m k s = (r, s')"
  obtain r1 s1 where 1: "m s = (r1, s1)" by (cases "m s")
  note inv1 = balancedD [OF m s 1]
  show "inv s' \<and> depth s' = depth s"
    using run 1 inv1 balancedD [OF k] by (cases r1) (fastforce simp: bnd_def)+
qed

lemma balanced_try_catch: "balanced m \<Longrightarrow> (\<And>e. balanced (h e)) \<Longrightarrow> balanced (try_catch m h)"
  by (rule balancedI)
     (fastforce simp: try_catch_def split: prod.splits sum.splits dest: balancedD)

lemma balanced_try_finally: "balanced m \<Longrightarrow> balanced f \<Longrightarrow> balanced (try_finally m f)"
  by (rule balancedI)
     (fastforce simp: try_finally_def split: prod.splits sum.splits dest: balancedD)

lemma balanced_when: "balanced m \<Longrightarrow> balanced (when_p b m)"
  by (simp add: when_p_def balanced_ret)

lemma balanced_for_each: "(\<And>x. balanced (f x)) \<Longrightarrow> balanced (for_each xs f)"
  by (induction xs) (auto intro: balanced_ret balanced_bnd)

lemmas balanced_intros = balanced_ret balanced_throw balanced_lift_res balanced_gets balanced_bnd
  balanced_try_catch balanced_try_finally balanced_when balanced_for_each balanced_locked

end

section \<open>Properties\<close>

text \<open>C25: In every state reachable by processes that acquire, release, fail to close or unlink,
  and crash, at most one process holds the lock, and the lock file is on disk while it does.\<close>

theorem lock_mutual_exclusion:
  assumes "lock_reachable s" and "flock_isHeld (procs s p)"
  shows "lock_file s \<and> (\<forall>q. flock_isHeld (procs s q) \<longrightarrow> q = p)"
  using lock_reachable_inv [OF assms(1)] assms(2) unfolding lock_inv_def flock_isHeld_def by blast

text \<open>One process that takes the lock at its first attempt.\<close>

definition one_holder :: lock_system where
  "one_holder = \<lparr>lock_file = True, procs = (\<lambda>_. new_flock)(0 := \<lparr>lock_fd = Some 3, ref_count = 1\<rparr>)\<rparr>"

lemma one_holder_step: "lock_step init_lock_system one_holder"
  using lock_step.acquire [of 0 init_lock_system 3 0 "Inr ()" "\<lparr>lock_fd = Some 3, ref_count = 1\<rparr>" "[]"]
  by (simp add: init_lock_system_def one_holder_def flock_acquire_def new_flock_def open_wx_def)

theorem lock_mutual_exclusion_witness:
  "lock_reachable one_holder \<and> lock_file one_holder \<and> \<not> flock_isHeld (procs one_holder 1)"
proof -
  have r: "lock_reachable one_holder" by (blast intro: lock_reachable.intros one_holder_step)
  have "flock_isHeld (procs one_holder 0)" by (simp add: one_holder_def flock_isHeld_def)
  from lock_mutual_exclusion [OF r this] r show ?thesis by (metis zero_neq_one)
qed

text \<open>A lock file that stays on disk, such as one left by a crashed process, is never taken
  over: a fresh acquire makes five attempts, sleeps 100, 200, 300 and 400 ms between them and
  throws, leaving the instance as it was; a held instance only counts the call.\<close>

lemma acquire_gives_up:
  assumes "\<And>k. k < maxRetries \<Longrightarrow> \<exists>e. opn k = OpenFailed e \<and> err_code e = ''EEXIST''"
  shows "flock_acquire opn l =
    (if flock_isHeld l then (Inr (), l\<lparr>ref_count := ref_count l + 1\<rparr>, [])
     else (Inl lock_exhausted, l, [100, 200, 300, 400]))"
proof -
  let ?two = "Suc (Suc 0)"
  obtain e0 e1 e2 e3 e4 where "opn 0 = OpenFailed e0" "opn (Suc 0) = OpenFailed e1"
    "opn ?two = OpenFailed e2" "opn (Suc ?two) = OpenFailed e3" "opn (Suc (Suc ?two)) = OpenFailed e4"
    and "err_code e0 = ''EEXIST''" "err_code e1 = ''EEXIST''" "err_code e2 = ''EEXIST''"
      "err_code e3 = ''EEXIST''" "err_code e4 = ''EEXIST''"
    using assms [of 0] assms [of "Suc 0"] assms [of ?two] assms [of "Suc ?two"] assms [of "Suc (Suc ?two)"]
    unfolding maxRetries_def by auto
  then show ?thesis
    by (simp add: flock_acquire_def flock_isHeld_def maxRetries_def retryDelay_def)
qed

lemma acquire_gives_up_witness:
  "flock_acquire (\<lambda>_. OpenFailed eexist) new_flock = (Inl lock_exhausted, new_flock, [100, 200, 300, 400])"
  using acquire_gives_up [of "\<lambda>_. OpenFailed eexist" new_flock]
  by (simp add: eexist_def new_flock_def flock_isHeld_def)

end
