(* ===== verification/NodePath.thy ===== *)
theory NodePath
  imports Prelude
begin

text \<open>
  What the code uses of Node's \<open>path\<close> module on POSIX (\<open>normalize\<close>, \<open>join\<close>, \<open>dirname\<close>,
  \<open>basename\<close> with an extension) and of JavaScript's string functions (\<open>startsWith\<close>,
  \<open>endsWith\<close>, \<open>indexOf\<close>, \<open>replace\<close> of the first occurrence, \<open>slice\<close>).
\<close>

section \<open>Strings\<close>

definition starts_with :: "string \<Rightarrow> string \<Rightarrow> bool" where
  "starts_with s p \<longleftrightarrow> take (length p) s = p"

definition ends_with :: "string \<Rightarrow> string \<Rightarrow> bool" where
  "ends_with s p \<longleftrightarrow> length p \<le> length s \<and> drop (length s - length p) s = p"

text \<open>\<open>s.indexOf(p)\<close>, \<open>None\<close> for -1.\<close>

fun index_of :: "string \<Rightarrow> string \<Rightarrow> nat option" where
  "index_of [] p = (if p = [] then Some 0 else None)"
| "index_of (c # s) p = (if starts_with (c # s) p then Some 0 else map_option Suc (index_of s p))"

text \<open>\<open>s.replace(p, q)\<close> with string arguments: the first occurrence only.\<close>

definition replace_first :: "string \<Rightarrow> string \<Rightarrow> string \<Rightarrow> string" where
  "replace_first s p q = (case index_of s p of None \<Rightarrow> s
     | Some i \<Rightarrow> take i s @ q @ drop (i + length p) s)"

fun split_on :: "char \<Rightarrow> string \<Rightarrow> string list" where
  "split_on d [] = [[]]"
| "split_on d (c # cs) = (if c = d then [] # split_on d cs
     else (case split_on d cs of [] \<Rightarrow> [[c]] | w # ws \<Rightarrow> (c # w) # ws))"

lemma split_on_not_Nil [simp]: "split_on d s \<noteq> []"
  by (induction s) (auto split: list.split)

lemma split_on_plain: "d \<notin> set s \<Longrightarrow> split_on d s = [s]"
  by (induction s) auto

lemma split_on_append: "d \<notin> set a \<Longrightarrow> split_on d (a @ d # b) = a # split_on d b"
  by (induction a) auto

section \<open>Paths\<close>

definition slash :: char where "slash = CHR 0x2F"

text \<open>One segment of \<open>normalizeString\<close>; the segments kept so far come in reverse.\<close>

fun norm_seg :: "bool \<Rightarrow> string list \<Rightarrow> string \<Rightarrow> string list" where
  "norm_seg aboveRoot acc s =
     (if s = [] \<or> s = ''.'' then acc
      else if s = ''..'' then
        (case acc of
           [] \<Rightarrow> if aboveRoot then [s] else []
         | t # ts \<Rightarrow> if t = ''..'' then (if aboveRoot then s # acc else acc) else ts)
      else s # acc)"

definition path_segments :: "bool \<Rightarrow> string \<Rightarrow> string list" where
  "path_segments aboveRoot p = rev (foldl (norm_seg aboveRoot) [] (split_on slash p))"

definition is_absolute :: "string \<Rightarrow> bool" where
  "is_absolute p \<longleftrightarrow> (case p of [] \<Rightarrow> False | c # _ \<Rightarrow> c = slash)"

definition path_normalize :: "string \<Rightarrow> string" where
  "path_normalize p =
     (if p = [] then ''.''
      else let body = join_with [slash] (path_segments (\<not> is_absolute p) p); trail = last p = slash in
        if is_absolute p then (if body = [] then [slash] else [slash] @ body @ (if trail then [slash] else []))
        else if body = [] then (if trail then ''.'' @ [slash] else ''.'')
        else body @ (if trail then [slash] else []))"

definition path_join :: "string list \<Rightarrow> string" where
  "path_join ps = (let qs = filter (\<lambda>p. p \<noteq> []) ps in
     if qs = [] then ''.'' else path_normalize (join_with [slash] qs))"

definition strip_slashes :: "string \<Rightarrow> string" where
  "strip_slashes p = rev (dropWhile (\<lambda>c. c = slash) (rev p))"

definition path_dirname :: "string \<Rightarrow> string" where
  "path_dirname p =
     (let q = strip_slashes p;
          d = rev (drop 1 (dropWhile (\<lambda>c. c \<noteq> slash) (rev q))) in
      if p = [] then ''.''
      else if slash \<notin> set q then (if is_absolute p then [slash] else ''.'')
      else if d = [] then [slash] else d)"

definition path_basename :: "string \<Rightarrow> string \<Rightarrow> string" where
  "path_basename p ext =
     (let b = rev (takeWhile (\<lambda>c. c \<noteq> slash) (rev (strip_slashes p))) in
      if ext \<noteq> [] \<and> ends_with b ext \<and> b \<noteq> ext then take (length b - length ext) b else b)"

text \<open>\<open>path.resolve(...ps)\<close> from the absolute working directory.\<close>

definition path_resolve :: "string \<Rightarrow> string list \<Rightarrow> string" where
  "path_resolve cwd ps = [slash] @ join_with [slash] (path_segments False
     (foldl (\<lambda>a p. if p = [] then a else if is_absolute p then p else a @ [slash] @ p) cwd ps))"

text \<open>A plain file name: one segment that names an entry of the directory.\<close>

definition plain_name :: "string \<Rightarrow> bool" where
  "plain_name f \<longleftrightarrow> f \<noteq> [] \<and> f \<noteq> ''.'' \<and> f \<noteq> ''..'' \<and> slash \<notin> set f"

lemma norm_seg_plain: "plain_name f \<Longrightarrow> norm_seg b acc f = f # acc"
  by (simp add: plain_name_def)

lemma norm_segs_plain:
  "\<forall>f\<in>set fs. plain_name f \<Longrightarrow> foldl (norm_seg b) acc fs = rev fs @ acc"
  by (induction fs arbitrary: acc) (simp_all add: norm_seg_plain del: norm_seg.simps)

lemma split_join:
  "\<forall>f\<in>set fs. slash \<notin> set f \<Longrightarrow> fs \<noteq> [] \<Longrightarrow> split_on slash (join_with [slash] fs) = fs"
  by (induction fs rule: induct_list012) (simp_all add: split_on_plain split_on_append)

text \<open>An absolute directory in normal form, as \<open>process.cwd()\<close> returns it.\<close>

definition abs_dir :: "string list \<Rightarrow> string" where
  "abs_dir ds = [slash] @ join_with [slash] ds"

lemma join_with_Nil_iff: "join_with [c] fs = [] \<longleftrightarrow> fs = [] \<or> fs = [[]]"
  by (induction fs rule: induct_list012) auto

lemma last_join_with:
  "fs \<noteq> [] \<Longrightarrow> last fs \<noteq> [] \<Longrightarrow> last (join_with [c] fs) = last (last fs)"
proof (induction fs rule: induct_list012)
  case (3 x y zs)
  then have "join_with [c] (y # zs) \<noteq> []" by (auto simp: join_with_Nil_iff)
  with 3 show ?case by simp
qed simp_all

lemma join_with_snoc: "ds \<noteq> [] \<Longrightarrow> join_with s (ds @ [f]) = join_with s ds @ s @ f"
  by (induction ds rule: induct_list012) simp_all

lemma path_join_plain:
  assumes "\<forall>d\<in>set ds. plain_name d" and "plain_name f" and "ds \<noteq> []"
  shows "path_join [abs_dir ds, f] = abs_dir (ds @ [f])"
proof -
  let ?p = "abs_dir (ds @ [f])"
  have f: "f \<noteq> []" "slash \<notin> set f" using assms(2) by (auto simp: plain_name_def)
  have joined: "join_with [slash] [abs_dir ds, f] = ?p"
    using assms(3) by (simp add: abs_dir_def join_with_snoc)
  have all: "\<forall>d\<in>set (ds @ [f]). slash \<notin> set d" "\<forall>d\<in>set (ds @ [f]). plain_name d"
    using assms by (auto simp: plain_name_def)
  have "split_on slash ?p = [] # (ds @ [f])"
    using split_join [OF all(1)] by (simp add: abs_dir_def)
  then have segs: "path_segments b ?p = ds @ [f]" for b
    using norm_segs_plain [OF all(2), of b "[]"] by (simp add: path_segments_def)
  have "last ?p = last f"
    using last_join_with [of "ds @ [f]" slash] f by (simp add: abs_dir_def join_with_Nil_iff)
  with f have "last ?p \<noteq> slash" by (metis last_in_set)
  with segs f have "path_normalize ?p = ?p"
    by (simp add: path_normalize_def Let_def is_absolute_def join_with_Nil_iff) (simp add: abs_dir_def)
  moreover have "abs_dir ds \<noteq> []" by (simp add: abs_dir_def)
  ultimately show ?thesis using joined f by (simp add: path_join_def Let_def del: join_with.simps)
qed

section \<open>Resolution of a path\<close>

text \<open>The segments of the absolute path a string denotes in the working directory \<open>cwd\<close>.\<close>

definition abs_segs :: "string \<Rightarrow> string \<Rightarrow> string list" where
  "abs_segs cwd p = path_segments False (if is_absolute p then p else cwd @ [slash] @ p)"

text \<open>\<open>path.relative(from, to)\<close>\<close>

definition path_relative :: "string \<Rightarrow> string \<Rightarrow> string \<Rightarrow> string" where
  "path_relative cwd a b = (let f = abs_segs cwd a; t = abs_segs cwd b;
     n = length (takeWhile (\<lambda>(x, y). x = y) (zip f t)) in
     join_with [slash] (replicate (length f - n) ''..'' @ drop n t))"

text \<open>Going down from \<open>acc\<close> along the segments of \<open>p\<close>.\<close>

definition descend :: "string list \<Rightarrow> string \<Rightarrow> string list" where
  "descend acc p = rev (foldl (norm_seg False) (rev acc) (split_on slash p))"

lemma split_on_sep: "split_on d (a @ d # b) = split_on d a @ split_on d b"
  by (induction a) (auto split: list.split)

lemma split_on_no_sep: "w \<in> set (split_on d s) \<Longrightarrow> d \<notin> set w"
  by (induction s arbitrary: w) (auto split: if_splits list.splits)

text \<open>What \<open>norm_seg\<close> has kept: plain names on top of \<open>..\<close>s, and none of these below the root.\<close>

definition kept_segs :: "bool \<Rightarrow> string list \<Rightarrow> bool" where
  "kept_segs A st \<longleftrightarrow> (\<exists>ps n. st = ps @ replicate n ''..'' \<and> (\<forall>p\<in>set ps. plain_name p) \<and> (A \<or> n = 0))"

lemma kept_segs_Nil [simp]: "kept_segs A []"
  by (simp add: kept_segs_def)

lemma kept_segs_ConsE:
  assumes "kept_segs A (t # ts)"
  obtains "plain_name t" and "kept_segs A ts" | n where "A" and "t = ''..''" and "ts = replicate n ''..''"
proof -
  obtain ps n where d: "t # ts = ps @ replicate n ''..''" "\<forall>p\<in>set ps. plain_name p" "A \<or> n = 0"
    using assms by (auto simp: kept_segs_def)
  show ?thesis
  proof (cases ps)
    case Nil
    with d show ?thesis by (cases n) (auto intro: that(2))
  next
    case (Cons p qs)
    with d have "plain_name t" "kept_segs A ts" by (auto simp: kept_segs_def)
    then show ?thesis by (rule that(1))
  qed
qed

lemma kept_segs_step:
  assumes "kept_segs A st" and "slash \<notin> set s"
  shows "kept_segs A (norm_seg A st s)"
proof (cases "s = [] \<or> s = ''.''")
  case False
  show ?thesis
  proof (cases "s = ''..''")
    case up: True
    show ?thesis
    proof (cases st)
      case Nil
      then show ?thesis using up by (auto simp: kept_segs_def intro!: exI [of _ "1 :: nat"])
    next
      case (Cons t ts)
      with assms(1) have "kept_segs A (t # ts)" by simp
      then show ?thesis
      proof (cases rule: kept_segs_ConsE)
        case 1
        then show ?thesis using up Cons by (auto simp: plain_name_def)
      next
        case (2 n)
        then have "norm_seg A st s = replicate (Suc (Suc n)) ''..''" using up Cons by simp
        with 2(1) show ?thesis by (auto simp: kept_segs_def intro!: exI [of _ "[]"] simp del: replicate.simps)
      qed
    qed
  next
    case False
    with \<open>\<not> (s = [] \<or> s = ''.'')\<close> assms(2) have p: "plain_name s" by (simp add: plain_name_def)
    obtain ps n where d: "st = ps @ replicate n ''..''" "\<forall>p\<in>set ps. plain_name p" "A \<or> n = 0"
      using assms(1) by (auto simp: kept_segs_def)
    then have "s # st = (s # ps) @ replicate n ''..''" "\<forall>p\<in>set (s # ps). plain_name p" using p by auto
    with d(3) show ?thesis unfolding norm_seg_plain [OF p] kept_segs_def by blast
  qed
qed (use assms in simp)

lemma kept_segs_fold:
  "kept_segs A st \<Longrightarrow> \<forall>s\<in>set segs. slash \<notin> set s \<Longrightarrow> kept_segs A (foldl (norm_seg A) st segs)"
  by (induction segs arbitrary: st) (auto simp: kept_segs_step simp del: norm_seg.simps)

lemma norm_step_again:
  assumes "kept_segs A st" and "slash \<notin> set s" and "A \<or> acc = []"
  shows "foldl (norm_seg False) acc (rev (norm_seg A st s)) = norm_seg False (foldl (norm_seg False) acc (rev st)) s"
proof (cases "s = ''..''")
  case up: True
  show ?thesis
  proof (cases st)
    case Nil
    with up assms(3) show ?thesis by (cases A) auto
  next
    case (Cons t ts)
    with assms(1) have "kept_segs A (t # ts)" by simp
    then show ?thesis
    proof (cases rule: kept_segs_ConsE)
      case 1
      with up Cons show ?thesis by (auto simp: plain_name_def norm_seg_plain)
    next
      case (2 n)
      with up Cons show ?thesis by simp
    qed
  qed
qed simp

lemma norm_again:
  "kept_segs A st \<Longrightarrow> \<forall>s\<in>set segs. slash \<notin> set s \<Longrightarrow> A \<or> acc = [] \<Longrightarrow>
     foldl (norm_seg False) acc (rev (foldl (norm_seg A) st segs)) =
     foldl (norm_seg False) (foldl (norm_seg False) acc (rev st)) segs"
proof (induction segs arbitrary: st)
  case (Cons s segs)
  then have "kept_segs A (norm_seg A st s)" by (simp add: kept_segs_step del: norm_seg.simps)
  with Cons show ?case by (simp add: norm_step_again del: norm_seg.simps)
qed simp

lemma abs_segs_descend:
  "abs_segs cwd p = descend (if is_absolute p then [] else path_segments False cwd) p"
  using split_on_sep [of slash cwd p] by (simp add: abs_segs_def path_segments_def descend_def)

lemma kept_segs_names: "kept_segs A st \<Longrightarrow> \<forall>s\<in>set st. s \<noteq> [] \<and> slash \<notin> set s"
proof -
  assume "kept_segs A st"
  then obtain ps n where d: "st = ps @ replicate n ''..''" "\<forall>p\<in>set ps. plain_name p" by (auto simp: kept_segs_def)
  have "''..'' \<noteq> []" "slash \<notin> set ''..''" by (simp_all add: slash_def)
  with d show ?thesis unfolding plain_name_def d(1) set_append set_replicate_conv_if by simp
qed

lemma path_segments_kept: "kept_segs A (rev (path_segments A q))"
proof -
  have "\<forall>s\<in>set (split_on slash q). slash \<notin> set s" using split_on_no_sep by blast
  then show ?thesis unfolding path_segments_def rev_rev_ident by (rule kept_segs_fold [OF kept_segs_Nil])
qed

lemma path_segments_names: "s \<in> set (path_segments A q) \<Longrightarrow> s \<noteq> [] \<and> slash \<notin> set s"
  using kept_segs_names [OF path_segments_kept [of A q]] by simp

lemma descend_segments:
  assumes "is_absolute q \<longrightarrow> acc = []"
  shows "rev (foldl (norm_seg False) (rev acc) (path_segments (\<not> is_absolute q) q)) = descend acc q"
proof -
  have "\<forall>s\<in>set (split_on slash q). slash \<notin> set s" using split_on_no_sep by blast
  from norm_again [OF kept_segs_Nil this, of "\<not> is_absolute q" "rev acc"] assms show ?thesis
    by (simp add: path_segments_def descend_def del: norm_seg.simps)
qed

lemma split_segments:
  "foldl (norm_seg False) st (split_on slash (join_with [slash] (path_segments A q))) = foldl (norm_seg False) st (path_segments A q)"
proof (cases "path_segments A q = []")
  case False
  then show ?thesis using path_segments_names by (subst split_join) auto
qed simp

lemma descend_front: "descend acc (slash # p) = descend acc p"
  by (simp add: descend_def)

lemma descend_trail: "descend acc (p @ [slash]) = descend acc p"
  using split_on_sep [of slash p "[]"] by (simp add: descend_def)

lemma descend_normalize:
  assumes "q \<noteq> []" and "is_absolute q \<longrightarrow> acc = []"
  shows "descend acc (path_normalize q) = descend acc q"
proof -
  let ?S = "path_segments (\<not> is_absolute q) q"
  have body: "descend acc (join_with [slash] ?S) = descend acc q"
    using descend_segments [OF assms(2)] split_segments [of "rev acc" "\<not> is_absolute q" q]
    by (simp add: descend_def)
  have dot: "descend acc ''.'' = acc" "descend acc (''.'' @ [slash]) = acc"
    by (simp_all add: descend_def slash_def)
  have root: "descend acc [] = acc" by (simp add: descend_def)
  show ?thesis
  proof (cases "join_with [slash] ?S = []")
    case True
    then have "descend acc q = acc" using body root by simp
    then show ?thesis using True assms dot
      by (auto simp: path_normalize_def Let_def descend_def slash_def)
  next
    case False
    have "descend acc (slash # b @ t) = descend acc b" if "t = [] \<or> t = [slash]" for b t
      using that by (auto simp: descend_front descend_trail)
    moreover have "descend acc (b @ t) = descend acc b" if "t = [] \<or> t = [slash]" for b t
      using that by (auto simp: descend_trail)
    ultimately show ?thesis using False body assms(1)
      by (cases "is_absolute q") (simp_all add: path_normalize_def Let_def)
  qed
qed

lemma is_absolute_normalize: "q \<noteq> [] \<Longrightarrow> is_absolute (path_normalize q) = is_absolute q"
proof -
  assume q: "q \<noteq> []"
  show ?thesis
  proof (cases "is_absolute q")
    case True
    then show ?thesis using q by (simp add: path_normalize_def Let_def is_absolute_def)
  next
    case False
    have rel: "\<not> is_absolute (join_with [slash] ss @ r)" if "\<forall>s\<in>set ss. s \<noteq> [] \<and> slash \<notin> set s" "ss \<noteq> []" for ss r
      using that by (induction ss rule: induct_list012) (auto simp: is_absolute_def neq_Nil_conv)
    have "\<not> is_absolute (join_with [slash] (path_segments True q) @ r)" if "path_segments True q \<noteq> []" for r
      using that path_segments_names by (intro rel) blast+
    from this [of "[]"] this [of "[slash]"] show ?thesis using False q
      by (cases "path_segments True q") (simp_all add: path_normalize_def Let_def, simp_all add: is_absolute_def slash_def)
  qed
qed

text \<open>\<open>path.join(base, p)\<close> denotes the path that goes down from the base along \<open>p\<close>.\<close>

lemma abs_segs_join:
  assumes "b \<noteq> []"
  shows "abs_segs cwd (path_join [b, p]) = descend (abs_segs cwd b) p"
proof (cases "p = []")
  case True
  have "descend acc [] = acc" for acc by (simp add: descend_def)
  with True assms show ?thesis
    by (simp add: path_join_def abs_segs_descend is_absolute_normalize descend_normalize)
next
  case False
  then have j: "path_join [b, p] = path_normalize (b @ slash # p)" using assms by (simp add: path_join_def)
  have a: "is_absolute (b @ slash # p) = is_absolute b" using assms by (cases b) (simp_all add: is_absolute_def)
  have "descend acc (b @ slash # p) = descend (descend acc b) p" for acc
    using split_on_sep [of slash b p] by (simp add: descend_def)
  with a show ?thesis by (simp add: j abs_segs_descend is_absolute_normalize descend_normalize)
qed

lemma abs_segs_plain: "kept_segs False (rev (abs_segs cwd p))"
  by (simp add: abs_segs_def path_segments_kept)

text \<open>Without \<open>..\<close> the walk only goes down.\<close>

lemma descend_below: "''..'' \<notin> set (split_on slash p) \<Longrightarrow> \<exists>r. descend acc p = acc @ r"
proof -
  have "''..'' \<notin> set ss \<Longrightarrow> \<exists>r. rev (foldl (norm_seg False) st ss) = rev st @ r" for st ss
  proof (induction ss arbitrary: st)
    case (Cons s ss)
    then have "norm_seg False st s = st \<or> norm_seg False st s = s # st" by auto
    with Cons.IH [of st] Cons.IH [of "s # st"] Cons.prems show ?case by (auto simp del: norm_seg.simps)
  qed simp
  then show "''..'' \<notin> set (split_on slash p) \<Longrightarrow> \<exists>r. descend acc p = acc @ r"
    by (metis descend_def rev_rev_ident)
qed

lemma descend_plain: "fs \<noteq> [] \<Longrightarrow> \<forall>f\<in>set fs. plain_name f \<Longrightarrow> descend acc (join_with [slash] fs) = acc @ fs"
  by (simp add: descend_def split_join norm_segs_plain plain_name_def [THEN iffD1])

lemma abs_segs_abs_dir: "\<forall>f\<in>set fs. plain_name f \<Longrightarrow> abs_segs cwd (abs_dir fs) = fs"
  using descend_plain [of fs "[]"] descend_front [of "[]" "join_with [slash] fs"]
  by (cases "fs = []") (simp_all add: abs_segs_descend is_absolute_def abs_dir_def descend_def)

text \<open>The directory of a path that ends in a name.\<close>

lemma plain_last: "plain_name f \<Longrightarrow> last (a @ f) \<noteq> slash"
  by (auto simp: plain_name_def dest: last_in_set)

lemma strip_slashes_plain: "last p \<noteq> slash \<Longrightarrow> p \<noteq> [] \<Longrightarrow> strip_slashes p = p"
  by (cases p rule: rev_cases) (simp_all add: strip_slashes_def)

lemma path_dirname_name: "plain_name f \<Longrightarrow> path_dirname f = ''.''"
  using plain_last [of f "[]"]
  by (auto simp: path_dirname_def Let_def strip_slashes_plain plain_name_def is_absolute_def split: list.split)

lemma path_dirname_snoc:
  assumes "plain_name f"
  shows "path_dirname (a @ slash # f) = (if a = [] then [slash] else a)"
proof -
  have s: "strip_slashes (a @ slash # f) = a @ slash # f"
    using plain_last [OF assms, of "a @ [slash]"] by (intro strip_slashes_plain) auto
  have "dropWhile (\<lambda>c. c \<noteq> slash) (rev f @ slash # rev a) = slash # rev a"
    using assms by (subst dropWhile_append2) (auto simp: plain_name_def)
  then show ?thesis using s by (simp add: path_dirname_def Let_def)
qed

lemma abs_segs_snoc:
  assumes "plain_name f"
  shows "a \<noteq> [] \<Longrightarrow> abs_segs cwd (a @ slash # f) = abs_segs cwd a @ [f]" "abs_segs cwd (slash # f) = [f]"
    "abs_segs cwd f = path_segments False cwd @ [f]"
proof -
  have f: "split_on slash f = [f]" "f \<noteq> []" "\<not> is_absolute f"
    using assms by (auto simp: plain_name_def split_on_plain is_absolute_def split: list.split)
  show "abs_segs cwd (slash # f) = [f]" "abs_segs cwd f = path_segments False cwd @ [f]"
    using f descend_front [of "[]" f] norm_seg_plain [OF assms]
    by (simp_all add: abs_segs_descend descend_def is_absolute_def [of "slash # f"] del: norm_seg.simps)
  show "abs_segs cwd (a @ slash # f) = abs_segs cwd a @ [f]" if "a \<noteq> []"
  proof -
    have "is_absolute (a @ slash # f) = is_absolute a" using that by (cases a) (simp_all add: is_absolute_def)
    moreover have "descend acc (a @ slash # f) = descend acc a @ [f]" for acc
      unfolding descend_def split_on_sep foldl_append f(1) by (simp add: norm_seg_plain [OF assms] del: norm_seg.simps)
    ultimately show ?thesis by (simp add: abs_segs_descend)
  qed
qed

lemma abs_segs_dot: "abs_segs cwd ''.'' = path_segments False cwd" "abs_segs cwd [slash] = []"
  by (simp_all add: abs_segs_descend is_absolute_def descend_def slash_def)

text \<open>A path from the base down to a named file, and its directory.\<close>

lemma path_join_file:
  assumes b: "b \<noteq> []" and ks: "ks \<noteq> []" "\<forall>k\<in>set ks. plain_name k"
  shows "abs_segs cwd (path_join [b, join_with [slash] ks]) = abs_segs cwd b @ ks"
    "abs_segs cwd (path_dirname (path_join [b, join_with [slash] ks])) = abs_segs cwd b @ butlast ks"
proof -
  show segs: "abs_segs cwd (path_join [b, join_with [slash] ks]) = abs_segs cwd b @ ks"
    using assms by (simp add: abs_segs_join descend_plain)
  let ?q = "b @ slash # join_with [slash] ks" let ?A = "\<not> is_absolute ?q"
  obtain js f where js: "ks = js @ [f]" using ks(1) by (metis append_butlast_last_id)
  have f: "plain_name f" using js ks(2) by simp
  have ne: "join_with [slash] ks \<noteq> []" using ks f by (auto simp: join_with_Nil_iff js plain_name_def)
  have split: "split_on slash (join_with [slash] ks) = ks"
    using ks by (intro split_join) (auto simp: plain_name_def)
  define T where "T = rev (foldl (norm_seg ?A) [] (split_on slash b)) @ js"
  have T: "path_segments ?A ?q = T @ [f]"
    unfolding T_def path_segments_def split_on_sep split foldl_append norm_segs_plain [OF ks(2)]
    by (simp add: js del: norm_seg.simps)
  have "last ?q = last f" using last_join_with [of ks slash] js f ne by (simp add: plain_name_def)
  then have nt: "last ?q \<noteq> slash" using f plain_last [of f "[]"] by simp
  have body: "join_with [slash] (T @ [f]) = (if T = [] then f else join_with [slash] T @ slash # f)"
    by (simp add: join_with_snoc)
  have bne: "join_with [slash] (T @ [f]) \<noteq> []" using f by (simp add: body plain_name_def)
  have TN: "T \<noteq> [] \<Longrightarrow> join_with [slash] T \<noteq> []"
  proof -
    have "[] \<notin> set T" using path_segments_names [of "[]" ?A ?q] unfolding T by auto
    then show "T \<noteq> [] \<Longrightarrow> join_with [slash] T \<noteq> []" by (auto simp: join_with_Nil_iff)
  qed
  have p: "path_join [b, join_with [slash] ks] = (if is_absolute ?q then slash # join_with [slash] (T @ [f]) else join_with [slash] (T @ [f]))"
    using b ne nt bne T by (simp add: path_join_def path_normalize_def Let_def)
  show "abs_segs cwd (path_dirname (path_join [b, join_with [slash] ks])) = abs_segs cwd b @ butlast ks"
  proof (cases "T = []")
    case True
    then have "abs_segs cwd (path_dirname (path_join [b, join_with [slash] ks])) = butlast (abs_segs cwd (path_join [b, join_with [slash] ks]))"
      using p body path_dirname_name [OF f] path_dirname_snoc [OF f, of "[]"] abs_segs_snoc [OF f] abs_segs_dot by simp
    then show ?thesis using ks(1) unfolding segs by (simp add: butlast_append)
  next
    case False
    define a where "a = (if is_absolute ?q then slash # join_with [slash] T else join_with [slash] T)"
    have a: "path_join [b, join_with [slash] ks] = a @ slash # f" "a \<noteq> []"
      using False p body TN by (simp_all add: a_def)
    then have "abs_segs cwd a @ [f] = abs_segs cwd b @ ks" using segs abs_segs_snoc(1) [OF f a(2)] by simp
    then show ?thesis using a path_dirname_snoc [OF f] js by simp
  qed
qed

lemma path_join_nonempty: "path_join ps \<noteq> []"
  by (simp add: path_join_def path_normalize_def Let_def)

text \<open>The way from the base to a path below it.\<close>

lemma path_relative_below: "abs_segs cwd p = abs_segs cwd b @ r \<Longrightarrow> path_relative cwd b p = join_with [slash] r"
proof -
  have "takeWhile (\<lambda>(x, y). x = y) (zip xs (xs @ r)) = zip xs xs" for xs :: "string list"
    by (induction xs) auto
  then show "abs_segs cwd p = abs_segs cwd b @ r \<Longrightarrow> path_relative cwd b p = join_with [slash] r"
    by (simp add: path_relative_def Let_def)
qed

lemma split_join_plain: "ks \<noteq> [] \<Longrightarrow> \<forall>k\<in>set ks. plain_name k \<Longrightarrow> split_on slash (join_with [slash] ks) = ks"
  by (rule split_join) (simp_all add: plain_name_def)

lemma join_plain_inject:
  "join_with [slash] ks = join_with [slash] js \<Longrightarrow> \<forall>k\<in>set ks. plain_name k \<Longrightarrow> \<forall>k\<in>set js. plain_name k \<Longrightarrow> ks = js"
proof -
  assume eq: "join_with [slash] ks = join_with [slash] js" and p: "\<forall>k\<in>set ks. plain_name k" "\<forall>k\<in>set js. plain_name k"
  have ne: "xs = []" if "join_with [slash] xs = []" "\<forall>k\<in>set xs. plain_name k" for xs
  proof -
    have "xs = [] \<or> xs = [[]]" using that(1) by (simp only: join_with_Nil_iff)
    moreover have "\<not> plain_name []" by (simp add: plain_name_def)
    ultimately show ?thesis using that(2) by (elim disjE) simp_all
  qed
  show ?thesis
  proof (cases "ks = [] \<or> js = []")
    case True
    then show ?thesis
    proof
      assume "ks = []"
      with eq have "join_with [slash] js = []" by simp
      with p \<open>ks = []\<close> show ?thesis using ne by blast
    next
      assume "js = []"
      with eq have "join_with [slash] ks = []" by simp
      with p \<open>js = []\<close> show ?thesis using ne by blast
    qed
  next
    case False
    then have "split_on slash (join_with [slash] ks) = ks" "split_on slash (join_with [slash] js) = js"
      using split_join_plain [OF _ p(1)] split_join_plain [OF _ p(2)] by blast+
    with eq show ?thesis by metis
  qed
qed

end
