(* ===== verification/Bytes.thy ===== *)
theory Bytes
  imports Prelude "HOL-Library.Word"
begin

text \<open>
  Node buffers as lists of 8-bit words: 32-bit big-endian fields (\<open>writeUInt32BE\<close>,
  \<open>readUInt32BE\<close>), ASCII text, hexadecimal text (\<open>toString('hex')\<close>, \<open>Buffer.from(s, 'hex')\<close>).
\<close>

type_synonym bytes = "8 word list"

definition be32 :: "nat \<Rightarrow> bytes" where
  "be32 n = [word_of_nat (n div 256 ^ 3), word_of_nat (n div 256 ^ 2), word_of_nat (n div 256), word_of_nat n]"

definition read_be32 :: "bytes \<Rightarrow> nat" where
  "read_be32 bs = foldl (\<lambda>a b. a * 256 + unat b) 0 (take 4 bs)"

lemma length_be32 [simp]: "length (be32 n) = 4"
  by (simp add: be32_def)

lemma unat_byte: "unat (word_of_nat n :: 8 word) = n mod 256"
  by (simp add: unat_of_nat)

lemma read_be32 [simp]: "n < 2 ^ 32 \<Longrightarrow> read_be32 (be32 n @ bs) = n"
proof -
  assume n: "n < 2 ^ 32"
  have 3: "n div 256 ^ 3 mod 256 = n div 16777216" using n by simp
  have "((n div 16777216 * 256 + n div 65536 mod 256) * 256 + n div 256 mod 256) * 256 + n mod 256 = n"
  proof -
    have a: "n div 16777216 * 256 + n div 65536 mod 256 = n div 65536"
      using div_mult_mod_eq [of "n div 65536" 256] by (simp add: div_mult2_eq [symmetric])
    have b: "n div 65536 * 256 + n div 256 mod 256 = n div 256"
      using div_mult_mod_eq [of "n div 256" 256] by (simp add: div_mult2_eq [symmetric])
    show ?thesis unfolding a b by (rule div_mult_mod_eq)
  qed
  with 3 show ?thesis by (simp add: read_be32_def be32_def unat_byte)
qed

lemma take_be32 [simp]: "take 4 (be32 n @ bs) = be32 n" "drop 4 (be32 n @ bs) = bs"
  by simp_all

definition ascii :: "string \<Rightarrow> bytes" where
  "ascii s = map (\<lambda>c. word_of_nat (of_char c)) s"

definition text_of :: "bytes \<Rightarrow> string" where
  "text_of bs = map (\<lambda>b. char_of (unat b)) bs"

lemma text_of_ascii [simp]: "text_of (ascii s) = s"
proof -
  have "char_of (unat (word_of_nat (of_char c) :: 8 word)) = c" for c
    by (simp add: unat_byte)
  then show ?thesis by (simp add: text_of_def ascii_def comp_def)
qed

fun hex_digit :: "char \<Rightarrow> nat option" where
  "hex_digit c = (let n = of_char c in
     if 48 \<le> n \<and> n \<le> 57 then Some (n - 48)
     else if 97 \<le> n \<and> n \<le> 102 then Some (n - 87)
     else if 65 \<le> n \<and> n \<le> 70 then Some (n - 55)
     else (None :: nat option))"

text \<open>Decoding stops at the first pair that is not hexadecimal.\<close>

fun hex_bytes :: "string \<Rightarrow> bytes" where
  "hex_bytes (a # b # s) = (case (hex_digit a, hex_digit b) of
     (Some x, Some y) \<Rightarrow> word_of_nat (16 * x + y) # hex_bytes s
   | _ \<Rightarrow> [])"
| "hex_bytes _ = []"

definition hex_char :: "nat \<Rightarrow> char" where
  "hex_char n = (if n < 10 then char_of (48 + n) else char_of (87 + n))"

definition to_hex :: "bytes \<Rightarrow> string" where
  "to_hex bs = concat (map (\<lambda>b. [hex_char (unat b div 16), hex_char (unat b mod 16)]) bs)"

lemma hex_digit_char: "n < 16 \<Longrightarrow> hex_digit (hex_char n) = Some n"
  by (auto simp: hex_char_def Let_def of_char_of)

lemma length_to_hex [simp]: "length (to_hex bs) = 2 * length bs"
  by (induction bs) (simp_all add: to_hex_def)

lemma hex_bytes_to_hex [simp]: "hex_bytes (to_hex bs) = bs"
proof (induction bs)
  case (Cons b bs)
  have "unat b < 256" using unsigned_less [of b] by simp
  then have "unat b div 16 < 16" "unat b mod 16 < 16" by auto
  then have "hex_bytes (to_hex (b # bs)) = word_of_nat (16 * (unat b div 16) + unat b mod 16) # hex_bytes (to_hex bs)"
    by (simp add: to_hex_def hex_digit_char del: hex_digit.simps)
  with Cons show ?case by (simp del: hex_digit.simps)
qed (simp add: to_hex_def)

end
