(* ===== verification/MysqlTransforms.thy ===== *)
theory MysqlTransforms
  imports Bytes
begin

text \<open>
  The stream transforms of \<open>mysql/transforms\<close>: encryption and decryption of backup files with
  AES-256-GCM, and the checksum. A transform is its object's fields as a record and one step
  per chunk, \<open>_transform\<close>, and one at the end, \<open>_flush\<close>; a step returns the bytes it pushed
  and either an error or the new fields.

  \<open>node:crypto\<close>, \<open>JSON\<close> and base64 are parameters: \<open>gcm\<close> gives the keystream and the tag of
  AES-256-GCM, \<open>codec\<close> renders and parses the header and encodes the IV.
\<close>

section \<open>Parameters\<close>

record gcm =
  g_stream :: "bytes \<Rightarrow> bytes \<Rightarrow> nat \<Rightarrow> 8 word"
  g_tag :: "bytes \<Rightarrow> bytes \<Rightarrow> bytes \<Rightarrow> bytes"

record header =
  magic :: string
  version :: int
  ivLength :: int
  hdr_iv :: string
  tagLength :: int
  hdr_tag :: string
  originalFileName :: string
  hdr_timestamp :: string
  algorithm :: string
  dataLength :: int

record codec =
  c_json :: "header \<Rightarrow> bytes"
  c_parse :: "bytes \<Rightarrow> js_error + header"
  c_b64 :: "bytes \<Rightarrow> string"
  c_unb64 :: "string \<Rightarrow> bytes"

definition IV_LENGTH :: nat where "IV_LENGTH = 16"
definition TAG_LENGTH :: nat where "TAG_LENGTH = 16"
definition MAGIC_BYTES :: string where "MAGIC_BYTES = ''MYSQLBACKUP''"
definition ENCRYPTION_VERSION :: int where "ENCRYPTION_VERSION = 1"

text \<open>\<open>update\<close> of a cipher that has processed \<open>off\<close> bytes; deciphering is the same operation.\<close>

definition gcm_xor :: "gcm \<Rightarrow> bytes \<Rightarrow> bytes \<Rightarrow> nat \<Rightarrow> bytes \<Rightarrow> bytes" where
  "gcm_xor G key iv off bs = map (\<lambda>(i, b). xor b (g_stream G key iv (off + i))) (enumerate 0 bs)"

lemma length_gcm_xor [simp]: "length (gcm_xor G key iv off bs) = length bs"
  by (simp add: gcm_xor_def)

lemma gcm_xor_nth: "i < length bs \<Longrightarrow> gcm_xor G key iv off bs ! i = xor (bs ! i) (g_stream G key iv (off + i))"
  by (simp add: gcm_xor_def nth_enumerate_eq)

lemma gcm_xor_Nil [simp]: "gcm_xor G key iv off [] = []"
  by (simp add: gcm_xor_def)

lemma gcm_xor_Nil_iff [simp]: "gcm_xor G key iv off bs = [] \<longleftrightarrow> bs = []"
  by (metis length_0_conv length_gcm_xor)

lemma gcm_xor_twice [simp]: "gcm_xor G key iv off (gcm_xor G key iv off bs) = bs"
  by (rule nth_equalityI) (simp_all add: gcm_xor_nth xor.assoc)

lemma gcm_xor_append:
  "gcm_xor G key iv off (a @ b) = gcm_xor G key iv off a @ gcm_xor G key iv (off + length a) b"
  by (rule nth_equalityI) (auto simp: gcm_xor_nth nth_append)

definition invalid_key_length :: js_error where
  "invalid_key_length = JsError ''ERR_CRYPTO_INVALID_KEYLEN'' ''Invalid key length''"

section \<open>Encryption\<close>

record enc_st =
  n_iv :: bytes
  n_key :: bytes
  n_name :: string
  n_header_written :: bool
  n_dataLength :: nat
  n_ct :: bytes
  n_tag :: "bytes option"

text \<open>The constructor; \<open>iv\<close> is what \<open>randomBytes(16)\<close> returned.\<close>

definition enc_new :: "string \<Rightarrow> string \<Rightarrow> bytes \<Rightarrow> js_error + enc_st" where
  "enc_new key name iv =
     (if length (hex_bytes key) \<noteq> 32 then Inl invalid_key_length
      else Inr \<lparr>n_iv = iv, n_key = hex_bytes key, n_name = name, n_header_written = False,
                n_dataLength = 0, n_ct = [], n_tag = None\<rparr>)"

definition enc_header :: "codec \<Rightarrow> string \<Rightarrow> enc_st \<Rightarrow> header" where
  "enc_header C now st = \<lparr>magic = MAGIC_BYTES, version = ENCRYPTION_VERSION,
     ivLength = int (length (n_iv st)), hdr_iv = c_b64 C (n_iv st), tagLength = int TAG_LENGTH,
     hdr_tag = '''', originalFileName = n_name st, hdr_timestamp = now, algorithm = ''aes-256-gcm'',
     dataLength = 0\<rparr>"

definition out_of_range :: js_error where
  "out_of_range = JsError ''ERR_OUT_OF_RANGE'' ''The value of \"value\" is out of range.''"

definition enc_update :: "gcm \<Rightarrow> enc_st \<Rightarrow> bytes \<Rightarrow> bytes \<times> enc_st" where
  "enc_update G st chunk =
     (let encrypted = gcm_xor G (n_key st) (n_iv st) (length (n_ct st)) chunk in
      (encrypted, st\<lparr>n_ct := n_ct st @ encrypted, n_dataLength := n_dataLength st + length chunk\<rparr>))"

definition enc_transform :: "codec \<Rightarrow> gcm \<Rightarrow> string \<Rightarrow> enc_st \<Rightarrow> bytes \<Rightarrow> js_error + (bytes \<times> enc_st)" where
  "enc_transform C G now st chunk =
     (if \<not> n_header_written st then
        (let headerBuffer = c_json C (enc_header C now st) in
         if length headerBuffer \<ge> 2 ^ 32 then Inl out_of_range
         else (case enc_update G (st\<lparr>n_header_written := True\<rparr>) chunk of
                 (encrypted, st') \<Rightarrow> Inr (be32 (length headerBuffer) @ headerBuffer @ encrypted, st')))
      else Inr (enc_update G st chunk))"

definition enc_flush :: "gcm \<Rightarrow> enc_st \<Rightarrow> bytes \<times> enc_st" where
  "enc_flush G st =
     (let tag = g_tag G (n_key st) (n_iv st) (n_ct st) in
      (be32 (length tag) @ tag, st\<lparr>n_tag := Some tag\<rparr>))"

definition getEncryptionMetadata :: "codec \<Rightarrow> enc_st \<Rightarrow> string \<times> string option \<times> string \<times> int" where
  "getEncryptionMetadata C st =
     (c_b64 C (n_iv st), map_option (c_b64 C) (n_tag st), ''aes-256-gcm'', ENCRYPTION_VERSION)"

fun enc_chunks :: "codec \<Rightarrow> gcm \<Rightarrow> string \<Rightarrow> enc_st \<Rightarrow> bytes list \<Rightarrow> js_error + (bytes \<times> enc_st)" where
  "enc_chunks C G now st [] = Inr ([], st)"
| "enc_chunks C G now st (c # cs) =
     (case enc_transform C G now st c of
        Inl e \<Rightarrow> Inl e
      | Inr (out, st') \<Rightarrow>
          (case enc_chunks C G now st' cs of
             Inl e \<Rightarrow> Inl e
           | Inr (out', st'') \<Rightarrow> Inr (out @ out', st'')))"

text \<open>The whole stream, as \<open>pipeline(readStream, encryptTransform, writeStream)\<close> runs it.\<close>

definition encrypt_stream :: "codec \<Rightarrow> gcm \<Rightarrow> string \<Rightarrow> string \<Rightarrow> bytes \<Rightarrow> string \<Rightarrow> bytes list \<Rightarrow>
    js_error + (bytes \<times> enc_st)" where
  "encrypt_stream C G key name iv now chunks =
     (case enc_new key name iv of
        Inl e \<Rightarrow> Inl e
      | Inr st \<Rightarrow>
          (case enc_chunks C G now st chunks of
             Inl e \<Rightarrow> Inl e
           | Inr (out, st') \<Rightarrow> (case enc_flush G st' of (out', st'') \<Rightarrow> Inr (out @ out', st''))))"

section \<open>Decryption\<close>

datatype dec_phase = InHeader | InData | InTag

record dec_st =
  d_key :: bytes
  d_phase :: dec_phase
  d_headerLength :: nat
  d_header :: "header option"
  d_iv :: "bytes option"
  d_tag :: "bytes option"
  d_ct :: bytes
  d_buf :: bytes
  d_expected :: int
  d_processed :: nat

definition dec_new :: "string \<Rightarrow> dec_st" where
  "dec_new key = \<lparr>d_key = hex_bytes key, d_phase = InHeader, d_headerLength = 0, d_header = None,
     d_iv = None, d_tag = None, d_ct = [], d_buf = [], d_expected = 0, d_processed = 0\<rparr>"

definition auth_failed :: js_error where
  "auth_failed = new_Error ''Authentication failed: backup file may be corrupted or tampered with''"

definition invalid_tag_length :: "nat \<Rightarrow> js_error" where
  "invalid_tag_length n = new_Error (''Invalid tag length: expected '' @ str_nat TAG_LENGTH @ '', got '' @ str_nat n)"

definition dec_read_length :: "dec_st \<Rightarrow> dec_st" where
  "dec_read_length st =
     (if d_headerLength st = 0 \<and> length (d_buf st) \<ge> 4
      then st\<lparr>d_headerLength := read_be32 (d_buf st), d_buf := drop 4 (d_buf st)\<rparr> else st)"

text \<open>The header block; it leaves the phase alone where the code breaks out of the loop.\<close>

definition dec_read_header :: "codec \<Rightarrow> dec_st \<Rightarrow> js_error + dec_st" where
  "dec_read_header C st =
     (if d_headerLength st > 0 \<and> length (d_buf st) \<ge> d_headerLength st then
        (case c_parse C (take (d_headerLength st) (d_buf st)) of
           Inl e \<Rightarrow> Inl e
         | Inr h \<Rightarrow>
             if magic h \<noteq> MAGIC_BYTES
             then Inl (new_Error ''Invalid encrypted backup format: magic bytes mismatch'')
             else if version h \<noteq> ENCRYPTION_VERSION
             then Inl (new_Error (''Unsupported encryption version: '' @ str_int (version h)))
             else if length (c_unb64 C (hdr_iv h)) \<noteq> IV_LENGTH
             then Inl (new_Error (''Invalid IV length: expected '' @ str_nat IV_LENGTH @ '', got ''
                    @ str_nat (length (c_unb64 C (hdr_iv h)))))
             else if length (d_key st) \<noteq> 32 then Inl invalid_key_length
             else Inr (st\<lparr>d_header := Some h, d_buf := drop (d_headerLength st) (d_buf st),
                    d_iv := Some (c_unb64 C (hdr_iv h)), d_expected := dataLength h, d_phase := InData\<rparr>))
      else Inr st)"

text \<open>The data block: the last twenty bytes at hand are taken for the tag.\<close>

definition dec_data :: "gcm \<Rightarrow> dec_st \<Rightarrow> bytes \<times> (js_error + dec_st)" where
  "dec_data G st =
     (let n = length (d_buf st); iv = the (d_iv st) in
      if n \<le> 4 + TAG_LENGTH then ([], Inr st)
      else let tagLen = read_be32 (drop (n - (4 + TAG_LENGTH)) (d_buf st)) in
        if tagLen \<noteq> TAG_LENGTH then ([], Inl (invalid_tag_length tagLen))
        else let dataEnd = n - (4 + tagLen);
                 encryptedData = take dataEnd (d_buf st);
                 tag = drop 4 (drop dataEnd (d_buf st));
                 decrypted = gcm_xor G (d_key st) iv (length (d_ct st)) encryptedData;
                 st' = st\<lparr>d_tag := Some tag, d_buf := [], d_ct := d_ct st @ encryptedData,
                         d_processed := d_processed st + length decrypted\<rparr>
             in if g_tag G (d_key st) iv (d_ct st') \<noteq> tag then (decrypted, Inl auth_failed)
                else if d_expected st' > 0 \<and> int (d_processed st') \<noteq> d_expected st'
                then (decrypted, Inl (new_Error (''Data length mismatch: expected '' @ str_int (d_expected st')
                       @ '', got '' @ str_nat (d_processed st'))))
                else (decrypted, Inr (st'\<lparr>d_phase := InTag\<rparr>)))"

text \<open>Each way through the body of the \<open>while\<close> loop ends in \<open>break\<close> or an error: it runs once.\<close>

definition dec_transform :: "codec \<Rightarrow> gcm \<Rightarrow> dec_st \<Rightarrow> bytes \<Rightarrow> bytes \<times> (js_error + dec_st)" where
  "dec_transform C G st chunk =
     (let st1 = st\<lparr>d_buf := d_buf st @ chunk\<rparr> in
      if d_buf st1 = [] then ([], Inr st1)
      else (case d_phase st1 of
          InHeader \<Rightarrow>
            (case dec_read_header C (dec_read_length st1) of
               Inl e \<Rightarrow> ([], Inl e)
             | Inr st2 \<Rightarrow> if d_phase st2 = InData then dec_data G st2 else ([], Inr st2))
        | InData \<Rightarrow> dec_data G st1
        | InTag \<Rightarrow> ([], Inr st1)))"

text \<open>Tag lengths \<open>setAuthTag\<close> accepts for GCM.\<close>

definition gcm_tag_lengths :: "nat list" where
  "gcm_tag_lengths = [4, 8, 12, 13, 14, 15, 16]"

definition dec_flush :: "gcm \<Rightarrow> dec_st \<Rightarrow> js_error + dec_st" where
  "dec_flush G st =
     (if d_phase st = InData \<and> length (d_buf st) \<ge> 4 \<and> length (d_buf st) = read_be32 (d_buf st) + 4 then
        (let tag = drop 4 (d_buf st) in
         if \<not> List.member gcm_tag_lengths (length tag)
         then Inl (JsError ''ERR_CRYPTO_INVALID_AUTH_TAG'' (''Invalid authentication tag length: '' @ str_nat (length tag)))
         else if take (length tag) (g_tag G (d_key st) (the (d_iv st)) (d_ct st)) \<noteq> tag then Inl auth_failed
         else Inr (st\<lparr>d_tag := Some tag\<rparr>))
      else Inr st)"

fun dec_chunks :: "codec \<Rightarrow> gcm \<Rightarrow> dec_st \<Rightarrow> bytes list \<Rightarrow> bytes \<times> (js_error + dec_st)" where
  "dec_chunks C G st [] = ([], dec_flush G st)"
| "dec_chunks C G st (c # cs) =
     (case dec_transform C G st c of
        (out, Inl e) \<Rightarrow> (out, Inl e)
      | (out, Inr st') \<Rightarrow> (case dec_chunks C G st' cs of (out', r) \<Rightarrow> (out @ out', r)))"

definition decrypt_stream :: "codec \<Rightarrow> gcm \<Rightarrow> string \<Rightarrow> bytes list \<Rightarrow> bytes \<times> (js_error + dec_st)" where
  "decrypt_stream C G key chunks = dec_chunks C G (dec_new key) chunks"

section \<open>Checksum\<close>

text \<open>\<open>createHash('sha256')\<close> digests what was fed to it; the fields are that data and its size.\<close>

record checksum_st =
  k_data :: bytes
  k_size :: nat

definition checksum_new :: checksum_st where
  "checksum_new = \<lparr>k_data = [], k_size = 0\<rparr>"

definition checksum_transform :: "checksum_st \<Rightarrow> bytes \<Rightarrow> bytes \<times> checksum_st" where
  "checksum_transform st chunk = (chunk, st\<lparr>k_data := k_data st @ chunk, k_size := k_size st + length chunk\<rparr>)"

definition getChecksum :: "(bytes \<Rightarrow> string) \<Rightarrow> checksum_st \<Rightarrow> string" where
  "getChecksum sha256 st = sha256 (k_data st)"

definition getSize :: "checksum_st \<Rightarrow> nat" where
  "getSize st = k_size st"

section \<open>Lemmas\<close>

text \<open>What the parameters are relied on for, at one header: JSON text that parses back, an IV
  that survives base64, a tag of sixteen bytes.\<close>

definition params_ok :: "codec \<Rightarrow> gcm \<Rightarrow> header \<Rightarrow> bytes \<Rightarrow> bool" where
  "params_ok C G h iv \<longleftrightarrow> c_parse C (c_json C h) = Inr h \<and> c_json C h \<noteq> [] \<and>
     length (c_json C h) < 2 ^ 32 \<and> c_unb64 C (c_b64 C iv) = iv \<and> length iv = IV_LENGTH \<and>
     (\<forall>key ct. length (g_tag G key iv ct) = TAG_LENGTH)"

definition header_for :: "codec \<Rightarrow> string \<Rightarrow> bytes \<Rightarrow> string \<Rightarrow> header" where
  "header_for C name iv now = \<lparr>magic = MAGIC_BYTES, version = ENCRYPTION_VERSION,
     ivLength = int (length iv), hdr_iv = c_b64 C iv, tagLength = int TAG_LENGTH, hdr_tag = '''',
     originalFileName = name, hdr_timestamp = now, algorithm = ''aes-256-gcm'', dataLength = 0\<rparr>"

lemma enc_header_for: "enc_header C now st = header_for C (n_name st) (n_iv st) now"
  by (simp add: enc_header_def header_for_def)

lemma enc_chunks_written:
  assumes "n_header_written st"
  shows "enc_chunks C G now st cs =
    Inr (gcm_xor G (n_key st) (n_iv st) (length (n_ct st)) (concat cs),
      st\<lparr>n_ct := n_ct st @ gcm_xor G (n_key st) (n_iv st) (length (n_ct st)) (concat cs),
         n_dataLength := n_dataLength st + length (concat cs)\<rparr>)"
  using assms
proof (induction cs arbitrary: st)
  case (Cons c cs)
  then show ?case
    by (simp add: enc_transform_def enc_update_def Let_def gcm_xor_append)
qed simp

lemma encrypt_stream_Inr:
  assumes "encrypt_stream C G key name iv now (c # cs) = Inr (out, st)"
  defines "h \<equiv> c_json C (header_for C name iv now)"
    and "ct \<equiv> gcm_xor G (hex_bytes key) iv 0 (c @ concat cs)"
  shows "length (hex_bytes key) = 32 \<and> length h < 2 ^ 32 \<and>
    out = be32 (length h) @ h @ ct @ be32 (length (g_tag G (hex_bytes key) iv ct)) @ g_tag G (hex_bytes key) iv ct \<and>
    n_tag st = Some (g_tag G (hex_bytes key) iv ct)"
proof -
  have key: "length (hex_bytes key) = 32"
    using assms(1) by (auto simp: encrypt_stream_def enc_new_def split: if_splits)
  then have h: "length h < 2 ^ 32"
    using assms(1)
    by (auto simp: encrypt_stream_def enc_new_def enc_transform_def Let_def enc_header_for h_def split: if_splits)
  have ct: "ct = gcm_xor G (hex_bytes key) iv 0 c @ gcm_xor G (hex_bytes key) iv (length c) (concat cs)"
    by (simp add: ct_def gcm_xor_append)
  have "\<not> 2 ^ 32 \<le> length h" using h by simp
  with key assms(1) show ?thesis
    unfolding ct
    by (simp add: encrypt_stream_def enc_new_def enc_transform_def Let_def enc_header_for h_def [symmetric]
        enc_update_def enc_chunks_written enc_flush_def) (use h in auto)
qed

definition in_data :: "codec \<Rightarrow> string \<Rightarrow> header \<Rightarrow> bytes \<Rightarrow> bytes \<Rightarrow> dec_st" where
  "in_data C key h iv rest = \<lparr>d_key = hex_bytes key, d_phase = InData, d_headerLength = length (c_json C h),
     d_header = Some h, d_iv = Some iv, d_tag = None, d_ct = [], d_buf = rest, d_expected = dataLength h,
     d_processed = 0\<rparr>"

lemma dec_transform_header:
  assumes "params_ok C G (header_for C name iv now) iv" and "length (hex_bytes key) = 32"
  shows "dec_transform C G (dec_new key)
      (be32 (length (c_json C (header_for C name iv now))) @ c_json C (header_for C name iv now) @ rest)
    = dec_data G (in_data C key (header_for C name iv now) iv rest)"
proof -
  let ?h = "header_for C name iv now"
  have ok: "c_parse C (c_json C ?h) = Inr ?h" "c_json C ?h \<noteq> []" "length (c_json C ?h) < 2 ^ 32"
    "c_unb64 C (c_b64 C iv) = iv" "length iv = IV_LENGTH"
    using assms(1) by (auto simp: params_ok_def)
  have fields: "magic ?h = MAGIC_BYTES" "version ?h = ENCRYPTION_VERSION" "hdr_iv ?h = c_b64 C iv"
    by (simp_all add: header_for_def)
  have "dec_read_length ((dec_new key)\<lparr>d_buf := be32 (length (c_json C ?h)) @ c_json C ?h @ rest\<rparr>)
      = (dec_new key)\<lparr>d_headerLength := length (c_json C ?h), d_buf := c_json C ?h @ rest\<rparr>"
    using ok(3) by (simp add: dec_read_length_def dec_new_def)
  moreover have "dec_read_header C ((dec_new key)\<lparr>d_headerLength := length (c_json C ?h), d_buf := c_json C ?h @ rest\<rparr>)
      = Inr (in_data C key ?h iv rest)"
    using ok fields assms(2) by (simp add: dec_read_header_def dec_new_def in_data_def)
  moreover have "be32 (length (c_json C ?h)) \<noteq> []"
    by (simp add: be32_def)
  ultimately show ?thesis
    by (simp add: dec_transform_def Let_def) (simp add: dec_new_def in_data_def)
qed

lemma dec_data_whole:
  assumes "length tag = TAG_LENGTH" and "ct \<noteq> []" and "dataLength h = 0"
    and "tag = g_tag G (hex_bytes key) iv ct"
  shows "\<exists>st. dec_data G (in_data C key h iv (ct @ be32 (length tag) @ tag))
    = (gcm_xor G (hex_bytes key) iv 0 ct, Inr st) \<and> d_phase st = InTag"
proof -
  have n: "length (ct @ be32 (length tag) @ tag) = length ct + 20" using assms by (simp add: TAG_LENGTH_def)
  have "drop (length ct) (ct @ be32 (length tag) @ tag) = be32 (length tag) @ tag" by simp
  moreover have "length tag < 2 ^ 32" using assms(1) by (simp add: TAG_LENGTH_def)
  ultimately show ?thesis
    using assms n
    by (simp add: dec_data_def Let_def in_data_def TAG_LENGTH_def)
qed

lemma dec_phase_tag: "d_phase st = InTag \<Longrightarrow> dec_chunks C G st [] = ([], Inr st)"
  by (simp add: dec_flush_def)

text \<open>Authenticity: whatever the chunks are, a run that ends in phase \<open>InTag\<close> has verified the tag.\<close>

definition dec_inv :: "gcm \<Rightarrow> bytes \<Rightarrow> dec_st \<Rightarrow> bool" where
  "dec_inv G out st \<longleftrightarrow> (case d_phase st of
       InTag \<Rightarrow> d_tag st = Some (g_tag G (d_key st) (the (d_iv st)) (d_ct st)) \<and>
         out = gcm_xor G (d_key st) (the (d_iv st)) 0 (d_ct st)
     | _ \<Rightarrow> out = [] \<and> d_ct st = [] \<and> d_processed st = 0)"

lemma dec_inv_buf [simp]: "dec_inv G out (st\<lparr>d_buf := b\<rparr>) = dec_inv G out st"
  by (cases "d_phase st") (simp_all add: dec_inv_def)

lemma dec_data_inv:
  assumes "dec_data G st = (out', Inr st')" and "d_phase st = InData" and "dec_inv G out st"
  shows "dec_inv G (out @ out') st'"
  using assms by (auto simp: dec_data_def dec_inv_def Let_def split: if_splits)

lemma dec_read_header_inv:
  assumes "dec_read_header C st = Inr st'" and "d_phase st = InHeader" and "dec_inv G out st"
  shows "dec_inv G out st' \<and> d_phase st' \<noteq> InTag"
  using assms by (auto simp: dec_read_header_def dec_inv_def split: if_splits sum.splits)

lemma dec_transform_inv:
  assumes "dec_transform C G st chunk = (out', Inr st')" and "dec_inv G out st"
  shows "dec_inv G (out @ out') st'"
proof (cases "d_buf st @ chunk = []")
  case True
  with assms show ?thesis by (auto simp: dec_transform_def)
next
  case False
  let ?st1 = "st\<lparr>d_buf := d_buf st @ chunk\<rparr>"
  have i1: "dec_inv G out ?st1" using assms(2) by simp
  show ?thesis
  proof (cases "d_phase st")
    case InHeader
    have i2: "dec_inv G out (dec_read_length ?st1)" "d_phase (dec_read_length ?st1) = InHeader"
      using i1 InHeader by (simp_all add: dec_read_length_def dec_inv_def)
    from assms(1) False InHeader obtain st2 where h: "dec_read_header C (dec_read_length ?st1) = Inr st2"
      and r: "(out', Inr st') = (if d_phase st2 = InData then dec_data G st2 else ([], Inr st2))"
      by (auto simp: dec_transform_def Let_def split: sum.splits)
    from dec_read_header_inv [OF h i2(2,1)] r show ?thesis
      by (auto split: if_splits intro: dec_data_inv)
  next
    case InData
    with assms(1) False have "dec_data G ?st1 = (out', Inr st')" by (auto simp: dec_transform_def Let_def)
    from dec_data_inv [OF this _ i1] InData show ?thesis by simp
  next
    case InTag
    with assms(1) False i1 show ?thesis by (auto simp: dec_transform_def)
  qed
qed

lemma dec_chunks_inv:
  "dec_chunks C G st cs = (out', Inr st') \<Longrightarrow> dec_inv G out st \<Longrightarrow> d_phase st' = InTag \<Longrightarrow>
     dec_inv G (out @ out') st'"
proof (induction cs arbitrary: st out out')
  case Nil
  then have "dec_flush G st = Inr st'" "out' = []" by auto
  then have "st' = st" using Nil(3) by (auto simp: dec_flush_def Let_def split: if_splits)
  with Nil \<open>out' = []\<close> show ?case by simp
next
  case (Cons c cs)
  then obtain o1 s1 o2 where t: "dec_transform C G st c = (o1, Inr s1)"
    and r: "dec_chunks C G s1 cs = (o2, Inr st')" and o: "out' = o1 @ o2"
    by (auto split: prod.splits sum.splits)
  from Cons.IH [OF r dec_transform_inv [OF t Cons.prems(2)] Cons.prems(3)] o show ?case by simp
qed

lemma dec_transform_short:
  assumes "length part < 4 + length hj" and "length hj < 2 ^ 32" and "part = take (length part) (be32 (length hj) @ hj)"
  shows "\<exists>st. dec_transform C G (dec_new key) part = ([], Inr st) \<and> d_phase st = InHeader"
proof (cases "length part < 4")
  case True
  then show ?thesis by (auto simp: dec_transform_def Let_def dec_new_def dec_read_length_def dec_read_header_def)
next
  case False
  define rest where "rest = take (length part - 4) hj"
  have part: "part = be32 (length hj) @ rest" and short: "length rest < length hj"
    using False assms(1) by (subst assms(3), simp add: rest_def) (use False assms(1) in \<open>simp add: rest_def\<close>)
  then have "dec_read_length ((dec_new key)\<lparr>d_buf := part\<rparr>) = (dec_new key)\<lparr>d_headerLength := length hj, d_buf := rest\<rparr>"
    using assms(2) by (simp add: dec_read_length_def dec_new_def)
  moreover have "dec_read_header C ((dec_new key)\<lparr>d_headerLength := length hj, d_buf := rest\<rparr>) =
      Inr ((dec_new key)\<lparr>d_headerLength := length hj, d_buf := rest\<rparr>)"
    using short by (simp add: dec_read_header_def dec_new_def)
  moreover have "part \<noteq> []" using False by auto
  ultimately show ?thesis by (simp add: dec_transform_def Let_def) (simp add: dec_new_def)
qed

lemma roundtrip_run:
  assumes "encrypt_stream C G key name iv now chunks = Inr (out, st)" and "concat chunks \<noteq> []"
    and "params_ok C G (header_for C name iv now) iv"
  shows "\<exists>st'. decrypt_stream C G key [out] = (concat chunks, Inr st') \<and> d_phase st' = InTag"
proof -
  obtain c cs where cs: "chunks = c # cs" using assms(2) by (cases chunks) auto
  define ct where "ct = gcm_xor G (hex_bytes key) iv 0 (concat chunks)"
  define tag where "tag = g_tag G (hex_bytes key) iv ct"
  let ?h = "header_for C name iv now"
  have key: "length (hex_bytes key) = 32"
    and out: "out = be32 (length (c_json C ?h)) @ c_json C ?h @ (ct @ be32 (length tag) @ tag)"
    using encrypt_stream_Inr [OF assms(1) [unfolded cs]] by (simp_all add: ct_def tag_def cs)
  have tag: "length tag = TAG_LENGTH" using assms(3) by (simp add: params_ok_def tag_def)
  have "ct \<noteq> []" using assms(2) by (simp add: ct_def)
  from dec_data_whole [OF tag this _ tag_def, of ?h]
  obtain st' where d: "dec_data G (in_data C key ?h iv (ct @ be32 (length tag) @ tag)) =
      (gcm_xor G (hex_bytes key) iv 0 ct, Inr st')" "d_phase st' = InTag"
    by (auto simp: header_for_def)
  then have "dec_transform C G (dec_new key) out = (concat chunks, Inr st')"
    unfolding out dec_transform_header [OF assms(3) key] by (simp add: ct_def)
  with d(2) show ?thesis
    by (simp add: decrypt_stream_def dec_flush_def)
qed

section \<open>Parameters for the witnesses\<close>

definition toy_gcm :: gcm where
  "toy_gcm = \<lparr>g_stream = (\<lambda>key iv i. word_of_nat (7 * i + 3)),
     g_tag = (\<lambda>key iv ct. replicate 15 0 @ [foldl xor 1 ct])\<rparr>"

definition toy_key :: string where "toy_key = to_hex (replicate 32 5)"
definition toy_iv :: bytes where "toy_iv = replicate 16 9"

definition toy_header :: header where
  "toy_header = \<lparr>magic = MAGIC_BYTES, version = ENCRYPTION_VERSION, ivLength = 16, hdr_iv = ''CQ=='',
     tagLength = 16, hdr_tag = '''', originalFileName = ''f.sql.gz'', hdr_timestamp = ''now'',
     algorithm = ''aes-256-gcm'', dataLength = 0\<rparr>"

definition toy_codec :: codec where
  "toy_codec = \<lparr>c_json = (\<lambda>h. ascii (hdr_iv h)), c_parse = (\<lambda>_. Inr toy_header), c_b64 = (\<lambda>_. ''CQ==''),
     c_unb64 = (\<lambda>_. toy_iv)\<rparr>"

lemma toy_params [simp]: "params_ok toy_codec toy_gcm (header_for toy_codec ''f.sql.gz'' toy_iv ''now'') toy_iv"
  by (simp add: params_ok_def toy_codec_def toy_gcm_def toy_iv_def header_for_def toy_header_def IV_LENGTH_def
      TAG_LENGTH_def ascii_def)

lemma toy_key_length [simp]: "length (hex_bytes toy_key) = 32"
  by (simp add: toy_key_def)

section \<open>Properties\<close>

text \<open>An encrypted backup that arrives in one piece decrypts, with the same key, to the data
  that was encrypted, however that data was cut into chunks, and the tag is verified.\<close>

lemma encrypted_backup_roundtrip:
  assumes "encrypt_stream C G key name iv now chunks = Inr (out, st)" and "concat chunks \<noteq> []"
    and "params_ok C G (header_for C name iv now) iv"
  shows "\<exists>st'. decrypt_stream C G key [out] = (concat chunks, Inr st') \<and> d_phase st' = InTag"
  using assms by (rule roundtrip_run)

lemma encrypted_backup_roundtrip_witness:
  "\<exists>out st. encrypt_stream toy_codec toy_gcm toy_key ''f.sql.gz'' toy_iv ''now'' [[1, 2], [3]] = Inr (out, st) \<and>
     (\<exists>st'. decrypt_stream toy_codec toy_gcm toy_key [out] = ([1, 2, 3], Inr st') \<and> d_phase st' = InTag)"
proof -
  obtain out st where run: "encrypt_stream toy_codec toy_gcm toy_key ''f.sql.gz'' toy_iv ''now'' [[1, 2], [3]] = Inr (out, st)"
    by (simp add: encrypt_stream_def enc_new_def enc_transform_def enc_update_def Let_def enc_flush_def toy_codec_def
        ascii_def enc_header_def)
  from encrypted_backup_roundtrip [OF run] run show ?thesis by simp
qed

text \<open>Whatever bytes and chunks decryption is given, if it ends with the tag consumed, then the
  tag is the one of AES-GCM for all the ciphertext it has seen under the header's IV, and the
  output is that ciphertext deciphered.\<close>

lemma decrypt_authentic:
  assumes "decrypt_stream C G key chunks = (out, Inr st)" and "d_phase st = InTag"
  shows "d_tag st = Some (g_tag G (d_key st) (the (d_iv st)) (d_ct st)) \<and>
    out = gcm_xor G (d_key st) (the (d_iv st)) 0 (d_ct st)"
proof -
  have "dec_inv G [] (dec_new key)" by (simp add: dec_inv_def dec_new_def)
  from dec_chunks_inv [OF assms(1) [unfolded decrypt_stream_def] this assms(2)] assms(2) show ?thesis
    by (simp add: dec_inv_def)
qed

lemma decrypt_authentic_witness:
  "\<exists>out st st'. encrypt_stream toy_codec toy_gcm toy_key ''f.sql.gz'' toy_iv ''now'' [[7]] = Inr (out, st) \<and>
     snd (decrypt_stream toy_codec toy_gcm toy_key [out]) = Inr st' \<and>
     d_tag st' = Some (g_tag toy_gcm (d_key st') (the (d_iv st')) (d_ct st'))"
proof -
  obtain out st where run: "encrypt_stream toy_codec toy_gcm toy_key ''f.sql.gz'' toy_iv ''now'' [[7]] = Inr (out, st)"
    by (simp add: encrypt_stream_def enc_new_def enc_transform_def enc_update_def Let_def enc_flush_def toy_codec_def
        ascii_def enc_header_def)
  from roundtrip_run [OF run _ toy_params] obtain out' st'
    where r: "decrypt_stream toy_codec toy_gcm toy_key [out] = (out', Inr st')" "d_phase st' = InTag" by auto
  have "d_tag st' = Some (g_tag toy_gcm (d_key st') (the (d_iv st')) (d_ct st'))"
    using decrypt_authentic [OF r] by (rule conjunct1)
  with r(1) run show ?thesis by (metis snd_conv)
qed

text \<open>Decryption takes the last twenty bytes of the first chunk that holds more than that
  after the header for the tag. So a file that arrives in several chunks (more than the
  64 KiB that \<open>createReadStream\<close> reads at a time) is rejected as soon as the four bytes
  there do not happen to spell the number sixteen; nothing is decrypted.\<close>

lemma decrypt_in_chunks_rejected:
  assumes "params_ok C G (header_for C name iv now) iv" and "length (hex_bytes key) = 32"
    and "first = be32 (length (c_json C (header_for C name iv now))) @ c_json C (header_for C name iv now) @ part"
    and "length part > 20" and "read_be32 (drop (length part - 20) part) \<noteq> 16"
  shows "decrypt_stream C G key (first # rest) =
    ([], Inl (invalid_tag_length (read_be32 (drop (length part - 20) part))))"
proof -
  let ?h = "header_for C name iv now"
  have "dec_data G (in_data C key ?h iv part) = ([], Inl (invalid_tag_length (read_be32 (drop (length part - 20) part))))"
    using assms(4,5) by (simp add: dec_data_def in_data_def TAG_LENGTH_def Let_def)
  with dec_transform_header [OF assms(1,2), of part] assms(3) show ?thesis
    by (simp add: decrypt_stream_def)
qed

lemma decrypt_in_chunks_rejected_witness:
  "snd (decrypt_stream toy_codec toy_gcm toy_key
      [be32 4 @ ascii ''CQ=='' @ replicate 30 0, replicate 30 0]) = Inl (invalid_tag_length 0)"
proof -
  have c: "c_json toy_codec (header_for toy_codec ''f.sql.gz'' toy_iv ''now'') = ascii ''CQ==''"
    by (simp add: toy_codec_def header_for_def)
  have "length (ascii ''CQ=='') = 4" by (simp add: ascii_def)
  moreover have "read_be32 (drop (length (replicate 30 0) - 20) (replicate 30 (0 :: 8 word))) = 0"
    by (simp add: read_be32_def drop_replicate take_replicate numeral_eq_Suc)
  ultimately show ?thesis
    using decrypt_in_chunks_rejected [OF toy_params toy_key_length refl, of "replicate 30 0" "[replicate 30 0]"]
    by (simp add: c)
qed

text \<open>A file cut off anywhere in the header, or within three bytes after it, decrypts to the empty
  output without an error: nothing at the end of the stream checks that a tag was seen.\<close>

lemma decrypt_truncated_silent:
  assumes "params_ok C G (header_for C name iv now) iv" and "length (hex_bytes key) = 32"
    and "whole = be32 (length (c_json C (header_for C name iv now))) @ c_json C (header_for C name iv now) @ rest"
    and "k \<le> 4 + length (c_json C (header_for C name iv now)) + 3"
  shows "\<exists>st. decrypt_stream C G key [take k whole] = ([], Inr st) \<and> d_phase st \<noteq> InTag"
proof (cases "k < 4 + length (c_json C (header_for C name iv now))")
  case True
  let ?hj = "c_json C (header_for C name iv now)"
  have "take k whole = take k (be32 (length ?hj) @ ?hj)" using True assms(3) by simp
  moreover have "length (take k whole) = k" using True assms(3) by simp
  ultimately obtain st where "dec_transform C G (dec_new key) (take k whole) = ([], Inr st)" "d_phase st = InHeader"
    using dec_transform_short [of "take k whole" ?hj C G key] True assms(1) by (auto simp: params_ok_def)
  then show ?thesis by (simp add: decrypt_stream_def dec_flush_def)
next
  case False
  let ?h = "header_for C name iv now"
  obtain d where k: "k = 4 + length (c_json C ?h) + d" and d: "d \<le> 3"
    using False assms(4) by (metis add_le_cancel_left le_Suc_ex not_less)
  have cut: "take k whole = be32 (length (c_json C ?h)) @ c_json C ?h @ take d rest"
    using assms(3) by (simp add: k)
  have "dec_data G (in_data C key ?h iv (take d rest)) = ([], Inr (in_data C key ?h iv (take d rest)))"
  proof -
    have "length (take d rest) \<le> 20" using d by simp
    then show ?thesis by (simp add: dec_data_def in_data_def TAG_LENGTH_def del: length_take)
  qed
  with dec_transform_header [OF assms(1,2), of "take d rest"] d show ?thesis
    unfolding cut by (simp add: decrypt_stream_def dec_flush_def in_data_def)
qed

lemma decrypt_truncated_silent_witness:
  "\<exists>st. decrypt_stream toy_codec toy_gcm toy_key [take 6 (be32 4 @ ascii ''CQ=='' @ [])] = ([], Inr st) \<and> d_phase st \<noteq> InTag"
proof -
  have c: "c_json toy_codec (header_for toy_codec ''f.sql.gz'' toy_iv ''now'') = ascii ''CQ==''"
    by (simp add: toy_codec_def header_for_def)
  have "length (ascii ''CQ=='') = 4" by (simp add: ascii_def)
  with decrypt_truncated_silent [OF toy_params toy_key_length refl, of 6 "[]"] show ?thesis by (simp add: c)
qed

end
