(* ===== verification/BinlogHeader.thy ===== *)
theory BinlogHeader
  imports Bytes
begin

text \<open>
  \<open>mysql/transforms/binlog-header.ts\<close>: the transform that reads the replication coordinate out of
  the head of a dump while the dump passes through. Its regular expression is matched by a
  backtracking matcher: a matcher returns the ways to match a prefix, in JavaScript's order of
  preference, each with what it captured and the rest of the input. Chunks are decoded byte by
  byte, which agrees with UTF-8 on the ASCII text the expression looks for.
\<close>

section \<open>Matching\<close>

type_synonym 'a matcher = "string \<Rightarrow> ('a \<times> string) list"

definition lower :: "char \<Rightarrow> char" where
  "lower c = (let n = of_char c :: int in if 65 \<le> n \<and> n \<le> 90 then char_of (n + 32) else c)"

text \<open>A literal under the \<open>i\<close> flag.\<close>

definition rx_lit :: "string \<Rightarrow> unit matcher" where
  "rx_lit w s = (if map lower (take (length w) s) = map lower w then [((), drop (length w) s)] else [])"

text \<open>A greedy repetition of a character class, longest first.\<close>

fun rx_star :: "(char \<Rightarrow> bool) \<Rightarrow> string matcher" where
  "rx_star P [] = [([], [])]"
| "rx_star P (c # s) = (if P c then map (\<lambda>(a, r). (c # a, r)) (rx_star P s) @ [([], c # s)] else [([], c # s)])"

definition rx_plus :: "(char \<Rightarrow> bool) \<Rightarrow> string matcher" where
  "rx_plus P s = filter (\<lambda>(a, r). a \<noteq> []) (rx_star P s)"

definition rx_then :: "'a matcher \<Rightarrow> ('a \<Rightarrow> 'b matcher) \<Rightarrow> 'b matcher" where
  "rx_then m k s = concat (map (\<lambda>(a, r). k a r) (m s))"

definition rx_alt :: "string list \<Rightarrow> unit matcher" where
  "rx_alt ws s = concat (map (\<lambda>w. rx_lit w s) ws)"

definition rx_return :: "'a \<Rightarrow> 'a matcher" where
  "rx_return x s = [(x, s)]"

definition dot :: "char \<Rightarrow> bool" where
  "dot c \<longleftrightarrow> c \<noteq> CHR 0x0A \<and> c \<noteq> CHR 0x0D"

definition is_digit :: "char \<Rightarrow> bool" where
  "is_digit c \<longleftrightarrow> 48 \<le> (of_char c :: int) \<and> (of_char c :: int) \<le> 57"

definition digits_value :: "string \<Rightarrow> int" where
  "digits_value ds = foldl (\<lambda>a c. a * 10 + (of_char c - 48)) 0 ds"

definition coordinate_rx :: "(string \<times> int) matcher" where
  "coordinate_rx =
     rx_then (rx_lit ''--'') (\<lambda>_.
     rx_then (rx_alt ['''', '' CHANGE MASTER TO'', '' CHANGE REPLICATION SOURCE TO'']) (\<lambda>_.
     rx_then (rx_star dot) (\<lambda>_.
     rx_then (rx_alt [''MASTER_LOG_FILE'', ''SOURCE_LOG_FILE'']) (\<lambda>_.
     rx_then (rx_lit (''='' @ [CHR 0x27])) (\<lambda>_.
     rx_then (rx_plus (\<lambda>c. c \<noteq> CHR 0x27)) (\<lambda>f.
     rx_then (rx_lit ([CHR 0x27] @ '','')) (\<lambda>_.
     rx_then (rx_star dot) (\<lambda>_.
     rx_then (rx_alt [''MASTER_LOG_POS'', ''SOURCE_LOG_POS'']) (\<lambda>_.
     rx_then (rx_lit ''='') (\<lambda>_.
     rx_then (rx_plus is_digit) (\<lambda>n.
     rx_then (rx_lit '';'') (\<lambda>_.
     rx_return (f, digits_value n)))))))))))))"

text \<open>\<open>s.match(rx)\<close>: the first way to match at the first position that has one.\<close>

fun rx_search :: "'a matcher \<Rightarrow> string \<Rightarrow> 'a option" where
  "rx_search m [] = (case m [] of (a, _) # _ \<Rightarrow> Some a | [] \<Rightarrow> None)"
| "rx_search m (c # s) = (case m (c # s) of (a, _) # _ \<Rightarrow> Some a | [] \<Rightarrow> rx_search m s)"

section \<open>The transform\<close>

record binlog_header =
  b_buffer :: string
  b_bytesRead :: nat
  b_parsed :: bool
  b_file :: "string option"
  b_position :: "int option"

definition maxBytes :: nat where "maxBytes = 1024 * 200"

definition binlog_header_new :: binlog_header where
  "binlog_header_new = \<lparr>b_buffer = '''', b_bytesRead = 0, b_parsed = False, b_file = None, b_position = None\<rparr>"

definition binlog_transform :: "binlog_header \<Rightarrow> bytes \<Rightarrow> bytes \<times> binlog_header" where
  "binlog_transform st chunk =
     (chunk,
      if \<not> b_parsed st \<and> b_bytesRead st < maxBytes then
        (let buf = b_buffer st @ text_of chunk;
             st' = st\<lparr>b_buffer := buf, b_bytesRead := b_bytesRead st + length chunk\<rparr> in
         case rx_search coordinate_rx buf of
           None \<Rightarrow> st'
         | Some (f, n) \<Rightarrow> st'\<lparr>b_file := Some f, b_position := Some n, b_parsed := True\<rparr>)
      else st)"

definition getBinlogCoordinate :: "binlog_header \<Rightarrow> string option \<times> int option" where
  "getBinlogCoordinate st = (b_file st, b_position st)"

fun binlog_chunks :: "binlog_header \<Rightarrow> bytes list \<Rightarrow> bytes \<times> binlog_header" where
  "binlog_chunks st [] = ([], st)"
| "binlog_chunks st (c # cs) = (case binlog_transform st c of (out, st') \<Rightarrow>
     (case binlog_chunks st' cs of (out', st'') \<Rightarrow> (out @ out', st'')))"

section \<open>Properties\<close>

definition header_ok :: "binlog_header \<Rightarrow> string \<Rightarrow> bool" where
  "header_ok st seen \<longleftrightarrow> (\<exists>rest. seen = b_buffer st @ rest) \<and> length (b_buffer st) = b_bytesRead st \<and>
     (if b_parsed st
      then \<exists>f n. b_file st = Some f \<and> b_position st = Some n \<and> rx_search coordinate_rx (b_buffer st) = Some (f, n)
      else b_file st = None \<and> b_position st = None \<and>
        (b_bytesRead st \<ge> maxBytes \<or> seen = b_buffer st))"

lemma binlog_transform_ok:
  assumes "header_ok st seen"
  shows "header_ok (snd (binlog_transform st chunk)) (seen @ text_of chunk)"
proof (cases "\<not> b_parsed st \<and> b_bytesRead st < maxBytes")
  case True
  with assms have "seen = b_buffer st" and "length (b_buffer st) = b_bytesRead st"
    by (auto simp: header_ok_def)
  with True show ?thesis
    using assms
    by (auto simp: binlog_transform_def Let_def header_ok_def text_of_def split: option.splits)
next
  case False
  with assms show ?thesis by (auto simp: binlog_transform_def header_ok_def)
qed

lemma binlog_chunks_ok:
  "header_ok st seen \<Longrightarrow> fst (binlog_chunks st cs) = concat cs \<and>
     header_ok (snd (binlog_chunks st cs)) (seen @ text_of (concat cs))"
proof (induction cs arbitrary: st seen)
  case Nil
  then show ?case by (simp add: text_of_def)
next
  case (Cons c cs)
  obtain st' where t: "binlog_transform st c = (c, st')" by (simp add: binlog_transform_def)
  with binlog_transform_ok [OF Cons.prems, of c] have "header_ok st' (seen @ text_of c)" by simp
  from Cons.IH [OF this] t show ?case
    by (cases "binlog_chunks st' cs") (simp add: text_of_def)
qed

text \<open>The dump passes through unchanged whatever its chunks are, and the coordinate is taken
  from a prefix of the dump that the expression matches: it is absent only when no prefix read up to the
  200 KiB limit, or the whole dump, has been seen to match.\<close>

lemma binlog_header_stream:
  "fst (binlog_chunks binlog_header_new cs) = concat cs \<and>
   (case getBinlogCoordinate (snd (binlog_chunks binlog_header_new cs)) of
      (Some f, Some n) \<Rightarrow> \<exists>k. rx_search coordinate_rx (take k (text_of (concat cs))) = Some (f, n)
    | (None, None) \<Rightarrow> True
    | _ \<Rightarrow> False)"
proof -
  have "header_ok binlog_header_new ''''" by (simp add: header_ok_def binlog_header_new_def)
  from binlog_chunks_ok [OF this, of cs] have out: "fst (binlog_chunks binlog_header_new cs) = concat cs"
    and ok: "header_ok (snd (binlog_chunks binlog_header_new cs)) (text_of (concat cs))" by auto
  show ?thesis
  proof (cases "b_parsed (snd (binlog_chunks binlog_header_new cs))")
    case True
    with ok obtain f n rest where "getBinlogCoordinate (snd (binlog_chunks binlog_header_new cs)) = (Some f, Some n)"
      and m: "rx_search coordinate_rx (b_buffer (snd (binlog_chunks binlog_header_new cs))) = Some (f, n)"
      and "text_of (concat cs) = b_buffer (snd (binlog_chunks binlog_header_new cs)) @ rest"
      by (auto simp: header_ok_def getBinlogCoordinate_def)
    moreover have "\<exists>k. rx_search coordinate_rx (take k (text_of (concat cs))) = Some (f, n)"
      using m \<open>text_of (concat cs) = _\<close> by (intro exI [of _ "length (b_buffer (snd (binlog_chunks binlog_header_new cs)))"]) simp
    ultimately show ?thesis using out by simp
  next
    case False
    with ok out show ?thesis by (simp add: header_ok_def getBinlogCoordinate_def)
  qed
qed

text \<open>The line \<open>mysqldump --source-data=2\<close> writes, in the new and the old wording.\<close>

lemma coordinate_new_wording:
  "rx_search coordinate_rx (''-- CHANGE REPLICATION SOURCE TO SOURCE_LOG_FILE='' @ [CHR 0x27] @ ''b.1'' @ [CHR 0x27]
     @ '', SOURCE_LOG_POS=157;'') = Some (''b.1'', 157)"
  by code_simp

lemma coordinate_old_wording:
  "rx_search coordinate_rx (''-- CHANGE MASTER TO MASTER_LOG_FILE='' @ [CHR 0x27] @ ''b.2'' @ [CHR 0x27]
     @ '', MASTER_LOG_POS=4;'') = Some (''b.2'', 4)"
  by code_simp

end
