(* ===== verification/MysqlMeta.thy ===== *)
theory MysqlMeta
  imports FileLock NodePath MysqlTransforms BinlogHeader
begin

text \<open>
  Backup metadata of the MySQL service (\<open>mysql/types.ts\<close> and the metadata half of
  \<open>mysql/manager.ts\<close>): the records kept in \<open>metadata.json\<close>, \<open>saveMetadata\<close>, \<open>listMetadata\<close>,
  \<open>getBackupChain\<close>, \<open>validateBackupChain\<close>, \<open>listBackupChains\<close> and \<open>cleanup\<close>.

  The manager's world is the record \<open>mgr\<close>: its lock instance, the content of the metadata
  file, the backup files by path, the restore lock file, the MySQL connection and its pending
  promise, the tracked child processes, the transforms of the backup being written, and a tick that counts the calls to the operating
  system; \<open>m_spawned\<close>, \<open>m_signalled\<close>, \<open>m_imported\<close> and \<open>m_slept\<close> record what was done to the outside
  (commands, signals, data piped into \<open>mysql\<close>, delays). What those calls answer is given by \<open>mgr_env\<close>, indexed by the tick.
\<close>

section \<open>Data\<close>

datatype backup_kind = Full | Incremental
datatype backup_status = Pending | Running | Success | Failed

record backup_meta =
  meta_id :: string
  meta_type :: backup_kind
  database :: string
  baseBackupId :: "string option"
  parentBackupId :: "string option"
  backupLevel :: "int option"
  fullBackupId :: "string option"
  startBinlogFile :: string
  startBinlogPosition :: int
  endBinlogFile :: "string option"
  endBinlogPosition :: "int option"
  binlogFiles :: "string list option"
  timestamp :: int
  meta_size :: int
  file_name :: string
  checksum :: "string option"
  encrypted :: bool
  status :: "backup_status option"

record backup_chain =
  fullBackup :: backup_meta
  increments :: "backup_meta list"

text \<open>\<open>metadata.json\<close>: not there, not parsable, or an array of entries.\<close>

datatype meta_content = Absent | Corrupt | Entries "backup_meta list"

record mgr =
  m_flock :: flock
  m_meta :: meta_content
  m_files :: "string \<Rightarrow> bytes option"
  m_restore_lock :: bool
  m_isRestoring :: bool
  m_conn :: "nat option"
  m_connPromise :: "(js_error + nat) option"
  m_procs :: "nat list"
  m_signalled :: "(nat \<times> string) list"
  m_spawned :: "(string \<times> string list \<times> string option) list"
  m_imported :: "bytes list"
  m_header :: binlog_header
  m_checksum :: checksum_st
  m_slept :: "nat list"
  m_tick :: nat

record mgr_env =
  e_open :: "nat \<Rightarrow> open_result"
  e_close_ok :: "nat \<Rightarrow> bool"
  e_unlink_ok :: "nat \<Rightarrow> bool"
  e_io :: "nat \<Rightarrow> js_error option"
  e_torn :: "nat \<Rightarrow> bool"
  e_dir :: string
  e_sha256 :: "bytes \<Rightarrow> string"

fun status_str :: "backup_status \<Rightarrow> string" where
  "status_str Pending = ''pending''"
| "status_str Running = ''running''"
| "status_str Success = ''success''"
| "status_str Failed = ''failed''"

text \<open>\<open>m.status && m.status !== 'success'\<close>.\<close>

definition status_bad :: "backup_meta \<Rightarrow> bool" where
  "status_bad m \<longleftrightarrow> (case status m of None \<Rightarrow> False | Some st \<Rightarrow> st \<noteq> Success)"

definition meta_status :: "backup_meta \<Rightarrow> string" where
  "meta_status m = (case status m of None \<Rightarrow> ''undefined'' | Some st \<Rightarrow> status_str st)"

text \<open>\<open>path.join(this.backupDir, file)\<close>.\<close>

definition backup_path :: "mgr_env \<Rightarrow> string \<Rightarrow> string" where
  "backup_path E f = path_join [e_dir E, f]"

section \<open>Operating system calls and the lock\<close>

text \<open>One asynchronous file operation: fails as the environment says, or goes through.\<close>

definition io :: "mgr_env \<Rightarrow> (mgr, unit) prog" where
  "io E = (\<lambda>s. let s' = s\<lparr>m_tick := Suc (m_tick s)\<rparr> in
     (case e_io E (m_tick s) of Some e \<Rightarrow> (Inl e, s') | None \<Rightarrow> (Inr (), s')))"

definition lock_acquire :: "mgr_env \<Rightarrow> (mgr, unit) prog" where
  "lock_acquire E = (\<lambda>s. case flock_acquire (\<lambda>k. e_open E (m_tick s + k)) (m_flock s) of
     (r, l', sl) \<Rightarrow> (r, s\<lparr>m_flock := l', m_slept := m_slept s @ sl, m_tick := m_tick s + maxRetries\<rparr>))"

definition lock_release :: "mgr_env \<Rightarrow> (mgr, unit) prog" where
  "lock_release E = (\<lambda>s.
     (Inr (), s\<lparr>m_flock := fst (flock_release (e_close_ok E (m_tick s)) (e_unlink_ok E (m_tick s))
                 (m_flock s) True), m_tick := Suc (m_tick s)\<rparr>))"

definition locked :: "mgr_env \<Rightarrow> (mgr, 'a) prog \<Rightarrow> (mgr, 'a) prog" where
  "locked E m = seqp (lock_acquire E) (try_finally m (lock_release E))"

section \<open>The metadata file\<close>

definition listMetadata :: "mgr_env \<Rightarrow> (mgr, backup_meta list) prog" where
  "listMetadata E = bnd (gets m_meta) (\<lambda>c. case c of
     Absent \<Rightarrow> ret []
   | Corrupt \<Rightarrow> seqp (io E) (ret [])
   | Entries xs \<Rightarrow> seqp (io E) (ret xs))"

definition put_meta :: "backup_meta \<Rightarrow> backup_meta list \<Rightarrow> backup_meta list" where
  "put_meta m xs = filter (\<lambda>x. meta_id x \<noteq> meta_id m) xs @ [m]"

text \<open>
  \<open>fs.writeFile\<close> truncates the file before it writes: one that fails leaves the old content or
  a file that no longer parses.
\<close>

definition writeMetadata :: "mgr_env \<Rightarrow> backup_meta list \<Rightarrow> (mgr, unit) prog" where
  "writeMetadata E xs = try_catch
     (seqp (io E) (modify_st (\<lambda>s. s\<lparr>m_meta := Entries xs\<rparr>)))
     (\<lambda>e. seqp (modify_st (\<lambda>s. if e_torn E (m_tick s) then s\<lparr>m_meta := Corrupt\<rparr> else s)) (throw e))"

definition saveMetadata :: "mgr_env \<Rightarrow> backup_meta \<Rightarrow> (mgr, unit) prog" where
  "saveMetadata E m = locked E
     (bnd (listMetadata E) (\<lambda>xs. writeMetadata E (put_meta m xs)))"

definition find_meta :: "backup_meta list \<Rightarrow> string \<Rightarrow> backup_meta option" where
  "find_meta xs i = List.find (\<lambda>m. meta_id m = i) xs"

text \<open>What a reader of the file sees.\<close>

fun entries_of :: "meta_content \<Rightarrow> backup_meta list" where
  "entries_of (Entries xs) = xs"
| "entries_of _ = []"

section \<open>Backup chains\<close>

definition broken_chain :: "string \<Rightarrow> backup_meta \<Rightarrow> js_error" where
  "broken_chain p m = new_Error (''Broken backup chain: parent '' @ [CHR 0x27] @ p @ [CHR 0x27]
     @ '' missing for backup '' @ [CHR 0x27] @ meta_id m @ [CHR 0x27] @ ''.'')"

definition circular_chain :: "backup_meta \<Rightarrow> js_error" where
  "circular_chain m = new_Error (''Circular parent backup reference detected at '' @ [CHR 0x27]
     @ meta_id m @ [CHR 0x27] @ ''.'')"

definition bad_root :: "backup_meta \<Rightarrow> js_error" where
  "bad_root m = new_Error (''Chain root '' @ [CHR 0x27] @ meta_id m @ [CHR 0x27]
     @ '' is not a full base backup.'')"

text \<open>
  The \<open>while (current.parentBackupId)\<close> loop. It stops because every step adds an identifier of
  the file that is not in \<open>chainList\<close> yet.
\<close>

function chain_walk :: "backup_meta list \<Rightarrow> backup_meta list \<Rightarrow> backup_meta \<Rightarrow>
    js_error + backup_meta list" where
  "chain_walk allMetadata chainList current =
     (if truthy_s (parentBackupId current) then
        (case find_meta allMetadata (the (parentBackupId current)) of
           None \<Rightarrow> Inl (broken_chain (the (parentBackupId current)) current)
         | Some parent \<Rightarrow>
             if list_ex (\<lambda>item. meta_id item = meta_id parent) chainList
             then Inl (circular_chain parent)
             else chain_walk allMetadata (parent # chainList) parent)
      else Inr chainList)"
  by pat_completeness auto
termination
proof (relation "measure (\<lambda>(xs, ch, c). card (meta_id ` set xs - meta_id ` set ch))", goal_cases)
  case 1
  show ?case by simp
next
  case (2 xs ch c p)
  then have p: "p \<in> set xs" "meta_id p \<notin> meta_id ` set ch"
    by (auto simp: find_meta_def list_ex_iff dest: find_SomeD)
  then have "meta_id ` set xs - meta_id ` set (p # ch) \<subset> meta_id ` set xs - meta_id ` set ch"
    by auto
  then show ?case by (simp add: psubset_card_mono)
qed

declare chain_walk.simps [simp del]

definition chain_from :: "backup_meta list \<Rightarrow> string \<Rightarrow> js_error + backup_chain option" where
  "chain_from allMetadata targetBackupId =
     (case find_meta allMetadata targetBackupId of
        None \<Rightarrow> Inr None
      | Some target \<Rightarrow>
          (case chain_walk allMetadata [target] target of
             Inl e \<Rightarrow> Inl e
           | Inr chainList \<Rightarrow>
               if meta_type (hd chainList) \<noteq> Full then Inl (bad_root (hd chainList))
               else Inr (Some \<lparr>fullBackup = hd chainList, increments = tl chainList\<rparr>)))"

definition getBackupChain :: "mgr_env \<Rightarrow> string \<Rightarrow> (mgr, backup_chain option) prog" where
  "getBackupChain E targetBackupId = locked E
     (bnd (listMetadata E) (\<lambda>xs. lift_res (chain_from xs targetBackupId)))"

fun collect_chains :: "mgr_env \<Rightarrow> backup_meta list \<Rightarrow> (mgr, backup_chain list) prog" where
  "collect_chains E [] = ret []"
| "collect_chains E (full # fulls) = bnd (getBackupChain E (meta_id full)) (\<lambda>c.
     bnd (collect_chains E fulls) (\<lambda>cs. ret (case c of None \<Rightarrow> cs | Some chain \<Rightarrow> chain # cs)))"

definition listBackupChains :: "mgr_env \<Rightarrow> (mgr, backup_chain list) prog" where
  "listBackupChains E = locked E (bnd (listMetadata E) (\<lambda>allMetadata.
     collect_chains E (filter (\<lambda>m. meta_type m = Full \<and> status m = Some Success) allMetadata)))"

section \<open>Validation\<close>

definition end_file :: "backup_meta \<Rightarrow> string" where
  "end_file m = or_s (endBinlogFile m) (startBinlogFile m)"

definition end_pos :: "backup_meta \<Rightarrow> int" where
  "end_pos m = or_n (endBinlogPosition m) (startBinlogPosition m)"

definition calculateFileChecksum :: "mgr_env \<Rightarrow> string \<Rightarrow> (mgr, string) prog" where
  "calculateFileChecksum E path = seqp (io E) (bnd (gets (\<lambda>s. m_files s path)) (\<lambda>c. case c of
     None \<Rightarrow> throw (JsError ''ENOENT'' (''ENOENT: no such file or directory, open '' @ path))
   | Some bs \<Rightarrow> ret (e_sha256 E bs)))"

definition in_quotes :: "string \<Rightarrow> string" where
  "in_quotes s = [CHR 0x27] @ s @ [CHR 0x27]"

text \<open>Status, presence and checksum of one file of the chain; \<open>kind\<close> words the errors.\<close>

definition check_artifact :: "mgr_env \<Rightarrow> string \<Rightarrow> string \<Rightarrow> string \<Rightarrow> backup_meta \<Rightarrow> (mgr, unit) prog" where
  "check_artifact E what missing mismatch m =
     seqp (if status_bad m then throw (new_Error (what @ '' '' @ in_quotes (meta_id m) @ '' status is ''
             @ in_quotes (meta_status m) @ ''. Restore rejected.'')) else ret ())
    (bnd (gets (\<lambda>s. m_files s (backup_path E (file_name m)))) (\<lambda>c. case c of
       None \<Rightarrow> throw (new_Error (missing @ '' file missing from storage: '' @ backup_path E (file_name m)))
     | Some _ \<Rightarrow>
         if truthy_s (checksum m) then
           bnd (calculateFileChecksum E (backup_path E (file_name m))) (\<lambda>calculated.
             if calculated \<noteq> the (checksum m)
             then throw (new_Error (''Checksum mismatch for '' @ mismatch @ '' '' @ in_quotes (meta_id m)
                    @ ''. File may be corrupted.''))
             else ret ())
         else ret ()))"

definition check_link :: "backup_meta \<Rightarrow> backup_meta \<Rightarrow> (mgr, unit) prog" where
  "check_link previous current =
     (if startBinlogFile current \<noteq> end_file previous \<or> startBinlogPosition current \<noteq> end_pos previous
      then throw (new_Error (''Coordinate discontinuity in chain between '' @ in_quotes (meta_id previous)
             @ '' (ends at '' @ end_file previous @ '':'' @ str_int (end_pos previous) @ '') and ''
             @ in_quotes (meta_id current) @ '' (starts at '' @ startBinlogFile current @ '':''
             @ str_int (startBinlogPosition current) @ '').''))
      else
        (let expectedLevel = nullish (backupLevel previous) 0 + 1 in
         case backupLevel current of
           None \<Rightarrow> ret ()
         | Some lvl \<Rightarrow>
             if lvl \<noteq> expectedLevel
             then throw (new_Error (''Level mismatch in chain for backup '' @ in_quotes (meta_id current)
                    @ ''. Expected level '' @ str_int expectedLevel @ '', got '' @ str_int lvl @ ''.''))
             else ret ()))"

fun validate_increments :: "mgr_env \<Rightarrow> backup_meta \<Rightarrow> backup_meta list \<Rightarrow> (mgr, unit) prog" where
  "validate_increments E previous [] = ret ()"
| "validate_increments E previous (current # rest) =
     seqp (check_artifact E ''Incremental backup'' ''Incremental backup'' ''incremental backup'' current)
    (seqp (check_link previous current)
          (validate_increments E current rest))"

definition validateBackupChain :: "mgr_env \<Rightarrow> backup_chain \<Rightarrow> (mgr, unit) prog" where
  "validateBackupChain E chain =
     seqp (check_artifact E ''Full base backup'' ''Base backup'' ''base backup'' (fullBackup chain))
          (validate_increments E (fullBackup chain) (increments chain))"

section \<open>Retention\<close>

definition day_ms :: int where "day_ms = 86400000"

text \<open>The \<open>try\<close> block of the deletion loop; \<open>fs.rm\<close> may fail, which is logged and ignored.\<close>

definition delete_backup_file :: "mgr_env \<Rightarrow> backup_meta \<Rightarrow> (mgr, unit) prog" where
  "delete_backup_file E m = try_catch
     (bnd (gets (\<lambda>s. m_files s (backup_path E (file_name m)))) (\<lambda>c. case c of
        None \<Rightarrow> ret ()
      | Some _ \<Rightarrow> seqp (io E)
          (modify_st (\<lambda>s. s\<lparr>m_files := (m_files s)(backup_path E (file_name m) := None)\<rparr>))))
     (\<lambda>_. ret ())"

definition cleanup :: "mgr_env \<Rightarrow> int \<Rightarrow> int \<Rightarrow> (mgr, unit) prog" where
  "cleanup E now retentionDays = locked E (bnd (listMetadata E) (\<lambda>allMetadata.
     let cutoff = now - retentionDays * day_ms;
         toDelete = filter (\<lambda>m. timestamp m < cutoff) allMetadata;
         toKeep = filter (\<lambda>m. \<not> timestamp m < cutoff) allMetadata
     in seqp (for_each toDelete (delete_backup_file E)) (writeMetadata E toKeep)))"

end
