(* ===== verification/MysqlChain.thy ===== *)
theory MysqlChain
  imports MysqlMeta
begin

text \<open>
  Correctness of the metadata half of the MySQL manager: \<open>getBackupChain\<close> finds exactly the
  chains of the file, \<open>validateBackupChain\<close> accepts exactly the contiguous ones whose files
  are intact, \<open>saveMetadata\<close> is an insert-or-replace, every operation gives its lock back, and
  what the in-process reentrancy of the lock does to two overlapping calls.
\<close>

section \<open>The walk to the root\<close>

lemma list_ex_id [simp]: "list_ex (\<lambda>item. meta_id item = k) ch \<longleftrightarrow> k \<in> meta_id ` set ch"
  by (auto simp: list_ex_iff)

lemma chain_walk_root [simp]: "\<not> truthy_s (parentBackupId c) \<Longrightarrow> chain_walk xs ch c = Inr ch"
  by (subst chain_walk.simps) simp

lemma chain_walk_broken [simp]:
  "parentBackupId c = Some i \<Longrightarrow> i \<noteq> '''' \<Longrightarrow> find_meta xs i = None \<Longrightarrow>
     chain_walk xs ch c = Inl (broken_chain i c)"
  by (subst chain_walk.simps) simp

lemma chain_walk_circular [simp]:
  "parentBackupId c = Some i \<Longrightarrow> i \<noteq> '''' \<Longrightarrow> find_meta xs i = Some p \<Longrightarrow>
     meta_id p \<in> meta_id ` set ch \<Longrightarrow> chain_walk xs ch c = Inl (circular_chain p)"
  by (subst chain_walk.simps) simp

lemma chain_walk_step [simp]:
  "parentBackupId c = Some i \<Longrightarrow> i \<noteq> '''' \<Longrightarrow> find_meta xs i = Some p \<Longrightarrow>
     meta_id p \<notin> meta_id ` set ch \<Longrightarrow> chain_walk xs ch c = chain_walk xs (p # ch) p"
  by (subst chain_walk.simps) simp

text \<open>The specification: parent links, from a full backup to the target.\<close>

definition parent_link :: "backup_meta \<Rightarrow> backup_meta \<Rightarrow> bool" where
  "parent_link p c \<longleftrightarrow> parentBackupId c = Some (meta_id p) \<and> meta_id p \<noteq> ''''"

definition chain_members :: "backup_chain \<Rightarrow> backup_meta list" where
  "chain_members c = fullBackup c # increments c"

definition is_path :: "backup_meta list \<Rightarrow> backup_meta list \<Rightarrow> bool" where
  "is_path xs ms \<longleftrightarrow> set ms \<subseteq> set xs \<and> distinct (map meta_id ms) \<and> successively parent_link ms"

definition is_chain :: "backup_meta list \<Rightarrow> string \<Rightarrow> backup_chain \<Rightarrow> bool" where
  "is_chain xs i c \<longleftrightarrow> is_path xs (chain_members c) \<and> \<not> truthy_s (parentBackupId (fullBackup c)) \<and>
     meta_type (fullBackup c) = Full \<and> meta_id (last (chain_members c)) = i"

lemma find_meta_Some: "find_meta xs i = Some m \<Longrightarrow> m \<in> set xs \<and> meta_id m = i"
  by (auto simp: find_meta_def dest: find_SomeD)

lemma find_meta_distinct: "distinct (map meta_id xs) \<Longrightarrow> m \<in> set xs \<Longrightarrow> find_meta xs (meta_id m) = Some m"
  by (simp add: find_meta_def find_distinct)

lemma chain_walk_sound:
  "chain_walk xs ch c = Inr r \<Longrightarrow> ch \<noteq> [] \<Longrightarrow> hd ch = c \<Longrightarrow> is_path xs ch \<Longrightarrow>
     is_path xs r \<and> r \<noteq> [] \<and> \<not> truthy_s (parentBackupId (hd r)) \<and> last r = last ch"
proof (induction xs ch c rule: chain_walk.induct)
  case (1 xs ch c)
  show ?case
  proof (cases "truthy_s (parentBackupId c)")
    case False
    with "1.prems" show ?thesis by simp
  next
    case True
    then obtain i where i: "parentBackupId c = Some i" "i \<noteq> ''''" by (auto simp: truthy_s_iff)
    with "1.prems"(1) obtain p where p: "find_meta xs i = Some p"
      by (cases "find_meta xs i") auto
    with i "1.prems"(1) have new: "meta_id p \<notin> meta_id ` set ch" by (cases "meta_id p \<in> meta_id ` set ch") auto
    from i p new "1.prems"(1) have walk: "chain_walk xs (p # ch) p = Inr r" by simp
    from p have pm: "p \<in> set xs" "meta_id p = i" by (auto dest: find_meta_Some)
    have "is_path xs (p # ch)"
      using "1.prems"(2-4) pm i new by (cases ch) (auto simp: is_path_def parent_link_def)
    moreover have "\<not> list_ex (\<lambda>item. meta_id item = meta_id p) ch" using new by simp
    ultimately have "is_path xs r \<and> r \<noteq> [] \<and> \<not> truthy_s (parentBackupId (hd r)) \<and> last r = last (p # ch)"
      using "1.IH" [OF True, of p] i p walk by simp
    with "1.prems"(2) show ?thesis by simp
  qed
qed

lemma chain_walk_complete:
  "distinct (map meta_id xs) \<Longrightarrow> is_path xs (pre @ c # rest) \<Longrightarrow>
     \<not> truthy_s (parentBackupId (hd (pre @ [c]))) \<Longrightarrow>
     chain_walk xs (c # rest) c = Inr (pre @ c # rest)"
proof (induction pre arbitrary: c rest rule: rev_induct)
  case Nil
  then show ?case by simp
next
  case (snoc p pre)
  then have link: "parent_link p c" and pin: "p \<in> set xs"
    and new: "meta_id p \<notin> meta_id ` set (c # rest)"
    by (auto simp: is_path_def successively_append_iff)
  have "chain_walk xs (p # c # rest) p = Inr (pre @ p # c # rest)"
    using snoc.prems by (intro snoc.IH) (auto simp: hd_append split: if_splits)
  with link new find_meta_distinct [OF snoc.prems(1) pin] show ?case
    by (simp add: parent_link_def)
qed

lemma chain_from_sound: "chain_from xs i = Inr (Some c) \<Longrightarrow> is_chain xs i c"
proof -
  assume run: "chain_from xs i = Inr (Some c)"
  then obtain t ch where t: "find_meta xs i = Some t" and w: "chain_walk xs [t] t = Inr ch"
    and full: "meta_type (hd ch) = Full" and c: "c = \<lparr>fullBackup = hd ch, increments = tl ch\<rparr>"
    by (auto simp: chain_from_def split: option.splits sum.splits if_splits)
  from t have "t \<in> set xs" "meta_id t = i" by (auto dest: find_meta_Some)
  with chain_walk_sound [OF w] full c show ?thesis
    by (auto simp: is_chain_def chain_members_def is_path_def)
qed

lemma chain_from_complete:
  assumes d: "distinct (map meta_id xs)" and c: "is_chain xs i c"
  shows "chain_from xs i = Inr (Some c)"
proof -
  obtain pre t where ms: "chain_members c = pre @ [t]"
    by (metis append_butlast_last_id chain_members_def list.distinct(1))
  with c have t: "t \<in> set xs" "meta_id t = i" by (auto simp: is_chain_def is_path_def)
  have hd: "hd (pre @ [t]) = fullBackup c" "tl (pre @ [t]) = increments c"
    using ms by (metis chain_members_def list.sel)+
  with c ms have "chain_walk xs [t] t = Inr (pre @ [t])"
    by (intro chain_walk_complete d) (auto simp: is_chain_def)
  with t c hd find_meta_distinct [OF d t(1)] show ?thesis
    by (simp add: chain_from_def is_chain_def)
qed

lemma chain_from_None: "chain_from xs i = Inr None \<longleftrightarrow> find_meta xs i = None"
  by (auto simp: chain_from_def split: option.splits sum.splits)

section \<open>The lock contract, discharged by the manager\<close>

interpretation mlock: reentrant_lock "lock_acquire E" "lock_release E"
    "\<lambda>s. flock_depth (m_flock s)" "\<lambda>s. flock_ok (m_flock s)" for E
proof (unfold_locales, goal_cases)
  case (1 s u s')
  then show ?case
    by (auto simp: lock_acquire_def split: prod.splits dest: flock_acquire_Inr)
next
  case (2 s e s')
  then show ?case
    by (auto simp: lock_acquire_def split: prod.splits dest: flock_acquire_Inl)
next
  case (3 s)
  then show ?case
    by (cases "flock_release (e_close_ok E (m_tick s)) (e_unlink_ok E (m_tick s)) (m_flock s) True")
       (auto simp: lock_release_def dest: flock_release_ok)
qed

lemma balanced_io [intro!]: "mlock.balanced (io E)"
  by (auto simp: mlock.balanced_def io_def Let_def split: option.splits)

lemma balanced_manager_locked [intro!]: "mlock.balanced m \<Longrightarrow> mlock.balanced (locked E m)"
  unfolding locked_def by (rule mlock.balanced_locked)

lemma balanced_listMetadata [intro!]: "mlock.balanced (listMetadata E)"
  unfolding listMetadata_def
  by (intro mlock.balanced_intros) (auto split: meta_content.split intro!: mlock.balanced_intros)

lemma balanced_writeMetadata [intro!]: "mlock.balanced (writeMetadata E xs)"
  unfolding writeMetadata_def
  by (intro mlock.balanced_try_catch mlock.balanced_bnd balanced_io mlock.balanced_modify mlock.balanced_throw) simp_all

lemma balanced_saveMetadata [intro!]: "mlock.balanced (saveMetadata E m)"
  unfolding saveMetadata_def by (intro balanced_manager_locked mlock.balanced_bnd) auto

lemma balanced_getBackupChain [intro!]: "mlock.balanced (getBackupChain E i)"
  unfolding getBackupChain_def
  by (intro balanced_manager_locked mlock.balanced_bnd mlock.balanced_lift_res) auto

lemma balanced_collect_chains [intro!]: "mlock.balanced (collect_chains E xs)"
  by (induction xs) (auto intro!: mlock.balanced_intros)

lemma balanced_listBackupChains [intro!]: "mlock.balanced (listBackupChains E)"
  unfolding listBackupChains_def by (intro balanced_manager_locked mlock.balanced_bnd) auto

lemma balanced_delete [intro!]: "mlock.balanced (delete_backup_file E m)"
  unfolding delete_backup_file_def
  by (intro mlock.balanced_try_catch mlock.balanced_bnd)
     (auto split: option.split intro!: mlock.balanced_intros mlock.balanced_modify)

lemma balanced_cleanup [intro!]: "mlock.balanced (cleanup E now d)"
  unfolding cleanup_def Let_def
  by (intro balanced_manager_locked mlock.balanced_bnd mlock.balanced_for_each) auto

section \<open>Saving and reading back\<close>

lemma find_put_meta: "find_meta (put_meta m xs) i = (if i = meta_id m then Some m else find_meta xs i)"
  by (auto simp: find_meta_def put_meta_def keyed split: option.split)

lemma distinct_put_meta: "distinct (map meta_id xs) \<Longrightarrow> distinct (map meta_id (put_meta m xs))"
  by (auto simp: put_meta_def intro: distinct_map_filter_keyed)

lemma listMetadata_frame:
  "listMetadata E s = (r, s') \<Longrightarrow> m_meta s' = m_meta s \<and> m_files s' = m_files s \<and>
     (\<forall>xs. r = Inr xs \<longrightarrow> xs = entries_of (m_meta s))"
  by (auto simp: listMetadata_def io_def prog_defs Let_def split: meta_content.splits option.splits)

lemma lock_acquire_frame: "lock_acquire E s = (r, s') \<Longrightarrow> m_meta s' = m_meta s \<and> m_files s' = m_files s"
  by (auto simp: lock_acquire_def split: prod.splits)

lemma lock_release_frame: "lock_release E s = (r, s') \<Longrightarrow> r = Inr () \<and> m_meta s' = m_meta s \<and> m_files s' = m_files s"
  by (auto simp: lock_release_def)

lemma writeMetadata_Inr: "writeMetadata E xs s = (Inr u, s') \<Longrightarrow> m_meta s' = Entries xs \<and> m_files s' = m_files s"
  by (auto simp: writeMetadata_def io_def prog_defs Let_def split: option.splits)

lemma writeMetadata_Inl: "writeMetadata E xs s = (Inl e, s') \<Longrightarrow>
     (m_meta s' = m_meta s \<or> m_meta s' = Corrupt) \<and> m_files s' = m_files s"
  by (auto simp: writeMetadata_def io_def prog_defs Let_def split: option.splits)

text \<open>What a locked section leaves behind is what its body leaves behind.\<close>

lemma locked_Inr:
  assumes "locked E m s = (Inr x, s')"
  obtains s1 s2 where "lock_acquire E s = (Inr (), s1)" "m s1 = (Inr x, s2)"
    "m_meta s1 = m_meta s" "m_files s1 = m_files s" "m_meta s' = m_meta s2" "m_files s' = m_files s2"
  using assms
  by (auto simp: locked_def prog_defs split: prod.splits sum.splits
      dest!: lock_acquire_frame lock_release_frame)

lemma locked_Inl:
  assumes "locked E m s = (Inl e, s')"
  obtains "m_meta s' = m_meta s" "m_files s' = m_files s"
  | s1 s2 where "m s1 = (Inl e, s2)"
    "m_meta s1 = m_meta s" "m_files s1 = m_files s" "m_meta s' = m_meta s2" "m_files s' = m_files s2"
  using assms
  by (auto simp: locked_def prog_defs split: prod.splits sum.splits
      dest!: lock_acquire_frame lock_release_frame)

lemma saveMetadata_entries:
  assumes "saveMetadata E m s = (Inr u, s')"
  shows "entries_of (m_meta s') = put_meta m (entries_of (m_meta s))"
proof (rule locked_Inr [OF assms [unfolded saveMetadata_def]])
  fix s1 s2
  assume body: "bnd (listMetadata E) (\<lambda>xs. writeMetadata E (put_meta m xs)) s1 = (Inr u, s2)"
    and frame: "m_meta s1 = m_meta s" "m_meta s' = m_meta s2"
  from body obtain xs s3 where "listMetadata E s1 = (Inr xs, s3)"
    and "writeMetadata E (put_meta m xs) s3 = (Inr u, s2)"
    unfolding bnd_Inr_iff by blast
  with frame show ?thesis using listMetadata_frame writeMetadata_Inr by (metis entries_of.simps(1))
qed

lemma saveMetadata_error:
  assumes "saveMetadata E m s = (Inl e, s')"
  shows "m_meta s' = m_meta s \<or> m_meta s' = Corrupt"
proof (rule locked_Inl [OF assms [unfolded saveMetadata_def]])
  fix s1 s2
  assume body: "bnd (listMetadata E) (\<lambda>xs. writeMetadata E (put_meta m xs)) s1 = (Inl e, s2)"
    and frame: "m_meta s1 = m_meta s" "m_meta s' = m_meta s2"
  from body have "m_meta s2 = m_meta s1 \<or> m_meta s2 = Corrupt"
    unfolding bnd_Inl_iff using listMetadata_frame writeMetadata_Inl by (metis (no_types, lifting))
  with frame show ?thesis by simp
qed simp

section \<open>Reading chains back\<close>

lemma getBackupChain_run:
  assumes "getBackupChain E i s = (r, s')"
  shows "m_meta s' = m_meta s \<and> m_files s' = m_files s \<and>
    (\<forall>c. r = Inr c \<longrightarrow> chain_from (entries_of (m_meta s)) i = Inr c)"
proof (cases r)
  case (Inr c)
  show ?thesis
  proof (rule locked_Inr [OF assms [unfolded Inr getBackupChain_def]])
    fix s1 s2
    assume body: "bnd (listMetadata E) (\<lambda>xs. lift_res (chain_from xs i)) s1 = (Inr c, s2)"
      and frame: "m_meta s1 = m_meta s" "m_files s1 = m_files s" "m_meta s' = m_meta s2" "m_files s' = m_files s2"
    from body obtain xs s3 where l: "listMetadata E s1 = (Inr xs, s3)" and "chain_from xs i = Inr c" "s3 = s2"
      unfolding bnd_Inr_iff by (auto simp: lift_res_def)
    with frame Inr listMetadata_frame [OF l] show ?thesis by simp
  qed
next
  case (Inl e)
  show ?thesis
  proof (rule locked_Inl [OF assms [unfolded Inl getBackupChain_def]])
    fix s1 s2
    assume body: "bnd (listMetadata E) (\<lambda>xs. lift_res (chain_from xs i)) s1 = (Inl e, s2)"
      and frame: "m_meta s1 = m_meta s" "m_files s1 = m_files s" "m_meta s' = m_meta s2" "m_files s' = m_files s2"
    from body have "m_meta s2 = m_meta s1 \<and> m_files s2 = m_files s1"
      unfolding bnd_Inl_iff by (auto simp: lift_res_def dest!: listMetadata_frame)
    with frame Inl show ?thesis by simp
  qed (simp add: Inl)
qed

lemma chain_from_full:
  assumes "distinct (map meta_id xs)" and "m \<in> set xs" and "meta_type m = Full"
    and "\<not> truthy_s (parentBackupId m)"
  shows "chain_from xs (meta_id m) = Inr (Some \<lparr>fullBackup = m, increments = []\<rparr>)"
  using assms by (simp add: chain_from_def find_meta_distinct)

lemma collect_chains_full:
  assumes "collect_chains E ms s = (Inr cs, s')" and "distinct (map meta_id (entries_of (m_meta s)))"
    and "\<forall>m\<in>set ms. m \<in> set (entries_of (m_meta s)) \<and> meta_type m = Full \<and> \<not> truthy_s (parentBackupId m)"
  shows "cs = map (\<lambda>m. \<lparr>fullBackup = m, increments = []\<rparr>) ms"
  using assms
proof (induction ms arbitrary: s s' cs)
  case Nil
  then show ?case by (simp add: ret_def)
next
  case (Cons m ms)
  from Cons.prems(1) obtain c s1 cs' s2 where g: "getBackupChain E (meta_id m) s = (Inr c, s1)"
    and rest: "collect_chains E ms s1 = (Inr cs', s2)"
    and cs: "cs = (case c of None \<Rightarrow> cs' | Some ch \<Rightarrow> ch # cs')"
    by (auto simp: bnd_Inr_iff ret_def)
  note run = getBackupChain_run [OF g]
  have "c = Some \<lparr>fullBackup = m, increments = []\<rparr>"
    using run Cons.prems chain_from_full [of "entries_of (m_meta s)" m] by simp
  moreover have "cs' = map (\<lambda>m. \<lparr>fullBackup = m, increments = []\<rparr>) ms"
    by (rule Cons.IH [OF rest]) (use Cons.prems run in simp_all)
  ultimately show ?case using cs by simp
qed

lemma listBackupChains_full:
  assumes run: "listBackupChains E s = (Inr cs, s')"
    and d: "distinct (map meta_id (entries_of (m_meta s)))"
    and full: "\<forall>m\<in>set (entries_of (m_meta s)). meta_type m = Full \<longrightarrow> \<not> truthy_s (parentBackupId m)"
  shows "cs = map (\<lambda>m. \<lparr>fullBackup = m, increments = []\<rparr>)
     (filter (\<lambda>m. meta_type m = Full \<and> status m = Some Success) (entries_of (m_meta s)))"
proof (rule locked_Inr [OF run [unfolded listBackupChains_def]])
  fix s1 s2
  assume body: "bnd (listMetadata E) (\<lambda>allMetadata. collect_chains E
      (filter (\<lambda>m. meta_type m = Full \<and> status m = Some Success) allMetadata)) s1 = (Inr cs, s2)"
    and frame: "m_meta s1 = m_meta s"
  from body obtain xs s3 where l: "listMetadata E s1 = (Inr xs, s3)"
    and c: "collect_chains E (filter (\<lambda>m. meta_type m = Full \<and> status m = Some Success) xs) s3 = (Inr cs, s2)"
    unfolding bnd_Inr_iff by blast
  with frame listMetadata_frame [OF l] show ?thesis
    using collect_chains_full [OF c] d full by auto
qed

section \<open>Validation\<close>

definition artifact_ok :: "mgr_env \<Rightarrow> (string \<Rightarrow> bytes option) \<Rightarrow> backup_meta \<Rightarrow> bool" where
  "artifact_ok E files m \<longleftrightarrow> \<not> status_bad m \<and>
     (\<exists>bs. files (backup_path E (file_name m)) = Some bs \<and>
        (truthy_s (checksum m) \<longrightarrow> checksum m = Some (e_sha256 E bs)))"

definition link_ok :: "backup_meta \<Rightarrow> backup_meta \<Rightarrow> bool" where
  "link_ok p c \<longleftrightarrow> startBinlogFile c = end_file p \<and> startBinlogPosition c = end_pos p \<and>
     (backupLevel c = None \<or> backupLevel c = Some (nullish (backupLevel p) 0 + 1))"

definition chain_valid :: "mgr_env \<Rightarrow> (string \<Rightarrow> bytes option) \<Rightarrow> backup_chain \<Rightarrow> bool" where
  "chain_valid E files c \<longleftrightarrow> (\<forall>m\<in>set (chain_members c). artifact_ok E files m) \<and>
     successively link_ok (chain_members c)"

definition io_safe :: "mgr_env \<Rightarrow> bool" where
  "io_safe E \<longleftrightarrow> (\<forall>t. e_io E t = None)"

lemma io_cases: "io E s = (r, s') \<Longrightarrow> s' = s\<lparr>m_tick := Suc (m_tick s)\<rparr> \<and> (io_safe E \<longrightarrow> r = Inr ())"
  by (auto simp: io_def io_safe_def Let_def split: option.splits)

lemma calculateFileChecksum_run:
  "calculateFileChecksum E path s = (r, s') \<Longrightarrow> s' = s\<lparr>m_tick := Suc (m_tick s)\<rparr> \<and>
     (\<forall>c. r = Inr c \<longrightarrow> (\<exists>bs. m_files s path = Some bs \<and> c = e_sha256 E bs)) \<and>
     (\<forall>bs. io_safe E \<longrightarrow> m_files s path = Some bs \<longrightarrow> r = Inr (e_sha256 E bs))"
  by (cases "io E s")
     (auto simp: calculateFileChecksum_def bnd_def gets_def ret_def throw_def
        split: sum.splits option.splits dest!: io_cases)

lemma check_artifact_run:
  assumes "check_artifact E a b c m s = (r, s')"
  shows "m_files s' = m_files s \<and> m_meta s' = m_meta s \<and>
    (r = Inr () \<longrightarrow> artifact_ok E (m_files s) m) \<and> (io_safe E \<longrightarrow> artifact_ok E (m_files s) m \<longrightarrow> r = Inr ())"
proof (cases "status_bad m \<or> m_files s (backup_path E (file_name m)) = None")
  case True
  with assms show ?thesis
    by (auto simp: check_artifact_def bnd_def gets_def ret_def throw_def artifact_ok_def split: if_splits)
next
  case False
  then obtain bs where bs: "m_files s (backup_path E (file_name m)) = Some bs" "\<not> status_bad m" by auto
  show ?thesis
  proof (cases "truthy_s (checksum m)")
    case False
    with bs assms show ?thesis
      by (auto simp: check_artifact_def bnd_def gets_def ret_def artifact_ok_def)
  next
    case True
    obtain r1 s1 where c: "calculateFileChecksum E (backup_path E (file_name m)) s = (r1, s1)"
      by (cases "calculateFileChecksum E (backup_path E (file_name m)) s")
    from True obtain ck where ck: "checksum m = Some ck" by (auto simp: truthy_s_iff)
    from calculateFileChecksum_run [OF c] bs True ck c assms show ?thesis
      by (cases r1)
         (auto simp: check_artifact_def bnd_def gets_def ret_def throw_def artifact_ok_def split: if_splits)
  qed
qed

lemma check_link_run: "check_link p c s = (r, s') \<Longrightarrow> s' = s \<and> (r = Inr () \<longleftrightarrow> link_ok p c)"
  by (auto simp: check_link_def link_ok_def ret_def throw_def Let_def split: if_splits option.splits)

lemma validate_increments_run:
  "validate_increments E p ms s = (r, s') \<Longrightarrow> m_files s' = m_files s \<and> m_meta s' = m_meta s \<and>
     (r = Inr () \<longrightarrow> (\<forall>m\<in>set ms. artifact_ok E (m_files s) m) \<and> successively link_ok (p # ms)) \<and>
     (io_safe E \<longrightarrow> (\<forall>m\<in>set ms. artifact_ok E (m_files s) m) \<and> successively link_ok (p # ms) \<longrightarrow> r = Inr ())"
proof (induction ms arbitrary: p s)
  case Nil
  then show ?case by (simp add: ret_def)
next
  case (Cons m ms)
  obtain r1 s1 where a: "check_artifact E ''Incremental backup'' ''Incremental backup'' ''incremental backup'' m s = (r1, s1)"
    by fastforce
  obtain r2 s2 where l: "check_link p m s1 = (r2, s2)" by fastforce
  note a' = check_artifact_run [OF a] and l' = check_link_run [OF l]
  show ?case
  proof (cases r1)
    case (Inl e)
    with a a' Cons.prems show ?thesis by (auto simp: bnd_def)
  next
    case r1: (Inr u)
    show ?thesis
    proof (cases r2)
      case (Inl e)
      with r1 a l a' l' Cons.prems show ?thesis by (auto simp: bnd_def)
    next
      case (Inr v)
      with r1 a l l' Cons.prems have "validate_increments E m ms s1 = (r, s')" by (simp add: bnd_def)
      note IH = Cons.IH [OF this]
      have eq: "m_files s1 = m_files s" "m_meta s1 = m_meta s" "artifact_ok E (m_files s) m" "link_ok p m"
        using a' l' r1 Inr by simp_all
      have split: "(\<forall>x\<in>set (m # ms). artifact_ok E (m_files s) x) \<and> successively link_ok (p # m # ms) \<longleftrightarrow>
          (\<forall>x\<in>set ms. artifact_ok E (m_files s) x) \<and> successively link_ok (m # ms)"
        using eq by simp
      show ?thesis using IH unfolding split eq(1,2) .
    qed
  qed
qed

lemma validateBackupChain_run:
  assumes "validateBackupChain E c s = (r, s')"
  shows "m_files s' = m_files s \<and> m_meta s' = m_meta s \<and>
     (r = Inr () \<longrightarrow> chain_valid E (m_files s) c) \<and> (io_safe E \<longrightarrow> chain_valid E (m_files s) c \<longrightarrow> r = Inr ())"
proof -
  obtain r1 s1 where a: "check_artifact E ''Full base backup'' ''Base backup'' ''base backup'' (fullBackup c) s = (r1, s1)"
    by fastforce
  note a' = check_artifact_run [OF a]
  show ?thesis
  proof (cases r1)
    case (Inl e)
    with a a' assms show ?thesis
      by (auto simp: validateBackupChain_def bnd_def chain_valid_def chain_members_def)
  next
    case (Inr u)
    with a assms have "validate_increments E (fullBackup c) (increments c) s1 = (r, s')"
      by (simp add: validateBackupChain_def bnd_def)
    note run = validate_increments_run [OF this]
    have eq: "m_files s1 = m_files s" "m_meta s1 = m_meta s" "artifact_ok E (m_files s) (fullBackup c)"
      using a' Inr by simp_all
    have split: "chain_valid E (m_files s) c \<longleftrightarrow> (\<forall>m\<in>set (increments c). artifact_ok E (m_files s) m) \<and>
        successively link_ok (fullBackup c # increments c)"
      using eq(3) by (simp add: chain_valid_def chain_members_def)
    show ?thesis using run unfolding split eq(1,2) .
  qed
qed

section \<open>Retention\<close>

lemma delete_backup_file_run:
  assumes "delete_backup_file E m s = (r, s')"
  shows "r = Inr () \<and> m_meta s' = m_meta s \<and>
    (\<forall>p. p \<noteq> backup_path E (file_name m) \<longrightarrow> m_files s' p = m_files s p) \<and>
    (\<forall>p. m_files s p = None \<longrightarrow> m_files s' p = None) \<and>
    (io_safe E \<longrightarrow> m_files s' (backup_path E (file_name m)) = None)"
proof (cases "m_files s (backup_path E (file_name m))")
  case None
  with assms show ?thesis by (auto simp: delete_backup_file_def prog_defs)
next
  case (Some bs)
  obtain r1 s1 where i: "io E s = (r1, s1)" by fastforce
  with Some assms io_cases [OF i] show ?thesis
    by (cases r1) (auto simp: delete_backup_file_def prog_defs)
qed

lemma delete_loop_run:
  "for_each ms (delete_backup_file E) s = (r, s') \<Longrightarrow> r = Inr () \<and> m_meta s' = m_meta s \<and>
     (\<forall>p. p \<notin> backup_path E ` file_name ` set ms \<longrightarrow> m_files s' p = m_files s p) \<and>
     (\<forall>p. m_files s p = None \<longrightarrow> m_files s' p = None) \<and>
     (io_safe E \<longrightarrow> (\<forall>m\<in>set ms. m_files s' (backup_path E (file_name m)) = None))"
proof (induction ms arbitrary: s)
  case Nil
  then show ?case by (simp add: ret_def)
next
  case (Cons m ms)
  obtain r1 s1 where d: "delete_backup_file E m s = (r1, s1)" by fastforce
  note d' = delete_backup_file_run [OF d]
  with d Cons.prems have "for_each ms (delete_backup_file E) s1 = (r, s')" by (simp add: bnd_def)
  note IH = Cons.IH [OF this]
  show ?case
  proof (intro conjI allI impI ballI)
    show "r = Inr ()" "m_meta s' = m_meta s" using IH d' by simp_all
    show "m_files s' p = m_files s p" if "p \<notin> backup_path E ` file_name ` set (m # ms)" for p
      using IH d' that by simp
    show "m_files s' p = None" if "m_files s p = None" for p using IH d' that by simp
    show "m_files s' (backup_path E (file_name x)) = None" if "io_safe E" "x \<in> set (m # ms)" for x
      using IH d' that by auto
  qed
qed

definition expired :: "int \<Rightarrow> int \<Rightarrow> backup_meta \<Rightarrow> bool" where
  "expired now days m \<longleftrightarrow> timestamp m < now - days * day_ms"

lemma cleanup_run:
  assumes "cleanup E now days s = (Inr u, s')"
  defines "xs \<equiv> entries_of (m_meta s)"
  shows "m_meta s' = Entries (filter (\<lambda>m. \<not> expired now days m) xs) \<and>
    (\<forall>p. p \<notin> backup_path E ` file_name ` set (filter (expired now days) xs) \<longrightarrow> m_files s' p = m_files s p) \<and>
    (io_safe E \<longrightarrow> (\<forall>m\<in>set (filter (expired now days) xs). m_files s' (backup_path E (file_name m)) = None))"
proof (rule locked_Inr [OF assms(1) [unfolded cleanup_def Let_def]])
  fix s1 s2
  assume body: "bnd (listMetadata E) (\<lambda>ms. seqp
      (for_each (filter (\<lambda>m. timestamp m < now - days * day_ms) ms) (delete_backup_file E))
      (writeMetadata E (filter (\<lambda>m. \<not> timestamp m < now - days * day_ms) ms))) s1 = (Inr u, s2)"
    and frame: "m_meta s1 = m_meta s" "m_files s1 = m_files s" "m_meta s' = m_meta s2" "m_files s' = m_files s2"
  from body obtain ms s3 v s4 where l: "listMetadata E s1 = (Inr ms, s3)"
    and d: "for_each (filter (expired now days) ms) (delete_backup_file E) s3 = (Inr v, s4)"
    and w: "writeMetadata E (filter (\<lambda>m. \<not> expired now days m) ms) s4 = (Inr u, s2)"
    unfolding bnd_Inr_iff expired_def by blast
  have "ms = xs" "m_files s3 = m_files s" using listMetadata_frame [OF l] frame by (auto simp: xs_def)
  with delete_loop_run [OF d] writeMetadata_Inr [OF w] frame show ?thesis by simp
qed

lemma chain_from_orphan:
  assumes "distinct (map meta_id xs)" and "inc \<in> set xs" and "P inc" and "parent_link full inc"
    and "full \<in> set xs" and "\<not> P full"
  shows "chain_from (filter P xs) (meta_id inc) = Inl (broken_chain (meta_id full) inc)"
proof -
  have "find_meta (filter P xs) (meta_id inc) = Some inc"
    using assms by (intro find_meta_distinct) (auto intro: distinct_map_filter_keyed)
  moreover have "find_meta (filter P xs) (meta_id full) = None"
  proof (rule ccontr)
    assume "find_meta (filter P xs) (meta_id full) \<noteq> None"
    then obtain m where "m \<in> set xs" "P m" "meta_id m = meta_id full" by (auto dest!: find_meta_Some)
    with assms find_meta_distinct [OF assms(1)] have "m = full" by (metis option.inject)
    with \<open>P m\<close> assms(6) show False by simp
  qed
  ultimately show ?thesis using assms(4) by (simp add: chain_from_def parent_link_def)
qed

section \<open>Overlapping calls in one process\<close>

text \<open>
  The service keeps one manager (\<open>getInstance\<close>), hence one lock instance, for all requests, and
  \<open>saveMetadata\<close> gives up the event loop at every \<open>await\<close>. A task is one call of it; a step
  runs one task from one \<open>await\<close> to the next.
\<close>

datatype task_pc = AtStart | HasLock | HasRead "backup_meta list" | Finished

type_synonym tasks = "mgr \<times> (nat \<Rightarrow> task_pc)"

inductive save_step :: "mgr_env \<Rightarrow> (nat \<Rightarrow> backup_meta) \<Rightarrow> tasks \<Rightarrow> tasks \<Rightarrow> bool"
  for E :: mgr_env and entry :: "nat \<Rightarrow> backup_meta" where
  s_acquire: "pcs i = AtStart \<Longrightarrow> lock_acquire E s = (Inr (), s') \<Longrightarrow>
     save_step E entry (s, pcs) (s', pcs(i := HasLock))"
| s_read: "pcs i = HasLock \<Longrightarrow> listMetadata E s = (Inr xs, s') \<Longrightarrow>
     save_step E entry (s, pcs) (s', pcs(i := HasRead xs))"
| s_write: "pcs i = HasRead xs \<Longrightarrow>
     seqp (writeMetadata E (put_meta (entry i) xs)) (lock_release E) s = (Inr (), s') \<Longrightarrow>
     save_step E entry (s, pcs) (s', pcs(i := Finished))"

inductive_cases save_step_from_start: "save_step E entry (s, pcs) t"

text \<open>A task that is not interrupted does what \<open>saveMetadata\<close> does.\<close>

lemma save_steps_uninterrupted:
  assumes "saveMetadata E (entry i) s = (Inr (), s')" and "pcs i = AtStart"
  shows "(save_step E entry)\<^sup>*\<^sup>* (s, pcs) (s', pcs(i := Finished))"
proof -
  obtain s1 xs s2 s3 where acq: "lock_acquire E s = (Inr (), s1)"
    and rd: "listMetadata E s1 = (Inr xs, s2)"
    and wr: "writeMetadata E (put_meta (entry i) xs) s2 = (Inr (), s3)" and rel: "lock_release E s3 = (Inr (), s')"
  proof -
    from assms(1) obtain s1 where a: "lock_acquire E s = (Inr (), s1)"
      and f: "try_finally (bnd (listMetadata E) (\<lambda>xs. writeMetadata E (put_meta (entry i) xs))) (lock_release E) s1
        = (Inr (), s')"
      by (auto simp: saveMetadata_def locked_def bnd_Inr_iff)
    obtain r2 s3 where b: "bnd (listMetadata E) (\<lambda>xs. writeMetadata E (put_meta (entry i) xs)) s1 = (r2, s3)"
      by fastforce
    with f have "r2 = Inr ()" and "lock_release E s3 = (Inr (), s')"
      by (auto simp: try_finally_def lock_release_def split: prod.splits sum.splits)
    with a b that show ?thesis by (auto simp: bnd_Inr_iff)
  qed
  have 1: "save_step E entry (s, pcs) (s1, pcs(i := HasLock))"
    by (rule save_step.s_acquire) fact+
  have 2: "save_step E entry (s1, pcs(i := HasLock)) (s2, (pcs(i := HasLock))(i := HasRead xs))"
    by (rule save_step.s_read) (simp, fact)
  have 3: "save_step E entry (s2, (pcs(i := HasLock))(i := HasRead xs))
      (s', ((pcs(i := HasLock))(i := HasRead xs))(i := Finished))"
    by (rule save_step.s_write) (use wr rel in \<open>auto simp: bnd_Inr_iff\<close>)
  have "((pcs(i := HasLock))(i := HasRead xs))(i := Finished) = pcs(i := Finished)" by simp
  then show ?thesis using 1 2 3
    by (metis (no_types, lifting) converse_rtranclp_into_rtranclp rtranclp.rtrancl_refl)
qed

text \<open>Where the operating system cooperates, the single steps go through.\<close>

definition opens :: "mgr_env \<Rightarrow> bool" where
  "opens E \<longleftrightarrow> (\<forall>k. \<exists>fd. e_open E k = Opened fd)"

lemma lock_acquire_opens:
  assumes "opens E"
  shows "\<exists>s'. lock_acquire E s = (Inr (), s') \<and> m_meta s' = m_meta s \<and> m_files s' = m_files s"
proof -
  obtain fd where fd: "e_open E (m_tick s + 0) = Opened fd" using assms by (auto simp: opens_def)
  show ?thesis
  proof (cases "lock_fd (m_flock s)")
    case None
    with fd show ?thesis by (simp add: lock_acquire_def flock_acquire_def)
  next
    case (Some n)
    then show ?thesis by (simp add: lock_acquire_def flock_acquire_def)
  qed
qed

lemma listMetadata_safe:
  assumes "io_safe E"
  shows "\<exists>s'. listMetadata E s = (Inr (entries_of (m_meta s)), s') \<and> m_meta s' = m_meta s \<and> m_files s' = m_files s"
  using assms by (cases "m_meta s") (simp_all add: listMetadata_def prog_defs io_def io_safe_def)

lemma writeMetadata_safe:
  assumes "io_safe E"
  shows "\<exists>s'. seqp (writeMetadata E xs) (lock_release E) s = (Inr (), s') \<and> m_meta s' = Entries xs"
  using assms by (simp add: writeMetadata_def lock_release_def prog_defs io_def io_safe_def)

lemma locked_safe:
  assumes "opens E"
  shows "\<exists>s1. m_meta s1 = m_meta s \<and> m_files s1 = m_files s \<and>
    (\<forall>x s2. m s1 = (Inr x, s2) \<longrightarrow>
       (\<exists>s'. locked E m s = (Inr x, s') \<and> m_meta s' = m_meta s2 \<and> m_files s' = m_files s2))"
proof -
  obtain s1 where s1: "lock_acquire E s = (Inr (), s1)" "m_meta s1 = m_meta s" "m_files s1 = m_files s"
    using lock_acquire_opens [OF assms] by blast
  then have "\<exists>s'. locked E m s = (Inr x, s') \<and> m_meta s' = m_meta s2 \<and> m_files s' = m_files s2"
    if "m s1 = (Inr x, s2)" for x s2
    using that by (simp add: locked_def bnd_def try_finally_def lock_release_def)
  with s1 show ?thesis by blast
qed

lemma getBackupChain_safe:
  assumes "opens E" and "io_safe E" and "chain_from (entries_of (m_meta s)) i = Inr c"
  shows "\<exists>s'. getBackupChain E i s = (Inr c, s') \<and> m_meta s' = m_meta s \<and> m_files s' = m_files s"
proof -
  let ?body = "bnd (listMetadata E) (\<lambda>xs. lift_res (chain_from xs i))"
  obtain s1 where s1: "m_meta s1 = m_meta s" "m_files s1 = m_files s"
    and run: "\<And>x s2. ?body s1 = (Inr x, s2) \<Longrightarrow>
      \<exists>s'. locked E ?body s = (Inr x, s') \<and> m_meta s' = m_meta s2 \<and> m_files s' = m_files s2"
    using locked_safe [OF assms(1), of s ?body] by blast
  obtain s2 where s2: "listMetadata E s1 = (Inr (entries_of (m_meta s1)), s2)" "m_meta s2 = m_meta s1" "m_files s2 = m_files s1"
    using listMetadata_safe [OF assms(2)] by blast
  have "bnd (listMetadata E) (\<lambda>xs. lift_res (chain_from xs i)) s1 = (Inr c, s2)"
    using s1 s2 assms(3) by (simp add: bnd_def lift_res_def)
  from run [OF this] s1 s2 show ?thesis by (simp add: getBackupChain_def)
qed

lemma save_overlap:
  assumes "opens E" and "io_safe E"
  defines "pcs \<equiv> (\<lambda>_. AtStart)"
  shows "\<exists>s'. (save_step E entry)\<^sup>*\<^sup>* (s, pcs) (s', pcs(0 := Finished, 1 := Finished)) \<and>
    m_meta s' = Entries (put_meta (entry 1) (entries_of (m_meta s)))"
proof -
  let ?xs = "entries_of (m_meta s)"
  obtain s1 where s1: "lock_acquire E s = (Inr (), s1)" "m_meta s1 = m_meta s"
    using lock_acquire_opens [OF assms(1)] by blast
  obtain s2 where s2: "lock_acquire E s1 = (Inr (), s2)" "m_meta s2 = m_meta s1"
    using lock_acquire_opens [OF assms(1)] by blast
  obtain s3 where s3: "listMetadata E s2 = (Inr ?xs, s3)" "m_meta s3 = m_meta s2"
    using listMetadata_safe [OF assms(2), of s2] s1 s2 by auto
  obtain s4 where s4: "listMetadata E s3 = (Inr ?xs, s4)"
    using listMetadata_safe [OF assms(2), of s3] s1 s2 s3 by auto
  obtain s5 where s5: "seqp (writeMetadata E (put_meta (entry 0) ?xs)) (lock_release E) s4 = (Inr (), s5)"
    using writeMetadata_safe [OF assms(2)] by blast
  obtain s6 where s6: "seqp (writeMetadata E (put_meta (entry 1) ?xs)) (lock_release E) s5 = (Inr (), s6)"
    "m_meta s6 = Entries (put_meta (entry 1) ?xs)"
    using writeMetadata_safe [OF assms(2)] by blast
  let ?p1 = "pcs(0 := HasLock)"
  let ?p2 = "?p1(1 := HasLock)"
  let ?p3 = "?p2(0 := HasRead ?xs)"
  let ?p4 = "?p3(1 := HasRead ?xs)"
  let ?p5 = "?p4(0 := Finished)"
  let ?p6 = "?p5(1 := Finished)"
  have a: "save_step E entry (s, pcs) (s1, ?p1)" by (rule save_step.s_acquire) (simp_all add: pcs_def s1)
  have b: "save_step E entry (s1, ?p1) (s2, ?p2)" by (rule save_step.s_acquire) (simp_all add: pcs_def s2)
  have c: "save_step E entry (s2, ?p2) (s3, ?p3)" by (rule save_step.s_read) (simp_all add: s3)
  have d: "save_step E entry (s3, ?p3) (s4, ?p4)" by (rule save_step.s_read) (simp_all add: s4)
  have e: "save_step E entry (s4, ?p4) (s5, ?p5)" by (rule save_step.s_write) (simp, rule s5)
  have f: "save_step E entry (s5, ?p5) (s6, ?p6)" by (rule save_step.s_write) (simp, rule s6)
  have "?p6 = pcs(0 := Finished, 1 := Finished)" by (rule ext) simp
  then have "(save_step E entry)\<^sup>*\<^sup>* (s, pcs) (s6, pcs(0 := Finished, 1 := Finished))"
    using a b c d e f by (metis (no_types, lifting) converse_rtranclp_into_rtranclp rtranclp.rtrancl_refl)
  with s6(2) show ?thesis by blast
qed

section \<open>A concrete manager for the witnesses\<close>

definition sample_env :: mgr_env where
  "sample_env = \<lparr>e_open = (\<lambda>_. Opened 3), e_close_ok = (\<lambda>_. True), e_unlink_ok = (\<lambda>_. True),
     e_io = (\<lambda>_. None), e_torn = (\<lambda>_. False), e_dir = ''/d'',
     e_sha256 = (\<lambda>bs. if length bs = 1 then ''aa'' else ''bb'')\<rparr>"

definition sample_full :: backup_meta where
  "sample_full = \<lparr>meta_id = ''f'', meta_type = Full, database = ''db'', baseBackupId = Some ''f'',
     parentBackupId = None, backupLevel = Some 0, fullBackupId = None, startBinlogFile = ''bin.1'',
     startBinlogPosition = 100, endBinlogFile = Some ''bin.1'', endBinlogPosition = Some 100,
     binlogFiles = None, timestamp = 0, meta_size = 1, file_name = ''f.sql.gz'',
     checksum = Some ''aa'', encrypted = False, status = Some Success\<rparr>"

definition sample_inc :: backup_meta where
  "sample_inc = \<lparr>meta_id = ''i'', meta_type = Incremental, database = ''db'', baseBackupId = Some ''f'',
     parentBackupId = Some ''f'', backupLevel = Some 1, fullBackupId = Some ''f'', startBinlogFile = ''bin.1'',
     startBinlogPosition = 100, endBinlogFile = Some ''bin.2'', endBinlogPosition = Some 40,
     binlogFiles = Some [''bin.1'', ''bin.2''], timestamp = 30 * day_ms, meta_size = 2, file_name = ''i.sql.gz'',
     checksum = Some ''bb'', encrypted = False, status = Some Success\<rparr>"

definition sample_mgr :: mgr where
  "sample_mgr = \<lparr>m_flock = new_flock, m_meta = Entries [sample_full, sample_inc],
     m_files = [''/d/f.sql.gz'' \<mapsto> [1], ''/d/i.sql.gz'' \<mapsto> [2, 3]],
     m_restore_lock = False, m_isRestoring = False, m_conn = None, m_connPromise = None, m_procs = [], m_signalled = [],
     m_spawned = [], m_imported = [],
     m_header = binlog_header_new, m_checksum = checksum_new, m_slept = [], m_tick = 0\<rparr>"

definition sample_chain :: backup_chain where
  "sample_chain = \<lparr>fullBackup = sample_full, increments = [sample_inc]\<rparr>"

lemmas sample_defs = sample_full_def sample_inc_def sample_mgr_def sample_chain_def

lemma sample_paths [simp]:
  "backup_path sample_env ''f.sql.gz'' = ''/d/f.sql.gz''" "backup_path sample_env ''i.sql.gz'' = ''/d/i.sql.gz''"
  by code_simp+

lemma sample_sha [simp]: "e_sha256 sample_env bs = (if length bs = 1 then ''aa'' else ''bb'')"
  by (simp add: sample_env_def)

lemma sample_env_ok [simp]: "opens sample_env" "io_safe sample_env"
  by (simp_all add: sample_env_def opens_def io_safe_def)

lemma sample_mgr_ok [simp]: "flock_ok (m_flock sample_mgr)"
  by (simp add: sample_mgr_def new_flock_def flock_ok_def)

lemma sample_distinct [simp]: "distinct (map meta_id (entries_of (m_meta sample_mgr)))"
  by (simp add: sample_defs)

lemma sample_is_chain [simp]: "is_chain (entries_of (m_meta sample_mgr)) ''i'' sample_chain"
  by (simp add: sample_defs is_chain_def is_path_def chain_members_def parent_link_def)

section \<open>Properties\<close>

text \<open>C2: When no two entries of the metadata file share an identifier, \<open>getBackupChain\<close> succeeds
  with a chain exactly when it is the path of parent links from a full backup without parent
  to the requested entry, each identifier once; and with \<open>null\<close> only when the entry is missing.\<close>

theorem getBackupChain_exact:
  assumes "opens E" and "io_safe E" and "distinct (map meta_id (entries_of (m_meta s)))"
  shows "(fst (getBackupChain E i s) = Inr (Some c) \<longleftrightarrow> is_chain (entries_of (m_meta s)) i c) \<and>
    (fst (getBackupChain E i s) = Inr None \<longleftrightarrow> find_meta (entries_of (m_meta s)) i = None)"
proof -
  obtain r s' where run: "getBackupChain E i s = (r, s')" by fastforce
  have "r = Inr x \<longleftrightarrow> chain_from (entries_of (m_meta s)) i = Inr x" for x
    using getBackupChain_run [OF run] getBackupChain_safe [OF assms(1,2), of s i] run by fastforce
  with run have v: "fst (getBackupChain E i s) = Inr x \<longleftrightarrow> chain_from (entries_of (m_meta s)) i = Inr x" for x
    by simp
  show ?thesis
    unfolding v chain_from_None using chain_from_sound chain_from_complete [OF assms(3)] by blast
qed

theorem getBackupChain_exact_witness:
  "fst (getBackupChain sample_env ''i'' sample_mgr) = Inr (Some sample_chain) \<and>
   is_chain (entries_of (m_meta sample_mgr)) ''i'' sample_chain"
  using getBackupChain_exact [of sample_env sample_mgr "''i''" sample_chain] by simp

text \<open>C3: \<open>validateBackupChain\<close> accepts a chain only if every member is successful, its file is
  there and has the recorded SHA-256, every increment starts at the binlog coordinate where its
  predecessor ended and is one level above it; when no file operation fails it accepts all of those.\<close>

theorem validateBackupChain_exact:
  assumes "io_safe E"
  shows "fst (validateBackupChain E c s) = Inr () \<longleftrightarrow> chain_valid E (m_files s) c"
proof -
  obtain r s' where "validateBackupChain E c s = (r, s')" by fastforce
  with validateBackupChain_run [OF this] assms show ?thesis by auto
qed

theorem validateBackupChain_exact_witness:
  "fst (validateBackupChain sample_env sample_chain sample_mgr) = Inr () \<and>
   chain_valid sample_env (m_files sample_mgr) sample_chain"
proof -
  have "chain_valid sample_env (m_files sample_mgr) sample_chain"
    by (simp add: sample_defs chain_valid_def chain_members_def artifact_ok_def status_bad_def link_ok_def
        end_file_def end_pos_def)
  with validateBackupChain_exact [of sample_env sample_chain sample_mgr] show ?thesis by simp
qed

text \<open>\<open>saveMetadata\<close> is insert-or-replace: after a successful call a lookup finds the new entry
  under its identifier and every other entry as before, and identifiers stay unique; a call that
  throws leaves the metadata as it was or, when a write was cut short, a file that cannot be parsed.\<close>

lemma saveMetadata_functional:
  assumes "saveMetadata E m s = (r, s')"
  shows "case r of
      Inr _ \<Rightarrow> (\<forall>i. find_meta (entries_of (m_meta s')) i =
                 (if i = meta_id m then Some m else find_meta (entries_of (m_meta s)) i)) \<and>
               (distinct (map meta_id (entries_of (m_meta s))) \<longrightarrow> distinct (map meta_id (entries_of (m_meta s'))))
    | Inl _ \<Rightarrow> m_meta s' = m_meta s \<or> m_meta s' = Corrupt"
  using assms
  by (cases r) (auto simp: find_put_meta distinct_put_meta dest: saveMetadata_entries saveMetadata_error)

lemma saveMetadata_functional_witness:
  "\<exists>s'. saveMetadata sample_env sample_inc sample_mgr = (Inr (), s') \<and>
     find_meta (entries_of (m_meta s')) ''i'' = Some sample_inc"
proof -
  obtain r s' where run: "saveMetadata sample_env sample_inc sample_mgr = (r, s')" by fastforce
  have "fst (saveMetadata sample_env sample_inc sample_mgr) = Inr ()" by code_simp
  with run have "r = Inr ()" by simp
  with saveMetadata_functional [OF run] run show ?thesis by (simp add: sample_inc_def)
qed

text \<open>C24: Whatever fails, every operation that takes the metadata lock returns it: the reentrancy
  depth after \<open>saveMetadata\<close>, \<open>getBackupChain\<close>, \<open>listBackupChains\<close> (which nests the lock) and
  \<open>cleanup\<close> is the depth before, on success and on every error path.\<close>

theorem manager_lock_balanced:
  assumes "flock_ok (m_flock s)"
  shows "flock_depth (m_flock (snd (saveMetadata E m s))) = flock_depth (m_flock s) \<and>
    flock_depth (m_flock (snd (getBackupChain E i s))) = flock_depth (m_flock s) \<and>
    flock_depth (m_flock (snd (listBackupChains E s))) = flock_depth (m_flock s) \<and>
    flock_depth (m_flock (snd (cleanup E now days s))) = flock_depth (m_flock s)"
proof -
  note d = mlock.balancedD [OF _ assms prod.collapse [symmetric]]
  show ?thesis
    using d [OF balanced_saveMetadata] d [OF balanced_getBackupChain] d [OF balanced_listBackupChains]
      d [OF balanced_cleanup] by blast
qed

theorem manager_lock_balanced_witness:
  "flock_depth (m_flock (snd (listBackupChains sample_env sample_mgr))) = 0"
  using manager_lock_balanced [of sample_mgr sample_env]
  by (simp add: flock_depth_def sample_mgr_def new_flock_def flock_ok_def)

text \<open>C32: A successful \<open>cleanup\<close> keeps exactly the entries not older than the cutoff, in their
  order, removes the files of the others, and touches no other file.\<close>

theorem cleanup_exact:
  assumes "cleanup E now days s = (Inr (), s')"
  shows "entries_of (m_meta s') = filter (\<lambda>m. \<not> expired now days m) (entries_of (m_meta s)) \<and>
    (\<forall>path. path \<notin> backup_path E ` file_name ` set (filter (expired now days) (entries_of (m_meta s))) \<longrightarrow>
      m_files s' path = m_files s path) \<and>
    (io_safe E \<longrightarrow> (\<forall>m \<in> set (entries_of (m_meta s)). expired now days m \<longrightarrow>
      m_files s' (backup_path E (file_name m)) = None))"
  using cleanup_run [OF assms] by simp

theorem cleanup_exact_witness:
  "\<exists>s'. cleanup sample_env (31 * day_ms) 7 sample_mgr = (Inr (), s') \<and> entries_of (m_meta s') = [sample_inc]"
proof -
  obtain r s' where run: "cleanup sample_env (31 * day_ms) 7 sample_mgr = (r, s')" by fastforce
  have "fst (cleanup sample_env (31 * day_ms) 7 sample_mgr) = Inr ()" by code_simp
  with run have r: "r = Inr ()" by simp
  from cleanup_exact [OF run [unfolded r]] run r show ?thesis
    by (simp add: sample_mgr_def sample_full_def sample_inc_def expired_def day_ms_def)
qed

text \<open>Retention looks at each entry's age alone: when a base backup has expired and an
  incremental on top of it has not, a successful \<open>cleanup\<close> leaves the incremental listed but
  unrestorable, since \<open>getBackupChain\<close> for it now throws the broken-chain error.\<close>

lemma cleanup_orphans_increment:
  assumes "opens E" and "io_safe E" and "distinct (map meta_id (entries_of (m_meta s)))"
    and "base \<in> set (entries_of (m_meta s))" and "inc \<in> set (entries_of (m_meta s))"
    and "parent_link base inc" and "expired now days base" and "\<not> expired now days inc"
    and "cleanup E now days s = (Inr (), s')"
  shows "inc \<in> set (entries_of (m_meta s')) \<and>
    fst (getBackupChain E (meta_id inc) s') = Inl (broken_chain (meta_id base) inc)"
proof -
  have ents: "entries_of (m_meta s') = filter (\<lambda>m. \<not> expired now days m) (entries_of (m_meta s))"
    using cleanup_run [OF assms(9)] by simp
  with assms have kept: "inc \<in> set (entries_of (m_meta s'))" by simp
  have c: "chain_from (entries_of (m_meta s')) (meta_id inc) = Inl (broken_chain (meta_id base) inc)"
    unfolding ents using assms by (intro chain_from_orphan) auto
  obtain s1 where s1: "lock_acquire E s' = (Inr (), s1)" "m_meta s1 = m_meta s'"
    using lock_acquire_opens [OF assms(1)] by blast
  obtain s2 where "listMetadata E s1 = (Inr (entries_of (m_meta s1)), s2)"
    using listMetadata_safe [OF assms(2)] by blast
  with s1 c have "fst (getBackupChain E (meta_id inc) s') = Inl (broken_chain (meta_id base) inc)"
    by (simp add: getBackupChain_def locked_def bnd_def try_finally_def lift_res_def lock_release_def)
  with kept show ?thesis by blast
qed

lemma cleanup_orphans_increment_witness:
  "fst (getBackupChain sample_env ''i'' (snd (cleanup sample_env (31 * day_ms) 7 sample_mgr)))
     = Inl (broken_chain ''f'' sample_inc)"
proof -
  have r: "cleanup sample_env (31 * day_ms) 7 sample_mgr =
      (Inr (), snd (cleanup sample_env (31 * day_ms) 7 sample_mgr))"
    by (rule prod_eqI) (simp_all, code_simp)
  from cleanup_orphans_increment [OF _ _ _ _ _ _ _ _ r, of sample_full sample_inc] show ?thesis
    by (simp add: sample_mgr_def sample_full_def sample_inc_def expired_def day_ms_def parent_link_def)
qed

text \<open>\<open>listBackupChains\<close> asks for the chain that ends at each full backup, so as long as full
  backups have no parent every chain it returns is a full backup with no increments: the
  incrementals of the file never show up in the listing.\<close>

lemma listBackupChains_no_increments:
  assumes "listBackupChains E s = (Inr cs, s')"
    and "distinct (map meta_id (entries_of (m_meta s)))"
    and "\<forall>m\<in>set (entries_of (m_meta s)). meta_type m = Full \<longrightarrow> \<not> truthy_s (parentBackupId m)"
  shows "cs = map (\<lambda>m. \<lparr>fullBackup = m, increments = []\<rparr>)
     (filter (\<lambda>m. meta_type m = Full \<and> status m = Some Success) (entries_of (m_meta s)))"
  by (rule listBackupChains_full [OF assms])

lemma listBackupChains_no_increments_witness:
  "fst (listBackupChains sample_env sample_mgr) = Inr [\<lparr>fullBackup = sample_full, increments = []\<rparr>]"
proof -
  obtain cs s' where run: "listBackupChains sample_env sample_mgr = (Inr cs, s')"
  proof -
    have "\<not> isl (fst (listBackupChains sample_env sample_mgr))" by code_simp
    with that show ?thesis by (metis isl_def prod.collapse sum.exhaust_sel)
  qed
  from listBackupChains_no_increments [OF run] run show ?thesis
    by (simp add: sample_mgr_def sample_full_def sample_inc_def)
qed

text \<open>The lock does not order two calls of one process: from any state there is an
  interleaving of two \<open>saveMetadata\<close> calls of the shared manager in which both finish and the
  file holds the old entries and the second one only, although each call alone would have kept
  the other's entry.\<close>

lemma saveMetadata_lost_update:
  assumes "opens E" and "io_safe E" and "meta_id (entry 0) \<noteq> meta_id (entry 1)"
    and "find_meta (entries_of (m_meta s)) (meta_id (entry 0)) = None"
  shows "\<exists>s'. (save_step E entry)\<^sup>*\<^sup>* (s, \<lambda>_. AtStart) (s', (\<lambda>_. AtStart)(0 := Finished, 1 := Finished)) \<and>
     find_meta (entries_of (m_meta s')) (meta_id (entry 0)) = None"
  using save_overlap [OF assms(1,2), of entry s] assms(3,4) by (force simp: find_put_meta)

lemma saveMetadata_lost_update_witness:
  "\<exists>s'. (save_step sample_env (\<lambda>i. if i = 0 then sample_full else sample_inc))\<^sup>*\<^sup>*
       (sample_mgr\<lparr>m_meta := Absent\<rparr>, \<lambda>_. AtStart) (s', (\<lambda>_. AtStart)(0 := Finished, 1 := Finished)) \<and>
     find_meta (entries_of (m_meta s')) ''f'' = None"
  using saveMetadata_lost_update [of sample_env "\<lambda>i. if i = 0 then sample_full else sample_inc"
      "sample_mgr\<lparr>m_meta := Absent\<rparr>"]
  by (simp add: sample_full_def sample_inc_def find_meta_def)

end
