(* ===== verification/ServiceUtils.thy ===== *)
theory ServiceUtils
  imports NodePath
begin

text \<open>
  \<open>microservices/shared/utils/service-utils.ts\<close> and the \<open>DatabaseConfig\<close> of
  \<open>microservices/shared/types/index.ts\<close>: which host a service connects to from inside a container,
  where a storage path lies there, and the redaction of connection settings. What the
  process environment and the container's file system say is the record \<open>host_env\<close>.
\<close>

record db_config =
  host :: "string option"
  port :: "int option"
  username :: "string option"
  password :: "string option"
  cfg_database :: string
  ssl :: "bool option"
  connectionString :: "string option"

record host_env =
  DOCKER_HOST_OVERRIDE :: "string option"
  BACKUP_PATH :: "string option"
  DOCKER_CONTAINER :: "string option"
  NODE_ENV :: "string option"
  dockerenv_exists :: bool
  etc_hosts :: "(js_error + string) option"

definition sanitizeConfig :: "db_config \<Rightarrow> db_config" where
  "sanitizeConfig config = config\<lparr>
     password := (if truthy_s (password config) then Some ''***'' else password config),
     connectionString := (if truthy_s (connectionString config) then Some ''***'' else connectionString config)\<rparr>"

text \<open>The condition in the \<open>try\<close> block; reading \<open>/etc/hosts\<close> may throw, and the handler is empty.\<close>

definition hosts_say_docker :: "host_env \<Rightarrow> bool" where
  "hosts_say_docker H \<longleftrightarrow> dockerenv_exists H \<or>
     (case etc_hosts H of Some (Inr text) \<Rightarrow> str_includes text ''host.docker.internal'' | _ \<Rightarrow> False)"

definition resolveDatabaseHost :: "host_env \<Rightarrow> string option \<Rightarrow> string" where
  "resolveDatabaseHost H targetHost =
     (let hst = or_s targetHost ''127.0.0.1'' in
      if hst = ''localhost'' \<or> hst = ''127.0.0.1'' then
        if truthy_s (DOCKER_HOST_OVERRIDE H) then the (DOCKER_HOST_OVERRIDE H)
        else if hosts_say_docker H then ''host.docker.internal''
        else hst
      else hst)"

definition is_container :: "host_env \<Rightarrow> bool" where
  "is_container H \<longleftrightarrow> dockerenv_exists H \<or> DOCKER_CONTAINER H = Some ''true'' \<or> NODE_ENV H = Some ''production''"

definition resolveContainerStoragePath :: "host_env \<Rightarrow> string option \<Rightarrow> string" where
  "resolveContainerStoragePath H targetPath =
     (let containerBase = or_s (BACKUP_PATH H) ''/app/backups'' in
      if \<not> truthy_s targetPath then containerBase
      else if is_container H then
        if starts_with (the targetPath) ''/app/backups'' then the targetPath
        else (case index_of (the targetPath) ''.db-backup'' of
            Some idx \<Rightarrow>
              (let sub = dropWhile (\<lambda>c. c = slash \<or> c = CHR 0x5C)
                           (drop (idx + length ''.db-backup'') (the targetPath)) in
               if sub \<noteq> [] then path_join [containerBase, sub] else containerBase)
          | None \<Rightarrow> containerBase)
      else the targetPath)"

section \<open>Properties\<close>

text \<open>A service in a container never connects to its own loopback interface: \<open>localhost\<close> and
  \<open>127.0.0.1\<close>, also as the default, become the override or \<open>host.docker.internal\<close>; every
  other host is used as it is, inside and outside containers.\<close>

lemma resolveDatabaseHost_spec:
  "(hosts_say_docker H \<and> \<not> truthy_s (DOCKER_HOST_OVERRIDE H) \<longrightarrow>
      resolveDatabaseHost H h \<notin> {''localhost'', ''127.0.0.1''}) \<and>
   (or_s h ''127.0.0.1'' \<notin> {''localhost'', ''127.0.0.1''} \<longrightarrow> h = Some (resolveDatabaseHost H h)) \<and>
   (truthy_s (DOCKER_HOST_OVERRIDE H) \<and> or_s h ''127.0.0.1'' \<in> {''localhost'', ''127.0.0.1''} \<longrightarrow>
      DOCKER_HOST_OVERRIDE H = Some (resolveDatabaseHost H h))"
  by (cases h; cases "DOCKER_HOST_OVERRIDE H") (auto simp: resolveDatabaseHost_def Let_def)

definition docker_env :: host_env where
  "docker_env = \<lparr>DOCKER_HOST_OVERRIDE = None, BACKUP_PATH = None, DOCKER_CONTAINER = Some ''true'',
     NODE_ENV = None, dockerenv_exists = True, etc_hosts = None\<rparr>"

lemma resolveDatabaseHost_spec_witness:
  "resolveDatabaseHost docker_env (Some ''localhost'') \<noteq> ''localhost'' \<and>
   Some ''db'' = Some (resolveDatabaseHost docker_env (Some ''db''))"
  using resolveDatabaseHost_spec [of docker_env "Some ''localhost''"]
    resolveDatabaseHost_spec [of docker_env "Some ''db''"]
  by (simp add: docker_env_def hosts_say_docker_def)

text \<open>In a container a host path below \<open>~/.db-backup\<close> becomes the same path below the volume:
  the segments after \<open>.db-backup\<close> are kept, one by one, under the container's backup directory.\<close>

lemma resolveContainerStoragePath_segments:
  assumes "is_container H" and "BACKUP_PATH H = Some (abs_dir ds)" and "\<forall>d\<in>set ds. plain_name d" and "ds \<noteq> []"
    and "\<not> starts_with (home @ ''.db-backup/'' @ f) ''/app/backups''"
    and "index_of (home @ ''.db-backup/'' @ f) ''.db-backup'' = Some (length home)"
    and "plain_name f" and "hd f \<noteq> CHR 0x5C"
  shows "resolveContainerStoragePath H (Some (home @ ''.db-backup/'' @ f)) = abs_dir (ds @ [f])"
proof -
  have ne: "abs_dir ds \<noteq> []" by (simp add: abs_dir_def)
  obtain c f' where f: "f = c # f'" "c \<noteq> slash" "c \<noteq> CHR 0x5C"
    using assms(7,8) by (cases f) (auto simp: plain_name_def)
  have "drop (length home + length ''.db-backup'') (home @ ''.db-backup/'' @ f) = ''/'' @ f" by simp
  then show ?thesis
    using assms ne f path_join_plain [OF assms(3,7,4)]
    by (simp add: resolveContainerStoragePath_def Let_def slash_def)
qed

lemma resolveContainerStoragePath_segments_witness:
  "resolveContainerStoragePath (docker_env\<lparr>BACKUP_PATH := Some (abs_dir [''app'', ''backups''])\<rparr>)
     (Some (''/home/u/'' @ ''.db-backup/'' @ ''daily'')) = abs_dir ([''app'', ''backups''] @ [''daily''])"
  by (rule resolveContainerStoragePath_segments)
     (simp_all add: docker_env_def is_container_def plain_name_def slash_def starts_with_def)

end
