(* ===== verification/MysqlBackup.thy ===== *)
theory MysqlBackup
  imports MysqlChain ServiceUtils
begin

text \<open>
  The backup half of \<open>mysql/manager.ts\<close>: the connection, the child processes with their timeout
  and retry, the queries, \<open>createFullBackup\<close>, \<open>createIncrementalBackup\<close> and their encryption.

  What MySQL, the child processes and the clock answer is \<open>db_env\<close>, indexed by the tick of the
  call; a pipeline attempt says what the dump wrote, what the compressor passed on and how the
  attempt ended. \<open>m_header\<close> and \<open>m_checksum\<close> of the manager are the transforms of the running
  backup.
\<close>

section \<open>The outside\<close>

record conn_options =
  co_host :: string
  co_port :: int
  co_user :: "string option"
  co_password :: "string option"
  co_database :: string

record pipe_run =
  p_raw :: "bytes list"
  p_gz :: bytes
  p_error :: "js_error option"

datatype proc_end = Exited "int option" | ProcError js_error

record db_env =
  d_host :: host_env
  d_connect :: "conn_options \<Rightarrow> nat \<Rightarrow> js_error + nat"
  d_ping :: "nat \<Rightarrow> nat \<Rightarrow> bool"
  d_grants :: "nat \<Rightarrow> nat \<Rightarrow> js_error + string list"
  d_variable :: "nat \<Rightarrow> string \<Rightarrow> nat \<Rightarrow> js_error + string option"
  d_status :: "nat \<Rightarrow> string \<Rightarrow> nat \<Rightarrow> js_error + (string \<times> int) list"
  d_logs :: "nat \<Rightarrow> nat \<Rightarrow> js_error + string list"
  d_pipe :: "nat \<Rightarrow> pipe_run"
  d_timeout :: "nat \<Rightarrow> bool"
  d_kill :: "nat \<Rightarrow> bool"
  d_exit :: "nat \<Rightarrow> proc_end"
  d_stderr :: "nat \<Rightarrow> string"
  d_now :: "nat \<Rightarrow> int"
  d_iso :: "nat \<Rightarrow> string"
  d_uuid :: "nat \<Rightarrow> string"
  d_iv :: "nat \<Rightarrow> bytes"
  d_codec :: codec
  d_gcm :: gcm
  d_chunks :: "nat \<Rightarrow> bytes \<Rightarrow> bytes list"
  d_gunzip :: "bytes \<Rightarrow> bytes"
  d_key :: "string option"

record backup_options =
  o_backupId :: "string option"
  o_tables :: "string list"
  o_excludeTables :: "string list"
  o_encrypt :: bool
  o_encryptionKey :: "string option"

definition DEFAULT_TIMEOUT :: int where "DEFAULT_TIMEOUT = 3600000"
definition MAX_RETRIES :: nat where "MAX_RETRIES = 3"
definition RETRY_DELAY :: nat where "RETRY_DELAY = 1000"

definition next_tick :: "(mgr, nat) prog" where
  "next_tick = (\<lambda>s. (Inr (m_tick s), s\<lparr>m_tick := Suc (m_tick s)\<rparr>))"

text \<open>A call answered by the environment.\<close>

definition ask_env :: "(nat \<Rightarrow> js_error + 'a) \<Rightarrow> (mgr, 'a) prog" where
  "ask_env f = bnd next_tick (\<lambda>t. lift_res (f t))"

section \<open>Connection\<close>

definition connection_options :: "db_env \<Rightarrow> db_config \<Rightarrow> conn_options" where
  "connection_options D cfg = \<lparr>co_host = resolveDatabaseHost (d_host D) (host cfg), co_port = or_n (port cfg) 3306,
     co_user = username cfg, co_password = password cfg, co_database = cfg_database cfg\<rparr>"

text \<open>The cached connection if it still answers; otherwise both fields are cleared.\<close>

definition live_connection :: "db_env \<Rightarrow> (mgr, nat option) prog" where
  "live_connection D = bnd (gets m_conn) (\<lambda>c. case c of
     None \<Rightarrow> ret None
   | Some c \<Rightarrow> bnd next_tick (\<lambda>t. if d_ping D c t then ret (Some c)
       else seqp (modify_st (\<lambda>s. s\<lparr>m_conn := None, m_connPromise := None\<rparr>)) (ret None)))"

definition getConnection :: "db_env \<Rightarrow> db_config \<Rightarrow> (mgr, nat) prog" where
  "getConnection D cfg = bnd (live_connection D) (\<lambda>live. case live of
     Some c \<Rightarrow> ret c
   | None \<Rightarrow>
       seqp (bnd (gets m_connPromise) (\<lambda>p. when_p (p = None) (bnd next_tick (\<lambda>t.
               modify_st (\<lambda>s. s\<lparr>m_connPromise := Some (d_connect D (connection_options D cfg) t)\<rparr>)))))
      (bnd (gets m_connPromise) (\<lambda>p. case the p of
         Inl e \<Rightarrow> throw e
       | Inr c \<Rightarrow> seqp (modify_st (\<lambda>s. s\<lparr>m_conn := Some c, m_connPromise := None\<rparr>)) (ret c))))"

definition closeConnection :: "db_env \<Rightarrow> (mgr, unit) prog" where
  "closeConnection D = bnd (gets m_conn) (\<lambda>c. case c of
     None \<Rightarrow> ret ()
   | Some c \<Rightarrow> seqp next_tick (modify_st (\<lambda>s. s\<lparr>m_conn := None, m_connPromise := None\<rparr>)))"

section \<open>Child processes\<close>

definition trackProcess :: "nat \<Rightarrow> (mgr, unit) prog" where
  "trackProcess p = modify_st (\<lambda>s. s\<lparr>m_procs := m_procs s @ [p]\<rparr>)"

text \<open>The \<open>exit\<close> event runs one handler for each time the process was tracked.\<close>

definition process_exit :: "nat \<Rightarrow> (mgr, unit) prog" where
  "process_exit p = modify_st (\<lambda>s. s\<lparr>m_procs := removeAll p (m_procs s)\<rparr>)"

text \<open>\<open>proc.killed\<close>: a signal has been sent successfully.\<close>

definition killed :: "nat \<Rightarrow> mgr \<Rightarrow> bool" where
  "killed p s \<longleftrightarrow> p \<in> fst ` set (m_signalled s)"

definition send_signal :: "db_env \<Rightarrow> nat \<Rightarrow> string \<Rightarrow> (mgr, unit) prog" where
  "send_signal D p sig = bnd next_tick (\<lambda>t.
     modify_st (\<lambda>s. if d_kill D t then s\<lparr>m_signalled := m_signalled s @ [(p, sig)]\<rparr> else s))"

text \<open>\<open>SIGTERM\<close> now, and five seconds later \<open>SIGKILL\<close> unless \<open>proc.killed\<close>.\<close>

definition terminate :: "db_env \<Rightarrow> nat \<Rightarrow> (mgr, unit) prog" where
  "terminate D p = bnd (gets (killed p)) (\<lambda>k. when_p (\<not> k)
     (seqp (send_signal D p ''SIGTERM'')
           (bnd (gets (killed p)) (\<lambda>k'. when_p (\<not> k') (send_signal D p ''SIGKILL'')))))"

definition killAllProcesses :: "db_env \<Rightarrow> (mgr, unit) prog" where
  "killAllProcesses D = bnd (gets m_procs) (\<lambda>ps.
     seqp (for_each ps (terminate D)) (modify_st (\<lambda>s. s\<lparr>m_procs := []\<rparr>)))"

definition timed_out :: "int \<Rightarrow> js_error" where
  "timed_out ms = new_Error (''Operation timed out after '' @ str_int ms @ ''ms'')"

text \<open>\<open>Promise.race\<close>: where the timer wins, the operation has got as far as \<open>interrupted\<close> says,
  its outcome is dropped and the process is signalled.\<close>

definition executeWithTimeout :: "db_env \<Rightarrow> nat \<Rightarrow> (mgr, unit) prog \<Rightarrow> (mgr, unit) prog \<Rightarrow> int \<Rightarrow> (mgr, unit) prog" where
  "executeWithTimeout D p operation interrupted timeoutMs = seqp (trackProcess p) (bnd next_tick (\<lambda>t.
     if d_timeout D t
     then seqp interrupted (seqp (terminate D p) (throw (timed_out timeoutMs)))
     else operation))"

definition sleep :: "nat \<Rightarrow> (mgr, unit) prog" where
  "sleep ms = modify_st (\<lambda>s. s\<lparr>m_slept := m_slept s @ [ms]\<rparr>)"

fun retry_loop :: "(mgr, 'a) prog \<Rightarrow> nat \<Rightarrow> nat \<Rightarrow> js_error option \<Rightarrow> (mgr, 'a) prog" where
  "retry_loop operation 0 attempt lastError =
     throw (nullish lastError (new_Error ''Operation failed after retries''))"
| "retry_loop operation (Suc n) attempt lastError = try_catch operation (\<lambda>e.
     seqp (when_p (n > 0) (sleep (RETRY_DELAY * 2 ^ (attempt - 1))))
          (retry_loop operation n (attempt + 1) (Some e)))"

definition executeWithRetry :: "(mgr, 'a) prog \<Rightarrow> nat \<Rightarrow> (mgr, 'a) prog" where
  "executeWithRetry operation retries = retry_loop operation retries 1 None"

section \<open>Queries\<close>

definition requiredPrivileges :: "string list" where
  "requiredPrivileges = [''SELECT'', ''RELOAD'', ''LOCK TABLES'', ''REPLICATION CLIENT'', ''REPLICATION SLAVE'', ''PROCESS'']"

definition missing_privileges :: "string \<Rightarrow> string list" where
  "missing_privileges grants = filter (\<lambda>priv. \<not> str_includes grants priv \<and>
     \<not> str_includes grants ''ALL PRIVILEGES'' \<and> \<not> str_includes grants ''ALL'') requiredPrivileges"

definition validatePrivileges :: "db_env \<Rightarrow> db_config \<Rightarrow> (mgr, bool \<times> string list) prog" where
  "validatePrivileges D cfg = try_catch
     (bnd (getConnection D cfg) (\<lambda>conn.
      bnd (ask_env (d_grants D conn)) (\<lambda>rows.
        let missing = missing_privileges (join_with '' '' rows) in ret (missing = [], missing))))
     (\<lambda>_. ret (False, [''Unable to validate privileges'']))"

record binlog_status =
  bs_enabled :: bool
  bs_format :: string
  bs_retention :: "int option"
  bs_error :: "string option"

text \<open>\<open>parseInt(s, 10)\<close> on the digits a server variable consists of; the retention is kept in
  seconds, the code divides it by 86400.\<close>

definition parse_int :: "string \<Rightarrow> int option" where
  "parse_int s = (let ds = takeWhile is_digit s in if ds = [] then None else Some (digits_value ds))"

definition checkBinlogStatus :: "db_env \<Rightarrow> db_config \<Rightarrow> (mgr, binlog_status) prog" where
  "checkBinlogStatus D cfg = try_catch
     (bnd (getConnection D cfg) (\<lambda>conn.
      bnd (ask_env (d_variable D conn ''log_bin'')) (\<lambda>v.
        if v \<noteq> Some ''ON'' \<and> v \<noteq> Some ''1''
        then ret \<lparr>bs_enabled = False, bs_format = ''N/A'', bs_retention = None,
                  bs_error = Some ''Binary logging is not enabled (log_bin = OFF).''\<rparr>
        else bnd (ask_env (d_variable D conn ''binlog_format'')) (\<lambda>fmt.
          bnd (try_catch (bnd (ask_env (d_variable D conn ''binlog_expire_logs_seconds'')) (\<lambda>r.
                 ret (if truthy_s r then parse_int (the r) else None))) (\<lambda>_. ret None)) (\<lambda>retention.
          ret \<lparr>bs_enabled = True, bs_format = or_s fmt ''ROW'', bs_retention = retention, bs_error = None\<rparr>)))))
     (\<lambda>e. ret \<lparr>bs_enabled = False, bs_format = ''N/A'', bs_retention = None, bs_error = Some (err_message e)\<rparr>)"

definition no_position :: js_error where
  "no_position = new_Error (''Failed to get binlog position. Ensure REPLICATION CLIENT privilege and ''
     @ ''binary logging is enabled.'')"

definition getCurrentBinlogPosition :: "db_env \<Rightarrow> db_config \<Rightarrow> (mgr, string \<times> int) prog" where
  "getCurrentBinlogPosition D cfg = bnd (getConnection D cfg) (\<lambda>conn.
     bnd (try_catch (ask_env (d_status D conn ''SHOW BINARY LOG STATUS'')) (\<lambda>_. ret [])) (\<lambda>rows. case rows of
       row # _ \<Rightarrow> ret row
     | [] \<Rightarrow> bnd (ask_env (d_status D conn ''SHOW MASTER STATUS'')) (\<lambda>rows. case rows of
         [] \<Rightarrow> throw no_position
       | row # _ \<Rightarrow> ret row)))"

definition listBinlogFiles :: "db_env \<Rightarrow> db_config \<Rightarrow> (mgr, string list) prog" where
  "listBinlogFiles D cfg = bnd (getConnection D cfg) (\<lambda>conn. ask_env (d_logs D conn))"

section \<open>Commands\<close>

text \<open>A template literal shows \<open>undefined\<close> for a missing value.\<close>

definition str_opt :: "string option \<Rightarrow> string" where
  "str_opt s = nullish s ''undefined''"

definition client_args :: "db_env \<Rightarrow> db_config \<Rightarrow> string list" where
  "client_args D cfg = [''--host='' @ resolveDatabaseHost (d_host D) (host cfg),
     ''--port='' @ str_int (or_n (port cfg) 3306), ''--user='' @ str_opt (username cfg)]"

definition mysqldump_args :: "db_env \<Rightarrow> db_config \<Rightarrow> backup_options \<Rightarrow> string list" where
  "mysqldump_args D cfg opts = client_args D cfg @
     [''--single-transaction'', ''--routines'', ''--triggers'', ''--events'', ''--hex-blob'',
      ''--add-drop-table'', ''--flush-logs'', ''--source-data=2'', cfg_database cfg]
     @ o_tables opts
     @ map (\<lambda>table. ''--ignore-table='' @ cfg_database cfg @ ''.'' @ table) (o_excludeTables opts)"

definition mysqlbinlog_args :: "db_env \<Rightarrow> db_config \<Rightarrow> int \<Rightarrow> int \<Rightarrow> string list \<Rightarrow> string list" where
  "mysqlbinlog_args D cfg startPos endPos files = client_args D cfg @
     [''--read-from-remote-server'', ''--start-position='' @ str_int startPos,
      ''--stop-position='' @ str_int endPos] @ files"

definition mysql_args :: "db_env \<Rightarrow> db_config \<Rightarrow> string list" where
  "mysql_args D cfg = client_args D cfg @ [cfg_database cfg]"

text \<open>\<open>spawn\<close>, with \<open>MYSQL_PWD\<close> in the child's environment.\<close>

definition spawn :: "string \<Rightarrow> string list \<Rightarrow> string option \<Rightarrow> (mgr, nat) prog" where
  "spawn cmd args pwd = bnd next_tick (\<lambda>p.
     seqp (modify_st (\<lambda>s. s\<lparr>m_spawned := m_spawned s @ [(cmd, args, pwd)]\<rparr>)) (ret p))"

text \<open>The exit code, read at once or from the \<open>close\<close> event; an \<open>error\<close> event rejects.\<close>

definition wait_exit :: "db_env \<Rightarrow> string \<Rightarrow> (mgr, unit) prog" where
  "wait_exit D failure = bnd next_tick (\<lambda>t. case d_exit D t of
     Exited c \<Rightarrow> if c = Some 0 then ret () else throw (new_Error (failure @ (case c of None \<Rightarrow> ''null'' | Some n \<Rightarrow> str_int n) @ '': '' @ d_stderr D t))
   | ProcError e \<Rightarrow> throw e)"

section \<open>Files\<close>

definition enoent :: "string \<Rightarrow> js_error" where
  "enoent path = JsError ''ENOENT'' (''ENOENT: no such file or directory, open '' @ path)"

definition set_file :: "string \<Rightarrow> bytes \<Rightarrow> (mgr, unit) prog" where
  "set_file path bs = modify_st (\<lambda>s. s\<lparr>m_files := (m_files s)(path := Some bs)\<rparr>)"

definition read_file :: "mgr_env \<Rightarrow> string \<Rightarrow> (mgr, bytes) prog" where
  "read_file E path = seqp (io E) (bnd (gets (\<lambda>s. m_files s path)) (\<lambda>c. case c of
     None \<Rightarrow> throw (enoent path) | Some bs \<Rightarrow> ret bs))"

definition unlink :: "mgr_env \<Rightarrow> string \<Rightarrow> (mgr, unit) prog" where
  "unlink E path = seqp (read_file E path) (modify_st (\<lambda>s. s\<lparr>m_files := (m_files s)(path := None)\<rparr>))"

text \<open>One run of \<open>pipeline(child.stdout, [header], gzip, checksum, file)\<close>.\<close>

definition pipe_attempt :: "db_env \<Rightarrow> bool \<Rightarrow> string \<Rightarrow> (mgr, unit) prog" where
  "pipe_attempt D with_header path = bnd next_tick (\<lambda>t. let run = d_pipe D t in
     seqp (modify_st (\<lambda>s. s\<lparr>
         m_header := (if with_header then snd (binlog_chunks (m_header s) (p_raw run)) else m_header s),
         m_checksum := snd (checksum_transform (m_checksum s) (p_gz run)),
         m_files := (m_files s)(path := Some (nullish (m_files s path) [] @ fst (checksum_transform (m_checksum s) (p_gz run))))\<rparr>))
      (case p_error run of None \<Rightarrow> ret () | Some e \<Rightarrow> throw e))"

text \<open>The child's output into the new file, with retries, and its exit code.\<close>

definition dump_to_file :: "db_env \<Rightarrow> string \<Rightarrow> bool \<Rightarrow> nat \<Rightarrow> string \<Rightarrow> (mgr, unit) prog" where
  "dump_to_file D tool with_header p path =
     seqp (executeWithRetry (executeWithTimeout D p (pipe_attempt D with_header path)
            (try_catch (pipe_attempt D with_header path) (\<lambda>_. ret ())) DEFAULT_TIMEOUT) MAX_RETRIES)
          (wait_exit D (tool @ '' exited with code ''))"

definition open_output :: "string \<Rightarrow> (mgr, unit) prog" where
  "open_output path = seqp (set_file path [])
     (modify_st (\<lambda>s. s\<lparr>m_header := binlog_header_new, m_checksum := checksum_new\<rparr>))"

text \<open>\<open>encryptBackupFile\<close>: the new path, name and metadata.\<close>

definition encryptBackupFile :: "mgr_env \<Rightarrow> db_env \<Rightarrow> string \<Rightarrow> string \<Rightarrow> string \<Rightarrow>
    (mgr, string \<times> string \<times> (string \<times> string option \<times> string \<times> int)) prog" where
  "encryptBackupFile E D filePath encryptionKey name =
     (let encName = path_basename filePath ''.sql.gz'' @ ''_encrypted.enc'';
          encPath = path_join [path_dirname filePath, encName] in
      seqp (set_file encPath [])
     (bnd (read_file E filePath) (\<lambda>bs.
      bnd next_tick (\<lambda>t.
      bnd (lift_res (encrypt_stream (d_codec D) (d_gcm D) encryptionKey name (d_iv D t) (d_iso D t) (d_chunks D t bs))) (\<lambda>r.
      seqp (set_file encPath (fst r))
     (let meta = getEncryptionMetadata (d_codec D) (snd r) in
      if \<not> truthy_s (fst (snd meta)) then throw (new_Error ''Encryption failed: no authentication tag generated'')
      else seqp (unlink E filePath) (ret (encPath, encName, meta))))))))"

definition decryptBackupFile :: "mgr_env \<Rightarrow> db_env \<Rightarrow> string \<Rightarrow> string \<Rightarrow> (mgr, string) prog" where
  "decryptBackupFile E D filePath encryptionKey =
     (let decryptedPath = replace_first filePath ''_encrypted.enc'' ''_decrypted.sql.gz'' in
      bnd (read_file E filePath) (\<lambda>bs.
      bnd next_tick (\<lambda>t. case decrypt_stream (d_codec D) (d_gcm D) encryptionKey (d_chunks D t bs) of
        (out, r) \<Rightarrow> seqp (set_file decryptedPath out)
          (case r of Inl e \<Rightarrow> throw e | Inr _ \<Rightarrow> ret decryptedPath))))"

section \<open>Full backups\<close>

record backup_result =
  res_backupId :: string
  res_file :: string
  res_checksum :: string
  res_metadata :: backup_meta
  res_encryption :: "(string \<times> string option \<times> string \<times> int) option"

text \<open>\<open>new Date().toISOString().replace(/[:.]/g, '-')\<close>\<close>

definition file_timestamp :: "string \<Rightarrow> string" where
  "file_timestamp ts = map (\<lambda>c. if c = CHR 0x3A \<or> c = CHR 0x2E then CHR 0x2D else c) ts"

definition new_backup_id :: "db_env \<Rightarrow> string \<Rightarrow> backup_options \<Rightarrow> (mgr, string) prog" where
  "new_backup_id D kind opts = bnd next_tick (\<lambda>t.
     ret (or_s (o_backupId opts) (kind @ ''_'' @ file_timestamp (d_iso D t) @ ''_'' @ take 8 (d_uuid D t))))"

text \<open>What both kinds of backup do with the finished dump: checksum and optional encryption.\<close>

record sealed =
  sl_digest :: string
  sl_path :: string
  sl_name :: string
  sl_encryption :: "(string \<times> string option \<times> string \<times> int) option"

text \<open>\<open>!!encryptionMetadata\<close>\<close>

definition sl_encrypted :: "sealed \<Rightarrow> bool" where
  "sl_encrypted x \<longleftrightarrow> sl_encryption x \<noteq> None"

definition seal_file :: "mgr_env \<Rightarrow> db_env \<Rightarrow> backup_options \<Rightarrow> string \<Rightarrow> string \<Rightarrow> (mgr, sealed) prog" where
  "seal_file E D opts path name =
     bnd (gets (\<lambda>s. getChecksum (e_sha256 E) (m_checksum s))) (\<lambda>digest.
     if o_encrypt opts \<and> truthy_s (o_encryptionKey opts)
     then bnd (encryptBackupFile E D path (the (o_encryptionKey opts)) name) (\<lambda>r.
       ret \<lparr>sl_digest = digest, sl_path = fst r, sl_name = fst (snd r), sl_encryption = Some (snd (snd r))\<rparr>)
     else ret \<lparr>sl_digest = digest, sl_path = path, sl_name = name, sl_encryption = None\<rparr>)"

definition full_metadata :: "string \<Rightarrow> string \<Rightarrow> string \<Rightarrow> int \<Rightarrow> int \<Rightarrow> string \<Rightarrow> int \<Rightarrow> string \<Rightarrow> bool \<Rightarrow> backup_meta" where
  "full_metadata i db startFile startPos now name sz digest enc = \<lparr>meta_id = i, meta_type = Full, database = db,
     baseBackupId = Some i, parentBackupId = None, backupLevel = Some 0, fullBackupId = None,
     startBinlogFile = startFile, startBinlogPosition = startPos, endBinlogFile = Some startFile,
     endBinlogPosition = Some startPos, binlogFiles = None, timestamp = now, meta_size = sz,
     file_name = name, checksum = Some digest, encrypted = enc, status = Some Success\<rparr>"

text \<open>\<open>headerCoord.file || binlogStatus.file\<close>, and the position unless it is null.\<close>

definition start_coordinate :: "binlog_header \<Rightarrow> string \<times> int \<Rightarrow> string \<times> int" where
  "start_coordinate h server = (or_s (fst (getBinlogCoordinate h)) (fst server),
     nullish (snd (getBinlogCoordinate h)) (snd server))"

definition finish_full :: "mgr_env \<Rightarrow> db_env \<Rightarrow> db_config \<Rightarrow> backup_options \<Rightarrow> string \<Rightarrow> string \<times> int \<Rightarrow>
    (mgr, backup_result) prog" where
  "finish_full E D cfg opts backupId server =
     (let name = backupId @ ''.sql.gz''; path = backup_path E name in
      bnd (gets (\<lambda>s. start_coordinate (m_header s) server)) (\<lambda>start.
      bnd (read_file E path) (\<lambda>bs.
      bnd (seal_file E D opts path name) (\<lambda>sl.
      bnd next_tick (\<lambda>t.
      let meta = full_metadata backupId (cfg_database cfg) (fst start) (snd start) (d_now D t) (sl_name sl)
                   (int (length bs)) (sl_digest sl) (sl_encrypted sl) in
      seqp (saveMetadata E meta)
           (ret \<lparr>res_backupId = backupId, res_file = sl_path sl, res_checksum = sl_digest sl,
                 res_metadata = meta, res_encryption = sl_encryption sl\<rparr>))))))"

definition createFullBackup :: "mgr_env \<Rightarrow> db_env \<Rightarrow> db_config \<Rightarrow> backup_options \<Rightarrow> (mgr, backup_result) prog" where
  "createFullBackup E D cfg opts =
     bnd (new_backup_id D ''full'' opts) (\<lambda>backupId.
     bnd (getCurrentBinlogPosition D cfg) (\<lambda>server.
     bnd (spawn ''mysqldump'' (mysqldump_args D cfg opts) (password cfg)) (\<lambda>p.
     seqp (open_output (backup_path E (backupId @ ''.sql.gz'')))
    (seqp (dump_to_file D ''mysqldump'' True p (backup_path E (backupId @ ''.sql.gz'')))
          (finish_full E D cfg opts backupId server)))))"

section \<open>Incremental backups\<close>

record inc_plan =
  pl_base :: string
  pl_level :: int
  pl_startFile :: string
  pl_startPos :: int
  pl_endFile :: string
  pl_endPos :: int
  pl_files :: "string list"

text \<open>\<open>xs.indexOf(x)\<close>\<close>

fun indexOf :: "'a list \<Rightarrow> 'a \<Rightarrow> int" where
  "indexOf [] x = -1"
| "indexOf (y # ys) x = (if y = x then 0 else let i = indexOf ys x in if i = -1 then -1 else i + 1)"

definition purged :: "string \<Rightarrow> js_error" where
  "purged startFile = new_Error (''Cannot create incremental backup: required parent binary log ''
     @ in_quotes startFile @ '' has been purged from MySQL server.'')"

text \<open>From the parent's entry, whose end file is among the server's logs, to the coordinates of the
  new backup, with the refusals that depend on the server's position.\<close>

definition plan_incremental :: "backup_meta \<Rightarrow> string list \<Rightarrow> string \<times> int \<Rightarrow> js_error + inc_plan" where
  "plan_incremental parent logs server =
     (let startFile = end_file parent; startPos = end_pos parent;
          startIndex = indexOf logs startFile; endIndex = indexOf logs (fst server) in
      if endIndex < startIndex
      then Inl (new_Error (''Invalid binlog file sequence: end file '' @ in_quotes (fst server)
             @ '' precedes start file '' @ in_quotes startFile @ ''.''))
      else if endIndex = startIndex \<and> snd server \<le> startPos
      then Inl (new_Error (''No new binary log events since parent backup (start: '' @ startFile @ '':''
             @ str_int startPos @ '', current: '' @ fst server @ '':'' @ str_int (snd server) @ '').''))
      else Inr \<lparr>pl_base = or_s (baseBackupId parent) (meta_id parent),
                pl_level = nullish (backupLevel parent) 0 + 1,
                pl_startFile = startFile, pl_startPos = startPos,
                pl_endFile = fst server, pl_endPos = snd server,
                pl_files = take (nat (endIndex + 1 - startIndex)) (drop (nat startIndex) logs)\<rparr>)"

definition parent_not_found :: "string \<Rightarrow> js_error" where
  "parent_not_found i = new_Error (''Parent backup not found for ID: '' @ i)"

definition prepare_incremental :: "mgr_env \<Rightarrow> db_env \<Rightarrow> db_config \<Rightarrow> string \<Rightarrow> (mgr, inc_plan) prog" where
  "prepare_incremental E D cfg parentId =
     bnd (listMetadata E) (\<lambda>allMetadata. case find_meta allMetadata parentId of
       None \<Rightarrow> throw (parent_not_found parentId)
     | Some parent \<Rightarrow>
         if status_bad parent
         then throw (new_Error (''Parent backup '' @ in_quotes parentId @ '' status is '' @ in_quotes (meta_status parent)
                @ ''. Incremental backup requires a successful parent.''))
         else bnd (checkBinlogStatus D cfg) (\<lambda>st.
           if \<not> bs_enabled st
           then throw (new_Error (''Incremental backup failed: binary logging is disabled on MySQL server (log_bin = OFF). ''
                  @ or_s (bs_error st) ''''))
           else bnd (listBinlogFiles D cfg) (\<lambda>logs.
             if indexOf logs (end_file parent) = -1 then throw (purged (end_file parent))
             else bnd (getCurrentBinlogPosition D cfg) (\<lambda>server.
              lift_res (plan_incremental parent logs server)))))"

definition inc_metadata :: "inc_plan \<Rightarrow> string \<Rightarrow> string \<Rightarrow> string \<Rightarrow> int \<Rightarrow> string \<Rightarrow> int \<Rightarrow> string \<Rightarrow> bool \<Rightarrow> backup_meta" where
  "inc_metadata pl i parent db now name sz digest enc = \<lparr>meta_id = i, meta_type = Incremental, database = db,
     baseBackupId = Some (pl_base pl), parentBackupId = Some parent, backupLevel = Some (pl_level pl),
     fullBackupId = Some (pl_base pl), startBinlogFile = pl_startFile pl, startBinlogPosition = pl_startPos pl,
     endBinlogFile = Some (pl_endFile pl), endBinlogPosition = Some (pl_endPos pl), binlogFiles = Some (pl_files pl),
     timestamp = now, meta_size = sz, file_name = name, checksum = Some digest, encrypted = enc, status = Some Success\<rparr>"

definition failed_metadata :: "inc_plan \<Rightarrow> string \<Rightarrow> string \<Rightarrow> string \<Rightarrow> int \<Rightarrow> string \<Rightarrow> backup_meta" where
  "failed_metadata pl i parent db now name = \<lparr>meta_id = i, meta_type = Incremental, database = db,
     baseBackupId = Some (pl_base pl), parentBackupId = Some parent, backupLevel = Some (pl_level pl),
     fullBackupId = None, startBinlogFile = pl_startFile pl, startBinlogPosition = pl_startPos pl,
     endBinlogFile = Some (pl_endFile pl), endBinlogPosition = Some (pl_endPos pl), binlogFiles = None,
     timestamp = now, meta_size = 0, file_name = name, checksum = None, encrypted = False, status = Some Failed\<rparr>"

definition finish_incremental :: "mgr_env \<Rightarrow> db_env \<Rightarrow> db_config \<Rightarrow> backup_options \<Rightarrow> inc_plan \<Rightarrow> string \<Rightarrow> string \<Rightarrow>
    (mgr, backup_result) prog" where
  "finish_incremental E D cfg opts pl parentId backupId =
     (let name = backupId @ ''.sql.gz''; path = backup_path E name in
      bnd (read_file E path) (\<lambda>bs.
      seqp (when_p (bs = []) (throw (new_Error ''mysqlbinlog produced an empty backup file.'')))
     (bnd (seal_file E D opts path name) (\<lambda>sl.
      bnd next_tick (\<lambda>t.
      let meta = inc_metadata pl backupId parentId (cfg_database cfg) (d_now D t) (sl_name sl)
                   (int (length bs)) (sl_digest sl) (sl_encrypted sl) in
      seqp (saveMetadata E meta)
           (ret \<lparr>res_backupId = backupId, res_file = sl_path sl, res_checksum = sl_digest sl,
                 res_metadata = meta, res_encryption = None\<rparr>))))))"

definition run_incremental :: "mgr_env \<Rightarrow> db_env \<Rightarrow> db_config \<Rightarrow> backup_options \<Rightarrow> inc_plan \<Rightarrow> string \<Rightarrow> string \<Rightarrow>
    nat \<Rightarrow> (mgr, backup_result) prog" where
  "run_incremental E D cfg opts pl parentId backupId p =
     seqp (dump_to_file D ''mysqlbinlog'' False p (backup_path E (backupId @ ''.sql.gz'')))
          (finish_incremental E D cfg opts pl parentId backupId)"

definition record_failure :: "mgr_env \<Rightarrow> db_env \<Rightarrow> db_config \<Rightarrow> inc_plan \<Rightarrow> string \<Rightarrow> string \<Rightarrow> (mgr, unit) prog" where
  "record_failure E D cfg pl parentId backupId =
     (let name = backupId @ ''.sql.gz''; path = backup_path E name in
      bnd next_tick (\<lambda>t.
      seqp (saveMetadata E (failed_metadata pl backupId parentId (cfg_database cfg) (d_now D t) name))
     (bnd (gets (\<lambda>s. m_files s path)) (\<lambda>c. when_p (c \<noteq> None) (try_catch (unlink E path) (\<lambda>_. ret ()))))))"

definition createIncrementalBackup :: "mgr_env \<Rightarrow> db_env \<Rightarrow> db_config \<Rightarrow> string \<Rightarrow> backup_options \<Rightarrow>
    (mgr, backup_result) prog" where
  "createIncrementalBackup E D cfg parentId opts =
     bnd (prepare_incremental E D cfg parentId) (\<lambda>pl.
     bnd (new_backup_id D ''inc'' opts) (\<lambda>backupId.
     bnd (spawn ''mysqlbinlog'' (mysqlbinlog_args D cfg (pl_startPos pl) (pl_endPos pl) (pl_files pl)) (password cfg)) (\<lambda>p.
     seqp (open_output (backup_path E (backupId @ ''.sql.gz'')))
          (try_catch (run_incremental E D cfg opts pl parentId backupId p)
            (\<lambda>e. seqp (record_failure E D cfg pl parentId backupId) (throw e))))))"

end
