(* ===== verification/MysqlBackupCorrect.thy ===== *)
theory MysqlBackupCorrect
  imports MysqlBackup
begin

text \<open>
  Correctness of the backup operations of \<open>mysql/manager.ts\<close>: what a successful full or
  incremental backup leaves in the metadata and on disk, what a failed one leaves, the retry
  and timeout wrappers, the cached connection, and the commands that are run.
\<close>

section \<open>What the steps leave alone\<close>

definition same :: "meta_content \<Rightarrow> (string \<Rightarrow> bytes option) \<Rightarrow> mgr \<Rightarrow> bool" where
  "same M F s \<longleftrightarrow> m_meta s = M \<and> m_files s = F"

text \<open>The file being written holds exactly what the checksum has seen.\<close>

definition dumping :: "meta_content \<Rightarrow> (string \<Rightarrow> bytes option) \<Rightarrow> string \<Rightarrow> mgr \<Rightarrow> bool" where
  "dumping M F path s \<longleftrightarrow> m_meta s = M \<and> m_files s = F(path := Some (k_data (m_checksum s)))"

text \<open>Predicates that look at neither the clock, the signals, the delays, the processes, the
  connection nor the commands.\<close>

definition indifferent :: "(mgr \<Rightarrow> bool) \<Rightarrow> bool" where
  "indifferent P \<longleftrightarrow> (\<forall>s. P s \<longrightarrow> (\<forall>t sg sl ps c pr sp. P (s\<lparr>m_tick := t\<rparr>) \<and> P (s\<lparr>m_signalled := sg\<rparr>) \<and>
     P (s\<lparr>m_slept := sl\<rparr>) \<and> P (s\<lparr>m_procs := ps\<rparr>) \<and> P (s\<lparr>m_conn := c, m_connPromise := pr\<rparr>) \<and>
     P (s\<lparr>m_connPromise := pr\<rparr>) \<and> P (s\<lparr>m_spawned := sp\<rparr>)))"

lemma indifferent_same [simp]: "indifferent (same M F)"
  by (simp add: indifferent_def same_def)

lemma indifferent_dumping [simp]: "indifferent (dumping M F path)"
  by (simp add: indifferent_def dumping_def)

locale unobserved =
  fixes P :: "mgr \<Rightarrow> bool"
  assumes P: "indifferent P"
begin

lemma st_tick: "stable P next_tick"
  using P by (simp add: stable_def next_tick_def indifferent_def)

lemma st_ask: "stable P (ask_env f)"
  unfolding ask_env_def by (intro stable st_tick)

lemma st_live: "stable P (live_connection D)"
  using P unfolding live_connection_def
  by (auto intro!: stable stable_modify st_tick split: option.split simp: indifferent_def)

lemma st_getConnection: "stable P (getConnection D cfg)"
  using P unfolding getConnection_def
  by (intro stable st_live) (auto intro!: stable stable_modify st_tick split: option.split sum.split simp: indifferent_def)

lemma st_status: "stable P (getCurrentBinlogPosition D cfg)"
  unfolding getCurrentBinlogPosition_def
  by (intro stable st_getConnection st_ask) (auto intro!: stable st_ask split: list.split)

lemma st_logs: "stable P (listBinlogFiles D cfg)"
  unfolding listBinlogFiles_def by (intro stable st_getConnection st_ask)

lemma st_check: "stable P (checkBinlogStatus D cfg)"
  unfolding checkBinlogStatus_def by (intro stable st_getConnection st_ask)

lemma st_privileges: "stable P (validatePrivileges D cfg)"
  unfolding validatePrivileges_def Let_def by (intro stable st_getConnection st_ask)

lemma st_signal: "stable P (send_signal D p sig)"
  using P unfolding send_signal_def by (intro stable st_tick stable_modify) (simp add: indifferent_def)

lemma st_terminate: "stable P (terminate D p)"
  unfolding terminate_def by (intro stable st_signal)

lemma st_track: "stable P (trackProcess p)"
  using P unfolding trackProcess_def by (intro stable_modify) (simp add: indifferent_def)

lemma st_timeout: "stable P m \<Longrightarrow> stable P m' \<Longrightarrow> stable P (executeWithTimeout D p m m' ms)"
  unfolding executeWithTimeout_def by (intro stable st_track st_tick st_terminate)

lemma st_sleep: "stable P (sleep ms)"
  using P unfolding sleep_def by (intro stable_modify) (simp add: indifferent_def)

lemma st_retry_loop: "stable P m \<Longrightarrow> stable P (retry_loop m n a e)"
  by (induction n arbitrary: a e) (auto intro!: stable st_sleep)

lemma st_retry: "stable P m \<Longrightarrow> stable P (executeWithRetry m n)"
  unfolding executeWithRetry_def by (rule st_retry_loop)

lemma st_spawn: "stable P (spawn cmd args pwd)"
  using P unfolding spawn_def by (intro stable stable_modify st_tick) (simp add: indifferent_def)

lemma st_exit: "stable P (wait_exit D failure)"
  unfolding wait_exit_def by (intro stable st_tick) (auto intro!: stable split: proc_end.split)

lemma st_id: "stable P (new_backup_id D kind opts)"
  unfolding new_backup_id_def by (intro stable st_tick)

lemma st_io: "stable P (io E)"
  using P by (simp add: stable_def io_def Let_def indifferent_def split: option.split)

lemma st_read: "stable P (read_file E path)"
  unfolding read_file_def by (intro stable st_io) (auto intro!: stable split: option.split)

lemma st_list: "stable P (listMetadata E)"
  unfolding listMetadata_def by (intro stable) (auto intro!: stable st_io split: meta_content.split)

lemma st_prepare: "stable P (prepare_incremental E D cfg i)"
  unfolding prepare_incremental_def
  by (intro stable st_list) (auto intro!: stable st_check st_logs st_status split: option.split)

lemmas st = st_tick st_ask st_live st_getConnection st_status st_logs st_check st_signal st_terminate
  st_track st_timeout st_sleep st_retry st_spawn st_exit st_id st_io st_read st_list st_prepare

end

interpretation same: unobserved "same M F" for M F
  by unfold_locales simp

interpretation dumping: unobserved "dumping M F path" for M F path
  by unfold_locales simp

lemma st_pipe: "stable (dumping M F path) (pipe_attempt D h path)"
  unfolding pipe_attempt_def Let_def
  by (intro stable dumping.st_tick stable_modify)
     (auto intro!: stable simp: dumping_def checksum_transform_def split: option.split)

lemma st_dump: "stable (dumping M F path) (dump_to_file D tool h p path)"
  unfolding dump_to_file_def by (intro stable dumping.st_retry dumping.st_timeout st_pipe dumping.st_exit)

lemma open_output_dumping: "open_output path s = (r, s') \<Longrightarrow> dumping (m_meta s) (m_files s) path s'"
  by (auto simp: open_output_def set_file_def prog_defs dumping_def checksum_new_def)

lemma quietD:
  assumes "\<And>M F. stable (same M F) m" and "m s = (r, s')"
  shows "m_meta s' = m_meta s \<and> m_files s' = m_files s"
  using stableD [OF assms(1) assms(2), of "m_meta s" "m_files s"] by (simp add: same_def)

lemma saveMetadata_files: "saveMetadata E m s = (Inr u, s') \<Longrightarrow> m_files s' = m_files s"
proof -
  assume run: "saveMetadata E m s = (Inr u, s')"
  show ?thesis
  proof (rule locked_Inr [OF run [unfolded saveMetadata_def]])
    fix s1 s2
    assume body: "bnd (listMetadata E) (\<lambda>xs. writeMetadata E (put_meta m xs)) s1 = (Inr u, s2)"
      and fr: "m_files s1 = m_files s" "m_files s' = m_files s2"
    from body obtain xs s3 where l: "listMetadata E s1 = (Inr xs, s3)"
      and w: "writeMetadata E (put_meta m xs) s3 = (Inr u, s2)" unfolding bnd_Inr_iff by blast
    from listMetadata_frame [OF l] writeMetadata_Inr [OF w] fr show ?thesis by simp
  qed
qed

lemma read_file_Inr: "read_file E path s = (Inr bs, s') \<Longrightarrow> m_files s path = Some bs"
  unfolding read_file_def bnd_Inr_iff
  by (auto simp: prog_defs split: option.splits dest!: io_cases)

text \<open>From the opened output to the stored entry, without encryption.\<close>

definition plain :: "backup_options \<Rightarrow> bool" where
  "plain opts \<longleftrightarrow> \<not> (o_encrypt opts \<and> truthy_s (o_encryptionKey opts))"

lemma seal_plain:
  assumes "plain opts" and "seal_file E D opts path name s = (Inr r, s')"
  shows "s' = s \<and> r = \<lparr>sl_digest = e_sha256 E (k_data (m_checksum s)), sl_path = path, sl_name = name,
    sl_encryption = None\<rparr>"
  using assms by (auto simp: seal_file_def plain_def prog_defs getChecksum_def)

lemma dumped_file:
  assumes "dumping M F path s" and "read_file E path s = (Inr bs, s')"
  shows "bs = k_data (m_checksum s) \<and> dumping M F path s'"
  using assms read_file_Inr [OF assms(2)] stableD [OF dumping.st_read assms(2,1)]
  by (simp add: dumping_def)

lemma finish_full_stored:
  assumes run: "finish_full E D cfg opts i server s = (Inr r, s')" and plain: "plain opts"
    and d: "dumping M F (backup_path E (i @ ''.sql.gz'')) s"
  shows "\<exists>f p now dat.
    res_metadata r = full_metadata i (cfg_database cfg) f p now (i @ ''.sql.gz'')
      (int (length dat)) (e_sha256 E dat) False \<and> res_backupId r = i \<and>
    m_files s' = F(backup_path E (i @ ''.sql.gz'') := Some dat) \<and>
    entries_of (m_meta s') = put_meta (res_metadata r) (entries_of M)"
proof -
  let ?path = "backup_path E (i @ ''.sql.gz'')"
  from run obtain start bs s1 sl s2 t s3 where rd: "read_file E ?path s = (Inr bs, s1)"
    and sl: "seal_file E D opts ?path (i @ ''.sql.gz'') s1 = (Inr sl, s2)"
    and tk: "next_tick s2 = (Inr t, s3)"
    and sv: "saveMetadata E (res_metadata r) s3 = (Inr (), s')"
    and m: "res_metadata r = full_metadata i (cfg_database cfg) (fst start) (snd start) (d_now D t) (sl_name sl)
      (int (length bs)) (sl_digest sl) (sl_encrypted sl)" and i: "res_backupId r = i"
    unfolding finish_full_def Let_def bnd_Inr_iff gets_def ret_def by auto
  from dumped_file [OF d rd] have bs: "bs = k_data (m_checksum s)" and d1: "dumping M F ?path s1" by auto
  have f1: "F(?path := Some bs) = m_files s1"
    using quietD [OF same.st_read rd] d bs by (simp add: dumping_def)
  then have "bs = k_data (m_checksum s1)" using d1 by (auto simp: dumping_def dest: fun_upd_eqD)
  with seal_plain [OF plain sl] have q: "sl_name sl = i @ ''.sql.gz''" "sl_digest sl = e_sha256 E bs"
    "\<not> sl_encrypted sl" "s2 = s1" by (auto simp: sl_encrypted_def)
  have "m_meta s3 = M" "m_files s3 = F(?path := Some bs)"
    using quietD [OF same.st_tick tk] q d1 f1 by (simp_all add: dumping_def)
  with saveMetadata_files [OF sv] saveMetadata_entries [OF sv] m i q show ?thesis by auto
qed

lemma createFullBackup_stored:
  assumes run: "createFullBackup E D cfg opts s = (Inr r, s')" and plain: "plain opts"
  shows "\<exists>f p now dat.
    res_metadata r = full_metadata (res_backupId r) (cfg_database cfg) f p now (res_backupId r @ ''.sql.gz'')
      (int (length dat)) (e_sha256 E dat) False \<and>
    m_files s' = (m_files s)(backup_path E (res_backupId r @ ''.sql.gz'') := Some dat) \<and>
    entries_of (m_meta s') = put_meta (res_metadata r) (entries_of (m_meta s))"
proof -
  from run obtain i s1 sv s2 p s3 s4 s5 u v where
    a: "new_backup_id D ''full'' opts s = (Inr i, s1)" "getCurrentBinlogPosition D cfg s1 = (Inr sv, s2)"
    "spawn ''mysqldump'' (mysqldump_args D cfg opts) (password cfg) s2 = (Inr p, s3)"
    and o: "open_output (backup_path E (i @ ''.sql.gz'')) s3 = (Inr u, s4)"
    and d: "dump_to_file D ''mysqldump'' True p (backup_path E (i @ ''.sql.gz'')) s4 = (Inr v, s5)"
    and f: "finish_full E D cfg opts i sv s5 = (Inr r, s')"
    unfolding createFullBackup_def bnd_Inr_iff by blast
  have same: "m_meta s3 = m_meta s" "m_files s3 = m_files s"
    using quietD [OF same.st_id a(1)] quietD [OF same.st_status a(2)] quietD [OF same.st_spawn a(3)] by simp_all
  have d5: "dumping (m_meta s) (m_files s) (backup_path E (i @ ''.sql.gz'')) s5"
    using stableD [OF st_dump d] open_output_dumping [OF o] same by simp
  from finish_full_stored [OF f plain d5] show ?thesis by auto
qed

lemma finish_incremental_stored:
  assumes run: "finish_incremental E D cfg opts pl parent i s = (Inr r, s')" and plain: "plain opts"
    and d: "dumping M F (backup_path E (i @ ''.sql.gz'')) s"
  shows "\<exists>now dat. dat \<noteq> [] \<and>
    res_metadata r = inc_metadata pl i parent (cfg_database cfg) now (i @ ''.sql.gz'')
      (int (length dat)) (e_sha256 E dat) False \<and> res_backupId r = i \<and>
    m_files s' = F(backup_path E (i @ ''.sql.gz'') := Some dat) \<and>
    entries_of (m_meta s') = put_meta (res_metadata r) (entries_of M)"
proof -
  let ?path = "backup_path E (i @ ''.sql.gz'')"
  from run obtain bs s1 sl s2 t s3 where rd: "read_file E ?path s = (Inr bs, s1)" and ne: "bs \<noteq> []"
    and sl: "seal_file E D opts ?path (i @ ''.sql.gz'') s1 = (Inr sl, s2)"
    and tk: "next_tick s2 = (Inr t, s3)"
    and sv: "saveMetadata E (res_metadata r) s3 = (Inr (), s')"
    and m: "res_metadata r = inc_metadata pl i parent (cfg_database cfg) (d_now D t) (sl_name sl)
      (int (length bs)) (sl_digest sl) (sl_encrypted sl)" and i: "res_backupId r = i"
    unfolding finish_incremental_def Let_def bnd_Inr_iff ret_def when_p_def throw_def by (auto split: if_splits)
  from dumped_file [OF d rd] have bs: "bs = k_data (m_checksum s)" and d1: "dumping M F ?path s1" by auto
  have f1: "F(?path := Some bs) = m_files s1"
    using quietD [OF same.st_read rd] d bs by (simp add: dumping_def)
  then have "bs = k_data (m_checksum s1)" using d1 by (auto simp: dumping_def dest: fun_upd_eqD)
  with seal_plain [OF plain sl] have q: "sl_name sl = i @ ''.sql.gz''" "sl_digest sl = e_sha256 E bs"
    "\<not> sl_encrypted sl" "s2 = s1" by (auto simp: sl_encrypted_def)
  have "m_meta s3 = M" "m_files s3 = F(?path := Some bs)"
    using quietD [OF same.st_tick tk] q d1 f1 by (simp_all add: dumping_def)
  with saveMetadata_files [OF sv] saveMetadata_entries [OF sv] m i q ne show ?thesis by auto
qed

lemma prepare_incremental_plan:
  assumes "prepare_incremental E D cfg parent s = (Inr pl, s')"
  shows "\<exists>p logs server. find_meta (entries_of (m_meta s)) parent = Some p \<and> \<not> status_bad p \<and>
    plan_incremental p logs server = Inr pl \<and> indexOf logs (end_file p) \<noteq> -1 \<and>
    m_meta s' = m_meta s \<and> m_files s' = m_files s"
proof -
  obtain xs s1 where l: "listMetadata E s = (Inr xs, s1)"
    and body: "(case find_meta xs parent of None \<Rightarrow> throw (parent_not_found parent)
      | Some p \<Rightarrow> if status_bad p then throw (new_Error (''Parent backup '' @ in_quotes parent @ '' status is ''
           @ in_quotes (meta_status p) @ ''. Incremental backup requires a successful parent.''))
         else bnd (checkBinlogStatus D cfg) (\<lambda>st.
           if \<not> bs_enabled st
           then throw (new_Error (''Incremental backup failed: binary logging is disabled on MySQL server (log_bin = OFF). ''
                  @ or_s (bs_error st) ''''))
           else bnd (listBinlogFiles D cfg) (\<lambda>logs.
             if indexOf logs (end_file p) = -1 then throw (purged (end_file p))
             else bnd (getCurrentBinlogPosition D cfg) (\<lambda>server.
              lift_res (plan_incremental p logs server))))) s1 = (Inr pl, s')"
    using assms unfolding prepare_incremental_def by (rule bnd_InrE)
  have k: "\<exists>p. find_meta xs parent = Some p \<and> \<not> status_bad p \<and>
      (\<exists>logs server. indexOf logs (end_file p) \<noteq> -1 \<and> plan_incremental p logs server = Inr pl)"
  proof (cases "find_meta xs parent")
    case (Some p)
    with body show ?thesis
      by (cases "status_bad p") (auto simp: bnd_Inr_iff lift_res_def split: if_split_asm)
  qed (use body in simp)
  from k obtain p logs server where p: "find_meta xs parent = Some p" "\<not> status_bad p"
    and "indexOf logs (end_file p) \<noteq> -1" "plan_incremental p logs server = Inr pl" by blast
  moreover have "xs = entries_of (m_meta s)" using listMetadata_frame [OF l] by simp
  ultimately show ?thesis using p quietD [OF same.st_prepare assms] by metis
qed

lemma plan_incremental_Inr:
  "plan_incremental p logs server = Inr pl \<Longrightarrow> pl_startFile pl = end_file p \<and> pl_startPos pl = end_pos p \<and>
     pl_level pl = nullish (backupLevel p) 0 + 1 \<and> pl_endFile pl = fst server \<and> pl_endPos pl = snd server \<and>
     pl_base pl = or_s (baseBackupId p) (meta_id p)"
  by (auto simp: plan_incremental_def Let_def split: if_splits)

lemma try_catch_rethrow_Inr:
  "try_catch m (\<lambda>e. seqp h (throw e)) s = (Inr x, s') \<Longrightarrow> m s = (Inr x, s')"
  by (auto simp: try_catch_def bnd_def throw_def split: prod.splits sum.splits)

lemma createIncrementalBackup_stored:
  assumes run: "createIncrementalBackup E D cfg parent opts s = (Inr r, s')" and plain: "plain opts"
  shows "\<exists>p logs server pl now dat. find_meta (entries_of (m_meta s)) parent = Some p \<and> \<not> status_bad p \<and>
    plan_incremental p logs server = Inr pl \<and> indexOf logs (end_file p) \<noteq> -1 \<and> dat \<noteq> [] \<and>
    res_metadata r = inc_metadata pl (res_backupId r) parent (cfg_database cfg) now (res_backupId r @ ''.sql.gz'')
      (int (length dat)) (e_sha256 E dat) False \<and>
    m_files s' = (m_files s)(backup_path E (res_backupId r @ ''.sql.gz'') := Some dat) \<and>
    entries_of (m_meta s') = put_meta (res_metadata r) (entries_of (m_meta s))"
proof -
  from run obtain pl s1 i s2 p s3 u s4 where
    a: "prepare_incremental E D cfg parent s = (Inr pl, s1)" "new_backup_id D ''inc'' opts s1 = (Inr i, s2)"
    "spawn ''mysqlbinlog'' (mysqlbinlog_args D cfg (pl_startPos pl) (pl_endPos pl) (pl_files pl)) (password cfg) s2
       = (Inr p, s3)"
    and o: "open_output (backup_path E (i @ ''.sql.gz'')) s3 = (Inr u, s4)"
    and t: "try_catch (run_incremental E D cfg opts pl parent i p)
            (\<lambda>e. seqp (record_failure E D cfg pl parent i) (throw e)) s4 = (Inr r, s')"
    unfolding createIncrementalBackup_def bnd_Inr_iff by blast
  from try_catch_rethrow_Inr [OF t] obtain v s5
    where d: "dump_to_file D ''mysqlbinlog'' False p (backup_path E (i @ ''.sql.gz'')) s4 = (Inr v, s5)"
      and f: "finish_incremental E D cfg opts pl parent i s5 = (Inr r, s')"
    unfolding run_incremental_def bnd_Inr_iff by blast
  have same: "m_meta s3 = m_meta s" "m_files s3 = m_files s"
    using prepare_incremental_plan [OF a(1)] quietD [OF same.st_id a(2)] quietD [OF same.st_spawn a(3)] by auto
  have d5: "dumping (m_meta s) (m_files s) (backup_path E (i @ ''.sql.gz'')) s5"
    using stableD [OF st_dump d] open_output_dumping [OF o] same by simp
  from finish_incremental_stored [OF f plain d5] prepare_incremental_plan [OF a(1)] show ?thesis by metis
qed

text \<open>Adding an entry at the end of a valid chain.\<close>

lemma chain_extend:
  assumes c: "is_chain xs i c" and fresh: "meta_id m \<notin> meta_id ` set xs"
    and link: "parent_link (last (chain_members c)) m"
  shows "is_chain (put_meta m xs) (meta_id m) (c\<lparr>increments := increments c @ [m]\<rparr>)"
proof -
  have mem: "chain_members (c\<lparr>increments := increments c @ [m]\<rparr>) = chain_members c @ [m]"
    by (simp add: chain_members_def)
  have "filter (\<lambda>x. meta_id x \<noteq> meta_id m) xs = xs" using fresh by (simp add: filter_id_conv) (metis imageI)
  moreover have "meta_id m \<notin> meta_id ` set (chain_members c)"
    using c fresh by (auto simp: is_chain_def is_path_def)
  moreover have "successively parent_link (chain_members c @ [m])"
    using c link by (simp add: is_chain_def is_path_def successively_append_iff)
  moreover have "last (chain_members c @ [m]) = m" "fullBackup (c\<lparr>increments := increments c @ [m]\<rparr>) = fullBackup c"
    by simp_all
  ultimately show ?thesis
    using c unfolding is_chain_def is_path_def mem put_meta_def by auto
qed

section \<open>A concrete server for the witnesses\<close>

definition sample_db :: db_env where
  "sample_db = \<lparr>d_host = docker_env, d_connect = (\<lambda>_ _. Inr 1), d_ping = (\<lambda>_ _. True),
     d_grants = (\<lambda>_ _. Inr [''GRANT ALL PRIVILEGES'']), d_variable = (\<lambda>_ _ _. Inr (Some ''ON'')),
     d_status = (\<lambda>_ _ _. Inr [(''bin.3'', 7)]), d_logs = (\<lambda>_ _. Inr [''bin.1'', ''bin.2'', ''bin.3'']),
     d_pipe = (\<lambda>_. \<lparr>p_raw = [], p_gz = [4, 2], p_error = None\<rparr>), d_timeout = (\<lambda>_. False),
     d_kill = (\<lambda>_. True), d_exit = (\<lambda>_. Exited (Some 0)), d_stderr = (\<lambda>_. ''''),
     d_now = (\<lambda>_. 40 * day_ms), d_iso = (\<lambda>_. ''2026''), d_uuid = (\<lambda>_. ''u''), d_iv = (\<lambda>_. toy_iv),
     d_codec = toy_codec, d_gcm = toy_gcm, d_chunks = (\<lambda>_ bs. [bs]), d_gunzip = id, d_key = None\<rparr>"

definition sample_cfg :: db_config where
  "sample_cfg = \<lparr>host = Some ''localhost'', port = None, username = Some ''u'', password = Some ''secret'',
     cfg_database = ''db'', ssl = None, connectionString = None\<rparr>"

definition sample_opts :: backup_options where
  "sample_opts = \<lparr>o_backupId = Some ''b'', o_tables = [], o_excludeTables = [], o_encrypt = False,
     o_encryptionKey = None\<rparr>"

lemma sample_plain [simp]: "plain sample_opts"
  by (simp add: plain_def sample_opts_def)

lemma sample_full_runs: "\<not> isl (fst (createFullBackup sample_env sample_db sample_cfg sample_opts sample_mgr))"
proof -
  have 0: "backup_path sample_env (''b'' @ ''.sql.gz'') = ''/d/b.sql.gz''" by code_simp
  have "fst (new_backup_id sample_db ''full'' sample_opts sample_mgr) = Inr ''b''" by code_simp
  then obtain s1 where 1: "new_backup_id sample_db ''full'' sample_opts sample_mgr = (Inr ''b'', s1)"
    and s1: "s1 = snd (new_backup_id sample_db ''full'' sample_opts sample_mgr)" by (rule run_obtain)
  have "fst (getCurrentBinlogPosition sample_db sample_cfg s1) = Inr (''bin.3'', 7)" unfolding s1 by code_simp
  then obtain s2 where 2: "getCurrentBinlogPosition sample_db sample_cfg s1 = (Inr (''bin.3'', 7), s2)"
    and s2: "s2 = snd (getCurrentBinlogPosition sample_db sample_cfg s1)" by (rule run_obtain)
  let ?spawn = "spawn ''mysqldump'' (mysqldump_args sample_db sample_cfg sample_opts) (password sample_cfg)"
  have "fst (?spawn s2) = Inr 3" unfolding s2 s1 by code_simp
  then obtain s3 where 3: "?spawn s2 = (Inr 3, s3)" and s3: "s3 = snd (?spawn s2)" by (rule run_obtain)
  have "fst (open_output ''/d/b.sql.gz'' s3) = Inr ()" unfolding s3 s2 s1 by code_simp
  then obtain s4 where 4: "open_output ''/d/b.sql.gz'' s3 = (Inr (), s4)"
    and s4: "s4 = snd (open_output ''/d/b.sql.gz'' s3)" by (rule run_obtain)
  let ?dump = "dump_to_file sample_db ''mysqldump'' True 3 ''/d/b.sql.gz''"
  have "fst (?dump s4) = Inr ()" unfolding s4 s3 s2 s1 by code_simp
  then obtain s5 where 5: "?dump s4 = (Inr (), s5)" and s5: "s5 = snd (?dump s4)" by (rule run_obtain)
  have "\<not> isl (fst (finish_full sample_env sample_db sample_cfg sample_opts ''b'' (''bin.3'', 7) s5))"
    unfolding s5 s4 s3 s2 s1 by code_simp
  then show ?thesis by (simp only: createFullBackup_def bnd_def 0 1 2 3 4 5 prod.case sum.case simp_thms)
qed

definition sample_pl :: inc_plan where
  "sample_pl = \<lparr>pl_base = ''f'', pl_level = 2, pl_startFile = ''bin.2'', pl_startPos = 40,
     pl_endFile = ''bin.3'', pl_endPos = 7, pl_files = [''bin.2'', ''bin.3'']\<rparr>"

lemma sample_inc_runs:
  "\<exists>r s'. createIncrementalBackup sample_env sample_db sample_cfg ''i'' sample_opts sample_mgr = (Inr r, s') \<and>
     res_backupId r = ''b''"
proof -
  have 0: "backup_path sample_env (''b'' @ ''.sql.gz'') = ''/d/b.sql.gz''" by code_simp
  have "fst (prepare_incremental sample_env sample_db sample_cfg ''i'' sample_mgr) = Inr sample_pl" by code_simp
  then obtain s1 where 1: "prepare_incremental sample_env sample_db sample_cfg ''i'' sample_mgr = (Inr sample_pl, s1)"
    and s1: "s1 = snd (prepare_incremental sample_env sample_db sample_cfg ''i'' sample_mgr)" by (rule run_obtain)
  have "fst (new_backup_id sample_db ''inc'' sample_opts s1) = Inr ''b''" unfolding s1 by code_simp
  then obtain s2 where 2: "new_backup_id sample_db ''inc'' sample_opts s1 = (Inr ''b'', s2)"
    and s2: "s2 = snd (new_backup_id sample_db ''inc'' sample_opts s1)" by (rule run_obtain)
  let ?spawn = "spawn ''mysqlbinlog'' (mysqlbinlog_args sample_db sample_cfg (pl_startPos sample_pl) (pl_endPos sample_pl) (pl_files sample_pl))
      (password sample_cfg)"
  obtain p where "fst (?spawn s2) = Inr p" by (simp add: spawn_def next_tick_def prog_defs)
  then obtain s3 where 3: "?spawn s2 = (Inr p, s3)" and s3: "s3 = snd (?spawn s2)" by (rule run_obtain)
  have "fst (open_output ''/d/b.sql.gz'' s3) = Inr ()" by (simp add: open_output_def set_file_def prog_defs)
  then obtain s4 where 4: "open_output ''/d/b.sql.gz'' s3 = (Inr (), s4)"
    and s4: "s4 = snd (open_output ''/d/b.sql.gz'' s3)" by (rule run_obtain)
  let ?dump = "dump_to_file sample_db ''mysqlbinlog'' False p ''/d/b.sql.gz''"
  have "fst (?dump s4) = Inr ()" unfolding s4 s3 s2 s1 by code_simp
  then obtain s5 where 5: "?dump s4 = (Inr (), s5)" and s5: "s5 = snd (?dump s4)" by (rule run_obtain)
  have "case fst (finish_incremental sample_env sample_db sample_cfg sample_opts sample_pl ''i'' ''b'' s5) of
      Inl _ \<Rightarrow> False | Inr r \<Rightarrow> res_backupId r = ''b''"
    unfolding s5 s4 s3 s2 s1 by code_simp
  then obtain r s6 where 6: "finish_incremental sample_env sample_db sample_cfg sample_opts sample_pl ''i'' ''b'' s5 = (Inr r, s6)"
    and r: "res_backupId r = ''b''"
    by (cases "finish_incremental sample_env sample_db sample_cfg sample_opts sample_pl ''i'' ''b'' s5") (auto split: sum.splits)
  have "createIncrementalBackup sample_env sample_db sample_cfg ''i'' sample_opts sample_mgr = (Inr r, s6)"
    by (simp only: createIncrementalBackup_def run_incremental_def try_catch_def bnd_def 0 1 2 3 4 5 6 prod.case sum.case)
  with r show ?thesis by blast
qed

lemma not_isl_obtain: "\<not> isl (fst x) \<Longrightarrow> \<exists>r s'. x = (Inr r, s')"
  by (cases x) (metis isl_def fst_conv sum.exhaust_sel)

text \<open>The entry of a full backup that was not encrypted, and its file.\<close>

lemma full_backup_entry:
  assumes "createFullBackup E D cfg opts s = (Inr r, s')" and "plain opts"
  shows "find_meta (entries_of (m_meta s')) (res_backupId r) = Some (res_metadata r) \<and> meta_id (res_metadata r) = res_backupId r \<and>
    meta_type (res_metadata r) = Full \<and> parentBackupId (res_metadata r) = None \<and>
    chain_valid E (m_files s') \<lparr>fullBackup = res_metadata r, increments = []\<rparr>"
proof -
  from createFullBackup_stored [OF assms] obtain f p now dat where
    m: "res_metadata r = full_metadata (res_backupId r) (cfg_database cfg) f p now (res_backupId r @ ''.sql.gz'')
      (int (length dat)) (e_sha256 E dat) False"
    and f: "m_files s' (backup_path E (res_backupId r @ ''.sql.gz'')) = Some dat"
    and e: "entries_of (m_meta s') = put_meta (res_metadata r) (entries_of (m_meta s))" by auto
  have flds: "meta_id (res_metadata r) = res_backupId r" "file_name (res_metadata r) = res_backupId r @ ''.sql.gz''"
    "checksum (res_metadata r) = Some (e_sha256 E dat)" "status (res_metadata r) = Some Success"
    "parentBackupId (res_metadata r) = None" "meta_type (res_metadata r) = Full"
    unfolding m by (simp_all add: full_metadata_def)
  then show ?thesis
    unfolding e find_put_meta using f
    by (simp add: chain_members_def chain_valid_def artifact_ok_def status_bad_def)
qed

section \<open>Properties\<close>

text \<open>A full backup that returns without encryption is restorable at once: its entry is found under
  the returned identifier, it is a chain of its own, and the file on disk passes validation.\<close>

lemma fullBackup_restorable:
  assumes "createFullBackup E D cfg opts s = (Inr r, s')" and "plain opts"
  defines "c \<equiv> \<lparr>fullBackup = res_metadata r, increments = []\<rparr>"
  shows "find_meta (entries_of (m_meta s')) (res_backupId r) = Some (res_metadata r) \<and>
    is_chain (entries_of (m_meta s')) (res_backupId r) c \<and> chain_valid E (m_files s') c"
  using full_backup_entry [OF assms(1,2)] find_meta_Some
  by (auto simp: is_chain_def is_path_def chain_members_def c_def)

lemma fullBackup_restorable_witness:
  "\<exists>r s'. createFullBackup sample_env sample_db sample_cfg sample_opts sample_mgr = (Inr r, s') \<and>
     chain_valid sample_env (m_files s') \<lparr>fullBackup = res_metadata r, increments = []\<rparr>"
  using not_isl_obtain [OF sample_full_runs] fullBackup_restorable [OF _ sample_plain] by blast

text \<open>C4: An incremental backup that returns without encryption extends its parent's chain: if the
  chain of the parent was reconstructible and valid before, then the chain with the new entry
  appended is reconstructible under the new identifier and valid after, as long as identifier and
  file name are new.\<close>

theorem incrementalBackup_extends:
  assumes "createIncrementalBackup E D cfg parent opts s = (Inr r, s')" and "plain opts" and "parent \<noteq> ''''"
    and "distinct (map meta_id (entries_of (m_meta s)))"
    and "is_chain (entries_of (m_meta s)) parent c" and "chain_valid E (m_files s) c"
    and "res_backupId r \<notin> meta_id ` set (entries_of (m_meta s))"
    and "backup_path E (res_backupId r @ ''.sql.gz'') \<notin> (\<lambda>m. backup_path E (file_name m)) ` set (chain_members c)"
  defines "c' \<equiv> c\<lparr>increments := increments c @ [res_metadata r]\<rparr>"
  shows "is_chain (entries_of (m_meta s')) (res_backupId r) c' \<and> chain_valid E (m_files s') c'"
proof -
  from createIncrementalBackup_stored [OF assms(1,2)] obtain p logs server pl now dat where
    p: "find_meta (entries_of (m_meta s)) parent = Some p" and pl: "plan_incremental p logs server = Inr pl"
    and m: "res_metadata r = inc_metadata pl (res_backupId r) parent (cfg_database cfg) now
      (res_backupId r @ ''.sql.gz'') (int (length dat)) (e_sha256 E dat) False"
    and f: "m_files s' = (m_files s)(backup_path E (res_backupId r @ ''.sql.gz'') := Some dat)"
    and e: "entries_of (m_meta s') = put_meta (res_metadata r) (entries_of (m_meta s))" by blast
  have "last (chain_members c) \<in> set (entries_of (m_meta s))" "meta_id (last (chain_members c)) = parent"
    using assms(5) last_in_set [of "chain_members c"] by (auto simp: is_chain_def is_path_def chain_members_def)
  then have last: "last (chain_members c) = p"
    using p find_meta_distinct [OF assms(4), of "last (chain_members c)"] by simp
  have id: "meta_id (res_metadata r) = res_backupId r" unfolding m by (simp add: inc_metadata_def)
  have pid: "meta_id p = parent" using p find_meta_Some by blast
  have link: "parent_link (last (chain_members c)) (res_metadata r)"
    unfolding last m using pid assms(3) by (simp add: parent_link_def inc_metadata_def)
  have lk: "link_ok p (res_metadata r)"
    unfolding m link_ok_def using plan_incremental_Inr [OF pl] by (simp add: inc_metadata_def)
  have mem: "chain_members c' = chain_members c @ [res_metadata r]" by (simp add: c'_def chain_members_def)
  have art: "artifact_ok E (m_files s') (res_metadata r)"
    unfolding m f artifact_ok_def status_bad_def by (simp add: inc_metadata_def)
  have old: "artifact_ok E (m_files s') x" if "x \<in> set (chain_members c)" for x
  proof -
    have "backup_path E (file_name x) \<noteq> backup_path E (res_backupId r @ ''.sql.gz'')"
      using that assms(8) by (metis image_eqI)
    with that assms(6) show ?thesis by (simp add: chain_valid_def artifact_ok_def f)
  qed
  have "successively link_ok (chain_members c @ [res_metadata r])"
    using assms(6) lk last by (simp add: chain_valid_def successively_append_iff)
  then have "chain_valid E (m_files s') c'" using art old unfolding chain_valid_def mem by auto
  moreover have "is_chain (entries_of (m_meta s')) (res_backupId r) c'"
    using chain_extend [OF assms(5) _ link] assms(7) unfolding e c'_def id by blast
  ultimately show ?thesis by blast
qed

theorem incrementalBackup_extends_witness:
  "\<exists>r s'. createIncrementalBackup sample_env sample_db sample_cfg ''i'' sample_opts sample_mgr = (Inr r, s') \<and>
     chain_valid sample_env (m_files s') (sample_chain\<lparr>increments := [sample_inc, res_metadata r]\<rparr>)"
proof -
  obtain r s' where run: "createIncrementalBackup sample_env sample_db sample_cfg ''i'' sample_opts sample_mgr = (Inr r, s')"
    and id: "res_backupId r = ''b''" using sample_inc_runs by blast
  have valid: "chain_valid sample_env (m_files sample_mgr) sample_chain"
    by (simp add: sample_defs chain_valid_def chain_members_def artifact_ok_def status_bad_def link_ok_def
        end_file_def end_pos_def)
  have "backup_path sample_env (''b'' @ ''.sql.gz'') = ''/d/b.sql.gz''" by code_simp
  then have "backup_path sample_env (res_backupId r @ ''.sql.gz'') \<notin>
      (\<lambda>m. backup_path sample_env (file_name m)) ` set (chain_members sample_chain)"
    by (simp add: id sample_chain_def chain_members_def sample_full_def sample_inc_def)
  moreover have "res_backupId r \<notin> meta_id ` set (entries_of (m_meta sample_mgr))"
    by (simp add: id sample_mgr_def sample_full_def sample_inc_def)
  ultimately have "chain_valid sample_env (m_files s') (sample_chain\<lparr>increments := increments sample_chain @ [res_metadata r]\<rparr>)"
    using incrementalBackup_extends [OF run sample_plain _ sample_distinct sample_is_chain valid] by blast
  with run show ?thesis by (simp add: sample_chain_def)
qed

lemma indexOf_nth: "indexOf xs x \<noteq> -1 \<Longrightarrow> 0 \<le> indexOf xs x \<and> nat (indexOf xs x) < length xs \<and> xs ! nat (indexOf xs x) = x"
proof (induction xs)
  case (Cons y ys)
  show ?case
  proof (cases "y = x")
    case False
    with Cons.prems have "indexOf ys x \<noteq> -1" and i: "indexOf (y # ys) x = indexOf ys x + 1"
      by (auto simp: Let_def split: if_splits)
    with Cons.IH have "0 \<le> indexOf ys x" "nat (indexOf ys x) < length ys" "ys ! nat (indexOf ys x) = x" by auto
    then show ?thesis unfolding i by (simp add: nat_add_distrib)
  qed simp
qed simp

text \<open>The files an incremental backup asks \<open>mysqlbinlog\<close> for are a contiguous run of the
  server's logs, from the one where the parent ended to the one the server is writing, and
  the stretch is not empty.\<close>

lemma plan_incremental_covers:
  assumes "plan_incremental p logs server = Inr pl" and "indexOf logs (end_file p) \<noteq> -1"
  shows "\<exists>before after. logs = before @ pl_files pl @ after \<and> pl_files pl \<noteq> [] \<and>
    hd (pl_files pl) = end_file p \<and> last (pl_files pl) = fst server \<and>
    (length (pl_files pl) = 1 \<longrightarrow> end_pos p < snd server)"
proof -
  let ?a = "indexOf logs (end_file p)" and ?b = "indexOf logs (fst server)"
  from assms have le: "?a \<le> ?b" and new: "?b = ?a \<longrightarrow> end_pos p < snd server"
    and files: "pl_files pl = take (nat (?b + 1 - ?a)) (drop (nat ?a) logs)"
    by (auto simp: plan_incremental_def Let_def split: if_splits)
  note a = indexOf_nth [OF assms(2)]
  have "?b \<noteq> -1" using le a by auto
  note b = indexOf_nth [OF this]
  define n where "n = nat (?b + 1 - ?a)"
  have n: "0 < n" "nat ?a + n = Suc (nat ?b)" using le a b by (auto simp: n_def)
  have "n \<le> length logs - nat ?a" using n b by linarith
  then have len: "length (pl_files pl) = n" by (simp add: files n_def [symmetric])
  have ne: "pl_files pl \<noteq> []" using len n by auto
  have "logs = take (nat ?a) logs @ pl_files pl @ drop n (drop (nat ?a) logs)"
    unfolding files n_def [symmetric] by (metis append_take_drop_id)
  moreover have "hd (pl_files pl) = end_file p"
    using ne a by (simp add: hd_conv_nth files)
  moreover have "last (pl_files pl) = fst server"
  proof -
    have "last (pl_files pl) = drop (nat ?a) logs ! (n - 1)"
      using ne len n by (simp add: last_conv_nth files n_def)
    also have "\<dots> = logs ! (nat ?a + (n - 1))" using a by simp
    also have "nat ?a + (n - 1) = nat ?b" using n by simp
    finally show ?thesis using b by simp
  qed
  moreover have "length (pl_files pl) = 1 \<longrightarrow> end_pos p < snd server"
  proof
    assume "length (pl_files pl) = 1"
    then have "nat ?a = nat ?b" using len n by simp
    then have "?b = ?a" using a b by (metis eq_nat_nat_iff)
    then show "end_pos p < snd server" using new by simp
  qed
  ultimately show ?thesis using ne by blast
qed

lemma plan_incremental_covers_witness:
  "\<exists>pl. plan_incremental sample_inc [''bin.1'', ''bin.2'', ''bin.3''] (''bin.3'', 7) = Inr pl \<and> last (pl_files pl) = ''bin.3''"
proof -
  let ?run = "plan_incremental sample_inc [''bin.1'', ''bin.2'', ''bin.3''] (''bin.3'', 7)"
  have "\<not> isl ?run" by code_simp
  then obtain pl where pl: "?run = Inr pl" by (cases ?run) auto
  have "indexOf [''bin.1'', ''bin.2'', ''bin.3''] (end_file sample_inc) \<noteq> -1" by code_simp
  from plan_incremental_covers [OF pl this] pl show ?thesis by auto
qed

lemma failed_invalid: "status m = Some Failed \<Longrightarrow> m \<in> set (chain_members c) \<Longrightarrow> \<not> chain_valid E files c"
  by (fastforce simp: chain_valid_def artifact_ok_def status_bad_def)

text \<open>When the run of an incremental backup throws and the failure can be recorded, the entry under
  its identifier says so, and no chain that contains it passes validation.\<close>

lemma failed_incremental_unusable:
  assumes "run_incremental E D cfg opts pl parent i p s = (Inl e, s1)"
    and "record_failure E D cfg pl parent i s1 = (Inr (), s')"
  shows "try_catch (run_incremental E D cfg opts pl parent i p)
      (\<lambda>e. seqp (record_failure E D cfg pl parent i) (throw e)) s = (Inl e, s') \<and>
    (\<exists>m. find_meta (entries_of (m_meta s')) i = Some m \<and> status m = Some Failed \<and>
      (\<forall>c files. m \<in> set (chain_members c) \<longrightarrow> \<not> chain_valid E files c))"
proof -
  from assms(2) obtain t s2 u s3 c s4 where
    sv: "saveMetadata E (failed_metadata pl i parent (cfg_database cfg) (d_now D t) (i @ ''.sql.gz'')) s2 = (Inr u, s3)"
    and g: "gets (\<lambda>s. m_files s (backup_path E (i @ ''.sql.gz''))) s3 = (Inr c, s4)"
    and r: "when_p (c \<noteq> None) (try_catch (unlink E (backup_path E (i @ ''.sql.gz''))) (\<lambda>_. ret ())) s4 = (Inr (), s')"
    unfolding record_failure_def Let_def bnd_Inr_iff by blast
  have s4: "s4 = s3" using g by (simp add: gets_def)
  have keep: "stable (\<lambda>s. m_meta s = m_meta s3) (unlink E path)" for path
    unfolding unlink_def read_file_def
    by (intro stable stable_modify) (auto simp: stable_def io_def Let_def prog_defs split: option.splits)
  have "m_meta s' = m_meta s3"
  proof -
    have "stable (\<lambda>s. m_meta s = m_meta s3)
      (when_p (c \<noteq> None) (try_catch (unlink E (backup_path E (i @ ''.sql.gz''))) (\<lambda>_. ret ())))"
      by (intro stable keep)
    from stableD [OF this r] show ?thesis by (simp add: s4)
  qed
  then have ents: "entries_of (m_meta s') = put_meta (failed_metadata pl i parent (cfg_database cfg) (d_now D t) (i @ ''.sql.gz''))
      (entries_of (m_meta s2))" using saveMetadata_entries [OF sv] by simp
  have "find_meta (entries_of (m_meta s')) i =
      Some (failed_metadata pl i parent (cfg_database cfg) (d_now D t) (i @ ''.sql.gz''))"
    unfolding ents find_put_meta by (simp add: failed_metadata_def)
  moreover have "try_catch (run_incremental E D cfg opts pl parent i p)
      (\<lambda>e. seqp (record_failure E D cfg pl parent i) (throw e)) s = (Inl e, s')"
    using assms by (simp add: try_catch_def bnd_def throw_def)
  moreover have "status (failed_metadata pl i parent (cfg_database cfg) (d_now D t) (i @ ''.sql.gz'')) = Some Failed"
    by (simp add: failed_metadata_def)
  ultimately show ?thesis using failed_invalid by blast
qed

lemma failed_incremental_unusable_witness:
  "\<exists>e s1 s' m. run_incremental sample_env (sample_db\<lparr>d_exit := \<lambda>_. Exited (Some 1)\<rparr>) sample_cfg sample_opts sample_pl
      ''i'' ''b'' 3 sample_mgr = (Inl e, s1) \<and>
     record_failure sample_env (sample_db\<lparr>d_exit := \<lambda>_. Exited (Some 1)\<rparr>) sample_cfg sample_pl ''i'' ''b'' s1 = (Inr (), s') \<and>
     find_meta (entries_of (m_meta s')) ''b'' = Some m \<and> status m = Some Failed"
proof -
  let ?D = "sample_db\<lparr>d_exit := \<lambda>_. Exited (Some 1)\<rparr>"
  let ?dump = "dump_to_file ?D ''mysqlbinlog'' False 3 ''/d/b.sql.gz''"
  have 0: "backup_path sample_env (''b'' @ ''.sql.gz'') = ''/d/b.sql.gz''" by code_simp
  have "isl (fst (?dump sample_mgr))" by code_simp
  then obtain e s1 where d: "?dump sample_mgr = (Inl e, s1)" and s1: "s1 = snd (?dump sample_mgr)"
    by (cases "?dump sample_mgr") (auto simp: isl_def)
  from d have run: "run_incremental sample_env ?D sample_cfg sample_opts sample_pl ''i'' ''b'' 3 sample_mgr = (Inl e, s1)"
    by (simp only: run_incremental_def 0 bnd_def prod.case sum.case)
  have "\<not> isl (fst (record_failure sample_env ?D sample_cfg sample_pl ''i'' ''b'' s1))" unfolding s1 by code_simp
  from not_isl_obtain [OF this] obtain s' where
    "record_failure sample_env ?D sample_cfg sample_pl ''i'' ''b'' s1 = (Inr (), s')" by auto
  with failed_incremental_unusable [OF run this] run show ?thesis by blast
qed

text \<open>The default retry wrapper runs its operation at most three times, waits one and then two
  seconds between the runs, returns the first success and throws the last error.\<close>

lemma executeWithRetry_unfolds:
  "executeWithRetry operation MAX_RETRIES =
     try_catch operation (\<lambda>_. seqp (sleep 1000)
    (try_catch operation (\<lambda>_. seqp (sleep 2000) operation)))"
proof -
  have last: "try_catch operation (\<lambda>e. seqp (ret ()) (throw e)) = operation"
    by (rule ext) (simp add: try_catch_def throw_def split: prod.split sum.split)
  show ?thesis
    by (simp add: executeWithRetry_def MAX_RETRIES_def numeral_3_eq_3 RETRY_DELAY_def when_p_def last [simplified])
qed

text \<open>The cached connection ignores whom it was opened for: while it answers, a call for any
  other configuration gets it. A failed attempt to connect is kept as the pending promise,
  so every later call fails with the same error without trying again.\<close>

lemma getConnection_cached:
  "(m_conn s = Some c \<and> d_ping D c (m_tick s) \<longrightarrow> fst (getConnection D cfg s) = Inr c) \<and>
   (getConnection D cfg s = (Inl e, s') \<longrightarrow> m_conn s' = None \<and> m_connPromise s' = Some (Inl e) \<and>
      (\<forall>D' cfg'. getConnection D' cfg' s' = (Inl e, s')))"
proof (intro conjI impI)
  show "fst (getConnection D cfg s) = Inr c" if "m_conn s = Some c \<and> d_ping D c (m_tick s)"
    using that by (simp add: getConnection_def live_connection_def next_tick_def prog_defs)
next
  assume run: "getConnection D cfg s = (Inl e, s')"
  then have a: "m_conn s' = None \<and> m_connPromise s' = Some (Inl e)"
    by (auto simp: getConnection_def live_connection_def next_tick_def prog_defs split: option.splits sum.splits if_splits)
  have "getConnection D' cfg' s' = (Inl e, s')" for D' cfg'
    using a by (simp add: getConnection_def live_connection_def prog_defs)
  with a show "m_conn s' = None" "m_connPromise s' = Some (Inl e)"
    "\<forall>D' cfg'. getConnection D' cfg' s' = (Inl e, s')" by auto
qed

lemma getConnection_cached_witness:
  "fst (getConnection sample_db sample_cfg (sample_mgr\<lparr>m_conn := Some 8\<rparr>)) = Inr 8 \<and>
   fst (getConnection sample_db sample_cfg
     (snd (getConnection (sample_db\<lparr>d_connect := \<lambda>_ _. Inl (new_Error ''refused'')\<rparr>) sample_cfg sample_mgr)))
   = Inl (new_Error ''refused'')"
proof -
  let ?D = "sample_db\<lparr>d_connect := \<lambda>_ _. Inl (new_Error ''refused'')\<rparr>"
  obtain s' where run: "getConnection ?D sample_cfg sample_mgr = (Inl (new_Error ''refused''), s')"
    by (simp add: getConnection_def live_connection_def next_tick_def prog_defs sample_mgr_def sample_db_def)
  from getConnection_cached [of sample_mgr 0 ?D sample_cfg] run
  have "getConnection sample_db sample_cfg s' = (Inl (new_Error ''refused''), s')" by blast
  then have 2: "fst (getConnection sample_db sample_cfg (snd (getConnection ?D sample_cfg sample_mgr)))
      = Inl (new_Error ''refused'')" by (simp only: run fst_conv snd_conv)
  have "fst (getConnection sample_db sample_cfg (sample_mgr\<lparr>m_conn := Some 8\<rparr>)) = Inr 8"
    by (rule getConnection_cached [THEN conjunct1, THEN mp]) (simp add: sample_db_def)
  with 2 show ?thesis by (rule conjI [rotated])
qed

text \<open>The password reaches no command line: the arguments of \<open>mysqldump\<close>, \<open>mysqlbinlog\<close> and
  \<open>mysql\<close> are the same for every password.\<close>

lemma password_not_in_arguments:
  "mysqldump_args D (cfg\<lparr>password := pw\<rparr>) opts = mysqldump_args D cfg opts \<and>
   mysqlbinlog_args D (cfg\<lparr>password := pw\<rparr>) a b files = mysqlbinlog_args D cfg a b files \<and>
   mysql_args D (cfg\<lparr>password := pw\<rparr>) = mysql_args D cfg"
  by (simp add: mysqldump_args_def mysqlbinlog_args_def mysql_args_def client_args_def)

text \<open>The recorded checksum of an encrypted backup is that of the compressed dump before
  encryption, while the stored file is the encrypted stream: validation, which hashes the stored
  file, rejects the backup unless the two have the same SHA-256.\<close>

lemma encrypted_backup_rejected:
  assumes "seal_file E D opts path name s = (Inr sl, s')" and "\<not> plain opts"
    and "m_files s path = Some (k_data (m_checksum s))" and "sl_path sl \<noteq> path"
  shows "\<exists>out st t. m_files s' (sl_path sl) = Some out \<and>
    encrypt_stream (d_codec D) (d_gcm D) (the (o_encryptionKey opts)) name (d_iv D t) (d_iso D t)
      (d_chunks D t (k_data (m_checksum s))) = Inr (out, st) \<and>
    sl_digest sl = e_sha256 E (k_data (m_checksum s)) \<and>
    (\<forall>m. backup_path E (file_name m) = sl_path sl \<and> checksum m = Some (sl_digest sl) \<and> sl_digest sl \<noteq> '''' \<and>
       e_sha256 E out \<noteq> e_sha256 E (k_data (m_checksum s)) \<longrightarrow>
       (\<forall>c. m \<in> set (chain_members c) \<longrightarrow> \<not> chain_valid E (m_files s') c))"
proof -
  let ?encName = "path_basename path ''.sql.gz'' @ ''_encrypted.enc''"
  let ?enc = "path_join [path_dirname path, ?encName]"
  from assms(1,2) obtain r where run: "encryptBackupFile E D path (the (o_encryptionKey opts)) name s = (Inr r, s')"
    and sl: "sl_digest sl = e_sha256 E (k_data (m_checksum s))" "sl_path sl = fst r"
    by (auto simp: seal_file_def plain_def gets_def getChecksum_def ret_def elim!: bnd_InrE)
  from run obtain bs s2 t s3 q s4 s5 s6 where rd: "read_file E path (s\<lparr>m_files := (m_files s)(?enc := Some [])\<rparr>) = (Inr bs, s2)"
    and tk: "next_tick s2 = (Inr t, s3)"
    and enc: "encrypt_stream (d_codec D) (d_gcm D) (the (o_encryptionKey opts)) name (d_iv D t) (d_iso D t) (d_chunks D t bs) = Inr q"
    and s5: "s5 = s3\<lparr>m_files := (m_files s3)(?enc := Some (fst q))\<rparr>"
    and ul: "unlink E path s5 = (Inr (), s')" and r: "fst r = ?enc"
    unfolding encryptBackupFile_def Let_def
    by (auto simp: set_file_def modify_st_def lift_res_def ret_def throw_def elim!: bnd_InrE split: if_splits)
  have ne: "?enc \<noteq> path" using assms(4) sl r by simp
  have bs: "bs = k_data (m_checksum s)" using read_file_Inr [OF rd] ne assms(3) by simp
  have "m_files s' ?enc = m_files s5 ?enc"
  proof -
    from ul obtain b s6 where "read_file E path s5 = (Inr b, s6)"
      and "s' = s6\<lparr>m_files := (m_files s6)(path := None)\<rparr>"
      unfolding unlink_def by (auto simp: modify_st_def elim!: bnd_InrE)
    with quietD [OF same.st_read, of E path s5] ne show ?thesis by simp
  qed
  then have out: "m_files s' (sl_path sl) = Some (fst q)" using sl r s5 by simp
  have "\<not> chain_valid E (m_files s') c" if "backup_path E (file_name m) = sl_path sl" "checksum m = Some (sl_digest sl)"
    "sl_digest sl \<noteq> ''''" "e_sha256 E (fst q) \<noteq> e_sha256 E (k_data (m_checksum s))" "m \<in> set (chain_members c)" for m c
  proof
    assume "chain_valid E (m_files s') c"
    with that(5) have "artifact_ok E (m_files s') m" by (simp add: chain_valid_def)
    with that(1-4) out sl show False by (simp add: artifact_ok_def)
  qed
  with out enc sl bs show ?thesis by (intro exI [of _ "fst q"] exI [of _ "snd q"] exI [of _ t]) auto
qed

lemma encrypted_backup_rejected_witness:
  "\<exists>sl s' out. seal_file sample_env sample_db (sample_opts\<lparr>o_encrypt := True, o_encryptionKey := Some toy_key\<rparr>)
      ''/d/b.sql.gz'' ''b.sql.gz'' (sample_mgr\<lparr>m_files := [''/d/b.sql.gz'' \<mapsto> [4, 2]], m_checksum := \<lparr>k_data = [4, 2], k_size = 2\<rparr>\<rparr>)
        = (Inr sl, s') \<and>
     m_files s' (sl_path sl) = Some out \<and> sl_digest sl = e_sha256 sample_env [4, 2]"
proof -
  let ?opts = "sample_opts\<lparr>o_encrypt := True, o_encryptionKey := Some toy_key\<rparr>"
  let ?s = "sample_mgr\<lparr>m_files := [''/d/b.sql.gz'' \<mapsto> [4, 2]], m_checksum := \<lparr>k_data = [4, 2], k_size = 2\<rparr>\<rparr>"
  have k: "toy_key \<noteq> ''''" by (simp add: toy_key_def to_hex_def)
  have p: "path_join [path_dirname ''/d/b.sql.gz'', path_basename ''/d/b.sql.gz'' ''.sql.gz'' @ ''_encrypted.enc'']
      = ''/d/b_encrypted.enc''" by code_simp
  obtain q where q: "encrypt_stream toy_codec toy_gcm toy_key ''b.sql.gz'' toy_iv ''2026'' [[4, 2]] = Inr q"
    by (simp add: encrypt_stream_def enc_new_def enc_transform_def enc_update_def Let_def enc_flush_def toy_codec_def
        ascii_def enc_header_def)
  then have tag: "truthy_s (fst (snd (getEncryptionMetadata toy_codec (snd q))))"
    using encrypt_stream_Inr [of toy_codec toy_gcm toy_key "''b.sql.gz''" toy_iv "''2026''" "[4, 2]" "[]" "fst q" "snd q"]
    by (simp add: getEncryptionMetadata_def) (simp add: toy_codec_def)
  have io: "io sample_env s = (Inr (), s\<lparr>m_tick := Suc (m_tick s)\<rparr>)" for s
    by (simp add: io_def sample_env_def)
  have d: "d_codec sample_db = toy_codec" "d_gcm sample_db = toy_gcm" "d_iv sample_db t = toy_iv" "d_iso sample_db t = ''2026''"
    "d_chunks sample_db t bs = [bs]" for t bs by (simp_all add: sample_db_def)
  obtain sl s' where run: "seal_file sample_env sample_db ?opts ''/d/b.sql.gz'' ''b.sql.gz'' ?s = (Inr sl, s')"
    and sl: "sl_path sl = ''/d/b_encrypted.enc''"
    by (simp add: seal_file_def encryptBackupFile_def p [simplified] k tag q Let_def set_file_def read_file_def unlink_def
        io d next_tick_def prog_defs)
  have "\<not> plain ?opts" using k by (simp add: plain_def)
  with encrypted_backup_rejected [OF run] sl run show ?thesis by fastforce
qed

end
