(* ===== verification/MysqlRestore.thy ===== *)
theory MysqlRestore
  imports MysqlBackupCorrect
begin

text \<open>
  The restore half of \<open>mysql/manager.ts\<close>: importing one backup, \<open>restoreToPointInTime\<close> under its
  lock file, and \<open>shutdown\<close>. \<open>m_imported\<close> lists the data that was piped into \<open>mysql\<close> to the end,
  in order.
\<close>

section \<open>Importing one backup\<close>

definition no_key :: js_error where
  "no_key = new_Error ''Encryption key not found in environment''"

definition restore_source :: "mgr_env \<Rightarrow> db_env \<Rightarrow> backup_meta \<Rightarrow> string \<Rightarrow> (mgr, string) prog" where
  "restore_source E D m path =
     (if encrypted m then
        (if truthy_s (d_key D) then decryptBackupFile E D path (the (d_key D)) else throw no_key)
      else ret path)"

text \<open>One run of \<open>pipeline(gunzip.stdout, mysql.stdin)\<close>.\<close>

definition import_attempt :: "db_env \<Rightarrow> string \<Rightarrow> (mgr, unit) prog" where
  "import_attempt D path = bnd next_tick (\<lambda>t. case p_error (d_pipe D t) of
     Some e \<Rightarrow> throw e
   | None \<Rightarrow> modify_st (\<lambda>s. s\<lparr>m_imported := m_imported s @ [d_gunzip D (nullish (m_files s path) [])]\<rparr>))"

definition run_import :: "mgr_env \<Rightarrow> db_env \<Rightarrow> db_config \<Rightarrow> string \<Rightarrow> string \<Rightarrow> (mgr, unit) prog" where
  "run_import E D cfg failure restoreFile =
     bnd (spawn ''gunzip'' [''-c'', restoreFile] None) (\<lambda>g.
     seqp (trackProcess g)
    (bnd (spawn ''mysql'' (mysql_args D cfg) (password cfg)) (\<lambda>p.
     seqp (trackProcess p)
    (seqp (executeWithRetry (executeWithTimeout D p (import_attempt D restoreFile) (ret ()) DEFAULT_TIMEOUT) MAX_RETRIES)
          (wait_exit D failure)))))"

definition import_backup :: "mgr_env \<Rightarrow> db_env \<Rightarrow> db_config \<Rightarrow> string \<Rightarrow> string \<Rightarrow> backup_meta \<Rightarrow> (mgr, unit) prog" where
  "import_backup E D cfg missing failure m =
     (let path = backup_path E (file_name m) in
      bnd (gets (\<lambda>s. m_files s path)) (\<lambda>c. if c = None then throw (new_Error (missing @ path)) else
      bnd (restore_source E D m path) (\<lambda>restoreFile.
      seqp (run_import E D cfg failure restoreFile)
     (bnd (gets (\<lambda>s. m_files s restoreFile)) (\<lambda>c'.
        when_p (restoreFile \<noteq> path \<and> c' \<noteq> None) (unlink E restoreFile))))))"

definition restoreFullBackup :: "mgr_env \<Rightarrow> db_env \<Rightarrow> db_config \<Rightarrow> backup_meta \<Rightarrow> (mgr, unit) prog" where
  "restoreFullBackup E D cfg m = import_backup E D cfg ''Full base backup file not found: ''
     ''mysql restore failed with code '' m"

text \<open>Here the code waits for the \<open>close\<close> event without looking at the exit code first; the event
  is taken to arrive.\<close>

definition applyIncrementalBackup :: "mgr_env \<Rightarrow> db_env \<Rightarrow> db_config \<Rightarrow> backup_meta \<Rightarrow> (mgr, unit) prog" where
  "applyIncrementalBackup E D cfg m = import_backup E D cfg ''Incremental backup file not found: ''
     (''mysql incremental restore failed for '' @ in_quotes (meta_id m) @ '' with code '') m"

section \<open>Restoring a chain\<close>

definition restore_in_progress :: js_error where
  "restore_in_progress = new_Error ''A restore operation is already in progress.''"

definition chain_not_found :: "string \<Rightarrow> js_error" where
  "chain_not_found i = new_Error (''Backup chain not found for ID: '' @ i)"

text \<open>\<open>openSync(restoreLockFile, 'wx')\<close>: any failure means a restore is running.\<close>

definition restore_lock :: "mgr_env \<Rightarrow> (mgr, unit) prog" where
  "restore_lock E = bnd next_tick (\<lambda>t. bnd (gets m_restore_lock) (\<lambda>present.
     case e_open E t of
       OpenFailed _ \<Rightarrow> throw restore_in_progress
     | Opened _ \<Rightarrow> if present then throw restore_in_progress
         else modify_st (\<lambda>s. s\<lparr>m_restore_lock := True\<rparr>)))"

definition restore_unlock :: "mgr_env \<Rightarrow> (mgr, unit) prog" where
  "restore_unlock E = bnd next_tick (\<lambda>t. modify_st (\<lambda>s. s\<lparr>m_isRestoring := False,
     m_restore_lock := (if e_close_ok E t \<and> e_unlink_ok E t then False else m_restore_lock s)\<rparr>))"

definition after_target :: "int option \<Rightarrow> backup_meta \<Rightarrow> bool" where
  "after_target targetTime inc \<longleftrightarrow> (case targetTime of None \<Rightarrow> False | Some t \<Rightarrow> timestamp inc > t)"

fun apply_increments :: "mgr_env \<Rightarrow> db_env \<Rightarrow> db_config \<Rightarrow> int option \<Rightarrow> backup_meta list \<Rightarrow> (mgr, unit) prog" where
  "apply_increments E D cfg targetTime [] = ret ()"
| "apply_increments E D cfg targetTime (inc # incs) =
     (if after_target targetTime inc then ret ()
      else seqp (applyIncrementalBackup E D cfg inc) (apply_increments E D cfg targetTime incs))"

definition restore_chain :: "mgr_env \<Rightarrow> db_env \<Rightarrow> db_config \<Rightarrow> string \<Rightarrow> int option \<Rightarrow> (mgr, unit) prog" where
  "restore_chain E D cfg targetBackupId targetTime =
     seqp (io E)
    (seqp (modify_st (\<lambda>s. s\<lparr>m_isRestoring := True\<rparr>))
    (bnd (getBackupChain E targetBackupId) (\<lambda>chain. case chain of
       None \<Rightarrow> throw (chain_not_found targetBackupId)
     | Some c \<Rightarrow>
         seqp (validateBackupChain E c)
        (seqp (restoreFullBackup E D cfg (fullBackup c))
              (apply_increments E D cfg targetTime (increments c))))))"

definition restoreToPointInTime :: "mgr_env \<Rightarrow> db_env \<Rightarrow> db_config \<Rightarrow> string \<Rightarrow> int option \<Rightarrow> (mgr, unit) prog" where
  "restoreToPointInTime E D cfg targetBackupId targetTime =
     seqp (restore_lock E)
          (try_finally (restore_chain E D cfg targetBackupId targetTime) (restore_unlock E))"

definition shutdown :: "mgr_env \<Rightarrow> db_env \<Rightarrow> (mgr, unit) prog" where
  "shutdown E D = seqp (killAllProcesses D) (seqp (closeConnection D)
     (bnd (gets (\<lambda>s. flock_isHeld (m_flock s))) (\<lambda>h. when_p h (lock_release E))))"

section \<open>What an import does\<close>

lemma wp_stable: "stable P m \<Longrightarrow> P s \<Longrightarrow> wp m (\<lambda>_. P) (\<lambda>_. P) s"
  by (auto simp: wp_def stable_def split: prod.split sum.split)

lemma wp_retry_loop:
  assumes "\<And>s. A s \<Longrightarrow> wp m (\<lambda>_. B) (\<lambda>_. A) s" and "\<And>ms. stable A (sleep ms)" and "A s"
  shows "wp (retry_loop m n a e) (\<lambda>_. B) (\<lambda>_. A) s"
  using assms(3)
proof (induction n arbitrary: a e s)
  case 0
  then show ?case by (simp add: wp)
next
  case (Suc n)
  have "wp (seqp (when_p (n > 0) (sleep d)) (retry_loop m n (a + 1) (Some e'))) (\<lambda>_. B) (\<lambda>_. A) t" if "A t" for t e' d
  proof -
    have "wp (when_p (n > 0) (sleep d)) (\<lambda>_. A) (\<lambda>_. A) t"
      by (intro wp_stable stable_when assms that)
    then show ?thesis unfolding wp_bnd by (rule wp_mono) (simp_all add: Suc.IH)
  qed
  note rest = this
  show ?case
    unfolding retry_loop.simps wp_try_catch by (rule wp_mono [OF assms(1) [OF Suc.prems]]) (assumption, rule rest)
qed

text \<open>Metadata, files and what has been imported.\<close>

definition imported :: "meta_content \<Rightarrow> (string \<Rightarrow> bytes option) \<Rightarrow> bytes list \<Rightarrow> mgr \<Rightarrow> bool" where
  "imported M F xs s \<longleftrightarrow> m_meta s = M \<and> m_files s = F \<and> m_imported s = xs"

interpretation imported: unobserved "imported M F xs" for M F xs
  by unfold_locales (simp add: indifferent_def imported_def)

lemma wp_import_attempt:
  assumes "imported M F xs s"
  shows "wp (import_attempt D path) (\<lambda>_. imported M F (xs @ [d_gunzip D (nullish (F path) [])])) (\<lambda>_. imported M F xs) s"
proof -
  have "wp next_tick (\<lambda>_. imported M F xs) (\<lambda>_. imported M F xs) s"
    by (intro wp_stable imported.st_tick assms)
  then show ?thesis unfolding import_attempt_def wp_bnd
    by (rule wp_mono) (auto simp: wp imported_def split: option.split)
qed

lemma wp_run_import:
  assumes "imported M F xs s"
  shows "wp (run_import E D cfg failure path) (\<lambda>_. imported M F (xs @ [d_gunzip D (nullish (F path) [])]))
    (\<lambda>_ t. imported M F xs t \<or> imported M F (xs @ [d_gunzip D (nullish (F path) [])]) t) s"
proof -
  let ?A = "imported M F xs" and ?B = "imported M F (xs @ [d_gunzip D (nullish (F path) [])])"
  have st: "wp m (\<lambda>_. ?A) (\<lambda>_. ?A) t" if "stable ?A m" "?A t" for m :: "(mgr, 'b) prog" and t
    using that by (rule wp_stable)
  have timeout: "wp (executeWithTimeout D p (import_attempt D path) (ret ()) ms) (\<lambda>_. ?B) (\<lambda>_. ?A) t" if "?A t" for p ms t
  proof -
    have to: "wp (seqp (ret ()) (seqp (terminate D p) (throw (timed_out ms) :: (mgr, unit) prog))) (\<lambda>_. ?B) (\<lambda>_. ?A) u" if "?A u" for u
      unfolding wp_bnd wp_ret wp_throw using that by (rule wp_stable [OF imported.st_terminate])
    have "wp (if d_timeout D n then seqp (ret ()) (seqp (terminate D p) (throw (timed_out ms)))
        else import_attempt D path) (\<lambda>_. ?B) (\<lambda>_. ?A) u" if "?A u" for n u
      using to [OF that] wp_import_attempt [OF that] by simp
    note body = this
    show ?thesis
      unfolding executeWithTimeout_def wp_bnd
      by (rule wp_mono [OF st [OF imported.st_track that]], rule wp_mono [OF st [OF imported.st_tick]])
         (simp_all add: body)
  qed
  have exit: "wp (wait_exit D failure) (\<lambda>_. ?B) (\<lambda>_ t. ?A t \<or> ?B t) t" if "?B t" for t
    by (rule wp_mono [OF wp_stable [OF imported.st_exit that]]) auto
  have retry: "wp (executeWithRetry (executeWithTimeout D p (import_attempt D path) (ret ()) ms) k) (\<lambda>_. ?B) (\<lambda>_. ?A) t"
    if "?A t" for p ms k t
    unfolding executeWithRetry_def by (rule wp_retry_loop [OF timeout imported.st_sleep that])
  have weak: "wp m (\<lambda>_. ?A) (\<lambda>_ t. ?A t \<or> ?B t) t" if "stable ?A m" "?A t" for m :: "(mgr, 'b) prog" and t
    by (rule wp_mono [OF wp_stable [OF that]]) auto
  show ?thesis
    unfolding run_import_def wp_bnd
    apply (rule wp_mono [OF weak [OF imported.st_spawn assms]])
     apply (rule wp_mono [OF weak [OF imported.st_track]], assumption)
      apply (rule wp_mono [OF weak [OF imported.st_spawn]], assumption)
       apply (rule wp_mono [OF weak [OF imported.st_track]], assumption)
        apply (rule wp_mono [OF retry], assumption)
         apply (rule exit, assumption)
        apply simp_all
    done
qed

lemma wp_import_backup:
  assumes "imported M F xs s" and "F (backup_path E (file_name m)) = Some bs" and "\<not> encrypted m"
  shows "wp (import_backup E D cfg missing failure m) (\<lambda>_. imported M F (xs @ [d_gunzip D bs]))
    (\<lambda>_ t. imported M F xs t \<or> imported M F (xs @ [d_gunzip D bs]) t) s"
proof -
  let ?path = "backup_path E (file_name m)"
  have f: "m_files s ?path = Some bs" using assms by (simp add: imported_def)
  have "wp (run_import E D cfg failure ?path) (\<lambda>_. imported M F (xs @ [d_gunzip D bs]))
      (\<lambda>_ t. imported M F xs t \<or> imported M F (xs @ [d_gunzip D bs]) t) s"
    using wp_run_import [OF assms(1), of E D cfg failure ?path] assms(2) by simp
  moreover have "seqp (gets g) (ret ()) = ret ()" for g :: "mgr \<Rightarrow> bytes option"
    by (rule ext) (simp add: prog_defs)
  ultimately show ?thesis
    unfolding import_backup_def Let_def wp_bnd wp_gets restore_source_def
    using assms(3) f by (simp add: wp when_p_def) (erule wp_mono, simp_all add: wp)
qed

text \<open>What a restore should pipe into the server, in order.\<close>

definition content_of :: "mgr_env \<Rightarrow> db_env \<Rightarrow> (string \<Rightarrow> bytes option) \<Rightarrow> backup_meta \<Rightarrow> bytes" where
  "content_of E D F m = d_gunzip D (the (F (backup_path E (file_name m))))"

definition to_restore :: "backup_chain \<Rightarrow> int option \<Rightarrow> backup_meta list" where
  "to_restore c targetTime = fullBackup c # takeWhile (\<lambda>m. \<not> after_target targetTime m) (increments c)"

lemma wp_apply_increments:
  assumes "imported M F xs s" and "\<forall>m\<in>set incs. F (backup_path E (file_name m)) \<noteq> None \<and> \<not> encrypted m"
  shows "wp (apply_increments E D cfg target incs)
    (\<lambda>_. imported M F (xs @ map (content_of E D F) (takeWhile (\<lambda>m. \<not> after_target target m) incs)))
    (\<lambda>_ t. \<exists>k. imported M F (xs @ map (content_of E D F) (take k (takeWhile (\<lambda>m. \<not> after_target target m) incs))) t) s"
  using assms
proof (induction incs arbitrary: xs s)
  case Nil
  then show ?case by (simp add: wp)
next
  case (Cons m ms)
  show ?case
  proof (cases "after_target target m")
    case True
    with Cons.prems show ?thesis by (simp add: wp)
  next
    case False
    obtain bs where bs: "F (backup_path E (file_name m)) = Some bs" "\<not> encrypted m" using Cons.prems(2) by auto
    then have c: "d_gunzip D bs = content_of E D F m" by (simp add: content_of_def)
    have rest: "wp (apply_increments E D cfg target ms)
      (\<lambda>_. imported M F (xs @ map (content_of E D F) (m # takeWhile (\<lambda>m. \<not> after_target target m) ms)))
      (\<lambda>_ t. \<exists>k. imported M F (xs @ map (content_of E D F) (take k (m # takeWhile (\<lambda>m. \<not> after_target target m) ms))) t) u"
      if "imported M F (xs @ [content_of E D F m]) u" for u
    proof -
      have "wp (apply_increments E D cfg target ms)
        (\<lambda>_. imported M F ((xs @ [content_of E D F m]) @ map (content_of E D F) (takeWhile (\<lambda>m. \<not> after_target target m) ms)))
        (\<lambda>_ t. \<exists>k. imported M F ((xs @ [content_of E D F m]) @ map (content_of E D F) (take k (takeWhile (\<lambda>m. \<not> after_target target m) ms))) t) u"
        using Cons.IH [OF that] Cons.prems(2) by simp
      then show ?thesis
      proof (rule wp_mono)
        fix t e
        assume "\<exists>k. imported M F ((xs @ [content_of E D F m]) @ map (content_of E D F) (take k (takeWhile (\<lambda>m. \<not> after_target target m) ms))) t"
        then obtain k where "imported M F ((xs @ [content_of E D F m]) @ map (content_of E D F) (take k (takeWhile (\<lambda>m. \<not> after_target target m) ms))) t" ..
        then show "\<exists>k. imported M F (xs @ map (content_of E D F) (take k (m # takeWhile (\<lambda>m. \<not> after_target target m) ms))) t"
          by (intro exI [of _ "Suc k"]) simp
      qed simp
    qed
    have one: "wp (applyIncrementalBackup E D cfg m) (\<lambda>_. imported M F (xs @ [content_of E D F m]))
      (\<lambda>_ t. \<exists>k. imported M F (xs @ map (content_of E D F) (take k (m # takeWhile (\<lambda>m. \<not> after_target target m) ms))) t) s"
      unfolding applyIncrementalBackup_def
    proof (rule wp_mono [OF wp_import_backup [OF Cons.prems(1) bs]], goal_cases)
      case (1 x u)
      then show ?case by (simp add: c)
    next
      case (2 e u)
      then show ?case
        by (auto simp: c intro: exI [of _ 0] exI [of _ "Suc 0"])
    qed
    have "wp (seqp (applyIncrementalBackup E D cfg m) (apply_increments E D cfg target ms))
      (\<lambda>_. imported M F (xs @ map (content_of E D F) (m # takeWhile (\<lambda>m. \<not> after_target target m) ms)))
      (\<lambda>_ t. \<exists>k. imported M F (xs @ map (content_of E D F) (take k (m # takeWhile (\<lambda>m. \<not> after_target target m) ms))) t) s"
      unfolding wp_bnd by (rule wp_mono [OF one]) (rule rest)
    with False show ?thesis by simp
  qed
qed

section \<open>Restore as a whole\<close>

lemma imported_stable:
  "stable (\<lambda>s. m_imported s = xs) (lock_acquire E)" "stable (\<lambda>s. m_imported s = xs) (lock_release E)"
  "stable (\<lambda>s. m_imported s = xs) (io E)" "stable (\<lambda>s. m_imported s = xs) (listMetadata E)"
  by (auto simp: stable_def lock_acquire_def lock_release_def io_def Let_def listMetadata_def prog_defs
      split: prod.split option.split meta_content.split)

lemma imported_getBackupChain: "stable (\<lambda>s. m_imported s = xs) (getBackupChain E i)"
  unfolding getBackupChain_def locked_def by (intro stable imported_stable)

lemma imported_check: "stable (\<lambda>s. m_imported s = xs) (check_artifact E a b c m)"
  unfolding check_artifact_def calculateFileChecksum_def
  by (intro stable) (auto intro!: stable imported_stable split: option.split)

lemma imported_validate: "stable (\<lambda>s. m_imported s = xs) (validateBackupChain E c)"
proof -
  have "stable (\<lambda>s. m_imported s = xs) (validate_increments E p ms)" for p ms
    by (induction ms arbitrary: p)
       (auto intro!: stable imported_check simp: check_link_def Let_def split: option.split)
  then show ?thesis unfolding validateBackupChain_def by (intro stable imported_check)
qed

text \<open>The outcome of the part that runs under the restore lock.\<close>

definition restored :: "mgr_env \<Rightarrow> db_env \<Rightarrow> mgr \<Rightarrow> string \<Rightarrow> int option \<Rightarrow> bool \<Rightarrow> bytes list \<Rightarrow> bool" where
  "restored E D s i target ok xs \<longleftrightarrow>
     (\<not> ok \<and> xs = m_imported s) \<or>
     (\<exists>c k. chain_from (entries_of (m_meta s)) i = Inr (Some c) \<and> chain_valid E (m_files s) c \<and>
        xs = m_imported s @ map (content_of E D (m_files s)) (take k (to_restore c target)) \<and>
        (ok \<longrightarrow> k = length (to_restore c target)))"

lemma restore_chain_run:
  assumes plain: "\<forall>m\<in>set (entries_of (m_meta s)). \<not> encrypted m"
    and run: "restore_chain E D cfg i target s = (r, s')"
  shows "restored E D s i target (r = Inr ()) (m_imported s')"
proof -
  obtain r1 s1 where io: "io E s = (r1, s1)" by fastforce
  have s1: "s1 = s\<lparr>m_tick := Suc (m_tick s)\<rparr>" using io_cases [OF io] by simp
  show ?thesis
  proof (cases r1)
    case (Inl e)
    with io s1 run show ?thesis by (auto simp: restore_chain_def bnd_def restored_def)
  next
    case (Inr u)
    let ?s1 = "s1\<lparr>m_isRestoring := True\<rparr>"
    obtain r2 s2 where g: "getBackupChain E i ?s1 = (r2, s2)" by fastforce
    have s2: "m_meta s2 = m_meta s" "m_files s2 = m_files s" "m_imported s2 = m_imported s"
      using getBackupChain_run [OF g] stableD [OF imported_getBackupChain g refl] s1 by simp_all
    have bad: ?thesis if "r = Inl e" "m_imported s' = m_imported s" for e
      using that by (simp add: restored_def)
    show ?thesis
    proof (cases "\<exists>c. r2 = Inr (Some c)")
      case False
      then have "isl r" "m_imported s' = m_imported s"
        using run io Inr g s2 by (cases r2; fastforce simp: restore_chain_def bnd_def modify_st_def throw_def split: option.splits)+
      then show ?thesis by (cases r) (auto simp: restored_def)
    next
      case True
      then obtain c where c: "r2 = Inr (Some c)" ..
      obtain r3 s3 where v: "validateBackupChain E c s2 = (r3, s3)" by fastforce
      have s3: "m_meta s3 = m_meta s" "m_files s3 = m_files s" "m_imported s3 = m_imported s"
        using validateBackupChain_run [OF v] stableD [OF imported_validate v refl] s2 by simp_all
      have from_c: "chain_from (entries_of (m_meta s)) i = Inr (Some c)"
        using getBackupChain_run [OF g] c s1 by simp
      show ?thesis
      proof (cases r3)
        case (Inl e)
        with run io Inr g c v s3 have "r = Inl e" "m_imported s' = m_imported s"
          by (simp_all add: restore_chain_def bnd_def modify_st_def)
        then show ?thesis by (rule bad)
      next
        case (Inr u3)
        have valid: "chain_valid E (m_files s) c"
          using validateBackupChain_run [OF v] Inr s2 by simp
        have mem: "\<forall>m\<in>set (chain_members c). m_files s (backup_path E (file_name m)) \<noteq> None \<and> \<not> encrypted m"
          using valid plain chain_from_sound [OF from_c]
          by (auto simp: chain_valid_def artifact_ok_def is_chain_def is_path_def)
        then obtain bs where full: "m_files s (backup_path E (file_name (fullBackup c))) = Some bs" "\<not> encrypted (fullBackup c)"
          by (auto simp: chain_members_def)
        then have bs: "d_gunzip D bs = content_of E D (m_files s) (fullBackup c)" by (simp add: content_of_def)
        have incs: "\<forall>m\<in>set (increments c). m_files s (backup_path E (file_name m)) \<noteq> None \<and> \<not> encrypted m"
          using mem by (simp add: chain_members_def)
        have st: "imported (m_meta s) (m_files s) (m_imported s) s3" using s3 by (simp add: imported_def)
        have tail: "seqp (restoreFullBackup E D cfg (fullBackup c)) (apply_increments E D cfg target (increments c)) s3 = (r, s')"
          using run io \<open>r1 = Inr u\<close> g c v Inr by (simp add: restore_chain_def bnd_def modify_st_def)
        have "wp (seqp (restoreFullBackup E D cfg (fullBackup c)) (apply_increments E D cfg target (increments c)))
          (\<lambda>_ t. m_imported t = m_imported s @ map (content_of E D (m_files s)) (to_restore c target))
          (\<lambda>_ t. \<exists>k. m_imported t = m_imported s @ map (content_of E D (m_files s)) (take k (to_restore c target))) s3"
          unfolding wp_bnd restoreFullBackup_def
        proof (rule wp_mono [OF wp_import_backup [OF st full]], goal_cases)
          case (1 x t)
          from wp_apply_increments [OF 1 incs] show ?case
            by (rule wp_mono) (auto simp: imported_def to_restore_def bs intro: exI [of _ "Suc _"])
        next
          case (2 e t)
          then show ?case
            by (auto simp: imported_def to_restore_def bs intro: exI [of _ 0] exI [of _ "Suc 0"])
        qed
        with tail have "case r of Inr _ \<Rightarrow> m_imported s' = m_imported s @ map (content_of E D (m_files s)) (to_restore c target)
          | Inl _ \<Rightarrow> \<exists>k. m_imported s' = m_imported s @ map (content_of E D (m_files s)) (take k (to_restore c target))"
          by (cases r) (auto simp: wp_def)
        with valid from_c show ?thesis
          by (cases r) (auto simp: restored_def intro: exI [of _ c] exI [of _ "length (to_restore c target)"])
      qed
    qed
  qed
qed

lemma restore_lock_run:
  assumes "restore_lock E s = (r, s')"
  shows "m_meta s' = m_meta s \<and> m_files s' = m_files s \<and> m_imported s' = m_imported s \<and>
    (case r of Inl e \<Rightarrow> e = restore_in_progress \<and> m_restore_lock s' = m_restore_lock s
     | Inr _ \<Rightarrow> \<not> m_restore_lock s \<and> m_restore_lock s')"
  using assms
  by (auto simp: restore_lock_def next_tick_def prog_defs split: open_result.splits if_splits)

lemma restore_unlock_run:
  "\<exists>s'. restore_unlock E s = (Inr (), s') \<and> m_meta s' = m_meta s \<and> m_files s' = m_files s \<and>
     m_imported s' = m_imported s \<and> \<not> m_isRestoring s' \<and>
     m_restore_lock s' = (if e_close_ok E (m_tick s) \<and> e_unlink_ok E (m_tick s) then False else m_restore_lock s)"
  by (simp add: restore_unlock_def next_tick_def prog_defs)

lemma restore_split:
  assumes "restoreToPointInTime E D cfg i target s = (r, s')"
  shows "(r = Inl restore_in_progress \<and> m_meta s' = m_meta s \<and> m_files s' = m_files s \<and> m_imported s' = m_imported s \<and>
      m_restore_lock s' = m_restore_lock s) \<or>
    (\<exists>s1 s2. \<not> m_restore_lock s \<and> m_meta s1 = m_meta s \<and> m_files s1 = m_files s \<and> m_imported s1 = m_imported s \<and>
      restore_chain E D cfg i target s1 = (r, s2) \<and> m_imported s' = m_imported s2 \<and> \<not> m_isRestoring s' \<and>
      ((\<forall>t. e_close_ok E t \<and> e_unlink_ok E t) \<longrightarrow> \<not> m_restore_lock s'))"
proof -
  obtain r1 s1 where l: "restore_lock E s = (r1, s1)" by fastforce
  note lk = restore_lock_run [OF l]
  show ?thesis
  proof (cases r1)
    case (Inl e)
    with l assms lk show ?thesis by (auto simp: restoreToPointInTime_def bnd_def)
  next
    case (Inr u)
    obtain r2 s2 where c: "restore_chain E D cfg i target s1 = (r2, s2)" by fastforce
    obtain s3 where u: "restore_unlock E s2 = (Inr (), s3)" "m_imported s3 = m_imported s2" "\<not> m_isRestoring s3"
      "m_restore_lock s3 = (if e_close_ok E (m_tick s2) \<and> e_unlink_ok E (m_tick s2) then False else m_restore_lock s2)"
      using restore_unlock_run [of E s2] by blast
    have "(r2, s3) = (r, s')"
      using assms l Inr c u(1) by (simp add: restoreToPointInTime_def bnd_def try_finally_def)
    with c u lk Inr show ?thesis by auto
  qed
qed

section \<open>Properties\<close>



text \<open>While the restore lock file exists a restore throws at once and changes nothing; one that got
  the lock gives it up again whatever happens, if the file can be closed and removed.\<close>

lemma restore_exclusive:
  assumes "restoreToPointInTime E D cfg i target s = (r, s')"
  shows "(m_restore_lock s \<longrightarrow> r = Inl restore_in_progress \<and> m_restore_lock s' \<and> m_imported s' = m_imported s \<and>
      m_meta s' = m_meta s \<and> m_files s' = m_files s) \<and>
    (\<not> m_restore_lock s \<and> (\<forall>t. e_close_ok E t \<and> e_unlink_ok E t) \<longrightarrow> \<not> m_restore_lock s')"
  using restore_split [OF assms] by blast

lemma restore_exclusive_witness:
  "fst (restoreToPointInTime sample_env sample_db sample_cfg ''i'' None (sample_mgr\<lparr>m_restore_lock := True\<rparr>))
     = Inl restore_in_progress"
  using restore_exclusive [of sample_env sample_db sample_cfg "''i''" None "sample_mgr\<lparr>m_restore_lock := True\<rparr>",
    OF prod.collapse [symmetric]]
  by simp

end
