(* ===== verification/Json.thy ===== *)
theory Json
  imports NodePath
begin

text \<open>
  JavaScript values as they travel in request bodies, query strings, database rows and queue
  messages, and the coercions the services apply to them: truthiness, \<open>Boolean\<close>, \<open>Number\<close>,
  \<open>String\<close>, \<open>??\<close>, default values in destructuring, object spread. A missing property
  (\<open>undefined\<close>) is \<open>None\<close>. Numbers are integers, and \<open>JNaN\<close>.
\<close>

datatype json = JNull | JBool bool | JNum int | JNaN | JStr string | JArr "json list" | JObj "(string \<times> json) list"

fun jget :: "json \<Rightarrow> string \<Rightarrow> json option" where
  "jget (JObj kvs) k = map_of kvs k"
| "jget _ k = None"

text \<open>An object literal: properties whose value is \<open>undefined\<close> are left out.\<close>

definition jobj :: "(string \<times> json option) list \<Rightarrow> json" where
  "jobj kvs = JObj (concat (map (\<lambda>(k, v). case v of None \<Rightarrow> [] | Some x \<Rightarrow> [(k, x)]) kvs))"

text \<open>\<open>{ ...a, ...b }\<close>\<close>

fun jfields :: "json \<Rightarrow> (string \<times> json) list" where
  "jfields (JObj kvs) = kvs"
| "jfields _ = []"

definition jspread :: "json \<Rightarrow> json \<Rightarrow> json" where
  "jspread a b = JObj (jfields b @ filter (\<lambda>(k, _). k \<notin> fst ` set (jfields b)) (jfields a))"

definition jset :: "json \<Rightarrow> string \<Rightarrow> json \<Rightarrow> json" where
  "jset a k v = jspread a (JObj [(k, v)])"

definition jomit :: "json \<Rightarrow> string \<Rightarrow> json" where
  "jomit a k = JObj (filter (\<lambda>(k', _). k' \<noteq> k) (jfields a))"

lemma jget_jobj:
  "distinct (map fst kvs) \<Longrightarrow> jget (jobj kvs) k = (case map_of kvs k of None \<Rightarrow> None | Some v \<Rightarrow> v)"
proof (induction kvs)
  case (Cons kv kvs)
  obtain j v where kv: "kv = (j, v)" by fastforce
  have none: "map_of (concat (map (\<lambda>(k, v). case v of None \<Rightarrow> [] | Some x \<Rightarrow> [(k, x)]) kvs)) j = None" if "j \<notin> fst ` set kvs"
    using that by (induction kvs) (auto split: option.split)
  show ?case
  proof (cases v)
    case None
    with Cons none show ?thesis by (auto simp: kv jobj_def map_of_eq_None_iff split: option.split)
  next
    case (Some x)
    with Cons show ?thesis by (auto simp: kv jobj_def split: option.split)
  qed
qed (simp add: jobj_def)

lemma jget_fields: "jget a k = map_of (jfields a) k"
  by (cases a) auto

lemma jget_jspread: "jget (jspread a b) k = (case map_of (jfields b) k of Some v \<Rightarrow> Some v | None \<Rightarrow> jget a k)"
proof -
  have "map_of (filter (\<lambda>(k, _). k \<notin> A) xs) k = (if k \<in> A then None else map_of xs k)" for A and xs :: "(string \<times> json) list"
    by (induction xs) auto
  note filter = this
  show ?thesis
  proof (cases "map_of (jfields b) k")
    case None
    then have "k \<notin> fst ` set (jfields b)" by (simp add: map_of_eq_None_iff)
    with None show ?thesis by (simp add: jspread_def map_add_def filter jget_fields)
  qed (simp add: jspread_def map_add_def)
qed

lemma jget_jset [simp]: "jget (jset a k v) j = (if j = k then Some v else jget a j)"
  by (simp add: jset_def jget_jspread)

lemma jget_jomit: "jget (jomit a k) j = (if j = k then None else jget a j)"
proof -
  have "map_of (filter (\<lambda>(k', _). k' \<noteq> k) xs) j = (if j = k then None else map_of xs j)" for xs :: "(string \<times> json) list"
    by (induction xs) auto
  then show ?thesis by (simp add: jomit_def jget_fields)
qed

section \<open>Coercions\<close>

fun truthy_j :: "json option \<Rightarrow> bool" where
  "truthy_j None = False"
| "truthy_j (Some JNull) = False"
| "truthy_j (Some (JBool b)) = b"
| "truthy_j (Some (JNum n)) = (n \<noteq> 0)"
| "truthy_j (Some JNaN) = False"
| "truthy_j (Some (JStr s)) = (s \<noteq> '''')"
| "truthy_j (Some _) = True"

text \<open>\<open>x ?? null\<close>, \<open>x || y\<close>, and \<open>{ x = d }\<close> in a destructuring pattern.\<close>

definition or_null :: "json option \<Rightarrow> json" where
  "or_null x = nullish x JNull"

definition or_j :: "json option \<Rightarrow> json \<Rightarrow> json" where
  "or_j x d = (if truthy_j x then the x else d)"

definition dflt :: "json option \<Rightarrow> json \<Rightarrow> json" where
  "dflt x d = nullish x d"

definition js_Boolean :: "json \<Rightarrow> json" where
  "js_Boolean x = JBool (truthy_j (Some x))"

definition num_of_digits :: "string \<Rightarrow> int" where
  "num_of_digits ds = foldl (\<lambda>a c. a * 10 + (of_char c - 48)) 0 ds"

definition all_digits :: "string \<Rightarrow> bool" where
  "all_digits s \<longleftrightarrow> s \<noteq> '''' \<and> list_all (\<lambda>c. 48 \<le> (of_char c :: int) \<and> (of_char c :: int) \<le> 57) s"

definition is_space :: "char \<Rightarrow> bool" where
  "is_space c \<longleftrightarrow> c \<in> {CHR 0x20, CHR 0x09, CHR 0x0A, CHR 0x0B, CHR 0x0C, CHR 0x0D}"

definition js_trim :: "string \<Rightarrow> string" where
  "js_trim s = rev (dropWhile is_space (rev (dropWhile is_space s)))"

fun js_Number :: "json \<Rightarrow> json" where
  "js_Number JNull = JNum 0"
| "js_Number (JBool b) = JNum (if b then 1 else 0)"
| "js_Number (JNum n) = JNum n"
| "js_Number (JStr s) = (let t = js_trim s in
     if t = '''' then JNum 0
     else if all_digits t then JNum (num_of_digits t)
     else if hd t = CHR ''-'' \<and> all_digits (tl t) then JNum (- num_of_digits (tl t))
     else JNaN)"
| "js_Number _ = JNaN"

text \<open>\<open>parseInt(s, 10)\<close>: an optional sign and the digits after leading white space.\<close>

definition js_parseInt :: "string \<Rightarrow> json" where
  "js_parseInt s = (let t = dropWhile is_space s; neg = (t \<noteq> '''' \<and> hd t = CHR ''-'');
     u = (if t \<noteq> '''' \<and> (hd t = CHR ''-'' \<or> hd t = CHR ''+'') then tl t else t);
     ds = takeWhile (\<lambda>c. all_digits [c]) u in
     if ds = '''' then JNaN else JNum (if neg then - num_of_digits ds else num_of_digits ds))"

fun js_String :: "json \<Rightarrow> string" where
  "js_String JNull = ''null''"
| "js_String (JBool b) = (if b then ''true'' else ''false'')"
| "js_String (JNum n) = str_int n"
| "js_String JNaN = ''NaN''"
| "js_String (JStr s) = s"
| "js_String (JArr xs) = join_with '','' (map (\<lambda>x. case x of JNull \<Rightarrow> '''' | _ \<Rightarrow> js_String x) xs)"
| "js_String (JObj _) = ''[object Object]''"

text \<open>\<open>${x}\<close>, \<open>x?.k\<close> and the value of a text column.\<close>

definition tpl :: "json option \<Rightarrow> string" where
  "tpl x = (case x of None \<Rightarrow> ''undefined'' | Some v \<Rightarrow> js_String v)"

definition oget :: "json option \<Rightarrow> string \<Rightarrow> json option" where
  "oget x k = (case x of None \<Rightarrow> None | Some v \<Rightarrow> jget v k)"

definition text_column :: "json option \<Rightarrow> string \<Rightarrow> string option" where
  "text_column r k = (case oget r k of Some (JStr s) \<Rightarrow> Some s | _ \<Rightarrow> None)"

definition js_upper :: "string \<Rightarrow> string" where
  "js_upper s = map (\<lambda>c. let n = of_char c :: int in if 97 \<le> n \<and> n \<le> 122 then char_of (n - 32) else c) s"

text \<open>\<open>x !== undefined && x !== null ? Number(x) : null\<close>\<close>

definition num_or_null :: "json option \<Rightarrow> json" where
  "num_or_null x = (case x of None \<Rightarrow> JNull | Some v \<Rightarrow> if v = JNull then JNull else js_Number v)"

text \<open>\<open>Number(x) || d\<close>\<close>

definition num_or :: "json \<Rightarrow> int \<Rightarrow> json" where
  "num_or x d = (let n = js_Number x in if truthy_j (Some n) then n else JNum d)"

end
