(* ===== verification/MetadataService.thy ===== *)
theory MetadataService
  imports Json
begin

text \<open>
  \<open>microservices/metadata-service/index.ts\<close>: the REST handlers over the SQLite database.

  Prisma is a parameter: \<open>prisma t op args\<close> runs one client call on the database state, with its
  arguments as the object literal the code writes. \<open>where\<close>, \<open>data\<close> and rows are JSON objects. A
  handler is a program over the database state that returns a response; \<open>handle\<close> sends an
  uncaught error to the central error handler. Clock and date parsing come from \<open>http_env\<close>.
  Bodies are objects (\<open>express.json\<close> accepts nothing else but arrays), and the five counts the
  statistics handler starts together with \<open>Promise.all\<close> run one after the other.
\<close>

section \<open>Requests, responses, database calls\<close>

datatype table = BackupJob | BackupLog | BackupSchedule | StorageLocation | NotificationConfig | Notification

datatype db_op = Create | FindUnique | FindFirst | FindMany | Count | Update | UpdateMany | Upsert | Delete | QueryRaw

type_synonym 'db prisma = "table \<Rightarrow> db_op \<Rightarrow> json \<Rightarrow> ('db, json) prog"

record api_request =
  rq_param :: string
  rq_query :: json
  rq_body :: json

record response =
  rs_status :: int
  rs_body :: json

record http_env =
  he_date :: "json \<Rightarrow> json"
  he_now :: json
  he_day_ago :: json
  he_uptime :: json
  he_stringify :: "json \<Rightarrow> string"

definition respond :: "int \<Rightarrow> json \<Rightarrow> ('db, response) prog" where
  "respond st b = ret \<lparr>rs_status = st, rs_body = b\<rparr>"

definition answer :: "json \<Rightarrow> ('s, response) prog" where
  "answer b = respond 200 b"

definition error_body :: "string \<Rightarrow> json" where
  "error_body m = JObj [(''error'', JStr m)]"

text \<open>The central error handler, and the \<open>P2025\<close> branch of the \<open>catch\<close> blocks.\<close>

definition internal_error :: "js_error \<Rightarrow> response" where
  "internal_error e = \<lparr>rs_status = 500,
     rs_body = JObj [(''error'', JStr ''Internal metadata error''), (''message'', JStr (err_message e))]\<rparr>"

definition not_found :: "string \<Rightarrow> string \<Rightarrow> string \<Rightarrow> response" where
  "not_found pre i post = \<lparr>rs_status = 404, rs_body = error_body (pre @ [CHR 0x27] @ i @ [CHR 0x27] @ post)\<rparr>"

definition handle :: "('db, response) prog \<Rightarrow> 'db \<Rightarrow> response \<times> 'db" where
  "handle m = (\<lambda>s. case m s of (Inl e, s') \<Rightarrow> (internal_error e, s') | (Inr r, s') \<Rightarrow> (r, s'))"

definition missing_is_404 :: "response \<Rightarrow> ('db, response) prog \<Rightarrow> ('db, response) prog" where
  "missing_is_404 r m = try_catch m (\<lambda>e. if err_code e = ''P2025'' then ret r else throw e)"

definition where_id :: "string \<Rightarrow> json" where
  "where_id i = JObj [(''id'', JStr i)]"

definition jstrs :: "string list \<Rightarrow> json" where
  "jstrs xs = JArr (map JStr xs)"

definition include_storage :: json where
  "include_storage = JObj [(''storageLocation'', JBool True)]"

definition active_statuses :: json where
  "active_statuses = JObj [(''in'', jstrs [''running'', ''RUNNING'', ''pending'', ''PENDING''])]"

definition failed_statuses :: json where
  "failed_statuses = JObj [(''in'', jstrs [''failed'', ''FAILED''])]"

definition health :: "'db prisma \<Rightarrow> http_env \<Rightarrow> api_request \<Rightarrow> 'db \<Rightarrow> response \<times> 'db" where
  "health P H rq = handle (try_catch
     (seqp (P BackupJob QueryRaw (JStr ''SELECT 1''))
       (respond 200 (JObj [(''service'', JStr ''metadata-service''), (''status'', JStr ''healthy''),
          (''database'', JStr ''connected''), (''uptime'', he_uptime H), (''timestamp'', he_now H)])))
     (\<lambda>e. respond 503 (JObj [(''service'', JStr ''metadata-service''), (''status'', JStr ''unhealthy''),
          (''database'', JStr ''disconnected''), (''error'', JStr (err_message e)), (''timestamp'', he_now H)])))"

section \<open>Backup jobs\<close>

text \<open>\<open>v ? new Date(v) : d\<close>\<close>

definition date_or :: "http_env \<Rightarrow> json option \<Rightarrow> json \<Rightarrow> json" where
  "date_or H v d = (if truthy_j v then he_date H (the v) else d)"

definition job_data :: "http_env \<Rightarrow> json \<Rightarrow> json" where
  "job_data H b = jobj
     [(''id'', if truthy_j (jget b ''id'') then jget b ''id'' else None),
      (''dbType'', jget b ''dbType''), (''dbName'', jget b ''dbName''), (''backupType'', jget b ''backupType''),
      (''status'', Some (dflt (jget b ''status'') (JStr ''pending''))),
      (''filePath'', Some (or_null (jget b ''filePath''))),
      (''fileName'', Some (or_null (jget b ''fileName''))),
      (''fileSize'', Some (num_or_null (jget b ''fileSize''))),
      (''compressedSize'', Some (num_or_null (jget b ''compressedSize''))),
      (''checksum'', Some (or_null (jget b ''checksum''))),
      (''baseBackupId'', Some (or_null (jget b ''baseBackupId''))),
      (''parentBackupId'', Some (or_null (jget b ''parentBackupId''))),
      (''backupLevel'', Some (num_or_null (jget b ''backupLevel''))),
      (''walPosition'', Some (or_null (jget b ''walPosition''))),
      (''binlogFile'', Some (or_null (jget b ''binlogFile''))),
      (''binlogPosition'', Some (num_or_null (jget b ''binlogPosition''))),
      (''oplogTimestamp'', Some (or_null (jget b ''oplogTimestamp''))),
      (''backupName'', Some (or_null (jget b ''backupName''))),
      (''startedAt'', Some (date_or H (jget b ''startedAt'') (he_now H))),
      (''completedAt'', Some (date_or H (jget b ''completedAt'') JNull)),
      (''duration'', Some (num_or_null (jget b ''duration''))),
      (''expiresAt'', Some (date_or H (jget b ''expiresAt'') JNull)),
      (''storageType'', Some (dflt (jget b ''storageType'') (JStr ''local''))),
      (''storagePath'', Some (or_null (jget b ''storagePath''))),
      (''storageRegion'', Some (or_null (jget b ''storageRegion''))),
      (''storageLocationId'', Some (or_null (jget b ''storageLocationId''))),
      (''compressionType'', Some (or_null (jget b ''compressionType''))),
      (''encryptionType'', Some (or_null (jget b ''encryptionType''))),
      (''encrypted'', Some (js_Boolean (dflt (jget b ''encrypted'') (JBool False)))),
      (''encryptionMetadata'', Some (or_null (jget b ''encryptionMetadata''))),
      (''backupVersion'', Some (or_null (jget b ''backupVersion''))),
      (''retryCount'', Some (num_or (dflt (jget b ''retryCount'') (JNum 0)) 0)),
      (''error'', Some (or_null (jget b ''error''))),
      (''metadata'', Some (or_null (jget b ''metadata'')))]"

definition post_job :: "'db prisma \<Rightarrow> http_env \<Rightarrow> api_request \<Rightarrow> 'db \<Rightarrow> response \<times> 'db" where
  "post_job P H rq = handle (let b = rq_body rq in
     if \<not> truthy_j (jget b ''dbType'') \<or> \<not> truthy_j (jget b ''dbName'') \<or> \<not> truthy_j (jget b ''backupType'')
     then respond 400 (error_body ''Validation error: dbType, dbName, and backupType are required'')
     else bnd (P BackupJob Create (JObj [(''data'', job_data H b), (''include'', include_storage)])) (respond 201))"

definition get_job :: "'db prisma \<Rightarrow> http_env \<Rightarrow> api_request \<Rightarrow> 'db \<Rightarrow> response \<times> 'db" where
  "get_job P H rq = handle
     (let includeLogs = jget (rq_query rq) ''includeLogs'' = Some (JStr ''true'');
          incl = jobj [(''storageLocation'', Some (JBool True)),
            (''logs'', if includeLogs then Some (JObj [(''orderBy'', JObj [(''timestamp'', JStr ''asc'')])]) else None)] in
      bnd (P BackupJob FindUnique (JObj [(''where'', where_id (rq_param rq)), (''include'', incl)])) (\<lambda>job.
        if \<not> truthy_j (Some job) then ret (not_found ''Backup job '' (rq_param rq) '' not found'')
        else respond 200 job))"

text \<open>Casts on the fields an update carries.\<close>

definition cast_date :: "http_env \<Rightarrow> string \<Rightarrow> json \<Rightarrow> json" where
  "cast_date H k d = (if truthy_j (jget d k) then jset d k (he_date H (the (jget d k))) else d)"

definition cast_num :: "string \<Rightarrow> json \<Rightarrow> json" where
  "cast_num k d = (case jget d k of None \<Rightarrow> d | Some v \<Rightarrow> jset d k (if v \<noteq> JNull then js_Number v else JNull))"

definition job_update :: "http_env \<Rightarrow> json \<Rightarrow> json" where
  "job_update H b =
     cast_num ''binlogPosition'' (cast_num ''backupLevel'' (cast_num ''duration'' (cast_num ''compressedSize''
    (cast_num ''fileSize''
    (cast_date H ''expiresAt'' (cast_date H ''completedAt'' (cast_date H ''startedAt'' (JObj (jfields b)))))))))"

definition patch_job :: "'db prisma \<Rightarrow> http_env \<Rightarrow> api_request \<Rightarrow> 'db \<Rightarrow> response \<times> 'db" where
  "patch_job P H rq = handle (missing_is_404 (not_found ''Backup job '' (rq_param rq) '' not found'')
     (bnd (P BackupJob Update (JObj [(''where'', where_id (rq_param rq)), (''data'', job_update H (rq_body rq)),
        (''include'', include_storage)])) (respond 200)))"

text \<open>\<open>limit ? parseInt(limit) : take ? parseInt(take) : undefined\<close>\<close>

definition page_size :: "json \<Rightarrow> json option" where
  "page_size q = (if truthy_j (jget q ''limit'') then Some (js_parseInt (js_String (the (jget q ''limit''))))
     else if truthy_j (jget q ''take'') then Some (js_parseInt (js_String (the (jget q ''take''))))
     else None)"

definition page_skip :: "json \<Rightarrow> json option" where
  "page_skip q = (if truthy_j (jget q ''skip'') then Some (js_parseInt (js_String (the (jget q ''skip'')))) else None)"

definition sort_order :: "json \<Rightarrow> json" where
  "sort_order q = JStr (if dflt (jget q ''orderBy'') (JStr ''desc'') = JStr ''asc'' then ''asc'' else ''desc'')"

definition status_filter :: "string \<Rightarrow> json" where
  "status_filter s = (let statusArr = map js_trim (split_on (CHR '','') s) in
     if length statusArr > 1 then JObj [(''in'', jstrs statusArr)] else JStr (hd statusArr))"

definition jobs_where :: "http_env \<Rightarrow> json \<Rightarrow> json" where
  "jobs_where H q = jobj
     [(''status'', if truthy_j (jget q ''status'') then Some (status_filter (js_String (the (jget q ''status'')))) else None),
      (''dbType'', if truthy_j (jget q ''dbType'') then Some (JStr (js_String (the (jget q ''dbType'')))) else None),
      (''dbName'', if truthy_j (jget q ''dbName'') then Some (JStr (js_String (the (jget q ''dbName'')))) else None),
      (''startedAt'', if truthy_j (jget q ''since'')
         then Some (JObj [(''gte'', he_date H (JStr (js_String (the (jget q ''since'')))))]) else None)]"

definition count_only :: "json \<Rightarrow> bool" where
  "count_only q \<longleftrightarrow> jget q ''countOnly'' = Some (JStr ''true'')"

definition get_jobs :: "'db prisma \<Rightarrow> http_env \<Rightarrow> api_request \<Rightarrow> 'db \<Rightarrow> response \<times> 'db" where
  "get_jobs P H rq = handle (let q = rq_query rq; w = jobs_where H q in
     if truthy_j (jget q ''status'') \<and> (case the (jget q ''status'') of JStr _ \<Rightarrow> False | _ \<Rightarrow> True)
     then throw (new_Error ''status.split is not a function'')
     else if count_only q
     then bnd (P BackupJob Count (JObj [(''where'', w)])) (\<lambda>n. respond 200 (JObj [(''count'', n)]))
     else bnd (P BackupJob FindMany (jobj [(''where'', Some w), (''take'', page_size q), (''skip'', page_skip q),
             (''orderBy'', Some (JObj [(''startedAt'', sort_order q)])), (''include'', Some include_storage)])) (\<lambda>jobs.
          bnd (P BackupJob Count (JObj [(''where'', w)])) (\<lambda>total.
          respond 200 (JObj [(''success'', JBool True), (''jobs'', jobs), (''total'', total)]))))"

definition get_jobs_active :: "'db prisma \<Rightarrow> http_env \<Rightarrow> api_request \<Rightarrow> 'db \<Rightarrow> response \<times> 'db" where
  "get_jobs_active P H rq = handle
     (bnd (P BackupJob FindMany (JObj [(''where'', JObj [(''status'', active_statuses)]), (''include'', include_storage),
        (''orderBy'', JObj [(''startedAt'', JStr ''desc'')])])) (\<lambda>jobs.
      respond 200 (JObj [(''success'', JBool True), (''jobs'', jobs)])))"

definition get_jobs_stats :: "'db prisma \<Rightarrow> http_env \<Rightarrow> api_request \<Rightarrow> 'db \<Rightarrow> response \<times> 'db" where
  "get_jobs_stats P H rq = handle
     (let since = (if truthy_j (jget (rq_query rq) ''since'')
            then he_date H (JStr (js_String (the (jget (rq_query rq) ''since'')))) else he_day_ago H);
          recent = JObj [(''startedAt'', JObj [(''gte'', since)])];
          failed = JObj [(''startedAt'', JObj [(''gte'', since)]), (''status'', failed_statuses)] in
      bnd (P BackupJob Count (JObj [(''where'', JObj [(''status'', active_statuses)])])) (\<lambda>activeJobs.
      bnd (P BackupJob Count (JObj [(''where'', recent)])) (\<lambda>countSince.
      bnd (P BackupJob Count (JObj [(''where'', failed)])) (\<lambda>failedSince.
      bnd (P BackupJob Count (JObj [])) (\<lambda>totalJobs.
      bnd (P BackupJob FindMany (JObj [(''where'', failed), (''orderBy'', JObj [(''startedAt'', JStr ''desc'')]),
             (''take'', JNum 5)])) (\<lambda>recentFailed.
      respond 200 (JObj [(''success'', JBool True), (''activeJobs'', activeJobs), (''countSince'', countSince),
        (''failedSince'', failedSince), (''totalJobs'', totalJobs), (''recentFailed'', recentFailed)])))))))"

section \<open>Logs\<close>

definition log_details :: "http_env \<Rightarrow> json option \<Rightarrow> json" where
  "log_details H d = (if \<not> truthy_j d then JNull
     else (case the d of JStr s \<Rightarrow> JStr s | v \<Rightarrow> JStr (he_stringify H v)))"

definition post_log :: "'db prisma \<Rightarrow> http_env \<Rightarrow> api_request \<Rightarrow> 'db \<Rightarrow> response \<times> 'db" where
  "post_log P H rq = handle (let b = rq_body rq in
     if \<not> truthy_j (jget b ''level'') \<or> \<not> truthy_j (jget b ''message'')
     then respond 400 (error_body ''Validation error: level and message are required'')
     else bnd (P BackupLog Create (JObj [(''data'', JObj [(''backupJobId'', JStr (rq_param rq)),
            (''level'', JStr (js_upper (js_String (the (jget b ''level''))))),
            (''message'', JStr (js_String (the (jget b ''message'')))),
            (''details'', log_details H (jget b ''details'')),
            (''timestamp'', date_or H (jget b ''timestamp'') (he_now H))])])) (respond 201))"

definition get_job_logs :: "'db prisma \<Rightarrow> http_env \<Rightarrow> api_request \<Rightarrow> 'db \<Rightarrow> response \<times> 'db" where
  "get_job_logs P H rq = handle
     (bnd (P BackupLog FindMany (JObj [(''where'', JObj [(''backupJobId'', JStr (rq_param rq))]),
        (''orderBy'', JObj [(''timestamp'', JStr ''asc'')])])) (\<lambda>logs.
      respond 200 (JObj [(''success'', JBool True), (''logs'', logs)])))"

definition get_logs :: "'db prisma \<Rightarrow> http_env \<Rightarrow> api_request \<Rightarrow> 'db \<Rightarrow> response \<times> 'db" where
  "get_logs P H rq = handle (let q = rq_query rq;
        w = jobj [(''backupJobId'', if truthy_j (jget q ''backupJobId'') then Some (JStr (js_String (the (jget q ''backupJobId'')))) else None),
                  (''level'', if truthy_j (jget q ''level'') then Some (JStr (js_upper (js_String (the (jget q ''level''))))) else None)] in
     bnd (P BackupLog FindMany (jobj [(''where'', Some w), (''take'', page_size q), (''skip'', page_skip q),
        (''orderBy'', Some (JObj [(''timestamp'', sort_order q)]))])) (\<lambda>logs.
     respond 200 (JObj [(''success'', JBool True), (''logs'', logs)])))"

section \<open>Schedules\<close>

text \<open>\<open>if (enabled !== undefined) where.enabled = enabled === 'true'\<close>\<close>

definition enabled_where :: "json \<Rightarrow> json" where
  "enabled_where q = jobj [(''enabled'', case jget q ''enabled'' of None \<Rightarrow> None
     | Some v \<Rightarrow> Some (JBool (v = JStr ''true'')))]"

definition list_enabled :: "'db prisma \<Rightarrow> table \<Rightarrow> string \<Rightarrow> api_request \<Rightarrow> 'db \<Rightarrow> response \<times> 'db" where
  "list_enabled P t key rq = handle (let q = rq_query rq; w = enabled_where q in
     if count_only q
     then bnd (P t Count (JObj [(''where'', w)])) (\<lambda>n. respond 200 (JObj [(''count'', n)]))
     else bnd (P t FindMany (JObj [(''where'', w), (''orderBy'', JObj [(''createdAt'', JStr ''desc'')])])) (\<lambda>xs.
       respond 200 (JObj [(''success'', JBool True), (key, xs)])))"

definition get_schedules :: "'db prisma \<Rightarrow> api_request \<Rightarrow> 'db \<Rightarrow> response \<times> 'db" where
  "get_schedules P rq = list_enabled P BackupSchedule ''schedules'' rq"

definition get_schedule :: "'db prisma \<Rightarrow> api_request \<Rightarrow> 'db \<Rightarrow> response \<times> 'db" where
  "get_schedule P rq = handle
     (bnd (P BackupSchedule FindUnique (JObj [(''where'', where_id (rq_param rq))])) (\<lambda>sched.
        if \<not> truthy_j (Some sched) then ret (not_found ''Schedule '' (rq_param rq) '' not found'')
        else respond 200 sched))"

definition schedule_data :: "json \<Rightarrow> json" where
  "schedule_data b = jobj
     [(''name'', Some (or_j (jget b ''name'')
         (JStr (js_String (the (jget b ''dbType'')) @ ''_'' @ js_String (the (jget b ''dbName'')) @ ''_backup'')))),
      (''dbType'', jget b ''dbType''), (''dbName'', jget b ''dbName''), (''schedule'', jget b ''schedule''),
      (''backupType'', jget b ''backupType''),
      (''compress'', Some (js_Boolean (dflt (jget b ''compress'') (JBool True)))),
      (''storageType'', Some (dflt (jget b ''storageType'') (JStr ''local''))),
      (''retention'', Some (num_or (dflt (jget b ''retention'') (JNum 30)) 30)),
      (''enabled'', Some (js_Boolean (dflt (jget b ''enabled'') (JBool True)))),
      (''notifyOnSuccess'', Some (js_Boolean (dflt (jget b ''notifyOnSuccess'') (JBool False)))),
      (''notifyOnError'', Some (js_Boolean (dflt (jget b ''notifyOnError'') (JBool True)))),
      (''slackWebhook'', Some (or_null (jget b ''slackWebhook''))),
      (''emailRecipients'', Some (or_null (jget b ''emailRecipients''))),
      (''metadata'', Some (or_null (jget b ''metadata''))),
      (''createdBy'', Some (or_null (jget b ''createdBy'')))]"

definition post_schedule :: "'db prisma \<Rightarrow> api_request \<Rightarrow> 'db \<Rightarrow> response \<times> 'db" where
  "post_schedule P rq = handle (let b = rq_body rq in
     if \<not> truthy_j (jget b ''dbType'') \<or> \<not> truthy_j (jget b ''dbName'') \<or> \<not> truthy_j (jget b ''schedule'')
       \<or> \<not> truthy_j (jget b ''backupType'')
     then respond 400 (error_body ''Validation error: dbType, dbName, schedule, and backupType are required'')
     else bnd (P BackupSchedule Create (JObj [(''data'', schedule_data b)])) (respond 201))"

definition patch_schedule :: "'db prisma \<Rightarrow> http_env \<Rightarrow> api_request \<Rightarrow> 'db \<Rightarrow> response \<times> 'db" where
  "patch_schedule P H rq = handle (missing_is_404 (not_found ''Schedule '' (rq_param rq) '' not found'')
     (bnd (P BackupSchedule Update (JObj [(''where'', where_id (rq_param rq)),
        (''data'', cast_date H ''nextRunAt'' (cast_date H ''lastRunAt'' (JObj (jfields (rq_body rq)))))])) (respond 200)))"

definition deleted :: "string \<Rightarrow> string \<Rightarrow> json" where
  "deleted what i = JObj [(''success'', JBool True),
     (''message'', JStr (what @ [CHR 0x27] @ i @ [CHR 0x27] @ '' deleted''))]"

definition delete_schedule :: "'db prisma \<Rightarrow> api_request \<Rightarrow> 'db \<Rightarrow> response \<times> 'db" where
  "delete_schedule P rq = handle (missing_is_404 (not_found ''Schedule '' (rq_param rq) '' not found'')
     (seqp (P BackupSchedule Delete (JObj [(''where'', where_id (rq_param rq))]))
           (respond 200 (deleted ''Schedule '' (rq_param rq)))))"

section \<open>Storage locations\<close>

definition get_storages :: "'db prisma \<Rightarrow> api_request \<Rightarrow> 'db \<Rightarrow> response \<times> 'db" where
  "get_storages P rq = list_enabled P StorageLocation ''storages'' rq"

definition get_default_storage :: "'db prisma \<Rightarrow> api_request \<Rightarrow> 'db \<Rightarrow> response \<times> 'db" where
  "get_default_storage P rq = handle
     (bnd (P StorageLocation FindFirst (JObj [(''where'', JObj [(''default'', JBool True), (''enabled'', JBool True)])])) (\<lambda>st.
        if \<not> truthy_j (Some st) then respond 404 (error_body ''No default storage location found'')
        else respond 200 st))"

text \<open>By identifier, then by name.\<close>

definition find_storage :: "'db prisma \<Rightarrow> string \<Rightarrow> ('db, json) prog" where
  "find_storage P idOrName =
     bnd (P StorageLocation FindUnique (JObj [(''where'', where_id idOrName)])) (\<lambda>st.
       if truthy_j (Some st) then ret st
       else P StorageLocation FindUnique (JObj [(''where'', JObj [(''name'', JStr idOrName)])]))"

definition no_storage :: "string \<Rightarrow> response" where
  "no_storage i = not_found ''Storage location '' i '' not found''"

definition get_storage :: "'db prisma \<Rightarrow> api_request \<Rightarrow> 'db \<Rightarrow> response \<times> 'db" where
  "get_storage P rq = handle (bnd (find_storage P (rq_param rq)) (\<lambda>st.
     if \<not> truthy_j (Some st) then ret (no_storage (rq_param rq)) else respond 200 st))"

definition clear_defaults :: "'db prisma \<Rightarrow> ('db, json) prog" where
  "clear_defaults P = P StorageLocation UpdateMany
     (JObj [(''where'', JObj [(''default'', JBool True)]), (''data'', JObj [(''default'', JBool False)])])"

definition when_json :: "bool \<Rightarrow> ('db, json) prog \<Rightarrow> ('db, json) prog" where
  "when_json b m = (if b then m else ret JNull)"

definition storage_fields :: "json \<Rightarrow> (string \<times> json) list" where
  "storage_fields b =
     [(''type'', JStr (js_String (the (jget b ''type'')))),
      (''config'', or_null (jget b ''config'')), (''bucket'', or_null (jget b ''bucket'')),
      (''region'', or_null (jget b ''region'')), (''accessKey'', or_null (jget b ''accessKey'')),
      (''secretKey'', or_null (jget b ''secretKey'')),
      (''enabled'', js_Boolean (dflt (jget b ''enabled'') (JBool True))),
      (''default'', js_Boolean (dflt (jget b ''default'') (JBool False)))]"

definition post_storage :: "'db prisma \<Rightarrow> api_request \<Rightarrow> 'db \<Rightarrow> response \<times> 'db" where
  "post_storage P rq = handle (let b = rq_body rq in
     if \<not> truthy_j (jget b ''name'') \<or> \<not> truthy_j (jget b ''type'')
     then respond 400 (error_body ''Validation error: name and type are required'')
     else seqp (when_json (truthy_j (jget b ''default'')) (clear_defaults P))
       (bnd (P StorageLocation Upsert (JObj
          [(''where'', JObj [(''name'', JStr (js_String (the (jget b ''name''))))]),
           (''update'', JObj (storage_fields b)),
           (''create'', JObj ((if truthy_j (jget b ''id'') then [(''id'', JStr (js_String (the (jget b ''id''))))] else [])
              @ [(''name'', JStr (js_String (the (jget b ''name''))))] @ storage_fields b))])) (respond 201)))"

definition patch_storage :: "'db prisma \<Rightarrow> api_request \<Rightarrow> 'db \<Rightarrow> response \<times> 'db" where
  "patch_storage P rq = handle (missing_is_404 (no_storage (rq_param rq))
     (let isDefault = jget (rq_body rq) ''default''; other = jomit (rq_body rq) ''default'' in
      seqp (when_json (truthy_j isDefault) (clear_defaults P))
     (bnd (P StorageLocation Update (JObj [(''where'', where_id (rq_param rq)),
        (''data'', case isDefault of None \<Rightarrow> other | Some v \<Rightarrow> jset other ''default'' (js_Boolean v))])) (respond 200))))"

definition set_default_storage :: "'db prisma \<Rightarrow> api_request \<Rightarrow> 'db \<Rightarrow> response \<times> 'db" where
  "set_default_storage P rq = handle (bnd (find_storage P (rq_param rq)) (\<lambda>st.
     if \<not> truthy_j (Some st) then ret (no_storage (rq_param rq))
     else seqp (clear_defaults P)
       (bnd (P StorageLocation Update (JObj [(''where'', jobj [(''id'', jget st ''id'')]),
          (''data'', JObj [(''default'', JBool True)])])) (respond 200))))"

definition delete_storage :: "'db prisma \<Rightarrow> api_request \<Rightarrow> 'db \<Rightarrow> response \<times> 'db" where
  "delete_storage P rq = handle (missing_is_404 (no_storage (rq_param rq)) (bnd (find_storage P (rq_param rq)) (\<lambda>st.
     if \<not> truthy_j (Some st) then ret (no_storage (rq_param rq))
     else seqp (P StorageLocation Delete (JObj [(''where'', jobj [(''id'', jget st ''id'')])]))
           (respond 200 (deleted ''Storage location '' (rq_param rq))))))"

section \<open>Notifications\<close>

definition where_type :: "string \<Rightarrow> json" where
  "where_type t = JObj [(''type'', JStr t)]"

definition get_configs :: "'db prisma \<Rightarrow> api_request \<Rightarrow> 'db \<Rightarrow> response \<times> 'db" where
  "get_configs P rq = handle
     (if count_only (rq_query rq)
      then bnd (P NotificationConfig Count (JObj [])) (\<lambda>n. respond 200 (JObj [(''count'', n)]))
      else bnd (P NotificationConfig FindMany (JObj [])) (\<lambda>xs.
        respond 200 (JObj [(''success'', JBool True), (''configs'', xs)])))"

definition no_config :: "string \<Rightarrow> response" where
  "no_config t = not_found ''Notification config for '' t '' not found''"

definition get_config :: "'db prisma \<Rightarrow> api_request \<Rightarrow> 'db \<Rightarrow> response \<times> 'db" where
  "get_config P rq = handle
     (bnd (P NotificationConfig FindUnique (JObj [(''where'', where_type (rq_param rq))])) (\<lambda>c.
        if \<not> truthy_j (Some c) then ret (no_config (rq_param rq)) else respond 200 c))"

definition config_texts :: "string list" where
  "config_texts = [''smtpHost'', ''smtpUser'', ''smtpPassword'', ''from'', ''to'', ''webhook'']"

text \<open>\<open>smtpPort ? Number(smtpPort) : null\<close>\<close>

definition smtp_port :: "json option \<Rightarrow> json" where
  "smtp_port v = (if truthy_j v then js_Number (the v) else JNull)"

definition config_update :: "json \<Rightarrow> json" where
  "config_update b = jobj ((''enabled'', Some (js_Boolean (dflt (jget b ''enabled'') (JBool True))))
     # (''smtpPort'', case jget b ''smtpPort'' of None \<Rightarrow> None | Some v \<Rightarrow> Some (smtp_port (Some v)))
     # map (\<lambda>k. (k, jget b k)) config_texts)"

definition config_create :: "string \<Rightarrow> json \<Rightarrow> json" where
  "config_create t b = jobj ((''type'', Some (JStr t))
     # (''enabled'', Some (js_Boolean (dflt (jget b ''enabled'') (JBool True))))
     # (''smtpPort'', Some (smtp_port (jget b ''smtpPort'')))
     # map (\<lambda>k. (k, Some (or_null (jget b k)))) config_texts)"

definition post_config :: "'db prisma \<Rightarrow> api_request \<Rightarrow> 'db \<Rightarrow> response \<times> 'db" where
  "post_config P rq = handle (bnd (P NotificationConfig Upsert (JObj [(''where'', where_type (rq_param rq)),
     (''update'', config_update (rq_body rq)), (''create'', config_create (rq_param rq) (rq_body rq))])) (respond 200))"

definition delete_config :: "'db prisma \<Rightarrow> api_request \<Rightarrow> 'db \<Rightarrow> response \<times> 'db" where
  "delete_config P rq = handle (missing_is_404 (no_config (rq_param rq))
     (seqp (P NotificationConfig Delete (JObj [(''where'', where_type (rq_param rq))]))
           (respond 200 (deleted ''Notification config for '' (rq_param rq)))))"

definition post_notification :: "'db prisma \<Rightarrow> http_env \<Rightarrow> api_request \<Rightarrow> 'db \<Rightarrow> response \<times> 'db" where
  "post_notification P H rq = handle (let b = rq_body rq in
     if \<not> truthy_j (jget b ''type'') \<or> \<not> truthy_j (jget b ''status'')
     then respond 400 (error_body ''Validation error: type and status are required'')
     else bnd (P Notification Create (JObj [(''data'', JObj
          [(''backupJobId'', or_null (jget b ''backupJobId'')), (''type'', JStr (js_String (the (jget b ''type'')))),
           (''status'', JStr (js_String (the (jget b ''status'')))), (''recipient'', or_null (jget b ''recipient'')),
           (''subject'', or_null (jget b ''subject'')), (''message'', or_null (jget b ''message'')),
           (''sentAt'', date_or H (jget b ''sentAt'') (he_now H)), (''error'', or_null (jget b ''error'')),
           (''retryCount'', num_or (dflt (jget b ''retryCount'') (JNum 0)) 0)])])) (respond 201))"

end
