(* ===== verification/MetadataCorrect.thy ===== *)
theory MetadataCorrect
  imports MetadataService
begin

text \<open>
  What the metadata service guarantees on top of Prisma: validation before any write, 404
  against 500, and the default storage location. \<open>prisma_ok\<close> states what the documentation of
  Prisma promises of the calls used on a table whose rows are seen through \<open>rows\<close>; \<open>mem_prisma\<close>
  is an in-memory table for which it holds.
\<close>

section \<open>What Prisma promises\<close>

definition row_matches :: "json \<Rightarrow> json \<Rightarrow> bool" where
  "row_matches w r \<longleftrightarrow> list_all (\<lambda>(k, v). jget r k = Some v) (jfields w)"

definition arg :: "json \<Rightarrow> string \<Rightarrow> json" where
  "arg a k = nullish (jget a k) JNull"

definition update_rows :: "json \<Rightarrow> json \<Rightarrow> json list \<Rightarrow> json list" where
  "update_rows w d xs = map (\<lambda>r. if row_matches w r then jspread r d else r) xs"

definition is_read :: "db_op \<Rightarrow> bool" where
  "is_read op \<longleftrightarrow> op \<in> {FindUnique, FindFirst, FindMany, Count, QueryRaw}"

definition prisma_ok :: "'db prisma \<Rightarrow> ('db \<Rightarrow> table \<Rightarrow> json list) \<Rightarrow> bool" where
  "prisma_ok P rows \<longleftrightarrow>
     (\<forall>t op a s r s'. P t op a s = (r, s') \<longrightarrow> is_read op \<or> isl r \<longrightarrow> rows s' = rows s) \<and>
     (\<forall>t a s v s'. P t FindUnique a s = (Inr v, s') \<longrightarrow> truthy_j (Some v) \<longrightarrow> jget v ''id'' \<noteq> None) \<and>
     (\<forall>t a s v s'. P t UpdateMany a s = (Inr v, s') \<longrightarrow>
        rows s' t = update_rows (arg a ''where'') (arg a ''data'') (rows s t)) \<and>
     (\<forall>t a s v s'. P t Update a s = (Inr v, s') \<longrightarrow>
        rows s' t = update_rows (arg a ''where'') (arg a ''data'') (rows s t)) \<and>
     (\<forall>t a s v s'. P t Delete a s = (Inr v, s') \<longrightarrow>
        rows s' t = filter (\<lambda>r. \<not> row_matches (arg a ''where'') r) (rows s t)) \<and>
     (\<forall>t a s v s'. P t Upsert a s = (Inr v, s') \<longrightarrow>
        (if list_ex (row_matches (arg a ''where'')) (rows s t)
         then rows s' t = update_rows (arg a ''where'') (arg a ''update'') (rows s t)
         else \<exists>r. rows s' t = rows s t @ [r] \<and> row_matches (arg a ''create'') r))"

lemma prisma_keeps: "prisma_ok P rows \<Longrightarrow> P t op a s = (r, s') \<Longrightarrow> is_read op \<or> isl r \<Longrightarrow> rows s' = rows s"
  unfolding prisma_ok_def by (elim conjE) metis

lemma prisma_found: "prisma_ok P rows \<Longrightarrow> P t FindUnique a s = (Inr v, s') \<Longrightarrow> truthy_j (Some v) \<Longrightarrow> jget v ''id'' \<noteq> None"
  unfolding prisma_ok_def by (elim conjE) metis

lemma prisma_update: "prisma_ok P rows \<Longrightarrow> P t op a s = (Inr v, s') \<Longrightarrow> op = Update \<or> op = UpdateMany \<Longrightarrow>
    rows s' t = update_rows (arg a ''where'') (arg a ''data'') (rows s t)"
  unfolding prisma_ok_def by (elim conjE) metis

lemma prisma_delete: "prisma_ok P rows \<Longrightarrow> P t Delete a s = (Inr v, s') \<Longrightarrow>
    rows s' t = filter (\<lambda>r. \<not> row_matches (arg a ''where'') r) (rows s t)"
  unfolding prisma_ok_def by (elim conjE) metis

lemma prisma_upsert: "prisma_ok P rows \<Longrightarrow> P t Upsert a s = (Inr v, s') \<Longrightarrow>
    rows s' t = update_rows (arg a ''where'') (arg a ''update'') (rows s t) \<or>
    (\<exists>r. rows s' t = rows s t @ [r] \<and> row_matches (arg a ''create'') r)"
  unfolding prisma_ok_def by meson

section \<open>The default storage location\<close>

definition is_default :: "json \<Rightarrow> bool" where
  "is_default r \<longleftrightarrow> jget r ''default'' = Some (JBool True)"

definition one_default :: "json list \<Rightarrow> bool" where
  "one_default xs \<longleftrightarrow> length (filter is_default xs) \<le> 1"

definition keyed_by :: "string \<Rightarrow> json list \<Rightarrow> bool" where
  "keyed_by k xs \<longleftrightarrow> distinct (map (\<lambda>r. jget r k) xs)"

lemma row_matches_single [simp]: "row_matches (JObj [(k, v)]) r \<longleftrightarrow> jget r k = Some v"
  by (simp add: row_matches_def)

lemma update_rows_fewer:
  assumes "\<And>r. is_default (jspread r d) \<Longrightarrow> is_default r" and "one_default xs"
  shows "one_default (update_rows w d xs)"
proof -
  have "length (filter is_default (update_rows w d xs)) \<le> length (filter is_default xs)"
    unfolding update_rows_def by (induction xs) (auto dest: assms(1))
  with assms(2) show ?thesis by (simp add: one_default_def)
qed

lemma update_rows_one:
  assumes "keyed_by k xs" and "filter is_default xs = []"
  shows "one_default (update_rows (JObj [(k, v)]) d xs)"
proof -
  have "length (filter is_default (update_rows (JObj [(k, v)]) d xs)) \<le> 1"
    using assms unfolding update_rows_def keyed_by_def
  proof (induction xs)
    case (Cons x xs)
    show ?case
    proof (cases "jget x k = Some v")
      case True
      with Cons.prems(1) have "\<forall>r\<in>set xs. jget r k \<noteq> Some v" by (force simp: image_iff)
      then have "map (\<lambda>r. if row_matches (JObj [(k, v)]) r then jspread r d else r) xs = xs"
        by (intro map_idI) auto
      with Cons.prems True show ?thesis by (auto split: if_splits)
    next
      case False
      with Cons show ?thesis by (auto split: if_splits)
    qed
  qed simp
  then show ?thesis by (simp add: one_default_def)
qed

lemma cleared:
  assumes "prisma_ok P rows" and "clear_defaults P s = (Inr v, s')"
  shows "filter is_default (rows s' StorageLocation) = [] \<and>
    (k \<noteq> ''default'' \<longrightarrow> keyed_by k (rows s' StorageLocation) = keyed_by k (rows s StorageLocation))"
proof -
  define f where "f = (\<lambda>r. if jget r ''default'' = Some (JBool True) then jspread r (JObj [(''default'', JBool False)]) else r)"
  have r: "rows s' StorageLocation = map f (rows s StorageLocation)"
    using prisma_update [OF assms(1) assms(2) [unfolded clear_defaults_def]]
    by (simp add: arg_def update_rows_def f_def)
  have "\<not> is_default (f r)" for r by (simp add: is_default_def jget_jspread f_def)
  moreover have "jget (f r) k = jget r k" if "k \<noteq> ''default''" for r
    using that by (simp add: jget_jspread f_def)
  ultimately show ?thesis unfolding r keyed_by_def by (simp add: comp_def filter_empty_conv)
qed

lemma filter_one_default: "one_default xs \<Longrightarrow> one_default (filter P xs)"
proof -
  have "length (filter is_default (filter P xs)) \<le> length (filter is_default xs)" by (induction xs) auto
  then show "one_default xs \<Longrightarrow> one_default (filter P xs)" by (simp add: one_default_def)
qed

text \<open>The state a program over the database leaves, whatever the outcome.\<close>

definition leaves :: "('db \<Rightarrow> bool) \<Rightarrow> ('db, 'a) prog \<Rightarrow> 'db \<Rightarrow> bool" where
  "leaves Q m = wp m (\<lambda>_. Q) (\<lambda>_. Q)"

lemma handle_leaves: "leaves (\<lambda>t. Q (rows t k)) m s \<Longrightarrow> Q (rows (snd (handle m s)) k)"
  by (auto simp: leaves_def wp_def handle_def split: prod.split sum.split)

lemma leaves_bnd: "wp m (\<lambda>x. leaves Q (k x)) (\<lambda>_. Q) s \<Longrightarrow> leaves Q (bnd m k) s"
  by (simp add: leaves_def wp_bnd)

lemma leaves_ret [simp]: "leaves Q (ret x) s = Q s" "leaves Q (respond n b) s = Q s" "leaves Q (throw e) s = Q s"
  by (simp_all add: leaves_def respond_def wp)

lemma leaves_404: "leaves Q m s \<Longrightarrow> leaves Q (missing_is_404 r m) s"
  by (auto simp: leaves_def missing_is_404_def wp_def try_catch_def ret_def throw_def split: prod.split sum.split)

lemma find_storage_keeps:
  assumes "prisma_ok P rows"
  shows "wp (find_storage P i) (\<lambda>v t. rows t = rows s \<and> (truthy_j (Some v) \<longrightarrow> jget v ''id'' \<noteq> None))
    (\<lambda>_ t. rows t = rows s) s"
proof -
  have "wp (P StorageLocation FindUnique a) (\<lambda>v t. rows t = rows s \<and> (truthy_j (Some v) \<longrightarrow> jget v ''id'' \<noteq> None))
      (\<lambda>_ t. rows t = rows s) u" if "rows u = rows s" for a u
    using prisma_keeps [OF assms, of StorageLocation FindUnique a u] prisma_found [OF assms, of StorageLocation a u] that
    by (fastforce simp: wp_def is_read_def split: prod.split sum.split)
  note one = this
  show ?thesis
    unfolding find_storage_def wp_bnd
  proof (rule wp_mono [OF one [OF refl]])
    fix v t
    assume v: "rows t = rows s \<and> (truthy_j (Some v) \<longrightarrow> jget v ''id'' \<noteq> None)"
    show "wp (if truthy_j (Some v) then ret v else P StorageLocation FindUnique (JObj [(''where'', JObj [(''name'', JStr i)])]))
        (\<lambda>v t. rows t = rows s \<and> (truthy_j (Some v) \<longrightarrow> jget v ''id'' \<noteq> None)) (\<lambda>_ t. rows t = rows s) t"
      unfolding wp_if wp_ret using v one by presburger
  qed simp
qed

lemma leaves_one_default:
  assumes "prisma_ok P rows" and "one_default (rows s StorageLocation)"
    and "\<And>v s'. P StorageLocation op a s = (Inr v, s') \<Longrightarrow> one_default (rows s' StorageLocation)"
  shows "leaves (\<lambda>t. one_default (rows t StorageLocation)) (bnd (P StorageLocation op a) (respond n)) s"
  using prisma_keeps [OF assms(1), of StorageLocation op a s] assms(2,3)
  by (intro leaves_bnd) (auto simp: wp_def split: prod.split sum.split)

lemma leaves_cleared:
  assumes ok: "prisma_ok P rows" and one: "one_default (rows s StorageLocation)"
    and key: "keyed_by k (rows s StorageLocation)" "k \<noteq> ''default''"
    and set: "\<And>u v u'. filter is_default (rows u StorageLocation) = [] \<Longrightarrow> keyed_by k (rows u StorageLocation) \<Longrightarrow>
      P StorageLocation op a u = (Inr v, u') \<Longrightarrow> one_default (rows u' StorageLocation)"
    and unset: "\<And>v u'. \<not> b \<Longrightarrow> P StorageLocation op a s = (Inr v, u') \<Longrightarrow> one_default (rows u' StorageLocation)"
  shows "leaves (\<lambda>t. one_default (rows t StorageLocation))
    (seqp (when_json b (clear_defaults P)) (bnd (P StorageLocation op a) (respond n))) s"
proof (cases b)
  case False
  with leaves_one_default [OF ok one unset [OF False]] show ?thesis
    by (simp add: when_json_def)
next
  case True
  have "leaves (\<lambda>t. one_default (rows t StorageLocation)) (bnd (P StorageLocation op a) (respond n)) u"
    if "clear_defaults P s = (Inr v, u)" for v u
  proof (rule leaves_one_default [OF ok])
    note c = cleared [OF ok that, of k]
    show "one_default (rows u StorageLocation)" using c by (simp add: one_default_def)
    show "\<And>v s'. P StorageLocation op a u = (Inr v, s') \<Longrightarrow> one_default (rows s' StorageLocation)"
      using set c key by blast
  qed
  moreover have "one_default (rows u StorageLocation)" if "clear_defaults P s = (Inl e, u)" for e u
    using prisma_keeps [OF ok that [unfolded clear_defaults_def]] one by simp
  ultimately show ?thesis
    using True by (intro leaves_bnd) (auto simp: when_json_def wp_def split: prod.split sum.split)
qed

lemma is_default_jset: "is_default (jspread r (jset d ''default'' (JBool b))) \<longleftrightarrow> b"
proof -
  have "map_of (jfields (jset d ''default'' v)) ''default'' = Some v" for v
    using jget_fields [of "jset d ''default'' v" "''default''"] by simp
  then show ?thesis by (simp add: is_default_def jget_jspread)
qed

lemma is_default_omit: "is_default (jspread r (jomit d ''default'')) \<longleftrightarrow> is_default r"
proof -
  have "map_of (jfields (jomit d ''default'')) ''default'' = None"
    using jget_fields [of "jomit d ''default''" "''default''"] by (simp add: jget_jomit)
  then show ?thesis by (simp add: is_default_def jget_jspread)
qed

lemma patch_storage_one_default:
  assumes ok: "prisma_ok P rows" and one: "one_default (rows s StorageLocation)"
    and key: "keyed_by ''id'' (rows s StorageLocation)"
  shows "one_default (rows (snd (patch_storage P rq s)) StorageLocation)"
proof -
  let ?d = "jget (rq_body rq) ''default''" and ?o = "jomit (rq_body rq) ''default''"
  let ?data = "case ?d of None \<Rightarrow> ?o | Some v \<Rightarrow> jset ?o ''default'' (js_Boolean v)"
  show ?thesis
    unfolding patch_storage_def Let_def
  proof (rule handle_leaves, intro leaves_404 leaves_cleared [OF ok one key])
    fix u v u'
    assume "filter is_default (rows u StorageLocation) = []" "keyed_by ''id'' (rows u StorageLocation)"
      and "P StorageLocation Update (JObj [(''where'', where_id (rq_param rq)), (''data'', ?data)]) u = (Inr v, u')"
    then show "one_default (rows u' StorageLocation)"
      using prisma_update [OF ok, of StorageLocation Update] update_rows_one by (force simp: arg_def where_id_def)
  next
    fix v u'
    assume unset: "\<not> truthy_j ?d"
      and run: "P StorageLocation Update (JObj [(''where'', where_id (rq_param rq)), (''data'', ?data)]) s = (Inr v, u')"
    have "is_default (jspread r ?data) \<Longrightarrow> is_default r" for r
      using unset by (cases ?d) (simp_all add: is_default_omit is_default_jset js_Boolean_def)
    with prisma_update [OF ok run] one show "one_default (rows u' StorageLocation)"
      by (simp add: arg_def update_rows_fewer)
  qed simp
qed

lemma post_storage_one_default:
  assumes ok: "prisma_ok P rows" and one: "one_default (rows s StorageLocation)"
    and key: "keyed_by ''name'' (rows s StorageLocation)"
  shows "one_default (rows (snd (post_storage P rq s)) StorageLocation)"
proof -
  let ?b = "rq_body rq"
  let ?name = "JStr (js_String (the (jget ?b ''name'')))"
  let ?create = "(if truthy_j (jget ?b ''id'') then [(''id'', JStr (js_String (the (jget ?b ''id''))))] else [])
     @ [(''name'', ?name)] @ storage_fields ?b"
  let ?a = "JObj [(''where'', JObj [(''name'', ?name)]), (''update'', JObj (storage_fields ?b)), (''create'', JObj ?create)]"
  have up: "rows u' StorageLocation = update_rows (JObj [(''name'', ?name)]) (JObj (storage_fields ?b)) (rows u StorageLocation) \<or>
      (\<exists>r. rows u' StorageLocation = rows u StorageLocation @ [r] \<and> row_matches (JObj ?create) r)"
    if "P StorageLocation Upsert ?a u = (Inr v, u')" for u v u'
    using prisma_upsert [OF ok that] by (simp add: arg_def)
  have upd: "is_default (jspread r (JObj (storage_fields ?b))) \<longleftrightarrow> truthy_j (jget ?b ''default'')" for r
    by (cases "jget ?b ''default''") (simp_all add: is_default_def jget_jspread storage_fields_def dflt_def js_Boolean_def)
  have new: "is_default r \<longleftrightarrow> truthy_j (jget ?b ''default'')" if "row_matches (JObj ?create) r" for r
  proof -
    have "jget r ''default'' = Some (js_Boolean (dflt (jget ?b ''default'') (JBool False)))"
      using that by (auto simp: row_matches_def storage_fields_def)
    then show ?thesis by (cases "jget ?b ''default''") (simp_all add: is_default_def dflt_def js_Boolean_def)
  qed
  have body: "leaves (\<lambda>t. one_default (rows t StorageLocation))
      (seqp (when_json (truthy_j (jget ?b ''default'')) (clear_defaults P)) (bnd (P StorageLocation Upsert ?a) (respond 201))) s"
  proof (intro leaves_cleared [OF ok one key])
    fix u v u'
    assume c: "filter is_default (rows u StorageLocation) = []" "keyed_by ''name'' (rows u StorageLocation)"
      and run: "P StorageLocation Upsert ?a u = (Inr v, u')"
    from up [OF run] show "one_default (rows u' StorageLocation)"
    proof (elim disjE exE conjE)
      assume "rows u' StorageLocation = update_rows (JObj [(''name'', ?name)]) (JObj (storage_fields ?b)) (rows u StorageLocation)"
      with update_rows_one [OF c(2,1)] show ?thesis by simp
    next
      fix r
      assume "rows u' StorageLocation = rows u StorageLocation @ [r]"
      with c(1) show ?thesis by (simp add: one_default_def)
    qed
  next
    fix v u'
    assume unset: "\<not> truthy_j (jget ?b ''default'')" and run: "P StorageLocation Upsert ?a s = (Inr v, u')"
    from up [OF run] show "one_default (rows u' StorageLocation)"
    proof (elim disjE exE conjE)
      assume "rows u' StorageLocation = update_rows (JObj [(''name'', ?name)]) (JObj (storage_fields ?b)) (rows s StorageLocation)"
      with one upd unset update_rows_fewer [of "JObj (storage_fields ?b)" "rows s StorageLocation"] show ?thesis by simp
    next
      fix r
      assume "rows u' StorageLocation = rows s StorageLocation @ [r]" "row_matches (JObj ?create) r"
      with one new unset show ?thesis by (simp add: one_default_def)
    qed
  qed simp
  show ?thesis
    unfolding post_storage_def Let_def
    by (rule handle_leaves) (use body one in auto)
qed

lemma set_default_one_default:
  assumes ok: "prisma_ok P rows" and one: "one_default (rows s StorageLocation)"
    and key: "keyed_by ''id'' (rows s StorageLocation)"
  shows "one_default (rows (snd (set_default_storage P rq s)) StorageLocation)"
proof -
  have tail: "leaves (\<lambda>t. one_default (rows t StorageLocation)) (seqp (clear_defaults P)
       (bnd (P StorageLocation Update (JObj [(''where'', jobj [(''id'', jget st ''id'')]),
          (''data'', JObj [(''default'', JBool True)])])) (respond 200))) u" if u: "rows u = rows s" and st: "jget st ''id'' \<noteq> None" for st u
  proof -
    obtain i where i: "jget st ''id'' = Some i" using st by auto
    have "one_default (rows w' StorageLocation)"
      if c: "filter is_default (rows w StorageLocation) = []" "keyed_by ''id'' (rows w StorageLocation)"
        and run: "P StorageLocation Update (JObj [(''where'', jobj [(''id'', jget st ''id'')]),
          (''data'', JObj [(''default'', JBool True)])]) w = (Inr v, w')" for w v w'
    proof -
      have "rows w' StorageLocation = update_rows (JObj [(''id'', i)]) (JObj [(''default'', JBool True)]) (rows w StorageLocation)"
        using prisma_update [OF ok run] by (simp add: arg_def i jobj_def)
      with update_rows_one [OF c(2,1)] show ?thesis by simp
    qed
    then show ?thesis
      using leaves_cleared [OF ok, of u "''id''" Update _ True 200] one key u by (simp add: when_json_def)
  qed
  show ?thesis
    unfolding set_default_storage_def
  proof (rule handle_leaves, intro leaves_bnd)
    show "wp (find_storage P (rq_param rq)) (\<lambda>x. leaves (\<lambda>t. one_default (rows t StorageLocation))
       (if \<not> truthy_j (Some x) then ret (no_storage (rq_param rq))
        else seqp (clear_defaults P) (bnd (P StorageLocation Update (JObj [(''where'', jobj [(''id'', jget x ''id'')]),
          (''data'', JObj [(''default'', JBool True)])])) (respond 200)))) (\<lambda>_ t. one_default (rows t StorageLocation)) s"
    proof (rule wp_mono [OF find_storage_keeps [OF ok]])
      fix x t
      assume "rows t = rows s \<and> (truthy_j (Some x) \<longrightarrow> jget x ''id'' \<noteq> None)"
      then show "leaves (\<lambda>t. one_default (rows t StorageLocation))
       (if \<not> truthy_j (Some x) then ret (no_storage (rq_param rq))
        else seqp (clear_defaults P) (bnd (P StorageLocation Update (JObj [(''where'', jobj [(''id'', jget x ''id'')]),
          (''data'', JObj [(''default'', JBool True)])])) (respond 200))) t"
        using one tail [of t x] by (cases "truthy_j (Some x)") (simp_all del: not_None_eq)
    qed (use one in simp)
  qed
qed


lemma delete_storage_one_default:
  assumes ok: "prisma_ok P rows" and one: "one_default (rows s StorageLocation)"
  shows "one_default (rows (snd (delete_storage P rq s)) StorageLocation)"
proof -
  have tail: "leaves (\<lambda>t. one_default (rows t StorageLocation))
      (seqp (P StorageLocation Delete a) (respond n b)) u" if "rows u = rows s" for a n b u
    using prisma_keeps [OF ok, of StorageLocation Delete a u] prisma_delete [OF ok, of StorageLocation a u] one that
    by (intro leaves_bnd) (fastforce simp: wp_def filter_one_default split: prod.split sum.split)
  show ?thesis
    unfolding delete_storage_def
  proof (rule handle_leaves, intro leaves_404 leaves_bnd)
    show "wp (find_storage P (rq_param rq)) (\<lambda>x. leaves (\<lambda>t. one_default (rows t StorageLocation))
       (if \<not> truthy_j (Some x) then ret (no_storage (rq_param rq))
        else seqp (P StorageLocation Delete (JObj [(''where'', jobj [(''id'', jget x ''id'')])]))
          (respond 200 (deleted ''Storage location '' (rq_param rq)))))
       (\<lambda>_ t. one_default (rows t StorageLocation)) s"
      by (rule wp_mono [OF find_storage_keeps [OF ok]]) (use one tail in auto)
  qed
qed

text \<open>The reading handlers.\<close>

lemma read_leaves:
  assumes "prisma_ok P rows" and "is_read op" and "rows s = v" and "\<And>x t. rows t = v \<Longrightarrow> leaves (\<lambda>t. rows t = v) (k x) t"
  shows "leaves (\<lambda>t. rows t = v) (bnd (P tb op a) k) s"
  using prisma_keeps [OF assms(1), of tb op a s] assms(2-4)
  by (intro leaves_bnd) (auto simp: wp_def split: prod.split sum.split)

lemma leaves_if: "(b \<Longrightarrow> leaves Q m s) \<Longrightarrow> (\<not> b \<Longrightarrow> leaves Q n s) \<Longrightarrow> leaves Q (if b then m else n) s"
  by simp

lemma handle_reads: "leaves (\<lambda>t. rows t = rows s) m s \<Longrightarrow> rows (snd (handle m s)) = rows s"
  using handle_leaves [of "\<lambda>x. x = rows s" "\<lambda>t _. rows t" k] by (auto simp: leaves_def wp_def handle_def split: prod.split sum.split)

lemma leaves_catch:
  "wp m (\<lambda>_. Q) (\<lambda>e. leaves Q (h e)) s \<Longrightarrow> leaves Q (try_catch m h) s"
  by (simp add: leaves_def wp_try_catch)

lemmas reads = read_leaves leaves_if

lemma list_enabled_reads: "prisma_ok P rows \<Longrightarrow> rows (snd (list_enabled P t k rq s)) = rows s"
  unfolding list_enabled_def Let_def by (rule handle_reads) (auto intro!: reads simp: is_read_def)

lemma find_storage_reads:
  assumes "prisma_ok P rows" and "\<And>x t. rows t = rows s \<Longrightarrow> leaves (\<lambda>t. rows t = rows s) (k x) t"
  shows "leaves (\<lambda>t. rows t = rows s) (bnd (find_storage P i) k) s"
  by (rule leaves_bnd, rule wp_mono [OF find_storage_keeps [OF assms(1)]]) (use assms(2) in auto)

section \<open>Properties\<close>

text \<open>C33: No handler of the storage endpoints ever leaves two default storage locations: creating or
  updating one (POST), patching one, choosing the default and deleting one keep "at most one row
  has default = true", whether they succeed, answer 404 or fail half way.\<close>

theorem default_storage_unique:
  assumes "prisma_ok P rows" and "one_default (rows s StorageLocation)"
    and "keyed_by ''id'' (rows s StorageLocation)" and "keyed_by ''name'' (rows s StorageLocation)"
  shows "one_default (rows (snd (post_storage P rq s)) StorageLocation) \<and>
    one_default (rows (snd (patch_storage P rq s)) StorageLocation) \<and>
    one_default (rows (snd (set_default_storage P rq s)) StorageLocation) \<and>
    one_default (rows (snd (delete_storage P rq s)) StorageLocation)"
  using post_storage_one_default [OF assms(1,2,4)] patch_storage_one_default [OF assms(1-3)]
    set_default_one_default [OF assms(1-3)] delete_storage_one_default [OF assms(1,2)] by blast

text \<open>PATCH /api/storage/:id with a true default for an identifier that does not exist answers 404
  and nevertheless leaves the system without any default location: the old default has been cleared
  before the update that fails, and nothing restores it.\<close>

lemma patch_unknown_clears_defaults:
  assumes "prisma_ok P rows" and "truthy_j (jget (rq_body rq) ''default'')"
    and "clear_defaults P s = (Inr v, t)"
    and "\<And>d. P StorageLocation Update (JObj [(''where'', where_id (rq_param rq)), (''data'', d)]) t = (Inl (JsError ''P2025'' (m d)), u d)"
  shows "rs_status (fst (patch_storage P rq s)) = 404 \<and>
    filter is_default (rows (snd (patch_storage P rq s)) StorageLocation) = []"
proof -
  have u: "rows (u d) = rows t" for d using prisma_keeps [OF assms(1) assms(4)] by simp
  obtain d where "patch_storage P rq s = (no_storage (rq_param rq), u d)"
    using assms(2-4) by (simp add: patch_storage_def handle_def missing_is_404_def try_catch_def bnd_def when_json_def ret_def Let_def)
  with u cleared [OF assms(1,3), of "''id''"] show ?thesis
    by (simp add: no_storage_def not_found_def)
qed

text \<open>Every reading endpoint (jobs, logs, schedules, storage locations, notification configurations,
  statistics and the health check) leaves every table of the database as it was, whatever the query
  string says and whatever fails.\<close>

lemma reading_handlers_keep_rows:
  assumes "prisma_ok P rows"
  shows "rows (snd (health P H rq s)) = rows s \<and> rows (snd (get_job P H rq s)) = rows s \<and>
    rows (snd (get_jobs P H rq s)) = rows s \<and> rows (snd (get_jobs_active P H rq s)) = rows s \<and>
    rows (snd (get_jobs_stats P H rq s)) = rows s \<and> rows (snd (get_job_logs P H rq s)) = rows s \<and>
    rows (snd (get_logs P H rq s)) = rows s \<and> rows (snd (get_schedules P rq s)) = rows s \<and>
    rows (snd (get_schedule P rq s)) = rows s \<and> rows (snd (get_storages P rq s)) = rows s \<and>
    rows (snd (get_default_storage P rq s)) = rows s \<and> rows (snd (get_storage P rq s)) = rows s \<and>
    rows (snd (get_configs P rq s)) = rows s \<and> rows (snd (get_config P rq s)) = rows s"
proof (intro conjI)
  note ok = assms
  show "rows (snd (health P H rq s)) = rows s"
  proof -
    have "wp (P BackupJob QueryRaw a) (\<lambda>_ t. rows t = rows s) (\<lambda>_ t. rows t = rows s) s" for a
      using prisma_keeps [OF ok, of BackupJob QueryRaw a s] by (auto simp: wp_def is_read_def split: prod.split sum.split)
    from this show ?thesis
      unfolding health_def by - (rule handle_reads, intro leaves_catch, simp add: wp_bnd respond_def wp_ret_fun leaves_def)
  qed
  show "rows (snd (get_job P H rq s)) = rows s"
    unfolding get_job_def Let_def by (rule handle_reads, intro reads(2) reads(1) [OF ok]) (auto simp: is_read_def)
  show "rows (snd (get_jobs P H rq s)) = rows s"
    unfolding get_jobs_def Let_def by (rule handle_reads, intro reads(2) reads(1) [OF ok]) (auto simp: is_read_def)
  show "rows (snd (get_jobs_active P H rq s)) = rows s"
    unfolding get_jobs_active_def Let_def by (rule handle_reads, intro reads(1) [OF ok]) (auto simp: is_read_def)
  show "rows (snd (get_jobs_stats P H rq s)) = rows s"
    unfolding get_jobs_stats_def Let_def by (rule handle_reads, intro reads(1) [OF ok]) (auto simp: is_read_def)
  show "rows (snd (get_job_logs P H rq s)) = rows s"
    unfolding get_job_logs_def by (rule handle_reads, intro reads(1) [OF ok]) (auto simp: is_read_def)
  show "rows (snd (get_logs P H rq s)) = rows s"
    unfolding get_logs_def Let_def by (rule handle_reads, intro reads(1) [OF ok]) (auto simp: is_read_def)
  show "rows (snd (get_schedules P rq s)) = rows s" "rows (snd (get_storages P rq s)) = rows s"
    unfolding get_schedules_def get_storages_def by (rule list_enabled_reads [OF ok])+
  show "rows (snd (get_schedule P rq s)) = rows s"
    unfolding get_schedule_def by (rule handle_reads, intro reads(1) [OF ok]) (auto simp: is_read_def)
  show "rows (snd (get_default_storage P rq s)) = rows s"
    unfolding get_default_storage_def by (rule handle_reads, intro reads(1) [OF ok]) (auto simp: is_read_def)
  show "rows (snd (get_storage P rq s)) = rows s"
    unfolding get_storage_def by (rule handle_reads, intro find_storage_reads [OF ok]) auto
  show "rows (snd (get_configs P rq s)) = rows s"
    unfolding get_configs_def by (rule handle_reads, intro reads(2) reads(1) [OF ok]) (auto simp: is_read_def)
  show "rows (snd (get_config P rq s)) = rows s"
    unfolding get_config_def by (rule handle_reads, intro reads(1) [OF ok]) (auto simp: is_read_def)
qed

text \<open>The creating endpoints validate before they touch the database: a body that lacks a required
  field (or carries an empty one) is answered with 400 and the database is exactly as before.\<close>

lemma validation_before_writes:
  assumes "\<not> truthy_j (jget (rq_body rq) k)"
  shows "(k \<in> {''dbType'', ''dbName'', ''backupType''} \<longrightarrow>
      rs_status (fst (post_job P H rq s)) = 400 \<and> snd (post_job P H rq s) = s) \<and>
    (k \<in> {''dbType'', ''dbName'', ''schedule'', ''backupType''} \<longrightarrow>
      rs_status (fst (post_schedule P rq s)) = 400 \<and> snd (post_schedule P rq s) = s) \<and>
    (k \<in> {''name'', ''type''} \<longrightarrow>
      rs_status (fst (post_storage P rq s)) = 400 \<and> snd (post_storage P rq s) = s) \<and>
    (k \<in> {''level'', ''message''} \<longrightarrow>
      rs_status (fst (post_log P H rq s)) = 400 \<and> snd (post_log P H rq s) = s) \<and>
    (k \<in> {''type'', ''status''} \<longrightarrow>
      rs_status (fst (post_notification P H rq s)) = 400 \<and> snd (post_notification P H rq s) = s)"
  using assms
  by (auto simp: post_job_def post_schedule_def post_storage_def post_log_def post_notification_def
      handle_def respond_def ret_def Let_def)

section \<open>An in-memory database\<close>

fun mem_prisma :: "(table \<Rightarrow> json list) prisma" where
  "mem_prisma t op a s = (let w = arg a ''where''; d = arg a ''data'';
     hit = list_ex (row_matches w) (s t) in
   case op of
     FindUnique \<Rightarrow> (Inr (case List.find (\<lambda>r. row_matches w r \<and> jget r ''id'' \<noteq> None) (s t) of None \<Rightarrow> JNull | Some r \<Rightarrow> r), s)
   | FindFirst \<Rightarrow> (Inr (case List.find (row_matches w) (s t) of None \<Rightarrow> JNull | Some r \<Rightarrow> r), s)
   | FindMany \<Rightarrow> (Inr (JArr (filter (row_matches w) (s t))), s)
   | Count \<Rightarrow> (Inr (JNum (int (length (filter (row_matches w) (s t))))), s)
   | QueryRaw \<Rightarrow> (Inr JNull, s)
   | Create \<Rightarrow> (Inr d, s(t := s t @ [d]))
   | UpdateMany \<Rightarrow> (Inr JNull, s(t := update_rows w d (s t)))
   | Update \<Rightarrow> if hit then (Inr JNull, s(t := update_rows w d (s t)))
       else (Inl (JsError ''P2025'' ''No record was found''), s)
   | Delete \<Rightarrow> if hit then (Inr JNull, s(t := filter (\<lambda>r. \<not> row_matches w r) (s t)))
       else (Inl (JsError ''P2025'' ''No record was found''), s)
   | Upsert \<Rightarrow> if hit then (Inr JNull, s(t := update_rows w (arg a ''update'') (s t)))
       else if distinct (map fst (jfields (arg a ''create'')))
         then (Inr JNull, s(t := s t @ [JObj (jfields (arg a ''create''))]))
         else (Inl (new_Error ''duplicate field''), s))"

lemma row_matches_self: "distinct (map fst (jfields c)) \<Longrightarrow> row_matches c (JObj (jfields c))"
  by (auto simp: row_matches_def list_all_iff map_of_is_SomeI)

lemma mem_prisma_ok: "prisma_ok mem_prisma id"
  unfolding prisma_ok_def
proof (intro conjI allI impI)
  fix t op a s r s'
  assume "mem_prisma t op a s = (r, s')" "is_read op \<or> isl r"
  then show "id s' = id s" by (cases op) (auto simp: Let_def is_read_def split: if_splits)
next
  fix t a s v s'
  assume "mem_prisma t FindUnique a s = (Inr v, s')" "truthy_j (Some v)"
  then show "jget v ''id'' \<noteq> None" by (auto simp: Let_def dest!: find_SomeD split: option.splits)
next
  fix t a s v s'
  assume "mem_prisma t Upsert a s = (Inr v, s')"
  then show "if list_ex (row_matches (arg a ''where'')) (id s t)
    then id s' t = update_rows (arg a ''where'') (arg a ''update'') (id s t)
    else \<exists>r. id s' t = id s t @ [r] \<and> row_matches (arg a ''create'') r"
    by (auto simp: Let_def row_matches_self split: if_splits)
qed (auto simp: Let_def split: if_splits)

definition two_storages :: "table \<Rightarrow> json list" where
  "two_storages t = (if t = StorageLocation then
     [JObj [(''id'', JStr ''1''), (''name'', JStr ''nas''), (''default'', JBool True)],
      JObj [(''id'', JStr ''2''), (''name'', JStr ''s3''), (''default'', JBool False)]] else [])"

definition default_rq :: api_request where
  "default_rq = \<lparr>rq_param = ''9'', rq_query = JObj [], rq_body = JObj [(''default'', JBool True)]\<rparr>"

theorem default_storage_unique_witness:
  "one_default (snd (post_storage mem_prisma default_rq two_storages) StorageLocation) \<and>
   one_default (snd (patch_storage mem_prisma default_rq two_storages) StorageLocation) \<and>
   one_default (snd (set_default_storage mem_prisma default_rq two_storages) StorageLocation) \<and>
   one_default (snd (delete_storage mem_prisma default_rq two_storages) StorageLocation)"
  using default_storage_unique [OF mem_prisma_ok, of two_storages default_rq]
  by (simp add: two_storages_def one_default_def keyed_by_def is_default_def)

lemma patch_unknown_clears_defaults_witness:
  "rs_status (fst (patch_storage mem_prisma default_rq two_storages)) = 404 \<and>
   filter is_default (snd (patch_storage mem_prisma default_rq two_storages) StorageLocation) = []"
  using patch_unknown_clears_defaults [OF mem_prisma_ok, of default_rq two_storages JNull
      "snd (clear_defaults mem_prisma two_storages)" "\<lambda>_. ''No record was found''" "\<lambda>_. snd (clear_defaults mem_prisma two_storages)"]
  by (simp add: two_storages_def default_rq_def clear_defaults_def arg_def update_rows_def where_id_def Let_def jget_jspread)

lemma reading_handlers_keep_rows_witness:
  "snd (get_storage mem_prisma default_rq two_storages) = two_storages"
  using reading_handlers_keep_rows [OF mem_prisma_ok, of undefined default_rq two_storages] by simp

lemma validation_before_writes_witness:
  "rs_status (fst (post_storage mem_prisma default_rq two_storages)) = 400 \<and>
   snd (post_storage mem_prisma default_rq two_storages) = two_storages"
  using validation_before_writes [of default_rq "''name''" mem_prisma _ two_storages] by (simp add: default_rq_def)

end
