(* ===== verification/RedisLock.thy ===== *)
theory RedisLock
  imports Prelude
begin

text \<open>
  \<open>lib/distributed-lock.ts\<close>: a lock in Redis with a time to live, a random value per acquisition
  and a refresh timer.

  The Redis commands are a parameter (\<open>redis\<close>, a record of programs over a server state); the
  two Lua scripts are source text and are translated on top of them. \<open>redis_ok\<close> states the
  documented behaviour of the commands with respect to a view of the server that gives the live
  value of each key. A call that fails may or may not have reached the server.
\<close>

section \<open>Redis\<close>

record 's redis =
  rd_set_nx :: "string \<Rightarrow> string \<Rightarrow> int \<Rightarrow> ('s, string option) prog"
  rd_get :: "string \<Rightarrow> ('s, string option) prog"
  rd_del :: "string \<Rightarrow> ('s, int) prog"
  rd_expire :: "string \<Rightarrow> int \<Rightarrow> ('s, int) prog"
  rd_ttl :: "string \<Rightarrow> ('s, int) prog"

text \<open>\<open>del_script\<close> and \<open>expire_script\<close>: the text passed to \<open>redis.eval\<close>.\<close>

definition del_script :: "'s redis \<Rightarrow> string \<Rightarrow> string \<Rightarrow> ('s, int) prog" where
  "del_script R k v = bnd (rd_get R k) (\<lambda>g. if g = Some v then rd_del R k else ret 0)"

definition expire_script :: "'s redis \<Rightarrow> string \<Rightarrow> string \<Rightarrow> int \<Rightarrow> ('s, int) prog" where
  "expire_script R k v n = bnd (rd_get R k) (\<lambda>g. if g = Some v then rd_expire R k n else ret 0)"

section \<open>The lock\<close>

record dlock =
  dl_key :: string
  dl_ttl :: int
  lockValue :: "string option"
  isLocked :: bool
  refreshInterval :: "int option"

type_synonym 's dl = "dlock \<times> 's"

definition default_ttl :: int where
  "default_ttl = 3600"

definition new_dlock :: "bool \<Rightarrow> string \<Rightarrow> int option \<Rightarrow> js_error + dlock" where
  "new_dlock has_set k t = (if \<not> has_set then Inl (new_Error ''Invalid Redis connection'')
     else Inr \<lparr>dl_key = k, dl_ttl = or_n t default_ttl, lockValue = None, isLocked = False, refreshInterval = None\<rparr>)"

definition on_lock :: "(dlock \<Rightarrow> dlock) \<Rightarrow> ('s dl, unit) prog" where
  "on_lock f = modify_st (\<lambda>(l, s). (f l, s))"

definition on_redis :: "('s, 'a) prog \<Rightarrow> ('s dl, 'a) prog" where
  "on_redis m = (\<lambda>(l, s). case m s of (r, s') \<Rightarrow> (r, (l, s')))"

definition lock_field :: "(dlock \<Rightarrow> 'a) \<Rightarrow> ('s dl, 'a) prog" where
  "lock_field f = gets (\<lambda>(l, _). f l)"

definition forget :: "dlock \<Rightarrow> dlock" where
  "forget l = l\<lparr>isLocked := False, lockValue := None\<rparr>"

definition refresh_ms :: "dlock \<Rightarrow> int" where
  "refresh_ms l = dl_ttl l * 1000 div 2"

definition startRefreshInterval :: "dlock \<Rightarrow> dlock" where
  "startRefreshInterval l = (if refreshInterval l \<noteq> None then l else l\<lparr>refreshInterval := Some (refresh_ms l)\<rparr>)"

definition stopRefreshInterval :: "dlock \<Rightarrow> dlock" where
  "stopRefreshInterval l = l\<lparr>refreshInterval := None\<rparr>"

definition isHeld :: "dlock \<Rightarrow> bool" where
  "isHeld l \<longleftrightarrow> isLocked l \<and> lockValue l \<noteq> None"

definition dl_acquire :: "'s redis \<Rightarrow> string \<Rightarrow> ('s dl, bool) prog" where
  "dl_acquire R uuid = try_catch
     (seqp (on_lock (\<lambda>l. l\<lparr>lockValue := Some uuid\<rparr>))
     (bnd (lock_field dl_key) (\<lambda>k.
      bnd (lock_field dl_ttl) (\<lambda>t.
      bnd (on_redis (rd_set_nx R k uuid t)) (\<lambda>result.
        if result = Some ''OK''
        then seqp (on_lock (\<lambda>l. startRefreshInterval (l\<lparr>isLocked := True\<rparr>))) (ret True)
        else seqp (on_lock forget) (ret False))))))
     (\<lambda>e. seqp (on_lock forget) (throw (new_Error (''Failed to acquire lock: '' @ err_message e))))"

text \<open>\<open>!this.isLocked || !this.lockValue\<close>: the guard of \<open>release\<close> and \<open>refresh\<close>.\<close>

definition not_mine :: "dlock \<Rightarrow> bool" where
  "not_mine l \<longleftrightarrow> \<not> isLocked l \<or> \<not> truthy_s (lockValue l)"

definition dl_release :: "'s redis \<Rightarrow> ('s dl, bool) prog" where
  "dl_release R =
     seqp (on_lock stopRefreshInterval)
    (bnd (lock_field id) (\<lambda>l.
       if not_mine l then ret False
       else try_catch
         (bnd (on_redis (del_script R (dl_key l) (the (lockValue l)))) (\<lambda>result.
            seqp (on_lock forget) (ret (result = 1))))
         (\<lambda>e. seqp (on_lock forget) (ret False))))"

definition dl_refresh :: "'s redis \<Rightarrow> ('s dl, bool) prog" where
  "dl_refresh R = bnd (lock_field id) (\<lambda>l.
     if not_mine l then ret False
     else try_catch
       (bnd (on_redis (expire_script R (dl_key l) (the (lockValue l)) (dl_ttl l))) (\<lambda>result. ret (result = 1)))
       (\<lambda>e. ret False))"

text \<open>The callback of the refresh timer.\<close>

definition dl_tick :: "'s redis \<Rightarrow> ('s dl, unit) prog" where
  "dl_tick R = bnd (lock_field isLocked) (\<lambda>b.
     if \<not> b then on_lock stopRefreshInterval
     else bnd (dl_refresh R) (\<lambda>refreshed.
       if \<not> refreshed then on_lock (\<lambda>l. stopRefreshInterval (forget l)) else ret ()))"

definition getTTL :: "'s redis \<Rightarrow> ('s dl, int) prog" where
  "getTTL R = bnd (lock_field dl_key) (\<lambda>k. try_catch (on_redis (rd_ttl R k)) (\<lambda>e. ret (-1)))"

definition getLockValue :: "dlock \<Rightarrow> string option" where
  "getLockValue l = lockValue l"

section \<open>What Redis promises\<close>

text \<open>\<open>live s k\<close>: the value of a key that has not expired.\<close>

definition redis_ok :: "'s redis \<Rightarrow> ('s \<Rightarrow> string \<Rightarrow> string option) \<Rightarrow> bool" where
  "redis_ok R live \<longleftrightarrow>
     (\<forall>k v t s r s'. rd_set_nx R k v t s = (r, s') \<longrightarrow>
        (r = Inr (Some ''OK'') \<longrightarrow> live s k = None \<and> live s' = (live s)(k := Some v)) \<and>
        (\<forall>x. r = Inr x \<longrightarrow> x \<noteq> Some ''OK'' \<longrightarrow> live s k \<noteq> None \<and> live s' = live s) \<and>
        (isl r \<longrightarrow> live s' = live s \<or> live s k = None \<and> live s' = (live s)(k := Some v))) \<and>
     (\<forall>k s r s'. rd_get R k s = (r, s') \<longrightarrow> live s' = live s \<and> (\<forall>x. r = Inr x \<longrightarrow> x = live s k)) \<and>
     (\<forall>k s r s'. rd_del R k s = (r, s') \<longrightarrow>
        (\<forall>n. r = Inr n \<longrightarrow> n = (if live s k = None then 0 else 1) \<and> live s' = (live s)(k := None)) \<and>
        (isl r \<longrightarrow> live s' = live s \<or> live s' = (live s)(k := None))) \<and>
     (\<forall>k t s r s'. rd_expire R k t s = (r, s') \<longrightarrow> live s' = live s \<and>
        (\<forall>n. r = Inr n \<longrightarrow> n = (if live s k = None then 0 else 1)))"

lemma redis_set: "redis_ok R live \<Longrightarrow> rd_set_nx R k v t s = (r, s') \<Longrightarrow>
    (r = Inr (Some ''OK'') \<and> live s k = None \<and> live s' = (live s)(k := Some v)) \<or>
    (r \<noteq> Inr (Some ''OK'') \<and> (live s' = live s \<or> live s k = None \<and> live s' = (live s)(k := Some v)))"
  unfolding redis_ok_def by (elim conjE, cases r) (metis sum.disc(1), metis sum.inject(2))

lemma redis_del_script:
  assumes "redis_ok R live" and "del_script R k v s = (r, s')"
  shows "(live s k \<noteq> Some v \<longrightarrow> live s' = live s \<and> r \<noteq> Inr 1) \<and>
    (live s k = Some v \<longrightarrow> live s' = live s \<or> live s' = (live s)(k := None)) \<and>
    (live s k = Some v \<longrightarrow> \<not> isl r \<longrightarrow> r = Inr 1 \<and> live s' = (live s)(k := None))"
proof (cases "rd_get R k s")
  case (Pair g t)
  with assms(1) have g: "live t = live s" "\<And>x. g = Inr x \<Longrightarrow> x = live s k"
    unfolding redis_ok_def by (elim conjE, metis)+
  have d: "rd_del R k t = (r, s') \<Longrightarrow> live s' = live t \<or> live s' = (live t)(k := None)"
    and d1: "rd_del R k t = (Inr n, s') \<Longrightarrow> live t k \<noteq> None \<Longrightarrow> n = 1 \<and> live s' = (live t)(k := None)" for n
    using assms(1) unfolding redis_ok_def by (elim conjE, cases r, metis sum.disc(1), metis, elim conjE, metis)
  show ?thesis
  proof (cases g)
    case (Inl e)
    with Pair g(1) assms(2) show ?thesis by (auto simp: del_script_def bnd_def)
  next
    case (Inr x)
    with Pair g assms(2) d d1 show ?thesis
      by (cases r) (auto simp: del_script_def bnd_def ret_def split: if_splits)
  qed
qed


lemma redis_expire_script:
  assumes "redis_ok R live" and "expire_script R k v n s = (r, s')"
  shows "live s' = live s \<and> (live s k \<noteq> Some v \<longrightarrow> r \<noteq> Inr 1) \<and> (live s k = Some v \<longrightarrow> \<not> isl r \<longrightarrow> r = Inr 1)"
proof (cases "rd_get R k s")
  case (Pair g t)
  with assms(1) have g: "live t = live s" "\<And>x. g = Inr x \<Longrightarrow> x = live s k"
    unfolding redis_ok_def by (elim conjE, metis)+
  have d: "rd_expire R k n t = (r, s') \<Longrightarrow> live s' = live t"
    and d1: "rd_expire R k n t = (Inr m, s') \<Longrightarrow> live t k \<noteq> None \<Longrightarrow> m = 1" for m
    using assms(1) unfolding redis_ok_def by (elim conjE, metis)+
  show ?thesis
  proof (cases g)
    case (Inl e)
    with Pair g(1) assms(2) show ?thesis by (auto simp: expire_script_def bnd_def)
  next
    case (Inr x)
    with Pair g assms(2) d d1 show ?thesis
      by (cases r) (auto simp: expire_script_def bnd_def ret_def split: if_splits)
  qed
qed

section \<open>The operations, branch by branch\<close>

lemmas dl_defs = on_lock_def on_redis_def lock_field_def bnd_def try_catch_def ret_def throw_def
  modify_st_def gets_def forget_def

lemma forget_not_held [simp]: "\<not> isHeld (forget l)" "dl_key (forget l) = dl_key l"
  by (simp_all add: isHeld_def forget_def)

lemma timer_keeps [simp]:
  "isHeld (startRefreshInterval l) = isHeld l" "isHeld (stopRefreshInterval l) = isHeld l"
  "dl_key (startRefreshInterval l) = dl_key l" "dl_key (stopRefreshInterval l) = dl_key l"
  "lockValue (startRefreshInterval l) = lockValue l" "lockValue (stopRefreshInterval l) = lockValue l"
  by (simp_all add: startRefreshInterval_def stopRefreshInterval_def isHeld_def)

lemma dl_acquire_cases:
  assumes "dl_acquire R u (l, s) = (r, (l', s'))"
  shows "(\<exists>x. rd_set_nx R (dl_key l) u (dl_ttl l) s = (x, s') \<and>
    (if x = Inr (Some ''OK'') then r = Inr True \<and> l' = startRefreshInterval (l\<lparr>lockValue := Some u, isLocked := True\<rparr>)
     else l' = forget (l\<lparr>lockValue := Some u\<rparr>) \<and>
       r = (case x of Inl e \<Rightarrow> Inl (new_Error (''Failed to acquire lock: '' @ err_message e)) | Inr _ \<Rightarrow> Inr False)))"
  using assms by (auto simp: dl_acquire_def dl_defs split: prod.splits sum.splits if_splits)

lemma dl_release_cases:
  assumes "dl_release R (l, s) = (r, (l', s'))"
  shows "if not_mine l then r = Inr False \<and> l' = stopRefreshInterval l \<and> s' = s
    else l' = forget (stopRefreshInterval l) \<and>
      (\<exists>x. del_script R (dl_key l) (the (lockValue l)) s = (x, s') \<and> r = Inr (x = Inr 1))"
  using assms by (auto simp: dl_release_def stopRefreshInterval_def not_mine_def dl_defs split: prod.splits sum.splits if_splits)

lemma dl_refresh_cases:
  assumes "dl_refresh R (l, s) = (r, (l', s'))"
  shows "l' = l \<and> (if not_mine l then r = Inr False \<and> s' = s
    else (\<exists>x. expire_script R (dl_key l) (the (lockValue l)) (dl_ttl l) s = (x, s') \<and> r = Inr (x = Inr 1)))"
  using assms by (auto simp: dl_refresh_def not_mine_def dl_defs split: prod.splits sum.splits if_splits)

lemma dl_tick_cases:
  assumes "dl_tick R (l, s) = (r, (l', s'))"
  shows "r = Inr () \<and> (if \<not> isLocked l then l' = stopRefreshInterval l \<and> s' = s
    else (\<exists>b. dl_refresh R (l, s) = (Inr b, (l, s')) \<and> l' = (if b then l else stopRefreshInterval (forget l))))"
proof (cases "isLocked l")
  case True
  obtain b l2 t where ref: "dl_refresh R (l, s) = (b, (l2, t))" by (cases "dl_refresh R (l, s)") auto
  have "l2 = l" using dl_refresh_cases [OF ref] by (rule conjunct1)
  moreover obtain c where "b = Inr c" using dl_refresh_cases [OF ref] by (cases "not_mine l") auto
  ultimately have run: "dl_refresh R (l, s) = (Inr c, (l, t))" using ref by simp
  with True assms show ?thesis
    unfolding dl_tick_def by (cases c) (simp_all add: dl_defs, blast+)
qed (use assms in \<open>auto simp: dl_tick_def dl_defs\<close>)

section \<open>A lease\<close>

text \<open>
  What the users of the lock rely on: \<open>acquire\<close> tells truthfully whether the lock is now owned;
  \<open>release\<close> never throws and leaves nothing owned. \<open>guarded\<close> is the shape in which the lock is
  used: \<open>try { if (!await acquire()) return; body } catch { log } finally { if (acquired) release }\<close>.
\<close>

definition guarded :: "('x, bool) prog \<Rightarrow> ('x, bool) prog \<Rightarrow> ('x, unit) prog \<Rightarrow> ('x, unit) prog" where
  "guarded acq rel body = bnd (try_catch acq (\<lambda>_. ret False)) (\<lambda>ok.
     if ok then try_finally (try_catch body (\<lambda>_. ret ())) (try_catch (seqp rel (ret ())) (\<lambda>_. ret ()))
     else ret ())"

definition owned :: "'s dl \<Rightarrow> bool" where
  "owned = (\<lambda>(l, _). \<not> not_mine l)"

locale lease =
  fixes held :: "'x \<Rightarrow> bool"
    and acq :: "('x, bool) prog"
    and rel :: "('x, bool) prog"
  assumes acq_held: "acq s = (r, s') \<Longrightarrow> held s' \<longleftrightarrow> r = Inr True"
    and rel_free: "rel s = (r, s') \<Longrightarrow> (\<exists>b. r = Inr b) \<and> \<not> held s'"
begin

lemma guarded_free: "guarded acq rel body s = (r, s') \<Longrightarrow> r = Inr () \<and> \<not> held s'"
proof -
  assume run: "guarded acq rel body s = (r, s')"
  obtain a t where acq: "acq s = (a, t)" by (cases "acq s") auto
  show "r = Inr () \<and> \<not> held s'"
  proof (cases "a = Inr True")
    case True
    obtain b u where body: "try_catch body (\<lambda>_. ret ()) t = (b, u)" by (cases "try_catch body (\<lambda>_. ret ()) t") auto
    moreover have "\<exists>x. b = Inr x" using body by (auto simp: try_catch_def ret_def split: prod.splits sum.splits)
    moreover obtain c w where rel: "rel u = (Inr c, w)" "\<not> held w"
      using rel_free [of u] by (cases "rel u") auto
    moreover from rel(1) have "try_catch (seqp rel (ret ())) (\<lambda>_. ret ()) u = (Inr (), w)"
      by (simp add: try_catch_def bnd_def ret_def)
    moreover have "try_catch acq (\<lambda>_. ret False) s = (Inr True, t)"
      using acq True by (simp add: try_catch_def)
    ultimately show ?thesis
      using run by (auto simp: guarded_def bnd_def try_finally_def)
  next
    case False
    with acq_held [OF acq] have "\<not> held t" by simp
    with run acq False show ?thesis
      by (cases a) (auto simp: guarded_def try_catch_def bnd_def ret_def)
  qed
qed

lemma guarded_only_held:
  assumes "\<And>s. held s \<Longrightarrow> body s = body' s"
  shows "guarded acq rel body s = guarded acq rel body' s"
proof (cases "acq s")
  case (Pair a t)
  show ?thesis
  proof (cases "a = Inr True")
    case True
    with acq_held [OF Pair] assms have "body t = body' t" by simp
    with Pair True show ?thesis by (simp add: guarded_def try_catch_def bnd_def try_finally_def)
  next
    case False
    with Pair show ?thesis by (cases a) (auto simp: guarded_def try_catch_def bnd_def ret_def)
  qed
qed

end

lemma acquire_owned: "dl_acquire R (c # cs) (l, s) = (r, (l', s')) \<Longrightarrow> \<not> not_mine l' \<longleftrightarrow> r = Inr True"
  by (drule dl_acquire_cases)
    (auto simp: not_mine_def startRefreshInterval_def forget_def split: if_splits sum.splits)

lemma release_owned:
  assumes "dl_release R (l, s) = (r, (l', s'))"
  shows "(\<exists>b. r = Inr b) \<and> not_mine l'"
  using dl_release_cases [OF assms]
  by (cases "not_mine l") (auto simp: not_mine_def forget_def stopRefreshInterval_def)

interpretation redis_lease: lease "\<lambda>(d, _). owned d" "on_fst (dl_acquire R (c # cs))" "on_fst (dl_release R)" for R c cs
proof
  fix s r s'
  assume "on_fst (dl_acquire R (c # cs)) s = (r, s')"
  then show "(case s' of (d, _) \<Rightarrow> owned d) \<longleftrightarrow> r = Inr True"
    by (cases s; cases s'; cases "fst s") (auto simp: on_fst_def owned_def dest!: acquire_owned split: prod.splits)
next
  fix s r s'
  assume "on_fst (dl_release R) s = (r, s')"
  then show "(\<exists>b. r = Inr b) \<and> \<not> (case s' of (d, _) \<Rightarrow> owned d)"
    by (cases s; cases s'; cases "fst s") (auto simp: on_fst_def owned_def dest!: release_owned split: prod.splits)
qed

section \<open>Many instances, one server\<close>

text \<open>
  Any number of instances (in any number of processes) share the server. Each step is one call of one
  instance with any reply the server may give, or the tick of a refresh timer. The server dropping a key
  whose time to live has run out is not a step.
\<close>

type_synonym ('i, 's) dsys = "('i \<Rightarrow> dlock) \<times> 's"

inductive dl_step :: "'s redis \<Rightarrow> ('i, 's) dsys \<Rightarrow> ('i, 's) dsys \<Rightarrow> bool" for R where
  acquires: "dl_acquire R (c # cs) (ls i, s) = (r, (l, s')) \<Longrightarrow> dl_step R (ls, s) (ls(i := l), s')"
| releases: "dl_release R (ls i, s) = (r, (l, s')) \<Longrightarrow> dl_step R (ls, s) (ls(i := l), s')"
| ticks: "dl_tick R (ls i, s) = (r, (l, s')) \<Longrightarrow> dl_step R (ls, s) (ls(i := l), s')"

definition exclusive :: "('s \<Rightarrow> string \<Rightarrow> string option) \<Rightarrow> ('i, 's) dsys \<Rightarrow> bool" where
  "exclusive live c \<longleftrightarrow> (\<forall>i. isHeld (fst c i) \<longrightarrow>
     live (snd c) (dl_key (fst c i)) = lockValue (fst c i) \<and>
     (\<forall>j. isHeld (fst c j) \<and> dl_key (fst c j) = dl_key (fst c i) \<longrightarrow> j = i))"

lemma exclusiveI:
  assumes ex: "exclusive live (ls, s)" and key: "dl_key l = dl_key (ls i)"
    and others: "\<And>k. k \<noteq> dl_key l \<Longrightarrow> live s' k = live s k"
    and me: "isHeld l \<Longrightarrow> live s' (dl_key l) = lockValue l \<and> (isHeld (ls i) \<or> live s (dl_key l) = None)"
    and them: "\<not> isHeld l \<Longrightarrow> live s' (dl_key l) = live s (dl_key l) \<or> live s (dl_key l) = None \<or> isHeld (ls i)"
  shows "exclusive live (ls(i := l), s')"
proof -
  have eq: "j = i" if "isHeld (ls j)" "isHeld (ls i)" "dl_key (ls j) = dl_key l" for j
    using ex that key by (simp add: exclusive_def)
  have some: "live s (dl_key (ls j)) = lockValue (ls j)" "lockValue (ls j) \<noteq> None" if "isHeld (ls j)" for j
    using ex that by (simp_all add: exclusive_def isHeld_def)
  have free: "j = i" if "isHeld l" "isHeld (ls j)" "dl_key (ls j) = dl_key l" for j
    using me [OF that(1)] eq [OF that(2)] some [OF that(2)] that by metis
  have keep: "live s' (dl_key (ls j)) = lockValue (ls j)" if "isHeld (ls j)" "j \<noteq> i" for j
  proof (cases "dl_key (ls j) = dl_key l")
    case True
    then have "\<not> isHeld l" using free that by blast
    with them True that eq some [OF that(1)] show ?thesis by metis
  qed (use others some [OF that(1)] in simp)
  show ?thesis
    unfolding exclusive_def
  proof (intro allI impI conjI)
    fix a b
    assume a: "isHeld (fst (ls(i := l), s') a)"
    show "live (snd (ls(i := l), s')) (dl_key (fst (ls(i := l), s') a)) = lockValue (fst (ls(i := l), s') a)"
      using a me keep by (cases "a = i") simp_all
    assume "isHeld (fst (ls(i := l), s') b) \<and> dl_key (fst (ls(i := l), s') b) = dl_key (fst (ls(i := l), s') a)"
    then have b: "isHeld ((ls(i := l)) b)" "dl_key ((ls(i := l)) b) = dl_key ((ls(i := l)) a)" by simp_all
    have both: "isHeld (ls a) \<Longrightarrow> isHeld (ls b) \<Longrightarrow> dl_key (ls b) = dl_key (ls a) \<Longrightarrow> b = a"
      using ex by (simp add: exclusive_def)
    show "b = a"
    proof (cases "a = i")
      case True
      have "isHeld l" "b \<noteq> i \<longrightarrow> isHeld (ls b) \<and> dl_key (ls b) = dl_key l" using a b True by (simp_all split: if_splits)
      with free True show ?thesis by blast
    next
      case False
      then have a': "isHeld (ls a)" using a by simp
      have "b \<noteq> i" using b a' False free [of a] by auto
      with b False have "isHeld (ls b)" "dl_key (ls b) = dl_key (ls a)" by simp_all
      with a' both show ?thesis by blast
    qed
  qed
qed

lemma refresh_live:
  assumes "redis_ok R live" and "dl_refresh R (l, s) = (r, (l', s'))"
  shows "live s' = live s"
  using dl_refresh_cases [OF assms(2)] redis_expire_script [OF assms(1)]
  by (cases "not_mine l") (simp, metis)

lemma tick_live:
  assumes "redis_ok R live" and "dl_tick R (l, s) = (r, (l', s'))"
  shows "live s' = live s \<and> dl_key l' = dl_key l \<and> (isHeld l' \<longrightarrow> isHeld l \<and> lockValue l' = lockValue l)"
proof (cases "isLocked l")
  case True
  with dl_tick_cases [OF assms(2)] obtain b where "dl_refresh R (l, s) = (Inr b, (l, s'))"
    "l' = (if b then l else stopRefreshInterval (forget l))" by auto
  with refresh_live [OF assms(1)] show ?thesis by auto
next
  case False
  with dl_tick_cases [OF assms(2)] show ?thesis by (auto simp: isHeld_def stopRefreshInterval_def)
qed

lemma dl_step_exclusive:
  assumes ok: "redis_ok R live" and step: "dl_step R c d" and ex: "exclusive live c"
  shows "exclusive live d"
  using step
proof cases
  case (acquires ch cs ls i s r l s')
  from dl_acquire_cases [OF acquires(3)] obtain x where
    set: "rd_set_nx R (dl_key (ls i)) (ch # cs) (dl_ttl (ls i)) s = (x, s')" and
    l: "if x = Inr (Some ''OK'') then l = startRefreshInterval ((ls i)\<lparr>lockValue := Some (ch # cs), isLocked := True\<rparr>)
      else l = forget ((ls i)\<lparr>lockValue := Some (ch # cs)\<rparr>)" by (auto split: if_splits)
  have key: "dl_key l = dl_key (ls i)" using l by (auto split: if_splits)
  show ?thesis
  proof (cases "x = Inr (Some ''OK'')")
    case True
    then have "isHeld l" "lockValue l = Some (ch # cs)" using l by (auto simp: isHeld_def startRefreshInterval_def)
    with True redis_set [OF ok set] key show ?thesis
      unfolding acquires(1,2) by (intro exclusiveI [OF ex [unfolded acquires(1)]]) auto
  next
    case False
    then have "\<not> isHeld l" using l by simp
    with False redis_set [OF ok set] key show ?thesis
      unfolding acquires(1,2) by (intro exclusiveI [OF ex [unfolded acquires(1)]]) auto
  qed
next
  case (releases ls i s r l s')
  show ?thesis
  proof (cases "not_mine (ls i)")
    case True
    with dl_release_cases [OF releases(3)] ex [unfolded releases(1)] show ?thesis
      unfolding releases(1,2) by (intro exclusiveI [OF ex [unfolded releases(1)]]) (auto simp: exclusive_def)
  next
    case False
    with dl_release_cases [OF releases(3)] obtain x where l: "l = forget (stopRefreshInterval (ls i))"
      and del: "del_script R (dl_key (ls i)) (the (lockValue (ls i))) s = (x, s')" by auto
    have "isHeld (ls i)" using False by (cases "lockValue (ls i)") (auto simp: not_mine_def isHeld_def)
    moreover have "live s' k = live s k" if "k \<noteq> dl_key (ls i)" for k
      using redis_del_script [OF ok del] that by (metis fun_upd_apply)
    moreover have "\<not> isHeld l" "dl_key l = dl_key (ls i)" using l by simp_all
    ultimately show ?thesis
      unfolding releases(1,2) by (intro exclusiveI [OF ex [unfolded releases(1)]]) simp_all
  qed
next
  case (ticks ls i s r l s')
  with tick_live [OF ok ticks(3)] ex [unfolded ticks(1)] show ?thesis
    unfolding ticks(1,2) by (intro exclusiveI [OF ex [unfolded ticks(1)]]) (auto simp: exclusive_def)
qed

section \<open>Properties\<close>


text \<open>An instance whose key has expired and has been taken by somebody else never touches the lock of
  the new owner: release deletes nothing, answers false and leaves the instance without the lock; the
  next timer tick notices the loss, drops the value and stops the timer.\<close>

lemma lost_lock_untouched:
  assumes ok: "redis_ok R live" and mine: "isLocked l" "lockValue l = Some (c # cs)" "live s (dl_key l) \<noteq> Some (c # cs)"
  shows "(\<exists>l' s'. dl_release R (l, s) = (Inr False, (l', s')) \<and> \<not> isHeld l' \<and> live s' = live s) \<and>
    (\<exists>l' s'. dl_tick R (l, s) = (Inr (), (l', s')) \<and> \<not> isHeld l' \<and> refreshInterval l' = None \<and> live s' = live s)"
proof (intro conjI)
  have guard: "\<not> not_mine l" using mine by (simp add: not_mine_def)
  obtain r l' s' where run: "dl_release R (l, s) = (r, (l', s'))" by (cases "dl_release R (l, s)") auto
  with guard dl_release_cases [OF run] mine obtain x where
    del: "del_script R (dl_key l) (c # cs) s = (x, s')" and r: "r = Inr (x = Inr 1)" "l' = forget (stopRefreshInterval l)" by auto
  with redis_del_script [OF ok del] mine run show "\<exists>l' s'. dl_release R (l, s) = (Inr False, (l', s')) \<and> \<not> isHeld l' \<and> live s' = live s"
    by (intro exI [of _ l'] exI [of _ s']) simp
next
  have guard: "\<not> not_mine l" using mine by (simp add: not_mine_def)
  obtain r l' s' where run: "dl_tick R (l, s) = (r, (l', s'))" by (cases "dl_tick R (l, s)") auto
  with mine(1) dl_tick_cases [OF run] obtain b where ref: "dl_refresh R (l, s) = (Inr b, (l, s'))"
    and r: "r = Inr ()" "l' = (if b then l else stopRefreshInterval (forget l))" by auto
  from dl_refresh_cases [OF ref] guard mine obtain x where
    "expire_script R (dl_key l) (c # cs) (dl_ttl l) s = (x, s')" "b = (x = Inr 1)" by auto
  with redis_expire_script [OF ok] mine(3) have "\<not> b" "live s' = live s" by metis+
  with r run show "\<exists>l' s'. dl_tick R (l, s) = (Inr (), (l', s')) \<and> \<not> isHeld l' \<and> refreshInterval l' = None \<and> live s' = live s"
    by (intro exI [of _ l'] exI [of _ s']) (simp add: stopRefreshInterval_def isHeld_def forget_def)
qed

text \<open>Acquiring a lock that the same instance already holds does not report it as held: the call answers
  false (or throws) and forgets the value, so the key stays locked on the server, the instance no longer
  holds it and its release does nothing; only the time to live frees the key.\<close>

lemma reacquire_orphans_lock:
  assumes ok: "redis_ok R live" and mine: "isLocked l" "lockValue l = Some v" "live s (dl_key l) = Some v"
  shows "\<exists>r l' s'. dl_acquire R u (l, s) = (r, (l', s')) \<and> r \<noteq> Inr True \<and> \<not> isHeld l' \<and> live s' = live s \<and>
    (\<exists>l''. dl_release R (l', s') = (Inr False, (l'', s')))"
proof -
  obtain r l' s' where run: "dl_acquire R u (l, s) = (r, (l', s'))" by (cases "dl_acquire R u (l, s)") auto
  from dl_acquire_cases [OF run] obtain x where set: "rd_set_nx R (dl_key l) u (dl_ttl l) s = (x, s')"
    and r: "if x = Inr (Some ''OK'') then r = Inr True \<and> l' = startRefreshInterval (l\<lparr>lockValue := Some u, isLocked := True\<rparr>)
     else l' = forget (l\<lparr>lockValue := Some u\<rparr>) \<and>
       r = (case x of Inl e \<Rightarrow> Inl (new_Error (''Failed to acquire lock: '' @ err_message e)) | Inr _ \<Rightarrow> Inr False)" by blast
  from redis_set [OF ok set] mine(3) have x: "x \<noteq> Inr (Some ''OK'')" "live s' = live s" by auto
  then have l': "l' = forget (l\<lparr>lockValue := Some u\<rparr>)" "r \<noteq> Inr True" using r by (auto split: sum.splits)
  have "dl_release R (l', s') = (Inr False, (stopRefreshInterval l', s'))"
    unfolding l'(1) by (simp add: dl_release_def dl_defs not_mine_def stopRefreshInterval_def)
  with run x l' show ?thesis by auto
qed

section \<open>A server in memory\<close>

definition mem_redis :: "(string \<Rightarrow> string option) redis" where
  "mem_redis = \<lparr>
     rd_set_nx = (\<lambda>k v t s. if s k = None then (Inr (Some ''OK''), s(k := Some v)) else (Inr None, s)),
     rd_get = (\<lambda>k s. (Inr (s k), s)),
     rd_del = (\<lambda>k s. (Inr (if s k = None then 0 else 1), s(k := None))),
     rd_expire = (\<lambda>k t s. (Inr (if s k = None then 0 else 1), s)),
     rd_ttl = (\<lambda>k s. (Inr (if s k = None then -2 else 100), s))\<rparr>"

lemma mem_redis_ok: "redis_ok mem_redis id"
  unfolding redis_ok_def by (auto simp: mem_redis_def split: if_splits)

definition sample_lock :: dlock where
  "sample_lock = \<lparr>dl_key = ''backup'', dl_ttl = 60, lockValue = None, isLocked = False, refreshInterval = None\<rparr>"

definition held_lock :: dlock where
  "held_lock = \<lparr>dl_key = ''backup'', dl_ttl = 60, lockValue = Some ''u'', isLocked = True, refreshInterval = Some 30000\<rparr>"


lemma lost_lock_untouched_witness:
  "\<exists>l' s'. dl_release mem_redis (held_lock, [''backup'' \<mapsto> ''w'']) = (Inr False, (l', s')) \<and> \<not> isHeld l' \<and> s' = [''backup'' \<mapsto> ''w'']"
  using lost_lock_untouched [OF mem_redis_ok, of held_lock "CHR ''u''" "[]" "[''backup'' \<mapsto> ''w'']"]
  by (simp add: held_lock_def)

lemma reacquire_orphans_lock_witness:
  "\<exists>r l' s'. dl_acquire mem_redis ''v'' (held_lock, [''backup'' \<mapsto> ''u'']) = (r, (l', s')) \<and> r \<noteq> Inr True \<and> \<not> isHeld l'"
  using reacquire_orphans_lock [OF mem_redis_ok, of held_lock "''u''" "[''backup'' \<mapsto> ''u'']" "''v''"]
  by (auto simp: held_lock_def)

end
