(* ===== verification/KeyStore.thy ===== *)
theory KeyStore
  imports MysqlTransforms NodePath
begin

text \<open>
  \<open>lib/key-manager.ts\<close>: the keys of encrypted backups, kept in a file encrypted under a master
  key, with both cached in memory.

  AES-256-GCM is the parameter \<open>gcm\<close> of the stream transforms. JSON and base64, the clock, random
  bytes and the outcome of file writes come from \<open>key_env\<close>; reading a file that exists succeeds.
  \<open>this.keystore\<close> and the store a method works on are one object: a method that changes it has
  changed the cache before the file is written.
\<close>

section \<open>Data\<close>

record key_entry =
  ke_backupId :: string
  ke_key :: string
  ke_dbName :: string
  ke_dbType :: string
  ke_createdAt :: string
  ke_algorithm :: string
  ke_keyId :: "string option"

record key_store =
  ks_version :: string
  ks_keys :: "key_entry list"
  ks_createdAt :: string
  ks_updatedAt :: string

record sealed_store =
  sl_iv :: bytes
  sl_tag :: bytes
  sl_data :: bytes

record key_env =
  kv_home :: string
  kv_gcm :: gcm
  kv_store_text :: "key_store \<Rightarrow> bytes"
  kv_store_parse :: "bytes \<Rightarrow> js_error + key_store"
  kv_sealed_text :: "sealed_store \<Rightarrow> string"
  kv_sealed_parse :: "string \<Rightarrow> js_error + sealed_store"
  kv_export_text :: "key_store \<Rightarrow> string \<Rightarrow> bytes"
  kv_export_parse :: "bytes \<Rightarrow> js_error + key_entry list"
  kv_export_file :: "sealed_store \<Rightarrow> string \<Rightarrow> string"
  kv_now :: string
  kv_millis :: string
  kv_suffix :: string
  kv_random :: "nat \<Rightarrow> nat \<Rightarrow> bytes"
  kv_write_fails :: "nat \<Rightarrow> js_error option"

record key_st =
  masterKey :: "bytes option"
  keystore :: "key_store option"
  files :: "string \<Rightarrow> string option"
  randoms :: nat
  writes :: nat

definition KEYSTORE_DIR :: "key_env \<Rightarrow> string" where
  "KEYSTORE_DIR E = path_join [kv_home E, ''.db-backup'']"

definition KEYSTORE_FILE :: "key_env \<Rightarrow> string" where
  "KEYSTORE_FILE E = path_join [KEYSTORE_DIR E, ''keys.json'']"

definition MASTER_KEY_FILE :: "key_env \<Rightarrow> string" where
  "MASTER_KEY_FILE E = path_join [KEYSTORE_DIR E, ''master.key'']"

definition SALT_LENGTH :: nat where "SALT_LENGTH = 32"

definition write_to :: "key_env \<Rightarrow> string \<Rightarrow> string \<Rightarrow> (key_st, unit) prog" where
  "write_to E p t = (\<lambda>s. case kv_write_fails E (writes s) of
     Some e \<Rightarrow> (Inl e, s\<lparr>writes := Suc (writes s)\<rparr>)
   | None \<Rightarrow> (Inr (), s\<lparr>writes := Suc (writes s), files := (files s)(p := Some t)\<rparr>))"

definition randomBytes :: "key_env \<Rightarrow> nat \<Rightarrow> (key_st, bytes) prog" where
  "randomBytes E n = (\<lambda>s. (Inr (kv_random E (randoms s) n), s\<lparr>randoms := Suc (randoms s)\<rparr>))"

definition seal :: "gcm \<Rightarrow> bytes \<Rightarrow> bytes \<Rightarrow> bytes \<Rightarrow> js_error + sealed_store" where
  "seal G key iv plain = (if length key \<noteq> 32 then Inl invalid_key_length
     else let ct = gcm_xor G key iv 0 plain in
       Inr \<lparr>sl_iv = iv, sl_tag = g_tag G key iv ct, sl_data = ct\<rparr>)"

definition unseal :: "gcm \<Rightarrow> bytes \<Rightarrow> sealed_store \<Rightarrow> js_error + bytes" where
  "unseal G key x = (if length key \<noteq> 32 then Inl invalid_key_length
     else if sl_tag x \<noteq> g_tag G key (sl_iv x) (sl_data x)
       then Inl (new_Error ''Unsupported state or unable to authenticate data'')
     else Inr (gcm_xor G key (sl_iv x) 0 (sl_data x)))"

lemma unseal_seal: "seal G key iv p = Inr x \<Longrightarrow> unseal G key x = Inr p"
  by (auto simp: seal_def unseal_def Let_def split: if_splits)

section \<open>Loading and saving\<close>

definition getOrCreateMasterKey :: "key_env \<Rightarrow> (key_st, bytes) prog" where
  "getOrCreateMasterKey E = bnd get_st (\<lambda>s. case masterKey s of
     Some k \<Rightarrow> ret k
   | None \<Rightarrow> (case files s (MASTER_KEY_FILE E) of
       Some t \<Rightarrow> let k = drop SALT_LENGTH (hex_bytes t) in
         seqp (modify_st (\<lambda>s. s\<lparr>masterKey := Some k\<rparr>)) (ret k)
     | None \<Rightarrow>
         bnd (randomBytes E SALT_LENGTH) (\<lambda>salt.
         bnd (randomBytes E 32) (\<lambda>k.
         seqp (write_to E (MASTER_KEY_FILE E) (to_hex (salt @ k)))
        (seqp (modify_st (\<lambda>s. s\<lparr>masterKey := Some k\<rparr>)) (ret k))))))"

definition set_store :: "key_store \<Rightarrow> (key_st, unit) prog" where
  "set_store ks = modify_st (\<lambda>s. s\<lparr>keystore := Some ks\<rparr>)"

definition saveKeystore :: "key_env \<Rightarrow> key_store \<Rightarrow> (key_st, unit) prog" where
  "saveKeystore E ks =
     bnd (getOrCreateMasterKey E) (\<lambda>k.
     bnd (randomBytes E IV_LENGTH) (\<lambda>iv.
     bnd (lift_res (seal (kv_gcm E) k iv (kv_store_text E ks))) (\<lambda>x.
     seqp (write_to E (KEYSTORE_FILE E) (kv_sealed_text E x)) (set_store ks))))"

definition emptyStore :: "key_env \<Rightarrow> key_store" where
  "emptyStore E = \<lparr>ks_version = ''1.0'', ks_keys = [], ks_createdAt = kv_now E, ks_updatedAt = kv_now E\<rparr>"

definition start_empty :: "key_env \<Rightarrow> (key_st, key_store) prog" where
  "start_empty E = seqp (set_store (emptyStore E)) (seqp (saveKeystore E (emptyStore E)) (ret (emptyStore E)))"

definition read_store :: "key_env \<Rightarrow> string \<Rightarrow> (key_st, key_store) prog" where
  "read_store E t =
     bnd (lift_res (kv_sealed_parse E t)) (\<lambda>x.
     bnd (getOrCreateMasterKey E) (\<lambda>k.
     bnd (lift_res (unseal (kv_gcm E) k x)) (\<lambda>d.
     bnd (lift_res (kv_store_parse E d)) (\<lambda>ks.
     seqp (set_store ks) (ret ks)))))"

definition loadKeystore :: "key_env \<Rightarrow> (key_st, key_store) prog" where
  "loadKeystore E = bnd get_st (\<lambda>s. case keystore s of
     Some ks \<Rightarrow> ret ks
   | None \<Rightarrow> (case files s (KEYSTORE_FILE E) of
       None \<Rightarrow> start_empty E
     | Some t \<Rightarrow> try_catch (read_store E t) (\<lambda>e. start_empty E)))"

section \<open>Operations\<close>

definition find_key :: "string \<Rightarrow> key_entry list \<Rightarrow> key_entry option" where
  "find_key b ks = List.find (\<lambda>k. ke_backupId k = b) ks"

definition new_entry :: "key_env \<Rightarrow> string \<Rightarrow> string \<Rightarrow> string \<Rightarrow> string \<Rightarrow> string \<Rightarrow> key_entry" where
  "new_entry E b k n t i = \<lparr>ke_backupId = b, ke_key = k, ke_dbName = n, ke_dbType = t,
     ke_createdAt = kv_now E, ke_algorithm = ''aes-256-gcm'', ke_keyId = Some i\<rparr>"

text \<open>Replace the first entry with the identifier, keeping its \<open>keyId\<close>.\<close>

fun replace_entry :: "key_env \<Rightarrow> string \<Rightarrow> string \<Rightarrow> string \<Rightarrow> string \<Rightarrow> key_entry list \<Rightarrow> key_entry list" where
  "replace_entry E b k n t [] = []"
| "replace_entry E b k n t (x # xs) = (if ke_backupId x = b
     then new_entry E b k n t (or_s (ke_keyId x) (''key_'' @ kv_millis E)) # xs
     else x # replace_entry E b k n t xs)"

definition put_key :: "key_env \<Rightarrow> string \<Rightarrow> string \<Rightarrow> string \<Rightarrow> string \<Rightarrow> key_entry list \<Rightarrow> key_entry list" where
  "put_key E b k n t xs = (if find_key b xs \<noteq> None then replace_entry E b k n t xs
     else xs @ [new_entry E b k n t (''key_'' @ kv_millis E @ ''_'' @ kv_suffix E)])"

definition update_store :: "key_env \<Rightarrow> key_entry list \<Rightarrow> key_store \<Rightarrow> (key_st, unit) prog" where
  "update_store E xs ks = (let ks' = ks\<lparr>ks_keys := xs, ks_updatedAt := kv_now E\<rparr> in
     seqp (set_store ks') (saveKeystore E ks'))"

definition addKey :: "key_env \<Rightarrow> string \<Rightarrow> string \<Rightarrow> string \<Rightarrow> string \<Rightarrow> (key_st, unit) prog" where
  "addKey E b k n t = bnd (loadKeystore E) (\<lambda>ks. update_store E (put_key E b k n t (ks_keys ks)) ks)"

definition getKey :: "key_env \<Rightarrow> string \<Rightarrow> (key_st, key_entry option) prog" where
  "getKey E b = bnd (loadKeystore E) (\<lambda>ks. ret (find_key b (ks_keys ks)))"

definition getAllKeys :: "key_env \<Rightarrow> (key_st, key_entry list) prog" where
  "getAllKeys E = bnd (loadKeystore E) (\<lambda>ks. ret (ks_keys ks))"

definition getKeyCount :: "key_env \<Rightarrow> (key_st, nat) prog" where
  "getKeyCount E = bnd (loadKeystore E) (\<lambda>ks. ret (length (ks_keys ks)))"

definition deleteKey :: "key_env \<Rightarrow> string \<Rightarrow> (key_st, bool) prog" where
  "deleteKey E b = bnd (loadKeystore E) (\<lambda>ks.
     let rest = filter (\<lambda>k. ke_backupId k \<noteq> b) (ks_keys ks) in
     seqp (set_store (ks\<lparr>ks_keys := rest\<rparr>))
       (if length rest < length (ks_keys ks) then seqp (update_store E rest ks) (ret True) else ret False))"

text \<open>The result is the password that is printed.\<close>

definition exportKeystore :: "key_env \<Rightarrow> string \<Rightarrow> (key_st, string) prog" where
  "exportKeystore E p = bnd (loadKeystore E) (\<lambda>ks.
     bnd (randomBytes E 32) (\<lambda>tempKey.
     bnd (randomBytes E IV_LENGTH) (\<lambda>iv.
     bnd (lift_res (seal (kv_gcm E) tempKey iv (kv_export_text E ks (kv_now E)))) (\<lambda>x.
     seqp (write_to E p (kv_export_file E x (take 8 (to_hex tempKey) @ ''...''))) (ret (to_hex tempKey))))))"

definition merge_keys :: "key_entry list \<Rightarrow> key_entry list \<Rightarrow> key_entry list" where
  "merge_keys xs ys = foldl (\<lambda>acc k. if find_key (ke_backupId k) acc = None then acc @ [k] else acc) xs ys"

definition importKeystore :: "key_env \<Rightarrow> string \<Rightarrow> string \<Rightarrow> (key_st, nat) prog" where
  "importKeystore E p password = bnd get_st (\<lambda>s. case files s p of
     None \<Rightarrow> throw (new_Error (''Import file not found: '' @ p))
   | Some t \<Rightarrow>
       bnd (lift_res (kv_sealed_parse E t)) (\<lambda>x.
       bnd (lift_res (unseal (kv_gcm E) (hex_bytes password) x)) (\<lambda>d.
       bnd (lift_res (kv_export_parse E d)) (\<lambda>new.
       bnd (loadKeystore E) (\<lambda>ks.
       seqp (update_store E (merge_keys (ks_keys ks) new) ks) (ret (length new)))))))"


section \<open>A store on disk\<close>

definition key_env_ok :: "key_env \<Rightarrow> bool" where
  "key_env_ok E \<longleftrightarrow> (\<exists>ds. kv_home E = abs_dir ds \<and> ds \<noteq> [] \<and> (\<forall>d\<in>set ds. plain_name d)) \<and>
     (\<forall>ks. kv_store_parse E (kv_store_text E ks) = Inr ks) \<and>
     (\<forall>x. kv_sealed_parse E (kv_sealed_text E x) = Inr x) \<and>
     (\<forall>i n. length (kv_random E i n) = n) \<and> (\<forall>n. kv_write_fails E n = None)"

definition restart :: "key_st \<Rightarrow> key_st" where
  "restart s = s\<lparr>masterKey := None, keystore := None\<rparr>"

definition has_master :: "key_env \<Rightarrow> bytes \<Rightarrow> key_st \<Rightarrow> bool" where
  "has_master E k s \<longleftrightarrow> (masterKey s = None \<or> masterKey s = Some k) \<and> length k = 32 \<and>
     (\<exists>salt. length salt = SALT_LENGTH \<and> files s (MASTER_KEY_FILE E) = Some (to_hex (salt @ k)))"

definition holds :: "key_env \<Rightarrow> key_store \<Rightarrow> key_st \<Rightarrow> bool" where
  "holds E ks s \<longleftrightarrow> (keystore s = None \<or> keystore s = Some ks) \<and> (\<exists>k x. has_master E k s \<and>
     files s (KEYSTORE_FILE E) = Some (kv_sealed_text E x) \<and> unseal (kv_gcm E) k x = Inr (kv_store_text E ks))"

text \<open>Nothing on disk yet, or only a master key.\<close>

definition fresh :: "key_env \<Rightarrow> key_st \<Rightarrow> bool" where
  "fresh E s \<longleftrightarrow> keystore s = None \<and> files s (KEYSTORE_FILE E) = None \<and>
     (masterKey s = None \<and> files s (MASTER_KEY_FILE E) = None \<or> (\<exists>k. has_master E k s))"

lemma files_differ:
  assumes "key_env_ok E"
  shows "KEYSTORE_FILE E \<noteq> MASTER_KEY_FILE E"
proof -
  obtain ds where ds: "kv_home E = abs_dir ds" "ds \<noteq> []" "\<forall>d\<in>set ds. plain_name d"
    using assms by (auto simp: key_env_ok_def)
  have plain: "plain_name ''.db-backup''" "plain_name ''keys.json''" "plain_name ''master.key''"
    by (simp_all add: plain_name_def slash_def)
  have dir: "KEYSTORE_DIR E = abs_dir (ds @ [''.db-backup''])"
    using ds plain(1) by (simp add: KEYSTORE_DIR_def path_join_plain)
  have "path_join [KEYSTORE_DIR E, f] = abs_dir (ds @ [''.db-backup'', f])" if "plain_name f" for f
    unfolding dir using ds(3) plain(1) that by (subst path_join_plain) auto
  then show ?thesis
    using plain by (simp add: KEYSTORE_FILE_def MASTER_KEY_FILE_def abs_dir_def join_with_snoc [of "ds @ [_]", simplified])
qed

lemma write_ok: "key_env_ok E \<Longrightarrow> write_to E p t s = (Inr (), s\<lparr>writes := Suc (writes s), files := (files s)(p := Some t)\<rparr>)"
  by (simp add: key_env_ok_def write_to_def)

lemma master_run:
  assumes "key_env_ok E" and "has_master E k s"
  shows "\<exists>s'. getOrCreateMasterKey E s = (Inr k, s') \<and> has_master E k s' \<and> files s' = files s \<and> keystore s' = keystore s"
  using assms(2)
  by (auto simp: getOrCreateMasterKey_def has_master_def bnd_def get_st_def ret_def modify_st_def Let_def split: option.split)

lemma master_created:
  assumes "key_env_ok E" and "masterKey s = None" and "files s (MASTER_KEY_FILE E) = None"
  shows "\<exists>k s'. getOrCreateMasterKey E s = (Inr k, s') \<and> has_master E k s' \<and> keystore s' = keystore s \<and>
    files s' (KEYSTORE_FILE E) = files s (KEYSTORE_FILE E)"
proof -
  have len: "length (kv_random E i n) = n" for i n using assms(1) by (simp add: key_env_ok_def)
  show ?thesis
    using assms(2,3) files_differ [OF assms(1)] len
    by (auto simp: getOrCreateMasterKey_def has_master_def bnd_def get_st_def ret_def modify_st_def randomBytes_def write_ok [OF assms(1)])
qed

lemma save_holds:
  assumes ok: "key_env_ok E" and m: "has_master E k s \<or> masterKey s = None \<and> files s (MASTER_KEY_FILE E) = None"
  shows "\<exists>s'. saveKeystore E ks s = (Inr (), s') \<and> holds E ks s' \<and> keystore s' = Some ks"
proof -
  obtain k s1 where run: "getOrCreateMasterKey E s = (Inr k, s1)" and h: "has_master E k s1"
    using m master_run [OF ok] master_created [OF ok] by blast
  then have len: "length k = 32" by (simp add: has_master_def)
  let ?iv = "kv_random E (randoms s1) IV_LENGTH"
  obtain x where x: "seal (kv_gcm E) k ?iv (kv_store_text E ks) = Inr x" using len by (simp add: seal_def Let_def)
  show ?thesis
    using h files_differ [OF ok] unseal_seal [OF x]
    by (auto simp: saveKeystore_def bnd_def run randomBytes_def lift_res_def x write_ok [OF ok] set_store_def
        modify_st_def holds_def has_master_def)
qed

lemma start_empty_holds:
  assumes ok: "key_env_ok E" and m: "has_master E k s \<or> masterKey s = None \<and> files s (MASTER_KEY_FILE E) = None"
  shows "\<exists>s'. start_empty E s = (Inr (emptyStore E), s') \<and> holds E (emptyStore E) s' \<and> keystore s' = Some (emptyStore E)"
proof -
  have "has_master E k (s\<lparr>keystore := Some (emptyStore E)\<rparr>) \<or> masterKey (s\<lparr>keystore := Some (emptyStore E)\<rparr>) = None \<and>
      files (s\<lparr>keystore := Some (emptyStore E)\<rparr>) (MASTER_KEY_FILE E) = None"
    using m by (auto simp: has_master_def)
  from save_holds [OF ok this, of "emptyStore E"] show ?thesis
    by (auto simp: start_empty_def bnd_def set_store_def modify_st_def ret_def)
qed

lemma load_holds:
  assumes ok: "key_env_ok E" and h: "holds E ks s"
  shows "\<exists>s'. loadKeystore E s = (Inr ks, s') \<and> holds E ks s' \<and> keystore s' = Some ks"
proof (cases "keystore s")
  case (Some y)
  with h show ?thesis by (auto simp: loadKeystore_def bnd_def get_st_def ret_def holds_def)
next
  case None
  from h obtain k x where m: "has_master E k s" and f: "files s (KEYSTORE_FILE E) = Some (kv_sealed_text E x)"
    and u: "unseal (kv_gcm E) k x = Inr (kv_store_text E ks)" by (auto simp: holds_def)
  obtain s1 where run: "getOrCreateMasterKey E s = (Inr k, s1)" "has_master E k s1" "files s1 = files s"
    using master_run [OF ok m] by blast
  have parse: "kv_sealed_parse E (kv_sealed_text E x) = Inr x" "kv_store_parse E (kv_store_text E ks) = Inr ks"
    using ok by (simp_all add: key_env_ok_def)
  have "loadKeystore E s = (Inr ks, s1\<lparr>keystore := Some ks\<rparr>)"
    by (simp add: loadKeystore_def bnd_def get_st_def None f read_store_def lift_res_def parse run(1) u
        set_store_def modify_st_def ret_def try_catch_def)
  moreover have "holds E ks (s1\<lparr>keystore := Some ks\<rparr>)"
    using run f u by (auto simp: holds_def has_master_def)
  ultimately show ?thesis by simp
qed

lemma load_ready:
  assumes ok: "key_env_ok E" and "(\<exists>ks. holds E ks s) \<or> fresh E s"
  shows "\<exists>ks s'. loadKeystore E s = (Inr ks, s') \<and> holds E ks s' \<and> keystore s' = Some ks"
  using assms(2)
proof
  assume "\<exists>ks. holds E ks s"
  with load_holds [OF ok] show ?thesis by blast
next
  assume f: "fresh E s"
  then have "loadKeystore E s = start_empty E s" by (simp add: loadKeystore_def bnd_def get_st_def fresh_def)
  moreover obtain k where "has_master E k s \<or> masterKey s = None \<and> files s (MASTER_KEY_FILE E) = None"
    using f by (auto simp: fresh_def)
  ultimately show ?thesis using start_empty_holds [OF ok] by metis
qed


section \<open>What the operations do\<close>

lemma length_filter_less_iff: "length (filter P xs) < length xs \<longleftrightarrow> (\<exists>x\<in>set xs. \<not> P x)"
proof (induction xs)
  case (Cons x xs)
  show ?case using Cons length_filter_le [of P xs] by (cases "P x") (auto simp: less_Suc_eq_le)
qed simp

lemma replace_entry_same: "find_key b xs \<noteq> None \<Longrightarrow> \<exists>e. find_key b (replace_entry E b k n t xs) = Some e \<and> ke_key e = k"
  by (induction xs) (auto simp: find_key_def new_entry_def)

lemma replace_entry_other: "c \<noteq> b \<Longrightarrow> find_key c (replace_entry E b k n t xs) = find_key c xs"
  by (induction xs) (auto simp: find_key_def new_entry_def)

lemma put_key_same: "\<exists>e. find_key b (put_key E b k n t xs) = Some e \<and> ke_key e = k"
  using replace_entry_same [of b xs E k n t]
  by (auto simp: put_key_def) (auto simp: find_key_def find_append new_entry_def)

lemma put_key_other: "c \<noteq> b \<Longrightarrow> find_key c (put_key E b k n t xs) = find_key c xs"
  by (auto simp: put_key_def replace_entry_other)
    (auto simp: find_key_def find_append new_entry_def split: option.split)

lemma update_holds:
  assumes ok: "key_env_ok E" and m: "has_master E k s"
  shows "\<exists>s'. update_store E xs ks s = (Inr (), s') \<and> holds E (ks\<lparr>ks_keys := xs, ks_updatedAt := kv_now E\<rparr>) s'"
proof -
  let ?ks = "ks\<lparr>ks_keys := xs, ks_updatedAt := kv_now E\<rparr>"
  have "has_master E k (s\<lparr>keystore := Some ?ks\<rparr>)" using m by (simp add: has_master_def)
  with save_holds [OF ok, of k "s\<lparr>keystore := Some ?ks\<rparr>" ?ks] show ?thesis
    by (auto simp: update_store_def Let_def bnd_def set_store_def modify_st_def)
qed

lemma holds_master: "holds E ks s \<Longrightarrow> \<exists>k. has_master E k (s\<lparr>keystore := c\<rparr>)"
  by (auto simp: holds_def has_master_def)

lemma restart_holds: "holds E ks s \<Longrightarrow> holds E ks (restart s)"
  by (auto simp: holds_def has_master_def restart_def)

lemma getKey_holds: "key_env_ok E \<Longrightarrow> holds E ks s \<Longrightarrow> fst (getKey E b s) = Inr (find_key b (ks_keys ks))"
  using load_holds [of E ks s] by (auto simp: getKey_def bnd_def ret_def)

lemma getKey_ready:
  assumes "key_env_ok E" and "loadKeystore E s = (Inr ks, s')"
  shows "fst (getKey E b s) = Inr (find_key b (ks_keys ks))"
  using assms by (auto simp: getKey_def bnd_def ret_def)

section \<open>Properties\<close>

text \<open>A stored key survives the process: after addKey on a new or a readable key store, a later process
  (nothing cached) reads back exactly the key that was stored, and every other backup still has the
  key it had before.\<close>

lemma addKey_persistent:
  assumes ok: "key_env_ok E" and ready: "(\<exists>ks. holds E ks s) \<or> fresh E s"
  shows "\<exists>s'. addKey E b k n t s = (Inr (), s') \<and>
    (\<exists>e. fst (getKey E b (restart s')) = Inr (Some e) \<and> ke_key e = k) \<and>
    (\<forall>c. c \<noteq> b \<longrightarrow> fst (getKey E c (restart s')) = fst (getKey E c s))"
proof -
  obtain ks u where load: "loadKeystore E s = (Inr ks, u)" "holds E ks u" using load_ready [OF ok ready] by blast
  let ?xs = "put_key E b k n t (ks_keys ks)"
  obtain mk where "has_master E mk u" using load(2) by (auto simp: holds_def)
  then obtain s' where up: "update_store E ?xs ks u = (Inr (), s')"
    and h: "holds E (ks\<lparr>ks_keys := ?xs, ks_updatedAt := kv_now E\<rparr>) s'" using update_holds [OF ok] by blast
  have add: "addKey E b k n t s = (Inr (), s')" using load up by (simp add: addKey_def bnd_def)
  have after: "fst (getKey E c (restart s')) = Inr (find_key c ?xs)" for c
    using getKey_holds [OF ok restart_holds [OF h]] by simp
  have before: "fst (getKey E c s) = Inr (find_key c (ks_keys ks))" for c
    by (rule getKey_ready [OF ok load(1)])
  show ?thesis
    using add after before put_key_same put_key_other by (intro exI [of _ s'] conjI) auto
qed

text \<open>A deleted key is gone for every later process, the other keys stay, and deleteKey says truthfully
  whether there was a key.\<close>

lemma deleteKey_persistent:
  assumes ok: "key_env_ok E" and ready: "(\<exists>ks. holds E ks s) \<or> fresh E s"
  shows "\<exists>r s'. deleteKey E b s = (Inr r, s') \<and> (r \<longleftrightarrow> fst (getKey E b s) \<noteq> Inr None) \<and>
    fst (getKey E b (restart s')) = Inr None \<and>
    (\<forall>c. c \<noteq> b \<longrightarrow> fst (getKey E c (restart s')) = fst (getKey E c s))"
proof -
  obtain ks u where load: "loadKeystore E s = (Inr ks, u)" "holds E ks u" "keystore u = Some ks"
    using load_ready [OF ok ready] by blast
  let ?xs = "filter (\<lambda>k. ke_backupId k \<noteq> b) (ks_keys ks)"
  have gone: "find_key b ?xs = None" and others: "find_key c ?xs = find_key c (ks_keys ks)" if "c \<noteq> b" for c
    using that by (simp_all add: find_key_def find_filter_ne find_filter_other)
  have shorter: "length ?xs < length (ks_keys ks) \<longleftrightarrow> find_key b (ks_keys ks) \<noteq> None"
  proof -
    have none: "find_key b (ks_keys ks) = None \<longleftrightarrow> (\<forall>x\<in>set (ks_keys ks). ke_backupId x \<noteq> b)"
      by (auto simp: find_key_def find_None_iff)
    show ?thesis unfolding length_filter_less_iff none by blast
  qed
  have before: "fst (getKey E c s) = Inr (find_key c (ks_keys ks))" for c
    by (rule getKey_ready [OF ok load(1)])
  show ?thesis
  proof (cases "find_key b (ks_keys ks)")
    case None
    then have "?xs = ks_keys ks" by (auto simp: find_key_def find_None_iff intro: filter_True)
    then have "deleteKey E b s = (Inr False, u)"
      using load shorter None by (simp add: deleteKey_def bnd_def Let_def set_store_def modify_st_def ret_def)
    with None before getKey_holds [OF ok restart_holds [OF load(2)]] show ?thesis by auto
  next
    case (Some e)
    obtain mk where "has_master E mk (u\<lparr>keystore := Some (ks\<lparr>ks_keys := ?xs\<rparr>)\<rparr>)" using holds_master [OF load(2)] by blast
    then obtain s' where up: "update_store E ?xs ks (u\<lparr>keystore := Some (ks\<lparr>ks_keys := ?xs\<rparr>)\<rparr>) = (Inr (), s')"
      and h: "holds E (ks\<lparr>ks_keys := ?xs, ks_updatedAt := kv_now E\<rparr>) s'" using update_holds [OF ok] by blast
    have "deleteKey E b s = (Inr True, s')"
      using load(1) shorter Some up by (simp add: deleteKey_def bnd_def Let_def set_store_def modify_st_def ret_def)
    moreover have "fst (getKey E c (restart s')) = Inr (find_key c ?xs)" for c
      using getKey_holds [OF ok restart_holds [OF h]] by simp
    ultimately show ?thesis using before Some gone others by (intro exI [of _ True] exI [of _ s']) auto
  qed
qed

text \<open>A key store that cannot be decrypted is silently replaced: looking up any key answers "no such
  key" without an error, and the file on disk is overwritten with an empty store, so the old keys
  are gone even if the right master key comes back.\<close>

lemma unreadable_store_wiped:
  assumes ok: "key_env_ok E" and "has_master E k s" and "keystore s = None"
    and "files s (KEYSTORE_FILE E) = Some t" and "kv_sealed_parse E t = Inr x" and "unseal (kv_gcm E) k x = Inl e"
  shows "\<exists>s'. getKey E b s = (Inr None, s') \<and> holds E (emptyStore E) s' \<and>
    fst (getAllKeys E (restart s')) = Inr []"
proof -
  obtain s1 where run: "getOrCreateMasterKey E s = (Inr k, s1)" "has_master E k s1" using master_run [OF ok assms(2)] by blast
  obtain s' where s': "start_empty E s1 = (Inr (emptyStore E), s')" "holds E (emptyStore E) s'"
    using start_empty_holds [OF ok] run(2) by blast
  have load: "loadKeystore E s = (Inr (emptyStore E), s')"
    using s'(1) by (simp add: loadKeystore_def bnd_def get_st_def assms(3-6) try_catch_def read_store_def lift_res_def run(1))
  obtain s2 where "loadKeystore E (restart s') = (Inr (emptyStore E), s2)" using load_holds [OF ok restart_holds [OF s'(2)]] by blast
  with load s'(2) show ?thesis
    by (simp add: getKey_def getAllKeys_def bnd_def ret_def emptyStore_def find_key_def)
qed

section \<open>A concrete environment\<close>

text \<open>A self-delimiting encoding stands for JSON: a byte 1 before every element, a byte 0 at the end.\<close>

definition enc_str :: "string \<Rightarrow> bytes" where
  "enc_str s = concat (map (\<lambda>b. [1, b]) (ascii s)) @ [0]"

fun dec_str :: "bytes \<Rightarrow> string \<times> bytes" where
  "dec_str (f # b # r) = (if f = 1 then (case dec_str r of (s, r') \<Rightarrow> (char_of (unat b) # s, r')) else ([], b # r))"
| "dec_str _ = ([], [])"

lemma dec_enc_str [simp]: "dec_str (enc_str s @ r) = (s, r)"
proof (induction s)
  case Nil
  show ?case by (cases r) (simp_all add: enc_str_def ascii_def)
next
  case (Cons c s)
  then show ?case by (simp add: enc_str_def ascii_def unat_byte)
qed

definition enc_entry :: "key_entry \<Rightarrow> bytes" where
  "enc_entry e = enc_str (ke_backupId e) @ enc_str (ke_key e) @ enc_str (ke_dbName e) @ enc_str (ke_dbType e) @
     enc_str (ke_createdAt e) @ enc_str (ke_algorithm e) @ enc_str (case ke_keyId e of None \<Rightarrow> [] | Some i \<Rightarrow> CHR ''x'' # i)"

definition dec_entry :: "bytes \<Rightarrow> key_entry \<times> bytes" where
  "dec_entry r = (case dec_str r of (a, r) \<Rightarrow> case dec_str r of (b, r) \<Rightarrow> case dec_str r of (c, r) \<Rightarrow>
     case dec_str r of (d, r) \<Rightarrow> case dec_str r of (e, r) \<Rightarrow> case dec_str r of (f, r) \<Rightarrow> case dec_str r of (g, r) \<Rightarrow>
     (\<lparr>ke_backupId = a, ke_key = b, ke_dbName = c, ke_dbType = d, ke_createdAt = e, ke_algorithm = f,
       ke_keyId = (case g of [] \<Rightarrow> None | _ # i \<Rightarrow> Some i)\<rparr>, r))"

lemma dec_enc_entry [simp]: "dec_entry (enc_entry e @ r) = (e, r)"
  by (simp add: dec_entry_def enc_entry_def split: option.split)

definition enc_entries :: "key_entry list \<Rightarrow> bytes" where
  "enc_entries es = concat (map (\<lambda>e. 1 # enc_entry e) es) @ [0]"

primrec dec_entries :: "nat \<Rightarrow> bytes \<Rightarrow> key_entry list" where
  "dec_entries 0 r = []"
| "dec_entries (Suc n) r = (if r \<noteq> [] \<and> hd r = 1 then (case dec_entry (tl r) of (e, r') \<Rightarrow> e # dec_entries n r') else [])"

lemma dec_enc_entries: "length es \<le> n \<Longrightarrow> dec_entries n (enc_entries es) = es"
proof (induction es arbitrary: n)
  case Nil
  show ?case by (cases n) (simp_all add: enc_entries_def)
next
  case (Cons e es)
  then show ?case by (cases n) (simp_all add: enc_entries_def)
qed

definition enc_store :: "key_store \<Rightarrow> bytes" where
  "enc_store ks = enc_str (ks_version ks) @ enc_str (ks_createdAt ks) @ enc_str (ks_updatedAt ks) @ enc_entries (ks_keys ks)"

definition dec_store :: "bytes \<Rightarrow> key_store" where
  "dec_store r = (case dec_str r of (v, r) \<Rightarrow> case dec_str r of (c, r) \<Rightarrow> case dec_str r of (u, r) \<Rightarrow>
     \<lparr>ks_version = v, ks_keys = dec_entries (length r) r, ks_createdAt = c, ks_updatedAt = u\<rparr>)"

lemma length_enc_entries: "length es \<le> length (enc_entries es)"
  by (induction es) (simp_all add: enc_entries_def)

lemma dec_enc_store [simp]: "dec_store (enc_store ks) = ks"
  by (simp add: dec_store_def enc_store_def dec_enc_entries length_enc_entries)

definition enc_sealed :: "sealed_store \<Rightarrow> string" where
  "enc_sealed x = text_of (enc_str (text_of (sl_iv x)) @ enc_str (text_of (sl_tag x)) @ enc_str (text_of (sl_data x)))"

definition dec_sealed :: "string \<Rightarrow> sealed_store" where
  "dec_sealed t = (case dec_str (ascii t) of (a, r) \<Rightarrow> case dec_str r of (b, r) \<Rightarrow> case dec_str r of (c, r) \<Rightarrow>
     \<lparr>sl_iv = ascii a, sl_tag = ascii b, sl_data = ascii c\<rparr>)"

lemma ascii_text_of [simp]: "ascii (text_of b) = b"
proof -
  have "word_of_nat (of_char (char_of (unat w) :: char)) = w" for w :: "8 word"
  proof -
    have "unat w < 256" using unsigned_less [of w] by simp
    then show ?thesis by simp
  qed
  then show ?thesis by (simp add: ascii_def text_of_def comp_def)
qed

lemma dec_enc_sealed [simp]: "dec_sealed (enc_sealed x) = x"
  using dec_enc_str [of "text_of (sl_data x)" "[]"] by (simp add: dec_sealed_def enc_sealed_def)

definition toy_keys :: key_env where
  "toy_keys = \<lparr>kv_home = abs_dir [''home''], kv_gcm = toy_gcm, kv_store_text = enc_store, kv_store_parse = (\<lambda>d. Inr (dec_store d)),
     kv_sealed_text = enc_sealed, kv_sealed_parse = (\<lambda>t. Inr (dec_sealed t)),
     kv_export_text = (\<lambda>ks _. enc_entries (ks_keys ks)), kv_export_parse = (\<lambda>d. Inr (dec_entries (length d) d)),
     kv_export_file = (\<lambda>x _. enc_sealed x), kv_now = ''now'', kv_millis = ''1'', kv_suffix = ''abc'',
     kv_random = (\<lambda>i n. replicate n (word_of_nat i)), kv_write_fails = (\<lambda>_. None)\<rparr>"

lemma toy_keys_ok: "key_env_ok toy_keys"
  unfolding key_env_ok_def
  by (intro conjI exI [of _ "[''home'']"]) (simp_all add: toy_keys_def plain_name_def slash_def)

definition new_machine :: key_st where
  "new_machine = \<lparr>masterKey = None, keystore = None, files = Map.empty, randoms = 0, writes = 0\<rparr>"

lemma new_machine_fresh: "fresh toy_keys new_machine"
  by (simp add: fresh_def new_machine_def)

lemma addKey_persistent_witness:
  "\<exists>s' e. addKey toy_keys ''b1'' ''secret'' ''db'' ''mysql'' new_machine = (Inr (), s') \<and>
     fst (getKey toy_keys ''b1'' (restart s')) = Inr (Some e) \<and> ke_key e = ''secret''"
  using addKey_persistent [OF toy_keys_ok disjI2 [OF new_machine_fresh], of "''b1''" "''secret''" "''db''" "''mysql''"] by blast

lemma deleteKey_persistent_witness:
  "\<exists>r s'. deleteKey toy_keys ''b1'' new_machine = (Inr r, s') \<and> fst (getKey toy_keys ''b1'' (restart s')) = Inr None"
  using deleteKey_persistent [OF toy_keys_ok disjI2 [OF new_machine_fresh], of "''b1''"] by blast

definition stale_machine :: key_st where
  "stale_machine = new_machine\<lparr>files := [MASTER_KEY_FILE toy_keys \<mapsto> to_hex (replicate 64 7),
     KEYSTORE_FILE toy_keys \<mapsto> enc_sealed \<lparr>sl_iv = [], sl_tag = [], sl_data = []\<rparr>]\<rparr>"

lemma stale_unseal:
  "unseal (kv_gcm toy_keys) (replicate 32 7) \<lparr>sl_iv = [], sl_tag = [], sl_data = []\<rparr> =
   Inl (new_Error ''Unsupported state or unable to authenticate data'')"
  by (simp add: unseal_def toy_keys_def toy_gcm_def)

lemma stale_master: "has_master toy_keys (replicate 32 7) stale_machine"
  using files_differ [OF toy_keys_ok]
  by (auto simp: has_master_def stale_machine_def new_machine_def SALT_LENGTH_def replicate_add [symmetric]
      intro!: exI [of _ "replicate 32 7"])

lemma unreadable_store_wiped_witness:
  "\<exists>s'. getKey toy_keys ''b1'' stale_machine = (Inr None, s') \<and> fst (getAllKeys toy_keys (restart s')) = Inr []"
proof -
  have a: "keystore stale_machine = None"
    "files stale_machine (KEYSTORE_FILE toy_keys) = Some (enc_sealed \<lparr>sl_iv = [], sl_tag = [], sl_data = []\<rparr>)"
    by (simp_all add: stale_machine_def new_machine_def)
  have "kv_sealed_parse toy_keys (enc_sealed x) = Inr x" for x by (simp add: toy_keys_def)
  from unreadable_store_wiped [OF toy_keys_ok stale_master a this stale_unseal] show ?thesis by blast
qed

end
