(* ===== verification/World.thy ===== *)
theory World
  imports Json
begin

text \<open>
  How the services talk to one another: HTTP through axios, BullMQ queues, timers, and files on the
  shared volume. A call is recorded in the trace of the process that makes it, and its reply is any
  function of the calls made before (\<open>world\<close>), so that a theorem over all worlds covers every
  pattern of answers and failures of the other side.
\<close>

section \<open>Calls\<close>

datatype call =
    Http (c_method: string) (c_url: string) (c_payload: json)
  | QAdd (c_queue: string) (c_name: string) (c_data: json) (c_opts: json)
  | QAsk (c_queue: string) (c_what: string) (c_arg: json)
  | Progress int
  | Sleep int
  | FileOp string "string list"
  | Other string json

text \<open>A rejected call: \<open>error.code\<close>, \<open>error.message\<close>, whether axios made it and, when the server
  did answer, its status and body.\<close>

record failure =
  f_code :: string
  f_message :: string
  f_axios :: bool
  f_response :: "(int \<times> json) option"

type_synonym world = "call list \<Rightarrow> call \<Rightarrow> failure + json"

definition error_of :: "failure \<Rightarrow> js_error" where
  "error_of f = JsError (f_code f) (f_message f)"

text \<open>The state of a process: the calls it has made, and the base URL of its metadata client.\<close>

record proc =
  calls :: "call list"
  baseUrl :: string

text \<open>\<open>ask\<close> gives the outcome as a value, \<open>run_call\<close> throws the failure.\<close>

definition ask :: "world \<Rightarrow> call \<Rightarrow> (proc, failure + json) prog" where
  "ask W c = (\<lambda>s. (Inr (W (calls s) c), s\<lparr>calls := calls s @ [c]\<rparr>))"

definition run_call :: "world \<Rightarrow> call \<Rightarrow> (proc, json) prog" where
  "run_call W c = bnd (ask W c) (\<lambda>r. case r of Inl f \<Rightarrow> throw (error_of f) | Inr v \<Rightarrow> ret v)"

definition http :: "world \<Rightarrow> string \<Rightarrow> string \<Rightarrow> json \<Rightarrow> (proc, failure + json) prog" where
  "http W m u p = ask W (Http m u p)"

definition unit_call :: "world \<Rightarrow> call \<Rightarrow> (proc, unit) prog" where
  "unit_call W c = seqp (run_call W c) (ret ())"

text \<open>\<open>try { m } catch (e) { log }\<close>\<close>

definition ignore_errors :: "('s, unit) prog \<Rightarrow> ('s, unit) prog" where
  "ignore_errors m = try_catch m (\<lambda>_. ret ())"

lemma wp_ask [wp]: "wp (ask W c) Q E s = Q (W (calls s) c) (s\<lparr>calls := calls s @ [c]\<rparr>)"
  by (simp add: wp_def ask_def)

lemma wp_run_call [wp]: "wp (run_call W c) Q E s =
    (case W (calls s) c of Inl f \<Rightarrow> E (error_of f) (s\<lparr>calls := calls s @ [c]\<rparr>) | Inr v \<Rightarrow> Q v (s\<lparr>calls := calls s @ [c]\<rparr>))"
  by (simp add: run_call_def wp_bnd wp_ask wp_ret wp_throw split: sum.split)

lemma wp_unit_call [wp]: "wp (unit_call W c) Q E s =
    (case W (calls s) c of Inl f \<Rightarrow> E (error_of f) (s\<lparr>calls := calls s @ [c]\<rparr>) | Inr v \<Rightarrow> Q () (s\<lparr>calls := calls s @ [c]\<rparr>))"
  by (simp add: unit_call_def wp_bnd wp_run_call wp_ret split: sum.split)

lemma wp_ignore_errors [wp]: "wp (ignore_errors m) Q E s = wp m Q (\<lambda>_. Q ()) s"
  by (simp add: ignore_errors_def wp_try_catch wp_ret_fun)

section \<open>URLs\<close>

definition uri_safe :: "char \<Rightarrow> bool" where
  "uri_safe c \<longleftrightarrow> (let n = of_char c :: int in 48 \<le> n \<and> n \<le> 57 \<or> 65 \<le> n \<and> n \<le> 90 \<or> 97 \<le> n \<and> n \<le> 122)
     \<or> c \<in> set [CHR ''-'', CHR ''_'', CHR ''.'', CHR ''!'', CHR ''~'', CHR ''*'', CHR 0x27, CHR ''('', CHR '')'']"

definition hex_upper :: "int \<Rightarrow> char" where
  "hex_upper n = char_of (if n < 10 then 48 + n else 55 + n)"

text \<open>Characters are the bytes of the UTF-8 text.\<close>

definition encodeURIComponent :: "string \<Rightarrow> string" where
  "encodeURIComponent s = concat (map (\<lambda>c. if uri_safe c then [c]
     else [CHR ''%'', hex_upper (of_char c div 16), hex_upper (of_char c mod 16)]) s)"

end
