(* ===== verification/MetadataClient.thy ===== *)
theory MetadataClient
  imports World
begin

text \<open>
  \<open>lib/metadata-client.ts\<close>: the HTTP client of the metadata service, used by every other service.
  \<open>request\<close> retries network failures with exponential back-off, falls back to the API gateway once
  when the default port refuses the connection, and turns failures into errors with a message.

  Dates in arguments are already ISO strings. The error object \<open>request\<close> throws carries a status
  that two of the callers look at, so the outcome is kept as a value (\<open>request_outcome\<close>) and thrown
  by \<open>request\<close>.
\<close>

section \<open>Construction\<close>

record meta_client =
  mc_gatewayUrl :: string
  mc_hasCustomBaseUrl :: bool
  mc_envUrl :: "string option"
  mc_maxRetries :: int
  mc_retryDelayMs :: int

text \<open>\<open>new MetadataClient({ baseUrl, maxRetries, retryDelayMs })\<close> with \<open>METADATA_SERVICE_URL\<close> and
  \<open>GATEWAY_URL\<close>: the client and its initial base URL.\<close>

definition new_client :: "string option \<Rightarrow> string option \<Rightarrow> string option \<Rightarrow> int option \<Rightarrow> int option \<Rightarrow> meta_client \<times> string" where
  "new_client envUrl envGateway base retries delay =
     (\<lparr>mc_gatewayUrl = or_s envGateway ''http://127.0.0.1:3000'', mc_hasCustomBaseUrl = truthy_s base, mc_envUrl = envUrl,
       mc_maxRetries = nullish retries (if truthy_s envUrl then 2 else 0), mc_retryDelayMs = or_n delay 150\<rparr>,
      or_s (or_so base envUrl) ''http://127.0.0.1:3005'')"

section \<open>Requests\<close>

record req_error =
  re_message :: string
  re_status :: "int option"

definition client_call :: "world \<Rightarrow> string \<Rightarrow> string \<Rightarrow> json \<Rightarrow> (proc, failure + json) prog" where
  "client_call W m path p = bnd (gets baseUrl) (\<lambda>b. http W m (b @ path) p)"

definition network_or_timeout :: "failure \<Rightarrow> bool" where
  "network_or_timeout f \<longleftrightarrow> f_axios f \<and> (case f_response f of None \<Rightarrow> True
     | Some (st, _) \<Rightarrow> f_code f \<in> {''ECONNREFUSED'', ''ECONNRESET'', ''ETIMEDOUT''} \<or> st \<noteq> 0 \<and> 502 \<le> st \<and> st \<le> 504)"

definition wants_gateway :: "meta_client \<Rightarrow> failure \<Rightarrow> string \<Rightarrow> bool" where
  "wants_gateway C f base \<longleftrightarrow> f_axios f \<and> f_code f = ''ECONNREFUSED'' \<and> \<not> mc_hasCustomBaseUrl C \<and>
     base \<noteq> mc_gatewayUrl C \<and> \<not> truthy_s (mc_envUrl C)"

text \<open>The second call of one attempt; what it fails with replaces the error.\<close>

definition fallback :: "meta_client \<Rightarrow> (proc, failure + json) prog \<Rightarrow> failure \<Rightarrow> (proc, failure + json) prog" where
  "fallback C fn f = bnd (gets baseUrl) (\<lambda>base.
     if wants_gateway C f base
     then seqp (modify_st (\<lambda>s. s\<lparr>baseUrl := mc_gatewayUrl C\<rparr>)) fn
     else ret (Inl f))"

definition offline_message :: string where
  "offline_message = ''dbvault background runtime is offline. Run \"dbvault start\" to launch background services.''"

text \<open>The text of the server's reply, if it has one.\<close>

definition server_error :: "json \<Rightarrow> json option" where
  "server_error d = (if \<not> truthy_j (Some d) then None
     else if truthy_j (jget d ''message'') \<and> truthy_j (jget d ''error'') \<and> jget d ''error'' \<noteq> jget d ''message''
       then Some (JStr (js_String (the (jget d ''error'')) @ '': '' @ js_String (the (jget d ''message''))))
     else if truthy_j (jget d ''message'') then jget d ''message'' else jget d ''error'')"

definition status_text :: "int option \<Rightarrow> string" where
  "status_text st = (case st of None \<Rightarrow> ''undefined'' | Some n \<Rightarrow> str_int n)"

text \<open>\<open>f\<close> is the failure of the attempt, \<open>g\<close> the error after the fallback; the status is that of \<open>f\<close>.\<close>

definition request_error :: "failure \<Rightarrow> failure \<Rightarrow> string \<Rightarrow> req_error" where
  "request_error f g op =
     (if f_axios f then (case f_response g of
        None \<Rightarrow> if f_code g = ''ECONNREFUSED'' then \<lparr>re_message = offline_message, re_status = None\<rparr>
          else \<lparr>re_message = ''Metadata service unavailable: '' @ f_message g @ '' ('' @ op @ '')'', re_status = None\<rparr>
      | Some (_, d) \<Rightarrow>
          let st = map_option fst (f_response f); se = server_error d;
              detail = (if truthy_j se then '': '' @ js_String (the se) else '' (HTTP '' @ status_text st @ '')'') in
          \<lparr>re_message = op @ '' failed'' @ detail, re_status = st\<rparr>)
      else \<lparr>re_message = op @ '' failed: '' @ f_message g, re_status = None\<rparr>)"

function request_outcome :: "meta_client \<Rightarrow> world \<Rightarrow> (proc, failure + json) prog \<Rightarrow> string \<Rightarrow> nat \<Rightarrow> (proc, req_error + json) prog" where
  "request_outcome C W fn op attempt =
     bnd fn (\<lambda>r. case r of Inr v \<Rightarrow> ret (Inr v) | Inl f \<Rightarrow>
       bnd (fallback C fn f) (\<lambda>r'. case r' of Inr v \<Rightarrow> ret (Inr v) | Inl g \<Rightarrow>
         if network_or_timeout f \<and> int attempt \<le> mc_maxRetries C
         then seqp (ask W (Sleep (mc_retryDelayMs C * 2 ^ (attempt - 1)))) (request_outcome C W fn op (Suc attempt))
         else ret (Inl (request_error f g op))))"
  by pat_completeness auto
termination
  by (relation "measure (\<lambda>(C, W, fn, op, attempt). nat (mc_maxRetries C + 1 - int attempt))") auto

declare request_outcome.simps [simp del]

definition throw_request :: "req_error \<Rightarrow> ('s, 'a) prog" where
  "throw_request e = throw (new_Error (re_message e))"

definition request :: "meta_client \<Rightarrow> world \<Rightarrow> string \<Rightarrow> string \<Rightarrow> json \<Rightarrow> string \<Rightarrow> (proc, json) prog" where
  "request C W m path p op = bnd (request_outcome C W (client_call W m path p) op 1) (\<lambda>r. case r of
     Inl e \<Rightarrow> throw_request e | Inr v \<Rightarrow> ret v)"

text \<open>\<open>res.key || d\<close>\<close>

definition field_or :: "string \<Rightarrow> json \<Rightarrow> json \<Rightarrow> (proc, json) prog" where
  "field_or k d res = (if res = JNull then throw (new_Error (''Cannot read properties of null (reading '' @ [CHR 0x27] @ k @ [CHR 0x27] @ '')''))
     else ret (or_j (jget res k) d))"

definition js_lower :: "string \<Rightarrow> string" where
  "js_lower s = map (\<lambda>c. let n = of_char c :: int in if 65 \<le> n \<and> n \<le> 90 then char_of (n + 32) else c) s"

definition quoted :: "string \<Rightarrow> string" where
  "quoted s = [CHR 0x27] @ s @ [CHR 0x27]"

definition no_params :: json where "no_params = JObj []"

definition with_params :: "json \<Rightarrow> json" where
  "with_params q = JObj [(''params'', q)]"

text \<open>The getters that answer \<open>null\<close> for a missing row: by the text of the message, and, for storage
  locations, by the status and by further texts. The error is never an axios error here.\<close>

definition get_or_null :: "meta_client \<Rightarrow> world \<Rightarrow> string \<Rightarrow> json \<Rightarrow> string \<Rightarrow> (proc, json) prog" where
  "get_or_null C W path p op = bnd (request_outcome C W (client_call W ''GET'' path p) op 1) (\<lambda>r. case r of
     Inr v \<Rightarrow> ret v
   | Inl e \<Rightarrow> if str_includes (re_message e) ''HTTP 404'' then ret JNull else throw_request e)"

definition get_storage_or_null :: "(string \<Rightarrow> bool) \<Rightarrow> meta_client \<Rightarrow> world \<Rightarrow> string \<Rightarrow> string \<Rightarrow> (proc, json) prog" where
  "get_storage_or_null extra C W path op = bnd (request_outcome C W (client_call W ''GET'' path no_params) op 1) (\<lambda>r. case r of
     Inr v \<Rightarrow> ret v
   | Inl e \<Rightarrow> if re_status e = Some 404 \<or> str_includes (re_message e) ''HTTP 404''
         \<or> str_includes (js_lower (re_message e)) ''not found'' \<or> extra (re_message e)
       then ret JNull else throw_request e)"


section \<open>Methods\<close>

definition mc_health :: "meta_client \<Rightarrow> world \<Rightarrow> (proc, json) prog" where
  "mc_health C W = bnd (request C W ''GET'' ''/health'' no_params ''Metadata service health check'') (\<lambda>res.
     if truthy_j (Some res) \<and> truthy_j (jget res ''dependencies'')
     then let ok = (case jget (the (jget res ''dependencies'')) ''metadataService'' of
              None \<Rightarrow> False | Some m \<Rightarrow> jget m ''status'' = Some (JStr ''healthy'')) in
       ret (jobj [(''service'', Some (JStr ''metadata-service'')),
         (''status'', Some (JStr (if ok then ''healthy'' else ''unhealthy''))),
         (''database'', Some (JStr (if ok then ''connected'' else ''disconnected''))),
         (''uptime'', jget res ''uptime'')])
     else ret res)"

definition createJob :: "meta_client \<Rightarrow> world \<Rightarrow> json \<Rightarrow> (proc, json) prog" where
  "createJob C W d = request C W ''POST'' ''/api/jobs'' d ''Job creation''"

definition getJob :: "meta_client \<Rightarrow> world \<Rightarrow> string \<Rightarrow> bool \<Rightarrow> (proc, json) prog" where
  "getJob C W i includeLogs = get_or_null C W (''/api/jobs/'' @ encodeURIComponent i)
     (with_params (JObj [(''includeLogs'', JBool includeLogs)])) (''Get job '' @ quoted i)"

definition updateJob :: "meta_client \<Rightarrow> world \<Rightarrow> string \<Rightarrow> json \<Rightarrow> (proc, json) prog" where
  "updateJob C W i d = request C W ''PATCH'' (''/api/jobs/'' @ encodeURIComponent i) d (''Job update '' @ quoted i)"

definition listJobs :: "meta_client \<Rightarrow> world \<Rightarrow> json \<Rightarrow> (proc, json) prog" where
  "listJobs C W q = request C W ''GET'' ''/api/jobs''
     (with_params (case jget q ''status'' of Some (JArr xs) \<Rightarrow> jset q ''status'' (JStr (js_String (JArr xs))) | _ \<Rightarrow> q))
     ''List jobs''"

definition count_status :: "json \<Rightarrow> json" where
  "count_status st = (case jget st ''in'' of Some (JArr xs) \<Rightarrow> JStr (js_String (JArr xs)) | _ \<Rightarrow> st)"

definition if_truthy :: "json option \<Rightarrow> json option" where
  "if_truthy v = (if truthy_j v then v else None)"

definition countJobs :: "meta_client \<Rightarrow> world \<Rightarrow> json \<Rightarrow> (proc, json) prog" where
  "countJobs C W w = bnd (request C W ''GET'' ''/api/jobs''
       (with_params (jobj [(''countOnly'', Some (JStr ''true'')),
          (''status'', map_option count_status (if_truthy (jget w ''status''))),
          (''since'', case jget w ''startedAt'' of None \<Rightarrow> None | Some d \<Rightarrow> if_truthy (jget d ''gte'')),
          (''dbType'', if_truthy (jget w ''dbType'')), (''dbName'', if_truthy (jget w ''dbName''))])) ''Count jobs'')
     (field_or ''count'' (JNum 0))"

definition getActiveJobs :: "meta_client \<Rightarrow> world \<Rightarrow> (proc, json) prog" where
  "getActiveJobs C W = bnd (request C W ''GET'' ''/api/jobs-active'' no_params ''Get active jobs'') (field_or ''jobs'' (JArr []))"

definition getJobStats :: "meta_client \<Rightarrow> world \<Rightarrow> string option \<Rightarrow> (proc, json) prog" where
  "getJobStats C W since = request C W ''GET'' ''/api/jobs-stats'' (with_params (jobj [(''since'', map_option JStr since)])) ''Get job stats''"

definition addLog :: "meta_client \<Rightarrow> world \<Rightarrow> string \<Rightarrow> json \<Rightarrow> (proc, json) prog" where
  "addLog C W i d = request C W ''POST'' (''/api/jobs/'' @ encodeURIComponent i @ ''/logs'') d (''Add log to job '' @ quoted i)"

definition getJobLogs :: "meta_client \<Rightarrow> world \<Rightarrow> string \<Rightarrow> (proc, json) prog" where
  "getJobLogs C W i = bnd (request C W ''GET'' (''/api/jobs/'' @ encodeURIComponent i @ ''/logs'') no_params (''Get logs for job '' @ quoted i))
     (field_or ''logs'' (JArr []))"

definition getLogs :: "meta_client \<Rightarrow> world \<Rightarrow> json \<Rightarrow> (proc, json) prog" where
  "getLogs C W q = bnd (request C W ''GET'' ''/api/logs'' (with_params q) ''Query logs'') (field_or ''logs'' (JArr []))"

text \<open>\<open>enabledOnly !== undefined\<close> and \<open>where?.enabled !== undefined\<close>\<close>

definition enabled_param :: "json option \<Rightarrow> string \<times> json option" where
  "enabled_param e = (''enabled'', map_option (\<lambda>v. JStr (js_String v)) e)"

definition listSchedules :: "meta_client \<Rightarrow> world \<Rightarrow> bool option \<Rightarrow> (proc, json) prog" where
  "listSchedules C W e = bnd (request C W ''GET'' ''/api/schedules'' (with_params (jobj [enabled_param (map_option JBool e)])) ''List schedules'')
     (field_or ''schedules'' (JArr []))"

definition countSchedules :: "meta_client \<Rightarrow> world \<Rightarrow> json \<Rightarrow> (proc, json) prog" where
  "countSchedules C W w = bnd (request C W ''GET'' ''/api/schedules''
       (with_params (jobj [(''countOnly'', Some (JStr ''true'')), enabled_param (jget w ''enabled'')])) ''Count schedules'')
     (field_or ''count'' (JNum 0))"

definition getSchedule :: "meta_client \<Rightarrow> world \<Rightarrow> string \<Rightarrow> (proc, json) prog" where
  "getSchedule C W i = get_or_null C W (''/api/schedules/'' @ encodeURIComponent i) no_params (''Get schedule '' @ quoted i)"

definition createSchedule :: "meta_client \<Rightarrow> world \<Rightarrow> json \<Rightarrow> (proc, json) prog" where
  "createSchedule C W d = request C W ''POST'' ''/api/schedules'' d ''Create schedule''"

definition updateSchedule :: "meta_client \<Rightarrow> world \<Rightarrow> string \<Rightarrow> json \<Rightarrow> (proc, json) prog" where
  "updateSchedule C W i d = request C W ''PATCH'' (''/api/schedules/'' @ encodeURIComponent i) d (''Update schedule '' @ quoted i)"

definition deleteSchedule :: "meta_client \<Rightarrow> world \<Rightarrow> string \<Rightarrow> (proc, bool) prog" where
  "deleteSchedule C W i = seqp (request C W ''DELETE'' (''/api/schedules/'' @ encodeURIComponent i) no_params (''Delete schedule '' @ quoted i)) (ret True)"

definition listStorage :: "meta_client \<Rightarrow> world \<Rightarrow> bool option \<Rightarrow> (proc, json) prog" where
  "listStorage C W e = bnd (request C W ''GET'' ''/api/storage'' (with_params (jobj [enabled_param (map_option JBool e)])) ''List storage locations'')
     (field_or ''storages'' (JArr []))"

definition countStorage :: "meta_client \<Rightarrow> world \<Rightarrow> json \<Rightarrow> (proc, json) prog" where
  "countStorage C W w = bnd (request C W ''GET'' ''/api/storage''
       (with_params (jobj [(''countOnly'', Some (JStr ''true'')), enabled_param (jget w ''enabled'')])) ''Count storage locations'')
     (field_or ''count'' (JNum 0))"

definition getDefaultStorage :: "meta_client \<Rightarrow> world \<Rightarrow> (proc, json) prog" where
  "getDefaultStorage C W = get_storage_or_null (\<lambda>m. str_includes m ''No default storage'') C W ''/api/storage-default'' ''Get default storage''"

definition getStorage :: "meta_client \<Rightarrow> world \<Rightarrow> string \<Rightarrow> (proc, json) prog" where
  "getStorage C W i = get_storage_or_null (\<lambda>_. False) C W (''/api/storage/'' @ encodeURIComponent i) (''Get storage '' @ quoted i)"

definition createStorage :: "meta_client \<Rightarrow> world \<Rightarrow> json \<Rightarrow> (proc, json) prog" where
  "createStorage C W d = request C W ''POST'' ''/api/storage'' d (''Create storage '' @ quoted (js_String (nullish (jget d ''name'') (JStr ''undefined''))))"

definition updateStorage :: "meta_client \<Rightarrow> world \<Rightarrow> string \<Rightarrow> json \<Rightarrow> (proc, json) prog" where
  "updateStorage C W i d = request C W ''PATCH'' (''/api/storage/'' @ encodeURIComponent i) d (''Update storage '' @ quoted i)"

definition setDefaultStorage :: "meta_client \<Rightarrow> world \<Rightarrow> string \<Rightarrow> (proc, json) prog" where
  "setDefaultStorage C W i = request C W ''POST'' (''/api/storage/'' @ encodeURIComponent i @ ''/default'') no_params (''Set default storage '' @ quoted i)"

definition deleteStorage :: "meta_client \<Rightarrow> world \<Rightarrow> string \<Rightarrow> (proc, bool) prog" where
  "deleteStorage C W i = seqp (request C W ''DELETE'' (''/api/storage/'' @ encodeURIComponent i) no_params (''Delete storage '' @ quoted i)) (ret True)"

definition listNotificationConfigs :: "meta_client \<Rightarrow> world \<Rightarrow> (proc, json) prog" where
  "listNotificationConfigs C W = bnd (request C W ''GET'' ''/api/notifications/config'' no_params ''List notification configs'')
     (field_or ''configs'' (JArr []))"

definition countNotificationConfigs :: "meta_client \<Rightarrow> world \<Rightarrow> (proc, json) prog" where
  "countNotificationConfigs C W = bnd (request C W ''GET'' ''/api/notifications/config''
       (with_params (JObj [(''countOnly'', JStr ''true'')])) ''Count notification configs'') (field_or ''count'' (JNum 0))"

definition getNotificationConfig :: "meta_client \<Rightarrow> world \<Rightarrow> string \<Rightarrow> (proc, json) prog" where
  "getNotificationConfig C W t = get_or_null C W (''/api/notifications/config/'' @ encodeURIComponent t) no_params
     (''Get notification config '' @ quoted t)"

definition upsertNotificationConfig :: "meta_client \<Rightarrow> world \<Rightarrow> string \<Rightarrow> json \<Rightarrow> (proc, json) prog" where
  "upsertNotificationConfig C W t d = request C W ''POST'' (''/api/notifications/config/'' @ encodeURIComponent t) d
     (''Upsert notification config '' @ quoted t)"

definition deleteNotificationConfig :: "meta_client \<Rightarrow> world \<Rightarrow> string \<Rightarrow> (proc, bool) prog" where
  "deleteNotificationConfig C W t = seqp (request C W ''DELETE'' (''/api/notifications/config/'' @ encodeURIComponent t) no_params
     (''Delete notification config '' @ quoted t)) (ret True)"

definition recordNotification :: "meta_client \<Rightarrow> world \<Rightarrow> json \<Rightarrow> (proc, json) prog" where
  "recordNotification C W d = request C W ''POST'' ''/api/notifications'' d ''Record notification''"

end
