(* ===== verification/BackupWorker.thy ===== *)
theory BackupWorker
  imports MetadataClient ServiceUtils
begin

text \<open>
  \<open>microservices/backup-worker/index.ts\<close>: the processors of the backup, storage and notification
  queues. BullMQ, axios, Slack, SMTP and the storage providers are calls to the world; the metadata
  service is reached through the metadata client.

  \<open>worker_env\<close> holds the client, the environment variables, the clock, \<open>JSON.stringify\<close> and the
  rendering of floating-point numbers (\<open>Number(x).toFixed(2)\<close>, megabytes).
\<close>

record worker_env =
  we_client :: meta_client
  we_var :: "string \<Rightarrow> string option"
  we_now :: json
  we_seconds :: json
  we_stringify :: "json \<Rightarrow> string"
  we_fixed :: "json \<Rightarrow> string"
  we_megabytes :: "json \<Rightarrow> string"

section \<open>Shared by the processors\<close>

definition env_json :: "worker_env \<Rightarrow> string \<Rightarrow> json option" where
  "env_json E k = map_option JStr (we_var E k)"

fun first_truthy :: "json option list \<Rightarrow> json \<Rightarrow> json" where
  "first_truthy [] d = d"
| "first_truthy (x # xs) d = (if truthy_j x then the x else first_truthy xs d)"

text \<open>The same without a final default: the last operand is the value.\<close>

fun or_chain :: "json option list \<Rightarrow> json option" where
  "or_chain [] = None"
| "or_chain [x] = x"
| "or_chain (x # y # xs) = (if truthy_j x then x else or_chain (y # xs))"

definition serviceRegistry :: "(string \<Rightarrow> string option) \<Rightarrow> string \<Rightarrow> string option" where
  "serviceRegistry var t =
     (if t = ''postgresql'' then Some (or_s (var ''POSTGRES_SERVICE_URL'') ''http://localhost:3010'')
      else if t = ''mysql'' then Some (or_s (var ''MYSQL_SERVICE_URL'') ''http://localhost:3011'')
      else if t = ''mongodb'' then Some (or_s (var ''MONGODB_SERVICE_URL'') ''http://localhost:3012'')
      else if t = ''sqlite'' then Some (or_s (var ''SQLITE_SERVICE_URL'') ''http://localhost:3013'')
      else None)"

definition getServiceUrl :: "(string \<Rightarrow> string option) \<Rightarrow> json option \<Rightarrow> ('s, string) prog" where
  "getServiceUrl var t = (case serviceRegistry var (tpl t) of
     None \<Rightarrow> throw (new_Error (''Unsupported database type: '' @ tpl t))
   | Some url \<Rightarrow> ret url)"

definition log_entry :: "string \<Rightarrow> string \<Rightarrow> string option \<Rightarrow> json" where
  "log_entry level message details = jobj [(''level'', Some (JStr level)), (''message'', Some (JStr message)),
     (''details'', if truthy_s details then map_option JStr details else None)]"

definition createLog :: "worker_env \<Rightarrow> world \<Rightarrow> string \<Rightarrow> string \<Rightarrow> string \<Rightarrow> string option \<Rightarrow> (proc, unit) prog" where
  "createLog E W i level message details =
     ignore_errors (seqp (addLog (we_client E) W i (log_entry level message details)) (ret ()))"

definition updateProgress :: "world \<Rightarrow> int \<Rightarrow> (proc, unit) prog" where
  "updateProgress W n = unit_call W (Progress n)"

definition set_job :: "worker_env \<Rightarrow> world \<Rightarrow> string \<Rightarrow> json \<Rightarrow> (proc, unit) prog" where
  "set_job E W i d = seqp (updateJob (we_client E) W i d) (ret ())"

definition add_job :: "world \<Rightarrow> string \<Rightarrow> string \<Rightarrow> json \<Rightarrow> string \<Rightarrow> (proc, unit) prog" where
  "add_job W queue name d i = unit_call W (QAdd queue name d (JObj [(''jobId'', JStr i)]))"

definition BACKUP_QUEUE :: "worker_env \<Rightarrow> string" where
  "BACKUP_QUEUE E = or_s (we_var E ''BACKUP_QUEUE_NAME'') ''backup-queue''"

definition RESTORE_QUEUE :: "worker_env \<Rightarrow> string" where
  "RESTORE_QUEUE E = or_s (we_var E ''RESTORE_QUEUE_NAME'') ''restore-queue''"

definition STORAGE_QUEUE :: "worker_env \<Rightarrow> string" where
  "STORAGE_QUEUE E = or_s (we_var E ''STORAGE_QUEUE_NAME'') ''storage-queue''"

definition NOTIFICATION_QUEUE :: "worker_env \<Rightarrow> string" where
  "NOTIFICATION_QUEUE E = or_s (we_var E ''NOTIFICATION_QUEUE_NAME'') ''notification-queue''"

definition RUNNING :: json where "RUNNING = JStr ''running''"
definition SUCCESS :: json where "SUCCESS = JStr ''success''"
definition FAILED :: json where "FAILED = JStr ''failed''"

text \<open>Property access on a reply: \<open>null\<close> has none.\<close>

definition field :: "string \<Rightarrow> json \<Rightarrow> ('s, json option) prog" where
  "field k v = (if v = JNull then throw (new_Error (''Cannot read properties of null (reading '' @ quoted k @ '')''))
     else ret (jget v k))"

section \<open>The backup queue\<close>

record backup_job =
  bj_id :: string
  bj_db :: json
  bj_type :: json
  bj_options :: json

definition backup_fields :: "worker_env \<Rightarrow> json \<Rightarrow> json" where
  "backup_fields E r = (let m = jget r ''metadata'' in jobj
     [(''status'', Some SUCCESS),
      (''filePath'', jget r ''filePath''), (''fileSize'', jget r ''fileSize''), (''duration'', jget r ''duration''),
      (''completedAt'', Some (we_now E)),
      (''fileName'', jget r ''fileName''), (''checksum'', jget r ''checksum''), (''encrypted'', jget r ''encrypted''),
      (''encryptionType'', jget r ''encryptionType''), (''encryptionMetadata'', jget r ''encryptionMetadata''),
      (''parentBackupId'', Some (first_truthy [jget r ''parentBackupId'', oget m ''parentBackupId''] JNull)),
      (''baseBackupId'', Some (first_truthy [jget r ''baseBackupId'', oget m ''baseBackupId''] JNull)),
      (''backupLevel'', Some (case jget r ''backupLevel'' of Some l \<Rightarrow> l | None \<Rightarrow> or_null (oget m ''backupLevel''))),
      (''binlogFile'', Some (first_truthy [jget r ''binlogFile'', oget m ''startBinlogFile''] JNull)),
      (''binlogPosition'', Some (case jget r ''binlogPosition'' of
          Some p \<Rightarrow> if p = JNull then or_null (oget m ''startBinlogPosition'') else p
        | None \<Rightarrow> or_null (oget m ''startBinlogPosition''))),
      (''metadata'', Some (jset (JObj (jfields (nullish m JNull))) ''completedAt'' (we_now E)))])"

definition storage_request :: "backup_job \<Rightarrow> json \<Rightarrow> json" where
  "storage_request b r = jobj
     [(''backupId'', Some (JStr (bj_id b))), (''filePath'', jget r ''filePath''), (''storageConfig'', jget (bj_options b) ''storage''),
      (''fileName'', jget r ''fileName''), (''dbConfig'', Some (bj_db b)), (''backupType'', Some (bj_type b)),
      (''duration'', jget r ''duration''), (''fileSize'', jget r ''fileSize'')]"

definition success_notice :: "backup_job \<Rightarrow> json \<Rightarrow> json" where
  "success_notice b r = jobj
     [(''backupId'', Some (JStr (bj_id b))), (''success'', Some (JBool True)), (''dbConfig'', Some (bj_db b)),
      (''backupType'', Some (bj_type b)), (''duration'', jget r ''duration''), (''fileSize'', jget r ''fileSize'')]"

definition failure_notice :: "backup_job \<Rightarrow> json \<Rightarrow> json" where
  "failure_notice b e = JObj
     [(''backupId'', JStr (bj_id b)), (''success'', JBool False), (''dbConfig'', bj_db b), (''backupType'', bj_type b), (''error'', e)]"

definition wants_s3 :: "backup_job \<Rightarrow> bool" where
  "wants_s3 b \<longleftrightarrow> truthy_j (jget (bj_options b) ''storage'') \<and> oget (jget (bj_options b) ''storage'') ''type'' = Some (JStr ''s3'')"

text \<open>From \<open>const result = response.data\<close> to the end of the \<open>try\<close> block.\<close>

definition finish_backup :: "worker_env \<Rightarrow> world \<Rightarrow> backup_job \<Rightarrow> json \<Rightarrow> (proc, json) prog" where
  "finish_backup E W b r =
     bnd (field ''success'' r) (\<lambda>ok.
     if truthy_j ok
     then seqp (set_job E W (bj_id b) (backup_fields E r))
         (seqp (createLog E W (bj_id b) ''INFO'' (''Backup archive created successfully: '' @ tpl (jget r ''fileName''))
            (Some (''Size: '' @ js_String (or_j (jget r ''fileSize'') (JNum 0)) @ '' bytes | Duration: '' @ tpl (jget r ''duration'') @ ''s'')))
         (seqp (updateProgress W 90)
         (seqp (if wants_s3 b
            then seqp (add_job W (STORAGE_QUEUE E) ''upload'' (storage_request b r) (''storage_'' @ bj_id b))
              (createLog E W (bj_id b) ''INFO'' (''Queued cloud storage upload to bucket: '' @ tpl (oget (jget (bj_options b) ''storage'') ''bucket'')) None)
            else seqp (add_job W (NOTIFICATION_QUEUE E) ''notify'' (success_notice b r) (''notify_'' @ bj_id b))
              (createLog E W (bj_id b) ''INFO'' ''Triggered completion notification alert'' None))
         (seqp (updateProgress W 100)
           (ret (JObj [(''success'', JBool True), (''backupId'', JStr (bj_id b))]))))))
     else throw (new_Error (js_String (or_j (jget r ''error'') (JStr ''Backup failed'')))))"

text \<open>The \<open>try\<close> block. A rejected \<open>axios.post\<close> leaves it as a failure of axios, everything else as an
  error.\<close>

definition run_backup :: "worker_env \<Rightarrow> world \<Rightarrow> backup_job \<Rightarrow> (proc, failure + json) prog" where
  "run_backup E W b =
     seqp (updateProgress W 10)
    (seqp (set_job E W (bj_id b) (JObj [(''status'', RUNNING)]))
    (seqp (createLog E W (bj_id b) ''INFO'' ''Database job status updated to RUNNING'' None)
    (bnd (getServiceUrl (we_var E) (jget (bj_db b) ''type'')) (\<lambda>url.
     seqp (updateProgress W 30)
    (seqp (createLog E W (bj_id b) ''INFO'' (''Connecting to '' @ tpl (jget (bj_db b) ''type'') @ '' backup microservice at '' @ url @ ''/backup'') None)
    (seqp (ask W (Sleep 500))
    (bnd (http W ''POST'' (url @ ''/backup'') (JObj [(''dbConfig'', bj_db b), (''backupType'', bj_type b),
            (''options'', jset (JObj (jfields (bj_options b))) ''backupId'' (JStr (bj_id b)))])) (\<lambda>resp.
     case resp of
       Inl f \<Rightarrow> ret (Inl f)
     | Inr r \<Rightarrow> seqp (updateProgress W 80) (bnd (finish_backup E W b r) (\<lambda>v. ret (Inr v)))))))))))"

text \<open>\<open>errorMessage\<close> and \<open>errorDetails\<close> of the \<open>catch\<close> block.\<close>

definition backup_error :: "worker_env \<Rightarrow> failure \<Rightarrow> json \<times> string option" where
  "backup_error E f = (let m = JStr (f_message f) in
     if \<not> f_axios f then (m, None)
     else case f_response f of None \<Rightarrow> (m, None)
       | Some (_, d) \<Rightarrow> (case d of
           JObj _ \<Rightarrow> (first_truthy [jget d ''error'', jget d ''message''] m, Some (we_stringify E d))
         | JArr _ \<Rightarrow> (m, Some (we_stringify E d))
         | JStr t \<Rightarrow> (m, Some t)
         | _ \<Rightarrow> (m, None)))"

definition failed_backup :: "worker_env \<Rightarrow> world \<Rightarrow> backup_job \<Rightarrow> json \<times> string option \<Rightarrow> (proc, json) prog" where
  "failed_backup E W b e =
     seqp (createLog E W (bj_id b) ''ERROR'' (''Backup job failed: '' @ js_String (fst e)) (snd e))
    (seqp (set_job E W (bj_id b) (JObj [(''status'', FAILED), (''error'', fst e), (''completedAt'', we_now E)]))
    (seqp (ignore_errors (add_job W (NOTIFICATION_QUEUE E) ''notify'' (failure_notice b (fst e)) (''notify_'' @ bj_id b)))
      (throw (new_Error (js_String (fst e))))))"

text \<open>\<open>try { m }\<close> with the outcome as a value.\<close>

definition outcome :: "('s, 'a) prog \<Rightarrow> ('s, js_error + 'a) prog" where
  "outcome m = (\<lambda>s. case m s of (r, s') \<Rightarrow> (Inr r, s'))"

definition handleBackupJob :: "worker_env \<Rightarrow> world \<Rightarrow> backup_job \<Rightarrow> (proc, json) prog" where
  "handleBackupJob E W b =
     seqp (createLog E W (bj_id b) ''INFO''
        (''Backup execution started for '' @ tpl (jget (bj_db b) ''type'') @ ''/'' @ tpl (jget (bj_db b) ''database''))
        (Some (''Backup Mode: '' @ js_String (bj_type b))))
    (bnd (outcome (run_backup E W b)) (\<lambda>r. case r of
       Inl e \<Rightarrow> failed_backup E W b (JStr (err_message e), None)
     | Inr (Inl f) \<Rightarrow> failed_backup E W b (backup_error E f)
     | Inr (Inr v) \<Rightarrow> ret v))"


section \<open>The storage queue\<close>

record storage_job =
  sj_id :: string
  sj_filePath :: "json option"
  sj_storageConfig :: "json option"
  sj_fileName :: "json option"
  sj_db :: "json option"
  sj_type :: "json option"
  sj_duration :: "json option"
  sj_fileSize :: "json option"

text \<open>The provider of the storage service that is built for the job, with its configuration.\<close>

definition provider_config :: "json option \<Rightarrow> json \<Rightarrow> json" where
  "provider_config c t = (if t = JStr ''s3''
     then jobj [(''type'', Some (JStr ''s3'')), (''bucket'', oget c ''bucket''),
        (''region'', Some (or_j (oget c ''region'') (JStr ''us-east-1''))), (''accessKey'', oget c ''accessKey''),
        (''secretKey'', oget c ''secretKey''), (''prefix'', Some (or_j (oget c ''prefix'') (JStr '''')))]
     else jobj [(''type'', Some (JStr ''local'')), (''bucket'', Some (JStr ''local'')),
        (''basePath'', Some (or_j (oget c ''basePath'') (JStr ''./backups'')))])"

text \<open>\<open>storageConfig.bucket\<close> throws when there is no configuration and the type defaults to S3.\<close>

definition new_provider :: "json option \<Rightarrow> json \<Rightarrow> ('s, json) prog" where
  "new_provider c t = (if t = JStr ''s3'' \<and> (c = None \<or> c = Some JNull)
     then throw (new_Error (''Cannot read properties of '' @ tpl c @ '' (reading '' @ quoted ''bucket'' @ '')''))
     else ret (provider_config c t))"

definition upload :: "worker_env \<Rightarrow> world \<Rightarrow> storage_job \<Rightarrow> json \<Rightarrow> (proc, json option) prog" where
  "upload E W j existing = (let t = or_j (oget (sj_storageConfig j) ''type'') (JStr ''s3'') in
     bnd (new_provider (sj_storageConfig j) t) (\<lambda>cfg.
     seqp (unit_call W (Other ''initialize'' cfg))
    (seqp (updateProgress W 30)
    (bnd (run_call W (Other ''upload'' (jobj [(''provider'', Some cfg), (''filePath'', sj_filePath j), (''fileName'', sj_fileName j)]))) (\<lambda>res.
     seqp (updateProgress W 80)
    (seqp (set_job E W (sj_id j) (jobj [(''storageType'', Some t), (''storagePath'', sj_fileName j),
       (''metadata'', Some (jset (JObj (jfields (nullish (jget existing ''metadata'') JNull))) ''uploadResult'' res))]))
    (seqp (createLog E W (sj_id j) ''INFO'' (''Storage upload completed: '' @ tpl (sj_fileName j)) None)
      (ret (Some res)))))))))"

text \<open>\<open>!existingJob?.storagePath || existingJob.storagePath !== fileName\<close>\<close>

definition already_uploaded :: "storage_job \<Rightarrow> json \<Rightarrow> bool" where
  "already_uploaded j existing \<longleftrightarrow> truthy_j (jget existing ''storagePath'') \<and> jget existing ''storagePath'' = sj_fileName j"

definition storage_notice :: "storage_job \<Rightarrow> json \<Rightarrow> json" where
  "storage_notice j existing = jobj
     [(''backupId'', Some (JStr (sj_id j))), (''success'', Some (JBool True)),
      (''dbConfig'', Some (or_j (sj_db j) (if truthy_j (Some existing)
         then jobj [(''type'', jget existing ''dbType''), (''database'', jget existing ''dbName'')] else JObj []))),
      (''backupType'', Some (first_truthy [sj_type j, jget existing ''backupType''] (JStr ''full''))),
      (''duration'', or_chain [sj_duration j, jget existing ''duration'']),
      (''fileSize'', or_chain [sj_fileSize j, jget existing ''fileSize''])]"

definition run_storage :: "worker_env \<Rightarrow> world \<Rightarrow> storage_job \<Rightarrow> (proc, json) prog" where
  "run_storage E W j =
     seqp (updateProgress W 10)
    (bnd (getJob (we_client E) W (sj_id j) False) (\<lambda>existing.
     bnd (if already_uploaded j existing
        then seqp (createLog E W (sj_id j) ''INFO'' (''Storage upload previously completed for '' @ tpl (sj_fileName j) @ '', skipping duplicate upload'') None)
           (ret (oget (jget existing ''metadata'') ''uploadResult''))
        else upload E W j existing) (\<lambda>uploadResult.
     seqp (updateProgress W 90)
    (seqp (add_job W (NOTIFICATION_QUEUE E) ''notify'' (storage_notice j existing) (''notify_'' @ sj_id j))
    (seqp (createLog E W (sj_id j) ''INFO'' ''Triggered completion notification alert from storage worker'' None)
    (seqp (updateProgress W 100)
      (ret (jobj [(''success'', Some (JBool True)), (''backupId'', Some (JStr (sj_id j))), (''uploadResult'', uploadResult)]))))))))"

definition handleStorageJob :: "worker_env \<Rightarrow> world \<Rightarrow> storage_job \<Rightarrow> (proc, json) prog" where
  "handleStorageJob E W j =
     seqp (createLog E W (sj_id j) ''INFO'' (''Storage worker processing upload for '' @ js_String (or_j (sj_fileName j) (JStr (sj_id j)))) None)
    (try_catch (run_storage E W j) (\<lambda>e.
       seqp (createLog E W (sj_id j) ''ERROR'' (''Storage upload failed: '' @ err_message e) None) (throw e)))"

section \<open>The notification queue\<close>

record notification_job =
  nj_backupId :: "json option"
  nj_success :: "json option"
  nj_db :: json
  nj_type :: json
  nj_duration :: "json option"
  nj_fileSize :: "json option"
  nj_error :: "json option"
  nj_message :: "json option"
  nj_config :: "json option"
  nj_kind :: "json option"

definition newline :: string where "newline = [CHR 0x0A]"

definition is_success :: "notification_job \<Rightarrow> bool" where
  "is_success n \<longleftrightarrow> nj_success n \<noteq> Some (JBool False)"

definition na_or :: "json option \<Rightarrow> string" where
  "na_or x = js_String (or_j x (JStr ''N/A''))"

definition notice_field :: "string \<Rightarrow> json \<Rightarrow> json" where
  "notice_field t v = JObj [(''title'', JStr t), (''value'', v), (''short'', JBool True)]"

definition default_message :: "worker_env \<Rightarrow> notification_job \<Rightarrow> json" where
  "default_message E n =
     (let ok = is_success n; db = js_String (or_j (jget (nj_db n) ''database'') (JStr ''Database''));
          target = na_or (jget (nj_db n) ''type'') @ ''/'' @ na_or (jget (nj_db n) ''database'') in
      JObj [(''subject'', JStr ((if ok then ''Backup Completed - '' else ''Backup Failed - '') @ db)),
        (''text'', JStr (''Backup '' @ (if ok then ''Completed Successfully'' else ''Failed'') @ newline @ newline
           @ ''Database: '' @ target @ newline @ ''Type: '' @ js_String (nj_type n) @ newline
           @ ''Time: '' @ js_String (we_now E) @ newline
           @ (if truthy_j (nj_duration n) then ''Duration: '' @ we_fixed E (the (nj_duration n)) @ '' seconds'' @ newline else '''')
           @ (if truthy_j (nj_fileSize n) then ''Size: '' @ we_megabytes E (the (nj_fileSize n)) @ '' MB'' @ newline else '''')
           @ (if truthy_j (nj_error n) then ''Error: '' @ js_String (the (nj_error n)) @ newline else ''''))),
        (''attachments'', JArr [JObj
          [(''color'', JStr (if ok then ''#36a64f'' else ''#ff0000'')),
           (''title'', JStr (if ok then ''Backup Successful'' else ''Backup Failed'')),
           (''fields'', JArr [
              notice_field ''Database'' (JStr target), notice_field ''Type'' (nj_type n),
              notice_field ''Duration'' (JStr (if truthy_j (nj_duration n) then we_fixed E (the (nj_duration n)) @ ''s'' else ''N/A'')),
              notice_field ''Backup ID'' (or_j (nj_backupId n) (JStr ''N/A'')),
              notice_field ''Size'' (JStr (if truthy_j (nj_fileSize n) then we_megabytes E (the (nj_fileSize n)) @ '' MB'' else ''N/A''))]),
           (''footer'', JStr ''DB Backup CLI''), (''ts'', we_seconds E)]])])"

definition send_slack :: "worker_env \<Rightarrow> world \<Rightarrow> notification_job \<Rightarrow> json \<Rightarrow> (proc, json option) prog" where
  "send_slack E W n message =
     (let url = first_truthy [oget (nj_config n) ''webhookUrl'', oget (nj_config n) ''webhook'', env_json E ''SLACK_WEBHOOK_URL''] JNull in
      if truthy_j (Some url)
      then seqp (unit_call W (Other ''slack'' (jobj [(''url'', Some url), (''text'', jget message ''text''),
             (''attachments'', Some (or_j (jget message ''attachments'') (JArr []))),
             (''blocks'', if truthy_j (jget message ''blocks'') then jget message ''blocks'' else None)])))
           (ret (Some (JObj [(''success'', JBool True), (''platform'', JStr ''slack'')])))
      else ret None)"

text \<open>\<open>message.text?.replace(/\n/g, '<br>')\<close>\<close>

definition line_breaks :: "string \<Rightarrow> string" where
  "line_breaks s = concat (map (\<lambda>c. if c = CHR 0x0A then ''<br>'' else [c]) s)"

definition html_of :: "json \<Rightarrow> ('s, json option) prog" where
  "html_of message = (if truthy_j (jget message ''html'') then ret (jget message ''html'')
     else case jget message ''text'' of
       None \<Rightarrow> ret None
     | Some JNull \<Rightarrow> ret None
     | Some (JStr t) \<Rightarrow> ret (Some (JStr (line_breaks t)))
     | Some _ \<Rightarrow> throw (new_Error ''message.text?.replace is not a function''))"

definition smtp_config :: "worker_env \<Rightarrow> notification_job \<Rightarrow> json \<Rightarrow> json \<Rightarrow> json \<Rightarrow> json" where
  "smtp_config E n smtpHost smtpUser smtpPass = JObj
     [(''host'', smtpHost),
      (''port'', js_parseInt (js_String (first_truthy [oget (nj_config n) ''smtpPort'', env_json E ''SMTP_PORT''] (JStr ''587'')))),
      (''secure'', first_truthy [oget (nj_config n) ''smtpSecure'', Some (JBool (we_var E ''SMTP_SECURE'' = Some ''true''))] (JBool False)),
      (''auth'', JObj [(''user'', smtpUser), (''pass'', smtpPass)])]"

definition send_email :: "worker_env \<Rightarrow> world \<Rightarrow> notification_job \<Rightarrow> json \<Rightarrow> (proc, json option) prog" where
  "send_email E W n message =
     (let c = nj_config n;
          smtpHost = first_truthy [oget c ''smtpHost'', env_json E ''SMTP_HOST''] JNull;
          smtpUser = first_truthy [oget c ''username'', oget c ''smtpUser'', env_json E ''SMTP_USER''] JNull;
          smtpPass = first_truthy [oget c ''password'', oget c ''smtpPassword'', env_json E ''SMTP_PASS''] JNull;
          rcpt = first_truthy [oget c ''to'', env_json E ''SMTP_TO''] JNull in
      if truthy_j (Some smtpHost) \<and> truthy_j (Some smtpUser) \<and> truthy_j (Some smtpPass)
      then bnd (html_of message) (\<lambda>html.
        if truthy_j (Some rcpt)
        then bnd (run_call W (Other ''sendMail'' (jobj [(''transport'', Some (smtp_config E n smtpHost smtpUser smtpPass)),
               (''from'', Some (first_truthy [oget c ''from'', env_json E ''SMTP_FROM''] smtpUser)), (''to'', Some rcpt),
               (''subject'', jget message ''subject''), (''text'', jget message ''text''), (''html'', html)]))) (\<lambda>info.
             ret (Some (jobj [(''success'', Some (JBool True)), (''platform'', Some (JStr ''email'')), (''messageId'', jget info ''messageId'')])))
        else ret None)
      else ret None)"

definition audit_record :: "worker_env \<Rightarrow> notification_job \<Rightarrow> json \<Rightarrow> json option \<Rightarrow> json \<Rightarrow> json" where
  "audit_record E n kind result message = jobj
     [(''backupJobId'', Some (or_j (nj_backupId n) JNull)), (''type'', Some kind),
      (''status'', Some (JStr (if truthy_j result then ''sent'' else ''skipped''))),
      (''recipient'', Some (first_truthy [oget (nj_config n) ''recipient'', oget (nj_config n) ''to'', oget (nj_config n) ''webhookUrl'',
          env_json E ''SMTP_TO'', env_json E ''SLACK_WEBHOOK_URL''] (JStr ''unconfigured''))),
      (''subject'', jget message ''subject''), (''message'', jget message ''text''), (''sentAt'', Some (we_now E))]"

definition notify_kind :: "worker_env \<Rightarrow> notification_job \<Rightarrow> json" where
  "notify_kind E n = or_j (nj_kind n) (JStr (if truthy_s (we_var E ''SLACK_WEBHOOK_URL'') then ''slack'' else ''email''))"

definition run_notification :: "worker_env \<Rightarrow> world \<Rightarrow> notification_job \<Rightarrow> (proc, json) prog" where
  "run_notification E W n =
     (let kind = notify_kind E n; message = or_j (nj_message n) (default_message E n) in
      bnd (if kind = JStr ''slack'' then send_slack E W n message
           else if kind = JStr ''email'' then send_email E W n message else ret None) (\<lambda>result.
      seqp (ignore_errors (seqp (recordNotification (we_client E) W (audit_record E n kind result message)) (ret ())))
        (ret (jobj [(''success'', Some (JBool True)), (''backupId'', nj_backupId n), (''result'', Some (or_null result))]))))"

definition handleNotificationJob :: "worker_env \<Rightarrow> world \<Rightarrow> notification_job \<Rightarrow> (proc, json) prog" where
  "handleNotificationJob E W n = try_catch (run_notification E W n) (\<lambda>e.
     seqp (ignore_errors (seqp (recordNotification (we_client E) W (JObj
        [(''backupJobId'', or_j (nj_backupId n) JNull), (''type'', JStr ''error''), (''status'', JStr ''failed''),
         (''subject'', JStr ''Notification Failure''), (''message'', JStr (err_message e)), (''sentAt'', we_now E)])) (ret ())))
       (ret (jobj [(''success'', Some (JBool False)), (''backupId'', nj_backupId n), (''error'', Some (JStr (err_message e)))])))"

end
