(* ===== verification/RestoreWorker.thy ===== *)
theory RestoreWorker
  imports BackupWorker
begin

text \<open>
  \<open>microservices/backup-worker/restore.worker.ts\<close> with the parts of
  \<open>infrastructure/crypto/aes256-crypto.service.ts\<close>, \<open>infrastructure/compression/gzip-compression.service.ts\<close>
  and \<open>storage-service/providers/s3.ts\<close> it runs: the processor of the restore queue.

  The file system, the AWS client and the cipher are calls to the world. \<open>temporaryFilesToClean\<close>
  outlives the \<open>try\<close> block, so it is part of the state. Columns of a backup record that the database
  declares as text are text or null; \<open>options.key\<close> and the fields of \<open>encryptionMetadata\<close> are text when present.
\<close>

record restore_env =
  re_worker :: worker_env
  re_host :: host_env
  re_cwd :: string
  re_duration :: json
  re_durationText :: string

record restore_job =
  rj_restoreId :: string
  rj_backupId :: "string option"
  rj_filePath :: "string option"
  rj_db :: json
  rj_options :: json

type_synonym 'a rprog = "(proc \<times> string list, 'a) prog"

section \<open>Files\<close>

definition exists_file :: "world \<Rightarrow> string \<Rightarrow> (proc, bool) prog" where
  "exists_file W p = bnd (ask W (FileOp ''existsSync'' [p])) (\<lambda>r. ret (r = Inr (JBool True)))"

text \<open>\<open>name.replace(/\.ext$/, '')\<close>\<close>

definition without_suffix :: "string \<Rightarrow> string \<Rightarrow> string" where
  "without_suffix ext s = (if ends_with s ext then take (length s - length ext) s else s)"

definition dquoted :: "string \<Rightarrow> string" where
  "dquoted s = [CHR 0x22] @ s @ [CHR 0x22]"

definition push_temp :: "string \<Rightarrow> unit rprog" where
  "push_temp f = (\<lambda>(p, ts). (Inr (), (p, ts @ [f])))"

section \<open>The services it uses\<close>

text \<open>\<open>S3StorageProvider.download\<close>: the target is opened before the reply is looked at.\<close>

definition s3_download :: "world \<Rightarrow> json \<Rightarrow> json option \<Rightarrow> string \<Rightarrow> (proc, unit) prog" where
  "s3_download W cfg remote local =
     bnd (run_call W (Other ''GetObject'' (jobj [(''provider'', Some cfg), (''Key'', remote)]))) (\<lambda>resp.
     seqp (ask W (FileOp ''createWriteStream'' [local]))
    (if \<not> truthy_j (jget resp ''Body'') then throw (new_Error ''No data received from S3'')
     else unit_call W (FileOp ''pipeline'' [local])))"

text \<open>\<open>AES256CryptoService.decryptFile\<close>: \<open>Buffer.from(undefined)\<close> throws, and every error becomes a
  \<open>DecryptionError\<close>.\<close>

definition DecryptionError :: "js_error \<Rightarrow> js_error" where
  "DecryptionError e = JsError ''RESTORE_EXECUTION_ERROR'' (if err_message e = '''' then ''Decryption failed'' else err_message e)"

definition buffer_from :: "string option \<Rightarrow> ('s, string) prog" where
  "buffer_from x = (case x of Some t \<Rightarrow> ret t | None \<Rightarrow> throw (JsError ''ERR_INVALID_ARG_TYPE''
     ''The first argument must be of type string or an instance of Buffer, ArrayBuffer, or Array or an Array-like Object. Received undefined''))"

definition decryptFile :: "world \<Rightarrow> string \<Rightarrow> string \<Rightarrow> string \<Rightarrow> string option \<Rightarrow> string option \<Rightarrow> (proc, unit) prog" where
  "decryptFile W inp out key iv tag = try_catch
     (bnd (buffer_from iv) (\<lambda>i. bnd (buffer_from tag) (\<lambda>t.
      seqp (unit_call W (Other ''createDecipheriv'' (JArr [JStr key, JStr i, JStr t])))
     (seqp (ask W (FileOp ''createWriteStream'' [out]))
       (unit_call W (FileOp ''pipeline'' [out, inp, key, i, t]))))))
     (\<lambda>e. throw (DecryptionError e))"

text \<open>\<open>GzipCompressionService.isCompressed\<close>: the first two bytes; unreadable files are not compressed.\<close>

definition isCompressed :: "world \<Rightarrow> string \<Rightarrow> (proc, bool) prog" where
  "isCompressed W p = bnd (ask W (FileOp ''readHeader'' [p])) (\<lambda>r. ret (case r of
     Inr (JStr (a # b # _)) \<Rightarrow> of_char a = (0x1F :: int) \<and> of_char b = (0x8B :: int) | _ \<Rightarrow> False))"

definition decompressFile :: "world \<Rightarrow> string \<Rightarrow> string \<Rightarrow> (proc, unit) prog" where
  "decompressFile W inp out =
     seqp (ask W (FileOp ''createWriteStream'' [out])) (unit_call W (FileOp ''pipeline'' [out, inp]))"

section \<open>The stages of a restore\<close>

definition restore_log :: "restore_env \<Rightarrow> world \<Rightarrow> string \<Rightarrow> string \<Rightarrow> string \<Rightarrow> string option \<Rightarrow> (proc, unit) prog" where
  "restore_log R W i level message details = seqp (addLog (we_client (re_worker R)) W i
     (jobj [(''level'', Some (JStr level)), (''message'', Some (JStr message)), (''details'', map_option JStr details)])) (ret ())"

definition log_id :: "restore_job \<Rightarrow> string" where
  "log_id j = or_s (rj_backupId j) (rj_restoreId j)"

text \<open>1. The record of the backup and the path of its file.\<close>

definition find_record :: "restore_env \<Rightarrow> world \<Rightarrow> restore_job \<Rightarrow> (proc, json option) prog" where
  "find_record R W j = (if \<not> truthy_s (rj_backupId j) then ret None
     else bnd (getJob (we_client (re_worker R)) W (the (rj_backupId j)) False) (\<lambda>r.
       if truthy_j (Some r) then ret (Some r)
       else throw (new_Error (''Backup with ID '' @ dquoted (the (rj_backupId j)) @ '' not found in metadata service.''))))"

definition first_path :: "restore_env \<Rightarrow> restore_job \<Rightarrow> json option \<Rightarrow> string" where
  "first_path R j r = (let p = or_s (rj_filePath j) (or_s (text_column r ''filePath'') '''') in
     if p \<noteq> '''' then resolveContainerStoragePath (re_host R) (Some p) else p)"

definition locate :: "restore_env \<Rightarrow> world \<Rightarrow> restore_job \<Rightarrow> json option \<Rightarrow> (proc, string) prog" where
  "locate R W j r = (let p = first_path R j r in
     bnd (if p = '''' then ret False else exists_file W p) (\<lambda>there.
     if \<not> there \<and> truthy_s (text_column r ''fileName'')
     then let candidate = path_join [or_s (BACKUP_PATH (re_host R)) ''/app/backups'', ''backups'', the (text_column r ''fileName'')] in
       bnd (exists_file W candidate) (\<lambda>c. ret (if c then candidate else p))
     else ret p))"

text \<open>2. Download.\<close>

definition kept_in_s3 :: "json option \<Rightarrow> bool" where
  "kept_in_s3 r \<longleftrightarrow> r \<noteq> None \<and> (oget r ''storageType'' = Some (JStr ''s3'') \<or> oget (oget r ''storageLocation'') ''type'' = Some (JStr ''s3''))"

definition download_config :: "json option \<Rightarrow> json" where
  "download_config l = jobj [(''type'', Some (JStr ''s3'')), (''bucket'', oget l ''bucket''),
     (''region'', Some (or_j (oget l ''region'') (JStr ''us-east-1''))), (''accessKey'', oget l ''accessKey''), (''secretKey'', oget l ''secretKey'')]"

definition download_path :: "restore_env \<Rightarrow> restore_job \<Rightarrow> json option \<Rightarrow> string" where
  "download_path R j r = path_resolve (re_cwd R) [or_s (we_var (re_worker R) ''TEMP_DIR'') ''./backups/temp'',
     ''restore_'' @ rj_restoreId j @ ''_'' @ or_s (text_column r ''fileName'') ''backup.dump'']"

definition download :: "restore_env \<Rightarrow> world \<Rightarrow> restore_job \<Rightarrow> json option \<Rightarrow> string \<Rightarrow> string rprog" where
  "download R W j r p = (if \<not> kept_in_s3 r then ret p
     else if \<not> truthy_j (oget r ''storageLocation'') then throw (new_Error ''Backup storage location metadata is missing for S3 download.'')
     else let target = download_path R j r in
       seqp (on_fst (updateProgress W 20))
      (seqp (on_fst (restore_log R W (log_id j) ''INFO'' ''Downloading backup artifact from cloud storage (S3)'' None))
      (seqp (on_fst (unit_call W (FileOp ''mkdirSync'' [path_dirname target])))
      (seqp (on_fst (s3_download W (download_config (oget r ''storageLocation''))
          (or_chain [oget r ''storagePath'', oget r ''fileName'']) target))
      (seqp (push_temp target) (ret target))))))"

text \<open>3. Checksum.\<close>

definition verify_checksum :: "restore_env \<Rightarrow> world \<Rightarrow> restore_job \<Rightarrow> json option \<Rightarrow> string \<Rightarrow> (proc, unit) prog" where
  "verify_checksum R W j r p = (case text_column r ''checksum'' of None \<Rightarrow> ret () | Some expected \<Rightarrow>
     if expected = '''' \<or> truthy_j (jget (rj_options j) ''skipChecksum'') then ret ()
     else bnd (run_call W (FileOp ''sha256'' [p])) (\<lambda>actual.
       if actual \<noteq> JStr expected
       then throw (new_Error (''Checksum mismatch. Expected '' @ expected @ '', computed '' @ js_String actual @ ''.''))
       else restore_log R W (log_id j) ''INFO'' ''Checksum verification passed'' None))"

text \<open>4. Decryption.\<close>

definition needs_key :: "restore_job \<Rightarrow> json option \<Rightarrow> bool" where
  "needs_key j r \<longleftrightarrow> truthy_j (oget r ''encrypted'') \<or> truthy_j (jget (rj_options j) ''key'')"

definition restore_key :: "restore_env \<Rightarrow> restore_job \<Rightarrow> string option" where
  "restore_key R j = or_so (text_column (Some (rj_options j)) ''key'') (we_var (re_worker R) ''BACKUP_ENCRYPTION_KEY'')"

definition decrypt_path :: "restore_env \<Rightarrow> restore_job \<Rightarrow> string \<Rightarrow> string" where
  "decrypt_path R j p = path_resolve (re_cwd R) [''/tmp'',
     ''restore_decrypted_'' @ rj_restoreId j @ ''_'' @ without_suffix ''.enc'' (path_basename p '''')]"

definition decrypt :: "restore_env \<Rightarrow> world \<Rightarrow> restore_job \<Rightarrow> json option \<Rightarrow> string \<Rightarrow> string rprog" where
  "decrypt R W j r p = (if \<not> needs_key j r then ret p
     else if \<not> truthy_s (restore_key R j) then throw (new_Error ''Backup is encrypted, but no decryption key was provided.'')
     else let out = decrypt_path R j p; m = oget r ''encryptionMetadata'' in
       seqp (on_fst (decryptFile W p out (the (restore_key R j)) (text_column m ''iv'') (text_column m ''tag'')))
      (seqp (push_temp out)
      (seqp (on_fst (restore_log R W (log_id j) ''INFO'' ''Backup decrypted successfully'' None)) (ret out))))"

text \<open>5. Decompression.\<close>

definition decompress_path :: "restore_env \<Rightarrow> restore_job \<Rightarrow> string \<Rightarrow> string" where
  "decompress_path R j p = path_resolve (re_cwd R) [''/tmp'',
     ''restore_decompressed_'' @ rj_restoreId j @ ''_'' @ without_suffix ''.gz'' (path_basename p '''')]"

definition decompress :: "restore_env \<Rightarrow> world \<Rightarrow> restore_job \<Rightarrow> string \<Rightarrow> string rprog" where
  "decompress R W j p = bnd (on_fst (isCompressed W p)) (\<lambda>c.
     if \<not> c then ret p
     else let out = decompress_path R j p in
       seqp (on_fst (decompressFile W p out))
      (seqp (push_temp out)
      (seqp (on_fst (restore_log R W (log_id j) ''INFO'' ''Backup decompressed successfully'' None)) (ret out))))"

text \<open>6. The database service restores the file.\<close>

definition dispatch :: "restore_env \<Rightarrow> world \<Rightarrow> restore_job \<Rightarrow> string \<Rightarrow> (proc, json) prog" where
  "dispatch R W j p = (let kind = tpl (jget (rj_db j) ''type'') in
     bnd (getServiceUrl (we_var (re_worker R)) (jget (rj_db j) ''type'')) (\<lambda>url.
     seqp (restore_log R W (log_id j) ''INFO'' (''Executing database restore via '' @ kind @ '' worker service'') None)
    (bnd (run_call W (Http ''POST'' (url @ ''/restore'')
        (JObj [(''dbConfig'', rj_db j), (''backupFilePath'', JStr p), (''options'', rj_options j)]))) (\<lambda>data.
     if \<not> truthy_j (Some data) \<or> \<not> truthy_j (jget data ''success'')
     then throw (new_Error (js_String (or_j (jget data ''error'') (JStr (kind @ '' restore execution failed'')))))
     else seqp (updateProgress W 100)
       (seqp (restore_log R W (log_id j) ''INFO'' (''Restore completed successfully in '' @ re_durationText R @ ''s'') None)
         (ret (JObj [(''success'', JBool True), (''restoreId'', JStr (rj_restoreId j)), (''duration'', re_duration R)])))))))"

section \<open>The processor\<close>

definition missing_file :: "string \<Rightarrow> js_error" where
  "missing_file p = new_Error (''Backup file not found at path: '' @ p)"

text \<open>Stages 1 and 2: the record of the backup and a file that exists.\<close>

definition fetch_file :: "restore_env \<Rightarrow> world \<Rightarrow> restore_job \<Rightarrow> (json option \<times> string) rprog" where
  "fetch_file R W j =
     seqp (on_fst (updateProgress W 10))
    (bnd (on_fst (find_record R W j)) (\<lambda>r.
     bnd (on_fst (locate R W j r)) (\<lambda>p0.
     bnd (download R W j r p0) (\<lambda>p.
     bnd (if p = '''' then ret False else on_fst (exists_file W p)) (\<lambda>there.
     if there then ret (r, p) else throw (missing_file p))))))"

text \<open>Stages 3 to 5: the file that may be given to the database.\<close>

definition unpack_file :: "restore_env \<Rightarrow> world \<Rightarrow> restore_job \<Rightarrow> json option \<Rightarrow> string \<Rightarrow> string rprog" where
  "unpack_file R W j r p =
     seqp (on_fst (updateProgress W 35))
    (seqp (on_fst (verify_checksum R W j r p))
    (bnd (decrypt R W j r p) (\<lambda>d.
     bnd (decompress R W j d) (\<lambda>q.
     seqp (on_fst (updateProgress W 50)) (ret q)))))"

definition prepare :: "restore_env \<Rightarrow> world \<Rightarrow> restore_job \<Rightarrow> string rprog" where
  "prepare R W j = bnd (fetch_file R W j) (\<lambda>(r, p). unpack_file R W j r p)"

definition run_restore :: "restore_env \<Rightarrow> world \<Rightarrow> restore_job \<Rightarrow> json rprog" where
  "run_restore R W j = bnd (prepare R W j) (\<lambda>p. on_fst (dispatch R W j p))"

text \<open>The \<open>finally\<close> block: a temporary file that is there is removed, and errors are ignored.\<close>

definition clean_file :: "world \<Rightarrow> string \<Rightarrow> (proc, unit) prog" where
  "clean_file W p = bnd (exists_file W p) (\<lambda>there.
     if there then ignore_errors (unit_call W (FileOp ''unlinkSync'' [p])) else ret ())"

definition clean_temps :: "world \<Rightarrow> unit rprog" where
  "clean_temps W = bnd (gets snd) (\<lambda>ts. for_each ts (\<lambda>p. on_fst (clean_file W p)))"

definition with_temps :: "'a rprog \<Rightarrow> (proc, 'a) prog" where
  "with_temps m = (\<lambda>p. case m (p, []) of (r, (p', ts)) \<Rightarrow> (r, p'))"

definition handleRestoreJob :: "restore_env \<Rightarrow> world \<Rightarrow> restore_job \<Rightarrow> (proc, json) prog" where
  "handleRestoreJob R W j =
     seqp (restore_log R W (log_id j) ''INFO''
        (''Restore operation started for '' @ tpl (jget (rj_db j) ''type'') @ ''/'' @ tpl (jget (rj_db j) ''database''))
        (Some (''Restore ID: '' @ rj_restoreId j)))
    (with_temps (try_finally
      (try_catch (run_restore R W j) (\<lambda>e.
         seqp (on_fst (restore_log R W (log_id j) ''ERROR'' (''Restore failed: '' @ err_message e) None)) (throw e)))
      (clean_temps W)))"

end
