(* ===== verification/ClientCorrect.thy ===== *)
theory ClientCorrect
  imports MetadataClient MetadataService
begin

text \<open>
  What a call through the metadata client costs, and what it makes of the replies of the metadata
  service: the number of requests and the waiting time are bounded for every world, a reply 404 is
  "no such row" for storage locations only.
\<close>

section \<open>How often a request is sent\<close>

fun is_http :: "call \<Rightarrow> bool" where
  "is_http (Http _ _ _) = True"
| "is_http _ = False"

fun sleep_of :: "call \<Rightarrow> int list" where
  "sleep_of (Sleep n) = [n]"
| "sleep_of _ = []"

definition sends :: "call list \<Rightarrow> nat" where
  "sends cs = length (filter is_http cs)"

definition sleeps :: "call list \<Rightarrow> int list" where
  "sleeps cs = concat (map sleep_of cs)"

lemma sends_append [simp]: "sends (a @ b) = sends a + sends b"
  by (simp add: sends_def)

lemma sends_Nil [simp]: "sends [] = 0"
  by (simp add: sends_def)

lemma sleeps_append [simp]: "sleeps (a @ b) = sleeps a @ sleeps b"
  by (simp add: sleeps_def)

lemma sleeps_Nil [simp]: "sleeps [] = []"
  by (simp add: sleeps_def)

lemma calls_simps [simp]:
  "sends (c # cs) = (if is_http c then 1 else 0) + sends cs" "sleeps (c # cs) = sleep_of c @ sleeps cs"
  by (simp_all add: sends_def sleeps_def)

definition back_off :: "int \<Rightarrow> nat \<Rightarrow> nat \<Rightarrow> int list" where
  "back_off d a k = map (\<lambda>i. d * 2 ^ (a - 1 + i)) [0..<k]"

lemma back_off_Suc: "d * 2 ^ (a - 1) # back_off d (Suc a) k = back_off d a (Suc k)" if "0 < a"
proof -
  have "map (\<lambda>i. d * 2 ^ (a - 1 + i)) [0..<Suc k] = d * 2 ^ (a - 1) # map (\<lambda>i. d * 2 ^ (a - 1 + Suc i)) [0..<k]"
    by (simp add: map_upt_Suc del: upt_Suc)
  moreover have "map (\<lambda>i. d * 2 ^ (a - 1 + Suc i)) [0..<k] = back_off d (Suc a) k"
    using that by (cases a) (simp_all add: back_off_def)
  moreover have "back_off d a (Suc k) = map (\<lambda>i. d * 2 ^ (a - 1 + i)) [0..<Suc k]" by (simp only: back_off_def)
  ultimately show ?thesis by simp
qed

lemma sum_back_off: "sum_list (back_off d 1 k) = d * (2 ^ k - 1)"
  by (induction k) (simp_all add: back_off_def algebra_simps)

text \<open>One attempt, with the fallback it may still have.\<close>

definition spare :: "meta_client \<Rightarrow> proc \<Rightarrow> nat" where
  "spare C s = (if baseUrl s = mc_gatewayUrl C then 0 else 1)"

lemma client_call_run: "client_call W m path p s =
    (Inr (W (calls s) (Http m (baseUrl s @ path) p)), s\<lparr>calls := calls s @ [Http m (baseUrl s @ path) p]\<rparr>)"
  by (simp add: client_call_def http_def ask_def bnd_def gets_def)

text \<open>The calls of a request: the same HTTP call on some base URL, first of all, and pauses.\<close>

definition request_shape :: "string \<Rightarrow> json \<Rightarrow> call list \<Rightarrow> bool" where
  "request_shape m p new \<longleftrightarrow> (\<exists>u rest. new = Http m u p # rest \<and> (\<forall>c\<in>set rest. (\<exists>u. c = Http m u p) \<or> (\<exists>n. c = Sleep n)))"

lemma fallback_run:
  "\<exists>r new b. fallback C (client_call W m path p) f s = (Inr r, s\<lparr>calls := calls s @ new, baseUrl := b\<rparr>) \<and>
     sends new + spare C (s\<lparr>baseUrl := b\<rparr>) \<le> spare C s \<and> sleeps new = [] \<and> (\<forall>c\<in>set new. \<exists>u. c = Http m u p)"
proof (cases "wants_gateway C f (baseUrl s)")
  case True
  then have "spare C s = 1" by (simp add: wants_gateway_def spare_def)
  with True show ?thesis
    by (intro exI [of _ "W (calls s) (Http m (mc_gatewayUrl C @ path) p)"] exI [of _ "[Http m (mc_gatewayUrl C @ path) p]"]
        exI [of _ "mc_gatewayUrl C"]) (simp add: fallback_def bnd_def gets_def modify_st_def client_call_run spare_def)
next
  case False
  then show ?thesis
    by (intro exI [of _ "Inl f"] exI [of _ "[]"] exI [of _ "baseUrl s"]) (simp add: fallback_def bnd_def gets_def ret_def)
qed

lemma update_swap: "s\<lparr>baseUrl := b, calls := c\<rparr> = s\<lparr>calls := c, baseUrl := b\<rparr>"
  by simp

lemma request_outcome_bound:
  assumes "0 < a"
  shows "\<exists>r new b k. request_outcome C W (client_call W m path p) op a s = (Inr r, s\<lparr>calls := calls s @ new, baseUrl := b\<rparr>) \<and>
    int k \<le> max 0 (mc_maxRetries C + 1 - int a) \<and> sends new \<le> k + 1 + spare C s \<and> sleeps new = back_off (mc_retryDelayMs C) a k \<and>
    request_shape m p new"
  using assms
proof (induction "nat (mc_maxRetries C + 1 - int a)" arbitrary: a s rule: less_induct)
  case less
  let ?c = "Http m (baseUrl s @ path) p"
  let ?s1 = "s\<lparr>calls := calls s @ [?c]\<rparr>"
  show ?case
  proof (cases "W (calls s) ?c")
    case (Inr v)
    then show ?thesis
      by (intro exI [of _ "Inr v"] exI [of _ "[?c]"] exI [of _ "baseUrl s"] exI [of _ 0])
        (simp add: request_outcome.simps [of C W _ op a] bnd_def client_call_run ret_def back_off_def request_shape_def)
  next
    case (Inl f)
    obtain r new b where fb: "fallback C (client_call W m path p) f ?s1 = (Inr r, ?s1\<lparr>calls := calls ?s1 @ new, baseUrl := b\<rparr>)"
      and n: "sends new + spare C (?s1\<lparr>baseUrl := b\<rparr>) \<le> spare C ?s1" "sleeps new = []" "\<forall>c\<in>set new. \<exists>u. c = Http m u p"
      using fallback_run [of C W m path p f ?s1] by blast
    have sp: "spare C ?s1 = spare C s" "spare C (x\<lparr>calls := y, baseUrl := b\<rparr>) = spare C (?s1\<lparr>baseUrl := b\<rparr>)" for x y
      by (simp_all add: spare_def)
    have head: "request_outcome C W (client_call W m path p) op a s = (case r of Inr v \<Rightarrow> ret (Inr v) | Inl g \<Rightarrow>
         if network_or_timeout f \<and> int a \<le> mc_maxRetries C
         then seqp (ask W (Sleep (mc_retryDelayMs C * 2 ^ (a - 1)))) (request_outcome C W (client_call W m path p) op (Suc a))
         else ret (Inl (request_error f g op))) (s\<lparr>calls := calls s @ ?c # new, baseUrl := b\<rparr>)"
      using fb Inl by (simp add: request_outcome.simps [of C W _ op a] bnd_def client_call_run)
    show ?thesis
    proof (cases "\<exists>g. r = Inl g \<and> network_or_timeout f \<and> int a \<le> mc_maxRetries C")
      case False
      then obtain x where "request_outcome C W (client_call W m path p) op a s = (Inr x, s\<lparr>calls := calls s @ ?c # new, baseUrl := b\<rparr>)"
        unfolding head by (cases r) (auto simp: ret_def)
      moreover have "sends (?c # new) \<le> 0 + 1 + spare C s" "sleeps (?c # new) = []"
        using n sp(1) sends_append [of "[?c]" new] sleeps_append [of "[?c]" new] by simp_all
      ultimately show ?thesis by (intro exI [of _ x] exI [of _ "?c # new"] exI [of _ b] exI [of _ 0])
        (use n(3) in \<open>simp add: back_off_def request_shape_def\<close>)
    next
      case True
      let ?sl = "Sleep (mc_retryDelayMs C * 2 ^ (a - 1))"
      let ?s2 = "s\<lparr>calls := calls s @ ?c # new @ [?sl], baseUrl := b\<rparr>"
      have "nat (mc_maxRetries C + 1 - int (Suc a)) < nat (mc_maxRetries C + 1 - int a)" using True by auto
      from less.hyps [OF this, of ?s2] obtain x more b' k where
        rec: "request_outcome C W (client_call W m path p) op (Suc a) ?s2 = (Inr x, ?s2\<lparr>calls := calls ?s2 @ more, baseUrl := b'\<rparr>)"
        and k: "int k \<le> max 0 (mc_maxRetries C + 1 - int (Suc a))" "sends more \<le> k + 1 + spare C ?s2"
          "sleeps more = back_off (mc_retryDelayMs C) (Suc a) k" "request_shape m p more" by auto
      have run: "request_outcome C W (client_call W m path p) op a s = (Inr x, s\<lparr>calls := calls s @ ?c # new @ [?sl] @ more, baseUrl := b'\<rparr>)"
        using head True rec by (auto simp: bnd_def ask_def update_swap)
      have "sends ([?c] @ new @ [?sl] @ more) \<le> Suc k + 1 + spare C s"
        using n k(2) by (simp add: spare_def)
      moreover have "sleeps ([?c] @ new @ [?sl] @ more) = back_off (mc_retryDelayMs C) a (Suc k)"
        using n k(3) back_off_Suc [OF less.prems, of "mc_retryDelayMs C" k] by simp
      moreover have "int (Suc k) \<le> max 0 (mc_maxRetries C + 1 - int a)" using k(1) True by auto
      moreover have "request_shape m p ([?c] @ new @ [?sl] @ more)"
        using n(3) k(4) by (auto simp: request_shape_def)
      ultimately show ?thesis
        using run by (intro exI [of _ x] exI [of _ "?c # new @ [?sl] @ more"] exI [of _ b'] exI [of _ "Suc k"]) simp
    qed
  qed
qed


lemma request_run:
  "\<exists>r new b. request C W m path p op s = (r, s\<lparr>calls := calls s @ new, baseUrl := b\<rparr>) \<and> request_shape m p new"
proof -
  obtain r new b where run: "request_outcome C W (client_call W m path p) op 1 s = (Inr r, s\<lparr>calls := calls s @ new, baseUrl := b\<rparr>)"
    "request_shape m p new" using request_outcome_bound [of 1 C W m path p op s] by auto
  then show ?thesis
    by (cases r) (auto simp: request_def bnd_def throw_request_def throw_def ret_def)
qed

section \<open>Replies of the metadata service\<close>

text \<open>A reply with a status that is no gateway error is final.\<close>

definition refused :: "int \<Rightarrow> json \<Rightarrow> failure" where
  "refused st b = \<lparr>f_code = ''ERR_BAD_REQUEST'', f_message = ''Request failed with status code '' @ str_int st,
     f_axios = True, f_response = Some (st, b)\<rparr>"

lemma refused_simps [simp]:
  "f_code (refused st b) = ''ERR_BAD_REQUEST''" "f_axios (refused st b)" "f_response (refused st b) = Some (st, b)"
  by (simp_all add: refused_def)

lemma request_outcome_refused:
  assumes "W (calls s) (Http m (baseUrl s @ path) p) = Inl (refused st b)" and "\<not> (502 \<le> st \<and> st \<le> 504)"
  shows "request_outcome C W (client_call W m path p) op a s =
    (Inr (Inl (request_error (refused st b) (refused st b) op)), s\<lparr>calls := calls s @ [Http m (baseUrl s @ path) p]\<rparr>)"
  using assms
  by (auto simp: request_outcome.simps [of C W _ op a] bnd_def client_call_run fallback_def gets_def ret_def
      wants_gateway_def network_or_timeout_def)

lemma request_error_refused:
  "b \<noteq> [] \<Longrightarrow> request_error (refused st (error_body b)) (refused st (error_body b)) op =
    \<lparr>re_message = op @ '' failed: '' @ b, re_status = Some st\<rparr>"
  by (simp add: request_error_def error_body_def server_error_def Let_def)

lemma not_includes: "c \<in> set t \<Longrightarrow> c \<notin> set s \<Longrightarrow> \<not> str_includes s t"
  by (auto simp: str_includes_def dest: set_mono_sublist)

lemma get_or_null_missing:
  assumes "W (calls s) (Http ''GET'' (baseUrl s @ path) p) = Inl (refused 404 (error_body b))"
    and "b \<noteq> []" and "CHR ''H'' \<notin> set b" and "CHR ''H'' \<notin> set op"
  shows "get_or_null C W path p op s = (Inl (new_Error (op @ '' failed: '' @ b)),
    s\<lparr>calls := calls s @ [Http ''GET'' (baseUrl s @ path) p]\<rparr>)"
proof -
  have "\<not> str_includes (op @ '' failed: '' @ b) ''HTTP 404''"
    using assms(3,4) by (intro not_includes [of "CHR ''H''"]) auto
  then show ?thesis
    using request_outcome_refused [where W = W and s = s and m = "''GET''" and path = path and p = p, OF assms(1)] assms(2)
    by (simp add: get_or_null_def bnd_def request_error_refused throw_request_def throw_def)
qed

lemma request_ok:
  "W (calls s) (Http m (baseUrl s @ path) p) = Inr v \<Longrightarrow> request C W m path p op s = (Inr v, s\<lparr>calls := calls s @ [Http m (baseUrl s @ path) p]\<rparr>)"
  "W (calls s) (Http ''GET'' (baseUrl s @ path) p) = Inr v \<Longrightarrow> get_or_null C W path p op s = (Inr v, s\<lparr>calls := calls s @ [Http ''GET'' (baseUrl s @ path) p]\<rparr>)"
  by (simp_all add: request_def get_or_null_def request_outcome.simps [of C W _ op "Suc 0"] bnd_def client_call_run ret_def)

lemma getJob_missing:
  assumes "W (calls s) (Http ''GET'' (baseUrl s @ ''/api/jobs/'' @ encodeURIComponent i) (with_params (JObj [(''includeLogs'', JBool b)])))
      = Inl (refused (rs_status (not_found ''Backup job '' i '' not found'')) (rs_body (not_found ''Backup job '' i '' not found'')))"
    and "CHR ''H'' \<notin> set i"
  shows "\<exists>e s'. getJob C W i b s = (Inl e, s')"
  unfolding getJob_def
  by (subst get_or_null_missing [where b = "''Backup job '' @ quoted i @ '' not found''"])
    (use assms in \<open>auto simp: not_found_def quoted_def\<close>)

lemma not_found_body: "rs_status (not_found pre i post) = 404" "rs_body (not_found pre i post) = error_body (pre @ quoted i @ post)"
  by (simp_all add: not_found_def quoted_def)

section \<open>Properties\<close>

text \<open>C23: Every call through the metadata client ends, whatever the network does: with k retries, at most
  the configured number, it sends at most k + 2 requests (one of them the single switch to the
  gateway) and waits d, 2d, 4d, ... between them, (2^k - 1) d milliseconds altogether.\<close>

theorem request_bounded:
  "\<exists>new k. calls (snd (request C W m path p op s)) = calls s @ new \<and> k \<le> nat (mc_maxRetries C) \<and>
     sends new \<le> k + 2 \<and> sleeps new = map (\<lambda>i. mc_retryDelayMs C * 2 ^ i) [0..<k] \<and>
     sum_list (sleeps new) = mc_retryDelayMs C * (2 ^ k - 1)"
proof -
  obtain r new b k where run: "request_outcome C W (client_call W m path p) op 1 s = (Inr r, s\<lparr>calls := calls s @ new, baseUrl := b\<rparr>)"
    and k: "int k \<le> max 0 (mc_maxRetries C + 1 - int 1)" "sends new \<le> k + 1 + spare C s"
      "sleeps new = back_off (mc_retryDelayMs C) 1 k" using request_outcome_bound [of 1 C W m path p op s] by auto
  have "spare C s \<le> 1" by (simp add: spare_def)
  with k have "k \<le> nat (mc_maxRetries C)" "sends new \<le> k + 2" by auto
  moreover have "sum_list (sleeps new) = mc_retryDelayMs C * (2 ^ k - 1)" unfolding k(3) by (rule sum_back_off)
  moreover have "sleeps new = map (\<lambda>i. mc_retryDelayMs C * 2 ^ i) [0..<k]" unfolding k(3) by (simp add: back_off_def)
  moreover have "calls (snd (request C W m path p op s)) = calls s @ new"
    using run by (cases r) (simp_all add: request_def bnd_def throw_request_def throw_def ret_def)
  ultimately show ?thesis by blast
qed

text \<open>The service's reply 404 for a missing row is "null" to callers that look up a storage location, but
  an error to callers that look up a job, a schedule or a notification configuration: the client searches
  the text for "HTTP 404", which the service's own message replaces.\<close>

lemma missing_rows_throw:
  assumes job: "W (calls s) (Http ''GET'' (baseUrl s @ ''/api/jobs/'' @ encodeURIComponent i) (with_params (JObj [(''includeLogs'', JBool b)])))
      = Inl (refused (rs_status (not_found ''Backup job '' i '' not found'')) (rs_body (not_found ''Backup job '' i '' not found'')))"
    and sched: "W (calls s) (Http ''GET'' (baseUrl s @ ''/api/schedules/'' @ encodeURIComponent i) no_params)
      = Inl (refused (rs_status (not_found ''Schedule '' i '' not found'')) (rs_body (not_found ''Schedule '' i '' not found'')))"
    and stor: "W (calls s) (Http ''GET'' (baseUrl s @ ''/api/storage/'' @ encodeURIComponent i) no_params)
      = Inl (refused (rs_status (no_storage i)) (rs_body (no_storage i)))"
    and plain: "CHR ''H'' \<notin> set i"
  shows "isl (fst (getJob C W i b s)) \<and> isl (fst (getSchedule C W i s)) \<and> fst (getStorage C W i s) = Inr JNull"
proof -
  have "isl (fst (getJob C W i b s))"
    using getJob_missing [where W = W and s = s, OF job plain, of C] by auto
  moreover have "isl (fst (getSchedule C W i s))"
    unfolding getSchedule_def
    by (subst get_or_null_missing [where b = "''Schedule '' @ quoted i @ '' not found''"])
      (use sched plain in \<open>auto simp: not_found_body quoted_def\<close>)
  moreover have "fst (getStorage C W i s) = Inr JNull"
    unfolding getStorage_def get_storage_or_null_def using stor
    by (simp add: bnd_def no_storage_def not_found_body request_outcome_refused request_error_refused ret_def)
  ultimately show ?thesis by blast
qed


section \<open>A service without rows\<close>

fun empty_service :: world where
  "empty_service cs (Http m u p) = Inl (refused 404 (
     if u = ''http://m/api/jobs/x'' then error_body (''Backup job '' @ quoted ''x'' @ '' not found'')
     else if u = ''http://m/api/schedules/x'' then error_body (''Schedule '' @ quoted ''x'' @ '' not found'')
     else error_body (''Storage location '' @ quoted ''x'' @ '' not found'')))"
| "empty_service cs c = Inr JNull"

definition sample_client :: meta_client where
  "sample_client = fst (new_client (Some ''http://m'') None None None None)"

definition sample_proc :: proc where
  "sample_proc = \<lparr>calls = [], baseUrl = ''http://m''\<rparr>"

lemma missing_rows_throw_witness:
  "isl (fst (getJob sample_client empty_service ''x'' False sample_proc)) \<and>
   fst (getStorage sample_client empty_service ''x'' sample_proc) = Inr JNull"
  using missing_rows_throw [of empty_service sample_proc "''x''" False sample_client]
  by (simp add: sample_proc_def not_found_body no_storage_def encodeURIComponent_def uri_safe_def quoted_def)

end
