(* ===== verification/Traces.thy ===== *)
theory Traces
  imports ClientCorrect
begin

text \<open>
  What a program of a service does to the log of its calls, in every world. \<open>traces m R\<close> relates the
  log before a run, its outcome and the calls it adds; \<open>only P m\<close> says that every call added
  satisfies \<open>P\<close>. The rules follow the structure of programs (collection \<open>only\<close>).
\<close>

section \<open>Traces\<close>

definition traces :: "(proc, 'a) prog \<Rightarrow> (call list \<Rightarrow> js_error + 'a \<Rightarrow> call list \<Rightarrow> bool) \<Rightarrow> bool" where
  "traces m R \<longleftrightarrow> (\<forall>s. \<exists>new r b. m s = (r, s\<lparr>calls := calls s @ new, baseUrl := b\<rparr>) \<and> R (calls s) r new)"

lemma tracesI: "(\<And>s. \<exists>new r b. m s = (r, s\<lparr>calls := calls s @ new, baseUrl := b\<rparr>) \<and> R (calls s) r new) \<Longrightarrow> traces m R"
  by (simp add: traces_def)

lemma tracesE:
  assumes "traces m R"
  obtains new r b where "m s = (r, s\<lparr>calls := calls s @ new, baseUrl := b\<rparr>)" and "R (calls s) r new"
  using assms unfolding traces_def by blast

lemma tracesD: "traces m R \<Longrightarrow> m s = (r, s') \<Longrightarrow> \<exists>new. calls s' = calls s @ new \<and> R (calls s) r new"
  by (erule tracesE [where s = s]) auto

lemma traces_mono: "traces m R \<Longrightarrow> (\<And>l r new. R l r new \<Longrightarrow> R' l r new) \<Longrightarrow> traces m R'"
  unfolding traces_def by blast

lemma traces_bnd:
  assumes "traces m R" and "\<And>x. traces (k x) (S x)"
    and "\<And>l e new. R l (Inl e) new \<Longrightarrow> Q l (Inl e) new"
    and "\<And>l x a r b. R l (Inr x) a \<Longrightarrow> S x (l @ a) r b \<Longrightarrow> Q l r (a @ b)"
  shows "traces (bnd m k) Q"
proof (rule tracesI)
  fix s
  obtain new r b where m: "m s = (r, s\<lparr>calls := calls s @ new, baseUrl := b\<rparr>)" "R (calls s) r new"
    using assms(1) by (rule tracesE)
  show "\<exists>new r b. bnd m k s = (r, s\<lparr>calls := calls s @ new, baseUrl := b\<rparr>) \<and> Q (calls s) r new"
  proof (cases r)
    case (Inl e)
    with m assms(3) show ?thesis by (intro exI [of _ new] exI [of _ "Inl e"] exI [of _ b]) (simp add: bnd_def)
  next
    case (Inr x)
    let ?t = "s\<lparr>calls := calls s @ new, baseUrl := b\<rparr>"
    obtain new' r' b' where k: "k x ?t = (r', ?t\<lparr>calls := calls ?t @ new', baseUrl := b'\<rparr>)" "S x (calls ?t) r' new'"
      using assms(2) by (rule tracesE)
    with m Inr assms(4) [of "calls s" x new r' new'] show ?thesis
      by (intro exI [of _ "new @ new'"] exI [of _ r'] exI [of _ b']) (simp add: bnd_def)
  qed
qed

lemma traces_pure: "(\<And>s. m s = (r, s)) \<Longrightarrow> (\<And>l. Q l r []) \<Longrightarrow> traces m Q"
proof (rule tracesI)
  fix s assume "\<And>s. m s = (r, s)" "\<And>l. Q l r []"
  then show "\<exists>new r b. m s = (r, s\<lparr>calls := calls s @ new, baseUrl := b\<rparr>) \<and> Q (calls s) r new"
    by (intro exI [of _ "[]"] exI [of _ r] exI [of _ "baseUrl s"]) simp
qed

lemma traces_ret: "(\<And>l. Q l (Inr x) []) \<Longrightarrow> traces (ret x) Q"
  by (rule traces_pure) (simp_all add: ret_def)

lemma traces_throw: "(\<And>l. Q l (Inl e) []) \<Longrightarrow> traces (throw e) Q"
  by (rule traces_pure) (simp_all add: throw_def)

lemma traces_if: "(c \<Longrightarrow> traces m Q) \<Longrightarrow> (\<not> c \<Longrightarrow> traces n Q) \<Longrightarrow> traces (if c then m else n) Q"
  by simp

lemma traces_try_catch:
  assumes "traces m R" and "\<And>e. traces (h e) (S e)"
    and "\<And>l x new. R l (Inr x) new \<Longrightarrow> Q l (Inr x) new"
    and "\<And>l e a r b. R l (Inl e) a \<Longrightarrow> S e (l @ a) r b \<Longrightarrow> Q l r (a @ b)"
  shows "traces (try_catch m h) Q"
proof (rule tracesI)
  fix s
  obtain new r b where m: "m s = (r, s\<lparr>calls := calls s @ new, baseUrl := b\<rparr>)" "R (calls s) r new"
    using assms(1) by (rule tracesE)
  show "\<exists>new r b. try_catch m h s = (r, s\<lparr>calls := calls s @ new, baseUrl := b\<rparr>) \<and> Q (calls s) r new"
  proof (cases r)
    case (Inr x)
    with m assms(3) show ?thesis by (intro exI [of _ new] exI [of _ "Inr x"] exI [of _ b]) (simp add: try_catch_def)
  next
    case (Inl e)
    let ?t = "s\<lparr>calls := calls s @ new, baseUrl := b\<rparr>"
    obtain new' r' b' where k: "h e ?t = (r', ?t\<lparr>calls := calls ?t @ new', baseUrl := b'\<rparr>)" "S e (calls ?t) r' new'"
      using assms(2) by (rule tracesE)
    with m Inl assms(4) [of "calls s" e new r' new'] show ?thesis
      by (intro exI [of _ "new @ new'"] exI [of _ r'] exI [of _ b']) (simp add: try_catch_def)
  qed
qed

lemma traces_ask: "(\<And>l. Q l (Inr (W l c)) [c]) \<Longrightarrow> traces (ask W c) Q"
proof (rule tracesI)
  fix s assume "\<And>l. Q l (Inr (W l c)) [c]"
  then show "\<exists>new r b. ask W c s = (r, s\<lparr>calls := calls s @ new, baseUrl := b\<rparr>) \<and> Q (calls s) r new"
    by (intro exI [of _ "[c]"] exI [of _ "Inr (W (calls s) c)"] exI [of _ "baseUrl s"]) (simp add: ask_def)
qed

lemma traces_run_call:
  assumes "\<And>l f. W l c = Inl f \<Longrightarrow> Q l (Inl (error_of f)) [c]" and "\<And>l v. W l c = Inr v \<Longrightarrow> Q l (Inr v) [c]"
  shows "traces (run_call W c) Q"
  unfolding run_call_def
proof (rule traces_bnd)
  show "traces (ask W c) (\<lambda>l r new. r = Inr (W l c) \<and> new = [c])" by (rule traces_ask) simp
  show "traces (case x of Inl f \<Rightarrow> throw (error_of f) | Inr v \<Rightarrow> ret v)
      (\<lambda>l r new. new = [] \<and> (case x of Inl f \<Rightarrow> r = Inl (error_of f) | Inr v \<Rightarrow> r = Inr v))" for x
    by (cases x) (auto intro: traces_throw traces_ret)
qed (auto intro: assms split: sum.splits)

section \<open>Calls of one kind only\<close>

definition only :: "(call \<Rightarrow> bool) \<Rightarrow> (proc, 'a) prog \<Rightarrow> bool" where
  "only P m \<longleftrightarrow> traces m (\<lambda>l r new. \<forall>c\<in>set new. P c)"

named_theorems only

lemma onlyI: "(\<And>s. \<exists>new r b. m s = (r, s\<lparr>calls := calls s @ new, baseUrl := b\<rparr>) \<and> (\<forall>c\<in>set new. P c)) \<Longrightarrow> only P m"
  by (simp add: only_def traces_def)

lemma only_bnd [only]: "only P m \<Longrightarrow> (\<And>x. only P (k x)) \<Longrightarrow> only P (bnd m k)"
  unfolding only_def
  by (rule traces_bnd [where R = "\<lambda>l r new. \<forall>c\<in>set new. P c" and S = "\<lambda>x l r new. \<forall>c\<in>set new. P c"]) auto

lemma only_ret [only]: "only P (ret x)"
  unfolding only_def by (rule traces_ret) simp

lemma only_throw [only]: "only P (throw e)"
  unfolding only_def by (rule traces_throw) simp

lemma only_if [only]: "only P m \<Longrightarrow> only P n \<Longrightarrow> only P (if c then m else n)"
  by simp

lemma only_try_catch [only]: "only P m \<Longrightarrow> (\<And>e. only P (h e)) \<Longrightarrow> only P (try_catch m h)"
  unfolding only_def
  by (rule traces_try_catch [where R = "\<lambda>l r new. \<forall>c\<in>set new. P c" and S = "\<lambda>x l r new. \<forall>c\<in>set new. P c"]) auto

lemma only_ignore [only]: "only P m \<Longrightarrow> only P (ignore_errors m)"
  unfolding ignore_errors_def by (intro only)

lemma only_ask [only]: "P c \<Longrightarrow> only P (ask W c)"
  unfolding only_def by (rule traces_ask) simp

lemma only_run_call [only]: "P c \<Longrightarrow> only P (run_call W c)"
  unfolding only_def by (rule traces_run_call) simp_all

lemma only_unit_call [only]: "P c \<Longrightarrow> only P (unit_call W c)"
  unfolding unit_call_def by (intro only)

lemma only_for_each [only]: "(\<And>x. only P (f x)) \<Longrightarrow> only P (for_each xs f)"
  by (induction xs) (auto intro: only)

lemma request_shape_all: "request_shape m p new \<Longrightarrow> (\<And>u. P (Http m u p)) \<Longrightarrow> (\<And>n. P (Sleep n)) \<Longrightarrow> \<forall>c\<in>set new. P c"
  unfolding request_shape_def by fastforce

lemma only_request_outcome [only]:
  assumes "\<And>u. P (Http m u p)" and "\<And>n. P (Sleep n)" and "0 < a"
  shows "only P (request_outcome C W (client_call W m path p) op a)"
proof (rule onlyI)
  fix s
  obtain r new b where "request_outcome C W (client_call W m path p) op a s = (Inr r, s\<lparr>calls := calls s @ new, baseUrl := b\<rparr>)"
    "request_shape m p new" using request_outcome_bound [OF assms(3)] by blast
  with request_shape_all assms(1,2) show "\<exists>new r b. request_outcome C W (client_call W m path p) op a s =
      (r, s\<lparr>calls := calls s @ new, baseUrl := b\<rparr>) \<and> (\<forall>c\<in>set new. P c)" by blast
qed

lemma only_request [only]:
  assumes "\<And>u. P (Http m u p)" and "\<And>n. P (Sleep n)"
  shows "only P (request C W m path p op)"
proof (rule onlyI)
  fix s
  obtain r new b where "request C W m path p op s = (r, s\<lparr>calls := calls s @ new, baseUrl := b\<rparr>)" "request_shape m p new"
    using request_run by blast
  with request_shape_all assms show "\<exists>new r b. request C W m path p op s =
      (r, s\<lparr>calls := calls s @ new, baseUrl := b\<rparr>) \<and> (\<forall>c\<in>set new. P c)" by blast
qed

lemma only_get_or_null [only]:
  assumes "\<And>u. P (Http ''GET'' u p)" and "\<And>n. P (Sleep n)"
  shows "only P (get_or_null C W path p op)"
proof -
  have "only P (request_outcome C W (client_call W ''GET'' path p) op 1)" using assms by (intro only_request_outcome) simp_all
  then show ?thesis unfolding get_or_null_def throw_request_def by (rule only_bnd) (auto intro: only split: sum.split)
qed

lemma only_get_storage_or_null [only]:
  assumes "\<And>u. P (Http ''GET'' u no_params)" and "\<And>n. P (Sleep n)"
  shows "only P (get_storage_or_null extra C W path op)"
proof -
  have "only P (request_outcome C W (client_call W ''GET'' path no_params) op 1)" using assms by (intro only_request_outcome) simp_all
  then show ?thesis unfolding get_storage_or_null_def throw_request_def by (rule only_bnd) (auto intro: only split: sum.split)
qed

section \<open>Calls that were answered\<close>

text \<open>What \<open>f\<close> says of the calls of a run that were not refused, in their order.\<close>

fun answered :: "(call \<Rightarrow> 'a list) \<Rightarrow> world \<Rightarrow> call list \<Rightarrow> call list \<Rightarrow> 'a list" where
  "answered f W l [] = []"
| "answered f W l (c # cs) = (if isl (W l c) then [] else f c) @ answered f W (l @ [c]) cs"

lemma answered_append: "answered f W l (a @ b) = answered f W l a @ answered f W (l @ a) b"
  by (induction a arbitrary: l) auto

lemma answered_none: "\<forall>c\<in>set cs. f c = [] \<Longrightarrow> answered f W l cs = []"
  by (induction cs arbitrary: l) auto

end
