(* ===== verification/WorkerCorrect.thy ===== *)
theory WorkerCorrect
  imports BackupWorker Traces
begin

text \<open>
  The job status protocol of the workers. \<open>statuses\<close> is the sequence of statuses a run writes to the
  metadata service; \<open>emits\<close> is a small calculus that relates the outcome of a program to the
  statuses it writes, for every world.
\<close>

section \<open>Statuses written\<close>

fun status_of :: "call \<Rightarrow> json list" where
  "status_of (Http m u p) = (if m = ''PATCH'' then (case jget p ''status'' of Some v \<Rightarrow> [v] | None \<Rightarrow> []) else [])"
| "status_of _ = []"

definition statuses :: "call list \<Rightarrow> json list" where
  "statuses cs = concat (map status_of cs)"

lemma statuses_simps [simp]: "statuses [] = []" "statuses (c # cs) = status_of c @ statuses cs" "statuses (a @ b) = statuses a @ statuses b"
  by (simp_all add: statuses_def)

definition emits :: "(proc, 'a) prog \<Rightarrow> (js_error + 'a \<Rightarrow> json list \<Rightarrow> bool) \<Rightarrow> bool" where
  "emits m R \<longleftrightarrow> traces m (\<lambda>l r new. R r (statuses new))"

abbreviation silent :: "(proc, 'a) prog \<Rightarrow> bool" where
  "silent m \<equiv> only (\<lambda>c. status_of c = []) m"

lemma emits_mono: "emits m R \<Longrightarrow> (\<And>r l. R r l \<Longrightarrow> R' r l) \<Longrightarrow> emits m R'"
  unfolding emits_def by (erule traces_mono)

lemma emits_bnd:
  assumes "emits m R" and "\<And>x. emits (k x) (S x)"
    and "\<And>e l. R (Inl e) l \<Longrightarrow> Q (Inl e) l" and "\<And>x l r l'. R (Inr x) l \<Longrightarrow> S x r l' \<Longrightarrow> Q r (l @ l')"
  shows "emits (bnd m k) Q"
  unfolding emits_def by (rule traces_bnd [OF assms(1,2) [unfolded emits_def]]) (simp_all add: assms(3,4))

lemma silent_emits: "silent m \<Longrightarrow> emits m (\<lambda>r l. l = [])"
  unfolding emits_def only_def by (erule traces_mono) (simp add: statuses_def)

lemma request_statuses:
  assumes "request_shape m p new" and "m = ''PATCH''" and "jget p ''status'' = Some v"
  shows "\<exists>n. statuses new = replicate (Suc n) v"
proof -
  obtain u rest where n: "new = Http m u p # rest" "\<forall>c\<in>set rest. (\<exists>u. c = Http m u p) \<or> (\<exists>n. c = Sleep n)"
    using assms by (auto simp: request_shape_def)
  from n(2) have "\<exists>k. statuses rest = replicate k v"
  proof (induction rest)
    case (Cons c cs)
    then obtain k where k: "statuses cs = replicate k v" by auto
    from Cons.prems assms have "status_of c = [v] \<or> status_of c = []" by auto
    with k show ?case by (auto intro: exI [of _ "Suc k"] exI [of _ k])
  qed (auto intro: exI [of _ 0])
  then obtain k where "statuses rest = replicate k v" ..
  then show ?thesis using n(1) assms by (intro exI [of _ k]) simp
qed

lemma emits_set_job:
  assumes "jget d ''status'' = Some v"
  shows "emits (set_job E W i d) (\<lambda>r l. \<exists>n. l = replicate (Suc n) v)"
  unfolding emits_def
proof (rule tracesI)
  fix s
  obtain r new b where run: "updateJob (we_client E) W i d s = (r, s\<lparr>calls := calls s @ new, baseUrl := b\<rparr>)"
    and n: "request_shape ''PATCH'' d new" unfolding updateJob_def using request_run by blast
  from request_statuses [OF n refl assms] run
  show "\<exists>new r b. set_job E W i d s = (r, s\<lparr>calls := calls s @ new, baseUrl := b\<rparr>) \<and> (\<exists>n. statuses new = replicate (Suc n) v)"
    by (cases r) (auto simp: set_job_def bnd_def ret_def)
qed

lemma emits_after_silent:
  assumes "silent m" and "\<And>x. emits (k x) Q" and "\<And>e. Q (Inl e) []"
  shows "emits (bnd m k) Q"
  by (rule emits_bnd [OF silent_emits [OF assms(1)] assms(2)]) (simp_all add: assms(3))

lemma emits_then_silent:
  assumes "emits m R" and "\<And>x. silent (k x)" and "\<And>e l. R (Inl e) l \<Longrightarrow> Q (Inl e) l" and "\<And>x l r. R (Inr x) l \<Longrightarrow> Q r l"
  shows "emits (bnd m k) Q"
  by (rule emits_bnd [OF assms(1) silent_emits [OF assms(2)]]) (simp_all add: assms(3,4))

lemma emits_ret: "Q (Inr x) [] \<Longrightarrow> emits (ret x) Q"
  unfolding emits_def by (rule traces_ret) simp

lemma emits_throw: "Q (Inl e) [] \<Longrightarrow> emits (throw e) Q"
  unfolding emits_def by (rule traces_throw) simp

lemma emits_if: "(c \<Longrightarrow> emits m Q) \<Longrightarrow> (\<not> c \<Longrightarrow> emits n Q) \<Longrightarrow> emits (if c then m else n) Q"
  by simp

lemma emits_outcome:
  assumes "emits m R"
  shows "emits (outcome m) (\<lambda>r l. \<exists>r'. r = Inr r' \<and> R r' l)"
  unfolding emits_def
proof (rule tracesI)
  fix s
  obtain r new b where "m s = (r, s\<lparr>calls := calls s @ new, baseUrl := b\<rparr>)" "R r (statuses new)"
    using assms unfolding emits_def by (rule tracesE)
  then show "\<exists>new r b. outcome m s = (r, s\<lparr>calls := calls s @ new, baseUrl := b\<rparr>) \<and> (\<exists>r'. r = Inr r' \<and> R r' (statuses new))"
    by (intro exI [of _ new] exI [of _ "Inr r"] exI [of _ b]) (simp add: outcome_def)
qed

lemma emits_ignore:
  assumes "silent m"
  shows "emits (ignore_errors m) (\<lambda>r l. r = Inr () \<and> l = [])"
  unfolding emits_def ignore_errors_def
  by (rule traces_try_catch [OF silent_emits [OF assms, unfolded emits_def], where S = "\<lambda>e l r new. r = Inr () \<and> new = []"])
    (auto intro: traces_ret)

lemma silent_createLog [only]: "silent (createLog E W i level message details)"
  unfolding createLog_def addLog_def by (intro only) simp_all

lemma emits_createLog: "emits (createLog E W i level message details) (\<lambda>r l. r = Inr () \<and> l = [])"
  unfolding createLog_def addLog_def by (intro emits_ignore only) simp_all

lemma silent_simple [only]:
  "silent (updateProgress W n)" "silent (add_job W q nm d i)" "silent (ask W (Sleep k))"
  unfolding updateProgress_def add_job_def by (auto intro: only)

lemma only_field [only]: "only P (field k v)"
  unfolding field_def by (intro only)

lemma only_service [only]: "only P (getServiceUrl var t)"
  unfolding getServiceUrl_def by (auto intro: only split: option.split)

lemma backup_fields_status: "jget (backup_fields E r) ''status'' = Some SUCCESS"
  unfolding backup_fields_def Let_def by (subst jget_jobj) simp_all

definition succeeded :: "bool \<Rightarrow> json list \<Rightarrow> bool" where
  "succeeded fin l \<longleftrightarrow> (\<exists>b. l = replicate b SUCCESS \<and> (fin \<longrightarrow> 0 < b))"

lemma emits_finish_backup: "emits (finish_backup E W b r) (\<lambda>x l. succeeded (\<not> isl x) l)"
proof -
  have once: "succeeded c (replicate (Suc n) SUCCESS)" for c n
    unfolding succeeded_def by (rule exI [of _ "Suc n"]) simp
  have ok: "emits (seqp (set_job E W i (backup_fields E r)) k) (\<lambda>x l. succeeded (\<not> isl x) l)" if "silent k" for i and k :: "(proc, json) prog"
    by (rule emits_then_silent [OF emits_set_job [OF backup_fields_status] that]) (auto simp: once [simplified])
  show ?thesis
    unfolding finish_backup_def
    by (intro emits_after_silent [OF only_field] emits_if ok emits_throw only) (auto simp: succeeded_def)
qed

definition worker_ran :: "bool \<Rightarrow> json list \<Rightarrow> bool" where
  "worker_ran fin l \<longleftrightarrow> (\<exists>a b. l = replicate a RUNNING @ replicate b SUCCESS \<and> (0 < b \<longrightarrow> 0 < a) \<and> (fin \<longrightarrow> 0 < b))"

lemma emits_run_backup: "emits (run_backup E W b) (\<lambda>x l. worker_ran (\<exists>v. x = Inr (Inr v)) l)"
proof -
  have tail: "emits (bnd (finish_backup E W b r) (\<lambda>v. ret (Inr v))) (\<lambda>x l. succeeded (\<exists>v. x = Inr (Inr v :: failure + json)) l)" for r
    by (rule emits_bnd [OF emits_finish_backup, where S = "\<lambda>x r l. r = Inr (Inr x) \<and> l = []"])
      (auto intro: emits_ret simp: succeeded_def)
  have after: "emits (case resp of Inl f \<Rightarrow> ret (Inl f) | Inr r \<Rightarrow> seqp (updateProgress W 80) (bnd (finish_backup E W b r) (\<lambda>v. ret (Inr v))))
      (\<lambda>x l. succeeded (\<exists>v. x = Inr (Inr v :: failure + json)) l)" for resp
  proof (cases resp)
    case (Inr r)
    have "emits (seqp (updateProgress W 80) (bnd (finish_backup E W b r) (\<lambda>v. ret (Inr v))))
        (\<lambda>x l. succeeded (\<exists>v. x = Inr (Inr v :: failure + json)) l)"
      by (rule emits_after_silent [OF silent_simple(1) tail]) (simp add: succeeded_def)
    with Inr show ?thesis by simp
  qed (auto intro: emits_ret simp: succeeded_def)
  have body: "emits (seqp (createLog E W i lv ms dt) (bnd (getServiceUrl var t) (\<lambda>url. seqp (updateProgress W 30)
      (seqp (createLog E W i lv (f url) dt) (seqp (ask W (Sleep 500)) (bnd (http W m (g url) p) (\<lambda>resp.
         case resp of Inl f \<Rightarrow> ret (Inl f) | Inr r \<Rightarrow> seqp (updateProgress W 80) (bnd (finish_backup E W b r) (\<lambda>v. ret (Inr v))))))))))
      (\<lambda>x l. succeeded (\<exists>v. x = Inr (Inr v :: failure + json)) l)" if "m = ''POST''" for i lv ms dt var t f g m p
    unfolding http_def
    by (intro emits_after_silent after only) (use that in \<open>simp_all add: succeeded_def\<close>)
  have run: "jget (JObj [(''status'', RUNNING)]) ''status'' = Some RUNNING" by simp
  have step: "emits (seqp (set_job E W i (JObj [(''status'', RUNNING)])) k) (\<lambda>x l. worker_ran (\<exists>v. x = Inr (Inr v)) l)"
    if k: "emits k (\<lambda>x l. succeeded (\<exists>v. x = Inr (Inr v :: failure + json)) l)" for i k
  proof (rule emits_bnd [OF emits_set_job [OF run] k])
    show "worker_ran (\<exists>v. Inl e = Inr (Inr v :: failure + json)) l" if "\<exists>n. l = replicate (Suc n) RUNNING" for e l
    proof -
      obtain n where "l = replicate (Suc n) RUNNING" using \<open>\<exists>n. l = replicate (Suc n) RUNNING\<close> ..
      then show ?thesis unfolding worker_ran_def by (intro exI [of _ "Suc n"] exI [of _ 0]) simp
    qed
  next
    fix x :: unit and l l' and r :: "js_error + (failure + json)"
    assume "\<exists>n. l = replicate (Suc n) RUNNING" "succeeded (\<exists>v. r = Inr (Inr v)) l'"
    then obtain n c where "l = replicate (Suc n) RUNNING" "l' = replicate c SUCCESS" "(\<exists>v. r = Inr (Inr v)) \<longrightarrow> 0 < c"
      by (auto simp: succeeded_def)
    then show "worker_ran (\<exists>v. r = Inr (Inr v)) (l @ l')"
      unfolding worker_ran_def by (intro exI [of _ "Suc n"] exI [of _ c]) simp
  qed
  show ?thesis
    unfolding run_backup_def
    by (intro emits_after_silent [OF silent_simple(1)] step body) (auto simp: worker_ran_def)
qed

lemma emits_failed_backup: "emits (failed_backup E W b e) (\<lambda>r l. isl r \<and> (\<exists>c. l = replicate (Suc c) FAILED))"
proof -
  have failed: "jget (JObj [(''status'', FAILED), (''error'', fst e), (''completedAt'', we_now E)]) ''status'' = Some FAILED" by simp
  have thrown: "emits (seqp m (throw x)) (\<lambda>r l. isl r \<and> l = [])" if "silent m" for m :: "(proc, unit) prog" and x
    by (rule emits_after_silent [OF that]) (auto intro: emits_throw)
  have set: "emits (seqp (set_job E W (bj_id b) (JObj [(''status'', FAILED), (''error'', fst e), (''completedAt'', we_now E)]))
      (seqp m (throw x))) (\<lambda>r l. isl r \<and> (\<exists>c. l = replicate (Suc c) FAILED))" if "silent m" for m :: "(proc, unit) prog" and x
    by (rule emits_bnd [OF emits_set_job [OF failed] thrown [OF that]]) auto
  show ?thesis
    unfolding failed_backup_def
    by (rule emits_bnd [OF emits_createLog set [OF only_ignore [OF silent_simple(2)]]]) auto
qed

section \<open>The life of a job\<close>

text \<open>The abstract machine: what the status of a job means to whoever watches it.\<close>

datatype phase = Queued | Running | Succeeded | Failed

fun phase_step :: "phase \<Rightarrow> json \<Rightarrow> phase option" where
  "phase_step p v = (if v = FAILED then Some Failed
     else if v = RUNNING \<and> (p = Queued \<or> p = Running) then Some Running
     else if v = SUCCESS \<and> (p = Running \<or> p = Succeeded) then Some Succeeded
     else None)"

fun phase_run :: "phase \<Rightarrow> json list \<Rightarrow> phase option" where
  "phase_run p [] = Some p"
| "phase_run p (v # vs) = Option.bind (phase_step p v) (\<lambda>q. phase_run q vs)"

lemma statuses_differ [simp]: "RUNNING \<noteq> SUCCESS" "RUNNING \<noteq> FAILED" "SUCCESS \<noteq> FAILED" "SUCCESS \<noteq> RUNNING" "FAILED \<noteq> RUNNING" "FAILED \<noteq> SUCCESS"
  by (simp_all add: RUNNING_def SUCCESS_def FAILED_def)

lemma phase_run_append: "phase_run p (a @ b) = Option.bind (phase_run p a) (\<lambda>q. phase_run q b)"
  by (induction a arbitrary: p) (auto simp: bind_assoc split: bind_splits)

lemma phase_run_same: "phase_step p v = Some p \<Longrightarrow> phase_run p (replicate n v) = Some p"
  by (induction n) auto

lemma phase_run_replicate:
  "phase_run Queued (replicate a RUNNING) = Some (if a = 0 then Queued else Running)"
  "phase_run Running (replicate b SUCCESS) = Some (if b = 0 then Running else Succeeded)"
  "phase_run p (replicate (Suc c) FAILED) = Some Failed"
  by (cases a, simp, simp add: phase_run_same, cases b, simp, simp add: phase_run_same, simp add: phase_run_same)

lemma phase_of_run: "worker_ran fin l \<Longrightarrow> \<exists>p. phase_run Queued l = Some p \<and> (fin \<longrightarrow> p = Succeeded)"
  by (auto simp: worker_ran_def phase_run_append phase_run_replicate)

definition phase_after :: "js_error + json \<Rightarrow> json list \<Rightarrow> bool" where
  "phase_after r l \<longleftrightarrow> phase_run Queued l = Some (if isl r then Failed else Succeeded)"

lemma emits_handleBackupJob: "emits (handleBackupJob E W b) (\<lambda>r l. phase_after r l)"
  unfolding handleBackupJob_def
proof (rule emits_bnd [OF emits_createLog])
  let ?R = "\<lambda>x r l. (\<exists>v. x = Inr (Inr v)) \<and> \<not> isl r \<and> l = [] \<or> isl r \<and> (\<exists>c. l = replicate (Suc c) FAILED)"
  have "emits (case x of Inl e \<Rightarrow> failed_backup E W b (JStr (err_message e), None)
     | Inr (Inl f) \<Rightarrow> failed_backup E W b (backup_error E f) | Inr (Inr v) \<Rightarrow> ret v) (?R x)" for x :: "js_error + (failure + json)"
    by (auto intro: emits_ret emits_mono [OF emits_failed_backup] split: sum.split)
  then show "emits (bnd (outcome (run_backup E W b)) (\<lambda>r. case r of Inl e \<Rightarrow> failed_backup E W b (JStr (err_message e), None)
     | Inr (Inl f) \<Rightarrow> failed_backup E W b (backup_error E f) | Inr (Inr v) \<Rightarrow> ret v)) (\<lambda>r l. phase_after r l)"
  proof (rule emits_bnd [OF emits_outcome [OF emits_run_backup]])
    fix x and l l' and r :: "js_error + json"
    assume "\<exists>r'. Inr x = (Inr r' :: js_error + (js_error + (failure + json))) \<and> worker_ran (\<exists>v. r' = Inr (Inr v)) l" and k: "?R x r l'"
    then obtain p where "phase_run Queued l = Some p" "(\<exists>v. x = Inr (Inr v)) \<longrightarrow> p = Succeeded"
      using phase_of_run by blast
    with k show "phase_after r (l @ l')"
      unfolding phase_after_def by (auto simp: phase_run_append phase_run_replicate simp del: replicate_Suc)
  qed simp
qed auto

lemma worker_ends: "\<exists>new. calls (snd (handleBackupJob E W b s)) = calls s @ new \<and> phase_after (fst (handleBackupJob E W b s)) (statuses new)"
proof -
  obtain r new c where "handleBackupJob E W b s = (r, s\<lparr>calls := calls s @ new, baseUrl := c\<rparr>)" "phase_after r (statuses new)"
    using emits_handleBackupJob unfolding emits_def by (rule tracesE)
  then show ?thesis by (intro exI [of _ new]) simp
qed

section \<open>What a run returns\<close>

definition post :: "('s, 'a) prog \<Rightarrow> ('a \<Rightarrow> bool) \<Rightarrow> bool" where
  "post m P \<longleftrightarrow> (\<forall>s v s'. m s = (Inr v, s') \<longrightarrow> P v)"

lemma postD: "post m P \<Longrightarrow> m s = (Inr v, s') \<Longrightarrow> P v"
  unfolding post_def by blast

lemma post_outcome: "post m P \<Longrightarrow> post (outcome m) (\<lambda>r. case r of Inl _ \<Rightarrow> True | Inr v \<Rightarrow> P v)"
  unfolding post_def outcome_def by (fastforce split: prod.splits sum.splits)

lemma post_bnd: "post m R \<Longrightarrow> (\<And>x. R x \<Longrightarrow> post (k x) P) \<Longrightarrow> post (bnd m k) P"
  unfolding post_def bnd_Inr_iff by blast

lemma post_last: "(\<And>x. post (k x) P) \<Longrightarrow> post (bnd m k) P"
  unfolding post_def bnd_Inr_iff by blast

lemma post_if: "post m P \<Longrightarrow> post n P \<Longrightarrow> post (if c then m else n) P"
  by simp

lemma post_throw: "post (throw e) P"
  by (simp add: post_def throw_def)

lemma post_ret: "P x \<Longrightarrow> post (ret x) P"
  by (simp add: post_def ret_def)

section \<open>Properties\<close>

text \<open>C18: The worker refines the life of a job: whatever the services answer, the statuses one run of
  handleBackupJob writes take a queued job through running to succeeded when it returns, and to failed
  when it throws; no other order and no other end occurs.\<close>

theorem worker_refines_phases:
  "\<exists>new. calls (snd (handleBackupJob E W b s)) = calls s @ new \<and>
     phase_run Queued (statuses new) = Some (if isl (fst (handleBackupJob E W b s)) then Failed else Succeeded)"
  using worker_ends [of E W b s] by (simp add: phase_after_def)

text \<open>A backup that exists and has been recorded as successful is nevertheless reported as failed when its
  notification or upload cannot be queued: with the queue server unreachable no run of handleBackupJob
  returns normally, so the last status it writes is FAILED.\<close>

lemma unreachable_queue_fails_backup:
  assumes "\<And>cs q n d o'. isl (W cs (QAdd q n d o'))"
  shows "isl (fst (handleBackupJob E W b s)) \<and>
    (\<exists>new. calls (snd (handleBackupJob E W b s)) = calls s @ new \<and> phase_run Queued (statuses new) = Some Failed)"
proof -
  have add: "post (add_job W q n d i) (\<lambda>_. False)" for q n d i
    unfolding post_def add_job_def unit_call_def run_call_def bnd_Inr_iff
    using assms by (auto simp: ask_def throw_def ret_def split: sum.splits) (metis sum.disc(2))
  have queue: "post (bnd (if c then seqp (add_job W q n d i) m else seqp (add_job W q' n' d' i') m') k) (\<lambda>_. False)"
    for c q n d i m q' n' d' i' m' and k :: "unit \<Rightarrow> (proc, json) prog"
    by (rule post_bnd [where R = "\<lambda>_. False"]) (auto intro: post_bnd [OF add])
  have finish: "post (finish_backup E W b r) (\<lambda>_. False)" for r
    unfolding finish_backup_def by (intro post_last post_if queue post_throw)
  have served: "post (case resp of Inl f \<Rightarrow> ret (Inl f) | Inr r \<Rightarrow> seqp (updateProgress W 80) (bnd (finish_backup E W b r) (\<lambda>v. ret (Inr v)))) isl"
    for resp :: "failure + json"
    by (cases resp) (auto intro!: post_last post_bnd [OF finish] post_ret)
  have run: "post (run_backup E W b) isl"
    unfolding run_backup_def by (intro post_last served)
  have "post (handleBackupJob E W b) (\<lambda>_. False)"
    unfolding handleBackupJob_def
  proof (rule post_last, rule post_bnd [OF post_outcome [OF run]])
    show "post (case r of Inl e \<Rightarrow> failed_backup E W b (JStr (err_message e), None)
        | Inr (Inl f) \<Rightarrow> failed_backup E W b (backup_error E f) | Inr (Inr v) \<Rightarrow> ret v) (\<lambda>_. False)"
      if "case r of Inl _ \<Rightarrow> True | Inr v \<Rightarrow> isl v" for r :: "js_error + (failure + json)"
      using that unfolding failed_backup_def by (cases r) (auto intro!: post_last post_throw split: sum.split)
  qed
  then have "isl (fst (handleBackupJob E W b s))" using postD by (metis prod.collapse sum.collapse(2))
  with worker_ends [of E W b s] show ?thesis by (auto simp: phase_after_def)
qed

text \<open>A notification job never fails as a queue job: when Slack or SMTP refuse the message the processor
  records the failure and returns { success: false }, so BullMQ counts the job as completed and its
  three configured attempts are never used.\<close>

lemma notification_never_retried:
  "\<exists>v. fst (handleNotificationJob E W n s) = Inr v \<and>
     (jget v ''success'' = Some (JBool True) \<longleftrightarrow> \<not> isl (fst (run_notification E W n s)))"
proof (cases "run_notification E W n s")
  case (Pair r t)
  show ?thesis
  proof (cases r)
    case (Inl e)
    let ?rec = "ignore_errors (seqp (recordNotification (we_client E) W (JObj
        [(''backupJobId'', or_j (nj_backupId n) JNull), (''type'', JStr ''error''), (''status'', JStr ''failed''),
         (''subject'', JStr ''Notification Failure''), (''message'', JStr (err_message e)), (''sentAt'', we_now E)])) (ret ()))"
    obtain u where "?rec t = (Inr (), u)"
      by (cases "?rec t", cases "fst (?rec t)") (auto simp: ignore_errors_def try_catch_def ret_def split: prod.splits sum.splits)
    with Pair Inl show ?thesis
      by (simp add: handleNotificationJob_def try_catch_def bnd_def ret_def jget_jobj)
  next
    case (Inr v)
    have "post (run_notification E W n) (\<lambda>v. jget v ''success'' = Some (JBool True))"
      unfolding run_notification_def Let_def by (intro post_last post_ret) (simp add: jget_jobj)
    with Pair Inr show ?thesis by (auto simp: handleNotificationJob_def try_catch_def dest: postD)
  qed
qed

section \<open>A world without a queue server\<close>

fun no_queue :: world where
  "no_queue cs (QAdd q n d o') = Inl \<lparr>f_code = ''ECONNREFUSED'', f_message = ''connect ECONNREFUSED'', f_axios = False, f_response = None\<rparr>"
| "no_queue cs c = Inr (JObj [(''success'', JBool True), (''fileName'', JStr ''f.sql.gz'')])"

definition sample_worker :: worker_env where
  "sample_worker = \<lparr>we_client = sample_client, we_var = (\<lambda>_. None), we_now = JStr ''now'', we_seconds = JNum 0,
     we_stringify = js_String, we_fixed = js_String, we_megabytes = js_String\<rparr>"

definition sample_backup_job :: backup_job where
  "sample_backup_job = \<lparr>bj_id = ''b1'', bj_db = JObj [(''type'', JStr ''mysql''), (''database'', JStr ''shop'')],
     bj_type = JStr ''full'', bj_options = JObj []\<rparr>"

lemma unreachable_queue_fails_backup_witness:
  "isl (fst (handleBackupJob sample_worker no_queue sample_backup_job sample_proc))"
  using unreachable_queue_fails_backup [of no_queue sample_worker sample_backup_job sample_proc] by simp

end
