(* ===== verification/RestoreCorrect.thy ===== *)
theory RestoreCorrect
  imports RestoreWorker WorkerCorrect
begin

text \<open>
  What a restore guarantees whatever the services answer: a file is handed to the database only after
  its checksum was verified, and every temporary file that was completed is removed.
\<close>

section \<open>Temporary files\<close>

text \<open>The files written to the end during a run that adds \<open>new\<close> to the log \<open>l\<close>.\<close>

fun writes :: "call \<Rightarrow> string list" where
  "writes (FileOp k ps) = (if k = ''pipeline'' then take 1 ps else [])"
| "writes _ = []"

abbreviation completed :: "world \<Rightarrow> call list \<Rightarrow> call list \<Rightarrow> string list" where
  "completed \<equiv> answered writes"

fun unlinks :: "call \<Rightarrow> bool" where
  "unlinks (FileOp k ps) = (k = ''unlinkSync'')"
| "unlinks _ = False"

fun cleaned :: "world \<Rightarrow> call list \<Rightarrow> string list \<Rightarrow> call list" where
  "cleaned W l [] = l"
| "cleaned W l (p # ps) = cleaned W (l @ FileOp ''existsSync'' [p] #
     (if W l (FileOp ''existsSync'' [p]) = Inr (JBool True) then [FileOp ''unlinkSync'' [p]] else [])) ps"

definition tracks :: "world \<Rightarrow> 'a rprog \<Rightarrow> bool" where
  "tracks W m \<longleftrightarrow> (\<forall>p ts. \<exists>new r b. m (p, ts) = (r, (p\<lparr>calls := calls p @ new, baseUrl := b\<rparr>, ts @ completed W (calls p) new)) \<and>
     (\<forall>c\<in>set new. \<not> unlinks c))"

named_theorems tracks

lemma tracksI:
  "(\<And>p ts. \<exists>new r b. m (p, ts) = (r, (p\<lparr>calls := calls p @ new, baseUrl := b\<rparr>, ts @ completed W (calls p) new)) \<and>
     (\<forall>c\<in>set new. \<not> unlinks c)) \<Longrightarrow> tracks W m"
  by (simp add: tracks_def)

lemma tracksE:
  assumes "tracks W m"
  obtains new r b where "m (p, ts) = (r, (p\<lparr>calls := calls p @ new, baseUrl := b\<rparr>, ts @ completed W (calls p) new))"
    and "\<forall>c\<in>set new. \<not> unlinks c"
  using assms unfolding tracks_def by blast

lemma tracks_pure: "(\<And>s. m s = (r, s)) \<Longrightarrow> tracks W m"
proof (rule tracksI)
  fix p ts assume "\<And>s. m s = (r, s)"
  then show "\<exists>new r b. m (p, ts) = (r, (p\<lparr>calls := calls p @ new, baseUrl := b\<rparr>, ts @ completed W (calls p) new)) \<and> (\<forall>c\<in>set new. \<not> unlinks c)"
    by (intro exI [of _ "[]"] exI [of _ r] exI [of _ "baseUrl p"]) simp
qed

lemma tracks_ret [tracks]: "tracks W (ret x)"
  by (rule tracks_pure) (simp add: ret_def)

lemma tracks_throw [tracks]: "tracks W (throw e)"
  by (rule tracks_pure) (simp add: throw_def)

lemma tracks_if [tracks]: "tracks W m \<Longrightarrow> tracks W n \<Longrightarrow> tracks W (if c then m else n)"
  by simp

lemma tracks_bnd [tracks]:
  assumes "tracks W m" and "\<And>x. tracks W (k x)"
  shows "tracks W (bnd m k)"
proof (rule tracksI)
  fix p ts
  obtain new r b where m: "m (p, ts) = (r, (p\<lparr>calls := calls p @ new, baseUrl := b\<rparr>, ts @ completed W (calls p) new))" "\<forall>c\<in>set new. \<not> unlinks c"
    using assms(1) by (rule tracksE)
  show "\<exists>new r b. bnd m k (p, ts) = (r, (p\<lparr>calls := calls p @ new, baseUrl := b\<rparr>, ts @ completed W (calls p) new)) \<and> (\<forall>c\<in>set new. \<not> unlinks c)"
  proof (cases r)
    case (Inl e)
    with m show ?thesis by (intro exI [of _ new] exI [of _ "Inl e"] exI [of _ b]) (simp add: bnd_def)
  next
    case (Inr x)
    let ?p = "p\<lparr>calls := calls p @ new, baseUrl := b\<rparr>"
    obtain new' r' b' where "k x (?p, ts @ completed W (calls p) new) = (r', (?p\<lparr>calls := calls ?p @ new', baseUrl := b'\<rparr>,
        (ts @ completed W (calls p) new) @ completed W (calls ?p) new'))" "\<forall>c\<in>set new'. \<not> unlinks c"
      using assms(2) by (rule tracksE)
    with m Inr show ?thesis
      by (intro exI [of _ "new @ new'"] exI [of _ r'] exI [of _ b']) (auto simp: bnd_def answered_append)
  qed
qed

lemma tracks_catch_throw [tracks]:
  assumes "tracks W m" and "\<And>e. tracks W (h e)"
  shows "tracks W (try_catch m h)"
proof (rule tracksI)
  fix p ts
  obtain new r b where m: "m (p, ts) = (r, (p\<lparr>calls := calls p @ new, baseUrl := b\<rparr>, ts @ completed W (calls p) new))" "\<forall>c\<in>set new. \<not> unlinks c"
    using assms(1) by (rule tracksE)
  show "\<exists>new r b. try_catch m h (p, ts) = (r, (p\<lparr>calls := calls p @ new, baseUrl := b\<rparr>, ts @ completed W (calls p) new)) \<and> (\<forall>c\<in>set new. \<not> unlinks c)"
  proof (cases r)
    case (Inr x)
    with m show ?thesis by (intro exI [of _ new] exI [of _ "Inr x"] exI [of _ b]) (simp add: try_catch_def)
  next
    case (Inl e)
    let ?p = "p\<lparr>calls := calls p @ new, baseUrl := b\<rparr>"
    obtain new' r' b' where "h e (?p, ts @ completed W (calls p) new) = (r', (?p\<lparr>calls := calls ?p @ new', baseUrl := b'\<rparr>,
        (ts @ completed W (calls p) new) @ completed W (calls ?p) new'))" "\<forall>c\<in>set new'. \<not> unlinks c"
      using assms(2) by (rule tracksE)
    with m Inl show ?thesis
      by (intro exI [of _ "new @ new'"] exI [of _ r'] exI [of _ b']) (auto simp: try_catch_def answered_append)
  qed
qed

text \<open>Calls that neither complete nor remove a file, and the call that hands a file to the database.\<close>

abbreviation file_neutral :: "call \<Rightarrow> bool" where
  "file_neutral c \<equiv> writes c = [] \<and> \<not> unlinks c"

fun is_dispatch :: "call \<Rightarrow> bool" where
  "is_dispatch (Http m u p) = (jget p ''backupFilePath'' \<noteq> None)"
| "is_dispatch _ = False"

abbreviation ordinary :: "call \<Rightarrow> bool" where
  "ordinary c \<equiv> writes c = [] \<and> \<not> unlinks c \<and> \<not> is_dispatch c"

lemma tracks_plain [tracks]:
  assumes "only file_neutral m"
  shows "tracks W (on_fst m)"
proof (rule tracksI)
  fix p ts
  obtain new r b where "m p = (r, p\<lparr>calls := calls p @ new, baseUrl := b\<rparr>)" and "\<forall>c\<in>set new. file_neutral c"
    using assms unfolding only_def by (rule tracesE)
  then show "\<exists>new r b. on_fst m (p, ts) = (r, (p\<lparr>calls := calls p @ new, baseUrl := b\<rparr>, ts @ completed W (calls p) new)) \<and> (\<forall>c\<in>set new. \<not> unlinks c)"
    by (intro exI [of _ new] exI [of _ r] exI [of _ b]) (simp add: on_fst_def answered_none)
qed

text \<open>A program that completes one file when it returns, and none when it throws, followed by the
  registration of that file.\<close>

definition produces :: "world \<Rightarrow> string \<Rightarrow> (proc, 'a) prog \<Rightarrow> bool" where
  "produces W f m \<longleftrightarrow> traces m (\<lambda>l r new. completed W l new = (if isl r then [] else [f]) \<and> (\<forall>c\<in>set new. \<not> unlinks c))"

lemma tracks_produce:
  assumes "produces W f m" and "tracks W k"
  shows "tracks W (seqp (on_fst m) (seqp (push_temp f) k))"
proof (rule tracksI)
  fix p ts
  obtain new r b where m: "m p = (r, p\<lparr>calls := calls p @ new, baseUrl := b\<rparr>)"
    and c: "completed W (calls p) new = (if isl r then [] else [f])" "\<forall>c\<in>set new. \<not> unlinks c"
    using assms(1) unfolding produces_def by (rule tracesE) auto
  let ?p = "p\<lparr>calls := calls p @ new, baseUrl := b\<rparr>"
  obtain new' r' b' where k: "k (?p, ts @ [f]) = (r', (?p\<lparr>calls := calls ?p @ new', baseUrl := b'\<rparr>, (ts @ [f]) @ completed W (calls ?p) new'))"
    "\<forall>c\<in>set new'. \<not> unlinks c" using assms(2) by (rule tracksE)
  show "\<exists>new r b. seqp (on_fst m) (seqp (push_temp f) k) (p, ts) = (r, (p\<lparr>calls := calls p @ new, baseUrl := b\<rparr>, ts @ completed W (calls p) new)) \<and>
      (\<forall>c\<in>set new. \<not> unlinks c)"
  proof (cases r)
    case (Inl e)
    with m c show ?thesis by (intro exI [of _ new] exI [of _ "Inl e"] exI [of _ b]) (simp add: bnd_def on_fst_def)
  next
    case (Inr x)
    with m c k show ?thesis
      by (intro exI [of _ "new @ new'"] exI [of _ r'] exI [of _ b'])
        (auto simp: bnd_def on_fst_def push_temp_def answered_append)
  qed
qed

lemma produces_after: "only file_neutral m \<Longrightarrow> (\<And>x. produces W f (k x)) \<Longrightarrow> produces W f (bnd m k)"
  unfolding produces_def only_def
  by (rule traces_bnd [where R = "\<lambda>l r new. \<forall>c\<in>set new. file_neutral c" and
      S = "\<lambda>x l r new. completed W l new = (if isl r then [] else [f]) \<and> (\<forall>c\<in>set new. \<not> unlinks c)"])
    (auto simp: answered_none answered_append)

lemma produces_throw: "produces W f (throw e)"
  unfolding produces_def by (rule traces_throw) simp

lemma produces_if: "produces W f m \<Longrightarrow> produces W f n \<Longrightarrow> produces W f (if c then m else n)"
  by simp

lemma produces_pipeline: "produces W f (unit_call W (FileOp ''pipeline'' (f # ps)))"
proof -
  have "traces (run_call W (FileOp ''pipeline'' (f # ps)))
      (\<lambda>l r new. completed W l new = (if isl r then [] else [f]) \<and> (\<forall>c\<in>set new. \<not> unlinks c))"
    by (rule traces_run_call) simp_all
  then show ?thesis unfolding produces_def unit_call_def
    by (rule traces_bnd [where S = "\<lambda>x l r new. new = [] \<and> \<not> isl r"]) (auto intro: traces_ret)
qed

lemma produces_catch: "produces W f m \<Longrightarrow> produces W f (try_catch m (\<lambda>e. throw (g e)))"
  unfolding produces_def
  by (erule traces_try_catch [where S = "\<lambda>e l r new. new = [] \<and> isl r"]) (auto intro: traces_throw)


section \<open>The stages\<close>

lemma plain_if_ordinary: "only ordinary m \<Longrightarrow> only file_neutral m"
  unfolding only_def by (erule traces_mono) simp

lemma only_mono: "only P m \<Longrightarrow> (\<And>c. P c \<Longrightarrow> Q c) \<Longrightarrow> only Q m"
  unfolding only_def by (erule traces_mono) simp

lemma ordinary_log [only]: "only ordinary (restore_log R W i level message details)"
  unfolding restore_log_def addLog_def by (intro only) (simp_all add: jget_jobj)

lemma ordinary_small [only]:
  "only ordinary (updateProgress W n)" "only ordinary (exists_file W p)" "only ordinary (isCompressed W p)"
  "only ordinary (buffer_from x)"
  unfolding updateProgress_def exists_file_def isCompressed_def buffer_from_def
  by (auto intro!: only split: option.split)

lemma ordinary_find [only]: "only ordinary (find_record R W j)"
  unfolding find_record_def getJob_def with_params_def by (intro only) simp_all

lemma ordinary_locate [only]: "only ordinary (locate R W j r)"
  unfolding locate_def Let_def by (intro only)

lemma ordinary_verify [only]: "only ordinary (verify_checksum R W j r p)"
  unfolding verify_checksum_def by (auto intro!: only split: option.split)

lemma produces_download: "produces W f (s3_download W cfg remote f)"
  unfolding s3_download_def
  by (intro produces_after produces_if produces_throw produces_pipeline only) simp_all

lemma produces_decrypt: "produces W f (decryptFile W p f k iv tag)"
  unfolding decryptFile_def buffer_from_def
  by (intro produces_catch produces_after produces_pipeline only) (auto intro!: only split: option.split)

lemma produces_decompress: "produces W f (decompressFile W p f)"
  unfolding decompressFile_def by (intro produces_after produces_pipeline only) simp_all

lemma tracks_ordinary [tracks]: "only ordinary m \<Longrightarrow> tracks W (on_fst m)"
  by (rule tracks_plain, rule plain_if_ordinary)

lemma tracks_then: "only ordinary m \<Longrightarrow> tracks W k \<Longrightarrow> tracks W (seqp (on_fst m) k)"
  by (intro tracks_bnd tracks_ordinary)

lemma tracks_prepare: "tracks W (prepare R W j)"
proof -
  have download: "tracks W (download R W j r p)" for r p
    unfolding download_def Let_def
    by (intro tracks_if tracks_ret tracks_throw tracks_then [OF ordinary_small(1)] tracks_then [OF ordinary_log]
        tracks_then [OF only_unit_call] tracks_produce [OF produces_download]) simp_all
  have decrypt: "tracks W (decrypt R W j r p)" for r p
    unfolding decrypt_def Let_def by (intro tracks_if tracks_ret tracks_throw tracks_then [OF ordinary_log] tracks_produce [OF produces_decrypt])
  have decompress: "tracks W (decompress R W j p)" for p
    unfolding decompress_def Let_def by (intro tracks_bnd [OF tracks_ordinary [OF ordinary_small(3)]] tracks_if tracks_ret tracks_then [OF ordinary_log]
        tracks_produce [OF produces_decompress])
  have "tracks W (fetch_file R W j)" unfolding fetch_file_def by (intro tracks download only)
  moreover have "tracks W (unpack_file R W j r p)" for r p unfolding unpack_file_def by (intro tracks decrypt decompress only)
  ultimately show ?thesis unfolding prepare_def by (auto intro!: tracks_bnd split: prod.split)
qed

lemma plain_dispatch: "only file_neutral (dispatch R W j p)"
  unfolding dispatch_def Let_def
  by (intro only plain_if_ordinary [OF ordinary_log] plain_if_ordinary [OF ordinary_small(1)]) simp_all

lemma tracks_run: "tracks W (run_restore R W j)"
  unfolding run_restore_def by (intro tracks tracks_prepare tracks_plain plain_dispatch)


section \<open>Cleaning up\<close>

lemma exists_file_run: "exists_file W p s = (Inr (W (calls s) (FileOp ''existsSync'' [p]) = Inr (JBool True)), s\<lparr>calls := calls s @ [FileOp ''existsSync'' [p]]\<rparr>)"
  by (simp add: exists_file_def ask_def bnd_def ret_def)

lemma clean_file_run:
  "\<exists>s'. clean_file W p s = (Inr (), s') \<and> calls s' = calls s @ FileOp ''existsSync'' [p] #
     (if W (calls s) (FileOp ''existsSync'' [p]) = Inr (JBool True) then [FileOp ''unlinkSync'' [p]] else [])"
proof (cases "W (calls s) (FileOp ''existsSync'' [p]) = Inr (JBool True)")
  case True
  then show ?thesis
    by (cases "W (calls s @ [FileOp ''existsSync'' [p]]) (FileOp ''unlinkSync'' [p])")
      (simp_all add: clean_file_def exists_file_run bnd_def ignore_errors_def unit_call_def run_call_def ask_def try_catch_def ret_def throw_def)
qed (simp add: clean_file_def exists_file_run bnd_def ret_def)

lemma clean_temps_run:
  "\<exists>s'. for_each ts (\<lambda>p. on_fst (clean_file W p)) (s, us) = (Inr (), (s', us)) \<and> calls s' = cleaned W (calls s) ts"
proof (induction ts arbitrary: s)
  case (Cons p ts)
  obtain t where t: "clean_file W p s = (Inr (), t)" "calls t = calls s @ FileOp ''existsSync'' [p] #
     (if W (calls s) (FileOp ''existsSync'' [p]) = Inr (JBool True) then [FileOp ''unlinkSync'' [p]] else [])"
    using clean_file_run by blast
  obtain u where "for_each ts (\<lambda>p. on_fst (clean_file W p)) (t, us) = (Inr (), (u, us))" "calls u = cleaned W (calls t) ts"
    using Cons.IH by blast
  with t show ?case by (simp add: bnd_def on_fst_def)
qed (simp add: ret_def)

text \<open>The \<open>try\<close>/\<open>catch\<close> part of the processor.\<close>

abbreviation guarded_restore :: "restore_env \<Rightarrow> world \<Rightarrow> restore_job \<Rightarrow> json rprog" where
  "guarded_restore R W j \<equiv> try_catch (run_restore R W j) (\<lambda>e.
     seqp (on_fst (restore_log R W (log_id j) ''ERROR'' (''Restore failed: '' @ err_message e) None)) (throw e))"

lemma tracks_guarded: "tracks W (guarded_restore R W j)"
  by (intro tracks_catch_throw tracks_run tracks_then [OF ordinary_log] tracks_throw)

lemma finish_run:
  "\<exists>new r. fst (with_temps (try_finally (guarded_restore R W j) (clean_temps W)) s) = r \<and>
     (\<forall>c\<in>set new. \<not> unlinks c) \<and>
     (\<exists>b. guarded_restore R W j (s, []) = (r, (s\<lparr>calls := calls s @ new, baseUrl := b\<rparr>, completed W (calls s) new))) \<and>
     calls (snd (with_temps (try_finally (guarded_restore R W j) (clean_temps W)) s)) =
       cleaned W (calls s @ new) (completed W (calls s) new)"
proof -
  obtain new r b where g: "guarded_restore R W j (s, []) = (r, (s\<lparr>calls := calls s @ new, baseUrl := b\<rparr>, [] @ completed W (calls s) new))"
    and u: "\<forall>c\<in>set new. \<not> unlinks c" using tracks_guarded by (rule tracksE)
  let ?p = "s\<lparr>calls := calls s @ new, baseUrl := b\<rparr>"
  obtain t where "for_each (completed W (calls s) new) (\<lambda>p. on_fst (clean_file W p)) (?p, completed W (calls s) new) = (Inr (), (t, completed W (calls s) new))"
    "calls t = cleaned W (calls ?p) (completed W (calls s) new)"
    using clean_temps_run [where s = ?p and us = "completed W (calls s) new" and ts = "completed W (calls s) new" and W = W] by blast
  with g u show ?thesis
    by (intro exI [of _ new] exI [of _ r] conjI exI [of _ b]) (simp_all add: with_temps_def try_finally_def clean_temps_def bnd_def gets_def)
qed

section \<open>Verification before use\<close>

text \<open>What must have happened in a run that adds \<open>new\<close> to the log of \<open>s\<close> before a file may be restored.\<close>

definition verified :: "restore_env \<Rightarrow> world \<Rightarrow> restore_job \<Rightarrow> proc \<Rightarrow> call list \<Rightarrow> bool" where
  "verified R W j s new \<longleftrightarrow> (\<exists>s1 a b r. calls s1 = calls s @ a \<and> new = a @ b \<and>
     fst (getJob (we_client (re_worker R)) W (the (rj_backupId j)) False s1) = Inr r \<and>
     (\<forall>h. text_column (Some r) ''checksum'' = Some h \<longrightarrow> h \<noteq> '''' \<longrightarrow>
       (\<exists>d f e. new = d @ FileOp ''sha256'' [f] # e \<and> W (calls s @ d) (FileOp ''sha256'' [f]) = Inr (JStr h))))"

definition adds :: "'a rprog \<Rightarrow> bool" where
  "adds m \<longleftrightarrow> (\<forall>p ts r p' ts'. m (p, ts) = (r, (p', ts')) \<longrightarrow> (\<exists>new. calls p' = calls p @ new \<and> (\<forall>c\<in>set new. \<not> is_dispatch c)))"

lemma addsD: "adds m \<Longrightarrow> m s = (r, s') \<Longrightarrow> \<exists>new. calls (fst s') = calls (fst s) @ new \<and> (\<forall>c\<in>set new. \<not> is_dispatch c)"
  unfolding adds_def by (metis prod.collapse)

named_theorems adds

lemma adds_bnd [adds]: "adds m \<Longrightarrow> (\<And>x. adds (k x)) \<Longrightarrow> adds (bnd m k)"
proof -
  assume m: "adds m" and k: "\<And>x. adds (k x)"
  have "\<exists>new. calls p' = calls p @ new \<and> (\<forall>c\<in>set new. \<not> is_dispatch c)" if run: "bnd m k (p, ts) = (r, (p', ts'))" for p ts r p' ts'
  proof -
    obtain x q us where Pair: "m (p, ts) = (x, (q, us))" by (metis prod.collapse)
    with m obtain a where a: "calls q = calls p @ a" "\<forall>c\<in>set a. \<not> is_dispatch c" unfolding adds_def by blast
    show ?thesis
    proof (cases x)
      case (Inl e)
      with run Pair a show ?thesis by (auto simp: bnd_def)
    next
      case (Inr y)
      with run Pair have "k y (q, us) = (r, (p', ts'))" by (simp add: bnd_def)
      with k obtain b where "calls p' = calls q @ b" "\<forall>c\<in>set b. \<not> is_dispatch c" unfolding adds_def by blast
      with a show ?thesis by (intro exI [of _ "a @ b"]) auto
    qed
  qed
  then show ?thesis unfolding adds_def by blast
qed

lemma adds_simple [adds]: "adds (ret x)" "adds (throw e)" "adds (push_temp f)"
  by (auto simp: adds_def ret_def throw_def push_temp_def)

lemma adds_if [adds]: "adds m \<Longrightarrow> adds n \<Longrightarrow> adds (if c then m else n)"
  by simp

lemma adds_on_fst: "only (\<lambda>c. \<not> is_dispatch c) m \<Longrightarrow> adds (on_fst m)"
  unfolding adds_def only_def on_fst_def by (fastforce split: prod.splits dest: tracesD)

lemma adds_ordinary [adds]: "only ordinary m \<Longrightarrow> adds (on_fst m)"
  by (rule adds_on_fst, erule only_mono) simp

lemma adds_services [adds]:
  "adds (on_fst (s3_download W cfg remote f))" "adds (on_fst (decryptFile W p f k iv tag))"
  "adds (on_fst (decompressFile W p f))" "adds (on_fst (unit_call W (FileOp k' ps)))"
  unfolding s3_download_def decryptFile_def buffer_from_def decompressFile_def
  by (auto intro!: adds_on_fst only split: option.split)

lemma adds_stages [adds]:
  "adds (download R W j r p)" "adds (decrypt R W j r p)" "adds (decompress R W j p)"
  unfolding download_def decrypt_def decompress_def Let_def by (intro adds adds_ordinary only)+


lemma verify_checksum_run:
  assumes "verify_checksum R W j r p s = (Inr x, s')" and "\<not> truthy_j (jget (rj_options j) ''skipChecksum'')"
    and "text_column r ''checksum'' = Some h" and "h \<noteq> ''''"
  shows "\<exists>b. calls s' = calls s @ FileOp ''sha256'' [p] # b \<and> W (calls s) (FileOp ''sha256'' [p]) = Inr (JStr h)"
proof (cases "W (calls s) (FileOp ''sha256'' [p])")
  case (Inl f)
  with assms show ?thesis by (simp add: verify_checksum_def run_call_def ask_def bnd_def throw_def)
next
  case (Inr v)
  let ?t = "s\<lparr>calls := calls s @ [FileOp ''sha256'' [p]]\<rparr>"
  from Inr assms have v: "v = JStr h" and run: "restore_log R W (log_id j) ''INFO'' ''Checksum verification passed'' None ?t = (Inr x, s')"
    by (auto simp: verify_checksum_def run_call_def ask_def bnd_def throw_def ret_def split: if_splits)
  have "only ordinary (restore_log R W (log_id j) ''INFO'' ''Checksum verification passed'' None)" by (rule ordinary_log)
  from tracesD [OF this [unfolded only_def] run] Inr v show ?thesis by auto
qed

lemma on_fst_Inr: "on_fst m (p, ts) = (Inr x, st) \<Longrightarrow> \<exists>q. m p = (Inr x, q) \<and> st = (q, ts)"
  by (auto simp: on_fst_def split: prod.splits)

lemma on_fst_InrE:
  assumes "bnd (on_fst m) k (p, ts) = (Inr y, st)"
  obtains x q where "m p = (Inr x, q)" and "k x (q, ts) = (Inr y, st)"
  using assms by (elim bnd_InrE) (auto dest: on_fst_Inr)

lemma ordinary_grows: "only ordinary m \<Longrightarrow> m s = (r, s') \<Longrightarrow> \<exists>new. calls s' = calls s @ new"
  unfolding only_def by (drule (1) tracesD) blast

lemma fetch_file_record:
  assumes "fetch_file R W j (s, ts) = (Inr (r, p), st)" and id: "truthy_s (rj_backupId j)"
  shows "\<exists>s1 a b v. calls s1 = calls s @ a \<and> calls (fst st) = calls s @ a @ b \<and> r = Some v \<and>
    fst (getJob (we_client (re_worker R)) W (the (rj_backupId j)) False s1) = Inr v"
proof -
  let ?rest = "\<lambda>r. bnd (on_fst (locate R W j r)) (\<lambda>p0. bnd (download R W j r p0) (\<lambda>p.
     bnd (if p = '''' then ret False else on_fst (exists_file W p)) (\<lambda>there. if there then ret (r, p) else throw (missing_file p))))"
  from assms(1) obtain u q where q: "updateProgress W 10 s = (Inr u, q)"
    and k: "bnd (on_fst (find_record R W j)) ?rest (q, ts) = (Inr (r, p), st)" unfolding fetch_file_def by (rule on_fst_InrE)
  from k obtain r' q2 where f: "find_record R W j q = (Inr r', q2)" and rest: "?rest r' (q2, ts) = (Inr (r, p), st)" by (rule on_fst_InrE)
  have same: "r = r'" using rest by (auto simp: bnd_Inr_iff ret_def throw_def split: if_splits)
  from f id obtain v where v: "r' = Some v" "fst (getJob (we_client (re_worker R)) W (the (rj_backupId j)) False q) = Inr v"
    by (auto simp: find_record_def bnd_def ret_def throw_def split: prod.splits sum.splits if_splits)
  obtain a where a: "calls q = calls s @ a" using ordinary_grows [OF ordinary_small(1) q] by blast
  have "adds (bnd (on_fst (find_record R W j)) ?rest)" by (intro adds only)
  from addsD [OF this k] obtain b where "calls (fst st) = calls q @ b" by auto
  with a same v show ?thesis by (intro exI [of _ q] exI [of _ a] exI [of _ b] exI [of _ v]) simp
qed

lemma unpack_file_checked:
  assumes "unpack_file R W j r p (s, ts) = (Inr x, st)" and "\<not> truthy_j (jget (rj_options j) ''skipChecksum'')"
    and "text_column r ''checksum'' = Some h" and "h \<noteq> ''''"
  shows "\<exists>d e. calls (fst st) = calls s @ d @ FileOp ''sha256'' [p] # e \<and> W (calls s @ d) (FileOp ''sha256'' [p]) = Inr (JStr h)"
proof -
  let ?rest = "bnd (decrypt R W j r p) (\<lambda>d. bnd (decompress R W j d) (\<lambda>q. seqp (on_fst (updateProgress W 50)) (ret q)))"
  from assms(1) obtain u q where q: "updateProgress W 35 s = (Inr u, q)"
    and k: "seqp (on_fst (verify_checksum R W j r p)) ?rest (q, ts) = (Inr x, st)" unfolding unpack_file_def by (rule on_fst_InrE)
  from k obtain w q2 where v: "verify_checksum R W j r p q = (Inr w, q2)" and rest: "?rest (q2, ts) = (Inr x, st)" by (rule on_fst_InrE)
  obtain d where d: "calls q = calls s @ d" using ordinary_grows [OF ordinary_small(1) q] by blast
  from verify_checksum_run [OF v assms(2-4)] obtain b where b: "calls q2 = calls q @ FileOp ''sha256'' [p] # b"
    "W (calls q) (FileOp ''sha256'' [p]) = Inr (JStr h)" by blast
  have "adds ?rest" by (intro adds only)
  from addsD [OF this rest] obtain m where "calls (fst st) = calls q2 @ m" by auto
  with d b show ?thesis by (intro exI [of _ d] exI [of _ "b @ m"]) simp
qed

lemma adds_unpack: "adds (unpack_file R W j r p)"
  unfolding unpack_file_def by (intro adds only)

lemma prepare_verified:
  assumes run: "prepare R W j (s, ts) = (Inr x, st)" and id: "truthy_s (rj_backupId j)"
    and skip: "\<not> truthy_j (jget (rj_options j) ''skipChecksum'')"
  shows "\<exists>new. calls (fst st) = calls s @ new \<and> verified R W j s new"
proof -
  from run obtain rp s2 where f: "fetch_file R W j (s, ts) = (Inr rp, s2)" and u: "(case rp of (r, p) \<Rightarrow> unpack_file R W j r p) s2 = (Inr x, st)"
    unfolding prepare_def by (rule bnd_InrE)
  obtain r p q us where eq: "rp = (r, p)" "s2 = (q, us)" by (metis surj_pair)
  from u eq have u': "unpack_file R W j r p (q, us) = (Inr x, st)" by simp
  obtain s1 a b v where rec: "calls s1 = calls s @ a" "calls q = calls s @ a @ b" "r = Some v"
    "fst (getJob (we_client (re_worker R)) W (the (rj_backupId j)) False s1) = Inr v"
    using fetch_file_record [OF f [unfolded eq] id] by auto
  obtain m where m: "calls (fst st) = calls q @ m" using addsD [OF adds_unpack u'] by auto
  have "\<exists>d f e. a @ b @ m = d @ FileOp ''sha256'' [f] # e \<and> W (calls s @ d) (FileOp ''sha256'' [f]) = Inr (JStr h)"
    if h: "text_column (Some v) ''checksum'' = Some h" "h \<noteq> ''''" for h
  proof -
    obtain d e where "calls (fst st) = calls q @ d @ FileOp ''sha256'' [p] # e" "W (calls q @ d) (FileOp ''sha256'' [p]) = Inr (JStr h)"
      using unpack_file_checked [OF u' skip h [folded rec(3)]] by blast
    with m rec(2) show ?thesis by (intro exI [of _ "a @ b @ d"] exI [of _ p] exI [of _ e]) simp
  qed
  with rec m show ?thesis unfolding verified_def by (intro exI [of _ "a @ b @ m"] conjI exI [of _ s1] exI [of _ a] exI [of _ "b @ m"] exI [of _ v]) auto
qed


lemma adds_prepare: "adds (prepare R W j)"
proof -
  have "adds (fetch_file R W j)" unfolding fetch_file_def by (intro adds only)
  then show ?thesis unfolding prepare_def by (auto intro!: adds_bnd adds_unpack split: prod.split)
qed

lemma cleaned_adds: "\<exists>b. cleaned W l ts = l @ b \<and> (\<forall>c\<in>set b. \<not> is_dispatch c)"
proof (induction ts arbitrary: l)
  case (Cons p ts)
  let ?a = "FileOp ''existsSync'' [p] # (if W l (FileOp ''existsSync'' [p]) = Inr (JBool True) then [FileOp ''unlinkSync'' [p]] else [])"
  obtain b where "cleaned W (l @ ?a) ts = (l @ ?a) @ b" "\<forall>c\<in>set b. \<not> is_dispatch c" using Cons.IH by blast
  then show ?case by (intro exI [of _ "?a @ b"]) auto
qed simp

text \<open>A run of the guarded part either hands nothing over, or verified first.\<close>

lemma guarded_verified:
  assumes run: "guarded_restore R W j (s, []) = (r, (t, ts))"
    and id: "truthy_s (rj_backupId j)" "\<not> truthy_j (jget (rj_options j) ''skipChecksum'')"
  shows "\<exists>a b. calls t = calls s @ a @ b \<and> (\<forall>c\<in>set a. \<not> is_dispatch c) \<and> ((\<forall>c\<in>set b. \<not> is_dispatch c) \<or> verified R W j s a)"
proof -
  obtain x q us where p: "prepare R W j (s, []) = (x, (q, us))" by (metis surj_pair)
  obtain a where a: "calls q = calls s @ a" "\<forall>c\<in>set a. \<not> is_dispatch c" using addsD [OF adds_prepare p] by auto
  let ?h = "\<lambda>e. seqp (on_fst (restore_log R W (log_id j) ''ERROR'' (''Restore failed: '' @ err_message e) None)) (throw e) :: json rprog"
  have h: "adds (?h e)" for e by (intro adds only)
  show ?thesis
  proof (cases x)
    case (Inl e)
    with p run have "?h e (q, us) = (r, (t, ts))" by (simp add: try_catch_def run_restore_def bnd_def)
    from addsD [OF h this] a show ?thesis by (metis append.assoc fst_conv)
  next
    case (Inr f)
    obtain new where new: "calls q = calls s @ new" "verified R W j s new" using prepare_verified [OF p [unfolded Inr] id] by auto
    have "\<exists>b. calls t = calls q @ b"
    proof -
      obtain y q' where run': "dispatch R W j f q = (y, q')" by fastforce
      then have d: "on_fst (dispatch R W j f) (q, us) = (y, (q', us))" by (simp add: on_fst_def)
      from tracesD [OF plain_dispatch [unfolded only_def] run'] obtain b where b: "calls q' = calls q @ b" by blast
      show ?thesis
      proof (cases y)
        case (Inl e)
        with p run Inr d have "?h e (q', us) = (r, (t, ts))" by (simp add: try_catch_def run_restore_def bnd_def)
        from addsD [OF h this] b show ?thesis by auto
      next
        case (Inr v)
        with p run d \<open>x = Inr f\<close> have "q' = t" by (simp add: try_catch_def run_restore_def bnd_def)
        with b show ?thesis by blast
      qed
    qed
    with a new show ?thesis by auto
  qed
qed

lemma handle_run:
  obtains (unlogged) a where "calls (snd (handleRestoreJob R W j s)) = calls s @ a" and "\<forall>c\<in>set a. ordinary c"
  | (logged) s0 a m r b where "calls s0 = calls s @ a" and "\<forall>c\<in>set a. ordinary c"
      and "guarded_restore R W j (s0, []) = (r, (s0\<lparr>calls := calls s0 @ m, baseUrl := b\<rparr>, completed W (calls s0) m))"
      and "\<forall>c\<in>set m. \<not> unlinks c"
      and "calls (snd (handleRestoreJob R W j s)) = cleaned W (calls s0 @ m) (completed W (calls s0) m)"
proof -
  let ?log = "restore_log R W (log_id j) ''INFO''
        (''Restore operation started for '' @ tpl (jget (rj_db j) ''type'') @ ''/'' @ tpl (jget (rj_db j) ''database''))
        (Some (''Restore ID: '' @ rj_restoreId j))"
  obtain x s0 where l: "?log s = (x, s0)" by fastforce
  obtain a where a: "calls s0 = calls s @ a" "\<forall>c\<in>set a. ordinary c"
    using tracesD [OF ordinary_log [unfolded only_def] l] by blast
  show thesis
  proof (cases x)
    case (Inl e)
    with l have "snd (handleRestoreJob R W j s) = s0" unfolding handleRestoreJob_def by (simp add: bnd_def)
    with a show ?thesis by (intro unlogged) simp_all
  next
    case (Inr u)
    from l Inr have run: "snd (handleRestoreJob R W j s) = snd (with_temps (try_finally (guarded_restore R W j) (clean_temps W)) s0)"
      unfolding handleRestoreJob_def by (simp add: bnd_def)
    obtain m r b where g: "guarded_restore R W j (s0, []) = (r, (s0\<lparr>calls := calls s0 @ m, baseUrl := b\<rparr>, completed W (calls s0) m))"
      and u: "\<forall>c\<in>set m. \<not> unlinks c"
      and cl: "calls (snd (with_temps (try_finally (guarded_restore R W j) (clean_temps W)) s0)) = cleaned W (calls s0 @ m) (completed W (calls s0) m)"
      using finish_run [of R W j s0] by (elim exE conjE) (rule that)
    show ?thesis by (rule logged [OF a g u]) (simp only: run cl)
  qed
qed

section \<open>Properties\<close>


text \<open>C22: A restore removes what it made, on every path: the files that its downloads, decryptions and
  decompressions completed, in the order they were completed, are each looked up and unlinked when they
  are there, after everything else and whatever failed before; nothing else is ever unlinked, so an
  input file survives, and so does the partial output of a step that failed.\<close>

theorem restore_removes_temporaries:
  "\<exists>new. calls (snd (handleRestoreJob R W j s)) = cleaned W (calls s @ new) (completed W (calls s) new) \<and> filter unlinks new = []"
proof (cases rule: handle_run [of R W j s])
  case (unlogged a)
  then show ?thesis by (intro exI [of _ a]) (simp add: answered_none filter_empty_conv)
next
  case (logged s0 a m r b')
  then have "completed W (calls s) (a @ m) = completed W (calls s0) m" by (simp add: answered_append answered_none)
  with logged show ?thesis by (intro exI [of _ "a @ m"]) (auto simp: filter_empty_conv)
qed


section \<open>A restore that succeeds\<close>

definition sample_record :: json where
  "sample_record = JObj [(''id'', JStr ''b1''), (''filePath'', JStr ''/b/f.sql''), (''checksum'', JStr ''abc'')]"

fun restore_world :: world where
  "restore_world cs (Http m u p) = Inr (if m = ''GET'' then sample_record else JObj [(''success'', JBool True)])"
| "restore_world cs (FileOp k ps) = Inr (if k = ''sha256'' then JStr ''abc'' else if k = ''existsSync'' then JBool True else JNull)"
| "restore_world cs c = Inr JNull"

definition sample_restore_env :: restore_env where
  "sample_restore_env = \<lparr>re_worker = sample_worker,
     re_host = \<lparr>DOCKER_HOST_OVERRIDE = None, BACKUP_PATH = None, DOCKER_CONTAINER = None, NODE_ENV = None, dockerenv_exists = False, etc_hosts = None\<rparr>,
     re_cwd = ''/app'', re_duration = JNum 1, re_durationText = ''1.00''\<rparr>"

definition sample_restore_job :: restore_job where
  "sample_restore_job = \<lparr>rj_restoreId = ''r1'', rj_backupId = Some ''b1'', rj_filePath = None,
     rj_db = JObj [(''type'', JStr ''mysql''), (''database'', JStr ''shop'')], rj_options = JObj []\<rparr>"

lemma restore_log_ok:
  "restore_log R restore_world i level message details s = (Inr (), s\<lparr>calls := calls s @ [Http ''POST'' (baseUrl s @ ''/api/jobs/'' @ encodeURIComponent i @ ''/logs'')
     (jobj [(''level'', Some (JStr level)), (''message'', Some (JStr message)), (''details'', map_option JStr details)])]\<rparr>)"
  by (simp add: restore_log_def addLog_def request_ok bnd_def ret_def)

lemmas run_simps = bnd_def ret_def on_fst_def unit_call_def run_call_def ask_def updateProgress_def exists_file_run

lemma sample_fetch:
  "\<exists>s'. fetch_file sample_restore_env restore_world sample_restore_job (s, []) = (Inr (Some sample_record, ''/b/f.sql''), (s', []))"
proof -
  let ?R = sample_restore_env and ?W = restore_world and ?j = sample_restore_job
  have find: "\<exists>t. find_record ?R ?W ?j u = (Inr (Some sample_record), t)" for u
    by (simp add: find_record_def getJob_def sample_restore_job_def request_ok run_simps sample_record_def)
  have loc: "\<exists>t. locate ?R ?W ?j (Some sample_record) u = (Inr ''/b/f.sql'', t)" for u
    by (simp add: locate_def first_path_def text_column_def oget_def sample_record_def sample_restore_job_def sample_restore_env_def
        resolveContainerStoragePath_def is_container_def Let_def run_simps)
  have down: "download ?R ?W ?j (Some sample_record) p = ret p" for p
    by (simp add: download_def kept_in_s3_def oget_def sample_record_def)
  obtain t where t: "find_record ?R ?W ?j (s\<lparr>calls := calls s @ [Progress 10]\<rparr>) = (Inr (Some sample_record), t)" using find by blast
  obtain t' where t': "locate ?R ?W ?j (Some sample_record) t = (Inr ''/b/f.sql'', t')" using loc by blast
  show ?thesis by (simp add: fetch_file_def run_simps t t' down)
qed

lemma sample_unpack:
  "\<exists>s'. unpack_file sample_restore_env restore_world sample_restore_job (Some sample_record) p (s, []) = (Inr p, (s', []))"
  by (simp add: unpack_file_def run_simps verify_checksum_def text_column_def oget_def sample_record_def sample_restore_job_def
      restore_log_ok decrypt_def needs_key_def decompress_def isCompressed_def)

lemma sample_dispatch: "\<exists>s'. dispatch sample_restore_env restore_world sample_restore_job p s = (Inr (JObj [(''success'', JBool True), (''restoreId'', JStr ''r1''), (''duration'', JNum 1)]), s')
    \<and> (\<exists>c\<in>set (calls s'). is_dispatch c)"
  by (simp add: dispatch_def run_simps getServiceUrl_def serviceRegistry_def tpl_def sample_restore_job_def sample_restore_env_def sample_worker_def
      restore_log_ok)

lemma sample_restore_dispatches:
  "\<exists>c. c \<in> set (calls (snd (handleRestoreJob sample_restore_env restore_world sample_restore_job sample_proc))) \<and> is_dispatch c"
proof -
  let ?R = sample_restore_env and ?W = restore_world and ?j = sample_restore_job
  let ?log = "restore_log ?R ?W (log_id ?j) ''INFO'' (''Restore operation started for '' @ tpl (jget (rj_db ?j) ''type'') @ ''/'' @ tpl (jget (rj_db ?j) ''database''))
        (Some (''Restore ID: '' @ rj_restoreId ?j))"
  obtain s0 where s0: "?log sample_proc = (Inr (), s0)" using restore_log_ok by blast
  obtain s1 where s1: "fetch_file ?R ?W ?j (s0, []) = (Inr (Some sample_record, ''/b/f.sql''), (s1, []))" using sample_fetch by blast
  obtain s2 where s2: "unpack_file ?R ?W ?j (Some sample_record) ''/b/f.sql'' (s1, []) = (Inr ''/b/f.sql'', (s2, []))" using sample_unpack by blast
  obtain s3 v c where s3: "dispatch ?R ?W ?j ''/b/f.sql'' s2 = (Inr v, s3)" and c: "c \<in> set (calls s3)" "is_dispatch c"
    using sample_dispatch by blast
  have "run_restore ?R ?W ?j (s0, []) = (Inr v, (s3, []))"
    by (simp add: run_restore_def prepare_def bnd_def s1 s2 s3 on_fst_def)
  then have "handleRestoreJob ?R ?W ?j sample_proc = (Inr v, s3)"
    unfolding handleRestoreJob_def bnd_def s0
    by (simp add: with_temps_def try_finally_def try_catch_def clean_temps_def gets_def bnd_def ret_def)
  with c show ?thesis by auto
qed


end
