(* ===== verification/CredentialScrubber.thy ===== *)
theory CredentialScrubber
  imports BinlogHeader Json
begin

text \<open>
  \<open>utils/credential-scrubber.ts\<close>: masking of credentials in error messages, logs and payloads. The
  four global replacements use the backtracking matcher of the binlog header; \<open>\s\<close> is the ASCII white
  space, which is all a byte-encoded message can be split at.
\<close>

section \<open>Global replacement\<close>

text \<open>A literal without the \<open>i\<close> flag, and one with it that captures what it matched.\<close>

definition rx_exact :: "string \<Rightarrow> unit matcher" where
  "rx_exact w s = (if take (length w) s = w then [((), drop (length w) s)] else [])"

definition rx_word :: "string \<Rightarrow> string matcher" where
  "rx_word w s = (if map lower (take (length w) s) = map lower w then [(take (length w) s, drop (length w) s)] else [])"

definition rx_words :: "string list \<Rightarrow> string matcher" where
  "rx_words ws s = concat (map (\<lambda>w. rx_word w s) ws)"

text \<open>\<open>s.replace(/m/g, r)\<close>: a matcher sees the character before its position and returns the text that
  replaces its match.\<close>

function rx_replace :: "(char option \<Rightarrow> string matcher) \<Rightarrow> char option \<Rightarrow> string \<Rightarrow> string" where
  "rx_replace m prev s = (case filter (\<lambda>(out, r). length r < length s) (m prev s) of
     (out, r) # _ \<Rightarrow> out @ (if length r < length s then rx_replace m (Some (s ! (length s - length r - 1))) r else [])
   | [] \<Rightarrow> (case s of [] \<Rightarrow> [] | c # t \<Rightarrow> c # rx_replace m (Some c) t))"
  by pat_completeness auto
termination
  by (relation "measure (\<lambda>(m, prev, s). length s)") auto

declare rx_replace.simps [simp del]

section \<open>The expressions\<close>

definition alnum :: "char \<Rightarrow> bool" where
  "alnum c \<longleftrightarrow> (let n = of_char c :: int in 48 \<le> n \<and> n \<le> 57 \<or> 65 \<le> n \<and> n \<le> 90 \<or> 97 \<le> n \<and> n \<le> 122)"

definition scheme_char :: "char \<Rightarrow> bool" where
  "scheme_char c \<longleftrightarrow> alnum c \<or> c \<in> {CHR ''_'', CHR ''+'', CHR ''.'', CHR ''-''}"

definition user_char :: "char \<Rightarrow> bool" where
  "user_char c \<longleftrightarrow> c \<noteq> CHR '':'' \<and> c \<noteq> CHR ''@'' \<and> \<not> is_space c"

definition pass_char :: "char \<Rightarrow> bool" where
  "pass_char c \<longleftrightarrow> c \<noteq> CHR ''@'' \<and> \<not> is_space c"

definition URI_CREDENTIALS_REGEX :: "char option \<Rightarrow> string matcher" where
  "URI_CREDENTIALS_REGEX prev =
     rx_then (rx_plus scheme_char) (\<lambda>a. rx_then (rx_exact ''://'') (\<lambda>_.
     rx_then (rx_plus user_char) (\<lambda>u. rx_then (rx_exact '':'') (\<lambda>_.
     rx_then (rx_plus pass_char) (\<lambda>p. rx_then (rx_exact ''@'') (\<lambda>_.
     rx_return (a @ ''://'' @ u @ '':***@'')))))))"

definition SLACK_WEBHOOK_REGEX :: "char option \<Rightarrow> string matcher" where
  "SLACK_WEBHOOK_REGEX prev =
     rx_then (rx_exact ''https://hooks.slack.com/services/'') (\<lambda>_.
     rx_then (rx_plus alnum) (\<lambda>_. rx_then (rx_exact ''/'') (\<lambda>_.
     rx_then (rx_plus alnum) (\<lambda>_. rx_then (rx_exact ''/'') (\<lambda>_.
     rx_then (rx_plus alnum) (\<lambda>_. rx_return ''https://hooks.slack.com/services/***''))))))"

definition KEY_VALUE_PASSWORD_REGEX :: "char option \<Rightarrow> string matcher" where
  "KEY_VALUE_PASSWORD_REGEX prev =
     rx_then (rx_words [''password'', ''passwd'', ''pwd'', ''secret'', ''secretkey'', ''token'', ''auth'', ''apikey'', ''accesskey'']) (\<lambda>k.
     rx_then (rx_star is_space) (\<lambda>_. rx_then (rx_words ['':'', ''='']) (\<lambda>e.
     rx_then (rx_star is_space) (\<lambda>_. rx_then (rx_plus (\<lambda>c. \<not> is_space c \<and> c \<noteq> CHR '','' \<and> c \<noteq> CHR '';'')) (\<lambda>_.
     rx_return (k @ e @ ''***''))))))"

definition word_char :: "char \<Rightarrow> bool" where
  "word_char c \<longleftrightarrow> alnum c \<or> c = CHR ''_''"

definition hex_letter :: "char \<Rightarrow> bool" where
  "hex_letter c \<longleftrightarrow> (let n = of_char c :: int in 48 \<le> n \<and> n \<le> 57 \<or> 65 \<le> n \<and> n \<le> 70 \<or> 97 \<le> n \<and> n \<le> 102)"

definition word_at :: "char option \<Rightarrow> bool" where
  "word_at x = (case x of None \<Rightarrow> False | Some c \<Rightarrow> word_char c)"

text \<open>\<open>\b[0-9a-fA-F]{64}\b\<close>: the characters matched are word characters, so both ends must touch none.\<close>

definition HEX_KEY_REGEX :: "char option \<Rightarrow> string matcher" where
  "HEX_KEY_REGEX prev s =
     (if \<not> word_at prev \<and> length (take 64 s) = 64 \<and> list_all hex_letter (take 64 s)
         \<and> \<not> word_at (case drop 64 s of [] \<Rightarrow> None | c # _ \<Rightarrow> Some c)
      then [(''***[64-hex-key-redacted]***'', drop 64 s)] else [])"

definition sanitizeErrorMessage :: "string option \<Rightarrow> string" where
  "sanitizeErrorMessage message = (if \<not> truthy_s message then ''''
     else rx_replace HEX_KEY_REGEX None
         (rx_replace KEY_VALUE_PASSWORD_REGEX None
         (rx_replace SLACK_WEBHOOK_REGEX None
         (rx_replace URI_CREDENTIALS_REGEX None (the message)))))"

section \<open>Objects\<close>

definition SENSITIVE_KEYS :: "string list" where
  "SENSITIVE_KEYS = [''password'', ''secret'', ''secretkey'', ''accesskey'', ''token'', ''webhook'', ''webhookurl'',
     ''encryptionkey'', ''apikey'', ''pgpassword'']"

definition sensitive :: "string \<Rightarrow> bool" where
  "sensitive k \<longleftrightarrow> map lower k \<in> set SENSITIVE_KEYS"

fun sanitizeObject :: "json \<Rightarrow> json" where
  "sanitizeObject (JArr xs) = JArr (map sanitizeObject xs)"
| "sanitizeObject (JObj kvs) = JObj (map (\<lambda>(k, v). (k,
     if sensitive k then JStr ''***''
     else case v of JStr s \<Rightarrow> JStr (sanitizeErrorMessage (Some s)) | _ \<Rightarrow> sanitizeObject v)) kvs)"
| "sanitizeObject v = v"


section \<open>Matching lemmas\<close>

lemma rx_star_run:
  "list_all P xs \<Longrightarrow> ys = [] \<or> \<not> P (hd ys) \<Longrightarrow> \<exists>more. rx_star P (xs @ ys) = (xs, ys) # more"
proof (induction xs)
  case Nil
  then show ?case by (cases ys) auto
next
  case (Cons x xs)
  then obtain more where "rx_star P (xs @ ys) = (xs, ys) # more" by auto
  with Cons.prems show ?case by simp
qed

lemma rx_plus_run: "list_all P xs \<Longrightarrow> xs \<noteq> [] \<Longrightarrow> ys = [] \<or> \<not> P (hd ys) \<Longrightarrow> \<exists>more. rx_plus P (xs @ ys) = (xs, ys) # more"
  using rx_star_run [of P xs ys] by (auto simp: rx_plus_def)

lemma rx_star_parts: "(x, r) \<in> set (rx_star P s) \<Longrightarrow> s = x @ r \<and> list_all P x"
  by (induction s arbitrary: x) (auto split: if_splits)

lemma rx_then_first: "m s = (a, r) # ws \<Longrightarrow> k a r = (b, t) # vs \<Longrightarrow> \<exists>rest. rx_then m k s = (b, t) # rest"
  by (simp add: rx_then_def)

lemma rx_then_ne: "rx_then m k s \<noteq> [] \<Longrightarrow> \<exists>a r. (a, r) \<in> set (m s) \<and> k a r \<noteq> []"
  by (force simp: rx_then_def)

lemma rx_exact_ne: "rx_exact (c # w) s \<noteq> [] \<Longrightarrow> s \<noteq> [] \<and> hd s = c"
  by (cases s) (auto simp: rx_exact_def split: if_splits)

lemma rx_exact_append [simp]: "rx_exact w (w @ s) = [((), s)]"
  by (simp add: rx_exact_def)

lemma replace_first: "m prev s = (out, r) # ws \<Longrightarrow> length r < length s \<Longrightarrow>
    rx_replace m prev s = out @ rx_replace m (Some (s ! (length s - length r - 1))) r"
  by (subst rx_replace.simps) simp

lemma replace_none: "m prev (c # s) = [] \<Longrightarrow> rx_replace m prev (c # s) = c # rx_replace m (Some c) s"
  by (subst rx_replace.simps) simp

lemma scheme_stops [simp]: "\<not> scheme_char CHR '':''" "\<not> user_char CHR '':''" "\<not> pass_char CHR ''@''"
  by (simp_all add: scheme_char_def alnum_def user_char_def pass_char_def)

lemma uri_match:
  assumes "a \<noteq> []" "list_all scheme_char a" "u \<noteq> []" "list_all user_char u" "p \<noteq> []" "list_all pass_char p"
  shows "\<exists>more. URI_CREDENTIALS_REGEX prev (a @ ''://'' @ u @ '':'' @ p @ ''@'' @ rest) = (a @ ''://'' @ u @ '':***@'', rest) # more"
proof -
  let ?mask = "\<lambda>p. rx_then (rx_exact ''@'') (\<lambda>_. rx_return (a @ ''://'' @ u @ '':***@''))"
  obtain m3 where m3: "rx_plus pass_char (p @ ''@'' @ rest) = (p, ''@'' @ rest) # m3" using assms rx_plus_run [of pass_char p "''@'' @ rest"] by auto
  have "?mask p (''@'' @ rest) = [(a @ ''://'' @ u @ '':***@'', rest)]" unfolding rx_then_def by (simp only: rx_exact_append) (simp add: rx_return_def)
  then obtain e3 where e3: "rx_then (rx_plus pass_char) ?mask (p @ ''@'' @ rest) = (a @ ''://'' @ u @ '':***@'', rest) # e3"
    using rx_then_first [where m = "rx_plus pass_char" and k = ?mask, OF m3] by blast
  let ?pass = "\<lambda>_. rx_then (rx_plus pass_char) ?mask"
  have "rx_exact '':'' ('':'' @ p @ ''@'' @ rest) = [((), p @ ''@'' @ rest)]" by (rule rx_exact_append)
  then obtain e2 where e2: "rx_then (rx_exact '':'') ?pass ('':'' @ p @ ''@'' @ rest) = (a @ ''://'' @ u @ '':***@'', rest) # e2"
    using rx_then_first [where m = "rx_exact '':''" and k = ?pass, OF _ e3] by blast
  obtain m2 where m2: "rx_plus user_char (u @ '':'' @ p @ ''@'' @ rest) = (u, '':'' @ p @ ''@'' @ rest) # m2"
    using assms rx_plus_run [of user_char u "'':'' @ p @ ''@'' @ rest"] by auto
  let ?user = "\<lambda>u. rx_then (rx_exact '':'') (\<lambda>_. rx_then (rx_plus pass_char) (\<lambda>p. rx_then (rx_exact ''@'') (\<lambda>_. rx_return (a @ ''://'' @ u @ '':***@''))))"
  obtain e1 where e1: "rx_then (rx_plus user_char) ?user (u @ '':'' @ p @ ''@'' @ rest) = (a @ ''://'' @ u @ '':***@'', rest) # e1"
    using rx_then_first [where m = "rx_plus user_char" and k = ?user, OF m2 e2] by blast
  have "rx_exact ''://'' (''://'' @ u @ '':'' @ p @ ''@'' @ rest) = [((), u @ '':'' @ p @ ''@'' @ rest)]" by (rule rx_exact_append)
  then obtain e0 where e0: "rx_then (rx_exact ''://'') (\<lambda>_. rx_then (rx_plus user_char) ?user) (''://'' @ u @ '':'' @ p @ ''@'' @ rest)
      = (a @ ''://'' @ u @ '':***@'', rest) # e0"
    using rx_then_first [where m = "rx_exact ''://''" and k = "\<lambda>_. rx_then (rx_plus user_char) ?user", OF _ e1] by blast
  obtain m0 where "rx_plus scheme_char (a @ ''://'' @ u @ '':'' @ p @ ''@'' @ rest) = (a, ''://'' @ u @ '':'' @ p @ ''@'' @ rest) # m0"
    using assms rx_plus_run [of scheme_char a "''://'' @ u @ '':'' @ p @ ''@'' @ rest"] by auto
  from rx_then_first [where m = "rx_plus scheme_char" and k = "\<lambda>a. rx_then (rx_exact ''://'') (\<lambda>_. rx_then (rx_plus user_char)
      (\<lambda>u. rx_then (rx_exact '':'') (\<lambda>_. rx_then (rx_plus pass_char) (\<lambda>p. rx_then (rx_exact ''@'') (\<lambda>_. rx_return (a @ ''://'' @ u @ '':***@''))))))", OF this e0]
  show ?thesis unfolding URI_CREDENTIALS_REGEX_def by blast
qed

text \<open>No match starts inside a text without a colon that does not end in a scheme character.\<close>

lemma uri_no_match:
  assumes "CHR '':'' \<notin> set pre" "pre \<noteq> []" "\<not> scheme_char (last pre)"
  shows "URI_CREDENTIALS_REGEX prev (pre @ s) = []"
proof (rule ccontr)
  assume "URI_CREDENTIALS_REGEX prev (pre @ s) \<noteq> []"
  then obtain x r where "(x, r) \<in> set (rx_plus scheme_char (pre @ s))" and
    "rx_then (rx_exact ''://'') (\<lambda>_. rx_then (rx_plus user_char) (\<lambda>u. rx_then (rx_exact '':'') (\<lambda>_.
       rx_then (rx_plus pass_char) (\<lambda>p. rx_then (rx_exact ''@'') (\<lambda>_. rx_return (x @ ''://'' @ u @ '':***@'')))))) r \<noteq> []"
    unfolding URI_CREDENTIALS_REGEX_def by (blast dest: rx_then_ne)
  then have x: "(x, r) \<in> set (rx_star scheme_char (pre @ s))" "rx_exact ''://'' r \<noteq> []"
    by (auto simp: rx_plus_def dest: rx_then_ne)
  from rx_star_parts [OF x(1)] have p: "pre @ s = x @ r" "list_all scheme_char x" by auto
  show False
  proof (cases "length pre \<le> length x")
    case True
    with p(1) have "x = pre @ drop (length pre) x" by (metis append_eq_append_conv_if append_take_drop_id take_all_iff)
    with assms(2) have "last pre \<in> set x" by (metis UnCI last_in_set set_append)
    with p(2) assms(3) show ?thesis by (simp add: list_all_iff)
  next
    case False
    then have "hd (drop (length x) pre) = hd (drop (length x) (pre @ s))" "drop (length x) pre \<noteq> []" by simp_all
    moreover have "drop (length x) (pre @ s) = r" using p(1) by simp
    moreover have "hd r = CHR '':''" using rx_exact_ne [OF x(2)] by simp
    ultimately have "CHR '':'' \<in> set (drop (length x) pre)" by (metis list.set_sel(1))
    then show ?thesis using assms(1) in_set_dropD by metis
  qed
qed

lemma uri_skips:
  "CHR '':'' \<notin> set pre \<Longrightarrow> pre = [] \<or> \<not> scheme_char (last pre) \<Longrightarrow>
     \<exists>prev'. rx_replace URI_CREDENTIALS_REGEX prev (pre @ s) = pre @ rx_replace URI_CREDENTIALS_REGEX prev' s"
proof (induction pre arbitrary: prev)
  case (Cons c pre)
  then have "URI_CREDENTIALS_REGEX prev ((c # pre) @ s) = []" by (intro uri_no_match) auto
  then have "rx_replace URI_CREDENTIALS_REGEX prev ((c # pre) @ s) = c # rx_replace URI_CREDENTIALS_REGEX (Some c) (pre @ s)"
    by (simp add: replace_none)
  with Cons.IH [of "Some c"] Cons.prems show ?case by (cases "pre = []") auto
qed auto

lemma uri_masked:
  assumes "CHR '':'' \<notin> set pre" "pre = [] \<or> \<not> scheme_char (last pre)"
    and "a \<noteq> []" "list_all scheme_char a" "u \<noteq> []" "list_all user_char u" "p \<noteq> []" "list_all pass_char p"
  shows "rx_replace URI_CREDENTIALS_REGEX None (pre @ a @ ''://'' @ u @ '':'' @ p @ ''@'' @ rest)
    = pre @ a @ ''://'' @ u @ '':***@'' @ rx_replace URI_CREDENTIALS_REGEX (Some CHR ''@'') rest"
proof -
  let ?s = "a @ ''://'' @ u @ '':'' @ p @ ''@'' @ rest"
  obtain prev where skip: "rx_replace URI_CREDENTIALS_REGEX None (pre @ ?s) = pre @ rx_replace URI_CREDENTIALS_REGEX prev ?s"
    using uri_skips assms(1,2) by blast
  obtain more where m: "URI_CREDENTIALS_REGEX prev ?s = (a @ ''://'' @ u @ '':***@'', rest) # more"
    using uri_match assms(3-8) by blast
  have "?s ! (length ?s - length rest - 1) = CHR ''@''" by (simp add: nth_append)
  with replace_first [where m = URI_CREDENTIALS_REGEX and s = ?s, OF m] skip show ?thesis by simp
qed


section \<open>Properties\<close>

text \<open>The password of the first connection string of a message does not influence the sanitised message:
  two messages that differ only in that password, which may hold any characters but @ and white space,
  are sanitised to the same text.\<close>

lemma password_scrubbed:
  assumes "CHR '':'' \<notin> set pre" and "pre = [] \<or> \<not> scheme_char (last pre)"
    and "scheme \<noteq> []" and "list_all scheme_char scheme" and "user \<noteq> []" and "list_all user_char user"
    and "p \<noteq> []" and "list_all pass_char p" and "q \<noteq> []" and "list_all pass_char q"
  shows "sanitizeErrorMessage (Some (pre @ scheme @ ''://'' @ user @ '':'' @ p @ ''@'' @ rest)) =
    sanitizeErrorMessage (Some (pre @ scheme @ ''://'' @ user @ '':'' @ q @ ''@'' @ rest))"
  using uri_masked [OF assms(1-8), of rest] uri_masked [OF assms(1-6,9,10), of rest]
  by (simp add: sanitizeErrorMessage_def)

lemma password_scrubbed_witness:
  "sanitizeErrorMessage (Some (''at '' @ ''pg'' @ ''://'' @ ''u'' @ '':'' @ ''a:b'' @ ''@'' @ ''h/db'')) =
   sanitizeErrorMessage (Some (''at '' @ ''pg'' @ ''://'' @ ''u'' @ '':'' @ ''x'' @ ''@'' @ ''h/db''))"
  by (rule password_scrubbed) (simp_all add: scheme_char_def alnum_def user_char_def pass_char_def is_space_def)

text \<open>The keys that must be hidden, in any case of letters, and an object in which the values at these keys,
  at every depth, are replaced by anything.\<close>

definition secret_key :: "string \<Rightarrow> bool" where
  "secret_key k \<longleftrightarrow> (\<exists>w\<in>{''password'', ''secret'', ''secretkey'', ''accesskey'', ''token'', ''webhook'', ''webhookurl'',
     ''encryptionkey'', ''apikey'', ''pgpassword''}. map lower k = w)"

lemma secret_is_sensitive: "secret_key k \<Longrightarrow> sensitive k"
  by (simp add: secret_key_def sensitive_def SENSITIVE_KEYS_def)

fun replace_secrets :: "(string \<Rightarrow> json \<Rightarrow> json) \<Rightarrow> json \<Rightarrow> json" where
  "replace_secrets f (JArr xs) = JArr (map (replace_secrets f) xs)"
| "replace_secrets f (JObj kvs) = JObj (map (\<lambda>(k, v). (k, if secret_key k then f k v else replace_secrets f v)) kvs)"
| "replace_secrets f v = v"

text \<open>C40: Nothing that stands at the key of a secret, at any depth, of any type and with the key in any case of
  letters, influences the sanitised object: whatever the values there are replaced by, sanitizeObject
  returns the same.\<close>

theorem sensitive_values_hidden: "sanitizeObject (replace_secrets f v) = sanitizeObject v"
proof (induction f v rule: replace_secrets.induct)
  case (2 f kvs)
  have "(case replace_secrets f v of JStr s \<Rightarrow> JStr (sanitizeErrorMessage (Some s)) | _ \<Rightarrow> sanitizeObject (replace_secrets f v)) =
      (case v of JStr s \<Rightarrow> JStr (sanitizeErrorMessage (Some s)) | _ \<Rightarrow> sanitizeObject v)"
    if "(k, v) \<in> set kvs" "\<not> secret_key k" for k v
    using 2 [OF that(1) refl that(2)] by (cases v) auto
  then show ?case using secret_is_sensitive by (auto simp del: replace_secrets.simps(1))
qed auto

text \<open>A pair in JSON notation is not recognised: the expression expects \<open>:\<close> or \<open>=\<close> right after the key, and
  there the quotation mark of the key stands. The other two gaps: an \<open>@\<close> in the password ends the mask
  early, and strings inside arrays are returned as they are.\<close>

lemma json_password_leaks:
  "sanitizeErrorMessage (Some ([CHR 0x22] @ ''password'' @ [CHR 0x22] @ '':'' @ [CHR 0x22] @ ''x1'' @ [CHR 0x22]))
     = [CHR 0x22] @ ''password'' @ [CHR 0x22] @ '':'' @ [CHR 0x22] @ ''x1'' @ [CHR 0x22]"
  by code_simp

lemma strings_in_arrays_leak: "sanitizeObject (JArr [JStr s]) = JArr [JStr s]"
  by simp

end
