(* ===== verification/Orchestrator.thy ===== *)
theory Orchestrator
  imports BackupWorker CredentialScrubber MetadataService
begin

text \<open>
  \<open>microservices/backup-orchestrator/index.ts\<close>: the HTTP handlers that turn requests into jobs of the
  backup and restore queues. Bodies have passed the validation middleware, so \<open>dbConfig\<close> is an object,
  \<open>options\<close> is an object when present, and \<open>MAX_QUEUE_SIZE\<close> is decimal.
  The handlers answer with a status and a body; the queue, the metadata service and the identifiers
  (\<open>uuidv4\<close>) come from outside.
\<close>

record orch_env =
  oe_worker :: worker_env
  oe_uuid :: string
  oe_elapsed :: json
  oe_version :: json

section \<open>POST /backup\<close>

definition storage_request_s3 :: "json \<Rightarrow> json" where
  "storage_request_s3 c = jobj [(''name'', jget c ''name''), (''type'', Some (JStr ''s3'')), (''bucket'', jget c ''bucket''),
     (''region'', Some (or_j (jget c ''region'') (JStr ''us-east-1''))), (''accessKey'', jget c ''accessKey''),
     (''secretKey'', jget c ''secretKey''), (''config'', Some (JObj [(''prefix'', or_j (jget c ''prefix'') (JStr ''''))])),
     (''enabled'', Some (JBool True)), (''default'', Some (JBool False))]"

definition storage_request_local :: "json \<Rightarrow> json" where
  "storage_request_local c = jobj [(''name'', jget c ''name''), (''type'', Some (JStr ''local'')),
     (''config'', Some (JObj [(''basePath'', or_j (jget c ''basePath'') (JStr ''./backups''))])),
     (''enabled'', Some (JBool True)), (''default'', Some (JBool False))]"

text \<open>The identifier of the storage location of the request: looked up by name, created when it is missing.\<close>

definition resolve_storage :: "orch_env \<Rightarrow> world \<Rightarrow> json \<Rightarrow> (proc, json option) prog" where
  "resolve_storage G W c = (if \<not> truthy_j (Some c) \<or> \<not> truthy_j (jget c ''name'') then ret (Some JNull)
     else bnd (try_catch (getStorage (we_client (oe_worker G)) W (tpl (jget c ''name''))) (\<lambda>_. ret JNull)) (\<lambda>storage.
       if truthy_j (Some storage) then ret (jget storage ''id'')
       else bnd (createStorage (we_client (oe_worker G)) W
            (if jget c ''type'' = Some (JStr ''s3'') \<and> truthy_j (jget c ''bucket'') then storage_request_s3 c else storage_request_local c))
          (field ''id'')))"

definition queue_full :: "json \<Rightarrow> json \<Rightarrow> bool" where
  "queue_full waiting limit = (case (waiting, limit) of (JNum a, JNum b) \<Rightarrow> b \<le> a | _ \<Rightarrow> False)"

definition max_queue_size :: "orch_env \<Rightarrow> json" where
  "max_queue_size G = js_parseInt (or_s (we_var (oe_worker G) ''MAX_QUEUE_SIZE'') ''50'')"

definition new_job :: "orch_env \<Rightarrow> json \<Rightarrow> json option \<Rightarrow> json" where
  "new_job G b loc = (let db = nullish (jget b ''dbConfig'') JNull; name = or_j (oget (jget b ''options'') ''backupName'') JNull in jobj
     [(''id'', Some (JStr (oe_uuid G))), (''dbType'', jget db ''type''), (''dbName'', jget db ''database''),
      (''backupType'', jget b ''backupType''), (''status'', Some RUNNING), (''startedAt'', Some (we_now (oe_worker G))),
      (''fileName'', Some name), (''storageLocationId'', loc),
      (''metadata'', Some (jobj [(''options'', jget b ''options''), (''backupName'', Some name), (''storageLocationId'', loc),
         (''requestedAt'', Some (we_now (oe_worker G)))]))])"

definition queued_backup :: "orch_env \<Rightarrow> json \<Rightarrow> json option \<Rightarrow> json" where
  "queued_backup G b loc = (let c = or_j (oget (jget b ''options'') ''storage'') JNull in jobj
     [(''backupId'', Some (JStr (oe_uuid G))), (''dbConfig'', jget b ''dbConfig''), (''backupType'', jget b ''backupType''),
      (''options'', Some (jspread (JObj (jfields (nullish (jget b ''options'') JNull))) (jobj
         [(''backupId'', Some (JStr (oe_uuid G))), (''storageLocationId'', loc),
          (''storage'', if truthy_j (Some c) then Some c else None)])))])"

text \<open>The \<open>try\<close> block.\<close>

definition enqueue_backup :: "orch_env \<Rightarrow> world \<Rightarrow> json \<Rightarrow> (proc, response) prog" where
  "enqueue_backup G W b =
     bnd (getServiceUrl (we_var (oe_worker G)) (oget (jget b ''dbConfig'') ''type'')) (\<lambda>_.
     bnd (resolve_storage G W (or_j (oget (jget b ''options'') ''storage'') JNull)) (\<lambda>loc.
     bnd (run_call W (QAsk (BACKUP_QUEUE (oe_worker G)) ''getWaitingCount'' JNull)) (\<lambda>waiting.
     if queue_full waiting (max_queue_size G)
     then respond 429 (JObj [(''success'', JBool False), (''error'', JStr ''Backup queue is full.''),
        (''queueSize'', waiting), (''maxQueueSize'', max_queue_size G)])
     else seqp (createJob (we_client (oe_worker G)) W (new_job G b loc))
         (seqp (add_job W (BACKUP_QUEUE (oe_worker G)) ''backup'' (queued_backup G b loc) (oe_uuid G))
           (answer (JObj [(''success'', JBool True), (''backupId'', JStr (oe_uuid G)), (''queued'', JBool True),
             (''status'', JStr ''queued''), (''message'', JStr ''Backup has been queued and will be processed shortly''),
             (''statusUrl'', JStr (''/backup/'' @ oe_uuid G @ ''/status''))]))))))"

definition post_backup :: "orch_env \<Rightarrow> world \<Rightarrow> json \<Rightarrow> (proc, response) prog" where
  "post_backup G W b = try_catch (enqueue_backup G W b) (\<lambda>e.
     let m = JStr (sanitizeErrorMessage (Some (err_message e))) in
     seqp (ignore_errors (set_job (oe_worker G) W (oe_uuid G) (JObj [(''status'', FAILED), (''error'', m),
        (''completedAt'', we_now (oe_worker G)), (''duration'', oe_elapsed G)])))
       (respond 500 (JObj [(''success'', JBool False), (''backupId'', JStr (oe_uuid G)), (''error'', m)])))"

section \<open>Status and cancellation\<close>

definition failed_with :: "string \<Rightarrow> js_error \<Rightarrow> ('s, response) prog" where
  "failed_with m e = respond 500 (JObj [(''error'', JStr m), (''message'', JStr (err_message e))])"

definition answer_404 :: "string \<Rightarrow> ('s, response) prog" where
  "answer_404 m = respond 404 (error_body m)"

text \<open>\<open>queueStatus\<close>: errors of the queue are ignored.\<close>

definition queue_status :: "orch_env \<Rightarrow> world \<Rightarrow> string \<Rightarrow> (proc, json) prog" where
  "queue_status G W i = try_catch
     (bnd (run_call W (QAsk (BACKUP_QUEUE (oe_worker G)) ''getJob'' (JStr i))) (\<lambda>q.
      if \<not> truthy_j (Some q) then ret JNull
      else bnd (run_call W (QAsk (BACKUP_QUEUE (oe_worker G)) ''getState'' (JStr i))) (\<lambda>st.
        ret (jobj [(''state'', Some st), (''progress'', jget q ''progress''), (''attempts'', jget q ''attemptsMade''),
          (''maxAttempts'', oget (jget q ''opts'') ''attempts'')]))))
     (\<lambda>_. ret JNull)"

definition status_body :: "json \<Rightarrow> json \<Rightarrow> json" where
  "status_body j q = jobj
     [(''id'', jget j ''id''), (''status'', jget j ''status''),
      (''progress'', Some (JNum (if jget j ''status'' = Some RUNNING then 50 else 100))),
      (''filePath'', jget j ''filePath''), (''fileSize'', jget j ''fileSize''), (''duration'', jget j ''duration''),
      (''error'', jget j ''error''), (''createdAt'', jget j ''startedAt''), (''completedAt'', jget j ''completedAt''),
      (''backupName'', Some (or_j (jget j ''fileName'') (JStr ''N/A''))),
      (''storage'', Some (if truthy_j (jget j ''storageLocation'')
         then jobj [(''name'', oget (jget j ''storageLocation'') ''name''), (''type'', oget (jget j ''storageLocation'') ''type'')] else JNull)),
      (''queueStatus'', Some q)]"

definition get_backup_status :: "orch_env \<Rightarrow> world \<Rightarrow> string \<Rightarrow> (proc, response) prog" where
  "get_backup_status G W i = try_catch
     (bnd (getJob (we_client (oe_worker G)) W i False) (\<lambda>j.
      if \<not> truthy_j (Some j) then answer_404 ''Backup job not found''
      else bnd (queue_status G W i) (\<lambda>q. answer (status_body j q))))
     (failed_with ''Failed to get backup status'')"

text \<open>Removal from the queue: a refusal (BullMQ does not remove an active job) is ignored.\<close>

definition remove_from_queue :: "orch_env \<Rightarrow> world \<Rightarrow> string \<Rightarrow> (proc, unit) prog" where
  "remove_from_queue G W i = ignore_errors
     (bnd (run_call W (QAsk (BACKUP_QUEUE (oe_worker G)) ''getJob'' (JStr i))) (\<lambda>q.
      if truthy_j (Some q) then unit_call W (QAsk (BACKUP_QUEUE (oe_worker G)) ''remove'' (JStr i)) else ret ()))"

definition CANCELLED :: json where "CANCELLED = JStr ''cancelled''"

definition delete_backup :: "orch_env \<Rightarrow> world \<Rightarrow> string \<Rightarrow> (proc, response) prog" where
  "delete_backup G W i = try_catch
     (bnd (getJob (we_client (oe_worker G)) W i False) (\<lambda>j.
      if \<not> truthy_j (Some j) then answer_404 ''Backup job not found''
      else seqp (remove_from_queue G W i)
          (seqp (set_job (oe_worker G) W i (JObj [(''status'', CANCELLED), (''completedAt'', we_now (oe_worker G))]))
            (answer (JObj [(''success'', JBool True), (''message'', JStr ''Backup job cancelled'')])))))
     (failed_with ''Failed to cancel backup'')"

section \<open>Queue statistics\<close>

text \<open>\<open>a + b\<close> on the counts.\<close>

definition js_plus :: "json \<Rightarrow> json \<Rightarrow> json" where
  "js_plus a b = (case (a, b) of (JNum x, JNum y) \<Rightarrow> JNum (x + y) | _ \<Rightarrow> JNaN)"

definition queue_count :: "orch_env \<Rightarrow> world \<Rightarrow> string \<Rightarrow> (proc, json) prog" where
  "queue_count G W what = run_call W (QAsk (BACKUP_QUEUE (oe_worker G)) what JNull)"

definition get_queue_stats :: "orch_env \<Rightarrow> world \<Rightarrow> (proc, response) prog" where
  "get_queue_stats G W = try_catch
     (bnd (queue_count G W ''getWaitingCount'') (\<lambda>waiting. bnd (queue_count G W ''getActiveCount'') (\<lambda>active.
      bnd (queue_count G W ''getCompletedCount'') (\<lambda>finished. bnd (queue_count G W ''getFailedCount'') (\<lambda>failed.
      bnd (queue_count G W ''getDelayedCount'') (\<lambda>delayed.
      answer (JObj [(''queue'', JStr ''backup-queue''), (''stats'', JObj [(''waiting'', waiting), (''active'', active),
        (''completed'', finished), (''failed'', failed), (''delayed'', delayed),
        (''total'', js_plus (js_plus (js_plus (js_plus waiting active) finished) failed) delayed)])])))))))
     (failed_with ''Failed to get queue stats'')"

section \<open>Restores\<close>

definition queued_restore :: "orch_env \<Rightarrow> json \<Rightarrow> json" where
  "queued_restore G b = jobj [(''restoreId'', Some (JStr (oe_uuid G))), (''backupId'', jget b ''backupId''),
     (''filePath'', jget b ''filePath''), (''dbConfig'', jget b ''dbConfig''), (''options'', Some (dflt (jget b ''options'') (JObj [])))]"

text \<open>The existence check of \<open>POST /restore\<close>.\<close>

definition backup_known :: "orch_env \<Rightarrow> world \<Rightarrow> json \<Rightarrow> (proc, bool) prog" where
  "backup_known G W b = (if \<not> truthy_j (jget b ''backupId'') then ret True
     else bnd (getJob (we_client (oe_worker G)) W (tpl (jget b ''backupId'')) False) (\<lambda>j. ret (truthy_j (Some j))))"

definition post_restore :: "orch_env \<Rightarrow> world \<Rightarrow> json \<Rightarrow> (proc, response) prog" where
  "post_restore G W b = (let kind = tpl (oget (jget b ''dbConfig'') ''type'') in try_catch
     (if serviceRegistry (we_var (oe_worker G)) kind = None
      then respond 400 (JObj [(''success'', JBool False), (''error'', JStr (''Unsupported database type: '' @ kind))])
      else bnd (backup_known G W b) (\<lambda>known.
        if \<not> known then respond 404 (JObj [(''success'', JBool False), (''error'', JStr (''Backup job '' @ tpl (jget b ''backupId'') @ '' not found''))])
        else seqp (add_job W (RESTORE_QUEUE (oe_worker G)) ''restore'' (queued_restore G b) (oe_uuid G))
          (answer (JObj [(''success'', JBool True), (''restoreId'', JStr (oe_uuid G)), (''queued'', JBool True),
             (''status'', JStr ''queued''), (''message'', JStr ''Restore has been queued and will be processed shortly''),
             (''statusUrl'', JStr (''/restore/'' @ oe_uuid G @ ''/status''))]))))
     (\<lambda>e. respond 500 (JObj [(''success'', JBool False), (''restoreId'', JStr (oe_uuid G)),
        (''error'', JStr (sanitizeErrorMessage (Some (err_message e))))])))"

text \<open>A job that has left the queue is judged by its last log entry.\<close>

definition from_logs :: "string \<Rightarrow> json \<Rightarrow> (proc, response) prog" where
  "from_logs i logs = (case logs of
     JArr (x # xs) \<Rightarrow> let final = last (x # xs); is_error = jget final ''level'' = Some (JStr ''ERROR'') in
       answer (jobj [(''id'', Some (JStr i)), (''status'', Some (JStr (if is_error then ''failed'' else ''completed''))),
         (''progress'', Some (JNum (if is_error then 0 else 100))),
         (''error'', if is_error then jget final ''message'' else Some JNull), (''logs'', Some logs)])
   | _ \<Rightarrow> answer_404 ''Restore job not found in queue'')"

definition get_restore_status :: "orch_env \<Rightarrow> world \<Rightarrow> string \<Rightarrow> (proc, response) prog" where
  "get_restore_status G W i = try_catch
     (bnd (run_call W (QAsk (RESTORE_QUEUE (oe_worker G)) ''getJob'' (JStr i))) (\<lambda>q.
      if \<not> truthy_j (Some q)
      then bnd (try_catch (getLogs (we_client (oe_worker G)) W (JObj [(''backupJobId'', JStr i)])) (\<lambda>_. ret (JArr []))) (from_logs i)
      else bnd (run_call W (QAsk (RESTORE_QUEUE (oe_worker G)) ''getState'' (JStr i))) (\<lambda>st.
        answer (jobj [(''id'', jget q ''id''), (''status'', Some st), (''progress'', jget q ''progress''),
          (''attempts'', jget q ''attemptsMade''), (''maxAttempts'', oget (jget q ''opts'') ''attempts''),
          (''result'', Some (or_j (jget q ''returnvalue'') JNull)), (''error'', Some (or_j (jget q ''failedReason'') JNull))]))))
     (failed_with ''Failed to get restore status'')"

definition get_health :: "orch_env \<Rightarrow> ('s, response) prog" where
  "get_health G = answer (JObj [(''service'', JStr ''backup-orchestrator''), (''status'', JStr ''healthy''),
     (''version'', oe_version G), (''uptime'', oe_elapsed G)])"

end
