(* ===== verification/OrchestratorCorrect.thy ===== *)
theory OrchestratorCorrect
  imports Orchestrator WorkerCorrect
begin

text \<open>
  What the orchestrator's answers mean: an accepted backup is queued once, a refused one never, and the
  answers that do not say what they should.
\<close>

section \<open>Jobs queued and created\<close>

fun enqueues :: "call \<Rightarrow> json list" where
  "enqueues (QAdd q n d opts) = [d]"
| "enqueues _ = []"

text \<open>The creation of a job record: only there is \<open>startedAt\<close> set.\<close>

fun creates_job :: "call \<Rightarrow> bool" where
  "creates_job (Http m u p) = (m = ''POST'' \<and> jget p ''startedAt'' \<noteq> None)"
| "creates_job _ = False"

abbreviation uncommitted :: "call \<Rightarrow> bool" where
  "uncommitted c \<equiv> status_of c = [] \<and> enqueues c = [] \<and> \<not> creates_job c"

abbreviation unqueued :: "call \<Rightarrow> bool" where
  "unqueued c \<equiv> status_of c = [] \<and> enqueues c = []"

lemma statuses_none: "\<forall>c\<in>set cs. status_of c = [] \<Longrightarrow> statuses cs = []"
  by (simp add: statuses_def)

lemma uncommitted_storage: "only uncommitted (resolve_storage G W c)"
  unfolding resolve_storage_def getStorage_def createStorage_def no_params_def
  by (intro only) (auto simp: no_params_def storage_request_s3_def storage_request_local_def jget_jobj split: if_splits)

definition queued_as :: "string \<Rightarrow> json list \<Rightarrow> bool" where
  "queued_as i ds \<longleftrightarrow> (\<exists>d. ds = [d] \<and> jget d ''backupId'' = Some (JStr i))"

text \<open>The three ends of a request.\<close>

definition backup_answered :: "orch_env \<Rightarrow> world \<Rightarrow> call list \<Rightarrow> int \<Rightarrow> call list \<Rightarrow> bool" where
  "backup_answered G W l st new \<longleftrightarrow>
     (if st = 200 then queued_as (oe_uuid G) (answered enqueues W l new) \<and> statuses new = []
      else if st = 429 then \<forall>c\<in>set new. uncommitted c
      else st = 500 \<and> answered enqueues W l new = [] \<and> (\<exists>n. statuses new = replicate (Suc n) FAILED))"

lemma queued_backup_id: "jget (queued_backup G b loc) ''backupId'' = Some (JStr (oe_uuid G))"
  unfolding queued_backup_def Let_def by (subst jget_jobj) simp_all

lemma traces_add_job:
  "traces (add_job W q n d i) (\<lambda>l r new. answered enqueues W l new = (if isl r then [] else [d]) \<and> statuses new = [])"
  unfolding add_job_def unit_call_def
proof (rule traces_bnd)
  let ?c = "QAdd q n d (JObj [(''jobId'', JStr i)])"
  show "traces (run_call W ?c) (\<lambda>l r new. answered enqueues W l new = (if isl r then [] else [d]) \<and> statuses new = [])"
    by (rule traces_run_call) simp_all
  show "traces (ret ()) (\<lambda>l r new. new = [] \<and> \<not> isl r)" for x :: json by (rule traces_ret) simp
qed auto

abbreviation tried :: "orch_env \<Rightarrow> world \<Rightarrow> call list \<Rightarrow> js_error + response \<Rightarrow> call list \<Rightarrow> bool" where
  "tried G W l r new \<equiv> (case r of Inl e \<Rightarrow> answered enqueues W l new = [] \<and> statuses new = []
     | Inr v \<Rightarrow> rs_status v \<in> {200, 429} \<and> backup_answered G W l (rs_status v) new)"

abbreviation committed :: "orch_env \<Rightarrow> world \<Rightarrow> call list \<Rightarrow> js_error + response \<Rightarrow> call list \<Rightarrow> bool" where
  "committed G W l r new \<equiv> (case r of Inl e \<Rightarrow> answered enqueues W l new = [] \<and> statuses new = []
     | Inr v \<Rightarrow> rs_status v = 200 \<and> backup_answered G W l 200 new)"

lemma tried_after:
  assumes "only uncommitted m" and "\<And>x. traces (k x) (tried G W)"
  shows "traces (bnd m k) (tried G W)"
proof (rule traces_bnd [OF assms(1) [unfolded only_def] assms(2)])
  fix l x a b and r :: "js_error + response"
  assume a: "\<forall>c\<in>set a. uncommitted c" and b: "tried G W (l @ a) r b"
  have "answered enqueues W l a = []" "statuses a = []" using a by (simp_all add: answered_none statuses_none)
  with a b show "tried G W l r (a @ b)"
    by (auto simp: backup_answered_def answered_append split: sum.splits if_splits)
qed (simp add: answered_none statuses_none)

lemma tried_enqueue: "traces (enqueue_backup G W b) (tried G W)"
proof -
  have full: "traces (respond 429 x) (tried G W)" for x
    unfolding respond_def by (rule traces_ret) (simp add: backup_answered_def)
  have create: "only unqueued (createJob C W d)" for C d
    unfolding createJob_def by (intro only) simp_all
  have queue: "traces (seqp (createJob C W d) (seqp (add_job W q n (queued_backup G b loc) i) (answer v))) (tried G W)" for C d q n loc i v
  proof (rule traces_bnd [OF create [unfolded only_def]])
    show "traces (seqp (add_job W q n (queued_backup G b loc) i) (answer v)) (committed G W)" for x :: json
    proof (rule traces_bnd [OF traces_add_job])
      show "traces (answer v) (\<lambda>l r new. r = Inr \<lparr>rs_status = 200, rs_body = v\<rparr> \<and> new = [])" for y :: unit
        unfolding answer_def respond_def by (rule traces_ret) simp
    qed (auto simp: backup_answered_def queued_as_def queued_backup_id)
  next
    fix l a c x and r :: "js_error + response"
    assume a: "\<forall>c\<in>set a. unqueued c" and "committed G W (l @ a) r c"
    moreover have "answered enqueues W l a = []" "statuses a = []" using a by (simp_all add: answered_none statuses_none)
    ultimately show "tried G W l r (a @ c)"
      by (auto simp: backup_answered_def answered_append split: sum.splits if_splits)
  qed (simp add: answered_none statuses_none)
  show ?thesis unfolding enqueue_backup_def
    by (intro tried_after traces_if full queue uncommitted_storage only) simp_all
qed


lemma only_ignored_set: "traces (ignore_errors (set_job E W i d)) (\<lambda>l r new. \<not> isl r \<and> answered enqueues W l new = [] \<and>
    (\<forall>v. jget d ''status'' = Some v \<longrightarrow> (\<exists>n. statuses new = replicate (Suc n) v)))"
proof (rule tracesI)
  fix s
  obtain r new b where run: "updateJob (we_client E) W i d s = (r, s\<lparr>calls := calls s @ new, baseUrl := b\<rparr>)"
    and n: "request_shape ''PATCH'' d new" unfolding updateJob_def using request_run by blast
  have "\<forall>c\<in>set new. enqueues c = []" using n by (rule request_shape_all) simp_all
  then have a: "answered enqueues W (calls s) new = []" by (rule answered_none)
  have v: "\<exists>n. statuses new = replicate (Suc n) v" if "jget d ''status'' = Some v" for v
    using request_statuses [OF n refl that] .
  have "ignore_errors (set_job E W i d) s = (Inr (), s\<lparr>calls := calls s @ new, baseUrl := b\<rparr>)"
    using run by (cases r) (simp_all add: ignore_errors_def set_job_def try_catch_def bnd_def ret_def)
  with a v show "\<exists>new r b. ignore_errors (set_job E W i d) s = (r, s\<lparr>calls := calls s @ new, baseUrl := b\<rparr>) \<and> \<not> isl r \<and>
      answered enqueues W (calls s) new = [] \<and> (\<forall>v. jget d ''status'' = Some v \<longrightarrow> (\<exists>n. statuses new = replicate (Suc n) v))"
    by (intro exI [of _ new] exI [of _ "Inr ()"] exI [of _ b]) simp
qed

lemma traces_post_backup:
  "traces (post_backup G W b) (\<lambda>l r new. \<exists>v. r = Inr v \<and> backup_answered G W l (rs_status v) new)"
  unfolding post_backup_def Let_def
proof (rule traces_try_catch [OF tried_enqueue])
  fix e
  let ?m = "JStr (sanitizeErrorMessage (Some (err_message e)))"
  let ?d = "JObj [(''status'', FAILED), (''error'', ?m), (''completedAt'', we_now (oe_worker G)), (''duration'', oe_elapsed G)]"
  show "traces (seqp (ignore_errors (set_job (oe_worker G) W (oe_uuid G) ?d))
      (respond 500 (JObj [(''success'', JBool False), (''backupId'', JStr (oe_uuid G)), (''error'', ?m)])))
     (\<lambda>l r new. \<exists>v. r = Inr v \<and> rs_status v = 500 \<and> answered enqueues W l new = [] \<and> (\<exists>n. statuses new = replicate (Suc n) FAILED))"
  proof (rule traces_bnd [OF only_ignored_set])
    show "traces (respond 500 (JObj [(''success'', JBool False), (''backupId'', JStr (oe_uuid G)), (''error'', ?m)]))
        (\<lambda>l r new. new = [] \<and> (\<exists>v. r = Inr v \<and> rs_status v = 500))" for x :: unit
      unfolding respond_def by (rule traces_ret) simp
  qed auto
qed (auto simp: backup_answered_def answered_append)

section \<open>Properties\<close>



text \<open>A backup that does not exist is an internal error to every caller of the orchestrator: when the metadata
  service answers 404 for a job, the status, cancel and restore handlers answer 500, never the 404 they
  have a branch for.\<close>

lemma unknown_backup_is_500:
  assumes "W (calls s) (Http ''GET'' (baseUrl s @ ''/api/jobs/'' @ encodeURIComponent i) (with_params (JObj [(''includeLogs'', JBool False)])))
      = Inl (refused (rs_status (not_found ''Backup job '' i '' not found'')) (rs_body (not_found ''Backup job '' i '' not found'')))"
    and "CHR ''H'' \<notin> set i"
    and "jget b ''backupId'' = Some (JStr i)" and "i \<noteq> ''''" and "oget (jget b ''dbConfig'') ''type'' = Some (JStr ''mysql'')"
  shows "map_sum id rs_status (fst (get_backup_status G W i s)) = Inr 500 \<and>
    map_sum id rs_status (fst (delete_backup G W i s)) = Inr 500 \<and> map_sum id rs_status (fst (post_restore G W b s)) = Inr 500"
proof -
  obtain e t where "getJob (we_client (oe_worker G)) W i False s = (Inl e, t)" using getJob_missing [where W = W and s = s, OF assms(1,2)] by blast
  then show ?thesis
    using assms(3-5)
    by (simp add: get_backup_status_def delete_backup_def post_restore_def backup_known_def try_catch_def bnd_def failed_with_def
        respond_def ret_def tpl_def serviceRegistry_def Let_def)
qed

text \<open>The status of a restore that has left the queue is taken from its oldest log entry: the orchestrator
  reads the last of the entries, and its query leaves the metadata service at its default order, newest
  first. So a restore that failed, and whose first entry is the usual INFO, is reported as completed.\<close>

lemma restore_status_from_oldest_log:
  assumes "W (calls s) (QAsk (RESTORE_QUEUE (oe_worker G)) ''getJob'' (JStr i)) = Inr JNull"
    and "W (calls s @ [QAsk (RESTORE_QUEUE (oe_worker G)) ''getJob'' (JStr i)])
        (Http ''GET'' (baseUrl s @ ''/api/logs'') (with_params (JObj [(''backupJobId'', JStr i)])))
      = Inr (JObj [(''success'', JBool True), (''logs'', JArr (newer @ [oldest]))])"
    and "jget oldest ''level'' = Some (JStr ''INFO'')"
  shows "sort_order (JObj [(''backupJobId'', JStr i)]) = JStr ''desc'' \<and>
    map_sum id (\<lambda>v. jget (rs_body v) ''status'') (fst (get_restore_status G W i s)) = Inr (Some (JStr ''completed''))"
proof -
  let ?ask = "QAsk (RESTORE_QUEUE (oe_worker G)) ''getJob'' (JStr i)"
  let ?t = "s\<lparr>calls := calls s @ [?ask]\<rparr>"
  let ?p = "with_params (JObj [(''backupJobId'', JStr i)])" and ?r = "JObj [(''success'', JBool True), (''logs'', JArr (newer @ [oldest]))]"
  have req: "request (we_client (oe_worker G)) W ''GET'' ''/api/logs'' ?p ''Query logs'' ?t
      = (Inr ?r, ?t\<lparr>calls := calls ?t @ [Http ''GET'' (baseUrl ?t @ ''/api/logs'') ?p]\<rparr>)"
    by (rule request_ok(1)) (use assms(2) in simp)
  obtain t where "getLogs (we_client (oe_worker G)) W (JObj [(''backupJobId'', JStr i)]) ?t = (Inr (JArr (newer @ [oldest])), t)"
    unfolding getLogs_def bnd_def req by (simp add: field_or_def ret_def or_j_def)
  moreover have "from_logs i (JArr (newer @ [oldest])) = answer (jobj [(''id'', Some (JStr i)), (''status'', Some (JStr ''completed'')),
       (''progress'', Some (JNum 100)), (''error'', Some JNull), (''logs'', Some (JArr (newer @ [oldest])))])"
  proof -
    obtain x xs where x: "newer @ [oldest] = x # xs" by (cases newer) auto
    then have l: "last (x # xs) = oldest" by (metis last_snoc)
    show ?thesis unfolding x from_logs_def by (simp only: json.case list.case Let_def l assms(3)) simp
  qed
  ultimately show ?thesis
    using assms(1)
    by (simp add: get_restore_status_def run_call_def ask_def try_catch_def bnd_def ret_def answer_def respond_def jget_jobj sort_order_def dflt_def)
qed

section \<open>Concrete services\<close>

definition sample_orch :: orch_env where
  "sample_orch = \<lparr>oe_worker = sample_worker, oe_uuid = ''u1'', oe_elapsed = JNum 5, oe_version = JStr ''1''\<rparr>"

definition sample_restore_body :: json where
  "sample_restore_body = JObj [(''backupId'', JStr ''x''), (''dbConfig'', JObj [(''type'', JStr ''mysql'')])]"

lemma unknown_backup_is_500_witness:
  "map_sum id rs_status (fst (get_backup_status sample_orch empty_service ''x'' sample_proc)) = Inr 500 \<and>
   map_sum id rs_status (fst (post_restore sample_orch empty_service sample_restore_body sample_proc)) = Inr 500"
  using unknown_backup_is_500 [of empty_service sample_proc "''x''" sample_restore_body sample_orch]
  by (simp add: sample_proc_def sample_restore_body_def oget_def not_found_body encodeURIComponent_def uri_safe_def quoted_def)

fun forgotten_restore :: world where
  "forgotten_restore cs (Http m u p) = Inr (JObj [(''success'', JBool True),
     (''logs'', JArr ([JObj [(''level'', JStr ''ERROR''), (''message'', JStr ''Restore failed'')]] @ [JObj [(''level'', JStr ''INFO'')]]))])"
| "forgotten_restore cs c = Inr JNull"

lemma restore_status_from_oldest_log_witness:
  "map_sum id (\<lambda>v. jget (rs_body v) ''status'') (fst (get_restore_status sample_orch forgotten_restore ''r1'' sample_proc)) = Inr (Some (JStr ''completed''))"
  using restore_status_from_oldest_log [of forgotten_restore sample_proc sample_orch "''r1''"
      "[JObj [(''level'', JStr ''ERROR''), (''message'', JStr ''Restore failed'')]]" "JObj [(''level'', JStr ''INFO'')]"]
  by simp

end
