(* ===== verification/Scheduler.thy ===== *)
theory Scheduler
  imports BackupWorker MetadataService RedisLock
begin

text \<open>
  \<open>microservices/scheduler-service/index.ts\<close>: schedules, their cron tasks, the execution of a scheduled
  backup under the distributed lock of its database, and the notifications of its outcome.

  \<open>node-cron\<close> decides which expressions are valid; a task is the closure it runs, kept in the map
  \<open>scheduledTasks\<close>. \<open>JSON.parse\<close> and the elapsed time come from outside. An execution runs over the lock
  instance it makes and the process. Bodies have passed the validation middleware.
\<close>

record sched_env =
  se_worker :: worker_env
  se_cron_ok :: "json option \<Rightarrow> bool"
  se_parse :: "string \<Rightarrow> json option"
  se_elapsed :: json
  se_version :: json

record task =
  tk_id :: "json option"
  tk_cron :: "json option"
  tk_db :: "json option"
  tk_type :: "json option"
  tk_options :: "json option"
  tk_notification :: json

type_synonym task_map = "(json option \<times> task) list"
type_synonym 'a sprog = "(proc \<times> task_map, 'a) prog"

section \<open>Notification settings\<close>

text \<open>\<open>null\<close> is \<open>JNull\<close>. The old format carries a single provider.\<close>

definition normalizeNotification :: "json option \<Rightarrow> json" where
  "normalizeNotification n = (if \<not> truthy_j n then JNull
     else case oget n ''providers'' of
       Some (JArr _) \<Rightarrow> the n
     | _ \<Rightarrow> if truthy_j (oget n ''type'') \<and> truthy_j (oget n ''details'')
         then JObj [(''providers'', JArr [jobj [(''type'', oget n ''type''), (''details'', oget n ''details'')]])]
         else JNull)"

definition getNotificationProviders :: "json \<Rightarrow> json list" where
  "getNotificationProviders n = (case jget (normalizeNotification (Some n)) ''providers'' of Some (JArr ps) \<Rightarrow> ps | _ \<Rightarrow> [])"

definition of_type :: "string \<Rightarrow> json \<Rightarrow> bool" where
  "of_type t p \<longleftrightarrow> jget p ''type'' = Some (JStr t)"

definition hasProvider :: "json \<Rightarrow> string \<Rightarrow> bool" where
  "hasProvider n t = list_ex (of_type t) (getNotificationProviders n)"

definition getProviderDetails :: "json \<Rightarrow> string \<Rightarrow> json" where
  "getProviderDetails n t = (case find (of_type t) (getNotificationProviders n) of
     None \<Rightarrow> JNull | Some p \<Rightarrow> or_j (jget p ''details'') JNull)"

definition getProviderTypes :: "json \<Rightarrow> json option list" where
  "getProviderTypes n = map (\<lambda>p. jget p ''type'') (getNotificationProviders n)"

text \<open>\<open>provider.details\<close>, whose properties are read next: it must be there.\<close>

definition details_of :: "json \<Rightarrow> ('s, json) prog" where
  "details_of p = (case jget p ''details'' of
     Some d \<Rightarrow> if d = JNull then throw (new_Error ''Cannot read properties of null'') else ret d
   | None \<Rightarrow> throw (new_Error ''Cannot read properties of undefined''))"

text \<open>\<open>provider ? provider.details.k || null : null\<close>\<close>

definition provider_setting :: "json list \<Rightarrow> string \<Rightarrow> string \<Rightarrow> ('s, json) prog" where
  "provider_setting ps t k = (case find (of_type t) ps of None \<Rightarrow> ret JNull
     | Some p \<Rightarrow> bnd (details_of p) (\<lambda>d. ret (or_j (jget d k) JNull)))"

section \<open>Notifications\<close>

record notice =
  nt_success :: bool
  nt_backupId :: "json option"
  nt_scheduleId :: "json option"
  nt_db :: "json option"
  nt_type :: "json option"
  nt_fileSize :: "json option"
  nt_error :: "json option"
  nt_notification :: json

definition tick :: string where "tick = [CHR 0xE2, CHR 0x9C, CHR 0x85]"
definition cross :: string where "cross = [CHR 0xE2, CHR 0x9D, CHR 0x8C]"

definition short_field :: "string \<Rightarrow> json option \<Rightarrow> bool \<Rightarrow> json" where
  "short_field t v b = jobj [(''title'', Some (JStr t)), (''value'', v), (''short'', Some (JBool b))]"

definition notice_message :: "sched_env \<Rightarrow> notice \<Rightarrow> json \<Rightarrow> json" where
  "notice_message S n schedule =
     (let E = se_worker S; ok = nt_success n; db = tpl (oget (nt_db n) ''database'');
          target = tpl (oget (nt_db n) ''type'') @ ''/'' @ db; spent = we_fixed E (se_elapsed S);
          size = (if truthy_j (nt_fileSize n) then we_megabytes E (the (nt_fileSize n)) @ '' MB'' else '''') in
      JObj [(''subject'', JStr ((if ok then tick @ '' Backup Completed - '' else cross @ '' Backup Failed - '') @ db)),
        (''text'', JStr (''Backup '' @ (if ok then ''Completed Successfully'' else ''Failed'') @ newline @ newline
           @ ''Database: '' @ target @ newline @ ''Type: '' @ tpl (nt_type n) @ newline
           @ ''Schedule: '' @ js_String (or_j (jget schedule ''name'') (JStr ''Scheduled Backup'')) @ newline
           @ ''Time: '' @ js_String (we_now E) @ newline @ ''Duration: '' @ spent @ '' seconds'' @ newline
           @ (if truthy_j (nt_backupId n) then ''Backup ID: '' @ tpl (nt_backupId n) else '''') @ newline
           @ (if size = '''' then '''' else ''Size: '' @ size) @ newline
           @ (if truthy_j (nt_error n) then ''Error: '' @ tpl (nt_error n) else ''''))),
        (''attachments'', JArr [JObj
          [(''color'', JStr (if ok then ''#36a64f'' else ''#ff0000'')),
           (''title'', JStr (if ok then tick @ '' Backup Successful'' else cross @ '' Backup Failed'')),
           (''fields'', JArr ([short_field ''Database'' (Some (JStr target)) True, short_field ''Type'' (nt_type n) True,
              short_field ''Duration'' (Some (JStr (spent @ ''s''))) True]
             @ (if ok then [short_field ''Backup ID'' (Some (or_j (nt_backupId n) (JStr ''N/A''))) True,
                  short_field ''Size'' (Some (JStr (if size = '''' then ''N/A'' else size))) True]
                else [short_field ''Error'' (Some (or_j (nt_error n) (JStr ''Unknown error''))) False]))),
           (''footer'', JStr ''DB Backup CLI''), (''ts'', we_seconds E)]])])"

definition email_config :: "worker_env \<Rightarrow> json \<Rightarrow> json" where
  "email_config E d = jobj
     [(''smtpHost'', Some (first_truthy [jget d ''smtpHost'', env_json E ''SMTP_HOST''] (JStr ''smtp.gmail.com''))),
      (''smtpPort'', Some (or_j (jget d ''smtpPort'') (js_parseInt (or_s (we_var E ''SMTP_PORT'') ''587'')))),
      (''smtpSecure'', Some (or_j (jget d ''smtpSecure'') (JBool (we_var E ''SMTP_SECURE'' = Some ''true'')))),
      (''smtpUser'', or_chain [jget d ''smtpUser'', env_json E ''SMTP_USER'']),
      (''smtpPassword'', or_chain [jget d ''smtpPassword'', env_json E ''SMTP_PASS'']),
      (''from'', or_chain [jget d ''from'', env_json E ''SMTP_FROM'']),
      (''to'', or_chain [jget d ''to'', env_json E ''SMTP_TO''])]"

definition notify_config :: "worker_env \<Rightarrow> json \<Rightarrow> ('s, json) prog" where
  "notify_config E p = (if of_type ''email'' p then bnd (details_of p) (\<lambda>d. ret (email_config E d))
     else if of_type ''slack'' p
     then bnd (details_of p) (\<lambda>d. ret (jobj [(''webhookUrl'', or_chain [jget d ''webhookUrl'', env_json E ''SLACK_WEBHOOK_URL''])]))
     else ret (JObj []))"

definition notification_url :: "worker_env \<Rightarrow> string" where
  "notification_url E = or_s (we_var E ''NOTIFICATION_SERVICE_URL'') ''http://localhost:3040''"

text \<open>One provider: the queue first, then HTTP; every error is logged and dropped.\<close>

definition notify_provider :: "sched_env \<Rightarrow> world \<Rightarrow> notice \<Rightarrow> json \<Rightarrow> json \<Rightarrow> (proc, unit) prog" where
  "notify_provider S W n message p = ignore_errors
     (bnd (notify_config (se_worker S) p) (\<lambda>cfg.
      let d = jobj [(''type'', jget p ''type''), (''backupId'', or_chain [nt_backupId n, nt_scheduleId n]),
         (''config'', Some cfg), (''message'', Some message)] in
      try_catch (unit_call W (QAdd (NOTIFICATION_QUEUE (se_worker S)) ''notify'' d JNull))
        (\<lambda>_. unit_call W (Http ''POST'' (notification_url (se_worker S) @ ''/api/notify'') d))))"

definition sendBackupNotifications :: "sched_env \<Rightarrow> world \<Rightarrow> notice \<Rightarrow> (proc, unit) prog" where
  "sendBackupNotifications S W n = (let ps = getNotificationProviders (nt_notification n) in
     if ps = [] then ret ()
     else bnd (getSchedule (we_client (se_worker S)) W (tpl (nt_scheduleId n))) (\<lambda>schedule.
       for_each ps (notify_provider S W n (notice_message S n schedule))))"

section \<open>The execution of a scheduled backup\<close>

definition orchestrator_url :: "worker_env \<Rightarrow> string" where
  "orchestrator_url E = or_s (we_var E ''ORCHESTRATOR_URL'') ''http://localhost:3001''"

definition set_schedule :: "sched_env \<Rightarrow> world \<Rightarrow> task \<Rightarrow> json \<Rightarrow> (proc, unit) prog" where
  "set_schedule S W t d = seqp (updateSchedule (we_client (se_worker S)) W (tpl (tk_id t)) d) (ret ())"

definition notice_of :: "task \<Rightarrow> bool \<Rightarrow> json option \<Rightarrow> json option \<Rightarrow> json option \<Rightarrow> notice" where
  "notice_of t ok backup sz err = \<lparr>nt_success = ok, nt_backupId = backup, nt_scheduleId = tk_id t, nt_db = tk_db t,
     nt_type = tk_type t, nt_fileSize = sz, nt_error = err, nt_notification = tk_notification t\<rparr>"

definition notify_outcome :: "sched_env \<Rightarrow> world \<Rightarrow> notice \<Rightarrow> (proc, unit) prog" where
  "notify_outcome S W n = (if truthy_j (Some (nt_notification n)) then sendBackupNotifications S W n else ret ())"

text \<open>The inner \<open>try\<close> block.\<close>

definition request_backup :: "sched_env \<Rightarrow> world \<Rightarrow> task \<Rightarrow> (proc, unit) prog" where
  "request_backup S W t =
     seqp (set_schedule S W t (JObj [(''lastRunAt'', we_now (se_worker S))]))
    (bnd (run_call W (Http ''POST'' (orchestrator_url (se_worker S) @ ''/backup'')
        (jobj [(''dbConfig'', tk_db t), (''backupType'', tk_type t),
          (''options'', Some (jspread (JObj (jfields (nullish (tk_options t) JNull)))
             (jobj [(''scheduled'', Some (JBool True)), (''scheduleId'', tk_id t)])))]))) (\<lambda>data.
     bnd (field ''success'' data) (\<lambda>ok.
     if truthy_j ok
     then seqp (set_schedule S W t (JObj [(''lastRunStatus'', JStr ''success''), (''error'', JNull)]))
         (notify_outcome S W (notice_of t True (jget data ''backupId'') (jget data ''fileSize'') None))
     else throw (new_Error (js_String (or_j (jget data ''error'') (JStr ''Backup failed'')))))))"

definition scheduled_backup :: "sched_env \<Rightarrow> world \<Rightarrow> task \<Rightarrow> (proc, unit) prog" where
  "scheduled_backup S W t = try_catch (request_backup S W t) (\<lambda>e.
     seqp (set_schedule S W t (JObj [(''lastRunStatus'', JStr ''failed''), (''error'', JStr (err_message e))]))
       (notify_outcome S W (notice_of t False (Some JNull) None (Some (JStr (err_message e))))))"

definition lock_key :: "task \<Rightarrow> string" where
  "lock_key t = ''backup:'' @ tpl (oget (tk_db t) ''type'') @ '':'' @ tpl (oget (tk_db t) ''database'')"

text \<open>The execution with the lock instance made for it; \<open>v\<close> is the value the lock draws.\<close>

definition with_lock :: "'s redis \<Rightarrow> string \<Rightarrow> sched_env \<Rightarrow> world \<Rightarrow> task \<Rightarrow> ('s dl \<times> proc, unit) prog" where
  "with_lock R v S W t = guarded (on_fst (dl_acquire R v)) (on_fst (dl_release R)) (on_snd (scheduled_backup S W t))"

definition executeScheduledBackup :: "'s redis \<Rightarrow> string \<Rightarrow> sched_env \<Rightarrow> world \<Rightarrow> task \<Rightarrow> ('s \<times> proc, unit) prog" where
  "executeScheduledBackup R v S W t = (\<lambda>(srv, p). case new_dlock True (lock_key t) (Some 3600) of
     Inl e \<Rightarrow> (Inl e, (srv, p))
   | Inr l \<Rightarrow> (case with_lock R v S W t ((l, srv), p) of (r, ((_, srv'), p')) \<Rightarrow> (r, (srv', p'))))"

section \<open>The map of tasks\<close>

definition set_task :: "json option \<Rightarrow> task \<Rightarrow> unit sprog" where
  "set_task i t = modify_st (\<lambda>(p, ts). (p, (i, t) # filter (\<lambda>(k, _). k \<noteq> i) ts))"

definition delete_task :: "json option \<Rightarrow> unit sprog" where
  "delete_task i = modify_st (\<lambda>(p, ts). (p, filter (\<lambda>(k, _). k \<noteq> i) ts))"

definition active_count :: "json sprog" where
  "active_count = gets (\<lambda>(_, ts). JNum (int (length ts)))"

section \<open>The handlers\<close>

definition failed_reply :: "js_error \<Rightarrow> ('s, response) prog" where
  "failed_reply e = respond 500 (JObj [(''success'', JBool False), (''error'', JStr (err_message e))])"

definition schedule_record :: "json \<Rightarrow> json \<Rightarrow> json \<Rightarrow> json \<Rightarrow> json" where
  "schedule_record b n slack emails = (let db = jget b ''dbConfig''; opts = jget b ''options'' in jobj
     [(''name'', Some (or_j (oget opts ''name'') (JStr (tpl (oget db ''type'') @ ''_'' @ tpl (oget db ''database'') @ ''_backup'')))),
      (''dbType'', oget db ''type''), (''dbName'', oget db ''database''), (''schedule'', jget b ''schedule''),
      (''backupType'', jget b ''backupType''), (''compress'', Some (or_j (oget opts ''compress'') (JBool True))),
      (''storageType'', Some (or_j (jget b ''storageType'') (JStr ''local''))),
      (''retention'', Some (or_j (oget opts ''retention'') (JNum 30))), (''enabled'', Some (JBool True)),
      (''notifyOnSuccess'', Some (JBool (getNotificationProviders n \<noteq> []))), (''notifyOnError'', Some (JBool True)),
      (''slackWebhook'', Some slack), (''emailRecipients'', Some emails),
      (''metadata'', Some (jobj [(''dbConfig'', db), (''options'', opts),
         (''storageType'', Some (or_j (jget b ''storageType'') (JStr ''local''))), (''notification'', Some n)]))])"

definition schedule_route :: "sched_env \<Rightarrow> world \<Rightarrow> json \<Rightarrow> response sprog" where
  "schedule_route S W b = try_catch
     (if \<not> se_cron_ok S (jget b ''schedule'') then throw (new_Error ''Invalid cron expression'')
      else let n = normalizeNotification (jget b ''notification''); ps = getNotificationProviders n in
        bnd (provider_setting ps ''slack'' ''webhookUrl'') (\<lambda>slack.
        bnd (provider_setting ps ''email'' ''to'') (\<lambda>emails.
        bnd (on_fst (createSchedule (we_client (se_worker S)) W (schedule_record b n slack emails))) (\<lambda>rec.
        bnd (on_fst (field ''id'' rec)) (\<lambda>i.
        seqp (set_task i \<lparr>tk_id = i, tk_cron = jget b ''schedule'', tk_db = jget b ''dbConfig'', tk_type = jget b ''backupType'',
            tk_options = jget b ''options'', tk_notification = n\<rparr>)
          (respond 200 (jobj [(''success'', Some (JBool True)), (''scheduleId'', i), (''schedule'', Some rec)])))))))
     failed_reply"

definition stop_schedule :: "sched_env \<Rightarrow> world \<Rightarrow> string \<Rightarrow> response sprog" where
  "stop_schedule S W i = try_catch
     (seqp (delete_task (Some (JStr i)))
     (seqp (on_fst (updateSchedule (we_client (se_worker S)) W i (JObj [(''enabled'', JBool False)])))
       (respond 200 (JObj [(''success'', JBool True)]))))
     failed_reply"

definition list_schedules :: "sched_env \<Rightarrow> world \<Rightarrow> response sprog" where
  "list_schedules S W = try_catch
     (bnd (on_fst (listSchedules (we_client (se_worker S)) W (Some True))) (\<lambda>xs.
      bnd active_count (\<lambda>n. respond 200 (JObj [(''success'', JBool True), (''schedules'', xs), (''activeCount'', n)]))))
     failed_reply"

definition sched_health :: "sched_env \<Rightarrow> response sprog" where
  "sched_health S = bnd active_count (\<lambda>n. respond 200 (JObj [(''service'', JStr ''scheduler-service''), (''status'', JStr ''healthy''),
     (''version'', se_version S), (''uptime'', se_elapsed S), (''scheduledTasks'', n)]))"

section \<open>Start-up\<close>

text \<open>\<open>JSON.parse(schedule.metadata || '{}')\<close>: the argument is made a string first.\<close>

definition parse_metadata :: "sched_env \<Rightarrow> json option \<Rightarrow> ('s, json) prog" where
  "parse_metadata S m = (case se_parse S (js_String (or_j m (JStr ''{}''))) of
     Some v \<Rightarrow> ret v | None \<Rightarrow> throw (JsError ''SyntaxError'' ''Unexpected token in JSON''))"

definition load_schedule :: "sched_env \<Rightarrow> json \<Rightarrow> unit sprog" where
  "load_schedule S x = (if \<not> se_cron_ok S (jget x ''schedule'') then ret ()
     else bnd (parse_metadata S (jget x ''metadata'')) (\<lambda>m.
       set_task (jget x ''id'') \<lparr>tk_id = jget x ''id'', tk_cron = jget x ''schedule'', tk_db = jget m ''dbConfig'',
         tk_type = jget x ''backupType'', tk_options = Some (or_j (jget m ''options'') (JObj [])),
         tk_notification = normalizeNotification (jget m ''notification'')\<rparr>))"

definition loadSchedules :: "sched_env \<Rightarrow> world \<Rightarrow> unit sprog" where
  "loadSchedules S W = try_catch
     (bnd (on_fst (listSchedules (we_client (se_worker S)) W (Some True))) (\<lambda>xs. case xs of
        JArr ys \<Rightarrow> for_each ys (load_schedule S)
      | _ \<Rightarrow> throw (new_Error ''schedules is not iterable'')))
     (\<lambda>_. ret ())"

end
