(* ===== verification/SchedulerCorrect.thy ===== *)
theory SchedulerCorrect
  imports Scheduler ClientCorrect
begin

text \<open>
  What the scheduler guarantees of an execution, through the lease of the distributed lock, and what
  becomes of the schedules at a restart.
\<close>

section \<open>Executions and the lock\<close>

lemma execute_run:
  "executeScheduledBackup R v S W t (srv, p) =
     (case with_lock R v S W t ((\<lparr>dl_key = lock_key t, dl_ttl = 3600, lockValue = None, isLocked = False, refreshInterval = None\<rparr>, srv), p) of
        (r, ((_, srv'), p')) \<Rightarrow> (r, (srv', p')))"
  by (simp add: executeScheduledBackup_def new_dlock_def or_n_def)

lemma with_lock_free: "with_lock R (c # cs) S W t s = (r, s') \<Longrightarrow> r = Inr () \<and> \<not> (case s' of (d, _) \<Rightarrow> owned d)"
  unfolding with_lock_def by (rule redis_lease.guarded_free)


text \<open>A database that is being handled elsewhere is left alone: when the key of the database is live on the
  Redis server, the execution does nothing at all - no request, no queue entry, no update of the schedule -
  and leaves every key of the server as it is.\<close>

lemma busy_database_skipped:
  assumes "redis_ok R live" and "live srv (lock_key t) = Some w"
  shows "\<exists>srv'. executeScheduledBackup R v S W t (srv, p) = (Inr (), (srv', p)) \<and> live srv' = live srv"
proof -
  let ?new = "\<lparr>dl_key = lock_key t, dl_ttl = 3600, lockValue = None, isLocked = False, refreshInterval = None\<rparr>"
  obtain r l' srv' where a: "dl_acquire R v (?new, srv) = (r, (l', srv'))" by (metis surj_pair)
  from dl_acquire_cases [OF a] obtain x where x: "rd_set_nx R (lock_key t) v 3600 srv = (x, srv')"
    "if x = Inr (Some ''OK'') then r = Inr True else r = (case x of Inl e \<Rightarrow> Inl (new_Error (''Failed to acquire lock: '' @ err_message e)) | Inr _ \<Rightarrow> Inr False)"
    by (auto split: if_splits)
  from redis_set [OF assms(1) x(1)] assms(2) have "x \<noteq> Inr (Some ''OK'')" and same: "live srv' = live srv" by auto
  with x(2) have "try_catch (on_fst (dl_acquire R v)) (\<lambda>_. ret False) ((?new, srv), p) = (Inr False, ((l', srv'), p))"
    using a by (cases x) (simp_all add: try_catch_def on_fst_def ret_def)
  with same show ?thesis by (simp add: execute_run with_lock_def guarded_def bnd_def ret_def)
qed

section \<open>A restart\<close>

lemma for_each_stops: "load_schedule S x s = (Inl e, s') \<Longrightarrow> for_each (x # xs) (load_schedule S) s = (Inl e, s')"
  by (simp add: bnd_def)

lemma load_object:
  assumes "se_cron_ok S (jget x ''schedule'')" and "jget x ''metadata'' = Some (JObj kvs)" and "se_parse S ''[object Object]'' = None"
  shows "\<exists>e. load_schedule S x s = (Inl e, s)"
  using assms by (simp add: load_schedule_def parse_metadata_def or_j_def bnd_def throw_def)

text \<open>A restart loses the schedules: the handler that creates a schedule stores its metadata as an object,
  the service returns it as an object, and start-up makes a string of it before parsing, which is not
  JSON. The first schedule listed ends the loop and the error is swallowed: no task is registered, for
  this schedule or any after it.\<close>

lemma restart_loses_schedules:
  assumes "W (calls p) (Http ''GET'' (baseUrl p @ ''/api/schedules'') (with_params (jobj [enabled_param (Some (JBool True))])))
      = Inr (JObj [(''success'', JBool True), (''schedules'', JArr (x # xs))])"
    and "se_cron_ok S (jget x ''schedule'')" and "se_parse S ''[object Object]'' = None"
    and "jget x ''metadata'' = jget (schedule_record b n slack emails) ''metadata''"
  shows "\<exists>p'. loadSchedules S W (p, ts) = (Inr (), (p', ts))"
proof -
  let ?q = "with_params (jobj [enabled_param (Some (JBool True))])"
  let ?r = "JObj [(''success'', JBool True), (''schedules'', JArr (x # xs))]"
  have "request (we_client (se_worker S)) W ''GET'' ''/api/schedules'' ?q ''List schedules'' p
      = (Inr ?r, p\<lparr>calls := calls p @ [Http ''GET'' (baseUrl p @ ''/api/schedules'') ?q]\<rparr>)"
    using assms(1) by (rule request_ok(1))
  then obtain p' where l: "listSchedules (we_client (se_worker S)) W (Some True) p = (Inr (JArr (x # xs)), p')"
    by (simp add: listSchedules_def bnd_def field_or_def or_j_def ret_def)
  have "\<exists>kvs. jget (schedule_record b n slack emails) ''metadata'' = Some (JObj kvs)"
    unfolding schedule_record_def Let_def by (subst jget_jobj) (simp_all add: jobj_def)
  then obtain kvs where "jget x ''metadata'' = Some (JObj kvs)" using assms(4) by auto
  from load_object [OF assms(2) this assms(3)] obtain e where "load_schedule S x (p', ts) = (Inl e, (p', ts))" by blast
  from for_each_stops [OF this] l show ?thesis
    by (simp add: loadSchedules_def try_catch_def bnd_def on_fst_def ret_def)
qed

section \<open>Concrete services\<close>

definition sample_task :: task where
  "sample_task = \<lparr>tk_id = Some (JStr ''s1''), tk_cron = Some (JStr ''0 2 * * *''),
     tk_db = Some (JObj [(''type'', JStr ''mysql''), (''database'', JStr ''shop'')]), tk_type = Some (JStr ''full''),
     tk_options = None, tk_notification = JNull\<rparr>"

definition stored_schedule :: json where
  "stored_schedule = jset (schedule_record (JObj [(''schedule'', JStr ''0 2 * * *'')]) JNull JNull JNull) ''id'' (JStr ''s1'')"

fun schedule_service :: world where
  "schedule_service cs (Http m u p) = Inr (JObj [(''success'', JBool True), (''schedules'', JArr [stored_schedule])])"
| "schedule_service cs c = Inr JNull"

definition sample_sched :: sched_env where
  "sample_sched = \<lparr>se_worker = \<lparr>we_client = sample_client, we_var = (\<lambda>_. None), we_now = JStr ''now'', we_seconds = JNum 0,
       we_stringify = js_String, we_fixed = js_String, we_megabytes = js_String\<rparr>,
     se_cron_ok = (\<lambda>_. True), se_parse = (\<lambda>s. if s = ''{}'' then Some (JObj []) else None), se_elapsed = JNum 1, se_version = JStr ''1''\<rparr>"

lemma busy_database_skipped_witness:
  "\<exists>srv'. executeScheduledBackup mem_redis ''v'' sample_sched schedule_service sample_task ([''backup:mysql:shop'' \<mapsto> ''w''], sample_proc) = (Inr (), (srv', sample_proc)) \<and>
     id srv' = id [''backup:mysql:shop'' \<mapsto> ''w'']"
  by (rule busy_database_skipped [OF mem_redis_ok, where w = "''w''"])
    (simp add: lock_key_def sample_task_def oget_def tpl_def)

lemma restart_loses_schedules_witness:
  "\<exists>p'. loadSchedules sample_sched schedule_service (sample_proc, []) = (Inr (), (p', []))"
  by (rule restart_loses_schedules [where x = stored_schedule and xs = "[]" and b = "JObj [(''schedule'', JStr ''0 2 * * *'')]"
        and n = JNull and slack = JNull and emails = JNull])
    (simp_all add: sample_sched_def stored_schedule_def)

end
