(* ===== verification/FileTree.thy ===== *)
theory FileTree
  imports NodePath Bytes "HOL-Library.AList"
begin

text \<open>
  What the code uses of Node's synchronous \<open>fs\<close> calls, on a file system of its own: a tree of
  directories and files without links. A path is resolved against the working directory as the
  kernel does with a normalised path.

  Every call that can fail for reasons of its own (permissions, a full disk) takes its outcome from
  \<open>disk_env\<close>, indexed by the number of such calls so far; a write that fails may have written a part
  of the file (\<open>v_torn\<close>). A recursive \<open>mkdir\<close> that fails leaves nothing behind. Directories are
  listed in the order of the tree.
\<close>

section \<open>The tree\<close>

datatype node = File (file_bytes: bytes) | Dir (dir_items: "(string \<times> node) list")

fun is_dir :: "node option \<Rightarrow> bool" where
  "is_dir (Some (Dir _)) = True"
| "is_dir _ = False"

fun node_at :: "node \<Rightarrow> string list \<Rightarrow> node option" where
  "node_at n [] = Some n"
| "node_at (Dir es) (x # xs) = (case map_of es x of None \<Rightarrow> None | Some n \<Rightarrow> node_at n xs)"
| "node_at (File b) (x # xs) = None"

text \<open>Put a node at a path, with the directories on the way.\<close>

fun put_node :: "string list \<Rightarrow> node \<Rightarrow> node \<Rightarrow> node" where
  "put_node [] m n = m"
| "put_node (x # xs) m (Dir es) = Dir (AList.update x (put_node xs m (case map_of es x of None \<Rightarrow> Dir [] | Some n \<Rightarrow> n)) es)"
| "put_node (x # xs) m (File b) = File b"

fun drop_node :: "string list \<Rightarrow> node \<Rightarrow> node" where
  "drop_node (x # xs) (Dir es) = (if xs = [] then Dir (AList.delete x es)
     else case map_of es x of None \<Rightarrow> Dir es | Some n \<Rightarrow> Dir (AList.update x (drop_node xs n) es))"
| "drop_node _ n = n"

text \<open>No file stands where the path needs a directory.\<close>

fun fits :: "node \<Rightarrow> string list \<Rightarrow> bool" where
  "fits n [] = True"
| "fits (Dir es) (x # xs) = (case map_of es x of None \<Rightarrow> True | Some n \<Rightarrow> fits n xs)"
| "fits (File b) (x # xs) = False"

definition file_at :: "node \<Rightarrow> string list \<Rightarrow> bytes option" where
  "file_at n p = (case node_at n p of Some (File b) \<Rightarrow> Some b | _ \<Rightarrow> None)"

lemma node_at_append: "node_at n (p @ q) = (case node_at n p of None \<Rightarrow> None | Some m \<Rightarrow> node_at m q)"
  by (induction n p rule: node_at.induct) (auto split: option.split)

lemma node_at_fits: "node_at n p = Some m \<Longrightarrow> fits n p"
  by (induction n p rule: node_at.induct) (auto split: option.splits)

lemma fits_append: "fits n (p @ q) \<longleftrightarrow> fits n p \<and> (case node_at n p of None \<Rightarrow> True | Some m \<Rightarrow> fits m q)"
  by (induction n p rule: node_at.induct) (auto split: option.split)

lemma fits_File [simp]: "fits (File b) p \<longleftrightarrow> p = []"
  by (cases p) auto

lemma fits_empty [simp]: "fits (Dir []) p"
  by (cases p) auto

lemma node_at_File [simp]: "node_at (File b) p = (if p = [] then Some (File b) else None)"
  by (cases p) auto

lemma file_at_File: "file_at (File b) p = (if p = [] then Some b else None)"
  by (cases p) (auto simp: file_at_def)

lemma file_at_Dir_Nil [simp]: "file_at (Dir es) [] = None"
  by (simp add: file_at_def)

lemma file_at_Dir: "file_at (Dir es) (x # xs) = (case map_of es x of None \<Rightarrow> None | Some n \<Rightarrow> file_at n xs)"
  by (auto simp: file_at_def split: option.split)

lemma file_at_SomeD: "file_at n p = Some b \<Longrightarrow> node_at n p = Some (File b)"
  by (auto simp: file_at_def split: option.splits node.splits)

lemma file_at_Nil_iff: "file_at n [] = Some b \<longleftrightarrow> n = File b"
  by (cases n) (auto simp: file_at_def)

text \<open>What a file at a new path changes: that path, and nothing else.\<close>

lemma node_at_put [simp]: "fits n p \<Longrightarrow> node_at (put_node p m n) p = Some m"
  by (induction p m n rule: put_node.induct) (auto simp: update_conv split: option.splits)

lemma file_at_empty: "file_at (Dir []) p = None"
  by (cases p) (auto simp: file_at_Dir)

lemma file_at_put_file:
  "fits n p \<Longrightarrow> \<not> is_dir (node_at n p) \<Longrightarrow> file_at (put_node p (File b) n) q = (if q = p then Some b else file_at n q)"
proof (induction p "File b" n arbitrary: q rule: put_node.induct)
  case (1 n)
  then show ?case by (cases n) (auto simp: file_at_File)
next
  case (2 x xs es)
  show ?case
  proof (cases q)
    case (Cons y ys)
    show ?thesis
    proof (cases "y = x")
      case True
      have "file_at (put_node xs (File b) (case map_of es x of None \<Rightarrow> Dir [] | Some n \<Rightarrow> n)) ys =
          (if ys = xs then Some b else file_at (case map_of es x of None \<Rightarrow> Dir [] | Some n \<Rightarrow> n) ys)"
      proof (cases "map_of es x")
        case None
        show ?thesis
        proof (cases xs)
          case Nil
          then show ?thesis using None by (simp add: file_at_File file_at_empty)
        qed (use 2 None in simp)
      next
        case (Some m)
        with 2 show ?thesis by simp
      qed
      with Cons True show ?thesis by (auto simp: file_at_Dir update_conv file_at_empty split: option.splits)
    qed (auto simp: Cons file_at_Dir update_conv)
  qed simp
qed simp

lemma file_at_put_dir: "fits n p \<Longrightarrow> node_at n p = None \<Longrightarrow> file_at (put_node p (Dir []) n) q = file_at n q"
proof (induction p "Dir [] :: node" n arbitrary: q rule: put_node.induct)
  case (2 x xs es)
  show ?case
  proof (cases q)
    case (Cons y ys)
    show ?thesis
    proof (cases "map_of es x")
      case None
      have "file_at (put_node xs (Dir []) (Dir [])) ys = None"
      proof (cases "xs = []")
        case False
        then obtain z zs where "xs = z # zs" by (cases xs) auto
        with 2(1) [of ys] None show ?thesis by (simp add: file_at_empty)
      qed (simp add: file_at_empty)
      with None Cons show ?thesis by (auto simp: file_at_Dir update_conv)
    next
      case (Some m)
      with 2 Cons show ?thesis by (auto simp: file_at_Dir update_conv)
    qed
  qed simp
qed simp_all

lemma file_at_drop:
  "node_at n p = Some (File b) \<Longrightarrow> p \<noteq> [] \<Longrightarrow> file_at (drop_node p n) q = (if q = p then None else file_at n q)"
proof (induction p n arbitrary: q rule: drop_node.induct)
  case (1 x xs es)
  then obtain m where m: "map_of es x = Some m" "node_at m xs = Some (File b)" by (auto split: option.splits)
  show ?case
  proof (cases q)
    case (Cons y ys)
    show ?thesis
    proof (cases "xs = []")
      case True
      with m Cons show ?thesis by (auto simp: file_at_Dir delete_conv' file_at_File)
    next
      case False
      with 1 m Cons show ?thesis by (auto simp: file_at_Dir update_conv)
    qed
  qed (use m in auto)
qed (auto split: if_splits)

text \<open>Directories and the room for new files stay.\<close>

lemma is_dir_put: "fits n p \<Longrightarrow> \<not> is_dir (node_at n p) \<Longrightarrow> is_dir (node_at n q) \<Longrightarrow> is_dir (node_at (put_node p m n) q)"
proof (induction p m n arbitrary: q rule: put_node.induct)
  case (2 x xs m es)
  then show ?case
  proof (cases q)
    case (Cons y ys)
    with 2 show ?thesis by (cases "map_of es x"; cases "y = x") (auto simp: update_conv)
  qed simp
next
  case (1 m n)
  then show ?case by (cases n) (auto split: if_splits)
qed auto

section \<open>Calls\<close>

record disk =
  d_root :: node
  d_ops :: nat

record disk_env =
  v_cwd :: string
  v_fail :: "nat \<Rightarrow> js_error option"
  v_torn :: "nat \<Rightarrow> nat option"

definition fs_error :: "string \<Rightarrow> string \<Rightarrow> string \<Rightarrow> js_error" where
  "fs_error code what p = JsError code (code @ '': '' @ what @ '' '' @ [CHR 0x27] @ p @ [CHR 0x27])"

abbreviation segs :: "disk_env \<Rightarrow> string \<Rightarrow> string list" where
  "segs E p \<equiv> abs_segs (v_cwd E) p"

definition existsSync :: "disk_env \<Rightarrow> string \<Rightarrow> (disk, bool) prog" where
  "existsSync E p = gets (\<lambda>s. node_at (d_root s) (segs E p) \<noteq> None)"

text \<open>A call to the system: it may fail, and counts.\<close>

definition fs_try :: "disk_env \<Rightarrow> (disk, unit) prog" where
  "fs_try E = (\<lambda>s. let s' = s\<lparr>d_ops := Suc (d_ops s)\<rparr> in
     (case v_fail E (d_ops s) of Some e \<Rightarrow> (Inl e, s') | None \<Rightarrow> (Inr (), s')))"

definition set_root :: "node \<Rightarrow> (disk, unit) prog" where
  "set_root n = modify_st (\<lambda>s. s\<lparr>d_root := n\<rparr>)"

text \<open>\<open>mkdirSync(p, { recursive: true })\<close>\<close>

definition mkdirSync :: "disk_env \<Rightarrow> string \<Rightarrow> (disk, unit) prog" where
  "mkdirSync E p = seqp (fs_try E) (bnd (gets d_root) (\<lambda>n.
     if \<not> fits n (segs E p) then throw (fs_error ''ENOTDIR'' ''mkdir'' p)
     else (case node_at n (segs E p) of
       None \<Rightarrow> set_root (put_node (segs E p) (Dir []) n)
     | Some (Dir _) \<Rightarrow> ret ()
     | Some (File _) \<Rightarrow> throw (fs_error ''EEXIST'' ''mkdir'' p))))"

definition readFileSync :: "disk_env \<Rightarrow> string \<Rightarrow> (disk, bytes) prog" where
  "readFileSync E p = seqp (fs_try E) (bnd (gets d_root) (\<lambda>n. case node_at n (segs E p) of
     Some (File b) \<Rightarrow> ret b
   | Some (Dir _) \<Rightarrow> throw (fs_error ''EISDIR'' ''read'' p)
   | None \<Rightarrow> throw (fs_error ''ENOENT'' ''open'' p)))"

definition writeFileSync :: "disk_env \<Rightarrow> string \<Rightarrow> bytes \<Rightarrow> (disk, unit) prog" where
  "writeFileSync E p b = bnd get_st (\<lambda>s. let n = d_root s; q = segs E p in
     if is_dir (node_at n q) then throw (fs_error ''EISDIR'' ''open'' p)
     else if q = [] \<or> \<not> is_dir (node_at n (butlast q)) then throw (fs_error (if fits n q then ''ENOENT'' else ''ENOTDIR'') ''open'' p)
     else try_catch (seqp (fs_try E) (set_root (put_node q (File b) n))) (\<lambda>e.
       seqp (case v_torn E (d_ops s) of None \<Rightarrow> ret () | Some k \<Rightarrow> set_root (put_node q (File (take k b)) n)) (throw e)))"

definition copyFileSync :: "disk_env \<Rightarrow> string \<Rightarrow> string \<Rightarrow> (disk, unit) prog" where
  "copyFileSync E src dst = bnd (readFileSync E src) (writeFileSync E dst)"

definition unlinkSync :: "disk_env \<Rightarrow> string \<Rightarrow> (disk, unit) prog" where
  "unlinkSync E p = seqp (fs_try E) (bnd (gets d_root) (\<lambda>n. case node_at n (segs E p) of
     Some (File b) \<Rightarrow> set_root (drop_node (segs E p) n)
   | Some (Dir _) \<Rightarrow> throw (fs_error ''EISDIR'' ''unlink'' p)
   | None \<Rightarrow> throw (fs_error ''ENOENT'' ''unlink'' p)))"

text \<open>\<open>statSync(p).size\<close>; a directory has the size of an empty one.\<close>

definition statSync :: "disk_env \<Rightarrow> string \<Rightarrow> (disk, int) prog" where
  "statSync E p = seqp (fs_try E) (bnd (gets d_root) (\<lambda>n. case node_at n (segs E p) of
     Some (File b) \<Rightarrow> ret (int (length b))
   | Some (Dir _) \<Rightarrow> ret 4096
   | None \<Rightarrow> throw (fs_error ''ENOENT'' ''stat'' p)))"

section \<open>What a call leaves alone\<close>

text \<open>The files of the disk by their absolute path.\<close>

definition file_on :: "disk \<Rightarrow> string list \<Rightarrow> bytes option" where
  "file_on s p = file_at (d_root s) p"

text \<open>\<open>within A m\<close>: whatever \<open>m\<close> does, it changes no file outside the paths \<open>A\<close>.\<close>

definition within :: "string list set \<Rightarrow> (disk, 'a) prog \<Rightarrow> bool" where
  "within A m \<longleftrightarrow> (\<forall>s q. q \<notin> A \<longrightarrow> file_on (snd (m s)) q = file_on s q)"

named_theorems within

lemma withinI: "(\<And>q. q \<notin> A \<Longrightarrow> stable (\<lambda>s. file_on s q = c q) m) \<Longrightarrow> (\<And>s q. q \<notin> A \<Longrightarrow> file_on s q = c q) \<Longrightarrow> within A m"
  by (auto simp: within_def stable_def)

lemma within_iff_stable: "within A m \<longleftrightarrow> (\<forall>q c. q \<notin> A \<longrightarrow> stable (\<lambda>s. file_on s q = c) m)"
  by (auto simp: within_def stable_def)

lemma withinD: "within A m \<Longrightarrow> m s = (r, s') \<Longrightarrow> q \<notin> A \<Longrightarrow> file_on s' q = file_on s q"
  by (metis within_def snd_conv)

lemma within_mono: "within A m \<Longrightarrow> A \<subseteq> B \<Longrightarrow> within B m"
  by (auto simp: within_def)

lemma within_ret [within]: "within A (ret x)" "within A (throw e)" "within A (gets f)" "within A get_st" "within A (lift_res r)"
  by (auto simp: within_def prog_defs)

lemma within_bnd [within]: "within A m \<Longrightarrow> (\<And>x. within A (k x)) \<Longrightarrow> within A (bnd m k)"
  unfolding within_iff_stable by (blast intro: stable_bnd)

lemma within_try_catch [within]: "within A m \<Longrightarrow> (\<And>e. within A (h e)) \<Longrightarrow> within A (try_catch m h)"
  unfolding within_iff_stable by (blast intro: stable_try_catch)

lemma within_try_finally [within]: "within A m \<Longrightarrow> within A f \<Longrightarrow> within A (try_finally m f)"
  unfolding within_iff_stable by (blast intro: stable_try_finally)

lemma within_if [within]: "within A m \<Longrightarrow> within A n \<Longrightarrow> within A (if b then m else n)"
  by simp

lemma within_try [within]: "within A (fs_try E)"
  by (auto simp: within_def fs_try_def file_on_def Let_def split: option.split)

lemma within_exists [within]: "within A (existsSync E p)"
  by (simp add: existsSync_def within)

lemma within_read [within]: "within A (readFileSync E p)"
  by (auto simp: readFileSync_def intro!: within split: option.split node.split)

lemma within_stat [within]: "within A (statSync E p)"
  by (auto simp: statSync_def intro!: within split: option.split node.split)

lemma within_set_root: "(\<And>q. q \<notin> A \<Longrightarrow> file_at n' q = file_at n q) \<Longrightarrow> d_root s = n \<Longrightarrow> q \<notin> A \<Longrightarrow>
    file_on (snd (set_root n' s)) q = file_on s q"
  by (simp add: set_root_def modify_st_def file_on_def)

lemma within_mkdir [within]: "within A (mkdirSync E p)"
proof -
  have "file_on (snd (mkdirSync E p s)) q = file_on s q" for s q
    by (auto simp: mkdirSync_def fs_try_def bnd_def gets_def Let_def throw_def ret_def set_root_def modify_st_def
        file_on_def file_at_put_dir split: option.split node.split)
  then show ?thesis by (simp add: within_def)
qed

lemma parent_fits: "is_dir (node_at n (butlast q)) \<Longrightarrow> q \<noteq> [] \<Longrightarrow> fits n q"
proof -
  assume d: "is_dir (node_at n (butlast q))" and "q \<noteq> []"
  then have q: "q = butlast q @ [last q]" by simp
  from d obtain es where es: "node_at n (butlast q) = Some (Dir es)" by (cases "node_at n (butlast q)" rule: is_dir.cases) auto
  with node_at_fits [OF es] show ?thesis by (subst q) (simp add: fits_append split: option.split)
qed

lemma within_write [within]: "segs E p \<in> A \<Longrightarrow> within A (writeFileSync E p b)"
proof -
  assume A: "segs E p \<in> A"
  have put: "file_at (put_node q (File c) n) r = file_at n r" if "\<not> is_dir (node_at n q)" "q \<noteq> []" "is_dir (node_at n (butlast q))" "r \<noteq> q"
    for q c n r using file_at_put_file [OF parent_fits [OF that(3,2)] that(1)] that(4) by simp
  have "file_on (snd (writeFileSync E p b s)) r = file_on s r" if "r \<noteq> segs E p" for s r
    using that by (auto simp: writeFileSync_def fs_try_def bnd_def get_st_def Let_def throw_def ret_def try_catch_def
        set_root_def modify_st_def file_on_def put split: option.split)
  with A show ?thesis unfolding within_def by metis
qed

lemma within_copy [within]: "segs E dst \<in> A \<Longrightarrow> within A (copyFileSync E src dst)"
  by (simp add: copyFileSync_def within)

lemma within_unlink [within]: "segs E p \<in> A \<Longrightarrow> within A (unlinkSync E p)"
proof -
  assume A: "segs E p \<in> A"
  have "file_on (snd (unlinkSync E p s)) r = file_on s r" if "r \<noteq> segs E p" for s r
    using that
    by (cases "segs E p = []") (auto simp: unlinkSync_def fs_try_def bnd_def gets_def Let_def throw_def ret_def set_root_def modify_st_def
        file_on_def file_at_drop split: option.split node.split)
  with A show ?thesis unfolding within_def by metis
qed

section \<open>Places for files\<close>

text \<open>A path that is a file or can become one once its directory is made. A set of places none of
  which lies below another stays one, whatever is made and removed there.\<close>

definition room :: "node \<Rightarrow> string list \<Rightarrow> bool" where
  "room n q \<longleftrightarrow> q \<noteq> [] \<and> fits n q \<and> \<not> is_dir (node_at n q)"

definition places :: "string list set \<Rightarrow> bool" where
  "places K \<longleftrightarrow> (\<forall>p\<in>K. \<forall>q\<in>K. prefix p q \<longrightarrow> p = q)"

definition rooms :: "string list set \<Rightarrow> disk \<Rightarrow> bool" where
  "rooms K s \<longleftrightarrow> (\<forall>q\<in>K. room (d_root s) q)"

lemma node_at_put_other:
  "\<not> prefix p q \<Longrightarrow> \<not> prefix q p \<Longrightarrow> node_at (put_node p m n) q = node_at n q \<and> fits (put_node p m n) q = fits n q"
proof (induction p m n arbitrary: q rule: put_node.induct)
  case (2 x xs m es)
  then obtain y ys where q: "q = y # ys" by (cases q) auto
  show ?case
  proof (cases "y = x")
    case True
    with 2 q have "\<not> prefix xs ys" "\<not> prefix ys xs" by auto
    with 2(1) [of ys] True q show ?thesis
      by (cases "map_of es x") (auto simp: update_conv neq_Nil_conv, (cases ys; simp)+)
  qed (simp add: q update_conv)
qed auto

lemma room_put_other: "room n q \<Longrightarrow> \<not> prefix p q \<Longrightarrow> \<not> prefix q p \<Longrightarrow> room (put_node p m n) q"
  by (simp add: room_def node_at_put_other)

lemma room_put_dir:
  assumes "room n q" and "strict_prefix p q" and "node_at n p = None" and "fits n p"
  shows "room (put_node p (Dir []) n) q"
proof -
  obtain r where q: "q = p @ r" "r \<noteq> []" using assms(2) by (auto simp: strict_prefix_def prefix_def)
  from q(2) have "node_at (Dir []) r = None" by (cases r) auto
  with assms q node_at_put [OF assms(4), of "Dir []"] node_at_fits [of "put_node p (Dir []) n" p "Dir []"] show ?thesis
    by (simp add: room_def fits_append node_at_append)
qed

lemma room_put_file: "room n q \<Longrightarrow> room (put_node q (File b) n) q"
  by (auto simp: room_def intro: node_at_fits)

lemma room_drop: "node_at n p = Some (File b) \<Longrightarrow> p \<noteq> [] \<Longrightarrow> room n q \<Longrightarrow> room (drop_node p n) q"
proof -
  have "node_at n p = Some (File b) \<Longrightarrow> p \<noteq> [] \<Longrightarrow> fits n q \<Longrightarrow> \<not> is_dir (node_at n q) \<Longrightarrow>
      fits (drop_node p n) q \<and> \<not> is_dir (node_at (drop_node p n) q)"
  proof (induction p n arbitrary: q rule: drop_node.induct)
    case (1 x xs es)
    then obtain m where m: "map_of es x = Some m" "node_at m xs = Some (File b)" by (auto split: option.splits)
    show ?case
    proof (cases q)
      case (Cons y ys)
      show ?thesis
      proof (cases "xs = []")
        case True
        with 1 m Cons show ?thesis by (auto simp: delete_conv' split: option.splits)
      next
        case False
        with 1 m Cons show ?thesis by (auto simp: update_conv split: option.splits)
      qed
    qed (use 1 in auto)
  qed (auto split: if_splits)
  then show "node_at n p = Some (File b) \<Longrightarrow> p \<noteq> [] \<Longrightarrow> room n q \<Longrightarrow> room (drop_node p n) q" by (simp add: room_def)
qed

section \<open>Calls that do not fail\<close>

definition reliable :: "disk_env \<Rightarrow> bool" where
  "reliable E \<longleftrightarrow> (\<forall>k. v_fail E k = None)"

lemma fs_try_run: "reliable E \<Longrightarrow> fs_try E s = (Inr (), s\<lparr>d_ops := Suc (d_ops s)\<rparr>)"
  by (simp add: reliable_def fs_try_def)

text \<open>\<open>if (!fs.existsSync(d)) fs.mkdirSync(d, { recursive: true })\<close>\<close>

definition ensureDir :: "disk_env \<Rightarrow> string \<Rightarrow> (disk, unit) prog" where
  "ensureDir E d = bnd (existsSync E d) (\<lambda>there. if there then ret () else mkdirSync E d)"

lemma within_ensureDir [within]: "within A (ensureDir E d)"
  by (simp add: ensureDir_def within)

lemma room_above:
  assumes "room n q" and "strict_prefix p q"
  obtains "node_at n p = None" | es where "node_at n p = Some (Dir es)"
proof -
  obtain r where q: "q = p @ r" "r \<noteq> []" using assms(2) by (auto simp: strict_prefix_def prefix_def)
  from assms(1) have f: "case node_at n p of None \<Rightarrow> True | Some m \<Rightarrow> fits m r" by (simp add: room_def fits_append q)
  show thesis
  proof (cases "node_at n p")
    case None
    then show ?thesis by (rule that(1))
  next
    case (Some m)
    with f q(2) show ?thesis by (cases m) (auto intro: that(2))
  qed
qed

lemma butlast_prefix: "q \<noteq> [] \<Longrightarrow> strict_prefix (butlast q) q"
  by (cases q rule: rev_cases) (simp_all add: strict_prefix_def)

lemma room_fits_above: "room n q \<Longrightarrow> strict_prefix p q \<Longrightarrow> fits n p"
  by (auto simp: room_def strict_prefix_def prefix_def fits_append)

lemma rooms_put_dir:
  assumes K: "places K" and r: "rooms K s" and q: "q \<in> K" and p: "strict_prefix p q"
    and none: "node_at (d_root s) p = None" and n: "d_root s' = put_node p (Dir []) (d_root s)"
  shows "rooms K s'"
proof -
  have f: "fits (d_root s) p" using r q p by (auto simp: rooms_def intro: room_fits_above)
  have "room (d_root s') k" if k: "k \<in> K" for k
  proof (cases "prefix p k")
    case True
    have "p \<noteq> k" using K q k p unfolding places_def by (metis prefix_order.less_le)
    with True have "strict_prefix p k" by (simp add: strict_prefix_def)
    with r k none f show ?thesis unfolding n by (intro room_put_dir) (auto simp: rooms_def)
  next
    case False
    have "\<not> prefix k p"
    proof
      assume a: "prefix k p"
      then have "prefix k q" using p by (meson prefix_order.less_imp_le prefix_order.trans)
      with K q k have "k = q" by (auto simp: places_def)
      with a p show False by (simp add: prefix_order.leD)
    qed
    with False r k show ?thesis unfolding n by (intro room_put_other) (auto simp: rooms_def)
  qed
  then show ?thesis by (simp add: rooms_def)
qed

lemma ensureDir_run:
  assumes "reliable E" and "places K" and "rooms K s" and "q \<in> K" and p: "strict_prefix (segs E d) q"
  shows "\<exists>s'. ensureDir E d s = (Inr (), s') \<and> rooms K s' \<and> is_dir (node_at (d_root s') (segs E d)) \<and> (\<forall>p. file_on s' p = file_on s p)"
proof -
  let ?p = "segs E d"
  have room: "room (d_root s) q" using assms(3,4) by (auto simp: rooms_def)
  then show ?thesis using p
  proof (cases rule: room_above)
    case 1
    have f: "fits (d_root s) ?p" using room p by (rule room_fits_above)
    let ?s' = "s\<lparr>d_root := put_node ?p (Dir []) (d_root s), d_ops := Suc (d_ops s)\<rparr>"
    have run: "ensureDir E d s = (Inr (), ?s')"
      using assms(1) 1 f
      by (simp add: ensureDir_def existsSync_def mkdirSync_def bnd_def gets_def fs_try_run set_root_def modify_st_def)
    moreover have "rooms K ?s'" using assms(2-4) p 1 by (rule rooms_put_dir) simp
    ultimately show ?thesis using f 1 by (intro exI [of _ ?s']) (simp add: file_on_def file_at_put_dir)
  next
    case (2 es)
    then have "ensureDir E d s = (Inr (), s)"
      by (simp add: ensureDir_def existsSync_def bnd_def gets_def ret_def)
    with 2 assms(3) show ?thesis by auto
  qed
qed

lemma ensure_parent_run:
  assumes "reliable E" and "places K" and "rooms K s" and "q \<in> K" and "segs E d = butlast q"
  shows "\<exists>s'. ensureDir E d s = (Inr (), s') \<and> rooms K s' \<and> is_dir (node_at (d_root s') (butlast q)) \<and> (\<forall>p. file_on s' p = file_on s p)"
proof -
  have "q \<noteq> []" using assms(3,4) by (auto simp: rooms_def room_def)
  then have "strict_prefix (segs E d) q" using butlast_prefix assms(5) by simp
  from ensureDir_run [OF assms(1-4) this] assms(5) show ?thesis by simp
qed

lemma writeFileSync_run:
  assumes "reliable E" and "places K" and "rooms K s" and "segs E p \<in> K" and "is_dir (node_at (d_root s) (butlast (segs E p)))"
  shows "\<exists>s'. writeFileSync E p b s = (Inr (), s') \<and> rooms K s' \<and> (\<forall>q. file_on s' q = (if q = segs E p then Some b else file_on s q))"
proof -
  let ?q = "segs E p" let ?s' = "s\<lparr>d_root := put_node ?q (File b) (d_root s), d_ops := Suc (d_ops s)\<rparr>"
  have room: "room (d_root s) ?q" using assms(3,4) by (auto simp: rooms_def)
  have run: "writeFileSync E p b s = (Inr (), ?s')"
    using assms(1,5) room
    by (simp add: writeFileSync_def bnd_def get_st_def Let_def try_catch_def fs_try_run set_root_def modify_st_def room_def)
  have "room (put_node ?q (File b) (d_root s)) k" if k: "k \<in> K" for k
  proof (cases "k = ?q")
    case False
    then have "\<not> prefix k ?q" "\<not> prefix ?q k" using assms(2,4) k by (auto simp: places_def)
    then show ?thesis using assms(3) k by (intro room_put_other) (auto simp: rooms_def)
  qed (simp add: room room_put_file)
  then have "rooms K ?s'" by (simp add: rooms_def)
  with run room show ?thesis by (intro exI [of _ ?s']) (simp add: file_on_def file_at_put_file room_def)
qed

lemma readFileSync_run:
  "reliable E \<Longrightarrow> file_on s (segs E p) = Some b \<Longrightarrow> readFileSync E p s = (Inr b, s\<lparr>d_ops := Suc (d_ops s)\<rparr>)"
  by (auto simp: readFileSync_def bnd_def gets_def fs_try_run ret_def file_on_def dest: file_at_SomeD)

lemma statSync_run:
  "reliable E \<Longrightarrow> file_on s (segs E p) = Some b \<Longrightarrow> statSync E p s = (Inr (int (length b)), s\<lparr>d_ops := Suc (d_ops s)\<rparr>)"
  by (auto simp: statSync_def bnd_def gets_def fs_try_run ret_def file_on_def dest: file_at_SomeD)

lemma existsSync_file: "file_on s (segs E p) = Some b \<Longrightarrow> existsSync E p s = (Inr True, s)"
  by (auto simp: existsSync_def gets_def file_on_def dest: file_at_SomeD)

lemma unlinkSync_run:
  assumes "reliable E" and "rooms K s" and "file_on s (segs E p) = Some b" and "segs E p \<in> K"
  shows "\<exists>s'. unlinkSync E p s = (Inr (), s') \<and> rooms K s' \<and> (\<forall>q. file_on s' q = (if q = segs E p then None else file_on s q))"
proof -
  have n: "node_at (d_root s) (segs E p) = Some (File b)" using assms(3) by (simp add: file_on_def file_at_SomeD)
  have q: "segs E p \<noteq> []" using assms(2,4) by (auto simp: rooms_def room_def)
  then show ?thesis using assms(1,2) n
    by (simp add: unlinkSync_def bnd_def gets_def fs_try_run set_root_def modify_st_def rooms_def room_drop file_on_def file_at_drop)
qed

lemma rooms_ops [simp]: "rooms K (s\<lparr>d_ops := k\<rparr>) = rooms K s" "file_on (s\<lparr>d_ops := k\<rparr>) p = file_on s p"
  by (simp_all add: rooms_def file_on_def)

lemma copyFileSync_run:
  assumes "reliable E" and "places K" and "rooms K s" and "segs E dst \<in> K" and "is_dir (node_at (d_root s) (butlast (segs E dst)))"
    and "file_on s (segs E src) = Some b"
  shows "\<exists>s'. copyFileSync E src dst s = (Inr (), s') \<and> rooms K s' \<and> (\<forall>q. file_on s' q = (if q = segs E dst then Some b else file_on s q))"
proof -
  obtain s' where "writeFileSync E dst b (s\<lparr>d_ops := Suc (d_ops s)\<rparr>) = (Inr (), s')" "rooms K s'"
      "\<forall>q. file_on s' q = (if q = segs E dst then Some b else file_on (s\<lparr>d_ops := Suc (d_ops s)\<rparr>) q)"
    using writeFileSync_run [of E K "s\<lparr>d_ops := Suc (d_ops s)\<rparr>" dst b] assms by auto
  with assms(1,6) show ?thesis by (intro exI [of _ s']) (simp add: copyFileSync_def bnd_def readFileSync_run)
qed

section \<open>Well-formed trees\<close>

text \<open>The names in a directory differ and are plain. Every call keeps it so.\<close>

fun wf_node :: "node \<Rightarrow> bool" and wf_items :: "(string \<times> node) list \<Rightarrow> bool" where
  "wf_node (File b) = True"
| "wf_node (Dir es) = wf_items es"
| "wf_items [] = True"
| "wf_items ((x, n) # es) \<longleftrightarrow> plain_name x \<and> x \<notin> fst ` set es \<and> wf_node n \<and> wf_items es"

lemma wf_map_of: "wf_items es \<Longrightarrow> map_of es x = Some n \<Longrightarrow> wf_node n"
  by (induction es) (auto split: if_splits)

lemma wf_update: "wf_items es \<Longrightarrow> plain_name x \<Longrightarrow> wf_node n \<Longrightarrow> wf_items (AList.update x n es)"
proof (induction es)
  case (Cons e es)
  have "fst ` set (AList.update x n es) = insert x (fst ` set es)" by (simp add: dom_update)
  with Cons show ?case by (cases e) (auto simp: image_iff)
qed simp

lemma wf_delete: "wf_items es \<Longrightarrow> wf_items (AList.delete x es)"
proof (induction es)
  case (Cons e es)
  have "fst ` set (AList.delete x es) \<subseteq> fst ` set es" by (auto simp: AList.delete_eq)
  with Cons show ?case by (cases e) auto
qed simp

lemma wf_put: "wf_node n \<Longrightarrow> wf_node m \<Longrightarrow> \<forall>x\<in>set p. plain_name x \<Longrightarrow> wf_node (put_node p m n)"
  by (induction p m n rule: put_node.induct) (auto intro!: wf_update simp: wf_map_of split: option.split)

lemma wf_drop: "wf_node n \<Longrightarrow> \<forall>x\<in>set p. plain_name x \<Longrightarrow> wf_node (drop_node p n)"
  by (induction p n rule: drop_node.induct) (auto intro!: wf_update simp: wf_delete wf_map_of split: option.split)

lemma wf_node_at: "wf_node n \<Longrightarrow> node_at n p = Some m \<Longrightarrow> wf_node m"
  by (induction n p rule: node_at.induct) (auto dest: wf_map_of split: option.splits)

lemma segs_plain: "\<forall>x\<in>set (segs E p). plain_name x"
  using abs_segs_plain [of "v_cwd E" p] by (auto simp: kept_segs_def)

abbreviation wf_disk :: "disk \<Rightarrow> bool" where
  "wf_disk s \<equiv> wf_node (d_root s)"

lemma wf_try [stable]: "stable wf_disk (fs_try E)"
  by (auto simp: stable_def fs_try_def Let_def split: option.split)

lemma wf_get_st [stable]: "stable P get_st"
  by (simp add: stable_def prog_defs)

lemma wf_set_root: "wf_node n \<Longrightarrow> stable wf_disk (set_root n)"
  by (simp add: stable_def set_root_def modify_st_def)

lemma wf_exists [stable]: "stable wf_disk (existsSync E p)"
  by (simp add: existsSync_def stable)

lemma wf_mkdir [stable]: "stable wf_disk (mkdirSync E p)"
  by (auto simp: stable_def mkdirSync_def fs_try_def bnd_def gets_def Let_def throw_def ret_def set_root_def modify_st_def
      segs_plain wf_put split: option.split node.split)

lemma wf_read [stable]: "stable wf_disk (readFileSync E p)"
  by (auto simp: readFileSync_def intro!: stable split: option.split node.split)

lemma wf_stat [stable]: "stable wf_disk (statSync E p)"
  by (auto simp: statSync_def intro!: stable split: option.split node.split)

lemma wf_write [stable]: "stable wf_disk (writeFileSync E p b)"
  by (auto simp: stable_def writeFileSync_def fs_try_def bnd_def get_st_def Let_def throw_def ret_def try_catch_def
      set_root_def modify_st_def segs_plain wf_put split: option.split)

lemma wf_copy [stable]: "stable wf_disk (copyFileSync E src dst)"
  by (simp add: copyFileSync_def stable)

lemma wf_unlink [stable]: "stable wf_disk (unlinkSync E p)"
  by (auto simp: stable_def unlinkSync_def fs_try_def bnd_def gets_def Let_def throw_def ret_def set_root_def modify_st_def
      segs_plain wf_drop split: option.split node.split)

lemma wf_ensureDir [stable]: "stable wf_disk (ensureDir E d)"
  by (simp add: ensureDir_def stable)

section \<open>The files below a node\<close>

fun node_files :: "node \<Rightarrow> string list list" and item_files :: "(string \<times> node) list \<Rightarrow> string list list" where
  "node_files (File b) = [[]]"
| "node_files (Dir es) = item_files es"
| "item_files [] = []"
| "item_files ((x, n) # es) = map ((#) x) (node_files n) @ item_files es"

lemma node_files_iff: "wf_node n \<Longrightarrow> p \<in> set (node_files n) \<longleftrightarrow> file_at n p \<noteq> None"
  and item_files_iff: "wf_items es \<Longrightarrow> p \<in> set (item_files es) \<longleftrightarrow> file_at (Dir es) p \<noteq> None"
proof (induction n and es arbitrary: p and p rule: node_files_item_files.induct)
  case (4 x n es)
  show ?case
  proof (cases p)
    case (Cons y ys)
    have "map_of es x = None" using 4(3) by (simp add: map_of_eq_None_iff)
    with 4 Cons show ?thesis by (auto simp: file_at_Dir)
  next
    case Nil
    with 4 show ?thesis by auto
  qed
qed (auto simp: file_at_File file_at_empty)

end
