(* ===== verification/StorageService.thy ===== *)
theory StorageService
  imports FileTree MetadataClient MetadataService
begin

text \<open>
  \<open>microservices/storage-service\<close>: the interface of a storage provider (\<open>providers/base.ts\<close>), the
  local provider, which keeps the files below a base directory, the S3 provider, and the HTTP
  handlers with their cache of providers.

  A process works on a machine: its disk and the calls it makes (\<open>site\<close>, extended by what else the
  process keeps). An object of S3 is what the answers of AWS say it is: commands are calls to the
  parameter \<open>world\<close>. A stream is its bytes and the error it ends with, if any.
\<close>

section \<open>A process on a machine\<close>

record site =
  st_disk :: disk
  st_proc :: proc

definition on_disk :: "(disk, 'a) prog \<Rightarrow> ('z site_scheme, 'a) prog" where
  "on_disk m = (\<lambda>s. case m (st_disk s) of (r, d) \<Rightarrow> (r, s\<lparr>st_disk := d\<rparr>))"

definition on_proc :: "(proc, 'a) prog \<Rightarrow> ('z site_scheme, 'a) prog" where
  "on_proc m = (\<lambda>s. case m (st_proc s) of (r, p) \<Rightarrow> (r, s\<lparr>st_proc := p\<rparr>))"

section \<open>The interface\<close>

type_synonym stream = "bytes \<times> js_error option"

record 's provider =
  pv_initialize :: "('s, unit) prog"
  pv_upload :: "string \<Rightarrow> string \<Rightarrow> ('s, json) prog"
  pv_uploadStream :: "stream \<Rightarrow> string \<Rightarrow> ('s, json) prog"
  pv_download :: "string \<Rightarrow> string \<Rightarrow> ('s, json) prog"
  pv_list :: "string \<Rightarrow> ('s, string list) prog"
  pv_delete :: "string \<Rightarrow> ('s, unit) prog"
  pv_getUrl :: "string \<Rightarrow> ('s, string) prog"

section \<open>The local provider\<close>

definition local_basePath :: "json \<Rightarrow> string" where
  "local_basePath config = or_s (text_column (Some config) ''basePath'') ''./backups''"

definition path_and_size :: "string \<Rightarrow> int \<Rightarrow> json" where
  "path_and_size p n = JObj [(''path'', JStr p), (''size'', JNum n)]"

definition local_upload :: "disk_env \<Rightarrow> string \<Rightarrow> string \<Rightarrow> string \<Rightarrow> (disk, json) prog" where
  "local_upload E base localPath remotePath = (let destPath = path_join [base, remotePath] in
     seqp (ensureDir E (path_dirname destPath))
    (seqp (copyFileSync E localPath destPath)
    (bnd (statSync E destPath) (\<lambda>n. ret (path_and_size destPath n)))))"

definition not_found_at :: "string \<Rightarrow> js_error" where
  "not_found_at p = new_Error (''File not found: '' @ p)"

definition local_download :: "disk_env \<Rightarrow> string \<Rightarrow> string \<Rightarrow> string \<Rightarrow> (disk, json) prog" where
  "local_download E base remotePath localPath = (let sourcePath = path_join [base, remotePath] in
     bnd (existsSync E sourcePath) (\<lambda>there.
     if \<not> there then throw (not_found_at sourcePath)
     else seqp (ensureDir E (path_dirname localPath))
         (seqp (copyFileSync E sourcePath localPath)
         (bnd (statSync E localPath) (\<lambda>n. ret (path_and_size localPath n))))))"

text \<open>\<open>pipeline(stream, createWriteStream(dest))\<close>\<close>

definition pipe_to :: "disk_env \<Rightarrow> stream \<Rightarrow> string \<Rightarrow> (disk, unit) prog" where
  "pipe_to E st p = seqp (writeFileSync E p (fst st)) (case snd st of None \<Rightarrow> ret () | Some e \<Rightarrow> throw e)"

definition local_uploadStream :: "disk_env \<Rightarrow> string \<Rightarrow> stream \<Rightarrow> string \<Rightarrow> (disk, json) prog" where
  "local_uploadStream E base st remotePath = (let destPath = path_join [base, remotePath] in
     seqp (ensureDir E (path_dirname destPath))
    (seqp (pipe_to E st destPath)
    (bnd (statSync E destPath) (\<lambda>n. ret (path_and_size destPath n)))))"

text \<open>The inner function \<open>walk\<close>: the files below the directory \<open>d\<close>, which is the node.\<close>

fun walk_dir :: "disk_env \<Rightarrow> string \<Rightarrow> node \<Rightarrow> (disk, string list) prog"
  and walk_items :: "disk_env \<Rightarrow> string \<Rightarrow> (string \<times> node) list \<Rightarrow> (disk, string list) prog" where
  "walk_dir E d (Dir es) = seqp (fs_try E) (walk_items E d es)"
| "walk_dir E d (File b) = seqp (fs_try E) (throw (fs_error ''ENOTDIR'' ''scandir'' d))"
| "walk_items E d [] = ret []"
| "walk_items E d ((item, n) # es) = (let fullPath = path_join [d, item] in
     seqp (fs_try E)
    (bnd (case n of Dir _ \<Rightarrow> walk_dir E fullPath n | File _ \<Rightarrow> ret [fullPath]) (\<lambda>a.
     bnd (walk_items E d es) (\<lambda>b. ret (a @ b)))))"

definition local_list :: "disk_env \<Rightarrow> string \<Rightarrow> string \<Rightarrow> (disk, string list) prog" where
  "local_list E base pre = (let searchPath = path_join [base, pre] in
     bnd (gets (\<lambda>s. node_at (d_root s) (segs E searchPath))) (\<lambda>n. case n of
       None \<Rightarrow> ret []
     | Some n \<Rightarrow> bnd (walk_dir E searchPath n) (\<lambda>fs. ret (map (path_relative (v_cwd E) base) fs))))"

definition local_delete :: "disk_env \<Rightarrow> string \<Rightarrow> string \<Rightarrow> (disk, unit) prog" where
  "local_delete E base remotePath = (let filePath = path_join [base, remotePath] in
     bnd (existsSync E filePath) (\<lambda>there.
     if \<not> there then throw (not_found_at filePath) else unlinkSync E filePath))"

definition local_provider :: "disk_env \<Rightarrow> string \<Rightarrow> ('z site_scheme) provider" where
  "local_provider E base =
     \<lparr>pv_initialize = on_disk (ensureDir E base),
      pv_upload = (\<lambda>l r. on_disk (local_upload E base l r)),
      pv_uploadStream = (\<lambda>st r. on_disk (local_uploadStream E base st r)),
      pv_download = (\<lambda>r l. on_disk (local_download E base r l)),
      pv_list = (\<lambda>p. on_disk (local_list E base p)),
      pv_delete = (\<lambda>r. on_disk (local_delete E base r)),
      pv_getUrl = (\<lambda>r. ret (path_join [base, r]))\<rparr>"

section \<open>The S3 provider\<close>

record s3_client =
  s3_bucket :: "json option"
  s3_region :: json
  s3_accessKey :: "json option"
  s3_secretKey :: "json option"

definition s3_new :: "json \<Rightarrow> s3_client" where
  "s3_new config = \<lparr>s3_bucket = jget config ''bucket'', s3_region = or_j (jget config ''region'') (JStr ''us-east-1''),
     s3_accessKey = jget config ''accessKey'', s3_secretKey = jget config ''secretKey''\<rparr>"

text \<open>\<open>this.client.send(new \<dots>Command({ Bucket, \<dots> }))\<close>\<close>

definition s3_send :: "world \<Rightarrow> s3_client \<Rightarrow> string \<Rightarrow> (string \<times> json option) list \<Rightarrow> ('z site_scheme, json) prog" where
  "s3_send W c command args = on_proc (run_call W (Other command (jobj
     ([(''region'', Some (s3_region c)), (''accessKeyId'', s3_accessKey c), (''secretAccessKey'', s3_secretKey c),
       (''Bucket'', s3_bucket c)] @ args))))"

definition s3_initialize :: "world \<Rightarrow> s3_client \<Rightarrow> ('z site_scheme, unit) prog" where
  "s3_initialize W c = try_catch (seqp (s3_send W c ''ListObjects'' [(''MaxKeys'', Some (JNum 1))]) (ret ()))
     (\<lambda>e. throw (new_Error (''S3 initialization failed: Error: '' @ err_message e)))"

definition s3_receipt :: "s3_client \<Rightarrow> string \<Rightarrow> json \<Rightarrow> json" where
  "s3_receipt c key result = jobj [(''bucket'', s3_bucket c), (''key'', Some (JStr key)),
     (''etag'', jget result ''ETag''), (''versionId'', jget result ''VersionId'')]"

definition s3_upload :: "disk_env \<Rightarrow> world \<Rightarrow> s3_client \<Rightarrow> string \<Rightarrow> string \<Rightarrow> ('z site_scheme, json) prog" where
  "s3_upload E W c localPath remotePath =
     bnd (on_disk (readFileSync E localPath)) (\<lambda>b.
     bnd (s3_send W c ''PutObject'' [(''Key'', Some (JStr remotePath)), (''Body'', Some (JStr (text_of b)))]) (\<lambda>result.
     ret (s3_receipt c remotePath result)))"

definition s3_uploadStream :: "world \<Rightarrow> s3_client \<Rightarrow> stream \<Rightarrow> string \<Rightarrow> ('z site_scheme, json) prog" where
  "s3_uploadStream W c st remotePath = (case snd st of
     Some e \<Rightarrow> throw e
   | None \<Rightarrow> bnd (s3_send W c ''PutObject'' [(''Key'', Some (JStr remotePath)), (''Body'', Some (JStr (text_of (fst st))))])
       (\<lambda>result. ret (s3_receipt c remotePath result)))"

text \<open>\<open>createWriteStream\<close> empties the local file before the body is looked at.\<close>

definition s3_get :: "disk_env \<Rightarrow> world \<Rightarrow> s3_client \<Rightarrow> string \<Rightarrow> string \<Rightarrow> ('z site_scheme, json) prog" where
  "s3_get E W c remotePath localPath =
     bnd (s3_send W c ''GetObject'' [(''Key'', Some (JStr remotePath))]) (\<lambda>response.
     seqp (on_disk (writeFileSync E localPath []))
    (case jget response ''Body'' of
       Some (JStr t) \<Rightarrow> seqp (on_disk (writeFileSync E localPath (ascii t))) (ret (JObj [(''path'', JStr localPath)]))
     | _ \<Rightarrow> throw (new_Error ''No data received from S3'')))"

fun object_keys :: "json option \<Rightarrow> string list" where
  "object_keys (Some (JArr xs)) = concat (map (\<lambda>x. case text_column (Some x) ''Key'' of
     Some k \<Rightarrow> if k = '''' then [] else [k] | None \<Rightarrow> []) xs)"
| "object_keys _ = []"

definition s3_list :: "world \<Rightarrow> s3_client \<Rightarrow> string \<Rightarrow> ('z site_scheme, string list) prog" where
  "s3_list W c pre = bnd (s3_send W c ''ListObjects'' [(''Prefix'', Some (JStr pre))]) (\<lambda>response.
     ret (object_keys (jget response ''Contents'')))"

definition s3_delete :: "world \<Rightarrow> s3_client \<Rightarrow> string \<Rightarrow> ('z site_scheme, unit) prog" where
  "s3_delete W c remotePath = seqp (s3_send W c ''DeleteObject'' [(''Key'', Some (JStr remotePath))]) (ret ())"

definition s3_getUrl :: "world \<Rightarrow> s3_client \<Rightarrow> string \<Rightarrow> ('z site_scheme, string) prog" where
  "s3_getUrl W c remotePath = bnd (s3_send W c ''getSignedUrl'' [(''Key'', Some (JStr remotePath)), (''expiresIn'', Some (JNum 3600))])
     (\<lambda>url. ret (js_String url))"

definition s3_provider :: "disk_env \<Rightarrow> world \<Rightarrow> json \<Rightarrow> ('z site_scheme) provider" where
  "s3_provider E W config = (let c = s3_new config in
     \<lparr>pv_initialize = s3_initialize W c,
      pv_upload = s3_upload E W c,
      pv_uploadStream = s3_uploadStream W c,
      pv_download = s3_get E W c,
      pv_list = s3_list W c,
      pv_delete = s3_delete W c,
      pv_getUrl = s3_getUrl W c\<rparr>)"

section \<open>The service\<close>

text \<open>The \<open>Map\<close> of providers, by storage type and configuration. A provider is determined by these,
  so the map is the list of the keys it holds.\<close>

record storage_svc = site +
  sv_providers :: "(string \<times> json) list"

definition provider_for :: "disk_env \<Rightarrow> world \<Rightarrow> string \<Rightarrow> json \<Rightarrow> (storage_svc provider) option" where
  "provider_for E W kind config =
     (if kind = ''local'' then Some (local_provider E (local_basePath config))
      else if kind = ''s3'' then Some (s3_provider E W config)
      else None)"

definition getStorageProvider :: "disk_env \<Rightarrow> world \<Rightarrow> string \<Rightarrow> json \<Rightarrow> (storage_svc, storage_svc provider) prog" where
  "getStorageProvider E W kind config = (case provider_for E W kind config of
     None \<Rightarrow> throw (new_Error (''Unsupported storage type: '' @ kind))
   | Some p \<Rightarrow> bnd (gets sv_providers) (\<lambda>m.
       if (kind, config) \<in> set m then ret p
       else seqp (pv_initialize p)
           (seqp (modify_st (\<lambda>s. s\<lparr>sv_providers := (kind, config) # sv_providers s\<rparr>)) (ret p))))"

definition storage_failed :: "js_error \<Rightarrow> ('s, response) prog" where
  "storage_failed e = respond 500 (JObj [(''success'', JBool False), (''error'', JStr (err_message e))])"

record storage_request =
  sr_storageType :: string
  sr_config :: json
  sr_localPath :: string
  sr_remotePath :: string
  sr_prefix :: "string option"
  sr_backupId :: string

definition upload_body :: "storage_request \<Rightarrow> json \<Rightarrow> json" where
  "upload_body q result = JObj [(''success'', JBool True), (''backupId'', JStr (sr_backupId q)),
     (''storageType'', JStr (sr_storageType q)), (''remotePath'', JStr (sr_remotePath q)), (''result'', result)]"

definition post_upload :: "disk_env \<Rightarrow> meta_client \<Rightarrow> world \<Rightarrow> storage_request \<Rightarrow> (storage_svc, response) prog" where
  "post_upload E C W q = try_catch
     (bnd (getStorageProvider E W (sr_storageType q) (sr_config q)) (\<lambda>p.
      bnd (pv_upload p (sr_localPath q) (sr_remotePath q)) (\<lambda>result.
      seqp (on_proc (updateJob C W (sr_backupId q) (JObj [(''storageType'', JStr (sr_storageType q)),
         (''storagePath'', JStr (sr_remotePath q)), (''metadata'', JObj [(''uploadResult'', result)])])))
       (answer (upload_body q result)))))
     storage_failed"

definition post_download :: "disk_env \<Rightarrow> world \<Rightarrow> storage_request \<Rightarrow> (storage_svc, response) prog" where
  "post_download E W q = try_catch
     (bnd (getStorageProvider E W (sr_storageType q) (sr_config q)) (\<lambda>p.
      bnd (pv_download p (sr_remotePath q) (sr_localPath q)) (\<lambda>result.
      answer (JObj [(''success'', JBool True), (''backupId'', JStr (sr_backupId q)), (''storageType'', JStr (sr_storageType q)),
        (''localPath'', JStr (sr_localPath q)), (''result'', result)]))))
     storage_failed"

definition post_list :: "disk_env \<Rightarrow> world \<Rightarrow> storage_request \<Rightarrow> (storage_svc, response) prog" where
  "post_list E W q = try_catch
     (bnd (getStorageProvider E W (sr_storageType q) (sr_config q)) (\<lambda>p.
      bnd (pv_list p (nullish (sr_prefix q) '''')) (\<lambda>files.
      answer (JObj [(''success'', JBool True), (''files'', JArr (map JStr files))]))))
     storage_failed"

definition post_delete :: "disk_env \<Rightarrow> world \<Rightarrow> storage_request \<Rightarrow> (storage_svc, response) prog" where
  "post_delete E W q = try_catch
     (bnd (getStorageProvider E W (sr_storageType q) (sr_config q)) (\<lambda>p.
      seqp (pv_delete p (sr_remotePath q)) (answer (JObj [(''success'', JBool True)]))))
     storage_failed"

end
