(* ===== verification/WalArchive.thy ===== *)
theory WalArchive
  imports StorageService KeyStore
begin

text \<open>
  \<open>services/postgres-pitr.service.ts\<close>, first half: the archive of write-ahead log (WAL) segments that
  PostgreSQL fills through \<open>archive_command\<close> and reads through \<open>restore_command\<close>.

  The service runs on a machine with the key store of \<open>KeyStore\<close>; gzip is a parameter like the cipher.
  \<open>Buffer.concat([iv, tag, data])\<close> of \<open>archiveWal\<close> is taken apart by \<open>fetchWal\<close> at fixed offsets.
\<close>

section \<open>The service\<close>

record pitr_env =
  pe_disk :: disk_env
  pe_keys :: key_env
  pe_client :: meta_client
  pe_database :: string
  pe_dataDirectory :: "string option"
  pe_var :: "string \<Rightarrow> string option"
  pe_gzip :: "bytes \<Rightarrow> bytes"
  pe_gunzip :: "bytes \<Rightarrow> js_error + bytes"
  pe_gcm :: gcm
  pe_random :: "nat \<Rightarrow> bytes"

record pitr_site = site +
  ps_keys :: key_st
  ps_randoms :: nat

definition on_keys :: "(key_st, 'a) prog \<Rightarrow> (pitr_site, 'a) prog" where
  "on_keys m = (\<lambda>s. case m (ps_keys s) of (r, k) \<Rightarrow> (r, s\<lparr>ps_keys := k\<rparr>))"

section \<open>Where the archive is kept\<close>

datatype archive_store = On_disk json | On_s3 json

text \<open>The row of a storage location, as the configuration its provider is built from.\<close>

definition row_store :: "json \<Rightarrow> archive_store" where
  "row_store r = (if jget r ''type'' = Some (JStr ''s3'')
     then On_s3 (JObj [(''type'', JStr ''s3''), (''bucket'', or_j (jget r ''bucket'') (JStr '''')),
       (''region'', or_j (jget r ''region'') (JStr ''us-east-1'')), (''accessKey'', or_j (jget r ''accessKey'') (JStr '''')),
       (''secretKey'', or_j (jget r ''secretKey'') (JStr ''''))])
     else On_disk (JObj [(''type'', JStr ''local''), (''bucket'', JStr ''''),
       (''basePath'', or_j (oget (jget r ''config'') ''basePath'') (JStr ''./backups''))]))"

definition store_choice :: "pitr_env \<Rightarrow> world \<Rightarrow> string option \<Rightarrow> (proc, archive_store) prog" where
  "store_choice P W storageName =
     (if truthy_s storageName
      then bnd (getStorage (pe_client P) W (the storageName)) (\<lambda>storage.
        if \<not> truthy_j (Some storage)
        then throw (new_Error (''Storage location '' @ [CHR 0x22] @ the storageName @ [CHR 0x22] @ '' not found''))
        else ret (row_store storage))
      else bnd (getDefaultStorage (pe_client P) W) (\<lambda>d.
        if truthy_j (Some d) then ret (row_store d)
        else ret (On_disk (JObj [(''type'', JStr ''local''), (''bucket'', JStr ''''), (''basePath'', JStr ''./backups'')]))))"

fun store_provider :: "pitr_env \<Rightarrow> world \<Rightarrow> archive_store \<Rightarrow> pitr_site provider" where
  "store_provider P W (On_disk c) = local_provider (pe_disk P) (local_basePath c)"
| "store_provider P W (On_s3 c) = s3_provider (pe_disk P) W c"

definition resolveStorageProvider :: "pitr_env \<Rightarrow> world \<Rightarrow> string option \<Rightarrow> (pitr_site, pitr_site provider) prog" where
  "resolveStorageProvider P W storageName =
     bnd (on_proc (store_choice P W storageName)) (\<lambda>c.
     seqp (pv_initialize (store_provider P W c)) (ret (store_provider P W c)))"

text \<open>\<open>pitr/${dbName}/wal/${timeline}/${walFileName}\<close>\<close>

definition wal_dir :: "pitr_env \<Rightarrow> string \<Rightarrow> string" where
  "wal_dir P wal = ''pitr'' @ [slash] @ pe_database P @ [slash] @ ''wal'' @ [slash] @ take 8 wal"

definition wal_remote :: "pitr_env \<Rightarrow> string \<Rightarrow> string" where
  "wal_remote P wal = wal_dir P wal @ [slash] @ wal"

section \<open>The key and the encoding\<close>

text \<open>\<open>options.key || process.env.PITR_ENCRYPTION_KEY\<close>, else the key stored for the database; errors of
  the key store mean that there is none.\<close>

definition wal_key :: "pitr_env \<Rightarrow> string option \<Rightarrow> (pitr_site, string option) prog" where
  "wal_key P key = (let k = or_so key (pe_var P ''PITR_ENCRYPTION_KEY'') in
     if truthy_s k then ret k
     else try_catch (bnd (on_keys (getKey (pe_keys P) (''pitr-'' @ pe_database P))) (\<lambda>e. ret (map_option ke_key e)))
       (\<lambda>_. ret None))"

definition compress_wal :: "pitr_env \<Rightarrow> bytes \<Rightarrow> bytes" where
  "compress_wal P raw = (if pe_var P ''PITR_COMPRESS'' \<noteq> Some ''false'' then pe_gzip P raw else raw)"

definition encode_wal :: "pitr_env \<Rightarrow> string option \<Rightarrow> bytes \<Rightarrow> bytes \<Rightarrow> js_error + bytes" where
  "encode_wal P k iv raw = (if truthy_s k
     then (case seal (pe_gcm P) (hex_bytes (the k)) iv (compress_wal P raw) of
       Inl e \<Rightarrow> Inl e | Inr x \<Rightarrow> Inr (sl_iv x @ sl_tag x @ sl_data x))
     else Inr (compress_wal P raw))"

text \<open>Failures of decryption and decompression are swallowed: the data passes as it is.\<close>

definition decrypt_wal :: "pitr_env \<Rightarrow> string option \<Rightarrow> bytes \<Rightarrow> bytes" where
  "decrypt_wal P k bs = (if truthy_s k \<and> length bs > IV_LENGTH + TAG_LENGTH
     then (case unseal (pe_gcm P) (hex_bytes (the k)) \<lparr>sl_iv = take IV_LENGTH bs, sl_tag = take TAG_LENGTH (drop IV_LENGTH bs),
         sl_data = drop (IV_LENGTH + TAG_LENGTH) bs\<rparr> of
       Inl _ \<Rightarrow> bs | Inr d \<Rightarrow> d)
     else bs)"

definition gzip_magic :: "bytes \<Rightarrow> bool" where
  "gzip_magic bs \<longleftrightarrow> length bs \<ge> 2 \<and> bs ! 0 = 0x1F \<and> bs ! 1 = 0x8B"

definition decompress_wal :: "pitr_env \<Rightarrow> bytes \<Rightarrow> bytes" where
  "decompress_wal P bs = (if gzip_magic bs then (case pe_gunzip P bs of Inl _ \<Rightarrow> bs | Inr d \<Rightarrow> d) else bs)"

definition decode_wal :: "pitr_env \<Rightarrow> string option \<Rightarrow> bytes \<Rightarrow> bytes" where
  "decode_wal P k bs = decompress_wal P (decrypt_wal P k bs)"

definition random_iv :: "pitr_env \<Rightarrow> (pitr_site, bytes) prog" where
  "random_iv P = (\<lambda>s. (Inr (pe_random P (ps_randoms s)), s\<lparr>ps_randoms := Suc (ps_randoms s)\<rparr>))"

section \<open>archiveWal\<close>

fun first_existing :: "disk_env \<Rightarrow> string list \<Rightarrow> string \<Rightarrow> (disk, string) prog" where
  "first_existing E [] d = ret d"
| "first_existing E (c # cs) d = bnd (existsSync E c) (\<lambda>there. if there then ret c else first_existing E cs d)"

definition wal_source :: "pitr_env \<Rightarrow> string \<Rightarrow> string \<Rightarrow> (disk, string) prog" where
  "wal_source P wal src = (let E = pe_disk P; dataDir = or_s (pe_dataDirectory P) ''/var/lib/postgresql/18/main'' in
     bnd (existsSync E src) (\<lambda>there.
     if there then ret src
     else first_existing E [if is_absolute src then src else path_join [v_cwd E, src],
       path_join [dataDir, src], path_join [dataDir, ''pg_wal'', wal]] src))"

definition already_archived :: "pitr_env \<Rightarrow> pitr_site provider \<Rightarrow> string \<Rightarrow> (pitr_site, bool) prog" where
  "already_archived P pv wal = try_catch
     (bnd (pv_list pv (wal_dir P wal)) (\<lambda>fs. ret (list_ex (\<lambda>f. ends_with f wal) fs)))
     (\<lambda>_. ret False)"

definition temp_file :: "pitr_env \<Rightarrow> string \<Rightarrow> string \<Rightarrow> string" where
  "temp_file P kind wal = path_join [v_cwd (pe_disk P), ''tmp'', kind @ wal]"

definition remove_file :: "disk_env \<Rightarrow> string \<Rightarrow> (disk, unit) prog" where
  "remove_file E p = bnd (existsSync E p) (\<lambda>there. if there then unlinkSync E p else ret ())"

definition upload_wal :: "pitr_env \<Rightarrow> pitr_site provider \<Rightarrow> string \<Rightarrow> bytes \<Rightarrow> (pitr_site, bool) prog" where
  "upload_wal P pv wal processed = (let E = pe_disk P; tmp = temp_file P ''upload_'' wal in
     seqp (on_disk (ensureDir E (path_dirname tmp)))
    (seqp (on_disk (writeFileSync E tmp processed))
    (try_finally
       (try_catch (seqp (pv_upload pv tmp (wal_remote P wal)) (ret True)) (\<lambda>_. ret False))
       (on_disk (remove_file E tmp)))))"

definition archive_to :: "pitr_env \<Rightarrow> pitr_site provider \<Rightarrow> string \<Rightarrow> string \<Rightarrow> string option \<Rightarrow> (pitr_site, bool) prog" where
  "archive_to P pv wal p key =
     bnd (already_archived P pv wal) (\<lambda>archived.
     if archived then ret True
     else bnd (on_disk (readFileSync (pe_disk P) p)) (\<lambda>raw.
          bnd (wal_key P key) (\<lambda>k.
          bnd (if truthy_s k then random_iv P else ret []) (\<lambda>iv.
          bnd (lift_res (encode_wal P k iv raw)) (upload_wal P pv wal)))))"

definition archiveWal :: "pitr_env \<Rightarrow> world \<Rightarrow> string \<Rightarrow> string \<Rightarrow> string option \<Rightarrow> string option \<Rightarrow> (pitr_site, bool) prog" where
  "archiveWal P W wal src storageName key =
     bnd (on_disk (wal_source P wal src)) (\<lambda>p.
     bnd (on_disk (existsSync (pe_disk P) p)) (\<lambda>there.
     if \<not> there then ret False
     else seqp (on_disk (statSync (pe_disk P) p))
         (bnd (resolveStorageProvider P W storageName) (\<lambda>pv. archive_to P pv wal p key))))"

section \<open>fetchWal\<close>

definition download_wal :: "pitr_env \<Rightarrow> pitr_site provider \<Rightarrow> string \<Rightarrow> string \<Rightarrow> (pitr_site, bool) prog" where
  "download_wal P pv wal tmp = try_catch
     (seqp (pv_download pv (wal_remote P wal) tmp) (ret True))
     (\<lambda>_. bnd (pv_list pv (''pitr'' @ [slash] @ pe_database P @ [slash] @ ''wal'')) (\<lambda>allFiles.
       case List.find (\<lambda>f. ends_with f wal) allFiles of
         None \<Rightarrow> ret False
       | Some m \<Rightarrow> try_catch (seqp (pv_download pv m tmp) (ret True)) (\<lambda>_. ret False)))"

definition fetch_from :: "pitr_env \<Rightarrow> pitr_site provider \<Rightarrow> string \<Rightarrow> string \<Rightarrow> string option \<Rightarrow> (pitr_site, bool) prog" where
  "fetch_from P pv wal dest key = (let E = pe_disk P; tmp = temp_file P ''download_'' wal in
     seqp (on_disk (ensureDir E (path_dirname tmp)))
    (bnd (download_wal P pv wal tmp) (\<lambda>ok.
     if \<not> ok then ret False
     else bnd (on_disk (readFileSync E tmp)) (\<lambda>downloaded.
          seqp (on_disk (remove_file E tmp))
         (bnd (wal_key P key) (\<lambda>k.
          seqp (on_disk (ensureDir E (path_dirname dest)))
         (seqp (on_disk (writeFileSync E dest (decode_wal P k downloaded))) (ret True))))))))"

definition fetchWal :: "pitr_env \<Rightarrow> world \<Rightarrow> string \<Rightarrow> string \<Rightarrow> string option \<Rightarrow> string option \<Rightarrow> (pitr_site, bool) prog" where
  "fetchWal P W wal dest storageName key =
     bnd (resolveStorageProvider P W storageName) (\<lambda>pv. fetch_from P pv wal dest key)"

end
