(* ===== verification/PitrService.thy ===== *)
theory PitrService
  imports WalArchive BinlogHeader
begin

text \<open>
  \<open>services/postgres-pitr.service.ts\<close>, second half: configuration of the server, base backups, status,
  and recovery to a point in time.

  Queries go to the server through the parameter \<open>world\<close>; a shell command (\<open>pg_basebackup\<close>, \<open>tar\<close>,
  \<open>pg_ctl\<close>) may fail or do anything to the disk (\<open>pg_exec\<close>). Dates of rows arrive as JSON text.
\<close>

section \<open>Environment\<close>

record pg_env =
  pg_pitr :: pitr_env
  pg_host :: "string option"
  pg_port :: "int option"
  pg_username :: "string option"
  pg_password :: json
  pg_argv0 :: string
  pg_argv1 :: "string option"
  pg_exec :: "string \<Rightarrow> disk \<Rightarrow> (js_error + string) \<times> disk"
  pg_millis :: int
  pg_stamp :: int
  pg_duration :: json
  pg_iso :: "int \<Rightarrow> string"
  pg_ended :: json
  pg_parse_date :: "string \<Rightarrow> int option"
  pg_parse_json :: "string \<Rightarrow> js_error + json"
  pg_sha256 :: "bytes \<Rightarrow> string"

abbreviation pg_disk :: "pg_env \<Rightarrow> disk_env" where "pg_disk P \<equiv> pe_disk (pg_pitr P)"
abbreviation pg_database :: "pg_env \<Rightarrow> string" where "pg_database P \<equiv> pe_database (pg_pitr P)"
abbreviation pg_cwd :: "pg_env \<Rightarrow> string" where "pg_cwd P \<equiv> v_cwd (pg_disk P)"

definition dq :: "string \<Rightarrow> string" where
  "dq s = [CHR 0x22] @ s @ [CHR 0x22]"

definition sq :: "string \<Rightarrow> string" where
  "sq s = [CHR 0x27] @ s @ [CHR 0x27]"

text \<open>A command goes into the log of calls; it fails or returns its standard output.\<close>

definition log_call :: "call \<Rightarrow> (pitr_site, unit) prog" where
  "log_call c = on_proc (modify_st (\<lambda>p. p\<lparr>calls := calls p @ [c]\<rparr>))"

definition execAsync :: "pg_env \<Rightarrow> string \<Rightarrow> (pitr_site, string) prog" where
  "execAsync P command = seqp (log_call (Other ''exec'' (JStr command))) (on_disk (pg_exec P command))"

section \<open>The server\<close>

definition getPgClient :: "pg_env \<Rightarrow> world \<Rightarrow> (pitr_site, unit) prog" where
  "getPgClient P W = on_proc (unit_call W (Other ''pg.connect'' (jobj
     [(''host'', Some (JStr (or_s (pg_host P) ''localhost''))), (''port'', Some (JNum (or_n (pg_port P) 5432))),
      (''user'', Some (JStr (or_s (pg_username P) ''postgres''))), (''password'', Some (pg_password P)),
      (''database'', Some (JStr (pg_database P)))])))"

definition pg_query :: "world \<Rightarrow> string \<Rightarrow> (pitr_site, json) prog" where
  "pg_query W sql = on_proc (run_call W (Other ''pg.query'' (JStr sql)))"

definition pg_end :: "world \<Rightarrow> (pitr_site, unit) prog" where
  "pg_end W = on_proc (unit_call W (Other ''pg.end'' JNull))"

text \<open>\<open>res.rows[0]?.column\<close>: an answer without its array of rows is a type error.\<close>

definition no_array :: "string \<Rightarrow> js_error" where
  "no_array what = JsError ''TypeError'' (what @ '' is not an array'')"

definition row0 :: "json \<Rightarrow> string \<Rightarrow> js_error + json option" where
  "row0 res column = (case jget res ''rows'' of
     Some (JArr []) \<Rightarrow> Inr None | Some (JArr (r # _)) \<Rightarrow> Inr (jget r column) | _ \<Rightarrow> Inl (no_array ''rows''))"

definition show_setting :: "world \<Rightarrow> string \<Rightarrow> string \<Rightarrow> (pitr_site, string) prog" where
  "show_setting W name old = bnd (pg_query W (''SHOW '' @ name)) (\<lambda>res.
     bnd (lift_res (row0 res name)) (\<lambda>v. ret (or_s (map_option js_String v) old)))"

record settings =
  wal_level :: string
  archive_mode :: string
  archive_command :: string

definition show_settings :: "world \<Rightarrow> settings \<Rightarrow> (pitr_site, settings) prog" where
  "show_settings W d = bnd (show_setting W ''wal_level'' (wal_level d)) (\<lambda>l.
     bnd (show_setting W ''archive_mode'' (archive_mode d)) (\<lambda>m.
     bnd (show_setting W ''archive_command'' (archive_command d)) (\<lambda>c.
     ret \<lparr>wal_level = l, archive_mode = m, archive_command = c\<rparr>)))"

definition unknown_settings :: settings where
  "unknown_settings = \<lparr>wal_level = ''unknown'', archive_mode = ''unknown'', archive_command = ''unknown''\<rparr>"

definition system_identifier :: "pg_env \<Rightarrow> world \<Rightarrow> (pitr_site, json) prog" where
  "system_identifier P W = try_catch
     (bnd (pg_query W ''SELECT system_identifier FROM pg_control_system()'') (\<lambda>res.
      bnd (lift_res (row0 res ''system_identifier'')) (\<lambda>v. ret (or_j v JNull))))
     (\<lambda>_. ret (JStr (pg_database P)))"

definition expected_command :: "pg_env \<Rightarrow> string option \<Rightarrow> string" where
  "expected_command P storageName =
     (if truthy_s (pg_argv1 P) \<and> is_absolute (the (pg_argv1 P))
      then dq (pg_argv0 P) @ '' '' @ dq (path_resolve (pg_cwd P) [the (pg_argv1 P)]) else ''db-backup'') @
     '' pitr archive-wal --database '' @ pg_database P @ '' '' @
     (if truthy_s storageName then ''--storage '' @ the storageName @ '' '' else '''') @ ''--file %f --path %p''"

definition level_ok :: "settings \<Rightarrow> bool" where
  "level_ok c \<longleftrightarrow> wal_level c = ''replica'' \<or> wal_level c = ''logical''"

definition mode_ok :: "settings \<Rightarrow> bool" where
  "mode_ok c \<longleftrightarrow> archive_mode c = ''on'' \<or> archive_mode c = ''always''"

text \<open>The \<open>ALTER SYSTEM\<close> commands that are needed, each with whether it takes a restart.\<close>

definition needed_alters :: "settings \<Rightarrow> string \<Rightarrow> (string \<times> bool) list" where
  "needed_alters c expected =
     (if level_ok c then [] else [(''ALTER SYSTEM SET wal_level = '' @ sq ''replica'', True)]) @
     (if mode_ok c then [] else [(''ALTER SYSTEM SET archive_mode = '' @ sq ''on'', True)]) @
     (if archive_command c = expected then [] else [(''ALTER SYSTEM SET archive_command = '' @ sq expected, False)])"

text \<open>The first command that fails ends the configuration; what was done before it counts.\<close>

fun run_alters :: "world \<Rightarrow> (string \<times> bool) list \<Rightarrow> bool \<times> bool \<Rightarrow> (pitr_site, bool \<times> bool) prog" where
  "run_alters W [] flags = try_catch (seqp (pg_query W ''SELECT pg_reload_conf()'') (ret flags)) (\<lambda>_. ret flags)"
| "run_alters W ((sql, rs) # as) (restartRequired, configured) =
     bnd (try_catch (seqp (pg_query W sql) (ret True)) (\<lambda>_. ret False)) (\<lambda>done.
     if done then run_alters W as (restartRequired \<or> rs, True) else ret (restartRequired, configured))"

record pitr_setup =
  su_dbName :: string
  su_systemIdentifier :: json
  su_settings :: settings
  su_expectedCommand :: string
  su_configured :: bool
  su_activelyWorking :: bool
  su_restartRequired :: bool
  su_autoConfigured :: bool

definition autoConfigure :: "pg_env \<Rightarrow> world \<Rightarrow> settings \<Rightarrow> string \<Rightarrow> (pitr_site, settings \<times> bool \<times> bool) prog" where
  "autoConfigure P W c expected =
     seqp (getPgClient P W)
    (bnd (try_finally (run_alters W (needed_alters c expected) (False, False)) (pg_end W)) (\<lambda>flags.
     seqp (getPgClient P W)
    (bnd (try_finally (show_settings W c) (pg_end W)) (\<lambda>c'. ret (c', flags)))))"

definition setupPitr :: "pg_env \<Rightarrow> world \<Rightarrow> bool \<Rightarrow> string option \<Rightarrow> (pitr_site, pitr_setup) prog" where
  "setupPitr P W auto storageName =
     seqp (getPgClient P W)
    (bnd (try_finally
        (bnd (show_settings W unknown_settings) (\<lambda>c. bnd (system_identifier P W) (\<lambda>i. ret (c, i))))
        (pg_end W)) (\<lambda>(c, i).
     let expected = expected_command P storageName in
     bnd (if auto then autoConfigure P W c expected else ret (c, False, False)) (\<lambda>(c', rs, configuredNow).
     let configured = (level_ok c' \<and> mode_ok c' \<and> str_includes (archive_command c') ''pitr archive-wal'') in
     ret \<lparr>su_dbName = pg_database P, su_systemIdentifier = i, su_settings = c', su_expectedCommand = expected,
       su_configured = configured, su_activelyWorking = (configured \<and> \<not> rs), su_restartRequired = rs,
       su_autoConfigured = configuredNow\<rparr>)))"

section \<open>Base backups\<close>

text \<open>\<open>fs.rmSync(p, { recursive: true, force: true })\<close> and \<open>fs.chmodSync\<close>, which keeps no mode here.\<close>

definition rmSync :: "disk_env \<Rightarrow> string \<Rightarrow> (disk, unit) prog" where
  "rmSync E p = seqp (fs_try E) (bnd (gets d_root) (\<lambda>n. set_root (drop_node (segs E p) n)))"

definition chmodSync :: "disk_env \<Rightarrow> string \<Rightarrow> (disk, unit) prog" where
  "chmodSync E p = seqp (fs_try E) (bnd (existsSync E p) (\<lambda>there.
     if there then ret () else throw (fs_error ''ENOENT'' ''chmod'' p)))"

definition removeDir :: "disk_env \<Rightarrow> string \<Rightarrow> (disk, unit) prog" where
  "removeDir E p = bnd (existsSync E p) (\<lambda>there. if there then rmSync E p else ret ())"

text \<open>\<open>/START WAL LOCATION:[^\n]+\(file ([0-9A-F]+)\)/i\<close> and \<open>/START TIMELINE: (\d+)/i\<close>\<close>

definition hex_any :: "char \<Rightarrow> bool" where
  "hex_any c \<longleftrightarrow> (let n = of_char c :: int in 48 \<le> n \<and> n \<le> 57 \<or> 65 \<le> n \<and> n \<le> 70 \<or> 97 \<le> n \<and> n \<le> 102)"

definition start_wal_rx :: "string matcher" where
  "start_wal_rx = rx_then (rx_lit ''START WAL LOCATION:'') (\<lambda>_. rx_then (rx_plus (\<lambda>c. c \<noteq> CHR 0x0A)) (\<lambda>_.
     rx_then (rx_lit ''(file '') (\<lambda>_. rx_then (rx_plus hex_any) (\<lambda>f. rx_then (rx_lit '')'') (\<lambda>_. rx_return f)))))"

definition start_timeline_rx :: "string matcher" where
  "start_timeline_rx = rx_then (rx_lit ''START TIMELINE: '') (\<lambda>_. rx_then (rx_plus is_digit) rx_return)"

definition padStart :: "nat \<Rightarrow> char \<Rightarrow> string \<Rightarrow> string" where
  "padStart n c s = replicate (n - length s) c @ s"

definition read_label :: "string \<Rightarrow> string \<times> string" where
  "read_label label = (nullish (rx_search start_wal_rx label) '''',
     case rx_search start_timeline_rx label of None \<Rightarrow> ''00000001'' | Some t \<Rightarrow> padStart 8 (CHR ''0'') t)"

definition backup_label :: "pg_env \<Rightarrow> string \<Rightarrow> (disk, string \<times> string) prog" where
  "backup_label P tempDir = (let p = path_join [tempDir, ''backup_label''] in
     bnd (existsSync (pg_disk P) p) (\<lambda>there.
     if there then bnd (readFileSync (pg_disk P) p) (\<lambda>b. ret (read_label (text_of b)))
     else ret ('''', ''00000001'')))"

definition base_id :: "pg_env \<Rightarrow> string" where
  "base_id P = ''base_'' @ pg_database P @ ''_'' @ str_int (pg_stamp P)"

definition basebackup_command :: "pg_env \<Rightarrow> string \<Rightarrow> string" where
  "basebackup_command P tempDir = ''pg_basebackup -h '' @ or_s (pg_host P) ''localhost'' @ '' -p '' @ str_int (or_n (pg_port P) 5432) @
     '' -U '' @ or_s (pg_username P) ''postgres'' @ '' -D '' @ dq tempDir @ '' -Fp -Xs -c fast --manifest-checksums=SHA256''"

definition base_remote :: "pg_env \<Rightarrow> string \<Rightarrow> string" where
  "base_remote P i = ''pitr/'' @ pg_database P @ ''/base/'' @ i @ [slash] @ i @ ''.tar.gz''"

text \<open>The store and its name and type, which go into the record.\<close>

definition store_name :: "pg_env \<Rightarrow> world \<Rightarrow> string option \<Rightarrow> (proc, archive_store \<times> string \<times> string) prog" where
  "store_name P W storageName =
     (let row = (\<lambda>r. (row_store r, tpl (jget r ''name''), if jget r ''type'' = Some (JStr ''s3'') then ''s3'' else ''local'')) in
      if truthy_s storageName
      then bnd (getStorage (pe_client (pg_pitr P)) W (the storageName)) (\<lambda>storage.
        if \<not> truthy_j (Some storage)
        then throw (new_Error (''Storage location '' @ dq (the storageName) @ '' not found''))
        else ret (row storage))
      else bnd (getDefaultStorage (pe_client (pg_pitr P)) W) (\<lambda>d.
        if truthy_j (Some d) then ret (row d)
        else ret (On_disk (JObj [(''type'', JStr ''local''), (''bucket'', JStr ''''), (''basePath'', JStr ''./backups'')]), ''local'', ''local'')))"

definition resolve_named :: "pg_env \<Rightarrow> world \<Rightarrow> string option \<Rightarrow> (pitr_site, pitr_site provider \<times> string \<times> string) prog" where
  "resolve_named P W storageName = bnd (on_proc (store_name P W storageName)) (\<lambda>(c, n).
     seqp (pv_initialize (store_provider (pg_pitr P) W c)) (ret (store_provider (pg_pitr P) W c, n)))"

definition base_job :: "pg_env \<Rightarrow> string \<Rightarrow> string \<Rightarrow> string \<Rightarrow> string \<Rightarrow> int \<Rightarrow> string \<Rightarrow> json" where
  "base_job P timeline startWalFile storageName storageType fsize checksum = (let i = base_id P in JObj
     [(''id'', JStr i), (''dbType'', JStr ''postgresql''), (''dbName'', JStr (pg_database P)), (''backupType'', JStr ''pitr-base''),
      (''status'', JStr ''success''), (''filePath'', JStr (base_remote P i)), (''fileName'', JStr (i @ ''.tar.gz'')),
      (''fileSize'', JNum fsize), (''checksum'', JStr checksum), (''startedAt'', JStr (pg_iso P (pg_millis P))),
      (''completedAt'', pg_ended P), (''duration'', pg_duration P), (''storageType'', JStr storageType),
      (''storagePath'', JStr (base_remote P i)), (''walPosition'', JStr startWalFile),
      (''metadata'', JObj [(''timeline'', JStr timeline), (''startWalFile'', JStr startWalFile), (''storageName'', JStr storageName)])])"

definition not_working :: js_error where
  "not_working = new_Error ''Cannot create PITR base backup: PostgreSQL WAL archiving is not actively working. Run setup first.''"

text \<open>Taking the backup: the working directory of a failed \<open>pg_basebackup\<close> is removed; verification is optional.\<close>

definition take_base :: "pg_env \<Rightarrow> string \<Rightarrow> (pitr_site, unit) prog" where
  "take_base P tempDir =
     seqp (try_catch (execAsync P (basebackup_command P tempDir)) (\<lambda>e.
        seqp (on_disk (removeDir (pg_disk P) tempDir)) (throw (new_Error (''pg_basebackup failed: '' @ err_message e)))))
      (try_catch (seqp (execAsync P (''pg_verifybackup '' @ dq tempDir)) (ret ())) (\<lambda>_. ret ()))"

definition store_base :: "pg_env \<Rightarrow> world \<Rightarrow> string option \<Rightarrow> string \<Rightarrow> (pitr_site, string \<times> string \<times> int \<times> string) prog" where
  "store_base P W storageName tempDir = (let E = pg_disk P; i = base_id P; tarFile = path_join [pg_cwd P, ''tmp'', i @ ''.tar.gz''] in
     seqp (execAsync P (''tar -czf '' @ dq tarFile @ '' -C '' @ dq tempDir @ '' .''))
    (bnd (resolve_named P W storageName) (\<lambda>(pv, name, kind).
     seqp (pv_upload pv tarFile (base_remote P i))
    (bnd (on_disk (statSync E tarFile)) (\<lambda>fsize.
     bnd (on_disk (readFileSync E tarFile)) (\<lambda>content.
     seqp (on_disk (removeDir E tempDir))
    (seqp (on_disk (remove_file E tarFile))
      (ret (name, kind, fsize, pg_sha256 P content)))))))))"

definition createBaseBackup :: "pg_env \<Rightarrow> world \<Rightarrow> string option \<Rightarrow> (pitr_site, json) prog" where
  "createBaseBackup P W storageName = bnd (setupPitr P W False None) (\<lambda>status.
     if \<not> su_activelyWorking status then throw not_working
     else let i = base_id P; tempDir = path_join [pg_cwd P, ''tmp'', i] in
       seqp (on_disk (ensureDir (pg_disk P) tempDir))
      (seqp (take_base P tempDir)
      (bnd (on_disk (backup_label P tempDir)) (\<lambda>(startWalFile, timeline).
       bnd (store_base P W storageName tempDir) (\<lambda>(name, kind, fsize, checksum).
       seqp (on_proc (createJob (pe_client (pg_pitr P)) W (base_job P timeline startWalFile name kind fsize checksum)))
         (ret (JObj [(''success'', JBool True), (''backupId'', JStr i), (''dbName'', JStr (pg_database P)), (''timeline'', JStr timeline),
           (''startWalFile'', JStr startWalFile), (''fileSize'', JNum fsize), (''checksum'', JStr checksum),
           (''storagePath'', JStr (base_remote P i)), (''duration'', pg_duration P)])))))))"

section \<open>Status and recovery points\<close>

definition job_rows :: "json \<Rightarrow> js_error + json list" where
  "job_rows res = (case jget res ''jobs'' of Some (JArr xs) \<Rightarrow> Inr xs | _ \<Rightarrow> Inl (no_array ''jobs''))"

definition is_base :: "json \<Rightarrow> bool" where
  "is_base j \<longleftrightarrow> jget j ''backupType'' = Some (JStr ''pitr-base'')"

definition list_successful :: "pg_env \<Rightarrow> world \<Rightarrow> string \<Rightarrow> (pitr_site, json list) prog" where
  "list_successful P W order = bnd (on_proc (listJobs (pe_client (pg_pitr P)) W (JObj [(''dbName'', JStr (pg_database P)),
     (''dbType'', JStr ''postgresql''), (''status'', JStr ''success''), (''orderBy'', JStr order)]))) (\<lambda>res. lift_res (job_rows res))"

text \<open>\<open>value.toISOString()\<close>: a method of \<open>Date\<close> only, and no JSON value is one.\<close>

definition toISOString :: "json option \<Rightarrow> string \<Rightarrow> ('s, string) prog" where
  "toISOString v what = throw (JsError ''TypeError'' (if v = None \<or> v = Some JNull
     then ''Cannot read properties of '' @ tpl v @ '' (reading '' @ sq ''toISOString'' @ '')''
     else what @ ''.toISOString is not a function''))"

record pitr_status =
  pt_dbName :: string
  pt_setup :: pitr_setup
  pt_baseBackupCount :: nat
  pt_earliestRecoverableTime :: "string option"
  pt_latestRecoverableTime :: "string option"
  pt_currentTimeline :: string
  pt_readiness :: string

definition getPitrStatus :: "pg_env \<Rightarrow> world \<Rightarrow> (pitr_site, pitr_status) prog" where
  "getPitrStatus P W = bnd (setupPitr P W False None) (\<lambda>su.
     bnd (list_successful P W ''asc'') (\<lambda>jobs. let bases = filter is_base jobs in
     bnd (if bases = [] then ret (None, None)
          else bnd (toISOString (jget (hd bases) ''startedAt'') ''baseBackups[0].startedAt'') (\<lambda>earliest.
            if jget (last bases) ''completedAt'' \<in> {None, Some JNull} then ret (Some earliest, None)
            else bnd (toISOString (jget (last bases) ''completedAt'') ''baseBackups[baseBackups.length - 1].completedAt'') (\<lambda>latest.
              ret (Some earliest, Some latest)))) (\<lambda>(earliest, latest).
     ret \<lparr>pt_dbName = pg_database P, pt_setup = su, pt_baseBackupCount = length bases, pt_earliestRecoverableTime = earliest,
       pt_latestRecoverableTime = latest, pt_currentTimeline = ''00000001'',
       pt_readiness = (if su_activelyWorking su \<and> bases \<noteq> [] then ''READY'' else ''NOT_READY'')\<rparr>)))"

text \<open>\<open>b.metadata ? (typeof b.metadata === 'string' ? JSON.parse(b.metadata) : b.metadata) : {}\<close>\<close>

definition row_metadata :: "pg_env \<Rightarrow> json \<Rightarrow> js_error + json" where
  "row_metadata P b = (if truthy_j (jget b ''metadata'')
     then (case jget b ''metadata'' of Some (JStr t) \<Rightarrow> pg_parse_json P t | Some m \<Rightarrow> Inr m | None \<Rightarrow> Inr (JObj []))
     else Inr (JObj []))"

text \<open>\<open>meta.field\<close>; \<open>JSON.parse\<close> may have given null.\<close>

definition meta_field :: "json \<Rightarrow> string \<Rightarrow> js_error + json option" where
  "meta_field meta k = (if meta = JNull
     then Inl (JsError ''TypeError'' (''Cannot read properties of null (reading '' @ sq k @ '')'')) else Inr (jget meta k))"

definition recovery_point :: "pg_env \<Rightarrow> json \<Rightarrow> (pitr_site, json) prog" where
  "recovery_point P b = bnd (lift_res (row_metadata P b)) (\<lambda>meta.
     bnd (lift_res (meta_field meta ''timeline'')) (\<lambda>timeline. ret (jobj
     [(''backupId'', jget b ''id''), (''dbName'', jget b ''dbName''), (''startedAt'', jget b ''startedAt''),
      (''completedAt'', jget b ''completedAt''), (''fileSize'', jget b ''fileSize''),
      (''timeline'', Some (or_j timeline (JStr ''00000001''))),
      (''startWalFile'', if truthy_j (jget meta ''startWalFile'') then jget meta ''startWalFile'' else jget b ''walPosition''),
      (''storagePath'', jget b ''storagePath'')])))"

fun recovery_points :: "pg_env \<Rightarrow> json list \<Rightarrow> (pitr_site, json list) prog" where
  "recovery_points P [] = ret []"
| "recovery_points P (b # bs) = bnd (recovery_point P b) (\<lambda>x. bnd (recovery_points P bs) (\<lambda>xs. ret (x # xs)))"

definition listRecoveryPoints :: "pg_env \<Rightarrow> world \<Rightarrow> (pitr_site, json list) prog" where
  "listRecoveryPoints P W = bnd (list_successful P W ''desc'') (\<lambda>jobs. recovery_points P (filter is_base jobs))"

end
