(* ===== verification/PitrRestore.thy ===== *)
theory PitrRestore
  imports PitrService
begin

text \<open>
  \<open>restorePitr\<close> of \<open>services/postgres-pitr.service.ts\<close>: a base backup is unpacked into a directory, a
  configuration that replays the archive is written beside it, and a second server is started on it
  and watched. The steps are the statements of the source, grouped into definitions.
\<close>

section \<open>The request\<close>

text \<open>The options; a port that is left out is 5433.\<close>

record pitr_restore =
  ro_time :: string
  ro_target :: string
  ro_port :: int
  ro_storageName :: "string option"
  ro_force :: bool

text \<open>\<open>time.includes('Z')\<close> or \<open>/[+-]\d{2}:\d{2}$/\<close>\<close>

fun offset_suffix :: "string \<Rightarrow> bool" where
  "offset_suffix [s, a, b, c, d, e] \<longleftrightarrow> (s = CHR ''+'' \<or> s = CHR ''-'') \<and> is_digit a \<and> is_digit b \<and> c = CHR '':'' \<and> is_digit d \<and> is_digit e"
| "offset_suffix _ \<longleftrightarrow> False"

definition explicit_zone :: "string \<Rightarrow> bool" where
  "explicit_zone t \<longleftrightarrow> str_includes t ''Z'' \<or> offset_suffix (drop (length t - 6) t)"

definition restore_time :: "pg_env \<Rightarrow> string \<Rightarrow> js_error + int" where
  "restore_time P time =
     (if \<not> explicit_zone time
      then Inl (new_Error (''Invalid recovery timestamp '' @ dq time @ ''. An explicit timezone offset (e.g. Z or +05:30) is required.''))
      else (case pg_parse_date P time of
        None \<Rightarrow> Inl (new_Error (''Invalid recovery timestamp date format: '' @ dq time))
      | Some t \<Rightarrow> Inr t))"

text \<open>\<open>fs.readdirSync(p).length\<close>\<close>

definition readdir_count :: "disk_env \<Rightarrow> string \<Rightarrow> (disk, nat) prog" where
  "readdir_count E p = seqp (fs_try E) (bnd (gets d_root) (\<lambda>n. case node_at n (segs E p) of
     Some (Dir es) \<Rightarrow> ret (length es)
   | Some (File _) \<Rightarrow> throw (fs_error ''ENOTDIR'' ''scandir'' p)
   | None \<Rightarrow> throw (fs_error ''ENOENT'' ''scandir'' p)))"

definition check_target :: "pg_env \<Rightarrow> pitr_restore \<Rightarrow> string \<Rightarrow> (disk, unit) prog" where
  "check_target P ro absTarget = bnd (existsSync (pg_disk P) absTarget) (\<lambda>there.
     bnd (if there then readdir_count (pg_disk P) absTarget else ret 0) (\<lambda>n.
     if 0 < n \<and> \<not> ro_force ro then throw (new_Error (''Target directory '' @ dq absTarget @ '' is not empty. Use --force to overwrite.''))
     else ret ()))"

section \<open>The base backup\<close>

text \<open>\<open>new Date(x).getTime()\<close>, \<open>None\<close> for \<open>NaN\<close>: every comparison with it is false.\<close>

definition date_ms :: "pg_env \<Rightarrow> json option \<Rightarrow> int option" where
  "date_ms P x = (case x of
     None \<Rightarrow> None
   | Some JNull \<Rightarrow> Some 0
   | Some JNaN \<Rightarrow> None
   | Some (JBool b) \<Rightarrow> Some (if b then 1 else 0)
   | Some (JNum n) \<Rightarrow> if \<bar>n\<bar> \<le> 8640000000000000 then Some n else None
   | Some v \<Rightarrow> pg_parse_date P (js_String v))"

definition started_by :: "pg_env \<Rightarrow> int \<Rightarrow> json \<Rightarrow> bool" where
  "started_by P t j \<longleftrightarrow> (case date_ms P (jget j ''startedAt'') of None \<Rightarrow> False | Some n \<Rightarrow> n \<le> t)"

definition usable_base :: "pg_env \<Rightarrow> int \<Rightarrow> json \<Rightarrow> bool" where
  "usable_base P t j \<longleftrightarrow> is_base j \<and> started_by P t j"

definition no_base :: "string \<Rightarrow> js_error" where
  "no_base time = new_Error (''No compatible base backup found prior to requested recovery timestamp '' @ time @ ''.'')"

definition choose_base :: "pg_env \<Rightarrow> world \<Rightarrow> string \<Rightarrow> int \<Rightarrow> (pitr_site, json) prog" where
  "choose_base P W time t = bnd (list_successful P W ''desc'') (\<lambda>jobs.
     case List.find (usable_base P t) jobs of None \<Rightarrow> throw (no_base time) | Some b \<Rightarrow> ret b)"

definition start_wal :: "json \<Rightarrow> json \<Rightarrow> js_error + json option" where
  "start_wal meta b = (case meta_field meta ''startWalFile'' of
     Inl e \<Rightarrow> Inl e | Inr f \<Rightarrow> Inr (if truthy_j f then f else jget b ''walPosition''))"

text \<open>\<open>x && x.length === 24\<close> and \<open>x.substring(0, 8)\<close>, which only text has.\<close>

definition length_24 :: "json option \<Rightarrow> bool" where
  "length_24 x \<longleftrightarrow> truthy_j x \<and> (case x of
     Some (JStr f) \<Rightarrow> length f = 24 | Some (JArr xs) \<Rightarrow> length xs = 24 | Some v \<Rightarrow> jget v ''length'' = Some (JNum 24) | None \<Rightarrow> False)"

definition wal_name :: "json option \<Rightarrow> js_error + string" where
  "wal_name x = (case x of
     Some (JStr f) \<Rightarrow> Inr f | _ \<Rightarrow> Inl (JsError ''TypeError'' ''startWalFile.substring is not a function''))"

text \<open>A missing first segment is only logged; an archive that cannot be listed ends the restore.\<close>

definition check_start_wal :: "pg_env \<Rightarrow> world \<Rightarrow> pitr_restore \<Rightarrow> json option \<Rightarrow> (pitr_site, unit) prog" where
  "check_start_wal P W ro f = (if \<not> length_24 f then ret ()
     else bnd (resolveStorageProvider (pg_pitr P) W (ro_storageName ro)) (\<lambda>pv.
          bnd (lift_res (wal_name f)) (\<lambda>w.
          bnd (pv_list pv (''pitr/'' @ pg_database P @ ''/wal/'' @ take 8 w)) (\<lambda>archivedWals. ret ()))))"

text \<open>The storage of the backup; a name that is not text is written out as a template writes it.\<close>

definition base_storage :: "pg_env \<Rightarrow> pitr_restore \<Rightarrow> json \<Rightarrow> string option" where
  "base_storage P ro b =
     (if \<not> truthy_s (ro_storageName ro) \<and> truthy_j (jget b ''metadata'')
      then (case row_metadata P b of
        Inl _ \<Rightarrow> None
      | Inr meta \<Rightarrow> (case meta_field meta ''storageName'' of
          Inl _ \<Rightarrow> None
        | Inr x \<Rightarrow> if truthy_j x then Some (tpl x) else None))
      else ro_storageName ro)"

definition base_path :: "pg_env \<Rightarrow> json \<Rightarrow> string" where
  "base_path P b = (let i = tpl (jget b ''id'') in
     if truthy_j (jget b ''storagePath'') then tpl (jget b ''storagePath'')
     else ''pitr/'' @ pg_database P @ ''/base/'' @ i @ [slash] @ i @ ''.tar.gz'')"

definition unpack_base :: "pg_env \<Rightarrow> world \<Rightarrow> string option \<Rightarrow> json \<Rightarrow> string \<Rightarrow> (pitr_site, unit) prog" where
  "unpack_base P W storageName b absTarget =
     (let E = pg_disk P; tmp = path_join [pg_cwd P, ''tmp'', ''restore_'' @ tpl (jget b ''id'') @ ''.tar.gz''] in
     bnd (resolveStorageProvider (pg_pitr P) W storageName) (\<lambda>pv.
     seqp (pv_download pv (base_path P b) tmp)
    (seqp (execAsync P (''tar -xzf '' @ dq tmp @ '' -C '' @ dq absTarget))
    (seqp (on_disk (chmodSync E absTarget))
      (on_disk (remove_file E tmp))))))"

section \<open>The configuration of the recovering server\<close>

definition nl :: string where "nl = [CHR 0x0A]"

definition default_hba :: string where
  "default_hba = join_with nl
     [''local   all             all                                     trust'',
      ''host    all             all             127.0.0.1/32            trust'',
      ''host    all             all             ::1/128                 trust'']"

definition fetch_command :: "pg_env \<Rightarrow> string option \<Rightarrow> string" where
  "fetch_command P storageName = ''dbvault pitr fetch-wal --database '' @ pg_database P @
     (if truthy_s storageName then '' --storage '' @ the storageName else '''') @ '' --file %f --path %p''"

definition pg_time :: "string \<Rightarrow> string" where
  "pg_time t = replace_first (replace_first t ''T'' '' '') ''Z'' ''+00''"

definition conf_lines :: "pg_env \<Rightarrow> pitr_restore \<Rightarrow> string option \<Rightarrow> string \<Rightarrow> string list" where
  "conf_lines P ro storageName absTarget =
     [''port = '' @ str_int (ro_port ro),
      ''unix_socket_directories = '' @ sq ''/tmp'',
      ''hba_file = '' @ sq (path_join [absTarget, ''pg_hba.conf'']),
      ''ident_file = '' @ sq (path_join [absTarget, ''pg_ident.conf'']),
      ''restore_command = '' @ sq (fetch_command P storageName),
      ''recovery_target_time = '' @ sq (pg_time (ro_time ro)),
      ''recovery_target_action = '' @ sq ''promote'',
      ''hot_standby = off'']"

definition appendFileSync :: "disk_env \<Rightarrow> string \<Rightarrow> bytes \<Rightarrow> (disk, unit) prog" where
  "appendFileSync E p b = bnd (existsSync E p) (\<lambda>there.
     if there then bnd (readFileSync E p) (\<lambda>old. writeFileSync E p (old @ b)) else writeFileSync E p b)"

definition write_missing :: "disk_env \<Rightarrow> string \<Rightarrow> string \<Rightarrow> (disk, unit) prog" where
  "write_missing E p text = bnd (existsSync E p) (\<lambda>there. if there then ret () else writeFileSync E p (ascii text))"

definition write_recovery :: "pg_env \<Rightarrow> pitr_restore \<Rightarrow> string option \<Rightarrow> string \<Rightarrow> (disk, unit) prog" where
  "write_recovery P ro storageName absTarget = (let E = pg_disk P in
     seqp (writeFileSync E (path_join [absTarget, ''recovery.signal'']) [])
    (seqp (write_missing E (path_join [absTarget, ''pg_hba.conf'']) default_hba)
    (seqp (write_missing E (path_join [absTarget, ''pg_ident.conf'']) (''# Default pg_ident.conf'' @ nl))
      (appendFileSync E (path_join [absTarget, ''postgresql.conf''])
        (ascii (nl @ join_with nl (conf_lines P ro storageName absTarget) @ nl))))))"

definition getPgCtlBin :: "pg_env \<Rightarrow> (disk, string) prog" where
  "getPgCtlBin P = bnd (existsSync (pg_disk P) ''/usr/lib/postgresql/18/bin/pg_ctl'') (\<lambda>there.
     ret (if there then ''/usr/lib/postgresql/18/bin/pg_ctl'' else ''pg_ctl''))"

definition start_server :: "pg_env \<Rightarrow> string \<Rightarrow> (pitr_site, unit) prog" where
  "start_server P absTarget = bnd (on_disk (getPgCtlBin P)) (\<lambda>bin.
     seqp (execAsync P (dq bin @ '' start -D '' @ dq absTarget @ '' -l '' @ dq (path_join [absTarget, ''recovery.log'']))) (ret ()))"

section \<open>Watching the recovery\<close>

definition recovery_client :: "pg_env \<Rightarrow> int \<Rightarrow> json" where
  "recovery_client P port = jobj [(''host'', Some (JStr ''localhost'')), (''port'', Some (JNum port)),
     (''user'', Some (JStr (or_s (pg_username P) ''postgres''))), (''password'', Some (pg_password P)),
     (''database'', Some (JStr (pg_database P)))]"

text \<open>One attempt; \<open>res.rows[0]?.pg_is_in_recovery === false\<close>.\<close>

definition poll_recovery :: "pg_env \<Rightarrow> world \<Rightarrow> int \<Rightarrow> (proc, bool) prog" where
  "poll_recovery P W port = try_catch
     (seqp (unit_call W (Other ''pg.connect'' (recovery_client P port)))
       (bnd (run_call W (Other ''pg.query'' (JStr ''SELECT pg_is_in_recovery()''))) (\<lambda>res.
        seqp (unit_call W (Other ''pg.end'' JNull))
       (bnd (lift_res (row0 res ''pg_is_in_recovery'')) (\<lambda>v. ret (v = Some (JBool False)))))))
     (\<lambda>_. ret False)"

fun watch_recovery :: "pg_env \<Rightarrow> world \<Rightarrow> int \<Rightarrow> nat \<Rightarrow> (proc, bool) prog" where
  "watch_recovery P W port 0 = ret False"
| "watch_recovery P W port (Suc n) = seqp (ask W (Sleep 1000))
     (bnd (poll_recovery P W port) (\<lambda>ok. if ok then ret True else watch_recovery P W port n))"

definition maxRetries :: nat where "maxRetries = 30"

section \<open>restorePitr\<close>

definition prepare_target :: "disk_env \<Rightarrow> string \<Rightarrow> (disk, unit) prog" where
  "prepare_target E absTarget = seqp (ensureDir E absTarget) (chmodSync E absTarget)"

definition restore_report :: "pitr_restore \<Rightarrow> json \<Rightarrow> string \<Rightarrow> json" where
  "restore_report ro b absTarget = jobj [(''success'', Some (JBool True)), (''recoveredTimestamp'', Some (JStr (ro_time ro))),
     (''baseBackupId'', jget b ''id''), (''targetDirectory'', Some (JStr absTarget)), (''port'', Some (JNum (ro_port ro)))]"

definition restore_onto :: "pg_env \<Rightarrow> world \<Rightarrow> pitr_restore \<Rightarrow> string \<Rightarrow> json \<Rightarrow> (pitr_site, unit) prog" where
  "restore_onto P W ro absTarget b =
     bnd (lift_res (row_metadata P b)) (\<lambda>meta.
     bnd (lift_res (start_wal meta b)) (\<lambda>f.
     seqp (check_start_wal P W ro f)
    (seqp (on_disk (prepare_target (pg_disk P) absTarget))
    (seqp (unpack_base P W (base_storage P ro b) b absTarget)
    (seqp (on_disk (write_recovery P ro (base_storage P ro b) absTarget))
      (start_server P absTarget))))))"

definition restore_from :: "pg_env \<Rightarrow> world \<Rightarrow> pitr_restore \<Rightarrow> string \<Rightarrow> json \<Rightarrow> (pitr_site, json) prog" where
  "restore_from P W ro absTarget b =
     seqp (restore_onto P W ro absTarget b)
    (seqp (on_proc (watch_recovery P W (ro_port ro) maxRetries))
      (ret (restore_report ro b absTarget)))"

definition restorePitr :: "pg_env \<Rightarrow> world \<Rightarrow> pitr_restore \<Rightarrow> (pitr_site, json) prog" where
  "restorePitr P W ro =
     bnd (lift_res (restore_time P (ro_time ro))) (\<lambda>t.
     let absTarget = path_resolve (pg_cwd P) [ro_target ro] in
     seqp (on_disk (check_target P ro absTarget))
    (bnd (choose_base P W (ro_time ro) t) (restore_from P W ro absTarget)))"

end
