(* ===== verification/PgIncremental.thy ===== *)
theory PgIncremental
  imports PitrRestore
begin

text \<open>
  \<open>services/postgres-incremental.service.ts\<close>: physical full and incremental backups of PostgreSQL 17 and
  the restore of a chain of them. The environment is that of \<open>PitrService\<close>; commands are logged and their
  effect on the disk is a parameter. The walk along the parent links of a chain need not end, so it is a
  partial function: \<open>None\<close> is a walk that never returns.
\<close>

section \<open>Environment\<close>

record inc_env =
  ie_pg :: pg_env
  ie_tmpdir :: string
  ie_homedir :: string
  ie_backup_home :: "string option"
  ie_timestamp :: string
  ie_created :: json

abbreviation inc_disk :: "inc_env \<Rightarrow> disk_env" where "inc_disk I \<equiv> pg_disk (ie_pg I)"
abbreviation inc_exec :: "inc_env \<Rightarrow> string \<Rightarrow> (pitr_site, string) prog" where "inc_exec I \<equiv> execAsync (ie_pg I)"
abbreviation inc_run :: "inc_env \<Rightarrow> string \<Rightarrow> (pitr_site, unit) prog" where "inc_run I c \<equiv> seqp (inc_exec I c) (ret ())"

definition manifests_dir :: "inc_env \<Rightarrow> string" where
  "manifests_dir I = path_join [or_s (ie_backup_home I) (path_join [ie_homedir I, ''.db-backup'']), ''manifests'']"

definition new_incremental :: "inc_env \<Rightarrow> (pitr_site, unit) prog" where
  "new_incremental I = on_disk (ensureDir (inc_disk I) (manifests_dir I))"

definition connection_args :: "inc_env \<Rightarrow> string" where
  "connection_args I = (let P = ie_pg I in
     '' -h '' @ or_s (pg_host P) ''localhost'' @ '' -p '' @ str_int (or_n (pg_port P) 5432) @ '' -U '' @ or_s (pg_username P) ''postgres'')"

section \<open>Requirements\<close>

definition combine_candidates :: "string list" where
  "combine_candidates = [''/usr/lib/postgresql/18/bin/pg_combinebackup'', ''/usr/lib/postgresql/17/bin/pg_combinebackup'',
     ''/usr/local/pgsql/bin/pg_combinebackup'']"

definition first_tool :: "disk_env \<Rightarrow> (disk, string) prog" where
  "first_tool E = bnd (gets (\<lambda>s. List.find (\<lambda>c. node_at (d_root s) (segs E c) \<noteq> None) combine_candidates)) (\<lambda>t. case t of
     Some c \<Rightarrow> ret c
   | None \<Rightarrow> throw (new_Error ''pg_combinebackup tool not found. PostgreSQL 17+ client tools are required.''))"

definition getPgCombinebackupPath :: "inc_env \<Rightarrow> (pitr_site, string) prog" where
  "getPgCombinebackupPath I = try_catch (seqp (inc_exec I ''pg_combinebackup --version'') (ret ''pg_combinebackup''))
     (\<lambda>_. on_disk (first_tool (inc_disk I)))"

text \<open>\<open>/\(PostgreSQL\)\s+(\d+)/i\<close>\<close>

definition pg_version_rx :: "string matcher" where
  "pg_version_rx = rx_then (rx_lit ''(PostgreSQL)'') (\<lambda>_. rx_then (rx_plus is_space) (\<lambda>_. rx_then (rx_plus is_digit) rx_return))"

definition check_basebackup :: "inc_env \<Rightarrow> (pitr_site, unit) prog" where
  "check_basebackup I = try_catch
     (bnd (inc_exec I ''pg_basebackup --version'') (\<lambda>verOut. case rx_search pg_version_rx verOut of
        None \<Rightarrow> ret ()
      | Some v \<Rightarrow> if digits_value v < 17
          then throw (new_Error (''pg_basebackup version '' @ v @ '' is unsupported. PostgreSQL 17+ is required for native incremental backups.''))
          else ret ()))
     (\<lambda>e. if str_includes (err_message e) ''unsupported'' then throw e
       else throw (new_Error ''pg_basebackup tool is not available on PATH.''))"

definition psql_command :: "inc_env \<Rightarrow> string \<Rightarrow> string \<Rightarrow> string \<Rightarrow> string" where
  "psql_command I db flags sql = ''psql'' @ connection_args I @ '' -d '' @ db @ flags @ '' -c '' @ dq sql"

text \<open>A version that is not a number passes: \<open>NaN < 170000\<close> is false.\<close>

definition server_version :: "inc_env \<Rightarrow> (pitr_site, json) prog" where
  "server_version I =
     bnd (try_catch (bnd (inc_exec I (psql_command I ''postgres'' '' -tA'' ''SHOW server_version_num;'')) (\<lambda>out. ret (js_parseInt (js_trim out))))
        (\<lambda>e. throw (new_Error (''Failed to query PostgreSQL server version: '' @ err_message e)))) (\<lambda>versionNum.
     case versionNum of
       JNum n \<Rightarrow> if n < 170000 then throw (new_Error (''PostgreSQL server version must be 17 or higher (found server version num '' @ str_int n @
           ''). Native physical incremental backups require PostgreSQL 17+.'')) else ret versionNum
     | _ \<Rightarrow> ret versionNum)"

definition not_enabled :: js_error where
  "not_enabled = new_Error ''PostgreSQL summarize_wal is disabled and could not be automatically enabled. Enable summarize_wal = on in postgresql.conf to perform native incremental backups.''"

definition summarize_wal :: "inc_env \<Rightarrow> (pitr_site, unit) prog" where
  "summarize_wal I = (let db = pg_database (ie_pg I) in try_catch
     (bnd (inc_exec I (psql_command I db '' -tA'' ''SHOW summarize_wal;'')) (\<lambda>out.
        if js_lower (js_trim out) = ''on'' then ret ()
        else try_catch (inc_run I (psql_command I db '''' (''ALTER SYSTEM SET summarize_wal = '' @ sq ''on'' @ '';'') @ '' && '' @
               psql_command I db '''' ''SELECT pg_reload_conf();''))
             (\<lambda>_. throw not_enabled)))
     (\<lambda>e. if str_includes (err_message e) ''summarize_wal'' then throw e else ret ()))"

definition verifyPostgresRequirements :: "inc_env \<Rightarrow> (pitr_site, json \<times> string) prog" where
  "verifyPostgresRequirements I =
     bnd (try_catch (getPgCombinebackupPath I) (\<lambda>_. throw (new_Error (''PostgreSQL 17+ tool pg_combinebackup is missing. '' @
       ''Native physical incremental backups require PostgreSQL 17 or higher client tools.'')))) (\<lambda>tool.
     seqp (check_basebackup I)
    (bnd (server_version I) (\<lambda>v.
     seqp (summarize_wal I) (ret (v, tool)))))"

section \<open>The parent of an incremental backup\<close>

definition cached_manifest :: "inc_env \<Rightarrow> string \<Rightarrow> string" where
  "cached_manifest I i = path_join [manifests_dir I, i @ ''.manifest'']"

text \<open>\<open>typeof m === 'string' ? JSON.parse(m) : m\<close> and \<open>metadata?.manifestContent\<close>\<close>

definition parsed_metadata :: "inc_env \<Rightarrow> json \<Rightarrow> js_error + json option" where
  "parsed_metadata I job = (case jget job ''metadata'' of
     Some (JStr t) \<Rightarrow> (case pg_parse_json (ie_pg I) t of Inl e \<Rightarrow> Inl e | Inr m \<Rightarrow> Inr (Some m))
   | m \<Rightarrow> Inr m)"

definition is_physical :: "inc_env \<Rightarrow> json \<Rightarrow> (pitr_site, bool) prog" where
  "is_physical I job =
     (if jget job ''backupLevel'' \<noteq> Some JNull then ret True
      else bnd (on_disk (existsSync (inc_disk I) (cached_manifest I (tpl (jget job ''id''))))) (\<lambda>there.
        if there then ret True
        else bnd (lift_res (parsed_metadata I job)) (\<lambda>m. ret (truthy_j (oget m ''manifestContent'')))))"

fun find_physical :: "inc_env \<Rightarrow> json list \<Rightarrow> (pitr_site, json option) prog" where
  "find_physical I [] = ret None"
| "find_physical I (job # jobs) = bnd (is_physical I job) (\<lambda>yes. if yes then ret (Some job) else find_physical I jobs)"

definition no_parent :: "inc_env \<Rightarrow> js_error" where
  "no_parent I = new_Error (''No previous physical base backup (with backup_manifest) found for database '' @ sq (pg_database (ie_pg I)) @
     ''. Please create a physical base backup first with: dbvault backup --type full --physical'')"

definition requested_parent :: "inc_env \<Rightarrow> world \<Rightarrow> string \<Rightarrow> (pitr_site, json) prog" where
  "requested_parent I W i = bnd (on_proc (getJob (pe_client (pg_pitr (ie_pg I))) W i False)) (\<lambda>parent.
     if \<not> truthy_j (Some parent) \<or> jget parent ''status'' \<noteq> Some (JStr ''success'')
     then throw (new_Error (''Parent backup '' @ i @ '' not found or has invalid status.''))
     else if jget parent ''dbType'' \<noteq> Some (JStr ''postgresql'') \<or> jget parent ''dbName'' \<noteq> Some (JStr (pg_database (ie_pg I)))
     then throw (new_Error (''Parent backup '' @ i @ '' belongs to a different database or DBMS.''))
     else ret parent)"

definition getParentBackup :: "inc_env \<Rightarrow> world \<Rightarrow> string option \<Rightarrow> (pitr_site, json) prog" where
  "getParentBackup I W requested =
     (if truthy_s requested then requested_parent I W (the requested)
      else bnd (list_successful (ie_pg I) W ''desc'') (\<lambda>backups.
        bnd (find_physical I backups) (\<lambda>p. case p of None \<Rightarrow> throw (no_parent I) | Some job \<Rightarrow> ret job)))"

definition extract_manifest :: "inc_env \<Rightarrow> json \<Rightarrow> string \<Rightarrow> (pitr_site, bool) prog" where
  "extract_manifest I job cachedPath =
     (let E = inc_disk I; dir = path_join [ie_tmpdir I, ''manifest_extract_'' @ tpl (jget job ''id'') @ ''_'' @ str_int (pg_stamp (ie_pg I))];
        m = path_join [dir, ''backup_manifest''] in
     seqp (on_disk (mkdirSync E dir))
       (try_catch
         (seqp (inc_exec I (''tar -xzf '' @ dq (tpl (jget job ''filePath'')) @ '' -C '' @ dq dir))
           (bnd (on_disk (existsSync E m)) (\<lambda>there.
            if \<not> there then ret False
            else bnd (on_disk (readFileSync E m)) (\<lambda>content.
                 seqp (on_disk (writeFileSync E cachedPath content))
                (seqp (on_disk (rmSync E dir)) (ret True))))))
         (\<lambda>_. seqp (on_disk (rmSync E dir)) (ret False))))"

definition write_json_text :: "disk_env \<Rightarrow> string \<Rightarrow> json \<Rightarrow> (disk, unit) prog" where
  "write_json_text E p v = (case v of
     JStr t \<Rightarrow> writeFileSync E p (ascii t) | _ \<Rightarrow> throw (JsError ''ERR_INVALID_ARG_TYPE'' ''The data argument must be of type string''))"

definition getParentManifestPath :: "inc_env \<Rightarrow> json \<Rightarrow> (pitr_site, string) prog" where
  "getParentManifestPath I job = (let E = inc_disk I; i = tpl (jget job ''id''); cachedPath = cached_manifest I i in
     bnd (on_disk (existsSync E cachedPath)) (\<lambda>cached.
     if cached then ret cachedPath
     else bnd (if truthy_j (jget job ''filePath'') then on_disk (existsSync E (tpl (jget job ''filePath''))) else ret False) (\<lambda>there.
          bnd (if there then extract_manifest I job cachedPath else ret False) (\<lambda>extracted.
          if extracted then ret cachedPath
          else bnd (lift_res (parsed_metadata I job)) (\<lambda>m.
            if truthy_j (oget m ''manifestContent'')
            then seqp (on_disk (write_json_text E cachedPath (the (oget m ''manifestContent'')))) (ret cachedPath)
            else throw (new_Error (''Parent backup '' @ i @ '' is missing its backup_manifest required for incremental backup.'')))))))"

section \<open>Taking a backup\<close>

record inc_options =
  io_type :: string
  io_output :: "string option"
  io_name :: "string option"
  io_parentBackupId :: "string option"

record inc_link =
  il_parent :: "json option"
  il_base :: json
  il_level :: int
  il_manifest :: string

definition level_of :: "json option \<Rightarrow> int" where
  "level_of v = (case v of Some (JNum n) \<Rightarrow> n | _ \<Rightarrow> 0)"

text \<open>The place of the backup in its chain; a row has an identifier.\<close>

definition link_to_parent :: "inc_env \<Rightarrow> world \<Rightarrow> string \<Rightarrow> inc_options \<Rightarrow> (pitr_site, inc_link) prog" where
  "link_to_parent I W backupId opts =
     (if io_type opts \<noteq> ''incremental''
      then ret \<lparr>il_parent = None, il_base = JStr backupId, il_level = 0, il_manifest = ''''\<rparr>
      else bnd (getParentBackup I W (io_parentBackupId opts)) (\<lambda>parent.
           bnd (getParentManifestPath I parent) (\<lambda>m.
           ret \<lparr>il_parent = jget parent ''id'', il_base = or_j (jget parent ''baseBackupId'') (or_null (jget parent ''id'')),
             il_level = level_of (jget parent ''backupLevel'') + 1, il_manifest = m\<rparr>)))"

definition inc_tempDir :: "inc_env \<Rightarrow> string \<Rightarrow> string" where
  "inc_tempDir I backupId = path_join [ie_tmpdir I, ''pg_inc_'' @ backupId]"

definition inc_command :: "inc_env \<Rightarrow> string \<Rightarrow> inc_options \<Rightarrow> inc_link \<Rightarrow> string" where
  "inc_command I backupId opts l = ''pg_basebackup'' @ connection_args I @ '' -D '' @ dq (inc_tempDir I backupId) @ '' -F plain -X stream'' @
     (if io_type opts = ''incremental'' then '' --incremental='' @ dq (il_manifest l) else '''')"

definition inc_outputDir :: "inc_env \<Rightarrow> inc_options \<Rightarrow> string" where
  "inc_outputDir I opts = or_s (io_output opts) (path_join [pg_cwd (ie_pg I), ''backups''])"

definition inc_fileName :: "inc_env \<Rightarrow> inc_options \<Rightarrow> string" where
  "inc_fileName I opts = or_s (io_name opts) (pg_database (ie_pg I) @ ''_'' @ io_type opts @ ''_'' @ ie_timestamp I @ ''.tar.gz'')"

definition packageDirectoryToTarGz :: "inc_env \<Rightarrow> string \<Rightarrow> string \<Rightarrow> (pitr_site, int) prog" where
  "packageDirectoryToTarGz I sourceDir destFile =
     seqp (inc_exec I (''tar -czf '' @ dq destFile @ '' -C '' @ dq sourceDir @ '' .'')) (on_disk (statSync (inc_disk I) destFile))"

definition inc_result :: "inc_env \<Rightarrow> string \<Rightarrow> inc_options \<Rightarrow> inc_link \<Rightarrow> bytes \<Rightarrow> bytes \<Rightarrow> json" where
  "inc_result I backupId opts l manifest file =
     (let parent = (''parentBackupId'', Some (or_null (il_parent l))); base = (''baseBackupId'', Some (il_base l));
        level = (''backupLevel'', Some (JNum (il_level l))); sum = (''checksum'', Some (JStr (pg_sha256 (ie_pg I) file)));
        len = (''fileSize'', Some (JNum (int (length file)))); duration = (''duration'', Some (pg_duration (ie_pg I))) in
      jobj [(''success'', Some (JBool True)), (''backupId'', Some (JStr backupId)),
        (''filePath'', Some (JStr (path_join [inc_outputDir I opts, inc_fileName I opts]))), len, duration, sum, parent, base, level,
        (''metadata'', Some (jobj [(''backupId'', Some (JStr backupId)), (''dbType'', Some (JStr ''postgresql'')),
          (''dbName'', Some (JStr (pg_database (ie_pg I)))), (''backupType'', Some (JStr (io_type opts))), base, parent, level, sum, len, duration,
          (''manifestContent'', Some (JStr (text_of manifest))), (''createdAt'', Some (ie_created I))])),
        (''fileName'', Some (JStr (inc_fileName I opts)))])"

definition take_incremental :: "inc_env \<Rightarrow> string \<Rightarrow> inc_options \<Rightarrow> inc_link \<Rightarrow> (pitr_site, json) prog" where
  "take_incremental I backupId opts l =
     (let E = inc_disk I; tempDir = inc_tempDir I backupId; manifestPath = path_join [tempDir, ''backup_manifest''];
        finalFilePath = path_join [inc_outputDir I opts, inc_fileName I opts] in
     seqp (inc_run I (inc_command I backupId opts l))
    (bnd (on_disk (existsSync E manifestPath)) (\<lambda>there.
     if \<not> there then throw (new_Error ''pg_basebackup completed but backup_manifest file was not generated.'')
     else bnd (on_disk (readFileSync E manifestPath)) (\<lambda>manifest.
          seqp (on_disk (writeFileSync E (cached_manifest I backupId) manifest))
         (seqp (on_disk (ensureDir E (inc_outputDir I opts)))
         (seqp (packageDirectoryToTarGz I tempDir finalFilePath)
         (bnd (on_disk (readFileSync E finalFilePath)) (\<lambda>file.
          seqp (on_disk (rmSync E tempDir))
            (ret (inc_result I backupId opts l manifest file))))))))))"

definition inc_failed :: "inc_options \<Rightarrow> js_error \<Rightarrow> js_error" where
  "inc_failed opts e = new_Error (''PostgreSQL physical '' @ io_type opts @ '' backup failed: '' @ err_message e)"

definition performIncrementalBackup :: "inc_env \<Rightarrow> world \<Rightarrow> string \<Rightarrow> inc_options \<Rightarrow> (pitr_site, json) prog" where
  "performIncrementalBackup I W backupId opts =
     seqp (verifyPostgresRequirements I)
    (bnd (link_to_parent I W backupId opts) (\<lambda>l.
     seqp (on_disk (mkdirSync (inc_disk I) (inc_tempDir I backupId)))
       (try_catch (take_incremental I backupId opts l)
         (\<lambda>e. seqp (on_disk (removeDir (inc_disk I) (inc_tempDir I backupId))) (throw (inc_failed opts e))))))"

section \<open>Restoring a chain\<close>

text \<open>The loop over the parent links, from the requested backup to the full one; \<open>chain.unshift\<close> puts the
  full backup first.\<close>

partial_function (option) walk_chain ::
    "inc_env \<Rightarrow> world \<Rightarrow> json option \<Rightarrow> json list \<Rightarrow> pitr_site \<Rightarrow> ((js_error + json list) \<times> pitr_site) option" where
  [code]: "walk_chain I W currentId chain s =
     (if \<not> truthy_j currentId then Some (Inr chain, s)
      else (case on_proc (getJob (pe_client (pg_pitr (ie_pg I))) W (tpl currentId) False) s of (r, s') \<Rightarrow>
        (case r of
          Inl e \<Rightarrow> Some (Inl e, s')
        | Inr job \<Rightarrow>
            if \<not> truthy_j (Some job) \<or> jget job ''status'' \<noteq> Some (JStr ''success'')
            then Some (Inl (new_Error (''Backup record '' @ tpl currentId @ '' in chain not found or invalid.'')), s')
            else walk_chain I W (jget job ''parentBackupId'') (job # chain) s')))"

definition work_dir :: "inc_env \<Rightarrow> string" where
  "work_dir I = path_join [ie_tmpdir I, ''pg_restore_chain_'' @ str_int (pg_stamp (ie_pg I))]"

definition step_dir :: "inc_env \<Rightarrow> nat \<Rightarrow> json \<Rightarrow> string" where
  "step_dir I i item = path_join [work_dir I, ''step_'' @ str_int (int i) @ ''_'' @ tpl (jget item ''id'')]"

definition unpack_command :: "inc_env \<Rightarrow> nat \<Rightarrow> json \<Rightarrow> string" where
  "unpack_command I i item = ''tar -xzf '' @ dq (tpl (jget item ''filePath'')) @ '' -C '' @ dq (step_dir I i item)"

definition unpack_step :: "inc_env \<Rightarrow> nat \<Rightarrow> json \<Rightarrow> (pitr_site, string) prog" where
  "unpack_step I i item = (let f = jget item ''filePath'' in
     bnd (if truthy_j f then on_disk (existsSync (inc_disk I) (tpl f)) else ret False) (\<lambda>there.
     if \<not> there then throw (new_Error (''Backup artifact for '' @ tpl (jget item ''id'') @ '' not found on disk at '' @ tpl f @ ''.''))
     else seqp (on_disk (mkdirSync (inc_disk I) (step_dir I i item)))
         (seqp (inc_exec I (unpack_command I i item)) (ret (step_dir I i item)))))"

fun unpack_steps :: "inc_env \<Rightarrow> nat \<Rightarrow> json list \<Rightarrow> (pitr_site, string list) prog" where
  "unpack_steps I i [] = ret []"
| "unpack_steps I i (item # chain) = bnd (unpack_step I i item) (\<lambda>d. bnd (unpack_steps I (Suc i) chain) (\<lambda>ds. ret (d # ds)))"

definition combinedDir :: "inc_env \<Rightarrow> string" where
  "combinedDir I = path_join [work_dir I, ''combined_cluster'']"

definition combine_command :: "inc_env \<Rightarrow> string \<Rightarrow> string list \<Rightarrow> string" where
  "combine_command I tool dirPaths = dq tool @ '' '' @ join_with '' '' (map dq dirPaths) @ '' -o '' @ dq (combinedDir I)"

definition write_or_append :: "disk_env \<Rightarrow> string \<Rightarrow> string \<Rightarrow> (disk, unit) prog" where
  "write_or_append E p text = bnd (existsSync E p) (\<lambda>there.
     if there then appendFileSync E p (ascii (nl @ text)) else writeFileSync E p (ascii text))"

definition open_cluster :: "inc_env \<Rightarrow> (disk, unit) prog" where
  "open_cluster I = seqp (write_or_append (inc_disk I) (path_join [combinedDir I, ''postgresql.conf'']) (''listen_addresses = '' @ sq ''*'' @ nl))
     (write_or_append (inc_disk I) (path_join [combinedDir I, ''pg_hba.conf'']) (''host all all 127.0.0.1/32 trust'' @ nl @ ''local all all trust'' @ nl))"

definition bin_path :: "inc_env \<Rightarrow> string \<Rightarrow> (pitr_site, string) prog" where
  "bin_path I name = try_catch (seqp (inc_exec I (name @ '' --version'')) (ret name)) (\<lambda>_. ret (''/usr/lib/postgresql/18/bin/'' @ name))"

text \<open>\<open>exec\<close> of the server is not awaited: its outcome is ignored, what it writes counts as written at once.\<close>

definition start_child :: "inc_env \<Rightarrow> string \<Rightarrow> (pitr_site, unit) prog" where
  "start_child I command = seqp (log_call (Other ''spawn'' (JStr command)))
     (try_catch (seqp (on_disk (pg_exec (ie_pg I) command)) (ret ())) (\<lambda>_. ret ()))"

definition kill_child :: "(pitr_site, unit) prog" where
  "kill_child = log_call (Other ''kill'' (JStr ''SIGKILL''))"

fun wait_ready :: "inc_env \<Rightarrow> world \<Rightarrow> string \<Rightarrow> nat \<Rightarrow> (pitr_site, bool) prog" where
  "wait_ready I W command 0 = ret False"
| "wait_ready I W command (Suc n) = bnd (try_catch (seqp (inc_exec I command) (ret True)) (\<lambda>_. ret False)) (\<lambda>ok.
     if ok then ret True else seqp (on_proc (ask W (Sleep 500))) (wait_ready I W command n))"

definition dump_command :: "inc_env \<Rightarrow> string \<Rightarrow> string \<Rightarrow> string" where
  "dump_command I pgDumpBin psqlBin = (let P = ie_pg I; user = or_s (pg_username P) ''postgres''; db = pg_database P in
     dq pgDumpBin @ '' --clean --if-exists -h 127.0.0.1 -p 5439 -U '' @ user @ '' -d '' @ db @ '' | '' @
     dq psqlBin @ connection_args I @ '' -d '' @ db)"

definition serve_and_dump :: "inc_env \<Rightarrow> world \<Rightarrow> (pitr_site, unit) prog" where
  "serve_and_dump I W =
     bnd (bin_path I ''pg_dump'') (\<lambda>pgDumpBin.
     bnd (bin_path I ''psql'') (\<lambda>psqlBin.
     bnd (bin_path I ''postgres'') (\<lambda>postgresBin.
     seqp (start_child I (dq postgresBin @ '' -D '' @ dq (combinedDir I) @ '' -p 5439 -k '' @ dq (ie_tmpdir I) @ '' -h 127.0.0.1''))
    (bnd (bin_path I ''pg_isready'') (\<lambda>pgIsreadyBin.
     bnd (wait_ready I W (dq pgIsreadyBin @ '' -h 127.0.0.1 -p 5439'') 15) (\<lambda>isReady.
     if \<not> isReady
     then seqp kill_child (throw (new_Error ''Restored temporary PostgreSQL instance failed to start on port 5439.''))
     else try_finally (inc_run I (dump_command I pgDumpBin psqlBin))
            (seqp kill_child (on_disk (rmSync (inc_disk I) (work_dir I))))))))))"

definition chain_report :: "inc_env \<Rightarrow> json" where
  "chain_report I = JObj [(''success'', JBool True), (''duration'', pg_duration (ie_pg I)), (''combinedDir'', JStr (combinedDir I))]"

definition rebuild_chain :: "inc_env \<Rightarrow> world \<Rightarrow> string \<Rightarrow> json list \<Rightarrow> (pitr_site, json) prog" where
  "rebuild_chain I W tool chain =
     bnd (unpack_steps I 0 chain) (\<lambda>dirPaths.
     seqp (inc_run I (combine_command I tool dirPaths))
    (seqp (on_disk (open_cluster I))
    (seqp (serve_and_dump I W)
      (ret (chain_report I)))))"

definition chain_failed :: "js_error \<Rightarrow> js_error" where
  "chain_failed e = new_Error (''Failed to restore PostgreSQL incremental backup chain: '' @ err_message e)"

definition restore_work :: "inc_env \<Rightarrow> world \<Rightarrow> string \<Rightarrow> json list \<Rightarrow> (pitr_site, json) prog" where
  "restore_work I W tool chain = try_catch (rebuild_chain I W tool chain)
     (\<lambda>e. seqp (on_disk (removeDir (inc_disk I) (work_dir I))) (throw (chain_failed e)))"

definition restore_chain :: "inc_env \<Rightarrow> world \<Rightarrow> string \<Rightarrow> json list \<Rightarrow> (pitr_site, json) prog" where
  "restore_chain I W targetBackupId chain =
     (if chain = [] then throw (new_Error (''Invalid backup chain for backup ID '' @ targetBackupId @ ''.''))
      else bnd (getPgCombinebackupPath I) (\<lambda>tool.
           seqp (on_disk (mkdirSync (inc_disk I) (work_dir I)))
             (restore_work I W tool chain)))"

definition restoreBackupChain :: "inc_env \<Rightarrow> world \<Rightarrow> string \<Rightarrow> pitr_site \<Rightarrow> ((js_error + json) \<times> pitr_site) option" where
  "restoreBackupChain I W targetBackupId s = (case walk_chain I W (Some (JStr targetBackupId)) [] s of
     None \<Rightarrow> None
   | Some (r, s') \<Rightarrow> Some (bnd (lift_res r) (restore_chain I W targetBackupId) s'))"

end
