(* ===== verification/PgChain.thy ===== *)
theory PgChain
  imports PgIncremental Traces
begin

text \<open>
  The walk along the parent links of a PostgreSQL backup chain: when it returns, and what. The records are
  those the metadata service answers (\<open>jobs_known\<close>); \<open>lineage\<close> and \<open>links_end\<close> say what a chain and a finite
  chain are without reference to the loop.
\<close>

section \<open>The log of commands\<close>

fun command_of :: "call \<Rightarrow> string list" where
  "command_of (Other what (JStr c)) = (if what = ''exec'' then [c] else [])"
| "command_of _ = []"

definition exec_log :: "'z site_scheme \<Rightarrow> string list" where
  "exec_log s = concat (map command_of (calls (st_proc s)))"

lemma exec_log_simps [simp]: "exec_log (s\<lparr>st_disk := d\<rparr>) = exec_log s"
  by (simp add: exec_log_def)

lemma on_disk_log: "on_disk m s = (r, s') \<Longrightarrow> exec_log s' = exec_log s"
  by (auto simp: on_disk_def split: prod.splits)

lemma log_call_run: "log_call c s = (Inr (), s\<lparr>st_proc := st_proc s\<lparr>calls := calls (st_proc s) @ [c]\<rparr>\<rparr>)"
  by (simp add: log_call_def on_proc_def modify_st_def)

lemma execAsync_log: "execAsync P c s = (r, s') \<Longrightarrow> exec_log s' = exec_log s @ [c]"
  by (auto simp: execAsync_def bnd_def log_call_run dest!: on_disk_log) (simp add: exec_log_def)

lemma inc_run_log: "seqp (execAsync P c) (ret ()) s = (r, s') \<Longrightarrow> exec_log s' = exec_log s @ [c]"
  by (auto simp: bnd_def ret_def split: prod.splits sum.splits dest: execAsync_log)

lemma on_proc_log:
  assumes "only (\<lambda>c. command_of c = []) m" and "on_proc m s = (r, s')"
  shows "exec_log s' = exec_log s"
proof -
  obtain p where m: "m (st_proc s) = (r, p)" and s': "s' = s\<lparr>st_proc := p\<rparr>"
    using assms(2) by (auto simp: on_proc_def split: prod.splits)
  from tracesD [OF assms(1) [unfolded only_def] m] obtain new where "calls p = calls (st_proc s) @ new" "\<forall>c\<in>set new. command_of c = []" by blast
  then show ?thesis by (simp add: exec_log_def s')
qed

lemma getJob_no_command: "only (\<lambda>c. command_of c = []) (getJob C W i l)"
  unfolding getJob_def by (rule only_get_or_null) simp_all

section \<open>Chains\<close>

definition succeeded :: "json \<Rightarrow> bool" where
  "succeeded job \<longleftrightarrow> truthy_j (Some job) \<and> jget job ''status'' = Some (JStr ''success'')"

abbreviation parent_id :: "json \<Rightarrow> json option" where "parent_id job \<equiv> jget job ''parentBackupId''"

text \<open>\<open>lineage tbl i js\<close>: \<open>js\<close> leads from a full backup, the first, by parent links to \<open>i\<close>, the last; all succeeded.\<close>

inductive lineage :: "(string \<Rightarrow> json) \<Rightarrow> string \<Rightarrow> json list \<Rightarrow> bool" for tbl where
  lineage_full: "succeeded (tbl i) \<Longrightarrow> \<not> truthy_j (parent_id (tbl i)) \<Longrightarrow> lineage tbl i [tbl i]"
| lineage_next: "succeeded (tbl i) \<Longrightarrow> truthy_j (parent_id (tbl i)) \<Longrightarrow> lineage tbl (tpl (parent_id (tbl i))) js \<Longrightarrow>
    lineage tbl i (js @ [tbl i])"

text \<open>The links from \<open>i\<close> end: at a full backup or at a record that did not succeed.\<close>

inductive links_end :: "(string \<Rightarrow> json) \<Rightarrow> string \<Rightarrow> bool" for tbl where
  ends_bad: "\<not> succeeded (tbl i) \<Longrightarrow> links_end tbl i"
| ends_full: "\<not> truthy_j (parent_id (tbl i)) \<Longrightarrow> links_end tbl i"
| ends_next: "links_end tbl (tpl (parent_id (tbl i))) \<Longrightarrow> links_end tbl i"

lemma lineage_ends: "lineage tbl i js \<Longrightarrow> links_end tbl i"
  by (induction rule: lineage.induct) (auto intro: links_end.intros)

definition jobs_known :: "inc_env \<Rightarrow> world \<Rightarrow> (string \<Rightarrow> json) \<Rightarrow> bool" where
  "jobs_known I W tbl \<longleftrightarrow> (\<forall>i s. fst (getJob (pe_client (pg_pitr (ie_pg I))) W i False s) = Inr (tbl i))"

lemma known_getJob:
  assumes "jobs_known I W tbl"
  obtains s' where "on_proc (getJob (pe_client (pg_pitr (ie_pg I))) W i False) s = (Inr (tbl i), s')" and "exec_log s' = exec_log s"
proof -
  from assms have f: "fst (on_proc (getJob (pe_client (pg_pitr (ie_pg I))) W i False) s) = Inr (tbl i)"
    by (auto simp: jobs_known_def on_proc_def split: prod.splits) (metis fst_conv)
  from run_obtain [OF f] obtain s' where r: "on_proc (getJob (pe_client (pg_pitr (ie_pg I))) W i False) s = (Inr (tbl i), s')" by blast
  from on_proc_log [OF getJob_no_command r] r that show ?thesis by blast
qed

lemma walk_stop: "\<not> truthy_j cur \<Longrightarrow> walk_chain I W cur chain s = Some (Inr chain, s)"
  by (subst walk_chain.simps) simp

lemma walk_step:
  assumes "jobs_known I W tbl" and "truthy_j cur"
  obtains s' where "exec_log s' = exec_log s"
    and "walk_chain I W cur chain s = (if succeeded (tbl (tpl cur))
      then walk_chain I W (parent_id (tbl (tpl cur))) (tbl (tpl cur) # chain) s'
      else Some (Inl (new_Error (''Backup record '' @ tpl cur @ '' in chain not found or invalid.'')), s'))"
proof -
  obtain s' where "on_proc (getJob (pe_client (pg_pitr (ie_pg I))) W (tpl cur) False) s = (Inr (tbl (tpl cur)), s')" "exec_log s' = exec_log s"
    using known_getJob [OF assms(1)] by blast
  with assms(2) have "walk_chain I W cur chain s = (if succeeded (tbl (tpl cur))
      then walk_chain I W (parent_id (tbl (tpl cur))) (tbl (tpl cur) # chain) s'
      else Some (Inl (new_Error (''Backup record '' @ tpl cur @ '' in chain not found or invalid.'')), s'))"
    by (subst walk_chain.simps) (simp add: succeeded_def)
  with \<open>exec_log s' = exec_log s\<close> show ?thesis by (rule that)
qed

text \<open>A walk that returns a chain returns the lineage.\<close>

lemma walk_lineage:
  assumes "jobs_known I W tbl" and "walk_chain I W cur chain s = Some y"
  shows "exec_log (snd y) = exec_log s \<and> (truthy_j cur \<longrightarrow> links_end tbl (tpl cur)) \<and>
    (\<forall>js. fst y = Inr js \<longrightarrow> (if truthy_j cur then \<exists>pre. lineage tbl (tpl cur) pre \<and> js = pre @ chain else js = chain))"
  using assms(2,1)
proof (induction rule: walk_chain.raw_induct [rotated, consumes 1, case_names 1])
  case (1 walk I W cur chain s y)
  show ?case
  proof (cases "truthy_j cur")
    case True
    let ?j = "tbl (tpl cur)"
    obtain s' where g: "on_proc (getJob (pe_client (pg_pitr (ie_pg I))) W (tpl cur) False) s = (Inr ?j, s')" "exec_log s' = exec_log s"
      using known_getJob [OF 1(3)] by blast
    show ?thesis
    proof (cases "succeeded ?j")
      case False
      with 1(2) g True show ?thesis by (auto simp: succeeded_def intro: ends_bad)
    next
      case ok: True
      with 1(2) g True have "walk I W (parent_id ?j) (?j # chain) s' = Some y" by (simp add: succeeded_def)
      note IH = 1(1) [OF this 1(3)]
      have "\<exists>pre. lineage tbl (tpl cur) pre \<and> js = pre @ chain" if y: "fst y = Inr js" for js
      proof (cases "truthy_j (parent_id ?j)")
        case True
        with IH y obtain pre where "lineage tbl (tpl (parent_id ?j)) pre" "js = pre @ ?j # chain" by auto
        with ok True show ?thesis by (intro exI [of _ "pre @ [?j]"]) (simp add: lineage_next)
      next
        case False
        with IH y ok show ?thesis by (intro exI [of _ "[?j]"]) (simp add: lineage_full)
      qed
      moreover have "links_end tbl (tpl cur)" using IH by (cases "truthy_j (parent_id ?j)") (auto intro: links_end.intros)
      ultimately show ?thesis using IH g(2) True by simp
    qed
  next
    case False
    with 1(2) show ?thesis by auto
  qed
qed

lemma lineage_walk:
  assumes "jobs_known I W tbl" and "lineage tbl i js"
  shows "truthy_j cur \<Longrightarrow> tpl cur = i \<Longrightarrow> \<exists>s'. walk_chain I W cur chain s = Some (Inr (js @ chain), s')"
  using assms(2)
proof (induction arbitrary: cur chain s rule: lineage.induct)
  case (lineage_full i)
  from walk_step [OF assms(1) lineage_full(3), of s chain] lineage_full show ?case by (metis append_Cons append_Nil walk_stop)
next
  case (lineage_next i js)
  obtain s' where "walk_chain I W cur chain s = walk_chain I W (parent_id (tbl i)) (tbl i # chain) s'"
    using walk_step [OF assms(1) lineage_next(5), of s chain] lineage_next by metis
  with lineage_next.IH [OF lineage_next(2) refl, of "tbl i # chain" s'] show ?case by simp
qed

lemma links_end_walk:
  assumes "jobs_known I W tbl" and "links_end tbl i"
  shows "truthy_j cur \<Longrightarrow> tpl cur = i \<Longrightarrow> \<exists>y. walk_chain I W cur chain s = Some y"
  using assms(2)
proof (induction arbitrary: cur chain s rule: links_end.induct)
  case (ends_bad i)
  from walk_step [OF assms(1) ends_bad(2), of s chain] ends_bad show ?case by metis
next
  case (ends_full i)
  from walk_step [OF assms(1) ends_full(2), of s chain] ends_full show ?case by (metis walk_stop)
next
  case (ends_next i)
  obtain s' where s: "walk_chain I W cur chain s = (if succeeded (tbl i) then walk_chain I W (parent_id (tbl i)) (tbl i # chain) s'
      else Some (Inl (new_Error (''Backup record '' @ tpl cur @ '' in chain not found or invalid.'')), s'))"
    using walk_step [OF assms(1) ends_next(3), of s chain] ends_next(4) by metis
  show ?case
  proof (cases "truthy_j (parent_id (tbl i))")
    case True
    from ends_next.IH [OF True refl, of "tbl i # chain" s'] s show ?thesis by auto
  next
    case False
    with s walk_stop show ?thesis by (cases "succeeded (tbl i)") auto
  qed
qed

section \<open>When a restore returns\<close>

lemma restore_None_iff: "restoreBackupChain I W i s = None \<longleftrightarrow> walk_chain I W (Some (JStr i)) [] s = None"
  by (auto simp: restoreBackupChain_def split: option.split)


section \<open>What a restore runs\<close>

lemma on_disk_run_log: "bnd (on_disk m) k s = (r, s') \<Longrightarrow> (\<And>x t. k x t = (r, s') \<Longrightarrow> exec_log t = exec_log s \<Longrightarrow> Q) \<Longrightarrow>
    (\<And>e. r = Inl e \<Longrightarrow> exec_log s' = exec_log s \<Longrightarrow> Q) \<Longrightarrow> Q"
  by (auto simp: bnd_def split: prod.splits sum.splits dest: on_disk_log)

lemma unpack_step_Inr:
  assumes "unpack_step I i item s = (Inr d, s')"
  shows "d = step_dir I i item \<and> exec_log s' = exec_log s @ [unpack_command I i item]"
proof -
  let ?f = "jget item ''filePath''"
  obtain b t where b: "(if truthy_j ?f then on_disk (existsSync (inc_disk I) (tpl ?f)) else ret False) s = (Inr b, t)"
    and k: "(if \<not> b then throw (new_Error (''Backup artifact for '' @ tpl (jget item ''id'') @ '' not found on disk at '' @ tpl ?f @ ''.''))
       else seqp (on_disk (mkdirSync (inc_disk I) (step_dir I i item)))
         (seqp (inc_exec I (unpack_command I i item)) (ret (step_dir I i item)))) t = (Inr d, s')"
    using assms unfolding unpack_step_def Let_def by (rule bnd_InrE)
  have t: "exec_log t = exec_log s" using b by (auto simp: ret_def split: if_splits dest: on_disk_log)
  from k have b: b and k: "seqp (on_disk (mkdirSync (inc_disk I) (step_dir I i item)))
         (seqp (inc_exec I (unpack_command I i item)) (ret (step_dir I i item))) t = (Inr d, s')"
    by (simp_all split: if_splits)
  from k obtain x u where m: "on_disk (mkdirSync (inc_disk I) (step_dir I i item)) t = (Inr x, u)"
    and k: "seqp (inc_exec I (unpack_command I i item)) (ret (step_dir I i item)) u = (Inr d, s')" by (rule bnd_InrE)
  from k obtain out where "inc_exec I (unpack_command I i item) u = (Inr out, s')" "d = step_dir I i item"
    by (auto simp: ret_def elim: bnd_InrE)
  with execAsync_log on_disk_log [OF m] t show ?thesis by metis
qed

definition unpack_commands :: "inc_env \<Rightarrow> json list \<Rightarrow> string list" where
  "unpack_commands I js = map (\<lambda>(i, j). unpack_command I i j) (enumerate 0 js)"

definition step_dirs :: "inc_env \<Rightarrow> json list \<Rightarrow> string list" where
  "step_dirs I js = map (\<lambda>(i, j). step_dir I i j) (enumerate 0 js)"

lemma unpack_steps_Inr: "unpack_steps I n js s = (Inr ds, s') \<Longrightarrow>
    ds = map (\<lambda>(i, j). step_dir I i j) (enumerate n js) \<and>
    exec_log s' = exec_log s @ map (\<lambda>(i, j). unpack_command I i j) (enumerate n js)"
proof (induction js arbitrary: n s ds)
  case Nil
  then show ?case by (simp add: ret_def)
next
  case (Cons j js)
  from Cons.prems obtain d t where d: "unpack_step I n j s = (Inr d, t)"
    and k: "bnd (unpack_steps I (Suc n) js) (\<lambda>ds. ret (d # ds)) t = (Inr ds, s')" by (auto elim: bnd_InrE)
  from k obtain ds' where "unpack_steps I (Suc n) js t = (Inr ds', s')" "ds = d # ds'" by (auto simp: ret_def elim: bnd_InrE)
  with Cons.IH unpack_step_Inr [OF d] show ?case by auto
qed

lemma combine_path_log: "getPgCombinebackupPath I s = (r, s') \<Longrightarrow> exec_log s' = exec_log s @ [''pg_combinebackup --version'']"
  by (auto simp: getPgCombinebackupPath_def try_catch_def bnd_def ret_def split: prod.splits sum.splits dest!: on_disk_log execAsync_log)

abbreviation log_starts :: "string list \<Rightarrow> pitr_site \<Rightarrow> bool" where
  "log_starts l s \<equiv> prefix l (exec_log s)"

lemma grows_on_disk: "stable (log_starts l) (on_disk m)"
  by (auto simp: stable_def on_disk_def split: prod.split)

lemma grows_log_call: "stable (log_starts l) (log_call c)"
  by (auto simp: stable_def log_call_run exec_log_def intro: prefix_prefix)

lemma grows_exec: "stable (log_starts l) (execAsync P c)"
  unfolding execAsync_def by (intro stable_bnd grows_log_call grows_on_disk)

lemma grows_sleep: "stable (log_starts l) (on_proc (ask W (Sleep n)))"
  by (auto simp: stable_def on_proc_def ask_def exec_log_def)

lemmas grows = grows_on_disk grows_log_call grows_exec grows_sleep

lemma grows_bin_path: "stable (log_starts l) (bin_path I name)"
  unfolding bin_path_def by (intro stable grows)

lemma grows_wait_ready: "stable (log_starts l) (wait_ready I W c n)"
  by (induction n) (auto intro!: stable_bnd stable_if stable_try_catch stable_ret grows)

lemma grows_serve: "stable (log_starts l) (serve_and_dump I W)"
  unfolding serve_and_dump_def start_child_def kill_child_def
  by (intro stable_bnd stable_if stable_try_catch stable_try_finally stable_ret stable_throw grows grows_bin_path grows_wait_ready)

lemma rebuild_chain_Inr:
  assumes "rebuild_chain I W tool js s = (Inr v, s')"
  shows "\<exists>rest. exec_log s' = exec_log s @ unpack_commands I js @ [combine_command I tool (step_dirs I js)] @ rest"
proof -
  obtain ds t where ds: "unpack_steps I 0 js s = (Inr ds, t)"
    and k: "seqp (inc_run I (combine_command I tool ds)) (seqp (on_disk (open_cluster I)) (seqp (serve_and_dump I W) (ret (chain_report I)))) t = (Inr v, s')"
    using assms unfolding rebuild_chain_def by (rule bnd_InrE)
  from k obtain x u where c: "inc_run I (combine_command I tool ds) t = (Inr x, u)"
    and k: "seqp (on_disk (open_cluster I)) (seqp (serve_and_dump I W) (ret (chain_report I))) u = (Inr v, s')" by (rule bnd_InrE)
  have "stable (log_starts (exec_log u)) (seqp (on_disk (open_cluster I)) (seqp (serve_and_dump I W) (ret (chain_report I))))"
    by (intro stable_bnd stable_ret grows grows_serve)
  from stableD [OF this k] obtain rest where "exec_log s' = exec_log u @ rest" by (auto simp: prefix_def)
  with unpack_steps_Inr [OF ds] inc_run_log [OF c] show ?thesis
    by (auto simp: unpack_commands_def step_dirs_def)
qed


end
