(* ===== verification/StorageCorrect.thy ===== *)
theory StorageCorrect
  imports StorageService
begin

text \<open>
  Correctness of the storage providers: what \<open>list\<close> lists, which files of the disk an operation of
  the local provider can touch, and the contract of a provider (\<open>storage_provider\<close>), discharged by the
  local one under every pattern of failing calls.
\<close>

section \<open>Listing\<close>

lemma descend_name: "plain_name x \<Longrightarrow> descend acc x = acc @ [x]"
  using descend_plain [of "[x]" acc] by simp

lemma fs_try_InrE:
  assumes "seqp (fs_try E) k s = (Inr x, s')"
  obtains "k (s\<lparr>d_ops := Suc (d_ops s)\<rparr>) = (Inr x, s')"
  using assms by (auto simp: bnd_def fs_try_def Let_def split: option.splits)

text \<open>Whatever fails on the way, a walk that returns has found exactly the files.\<close>

lemma walk_exact:
  "wf_node n \<Longrightarrow> is_dir (Some n) \<Longrightarrow> d \<noteq> [] \<Longrightarrow> walk_dir E d n s = (Inr fs, s') \<Longrightarrow>
     map (segs E) fs = map ((@) (segs E d)) (node_files n) \<and> d_root s' = d_root s"
  and walk_items_exact:
  "wf_items es \<Longrightarrow> d \<noteq> [] \<Longrightarrow> walk_items E d es s = (Inr fs, s') \<Longrightarrow>
     map (segs E) fs = map ((@) (segs E d)) (item_files es) \<and> d_root s' = d_root s"
proof (induction E d n and E d es arbitrary: s fs s' and s fs s' rule: walk_dir_walk_items.induct)
  case (1 E d es)
  from 1(5) obtain "walk_items E d es (s\<lparr>d_ops := Suc (d_ops s)\<rparr>) = (Inr fs, s')"
    unfolding walk_dir.simps by (rule fs_try_InrE)
  from 1(1) [OF _ 1(4) this] 1(2) show ?case by simp
next
  case (4 E d item n es)
  let ?f = "path_join [d, item]"
  have name: "plain_name item" and wn: "wf_node n" and wes: "wf_items es" using 4(3) by auto
  have segs: "segs E ?f = segs E d @ [item]" using 4(4) name by (simp add: abs_segs_join descend_name)
  from 4(5) obtain r: "bnd (case n of Dir _ \<Rightarrow> walk_dir E ?f n | File _ \<Rightarrow> ret [?f])
      (\<lambda>a. bnd (walk_items E d es) (\<lambda>b. ret (a @ b))) (s\<lparr>d_ops := Suc (d_ops s)\<rparr>) = (Inr fs, s')"
    unfolding walk_items.simps Let_def by (rule fs_try_InrE)
  then obtain a s1 where a: "(case n of Dir _ \<Rightarrow> walk_dir E ?f n | File _ \<Rightarrow> ret [?f]) (s\<lparr>d_ops := Suc (d_ops s)\<rparr>) = (Inr a, s1)"
    and k: "bnd (walk_items E d es) (\<lambda>b. ret (a @ b)) s1 = (Inr fs, s')" by (rule bnd_InrE)
  from k obtain b where b: "walk_items E d es s1 = (Inr b, s')" and fs: "fs = a @ b"
    by (auto simp: bnd_Inr_iff ret_def)
  have left: "map (segs E) a = map ((@) (segs E ?f)) (node_files n) \<and> d_root s1 = d_root s"
  proof (cases n)
    case (File c)
    with a show ?thesis by (auto simp: ret_def)
  next
    case (Dir ds)
    with a 4(1) [OF refl, of ds] wn path_join_nonempty [of "[d, item]"] show ?thesis by force
  qed
  from 4(2) [OF refl wes 4(4) b] left show ?case by (simp add: fs segs)
qed (auto simp: ret_def throw_def bnd_def fs_try_def Let_def split: option.splits)

lemma walk_total: "reliable E \<Longrightarrow> is_dir (Some n) \<Longrightarrow> \<exists>fs s'. walk_dir E d n s = (Inr fs, s')"
  and walk_items_total: "reliable E \<Longrightarrow> \<exists>fs s'. walk_items E d es s = (Inr fs, s')"
proof (induction E d n and E d es arbitrary: s and s rule: walk_dir_walk_items.induct)
  case (1 E d es)
  then show ?case by (simp add: bnd_def fs_try_run)
next
  case (4 E d item n es)
  let ?f = "path_join [d, item]"
  obtain a s1 where a: "(case n of Dir _ \<Rightarrow> walk_dir E ?f n | File _ \<Rightarrow> ret [?f]) (s\<lparr>d_ops := Suc (d_ops s)\<rparr>) = (Inr a, s1)"
    using 4(1) [OF refl _ 4(3)] by (cases n) (force simp: ret_def)+
  moreover obtain b s2 where "walk_items E d es s1 = (Inr b, s2)" using 4(2,3) by blast
  ultimately show ?case by (simp add: bnd_def fs_try_run [OF 4(3)] Let_def ret_def)
qed (auto simp: ret_def)

text \<open>A key of the store: a path of plain names below the base.\<close>

abbreviation key_path :: "string list \<Rightarrow> string" where
  "key_path ks \<equiv> join_with [slash] ks"

definition store_key :: "string list \<Rightarrow> bool" where
  "store_key ks \<longleftrightarrow> ks \<noteq> [] \<and> (\<forall>k\<in>set ks. plain_name k)"

lemma segs_key: "base \<noteq> [] \<Longrightarrow> store_key ks \<Longrightarrow> segs E (path_join [base, key_path ks]) = segs E base @ ks"
  by (simp add: store_key_def path_join_file)

lemma map_eq_image: "map f xs = map g ys \<Longrightarrow> f ` set xs = g ` set ys"
  by (metis set_map)

lemma local_list_exact:
  assumes "local_list E base (key_path ks) s = (Inr fs, s')" and "base \<noteq> []" and "store_key ks" and "wf_disk s"
  shows "set fs = {key_path (ks @ p) |p. file_on s (segs E base @ ks @ p) \<noteq> None} \<and> d_root s' = d_root s"
proof -
  let ?d = "path_join [base, key_path ks]"
  have d: "segs E ?d = segs E base @ ks" using assms by (simp add: segs_key)
  show ?thesis
  proof (cases "node_at (d_root s) (segs E ?d)")
    case None
    then have "file_on s (segs E base @ ks @ p) = None" for p
      using d node_at_append [of "d_root s" "segs E base @ ks" p] by (simp add: file_on_def file_at_def)
    with None assms(1) show ?thesis by (auto simp: local_list_def Let_def bnd_def gets_def ret_def)
  next
    case (Some n)
    with assms(1) obtain gs where gs: "walk_dir E ?d n s = (Inr gs, s')" "fs = map (path_relative (v_cwd E) base) gs"
      by (auto simp: local_list_def Let_def bnd_def gets_def ret_def split: prod.splits sum.splits)
    then have dir: "is_dir (Some n)"
      by (cases n) (auto simp: bnd_def fs_try_def Let_def throw_def split: option.splits)
    have wf: "wf_node n" using wf_node_at [OF assms(4) Some] .
    have at: "file_on s (segs E base @ ks @ p) = file_at n p" for p
      using Some d node_at_append [of "d_root s" "segs E base @ ks" p] by (simp add: file_on_def file_at_def)
    from walk_exact [OF wf dir path_join_nonempty gs(1)] d
    have w: "map (segs E) gs = map ((@) (segs E base @ ks)) (node_files n)" and root: "d_root s' = d_root s" by auto
    have rel: "map (path_relative (v_cwd E) base) gs = map (\<lambda>p. key_path (ks @ p)) (node_files n)"
    proof (rule nth_equalityI)
      show "length (map (path_relative (v_cwd E) base) gs) = length (map (\<lambda>p. key_path (ks @ p)) (node_files n))"
        using arg_cong [OF w, of length] by simp
    next
      fix i assume "i < length (map (path_relative (v_cwd E) base) gs)"
      then have i: "i < length gs" "i < length (node_files n)" using arg_cong [OF w, of length] by auto
      have "segs E (gs ! i) = segs E base @ ks @ node_files n ! i"
        using arg_cong [OF w, of "\<lambda>l. l ! i"] i by simp
      from path_relative_below [OF this] i
      show "map (path_relative (v_cwd E) base) gs ! i = map (\<lambda>p. key_path (ks @ p)) (node_files n) ! i" by simp
    qed
    have "set fs = (\<lambda>p. key_path (ks @ p)) ` set (node_files n)" using rel gs(2) by simp
    also have "\<dots> = {key_path (ks @ p) |p. file_on s (segs E base @ ks @ p) \<noteq> None}"
      using node_files_iff [OF wf] at by auto
    finally show ?thesis using root by simp
  qed
qed

section \<open>The frame of the local provider\<close>

lemma within_walk: "within A (walk_dir E d n)" and within_walk_items: "within A (walk_items E d es)"
proof (induction E d n and E d es rule: walk_dir_walk_items.induct)
  case (4 E d item n es)
  then show ?case by (cases n) (auto simp: Let_def simp del: walk_dir.simps intro!: within)
qed (auto intro!: within)

lemma wf_walk: "stable wf_disk (walk_dir E d n)" and wf_walk_items: "stable wf_disk (walk_items E d es)"
proof (induction E d n and E d es rule: walk_dir_walk_items.induct)
  case (4 E d item n es)
  then show ?case by (cases n) (auto simp: Let_def simp del: walk_dir.simps intro!: stable)
qed (auto intro!: stable)

lemma within_upload: "segs E (path_join [base, r]) \<in> A \<Longrightarrow> within A (local_upload E base l r)"
  by (auto simp: local_upload_def Let_def intro!: within)

lemma within_uploadStream: "segs E (path_join [base, r]) \<in> A \<Longrightarrow> within A (local_uploadStream E base st r)"
  by (auto simp: local_uploadStream_def pipe_to_def Let_def intro!: within split: option.split)

lemma within_download: "segs E l \<in> A \<Longrightarrow> within A (local_download E base r l)"
  by (auto simp: local_download_def Let_def intro!: within)

lemma within_delete: "segs E (path_join [base, r]) \<in> A \<Longrightarrow> within A (local_delete E base r)"
  by (auto simp: local_delete_def Let_def intro!: within)

lemma within_list: "within A (local_list E base p)"
  by (auto simp: local_list_def Let_def intro!: within within_walk split: option.split)

lemma wf_local [stable]:
  "stable wf_disk (local_upload E base l r)" "stable wf_disk (local_uploadStream E base st r)"
  "stable wf_disk (local_download E base r l)" "stable wf_disk (local_delete E base r)" "stable wf_disk (local_list E base p)"
  by (auto simp: local_upload_def local_uploadStream_def pipe_to_def local_download_def local_delete_def local_list_def Let_def
      intro!: stable wf_walk split: option.split)

lemma writeFileSync_Inr: "writeFileSync E p b s = (Inr x, s') \<Longrightarrow> file_on s' (segs E p) = Some b"
  by (auto simp: writeFileSync_def bnd_def get_st_def Let_def try_catch_def fs_try_def set_root_def modify_st_def throw_def ret_def
      file_on_def file_at_def parent_fits split: if_splits option.splits)

lemma readFileSync_Inr: "readFileSync E p s = (Inr b, s') \<Longrightarrow> file_on s (segs E p) = Some b"
  by (auto simp: readFileSync_def bnd_def gets_def Let_def fs_try_def throw_def ret_def file_on_def file_at_def
      split: option.splits node.splits)

lemma copyFileSync_Inr:
  assumes "copyFileSync E a b s = (Inr x, s')"
  shows "file_on s' (segs E b) = file_on s (segs E a) \<and> file_on s (segs E a) \<noteq> None"
proof -
  obtain c s1 where c: "readFileSync E a s = (Inr c, s1)" "writeFileSync E b c s1 = (Inr x, s')"
    using assms unfolding copyFileSync_def by (rule bnd_InrE)
  from readFileSync_Inr [OF c(1)] writeFileSync_Inr [OF c(2)] show ?thesis by simp
qed

lemma local_upload_Inr:
  assumes "local_upload E base l r s = (Inr x, s')"
  shows "file_on s' (segs E (path_join [base, r])) = file_on s (segs E l) \<and> file_on s (segs E l) \<noteq> None"
proof -
  let ?d = "path_join [base, r]"
  obtain s1 s2 u v w where "ensureDir E (path_dirname ?d) s = (Inr u, s1)" "copyFileSync E l ?d s1 = (Inr v, s2)" "statSync E ?d s2 = (Inr w, s')"
    using assms unfolding local_upload_def Let_def by (auto elim!: bnd_InrE simp: ret_def)
  moreover from this have "file_on s1 q = file_on s q" "file_on s' q = file_on s2 q" for q
    using withinD [OF within_ensureDir, where A = "{}"] withinD [OF within_stat, where A = "{}"] by blast+
  ultimately show ?thesis using copyFileSync_Inr [of E l ?d s1 v s2] by simp
qed

lemma local_download_Inr:
  assumes "local_download E base r l s = (Inr x, s')"
  shows "file_on s' (segs E l) = file_on s (segs E (path_join [base, r])) \<and> file_on s' (segs E l) \<noteq> None"
proof -
  let ?d = "path_join [base, r]"
  have "existsSync E ?d s = (Inr (node_at (d_root s) (segs E ?d) \<noteq> None), s)" by (simp add: existsSync_def gets_def)
  with assms obtain s1 s2 u v w where "ensureDir E (path_dirname l) s = (Inr u, s1)" "copyFileSync E ?d l s1 = (Inr v, s2)" "statSync E l s2 = (Inr w, s')"
    unfolding local_download_def Let_def by (auto elim!: bnd_InrE simp: ret_def throw_def split: if_splits)
  moreover from this have "file_on s1 q = file_on s q" "file_on s' q = file_on s2 q" for q
    using withinD [OF within_ensureDir, where A = "{}"] withinD [OF within_stat, where A = "{}"] by blast+
  ultimately show ?thesis using copyFileSync_Inr [of E ?d l s1 v s2] by simp
qed

section \<open>The contract of a provider\<close>

text \<open>
  The store keeps objects under keys; \<open>mine\<close> are the paths of the disk it keeps them in. Uploading
  and downloading copy, listing lists, and nothing else changes, whether the operation succeeds or not.
\<close>

locale storage_provider =
  fixes E :: disk_env and P :: "('z site_scheme) provider"
    and inv :: "'z site_scheme \<Rightarrow> bool" and obj :: "'z site_scheme \<Rightarrow> string list \<Rightarrow> bytes option" and mine :: "string list \<Rightarrow> bool"
  assumes upload: "inv s \<Longrightarrow> store_key k \<Longrightarrow> \<not> mine (segs E l) \<Longrightarrow> pv_upload P l (key_path k) s = (r, s') \<Longrightarrow>
      inv s' \<and> (\<forall>q. \<not> mine q \<longrightarrow> file_on (st_disk s') q = file_on (st_disk s) q) \<and> (\<forall>j. store_key j \<longrightarrow> j \<noteq> k \<longrightarrow> obj s' j = obj s j) \<and>
      site.more s' = site.more s \<and> (\<forall>x. r = Inr x \<longrightarrow> obj s' k = file_on (st_disk s) (segs E l) \<and> obj s' k \<noteq> None)"
    and download: "inv s \<Longrightarrow> store_key k \<Longrightarrow> \<not> mine (segs E l) \<Longrightarrow> pv_download P (key_path k) l s = (r, s') \<Longrightarrow>
      inv s' \<and> (\<forall>q. \<not> mine q \<longrightarrow> q \<noteq> segs E l \<longrightarrow> file_on (st_disk s') q = file_on (st_disk s) q) \<and> (\<forall>j. store_key j \<longrightarrow> obj s' j = obj s j) \<and>
      site.more s' = site.more s \<and> (\<forall>x. r = Inr x \<longrightarrow> file_on (st_disk s') (segs E l) = obj s k \<and> obj s k \<noteq> None)"
    and listing: "inv s \<Longrightarrow> store_key k \<Longrightarrow> pv_list P (key_path k) s = (res, s') \<Longrightarrow>
      inv s' \<and> (\<forall>q. file_on (st_disk s') q = file_on (st_disk s) q) \<and> (\<forall>j. store_key j \<longrightarrow> obj s' j = obj s j) \<and>
      site.more s' = site.more s \<and> (\<forall>fs. res = Inr fs \<longrightarrow> set fs = {key_path (k @ p) |p. store_key (k @ p) \<and> obj s (k @ p) \<noteq> None})"
    and local_step: "inv s \<Longrightarrow> (wf_disk (st_disk s) \<Longrightarrow> wf_disk d) \<Longrightarrow> (\<And>q. mine q \<Longrightarrow> file_on d q = file_on (st_disk s) q) \<Longrightarrow>
      inv (s\<lparr>st_disk := d\<rparr>) \<and> (\<forall>j. store_key j \<longrightarrow> obj (s\<lparr>st_disk := d\<rparr>) j = obj s j)"
    and elsewhere: "inv s \<Longrightarrow> st_disk s' = st_disk s \<Longrightarrow> st_proc s' = st_proc s \<Longrightarrow> inv s' \<and> obj s' = obj s"
begin

text \<open>What was uploaded is what a later download brings, whatever other objects were stored between.\<close>

lemma upload_download:
  assumes "inv s" and "store_key k" and "\<not> mine (segs E l)" and "\<not> mine (segs E l')"
    and "pv_upload P l (key_path k) s = (Inr x, s1)" and "inv s2" and "obj s2 k = obj s1 k"
    and "pv_download P (key_path k) l' s2 = (Inr y, s3)"
  shows "file_on (st_disk s3) (segs E l') = file_on (st_disk s) (segs E l)"
  using upload [OF assms(1-3,5)] download [OF assms(6,2,4,8)] assms(7) by simp

lemma upload_listed:
  assumes "inv s" and "store_key (d @ p)" and "store_key d" and "\<not> mine (segs E l)"
    and "pv_upload P l (key_path (d @ p)) s = (Inr x, s1)" and "pv_list P (key_path d) s1 = (Inr fs, s2)"
  shows "key_path (d @ p) \<in> set fs"
  using upload [OF assms(1,2,4,5)] listing [OF _ assms(3,6)] assms(2) by auto

end

lemma file_on_plain: "wf_disk s \<Longrightarrow> file_on s q \<noteq> None \<Longrightarrow> \<forall>x\<in>set q. plain_name x"
proof -
  have "wf_node n \<Longrightarrow> file_at n q \<noteq> None \<Longrightarrow> \<forall>x\<in>set q. plain_name x" for n
  proof (induction n q rule: node_at.induct)
    case (2 es x xs)
    then obtain m where m: "map_of es x = Some m" "file_at m xs \<noteq> None" by (auto simp: file_at_Dir split: option.splits)
    have "wf_items es \<Longrightarrow> map_of es x = Some m \<Longrightarrow> plain_name x"
      by (induction es) (auto split: if_splits)
    with 2 m show ?case by (simp add: wf_map_of)
  qed (auto simp: file_at_File)
  then show "wf_disk s \<Longrightarrow> file_on s q \<noteq> None \<Longrightarrow> \<forall>x\<in>set q. plain_name x" by (simp add: file_on_def)
qed

text \<open>The local provider meets it, with the objects in the files below its base.\<close>

definition local_obj :: "disk_env \<Rightarrow> string \<Rightarrow> 'z site_scheme \<Rightarrow> string list \<Rightarrow> bytes option" where
  "local_obj E base s k = file_on (st_disk s) (segs E base @ k)"

lemma on_diskE:
  assumes "on_disk m s = (r, s')"
  obtains d where "m (st_disk s) = (r, d)" and "s' = s\<lparr>st_disk := d\<rparr>"
  using assms by (auto simp: on_disk_def split: prod.splits)

lemma wf_after: "stable wf_disk m \<Longrightarrow> wf_disk (st_disk s) \<Longrightarrow> m (st_disk s) = (r, d) \<Longrightarrow> wf_disk d"
  by (rule stableD)

lemma basePath_nonempty: "local_basePath config \<noteq> []"
  by (cases "text_column (Some config) ''basePath''") (simp_all add: local_basePath_def)

interpretation local_store: storage_provider E "local_provider E (local_basePath c)" "\<lambda>s. wf_disk (st_disk s)"
    "local_obj E (local_basePath c)" "prefix (segs E (local_basePath c))"
  for E :: disk_env and c :: json
proof (unfold_locales, goal_cases)
  case (1 s k l r s')
  let ?b = "local_basePath c" let ?B = "segs E ?b"
  have key: "segs E (path_join [?b, key_path k]) = ?B @ k" using 1(2) basePath_nonempty by (rule segs_key [rotated])
  obtain d where d: "local_upload E ?b l (key_path k) (st_disk s) = (r, d)" "s' = s\<lparr>st_disk := d\<rparr>"
    using 1(4) by (auto simp: local_provider_def elim: on_diskE)
  have frame: "file_on d q = file_on (st_disk s) q" if "q \<noteq> ?B @ k" for q
    using withinD [OF within_upload d(1), of "{?B @ k}"] that key by simp
  have new: "file_on d (?B @ k) = file_on (st_disk s) (segs E l) \<and> file_on (st_disk s) (segs E l) \<noteq> None" if "r = Inr x" for x
    using local_upload_Inr [of E ?b l "key_path k"] d(1) that key by simp
  have "file_on d q = file_on (st_disk s) q" if "\<not> prefix ?B q" for q
    using that by (intro frame) auto
  moreover have "wf_disk d" using wf_after [OF wf_local(1) 1(1) d(1)] .
  ultimately show ?case using frame new by (auto simp: d(2) local_obj_def)
next
  case (2 s k l r s')
  let ?b = "local_basePath c" let ?B = "segs E ?b"
  have key: "segs E (path_join [?b, key_path k]) = ?B @ k" using 2(2) basePath_nonempty by (rule segs_key [rotated])
  obtain d where d: "local_download E ?b (key_path k) l (st_disk s) = (r, d)" "s' = s\<lparr>st_disk := d\<rparr>"
    using 2(4) by (auto simp: local_provider_def elim: on_diskE)
  have frame: "file_on d q = file_on (st_disk s) q" if "q \<noteq> segs E l" for q
    using withinD [OF within_download d(1), of "{segs E l}"] that by simp
  have new: "file_on d (segs E l) = file_on (st_disk s) (?B @ k) \<and> file_on (st_disk s) (?B @ k) \<noteq> None" if "r = Inr x" for x
    using local_download_Inr [OF d(1) [unfolded that]] unfolding key by metis
  have "wf_disk d" using wf_after [OF wf_local(3) 2(1) d(1)] .
  moreover have "?B @ j \<noteq> segs E l" for j using 2(3) by (metis prefixI)
  ultimately show ?case using frame new by (auto simp: d(2) local_obj_def)
next
  case (3 s k r s')
  let ?b = "local_basePath c" let ?B = "segs E ?b"
  obtain d where d: "local_list E ?b (key_path k) (st_disk s) = (r, d)" "s' = s\<lparr>st_disk := d\<rparr>"
    using 3(3) by (auto simp: local_provider_def elim: on_diskE)
  have frame: "file_on d q = file_on (st_disk s) q" for q
    using withinD [OF within_list d(1), where A = "{}"] by simp
  have "store_key (k @ p)" if "file_on (st_disk s) (?B @ k @ p) \<noteq> None" for p
    using file_on_plain [OF 3(1) that] 3(2) by (auto simp: store_key_def)
  then have "set fs = {key_path (k @ p) |p. store_key (k @ p) \<and> file_on (st_disk s) (?B @ k @ p) \<noteq> None}" if "r = Inr fs" for fs
    using local_list_exact [of E ?b k "st_disk s" fs d] d(1) that basePath_nonempty 3(1,2) by auto
  moreover have "wf_disk d" using wf_after [OF wf_local(5) 3(1) d(1)] .
  ultimately show ?case using frame by (auto simp: d(2) local_obj_def)
next
  case (4 s d)
  then show ?case by (simp add: local_obj_def)
next
  case (5 s s')
  then show ?case by (simp add: local_obj_def fun_eq_iff)
qed

section \<open>Operations that do not fail\<close>

lemma local_upload_run:
  assumes E: "reliable E" and K: "places K" and r: "rooms K d" and q: "q \<in> K"
    and k: "store_key k" "base \<noteq> []" "q = segs E base @ k" and l: "file_on d (segs E l) = Some b"
  shows "\<exists>x d'. local_upload E base l (key_path k) d = (Inr x, d') \<and> rooms K d' \<and>
    (\<forall>p. file_on d' p = (if p = q then Some b else file_on d p))"
proof -
  let ?d = "path_join [base, key_path k]"
  have seg: "segs E ?d = q" "segs E (path_dirname ?d) = butlast q"
    using k by (auto simp: segs_key store_key_def path_join_file butlast_append)
  obtain d1 where d1: "ensureDir E (path_dirname ?d) d = (Inr (), d1)" "rooms K d1" "is_dir (node_at (d_root d1) (butlast q))" "\<forall>p. file_on d1 p = file_on d p"
    using ensure_parent_run [OF E K r q seg(2)] by blast
  have l1: "file_on d1 (segs E l) = Some b" using d1(4) l by simp
  obtain d2 where d2: "copyFileSync E l ?d d1 = (Inr (), d2)" "rooms K d2" "\<forall>p. file_on d2 p = (if p = q then Some b else file_on d1 p)"
    using copyFileSync_run [OF E K d1(2), of ?d l b] seg(1) q d1(3) l1 by auto
  have "file_on d2 (segs E ?d) = Some b" using d2(3) seg(1) by simp
  from statSync_run [OF E this] d1 d2 show ?thesis
    by (simp add: local_upload_def Let_def bnd_def ret_def)
qed

lemma local_download_run:
  assumes E: "reliable E" and K: "places K" and r: "rooms K d" and l: "segs E l \<in> K" "segs E (path_dirname l) = butlast (segs E l)"
    and k: "store_key k" "base \<noteq> []" and b: "file_on d (segs E base @ k) = Some b"
  shows "\<exists>x d'. local_download E base (key_path k) l d = (Inr x, d') \<and> rooms K d' \<and>
    (\<forall>p. file_on d' p = (if p = segs E l then Some b else file_on d p))"
proof -
  let ?d = "path_join [base, key_path k]"
  have seg: "segs E ?d = segs E base @ k" using k by (simp add: segs_key)
  have there: "existsSync E ?d d = (Inr True, d)" using existsSync_file [of d E ?d b] b seg by simp
  obtain d1 where d1: "ensureDir E (path_dirname l) d = (Inr (), d1)" "rooms K d1" "is_dir (node_at (d_root d1) (butlast (segs E l)))" "\<forall>p. file_on d1 p = file_on d p"
    using ensure_parent_run [OF E K r l] by blast
  have b1: "file_on d1 (segs E ?d) = Some b" using d1(4) b seg by simp
  obtain d2 where d2: "copyFileSync E ?d l d1 = (Inr (), d2)" "rooms K d2" "\<forall>p. file_on d2 p = (if p = segs E l then Some b else file_on d1 p)"
    using copyFileSync_run [OF E K d1(2) l(1) d1(3) b1] by auto
  have "file_on d2 (segs E l) = Some b" using d2(3) by simp
  from statSync_run [OF E this] d1 d2 there show ?thesis
    by (simp add: local_download_def Let_def bnd_def ret_def)
qed

lemma root_try [stable]: "stable (\<lambda>s. d_root s = n) (fs_try E)"
  by (auto simp: stable_def fs_try_def Let_def split: option.split)

lemma root_walk: "stable (\<lambda>s. d_root s = n) (walk_dir E d m)" and root_walk_items: "stable (\<lambda>s. d_root s = n) (walk_items E d es)"
proof (induction E d m and E d es rule: walk_dir_walk_items.induct)
  case (4 E d item m es)
  then show ?case by (cases m) (auto simp: Let_def simp del: walk_dir.simps intro!: stable)
qed (auto intro!: stable)

lemma local_list_root: "local_list E base p d = (r, d') \<Longrightarrow> d_root d' = d_root d"
proof -
  have "stable (\<lambda>s. d_root s = n) (local_list E base p)" for n
    by (auto simp: local_list_def Let_def intro!: stable root_walk split: option.split)
  from stableD [OF this] show "local_list E base p d = (r, d') \<Longrightarrow> d_root d' = d_root d" by blast
qed

section \<open>The handlers of the service\<close>

lemma stable_on_disk: "within A m \<Longrightarrow> p \<notin> A \<Longrightarrow> stable (\<lambda>s. file_on (st_disk s) p = x) (on_disk m)"
  by (auto simp: stable_def on_disk_def split: prod.split dest: withinD)

lemma stable_on_proc: "stable (\<lambda>s. file_on (st_disk s) p = x) (on_proc m)"
  by (auto simp: stable_def on_proc_def split: prod.split)

lemma getStorageProvider_local:
  "bnd (getStorageProvider E W ''local'' c) k =
     bnd (gets sv_providers) (\<lambda>m. if (''local'', c) \<in> set m then k (local_provider E (local_basePath c))
       else seqp (on_disk (ensureDir E (local_basePath c)))
           (seqp (modify_st (\<lambda>s. s\<lparr>sv_providers := (''local'', c) # sv_providers s\<rparr>)) (k (local_provider E (local_basePath c)))))"
  by (rule ext) (simp add: getStorageProvider_def provider_for_def bnd_def gets_def ret_def modify_st_def local_provider_def split: prod.split sum.split)

definition outside_kept :: "string list \<Rightarrow> (storage_svc, 'a) prog \<Rightarrow> bool" where
  "outside_kept p m \<longleftrightarrow> (\<forall>x. stable (\<lambda>s. file_on (st_disk s) p = x) m)"

lemma outside_keptD: "outside_kept p m \<Longrightarrow> file_on (st_disk (snd (m s))) p = file_on (st_disk s) p"
  by (auto simp: outside_kept_def stable_def)

lemma dest_below:
  assumes "''..'' \<notin> set (split_on slash r)" and "b \<noteq> []"
  shows "prefix (segs E b) (segs E (path_join [b, r]))"
  using descend_below [OF assms(1)] assms(2) by (auto simp: abs_segs_join prefix_def)


text \<open>With \<open>..\<close> an upload reaches any path the service may write.\<close>

lemma upload_escapes:
  assumes "segs E base = B @ [d]" and "base \<noteq> []" and "store_key ks"
  shows "segs E (path_join [base, ''..'' @ [slash] @ key_path ks]) = B @ ks"
proof -
  have "split_on slash (''..'' @ slash # key_path ks) = ''..'' # ks"
    using assms(3) split_join_plain [of ks] split_on_append [of slash "''..''" "key_path ks"] by (simp add: store_key_def slash_def)
  moreover have "d \<noteq> ''..''" using segs_plain [of E base] assms(1) by (auto simp: plain_name_def)
  ultimately show ?thesis
    using assms norm_segs_plain [of ks False "rev B"] by (simp add: abs_segs_join descend_def store_key_def)
qed

definition toy_upload :: storage_request where
  "toy_upload = \<lparr>sr_storageType = ''local'', sr_config = JObj [(''basePath'', JStr ''/data'')], sr_localPath = ''/in/f'',
     sr_remotePath = ''a/f'', sr_prefix = None, sr_backupId = ''1''\<rparr>"


end
