(* ===== verification/WalCorrect.thy ===== *)
theory WalCorrect
  imports WalArchive StorageCorrect
begin

text \<open>
  Correctness of the WAL archive: decoding inverts encoding, \<open>archiveWal\<close> answers true only when a
  file of that name is in the store, what \<open>fetchWal\<close> brings back is the archived segment; and where
  this ends: a torn upload and a wrong key are not noticed.
\<close>

section \<open>The encoding\<close>

definition pitr_ok :: "pitr_env \<Rightarrow> bool" where
  "pitr_ok P \<longleftrightarrow> (\<forall>b. pe_gunzip P (pe_gzip P b) = Inr b \<and> gzip_magic (pe_gzip P b)) \<and>
     (\<forall>i. length (pe_random P i) = IV_LENGTH) \<and> (\<forall>k iv c. length (g_tag (pe_gcm P) k iv c) = TAG_LENGTH)"

text \<open>Compression is on, or the segment is not empty and does not look like a gzip file.\<close>

definition decodable :: "pitr_env \<Rightarrow> bytes \<Rightarrow> bool" where
  "decodable P raw \<longleftrightarrow> pe_var P ''PITR_COMPRESS'' \<noteq> Some ''false'' \<or> raw \<noteq> [] \<and> \<not> gzip_magic raw"

lemma compress_decompress:
  assumes "pitr_ok P" and "decodable P raw"
  shows "decompress_wal P (compress_wal P raw) = raw" and "compress_wal P raw \<noteq> []"
proof -
  have "gzip_magic (pe_gzip P raw)" "pe_gunzip P (pe_gzip P raw) = Inr raw" using assms(1) by (auto simp: pitr_ok_def)
  moreover from this have "pe_gzip P raw \<noteq> []" by (auto simp: gzip_magic_def)
  ultimately show "decompress_wal P (compress_wal P raw) = raw" "compress_wal P raw \<noteq> []"
    using assms(2) by (auto simp: decodable_def compress_wal_def decompress_wal_def)
qed

lemma decode_encode:
  assumes ok: "pitr_ok P" and raw: "decodable P raw" and iv: "truthy_s k \<Longrightarrow> length iv = IV_LENGTH" and e: "encode_wal P k iv raw = Inr d"
  shows "decode_wal P k d = raw"
proof (cases "truthy_s k")
  case False
  then show ?thesis using e compress_decompress(1) [OF ok raw] by (simp add: encode_wal_def decode_wal_def decrypt_wal_def)
next
  case True
  then obtain x where x: "seal (pe_gcm P) (hex_bytes (the k)) iv (compress_wal P raw) = Inr x" and d: "d = sl_iv x @ sl_tag x @ sl_data x"
    using e by (auto simp: encode_wal_def split: sum.splits)
  have len: "length (sl_iv x) = IV_LENGTH" "length (sl_tag x) = TAG_LENGTH" "sl_data x \<noteq> []"
    using x ok iv [OF True] compress_decompress(2) [OF ok raw] by (auto simp: seal_def Let_def pitr_ok_def split: if_splits)
  have "decrypt_wal P k d = compress_wal P raw"
    using True len unseal_seal [OF x] by (cases x) (simp add: decrypt_wal_def d)
  then show ?thesis using compress_decompress(1) [OF ok raw] by (simp add: decode_wal_def)
qed

section \<open>Names\<close>

definition wal_key_path :: "pitr_env \<Rightarrow> string \<Rightarrow> string list" where
  "wal_key_path P wal = [''pitr'', pe_database P, ''wal'', take 8 wal, wal]"

definition names_ok :: "pitr_env \<Rightarrow> string \<Rightarrow> bool" where
  "names_ok P wal \<longleftrightarrow> plain_name (pe_database P) \<and> plain_name wal"

lemma plain_take: "plain_name w \<Longrightarrow> plain_name (take 8 w)"
proof -
  assume w: "plain_name w"
  have "take 8 w = w \<or> length (take 8 w) = 8" by auto
  moreover have "length s = 8 \<Longrightarrow> s \<noteq> [] \<and> s \<noteq> ''.'' \<and> s \<noteq> ''..''" for s :: string by auto
  moreover have "slash \<notin> set (take 8 w)" using w by (auto simp: plain_name_def dest: in_set_takeD)
  ultimately show ?thesis using w unfolding plain_name_def by metis
qed

lemma plain_words: "plain_name ''pitr''" "plain_name ''wal''" "plain_name ''tmp''" "plain_name ''base''"
  by (simp_all add: plain_name_def slash_def)

lemma wal_names:
  assumes "names_ok P wal"
  shows "wal_remote P wal = key_path (wal_key_path P wal)" "store_key (wal_key_path P wal)"
    "wal_dir P wal = key_path (butlast (wal_key_path P wal))" "store_key (butlast (wal_key_path P wal))"
    "''pitr'' @ [slash] @ pe_database P @ [slash] @ ''wal'' = key_path [''pitr'', pe_database P, ''wal'']"
    "store_key [''pitr'', pe_database P, ''wal'']"
  using assms plain_words plain_take [of wal]
  by (simp_all add: wal_remote_def wal_dir_def wal_key_path_def store_key_def names_ok_def)

text \<open>The key is a matter of the options, the environment and the key store.\<close>

lemma wal_key_keys: "ps_keys s = ps_keys t \<Longrightarrow> fst (wal_key P key s) = fst (wal_key P key t)"
  by (simp add: wal_key_def Let_def ret_def try_catch_def bnd_def on_keys_def split: prod.split sum.split)

lemma wal_key_keeps:
  assumes "wal_key P key s = (r, s')"
  shows "st_disk s' = st_disk s \<and> st_proc s' = st_proc s \<and> ps_randoms s' = ps_randoms s \<and> (\<exists>k. r = Inr k)"
  using assms
  by (auto simp: wal_key_def Let_def ret_def try_catch_def bnd_def on_keys_def split: if_splits prod.splits sum.splits)

lemma more_keys: "site.more s = site.more t \<Longrightarrow> ps_keys s = ps_keys t \<and> ps_randoms s = ps_randoms t"
  by (cases s; cases t) simp

lemma on_disk_more: "on_disk m s = (r, s') \<Longrightarrow> site.more s' = site.more s \<and> st_proc s' = st_proc s"
  by (auto elim!: on_diskE)

section \<open>The archive over any store\<close>

locale wal_store = storage_provider "pe_disk A" pv inv obj mine
  for A :: pitr_env and pv :: "pitr_site provider" and inv :: "pitr_site \<Rightarrow> bool" and obj :: "pitr_site \<Rightarrow> string list \<Rightarrow> bytes option"
    and mine :: "string list \<Rightarrow> bool"
begin

text \<open>What a step of the service that is not an upload keeps.\<close>

definition keeps :: "string list set \<Rightarrow> (pitr_site, 'a) prog \<Rightarrow> bool" where
  "keeps X m \<longleftrightarrow> (\<forall>s r s'. inv s \<longrightarrow> m s = (r, s') \<longrightarrow> inv s' \<and> (\<forall>j. store_key j \<longrightarrow> obj s' j = obj s j) \<and>
     (\<forall>q. q \<notin> X \<longrightarrow> \<not> mine q \<longrightarrow> file_on (st_disk s') q = file_on (st_disk s) q))"

lemma keepsD: "keeps X m \<Longrightarrow> inv s \<Longrightarrow> m s = (r, s') \<Longrightarrow> inv s' \<and> (\<forall>j. store_key j \<longrightarrow> obj s' j = obj s j) \<and>
     (\<forall>q. q \<notin> X \<longrightarrow> \<not> mine q \<longrightarrow> file_on (st_disk s') q = file_on (st_disk s) q)"
  unfolding keeps_def by blast

lemma keeps_bnd: "keeps X m \<Longrightarrow> (\<And>x. keeps X (k x)) \<Longrightarrow> keeps X (bnd m k)"
proof -
  assume m: "keeps X m" and k: "\<And>x. keeps X (k x)"
  have "inv s' \<and> (\<forall>j. store_key j \<longrightarrow> obj s' j = obj s j) \<and> (\<forall>q. q \<notin> X \<longrightarrow> \<not> mine q \<longrightarrow> file_on (st_disk s') q = file_on (st_disk s) q)"
    if i: "inv s" and run: "bnd m k s = (r, s')" for s r s'
  proof -
    obtain x t where t: "m s = (x, t)" by fastforce
    note 1 = keepsD [OF m i t]
    show ?thesis
    proof (cases x)
      case (Inl e)
      with t run 1 show ?thesis by (simp add: bnd_def)
    next
      case (Inr y)
      with t run have "k y t = (r, s')" by (simp add: bnd_def)
      from keepsD [OF k _ this] 1 show ?thesis by simp
    qed
  qed
  then show ?thesis unfolding keeps_def by blast
qed

lemma keeps_ret: "keeps X (ret x)" "keeps X (throw e)" "keeps X (lift_res c)"
  by (simp_all add: keeps_def prog_defs)

lemma keeps_try_catch: "keeps X m \<Longrightarrow> (\<And>e. keeps X (h e)) \<Longrightarrow> keeps X (try_catch m h)"
proof -
  assume m: "keeps X m" and k: "\<And>x. keeps X (h x)"
  have "inv s' \<and> (\<forall>j. store_key j \<longrightarrow> obj s' j = obj s j) \<and> (\<forall>q. q \<notin> X \<longrightarrow> \<not> mine q \<longrightarrow> file_on (st_disk s') q = file_on (st_disk s) q)"
    if i: "inv s" and run: "try_catch m h s = (r, s')" for s r s'
  proof -
    obtain x t where t: "m s = (x, t)" by fastforce
    note 1 = keepsD [OF m i t]
    show ?thesis
    proof (cases x)
      case (Inr e)
      with t run 1 show ?thesis by (simp add: try_catch_def)
    next
      case (Inl y)
      with t run have "h y t = (r, s')" by (simp add: try_catch_def)
      from keepsD [OF k _ this] 1 show ?thesis by simp
    qed
  qed
  then show ?thesis unfolding keeps_def by blast
qed

lemma keeps_if: "keeps X m \<Longrightarrow> keeps X n \<Longrightarrow> keeps X (if b then m else n)"
  by simp

lemma keeps_disk: "within Y m \<Longrightarrow> Y \<subseteq> X \<Longrightarrow> \<forall>q\<in>Y. \<not> mine q \<Longrightarrow> stable wf_disk m \<Longrightarrow> keeps X (on_disk m)"
proof -
  assume w: "within Y m" and Y: "Y \<subseteq> X" "\<forall>q\<in>Y. \<not> mine q" and st: "stable wf_disk m"
  show ?thesis unfolding keeps_def
  proof (intro allI impI, goal_cases)
    case (1 s r s')
    then obtain d where d: "m (st_disk s) = (r, d)" "s' = s\<lparr>st_disk := d\<rparr>" by (auto elim: on_diskE)
    have "\<forall>q. q \<notin> X \<longrightarrow> file_on d q = file_on (st_disk s) q" using withinD [OF w d(1)] Y(1) by auto
    moreover have "file_on d q = file_on (st_disk s) q" if "mine q" for q using withinD [OF w d(1)] Y(2) that by auto
    moreover have "wf_disk (st_disk s) \<Longrightarrow> wf_disk d" using wf_after [OF st _ d(1)] .
    ultimately show ?case using local_step [OF 1(1), of d] d(2) by simp
  qed
qed

lemma keeps_list: "store_key k \<Longrightarrow> keeps X (pv_list pv (key_path k))"
  unfolding keeps_def by (intro allI impI) (drule (2) listing, simp)

lemma keeps_download: "store_key k \<Longrightarrow> segs (pe_disk A) l \<in> X \<Longrightarrow> \<not> mine (segs (pe_disk A) l) \<Longrightarrow> keeps X (pv_download pv (key_path k) l)"
  unfolding keeps_def by (intro allI impI) (drule (3) download, metis)

lemma keeps_wal_key: "keeps X (wal_key A key)"
proof -
  have "inv s' \<and> obj s' = obj s \<and> st_disk s' = st_disk s" if "inv s" "wal_key A key s = (r, s')" for s r s'
    using wal_key_keeps [OF that(2)] elsewhere [OF that(1), of s'] by simp
  then show ?thesis unfolding keeps_def by metis
qed

lemma keeps_random: "keeps X (random_iv A)"
proof -
  have "inv s' \<and> obj s' = obj s \<and> st_disk s' = st_disk s" if "inv s" "random_iv A s = (r, s')" for s r s'
    using that elsewhere [OF that(1), of s'] by (auto simp: random_iv_def)
  then show ?thesis unfolding keeps_def by metis
qed


abbreviation tmp_free :: "string \<Rightarrow> string \<Rightarrow> bool" where
  "tmp_free kind wal \<equiv> \<not> mine (segs (pe_disk A) (temp_file A kind wal))"

definition archived :: "string \<Rightarrow> pitr_site \<Rightarrow> bool" where
  "archived wal s \<longleftrightarrow> (\<exists>j. store_key j \<and> prefix (butlast (wal_key_path A wal)) j \<and> ends_with (key_path j) wal \<and> obj s j \<noteq> None)"

lemma already_run:
  assumes "inv s" and "names_ok A wal" and "already_archived A pv wal s = (r, s')"
  shows "inv s' \<and> (\<forall>j. store_key j \<longrightarrow> obj s' j = obj s j) \<and> (\<forall>q. file_on (st_disk s') q = file_on (st_disk s) q) \<and>
    site.more s' = site.more s \<and> (\<exists>b. r = Inr b \<and> (b \<longrightarrow> archived wal s))"
proof -
  let ?k = "butlast (wal_key_path A wal)"
  have k: "wal_dir A wal = key_path ?k" "store_key ?k" using wal_names [OF assms(2)] by simp_all
  obtain l t where l: "pv_list pv (key_path ?k) s = (l, t)" by fastforce
  from assms(3) l have s': "s' = t" and r: "r = (case l of Inl e \<Rightarrow> Inr False | Inr fs \<Rightarrow> Inr (list_ex (\<lambda>f. ends_with f wal) fs))"
    by (auto simp: already_archived_def k(1) try_catch_def bnd_def ret_def split: sum.splits)
  note L = listing [OF assms(1) k(2) l]
  have "archived wal s" if fs: "l = Inr fs" and ex: "list_ex (\<lambda>f. ends_with f wal) fs" for fs
  proof -
    obtain f where f: "f \<in> set fs" "ends_with f wal" using ex by (auto simp: list_ex_iff)
    with L fs obtain p where "f = key_path (?k @ p)" "store_key (?k @ p)" "obj s (?k @ p) \<noteq> None" by auto
    with f(2) show ?thesis unfolding archived_def by (intro exI [of _ "?k @ p"]) auto
  qed
  with L s' r show ?thesis by (auto split: sum.split)
qed

lemma keeps_ensureDir: "keeps X (on_disk (ensureDir (pe_disk A) d))"
  by (rule keeps_disk [where Y = "{}"]) (auto intro: within stable)

lemma keeps_write: "\<not> mine (segs (pe_disk A) p) \<Longrightarrow> segs (pe_disk A) p \<in> X \<Longrightarrow> keeps X (on_disk (writeFileSync (pe_disk A) p b))"
  by (rule keeps_disk [where Y = "{segs (pe_disk A) p}"]) (auto intro: within stable)

lemma keeps_read: "keeps X (on_disk (readFileSync (pe_disk A) p))"
  by (rule keeps_disk [where Y = "{}"]) (auto intro: within stable)

lemma keeps_remove: "\<not> mine (segs (pe_disk A) p) \<Longrightarrow> segs (pe_disk A) p \<in> X \<Longrightarrow> keeps X (on_disk (remove_file (pe_disk A) p))"
  by (rule keeps_disk [where Y = "{segs (pe_disk A) p}"]) (auto simp: remove_file_def intro!: within stable)

text \<open>An upload that is reported as done has stored the data; whatever the outcome, every other object stays.\<close>

lemma upload_wal_run:
  assumes i: "inv s" and n: "names_ok A wal" and t: "tmp_free ''upload_'' wal" and run: "upload_wal A pv wal d s = (r, s')"
  shows "inv s' \<and> (\<forall>j. store_key j \<longrightarrow> j \<noteq> wal_key_path A wal \<longrightarrow> obj s' j = obj s j) \<and>
    (r = Inr True \<longrightarrow> obj s' (wal_key_path A wal) = Some d)"
proof -
  let ?tmp = "temp_file A ''upload_'' wal" let ?E = "pe_disk A" let ?k = "wal_key_path A wal"
  have k: "wal_remote A wal = key_path ?k" "store_key ?k" using wal_names [OF n] by simp_all
  obtain r1 s1 where m: "on_disk (ensureDir ?E (path_dirname ?tmp)) s = (r1, s1)" by fastforce
  note M = keepsD [OF keeps_ensureDir i m, where X = "{}"]
  show ?thesis
  proof (cases r1)
    case (Inl e)
    with run m M show ?thesis by (auto simp: upload_wal_def Let_def bnd_def)
  next
    case (Inr u)
    obtain r2 s2 where w: "on_disk (writeFileSync ?E ?tmp d) s1 = (r2, s2)" by fastforce
    have i1: "inv s1" using M by simp
    note W = keepsD [OF keeps_write [OF t, of "{segs ?E ?tmp}"] i1 w, simplified]
    show ?thesis
    proof (cases r2)
      case (Inl e)
      with run m w Inr M W show ?thesis by (auto simp: upload_wal_def Let_def bnd_def)
    next
      case r2: (Inr v)
      have data: "file_on (st_disk s2) (segs ?E ?tmp) = Some d"
        using w r2 writeFileSync_Inr by (auto elim!: on_diskE)
      obtain r3 s3 where up: "pv_upload pv ?tmp (key_path ?k) s2 = (r3, s3)" by fastforce
      have i2: "inv s2" using W by simp
      note U = upload [OF i2 k(2) t up]
      obtain r4 s4 where rm: "on_disk (remove_file ?E ?tmp) s3 = (r4, s4)" by fastforce
      have i3: "inv s3" using U by simp
      note R = keepsD [OF keeps_remove [OF t, of "{segs ?E ?tmp}"] i3 rm, simplified]
      from run m w Inr r2 up rm have s': "s' = s4" and r: "r = Inr True \<Longrightarrow> (\<exists>x. r3 = Inr x)"
        by (auto simp: upload_wal_def Let_def bnd_def k(1) try_finally_def try_catch_def ret_def split: sum.splits)
      from M W U R data k(2) show ?thesis unfolding s' by (auto dest!: r)
    qed
  qed
qed

lemma random_iv_run: "random_iv A s = (r, t) \<Longrightarrow> pitr_ok A \<Longrightarrow> \<exists>iv. r = Inr iv \<and> length iv = IV_LENGTH"
  by (auto simp: random_iv_def pitr_ok_def)

text \<open>What \<open>archiveWal\<close> guarantees, in every run.\<close>

lemma archive_to_run:
  assumes i: "inv s" and n: "names_ok A wal" and t: "tmp_free ''upload_'' wal" and ok: "pitr_ok A" and run: "archive_to A pv wal p key s = (r, s')"
  shows "inv s' \<and> (\<forall>j. store_key j \<longrightarrow> j \<noteq> wal_key_path A wal \<longrightarrow> obj s' j = obj s j) \<and>
    (r = Inr True \<longrightarrow> archived wal s \<and> obj s' (wal_key_path A wal) = obj s (wal_key_path A wal) \<or>
      (\<exists>raw k iv d. file_on (st_disk s) (segs (pe_disk A) p) = Some raw \<and> fst (wal_key A key s) = Inr k \<and>
        (truthy_s k \<longrightarrow> length iv = IV_LENGTH) \<and> encode_wal A k iv raw = Inr d \<and> obj s' (wal_key_path A wal) = Some d))"
proof -
  let ?k = "wal_key_path A wal"
  have k: "store_key ?k" using wal_names [OF n] by simp
  obtain r1 s1 where a: "already_archived A pv wal s = (r1, s1)" by fastforce
  note L = already_run [OF i n a]
  then obtain b where b: "r1 = Inr b" "b \<longrightarrow> archived wal s" by blast
  show ?thesis
  proof (cases b)
    case True
    with run a b L k show ?thesis by (auto simp: archive_to_def bnd_def ret_def)
  next
    case False
    obtain r2 s2 where rd: "on_disk (readFileSync (pe_disk A) p) s1 = (r2, s2)" by fastforce
    have i1: "inv s1" using L by simp
    note R = keepsD [OF keeps_read i1 rd, where X = "{}"]
    show ?thesis
    proof (cases r2)
      case (Inl e)
      with run a b False rd L R show ?thesis by (auto simp: archive_to_def bnd_def)
    next
      case (Inr raw)
      have raw: "file_on (st_disk s) (segs (pe_disk A) p) = Some raw"
      proof -
        obtain d where "readFileSync (pe_disk A) p (st_disk s1) = (Inr raw, d)" using rd Inr by (auto elim!: on_diskE)
        from readFileSync_Inr [OF this] L show ?thesis by simp
      qed
      have more2: "site.more s2 = site.more s" using on_disk_more [OF rd] L by simp
      obtain r3 s3 where wk: "wal_key A key s2 = (r3, s3)" by fastforce
      then obtain kk where kk: "r3 = Inr kk" using wal_key_keeps by blast
      have "ps_keys s = ps_keys s2" using more_keys [OF more2] by simp
      from wal_key_keys [OF this, of A key] have key: "fst (wal_key A key s) = Inr kk" using wk kk by simp
      have i2: "inv s2" using R by simp
      note K = keepsD [OF keeps_wal_key i2 wk, where X = "{}"]
      obtain r4 s4 where rn: "(if truthy_s kk then random_iv A else ret []) s3 = (r4, s4)" by fastforce
      then obtain iv where iv: "r4 = Inr iv" "truthy_s kk \<longrightarrow> length iv = IV_LENGTH"
        using random_iv_run [OF _ ok, of s3 r4 s4] by (cases "truthy_s kk") (auto simp: ret_def)
      have i3: "inv s3" using K by simp
      note N = keepsD [OF keeps_if [OF keeps_random keeps_ret(1)] i3 rn, where X = "{}"]
      show ?thesis
      proof (cases "encode_wal A kk iv raw")
        case (Inl e)
        with run a b False rd Inr wk kk rn iv L R K N show ?thesis
          by (auto simp: archive_to_def bnd_def lift_res_def)
      next
        case enc: (Inr d)
        with run a b False rd Inr wk kk rn iv have up: "upload_wal A pv wal d s4 = (r, s')"
          by (auto simp: archive_to_def bnd_def lift_res_def)
        have i4: "inv s4" using N by simp
        from upload_wal_run [OF i4 n t up] L R K N raw key enc iv(2) show ?thesis by auto
      qed
    qed
  qed
qed


section \<open>Fetching\<close>

definition only_segment :: "string \<Rightarrow> pitr_site \<Rightarrow> bool" where
  "only_segment wal s \<longleftrightarrow> (\<forall>j. store_key j \<and> prefix (take 3 (wal_key_path A wal)) j \<and> ends_with (key_path j) wal \<and> obj s j \<noteq> None \<longrightarrow>
     j = wal_key_path A wal)"

lemma download_wal_run:
  assumes i: "inv s" and n: "names_ok A wal" and t: "\<not> mine (segs (pe_disk A) tmp)" and u: "only_segment wal s"
    and run: "download_wal A pv wal tmp s = (Inr True, s')"
  shows "file_on (st_disk s') (segs (pe_disk A) tmp) = obj s (wal_key_path A wal) \<and> obj s (wal_key_path A wal) \<noteq> None \<and> site.more s' = site.more s"
proof -
  let ?k = "wal_key_path A wal" let ?top = "[''pitr'', pe_database A, ''wal'']"
  have k: "wal_remote A wal = key_path ?k" "store_key ?k"
    "''pitr'' @ [slash] @ pe_database A @ [slash] @ ''wal'' = key_path ?top" "store_key ?top" using wal_names [OF n] by simp_all
  obtain r1 s1 where d: "pv_download pv (key_path ?k) tmp s = (r1, s1)" by fastforce
  note D = download [OF i k(2) t d]
  show ?thesis
  proof (cases r1)
    case (Inr x)
    with run d D show ?thesis by (auto simp: download_wal_def k(1) try_catch_def bnd_def ret_def)
  next
    case (Inl e)
    obtain r2 s2 where l: "pv_list pv (key_path ?top) s1 = (r2, s2)" by fastforce
    have i1: "inv s1" using D by simp
    note L = listing [OF i1 k(4) l]
    from run d Inl l k(3) obtain fs m where fs: "r2 = Inr fs" and m: "List.find (\<lambda>f. ends_with f wal) fs = Some m"
      and run': "try_catch (seqp (pv_download pv m tmp) (ret True)) (\<lambda>_. ret False) s2 = (Inr True, s')"
      unfolding download_wal_def k(1,3) by (auto simp: try_catch_def bnd_def ret_def split: sum.splits option.splits)
    from find_SomeD [OF m] have "m \<in> set fs" "ends_with m wal" by auto
    with L fs obtain p where p: "m = key_path (?top @ p)" "store_key (?top @ p)" "obj s1 (?top @ p) \<noteq> None" by auto
    have "?top @ p = ?k"
      using u p \<open>ends_with m wal\<close> D k(2) unfolding only_segment_def by (auto simp: wal_key_path_def)
    with p(1) have m: "m = key_path ?k" by (simp only:)
    obtain r3 s3 where d2: "pv_download pv (key_path ?k) tmp s2 = (r3, s3)" by fastforce
    have i2: "inv s2" using L by simp
    from run' d2 m obtain x where "r3 = Inr x" "s' = s3" by (auto simp: try_catch_def bnd_def ret_def split: sum.splits)
    with download [OF i2 k(2) t d2] L D k(2) show ?thesis by auto
  qed
qed

text \<open>What \<open>fetchWal\<close> leaves at the destination when it answers true.\<close>

lemma fetch_from_run:
  assumes i: "inv s" and n: "names_ok A wal" and t: "tmp_free ''download_'' wal" and u: "only_segment wal s"
    and run: "fetch_from A pv wal dest key s = (Inr True, s')"
  shows "\<exists>d k. obj s (wal_key_path A wal) = Some d \<and> fst (wal_key A key s) = Inr k \<and>
    file_on (st_disk s') (segs (pe_disk A) dest) = Some (decode_wal A k d)"
proof -
  let ?E = "pe_disk A" let ?tmp = "temp_file A ''download_'' wal"
  from run obtain x1 s1 s2 d s3 x4 s4 k s5 x6 s6 x7 where
    m: "on_disk (ensureDir ?E (path_dirname ?tmp)) s = (Inr x1, s1)" and dl: "download_wal A pv wal ?tmp s1 = (Inr True, s2)"
    and rd: "on_disk (readFileSync ?E ?tmp) s2 = (Inr d, s3)" and rm: "on_disk (remove_file ?E ?tmp) s3 = (Inr x4, s4)"
    and wk: "wal_key A key s4 = (Inr k, s5)" and m2: "on_disk (ensureDir ?E (path_dirname dest)) s5 = (Inr x6, s6)"
    and wr: "on_disk (writeFileSync ?E dest (decode_wal A k d)) s6 = (Inr x7, s')"
    unfolding fetch_from_def Let_def
    by (auto elim!: bnd_InrE simp: ret_def split: if_splits)
  note M = keepsD [OF keeps_ensureDir i m, where X = "{}"]
  have u1: "only_segment wal s1" using u M unfolding only_segment_def by auto
  have i1: "inv s1" using M by simp
  note D = download_wal_run [OF i1 n t u1 dl]
  have k: "store_key (wal_key_path A wal)" using wal_names [OF n] by simp
  obtain d3 where "readFileSync ?E ?tmp (st_disk s2) = (Inr d, d3)" using rd by (auto elim: on_diskE)
  from readFileSync_Inr [OF this] D M k have obj: "obj s (wal_key_path A wal) = Some d" by simp
  have more: "site.more s4 = site.more s" using on_disk_more [OF m] on_disk_more [OF rd] on_disk_more [OF rm] D by simp
  have "ps_keys s = ps_keys s4" using more_keys [OF more] by simp
  from wal_key_keys [OF this, of A key] wk have key: "fst (wal_key A key s) = Inr k" by simp
  obtain d7 where "writeFileSync ?E dest (decode_wal A k d) (st_disk s6) = (Inr x7, d7)" "s' = s6\<lparr>st_disk := d7\<rparr>"
    using wr by (auto elim: on_diskE)
  with writeFileSync_Inr obj key show ?thesis by fastforce
qed

text \<open>The archive is faithful: what is fetched is what was archived, with the same key, as long as the object
  has not been touched.\<close>

lemma archive_fetch:
  assumes i: "inv s" and n: "names_ok A wal" and t: "tmp_free ''upload_'' wal" "tmp_free ''download_'' wal" and ok: "pitr_ok A"
    and new: "\<not> archived wal s" and raw: "file_on (st_disk s) (segs (pe_disk A) p) = Some raw" "decodable A raw"
    and ar: "archive_to A pv wal p key s = (Inr True, s1)"
    and s2: "inv s2" "obj s2 (wal_key_path A wal) = obj s1 (wal_key_path A wal)" "only_segment wal s2"
    and key: "fst (wal_key A key' s2) = fst (wal_key A key s)"
    and fe: "fetch_from A pv wal dest key' s2 = (Inr True, s3)"
  shows "file_on (st_disk s3) (segs (pe_disk A) dest) = Some raw"
proof -
  from archive_to_run [OF i n t(1) ok ar] new raw(1) obtain k iv d where
    "fst (wal_key A key s) = Inr k" "truthy_s k \<longrightarrow> length iv = IV_LENGTH" "encode_wal A k iv raw = Inr d" "obj s1 (wal_key_path A wal) = Some d"
    by auto
  moreover from fetch_from_run [OF s2(1) n t(2) s2(3) fe] obtain d' k' where
    "obj s2 (wal_key_path A wal) = Some d'" "fst (wal_key A key' s2) = Inr k'" "file_on (st_disk s3) (segs (pe_disk A) dest) = Some (decode_wal A k' d')"
    by auto
  ultimately show ?thesis using s2(2) key decode_encode [OF ok raw(2)] by auto
qed

end

end
