(* ===== verification/WalRecovery.thy ===== *)
theory WalRecovery
  imports WalCorrect
begin

text \<open>
  The WAL archive on local storage: the contract of \<open>WalCorrect\<close> on the provider of the code, and runs
  in which no system call fails, where archiving and fetching do answer true.
\<close>

interpretation local_wal: wal_store A "local_provider (pe_disk A) (local_basePath c)" "\<lambda>s. wf_disk (st_disk s)"
    "local_obj (pe_disk A) (local_basePath c)" "prefix (segs (pe_disk A) (local_basePath c))"
  for A :: pitr_env and c :: json
  by (rule wal_store.intro) (rule local_store.storage_provider_axioms)

lemma ends_with_self: "ends_with (a @ w) w"
  by (simp add: ends_with_def)

section \<open>Where the service works\<close>

text \<open>The paths it writes: both temporary files, the segment in the store, the destination.\<close>

definition work_paths :: "pitr_env \<Rightarrow> json \<Rightarrow> string \<Rightarrow> string \<Rightarrow> string list set" where
  "work_paths P c wal dest = {segs (pe_disk P) (temp_file P ''upload_'' wal), segs (pe_disk P) (temp_file P ''download_'' wal),
     segs (pe_disk P) (local_basePath c) @ wal_key_path P wal, segs (pe_disk P) dest}"

definition healthy :: "pitr_env \<Rightarrow> json \<Rightarrow> string \<Rightarrow> string \<Rightarrow> disk \<Rightarrow> bool" where
  "healthy P c wal dest d \<longleftrightarrow> reliable (pe_disk P) \<and> v_cwd (pe_disk P) \<noteq> [] \<and> is_absolute (v_cwd (pe_disk P)) \<and> names_ok P wal \<and>
     segs (pe_disk P) (path_dirname dest) = butlast (segs (pe_disk P) dest) \<and>
     places (work_paths P c wal dest) \<and> rooms (work_paths P c wal dest) d \<and> wf_disk d \<and>
     \<not> prefix (segs (pe_disk P) (local_basePath c)) (segs (pe_disk P) (temp_file P ''upload_'' wal)) \<and>
     \<not> prefix (segs (pe_disk P) (local_basePath c)) (segs (pe_disk P) (temp_file P ''download_'' wal))"

lemma plain_append: "plain_name w \<Longrightarrow> slash \<notin> set k \<Longrightarrow> length k > 2 \<Longrightarrow> plain_name (k @ w)"
proof -
  assume w: "plain_name w" "slash \<notin> set k" "length k > 2"
  have "length s > 2 \<Longrightarrow> s \<noteq> [] \<and> s \<noteq> ''.'' \<and> s \<noteq> ''..''" for s :: string by auto
  from this [of "k @ w"] w show ?thesis by (simp add: plain_name_def)
qed

lemma temp_segs:
  assumes "v_cwd (pe_disk P) \<noteq> []" and "plain_name w" and "slash \<notin> set k" and "length k > 2"
  shows "segs (pe_disk P) (path_dirname (temp_file P k w)) = butlast (segs (pe_disk P) (temp_file P k w))"
proof -
  have t: "temp_file P k w = path_join [v_cwd (pe_disk P), key_path [''tmp'', k @ w]]"
    using assms by (cases "k @ w") (auto simp: temp_file_def path_join_def)
  have p: "\<forall>x\<in>set [''tmp'', k @ w]. plain_name x" using plain_words plain_append [OF assms(2-4)] by simp
  from path_join_file [OF assms(1) _ p] show ?thesis unfolding t by (simp add: butlast_append)
qed

lemma healthyD:
  assumes "healthy P c wal dest d"
  shows "reliable (pe_disk P)" "names_ok P wal" "places (work_paths P c wal dest)" "rooms (work_paths P c wal dest) d" "wf_disk d"
    "segs (pe_disk P) (path_dirname dest) = butlast (segs (pe_disk P) dest)"
    "segs (pe_disk P) (path_dirname (temp_file P ''upload_'' wal)) = butlast (segs (pe_disk P) (temp_file P ''upload_'' wal))"
    "segs (pe_disk P) (path_dirname (temp_file P ''download_'' wal)) = butlast (segs (pe_disk P) (temp_file P ''download_'' wal))"
    "\<not> prefix (segs (pe_disk P) (local_basePath c)) (segs (pe_disk P) (temp_file P ''upload_'' wal))"
    "\<not> prefix (segs (pe_disk P) (local_basePath c)) (segs (pe_disk P) (temp_file P ''download_'' wal))"
proof -
  have s: "slash \<notin> set ''upload_''" "slash \<notin> set ''download_''" by (simp_all add: slash_def)
  show "segs (pe_disk P) (path_dirname (temp_file P ''upload_'' wal)) = butlast (segs (pe_disk P) (temp_file P ''upload_'' wal))"
    "segs (pe_disk P) (path_dirname (temp_file P ''download_'' wal)) = butlast (segs (pe_disk P) (temp_file P ''download_'' wal))"
    using assms temp_segs [OF _ _ s(1), of P wal] temp_segs [OF _ _ s(2), of P wal] by (simp_all add: healthy_def names_ok_def)
qed (use assms in \<open>simp_all add: healthy_def\<close>)

lemma on_disk_run: "m (st_disk s) = (r, d) \<Longrightarrow> on_disk m s = (r, s\<lparr>st_disk := d\<rparr>)"
  by (simp add: on_disk_def)

lemma remove_file_run:
  assumes "reliable E" and "rooms K d" and "segs E p \<in> K" and "file_on d (segs E p) = Some b"
  shows "\<exists>d'. remove_file E p d = (Inr (), d') \<and> rooms K d' \<and> (\<forall>q. file_on d' q = (if q = segs E p then None else file_on d q))"
  using unlinkSync_run [OF assms(1,2,4,3)] existsSync_file [OF assms(4)] by (simp add: remove_file_def bnd_def)

lemma upload_wal_total:
  assumes h: "healthy P c wal dest (st_disk s)"
  shows "\<exists>d. upload_wal P (local_provider (pe_disk P) (local_basePath c)) wal x s = (Inr True, s\<lparr>st_disk := d\<rparr>) \<and> rooms (work_paths P c wal dest) d"
proof -
  let ?E = "pe_disk P" let ?K = "work_paths P c wal dest" let ?tmp = "temp_file P ''upload_'' wal" let ?b = "local_basePath c"
  note H = healthyD [OF h]
  have K: "segs ?E ?tmp \<in> ?K" "segs ?E ?b @ wal_key_path P wal \<in> ?K" by (simp_all add: work_paths_def)
  obtain d1 where d1: "ensureDir ?E (path_dirname ?tmp) (st_disk s) = (Inr (), d1)" "rooms ?K d1" "is_dir (node_at (d_root d1) (butlast (segs ?E ?tmp)))"
    using ensure_parent_run [OF H(1,3,4) K(1) H(7)] by blast
  obtain d2 where d2: "writeFileSync ?E ?tmp x d1 = (Inr (), d2)" "rooms ?K d2" "\<forall>q. file_on d2 q = (if q = segs ?E ?tmp then Some x else file_on d1 q)"
    using writeFileSync_run [OF H(1,3) d1(2) K(1) d1(3)] by blast
  have t: "file_on d2 (segs ?E ?tmp) = Some x" using d2(3) by simp
  obtain y d3 where d3: "local_upload ?E ?b ?tmp (key_path (wal_key_path P wal)) d2 = (Inr y, d3)" "rooms ?K d3"
      "\<forall>p. file_on d3 p = (if p = segs ?E ?b @ wal_key_path P wal then Some x else file_on d2 p)"
    using local_upload_run [OF H(1,3) d2(2) K(2) wal_names(2) [OF H(2)] basePath_nonempty refl t] by blast
  have "\<exists>b. file_on d3 (segs ?E ?tmp) = Some b" using d3(3) t by simp
  then obtain d4 where d4: "remove_file ?E ?tmp d3 = (Inr (), d4)" "rooms ?K d4"
    using remove_file_run [OF H(1) d3(2) K(1)] by blast
  have "upload_wal P (local_provider ?E ?b) wal x s = (Inr True, s\<lparr>st_disk := d4\<rparr>)"
    using d1(1) d2(1) d3(1) d4(1) wal_names(1) [OF H(2)]
    by (simp add: upload_wal_def Let_def bnd_def on_disk_def try_finally_def try_catch_def local_provider_def ret_def)
  with d4 show ?thesis by blast
qed

section \<open>Runs without failures\<close>

lemma healthy_root: "healthy P c wal dest d \<Longrightarrow> d_root d' = d_root d \<Longrightarrow> healthy P c wal dest d'"
  by (simp add: healthy_def rooms_def)

lemma healthyI: "healthy P c wal dest d \<Longrightarrow> rooms (work_paths P c wal dest) d' \<Longrightarrow> wf_disk d' \<Longrightarrow> healthy P c wal dest d'"
  by (simp add: healthy_def)

lemma already_local:
  assumes "already_archived P (local_provider (pe_disk P) b) wal s = (r, s')"
  shows "\<exists>x d. r = Inr x \<and> s' = s\<lparr>st_disk := d\<rparr> \<and> d_root d = d_root (st_disk s)"
proof -
  obtain l d where l: "local_list (pe_disk P) b (wal_dir P wal) (st_disk s) = (l, d)" by fastforce
  with assms have "s' = s\<lparr>st_disk := d\<rparr>" "\<exists>x. r = Inr x"
    by (auto simp: already_archived_def local_provider_def on_disk_def try_catch_def bnd_def ret_def split: sum.splits)
  with local_list_root [OF l] show ?thesis by blast
qed

lemma wal_key_site: "wal_key P key s = (Inr k, s') \<Longrightarrow> \<exists>ks. s' = s\<lparr>ps_keys := ks\<rparr>"
proof -
  have same: "\<exists>ks. s = s\<lparr>ps_keys := ks\<rparr>" by (rule exI [of _ "ps_keys s"]) simp
  assume "wal_key P key s = (Inr k, s')"
  then show ?thesis using same
    by (auto simp: wal_key_def Let_def ret_def try_catch_def bnd_def on_keys_def split: if_splits prod.splits sum.splits)
qed

definition usable_key :: "string option \<Rightarrow> bool" where
  "usable_key k \<longleftrightarrow> (truthy_s k \<longrightarrow> length (hex_bytes (the k)) = 32)"

lemma encode_total: "usable_key k \<Longrightarrow> \<exists>d. encode_wal P k iv raw = Inr d"
  by (auto simp: usable_key_def encode_wal_def seal_def Let_def)

lemma archive_to_total:
  assumes h: "healthy P c wal dest (st_disk s)" and p: "file_on (st_disk s) (segs (pe_disk P) p) = Some raw"
    and key: "fst (wal_key P key s) = Inr k" "usable_key k"
  shows "\<exists>s1. archive_to P (local_provider (pe_disk P) (local_basePath c)) wal p key s = (Inr True, s1) \<and> rooms (work_paths P c wal dest) (st_disk s1)"
proof -
  let ?pv = "local_provider (pe_disk P) (local_basePath c) :: pitr_site provider"
  obtain r s1 where a: "already_archived P ?pv wal s = (r, s1)" by fastforce
  then obtain b d where b: "r = Inr b" "s1 = s\<lparr>st_disk := d\<rparr>" "d_root d = d_root (st_disk s)" using already_local by blast
  show ?thesis
  proof (cases b)
    case True
    then show ?thesis using a b healthyD(4) [OF healthy_root [OF h b(3)]] by (simp add: archive_to_def bnd_def ret_def)
  next
    case False
    have p1: "file_on d (segs (pe_disk P) p) = Some raw" using p b(3) by (simp add: file_on_def)
    let ?d = "d\<lparr>d_ops := Suc (d_ops d)\<rparr>" let ?s2 = "s\<lparr>st_disk := ?d\<rparr>"
    have rd: "on_disk (readFileSync (pe_disk P) p) s1 = (Inr raw, ?s2)"
      using readFileSync_run [OF healthyD(1) [OF h] p1] b(2) by (simp add: on_disk_def)
    have "fst (wal_key P key ?s2) = Inr k" using wal_key_keys [of ?s2 s P key] key(1) by simp
    then obtain s3 where wk: "wal_key P key ?s2 = (Inr k, s3)" by (metis prod.collapse)
    then obtain ks where s3: "s3 = ?s2\<lparr>ps_keys := ks\<rparr>" using wal_key_site by blast
    obtain iv s4 where iv: "(if truthy_s k then random_iv P else ret []) s3 = (Inr iv, s4)" "st_disk s4 = ?d"
      using s3 by (cases "truthy_s k") (auto simp: random_iv_def ret_def)
    obtain x where x: "encode_wal P k iv raw = Inr x" using encode_total [OF key(2)] by blast
    have "healthy P c wal dest (st_disk s4)" using healthy_root [OF h] b(3) iv(2) by simp
    then obtain d5 where "upload_wal P ?pv wal x s4 = (Inr True, s4\<lparr>st_disk := d5\<rparr>)" "rooms (work_paths P c wal dest) d5"
      using upload_wal_total by blast
    with a b(1) False rd wk iv(1) x show ?thesis by (simp add: archive_to_def bnd_def lift_res_def)
  qed
qed

lemma resolve_local:
  assumes h: "healthy P c wal dest (st_disk s)" and ch: "fst (store_choice P W st (st_proc s)) = Inr (On_disk c)"
  shows "\<exists>s1. resolveStorageProvider P W st s = (Inr (local_provider (pe_disk P) (local_basePath c)), s1) \<and>
    healthy P c wal dest (st_disk s1) \<and> (\<forall>q. file_on (st_disk s1) q = file_on (st_disk s) q) \<and> site.more s1 = site.more s"
proof -
  let ?B = "segs (pe_disk P) (local_basePath c)"
  note H = healthyD [OF h]
  obtain p where p: "store_choice P W st (st_proc s) = (Inr (On_disk c), p)" using ch by (metis prod.collapse)
  have "?B @ wal_key_path P wal \<in> work_paths P c wal dest" "strict_prefix ?B (?B @ wal_key_path P wal)"
    by (simp_all add: work_paths_def wal_key_path_def strict_prefix_def)
  from ensureDir_run [OF H(1,3,4) this] obtain d where d: "ensureDir (pe_disk P) (local_basePath c) (st_disk s) = (Inr (), d)"
    "rooms (work_paths P c wal dest) d" "\<forall>q. file_on d q = file_on (st_disk s) q" by blast
  have "wf_disk d" using wf_after [OF wf_ensureDir H(5) d(1)] .
  then have "healthy P c wal dest d" using healthyI [OF h d(2)] by simp
  then show ?thesis using d p
    by (simp add: resolveStorageProvider_def bnd_def on_proc_def local_provider_def on_disk_def ret_def)
qed

lemma resolve_InrE:
  assumes "resolveStorageProvider P W st s = (Inr pv, s1)" and "fst (store_choice P W st (st_proc s)) = Inr (On_disk c)" and "wf_disk (st_disk s)"
  shows "pv = local_provider (pe_disk P) (local_basePath c) \<and> wf_disk (st_disk s1) \<and> (\<forall>q. file_on (st_disk s1) q = file_on (st_disk s) q) \<and> site.more s1 = site.more s"
proof -
  obtain p where p: "store_choice P W st (st_proc s) = (Inr (On_disk c), p)" using assms(2) by (metis prod.collapse)
  with assms(1) obtain d where d: "ensureDir (pe_disk P) (local_basePath c) (st_disk s) = (Inr (), d)" "s1 = s\<lparr>st_proc := p, st_disk := d\<rparr>"
    "pv = local_provider (pe_disk P) (local_basePath c)"
    by (auto simp: resolveStorageProvider_def on_proc_def local_provider_def on_disk_def ret_def bnd_def split: prod.splits sum.splits)
  have "wf_disk d" using wf_after [OF wf_ensureDir assms(3) d(1)] .
  moreover have "file_on d q = file_on (st_disk s) q" for q using withinD [OF within_ensureDir d(1), where A = "{}"] by simp
  ultimately show ?thesis using d by simp
qed

lemma wal_source_run: "\<exists>p. wal_source P wal src d = (Inr p, d) \<and> (file_on d (segs (pe_disk P) src) \<noteq> None \<longrightarrow> p = src)"
proof -
  have e: "existsSync E p d = (Inr (node_at (d_root d) (segs E p) \<noteq> None), d)" for E p by (simp add: existsSync_def gets_def)
  have first: "\<exists>p. first_existing E cs x d = (Inr p, d)" for E cs x
    by (induction cs) (auto simp: bnd_def e ret_def)
  show ?thesis
  proof (cases "node_at (d_root d) (segs (pe_disk P) src)")
    case None
    then have "file_on d (segs (pe_disk P) src) = None" by (simp add: file_on_def file_at_def)
    with None first show ?thesis by (simp add: wal_source_def Let_def bnd_def e del: first_existing.simps)
  qed (simp add: wal_source_def Let_def bnd_def e ret_def)
qed

lemma archiveWal_steps:
  assumes ch: "fst (store_choice P W st (st_proc s)) = Inr (On_disk c)" and wf: "wf_disk (st_disk s)"
    and run: "archiveWal P W wal src st key s = (r, s')"
  shows "(\<exists>p s1. archive_to P (local_provider (pe_disk P) (local_basePath c)) wal p key s1 = (r, s') \<and> wf_disk (st_disk s1) \<and>
      (\<forall>q. file_on (st_disk s1) q = file_on (st_disk s) q) \<and> site.more s1 = site.more s) \<or>
    r \<noteq> Inr True \<and> wf_disk (st_disk s') \<and> (\<forall>q. file_on (st_disk s') q = file_on (st_disk s) q)"
proof -
  obtain p where p: "wal_source P wal src (st_disk s) = (Inr p, st_disk s)" using wal_source_run by blast
  have e: "existsSync (pe_disk P) p (st_disk s) = (Inr (node_at (d_root (st_disk s)) (segs (pe_disk P) p) \<noteq> None), st_disk s)"
    by (simp add: existsSync_def gets_def)
  show ?thesis
  proof (cases "node_at (d_root (st_disk s)) (segs (pe_disk P) p)")
    case None
    with run p e wf show ?thesis by (auto simp: archiveWal_def bnd_def on_disk_def ret_def)
  next
    case (Some m)
    obtain x d where st: "statSync (pe_disk P) p (st_disk s) = (x, d)" by fastforce
    have d: "wf_disk d" "\<forall>q. file_on d q = file_on (st_disk s) q"
      using wf_after [OF wf_stat wf st] withinD [OF within_stat st, where A = "{}"] by auto
    let ?s1 = "s\<lparr>st_disk := d\<rparr>"
    show ?thesis
    proof (cases x)
      case (Inl e)
      with run p e Some st d show ?thesis by (auto simp: archiveWal_def bnd_def on_disk_def ret_def)
    next
      case (Inr n)
      obtain y s2 where re: "resolveStorageProvider P W st ?s1 = (y, s2)" by fastforce
      have run2: "(case y of Inl e \<Rightarrow> (Inl e, s2) | Inr pv \<Rightarrow> archive_to P pv wal p key s2) = (r, s')"
        using run p e Some st Inr re by (simp add: archiveWal_def bnd_def on_disk_def)
      show ?thesis
      proof (cases y)
        case (Inr pv)
        from resolve_InrE [OF re [unfolded Inr], of c] ch d run2 Inr show ?thesis by (intro disjI1 exI [of _ p] exI [of _ s2]) auto
      next
        case (Inl e)
        have "wf_disk (st_disk s2) \<and> (\<forall>q. file_on (st_disk s2) q = file_on d q)"
        proof -
          obtain q where q: "store_choice P W st (st_proc s) = (Inr (On_disk c), q)" using ch by (metis prod.collapse)
          with re Inl obtain z d2 where d2: "ensureDir (pe_disk P) (local_basePath c) d = (z, d2)" "st_disk s2 = d2"
            by (auto simp: resolveStorageProvider_def on_proc_def local_provider_def on_disk_def ret_def bnd_def split: prod.splits sum.splits)
          from stableD [OF wf_ensureDir d2(1)] withinD [OF within_ensureDir d2(1), where A = "{}"] d d2(2) show ?thesis by auto
        qed
        with Inl run2 d show ?thesis by auto
      qed
    qed
  qed
qed

lemma archiveWal_entry:
  assumes h: "healthy P c wal dest (st_disk s)" and ch: "fst (store_choice P W st (st_proc s)) = Inr (On_disk c)"
    and src: "file_on (st_disk s) (segs (pe_disk P) src) = Some raw"
  shows "\<exists>s0. archiveWal P W wal src st key s = archive_to P (local_provider (pe_disk P) (local_basePath c)) wal src key s0 \<and>
    healthy P c wal dest (st_disk s0) \<and> (\<forall>q. file_on (st_disk s0) q = file_on (st_disk s) q) \<and> site.more s0 = site.more s"
proof -
  note H = healthyD [OF h]
  let ?d = "(st_disk s)\<lparr>d_ops := Suc (d_ops (st_disk s))\<rparr>"
  have p: "wal_source P wal src (st_disk s) = (Inr src, st_disk s)" using wal_source_run [of P wal src "st_disk s"] src by auto
  have st: "statSync (pe_disk P) src (st_disk s) = (Inr (int (length raw)), ?d)" using statSync_run [OF H(1) src] .
  have e: "existsSync (pe_disk P) src (st_disk s) = (Inr True, st_disk s)" using existsSync_file [OF src] .
  have h1: "healthy P c wal dest (st_disk (s\<lparr>st_disk := ?d\<rparr>))" using healthy_root [OF h] by simp
  obtain s2 where s2: "resolveStorageProvider P W st (s\<lparr>st_disk := ?d\<rparr>) = (Inr (local_provider (pe_disk P) (local_basePath c)), s2)"
    "healthy P c wal dest (st_disk s2)" "\<forall>q. file_on (st_disk s2) q = file_on (st_disk s) q" "site.more s2 = site.more s"
    using resolve_local [OF h1, of W st] ch by auto
  have "archiveWal P W wal src st key s = archive_to P (local_provider (pe_disk P) (local_basePath c)) wal src key s2"
    using p st e s2(1) by (simp add: archiveWal_def bnd_def on_disk_def)
  with s2 show ?thesis by blast
qed

lemma archiveWal_total:
  assumes ok: "pitr_ok P" and h: "healthy P c wal dest (st_disk s)" and ch: "fst (store_choice P W st (st_proc s)) = Inr (On_disk c)"
    and src: "file_on (st_disk s) (segs (pe_disk P) src) = Some raw" and key: "fst (wal_key P key s) = Inr k" "usable_key k"
  shows "\<exists>s0 s1. archiveWal P W wal src st key s = (Inr True, s1) \<and> healthy P c wal dest (st_disk s1) \<and>
    archive_to P (local_provider (pe_disk P) (local_basePath c)) wal src key s0 = (Inr True, s1) \<and>
    wf_disk (st_disk s0) \<and> (\<forall>q. file_on (st_disk s0) q = file_on (st_disk s) q) \<and> site.more s0 = site.more s"
proof -
  obtain s0 where s0: "archiveWal P W wal src st key s = archive_to P (local_provider (pe_disk P) (local_basePath c)) wal src key s0"
    "healthy P c wal dest (st_disk s0)" "\<forall>q. file_on (st_disk s0) q = file_on (st_disk s) q" "site.more s0 = site.more s"
    using archiveWal_entry [OF h ch src] by blast
  note H = healthyD [OF s0(2)]
  have "fst (wal_key P key s0) = Inr k" using wal_key_keys [of s0 s P key] more_keys [OF s0(4)] key(1) by simp
  moreover have "file_on (st_disk s0) (segs (pe_disk P) src) = Some raw" using s0(3) src by simp
  ultimately obtain s1 where s1: "archive_to P (local_provider (pe_disk P) (local_basePath c)) wal src key s0 = (Inr True, s1)"
    "rooms (work_paths P c wal dest) (st_disk s1)" using archive_to_total [OF s0(2) _ _ key(2)] by blast
  have "wf_disk (st_disk s1)" using local_wal.archive_to_run [OF H(5,2,9) ok s1(1)] by simp
  with s0 s1 healthyI [OF h] H(5) show ?thesis by auto
qed

lemma fetchWal_total:
  assumes h: "healthy P c wal dest (st_disk s)" and ch: "fst (store_choice P W st (st_proc s)) = Inr (On_disk c)"
    and o: "local_obj (pe_disk P) (local_basePath c) s (wal_key_path P wal) = Some x" and key: "fst (wal_key P key s) = Inr k"
  shows "\<exists>s1. fetchWal P W wal dest st key s = (Inr True, s1) \<and> file_on (st_disk s1) (segs (pe_disk P) dest) = Some (decode_wal P k x)"
proof -
  let ?E = "pe_disk P" let ?K = "work_paths P c wal dest" let ?tmp = "temp_file P ''download_'' wal" let ?b = "local_basePath c"
  note H = healthyD [OF h]
  have K: "segs ?E ?tmp \<in> ?K" "segs ?E dest \<in> ?K" by (simp_all add: work_paths_def)
  obtain s1 where s1: "resolveStorageProvider P W st s = (Inr (local_provider ?E ?b), s1)"
    "healthy P c wal dest (st_disk s1)" "\<forall>q. file_on (st_disk s1) q = file_on (st_disk s) q" "site.more s1 = site.more s"
    using resolve_local [OF h, of W st] ch by blast
  obtain d2 where d2: "ensureDir ?E (path_dirname ?tmp) (st_disk s1) = (Inr (), d2)" "rooms ?K d2" "\<forall>q. file_on d2 q = file_on (st_disk s1) q"
    using ensure_parent_run [OF H(1,3) healthyD(4) [OF s1(2)] K(1) H(8)] by blast
  have o2: "file_on d2 (segs ?E ?b @ wal_key_path P wal) = Some x" using o d2(3) s1(3) by (simp add: local_obj_def)
  obtain y d3 where d3: "local_download ?E ?b (key_path (wal_key_path P wal)) ?tmp d2 = (Inr y, d3)" "rooms ?K d3"
      "\<forall>p. file_on d3 p = (if p = segs ?E ?tmp then Some x else file_on d2 p)"
    using local_download_run [OF H(1,3) d2(2) K(1) H(8) wal_names(2) [OF H(2)] basePath_nonempty o2] by blast
  have t: "file_on d3 (segs ?E ?tmp) = Some x" using d3(3) by simp
  let ?d4 = "d3\<lparr>d_ops := Suc (d_ops d3)\<rparr>"
  have rd: "readFileSync ?E ?tmp d3 = (Inr x, ?d4)" using readFileSync_run [OF H(1) t] .
  have r4: "rooms ?K ?d4" "file_on ?d4 (segs ?E ?tmp) = Some x" using d3(2) t by simp_all
  obtain d5 where d5: "remove_file ?E ?tmp ?d4 = (Inr (), d5)" "rooms ?K d5" using remove_file_run [OF H(1) r4(1) K(1) r4(2)] by blast
  let ?s5 = "s1\<lparr>st_disk := d5\<rparr>"
  have "fst (wal_key P key ?s5) = Inr k" using wal_key_keys [of ?s5 s P key] more_keys [OF s1(4)] key by simp
  then obtain s6 where wk: "wal_key P key ?s5 = (Inr k, s6)" by (metis prod.collapse)
  then obtain ks where s6: "s6 = ?s5\<lparr>ps_keys := ks\<rparr>" using wal_key_site by blast
  obtain d7 where d7: "ensureDir ?E (path_dirname dest) d5 = (Inr (), d7)" "rooms ?K d7" "is_dir (node_at (d_root d7) (butlast (segs ?E dest)))"
    using ensure_parent_run [OF H(1,3) d5(2) K(2) H(6)] by blast
  obtain d8 where d8: "writeFileSync ?E dest (decode_wal P k x) d7 = (Inr (), d8)"
      "\<forall>q. file_on d8 q = (if q = segs ?E dest then Some (decode_wal P k x) else file_on d7 q)"
    using writeFileSync_run [OF H(1,3) d7(2) K(2) d7(3)] by blast
  have dl: "download_wal P (local_provider ?E ?b) wal ?tmp (s1\<lparr>st_disk := d2\<rparr>) = (Inr True, s1\<lparr>st_disk := d3\<rparr>)"
    using d3(1) wal_names(1) [OF H(2)] by (simp add: download_wal_def try_catch_def bnd_def local_provider_def on_disk_def ret_def)
  have "fetchWal P W wal dest st key s = (Inr True, s6\<lparr>st_disk := d8\<rparr>)"
    using s1(1) d2(1) dl rd d5(1) wk s6 d7(1) d8(1)
    by (simp add: fetchWal_def fetch_from_def Let_def bnd_def on_disk_def ret_def)
  with d8(2) show ?thesis by simp
qed

lemma local_list_total:
  assumes "reliable E" and "room (d_root d) (segs E base @ ks @ r)" and "r \<noteq> []" and "store_key ks" and "base \<noteq> []"
  shows "\<exists>fs d'. local_list E base (key_path ks) d = (Inr fs, d')"
proof -
  let ?d = "path_join [base, key_path ks]"
  have seg: "segs E ?d = segs E base @ ks" using assms(4,5) by (simp add: segs_key)
  have "strict_prefix (segs E base @ ks) (segs E base @ ks @ r)" using assms(3) by (simp add: strict_prefix_def)
  with assms(2) show ?thesis
  proof (cases rule: room_above)
    case (2 es)
    have "\<exists>fs d'. walk_dir E ?d (Dir es) d = (Inr fs, d')" by (rule walk_total [OF assms(1)]) simp
    with 2 seg show ?thesis by (auto simp: local_list_def Let_def bnd_def gets_def ret_def)
  qed (simp add: local_list_def Let_def bnd_def gets_def ret_def seg)
qed

lemma already_present:
  assumes h: "healthy P c wal dest (st_disk s)" and o: "local_obj (pe_disk P) (local_basePath c) s (wal_key_path P wal) = Some b"
  shows "\<exists>d. already_archived P (local_provider (pe_disk P) (local_basePath c)) wal s = (Inr True, s\<lparr>st_disk := d\<rparr>) \<and> d_root d = d_root (st_disk s)"
proof -
  let ?E = "pe_disk P" let ?b = "local_basePath c" let ?k = "butlast (wal_key_path P wal)"
  note H = healthyD [OF h]
  have k: "wal_dir P wal = key_path ?k" "store_key ?k" "wal_key_path P wal = ?k @ [wal]"
    using wal_names [OF H(2)] by (simp_all add: wal_key_path_def)
  have "room (d_root (st_disk s)) (segs ?E ?b @ ?k @ [wal])"
    using H(4) k(3) by (auto simp: rooms_def work_paths_def)
  from local_list_total [OF H(1) this _ k(2) basePath_nonempty] obtain fs d where l: "local_list ?E ?b (key_path ?k) (st_disk s) = (Inr fs, d)" by auto
  have "file_on (st_disk s) (segs ?E ?b @ ?k @ [wal]) = Some b" using o k(3) by (simp add: local_obj_def)
  then have "key_path (?k @ [wal]) \<in> set fs"
    using local_list_exact [OF l basePath_nonempty k(2) H(5)] by blast
  moreover have "ends_with (key_path (?k @ [wal])) wal"
    using k(2) join_with_snoc [of ?k "[slash]" wal] ends_with_self [of "key_path ?k @ [slash]" wal] by (simp add: store_key_def)
  ultimately have "list_ex (\<lambda>f. ends_with f wal) fs" unfolding list_ex_iff by blast
  then have "already_archived P (local_provider ?E ?b) wal s = (Inr True, s\<lparr>st_disk := d\<rparr>)"
    using l k(1) by (simp add: already_archived_def try_catch_def bnd_def local_provider_def on_disk_def ret_def)
  with local_list_root [OF l] show ?thesis by blast
qed

section \<open>Properties\<close>

text \<open>A file of this name lies in the directory of its timeline in the store.\<close>

abbreviation segment_present :: "pitr_env \<Rightarrow> json \<Rightarrow> string \<Rightarrow> pitr_site \<Rightarrow> bool" where
  "segment_present P c wal s \<equiv> wal_store.archived P (local_obj (pe_disk P) (local_basePath c)) wal s"

lemma segment_presentI:
  assumes "names_ok P wal" and "local_obj (pe_disk P) (local_basePath c) s (wal_key_path P wal) \<noteq> None"
  shows "segment_present P c wal s"
  unfolding local_wal.archived_def
proof (intro exI [of _ "wal_key_path P wal"] conjI)
  have "key_path (wal_key_path P wal) = wal_dir P wal @ [slash] @ wal" using wal_names(1) [OF assms(1)] by (simp add: wal_remote_def)
  then show "ends_with (key_path (wal_key_path P wal)) wal" using ends_with_self [of "wal_dir P wal @ [slash]" wal] by simp
qed (use wal_names(2) [OF assms(1)] assms(2) in \<open>simp_all add: wal_key_path_def\<close>)


text \<open>C19: Round trip of the archive: when no system call fails, a new segment is archived, and whenever PostgreSQL
  asks for it later, by any process with the same store and key that finds the object as it was left,
  it gets the same bytes back.\<close>

theorem archive_then_fetch:
  assumes ok: "pitr_ok P" and h: "healthy P c wal dest (st_disk s)" and ch: "fst (store_choice P W st (st_proc s)) = Inr (On_disk c)"
    and src: "file_on (st_disk s) (segs (pe_disk P) src) = Some raw" "decodable P raw"
    and key: "fst (wal_key P key s) = Inr k" "usable_key k" and new: "\<not> segment_present P c wal s"
  shows "\<exists>s1. archiveWal P W wal src st key s = (Inr True, s1) \<and>
    (\<forall>s2 W' key'. st_disk s2 = st_disk s1 \<and> fst (store_choice P W' st (st_proc s2)) = Inr (On_disk c) \<and> fst (wal_key P key' s2) = Inr k \<longrightarrow>
      (\<exists>s3. fetchWal P W' wal dest st key' s2 = (Inr True, s3) \<and> file_on (st_disk s3) (segs (pe_disk P) dest) = Some raw))"
proof -
  let ?o = "local_obj (pe_disk P) (local_basePath c) :: pitr_site \<Rightarrow> string list \<Rightarrow> bytes option"
  note H = healthyD [OF h]
  obtain s0 s1 where run: "archiveWal P W wal src st key s = (Inr True, s1)" "healthy P c wal dest (st_disk s1)"
    and ar: "archive_to P (local_provider (pe_disk P) (local_basePath c)) wal src key s0 = (Inr True, s1)"
    and s0: "wf_disk (st_disk s0)" "\<forall>q. file_on (st_disk s0) q = file_on (st_disk s) q" "site.more s0 = site.more s"
    using archiveWal_total [OF ok h ch src(1) key] by blast
  have o0: "?o s0 = ?o s" using s0(2) by (simp add: local_obj_def fun_eq_iff)
  have "\<not> segment_present P c wal s0" using new unfolding local_wal.archived_def o0 .
  with local_wal.archive_to_run [OF s0(1) H(2) H(9) ok ar] s0(2) src(1) obtain k0 iv d where
    e: "fst (wal_key P key s0) = Inr k0" "truthy_s k0 \<longrightarrow> length iv = IV_LENGTH" "encode_wal P k0 iv raw = Inr d" "?o s1 (wal_key_path P wal) = Some d"
    by auto
  have "k0 = k" using e(1) key(1) wal_key_keys [of s0 s P key] more_keys [OF s0(3)] by simp
  with decode_encode [OF ok src(2) _ e(3)] e(2) have dec: "decode_wal P k d = raw" by simp
  have "\<exists>s3. fetchWal P W' wal dest st key' s2 = (Inr True, s3) \<and> file_on (st_disk s3) (segs (pe_disk P) dest) = Some raw"
    if "st_disk s2 = st_disk s1" "fst (store_choice P W' st (st_proc s2)) = Inr (On_disk c)" "fst (wal_key P key' s2) = Inr k" for s2 W' key'
    using fetchWal_total [of P c wal dest s2 W' st d key' k] that run(2) e(4) dec by (simp add: local_obj_def)
  with run(1) show ?thesis by blast
qed

text \<open>What archiveWal takes for archived is any file of that name: with a torn or different copy of the segment in
  the archive it answers true and leaves the copy as it is, so PostgreSQL drops the only good one.\<close>

lemma torn_segment_accepted:
  assumes h: "healthy P c wal dest (st_disk s)" and ch: "fst (store_choice P W st (st_proc s)) = Inr (On_disk c)"
    and src: "file_on (st_disk s) (segs (pe_disk P) src) = Some raw"
    and torn: "local_obj (pe_disk P) (local_basePath c) s (wal_key_path P wal) = Some b"
  shows "\<exists>s1. archiveWal P W wal src st key s = (Inr True, s1) \<and> local_obj (pe_disk P) (local_basePath c) s1 (wal_key_path P wal) = Some b"
proof -
  obtain s0 where s0: "archiveWal P W wal src st key s = archive_to P (local_provider (pe_disk P) (local_basePath c)) wal src key s0"
    "healthy P c wal dest (st_disk s0)" "\<forall>q. file_on (st_disk s0) q = file_on (st_disk s) q"
    using archiveWal_entry [OF h ch src] by blast
  have "local_obj (pe_disk P) (local_basePath c) s0 (wal_key_path P wal) = Some b" using s0(3) torn by (simp add: local_obj_def)
  from already_present [OF s0(2) this] obtain d where
    "already_archived P (local_provider (pe_disk P) (local_basePath c)) wal s0 = (Inr True, s0\<lparr>st_disk := d\<rparr>)" "d_root d = d_root (st_disk s0)" by blast
  moreover from this s0(3) torn have "file_on d (segs (pe_disk P) (local_basePath c) @ wal_key_path P wal) = Some b"
    by (simp add: local_obj_def file_on_def)
  ultimately show ?thesis using s0(1) by (simp add: archive_to_def bnd_def ret_def local_obj_def)
qed

text \<open>A wrong key is not noticed: when the object does not authenticate under the key at hand (and does not look
  like gzip), fetchWal answers true and hands PostgreSQL the encrypted bytes as the segment.\<close>

lemma wrong_key_hands_out_ciphertext:
  assumes h: "healthy P c wal dest (st_disk s)" and ch: "fst (store_choice P W st (st_proc s)) = Inr (On_disk c)"
    and o: "local_obj (pe_disk P) (local_basePath c) s (wal_key_path P wal) = Some d" and key: "fst (wal_key P key s) = Inr k"
    and wrong: "unseal (pe_gcm P) (hex_bytes (the k)) \<lparr>sl_iv = take IV_LENGTH d, sl_tag = take TAG_LENGTH (drop IV_LENGTH d),
      sl_data = drop (IV_LENGTH + TAG_LENGTH) d\<rparr> = Inl e" "\<not> gzip_magic d"
  shows "\<exists>s1. fetchWal P W wal dest st key s = (Inr True, s1) \<and> file_on (st_disk s1) (segs (pe_disk P) dest) = Some d"
proof -
  have "decrypt_wal P k d = d" using wrong(1) by (simp add: decrypt_wal_def)
  with wrong(2) have "decode_wal P k d = d" by (simp add: decode_wal_def decompress_wal_def)
  with fetchWal_total [OF h ch o key] show ?thesis by simp
qed

section \<open>A concrete service\<close>

definition toy_pitr :: pitr_env where
  "toy_pitr = \<lparr>pe_disk = \<lparr>v_cwd = ''/srv'', v_fail = (\<lambda>_. None), v_torn = (\<lambda>_. None)\<rparr>, pe_keys = toy_keys,
     pe_client = fst (new_client None None None None None), pe_database = ''db'', pe_dataDirectory = None, pe_var = (\<lambda>_. None),
     pe_gzip = (\<lambda>b. 0x1F # 0x8B # b), pe_gunzip = (\<lambda>b. Inr (drop 2 b)),
     pe_gcm = toy_gcm\<lparr>g_tag := (\<lambda>k iv c. replicate 16 (hd (k @ [0])))\<rparr>, pe_random = (\<lambda>i. replicate 16 (word_of_nat i))\<rparr>"

abbreviation toy_wal :: string where "toy_wal \<equiv> ''000000010000000000000001''"

definition toy_config :: json where
  "toy_config = JObj [(''type'', JStr ''local''), (''bucket'', JStr ''''), (''basePath'', JStr ''./backups'')]"

definition toy_pitr_key :: "string option" where "toy_pitr_key = Some (to_hex (replicate 32 7))"

text \<open>A machine with one segment to archive, and one with a torn copy of it in the archive.\<close>

definition toy_site :: "(string \<times> node) list \<Rightarrow> pitr_site" where
  "toy_site es = \<lparr>st_disk = \<lparr>d_root = Dir [(''srv'', Dir ((''seg'', File [0x13, 0xD1, 5]) # es))], d_ops = 0\<rparr>,
     st_proc = \<lparr>calls = [], baseUrl = ''http://127.0.0.1:3005''\<rparr>, ps_keys = new_machine, ps_randoms = 0\<rparr>"

definition toy_archive :: "(string \<times> node) list" where
  "toy_archive = [(''backups'', Dir [(''pitr'', Dir [(''db'', Dir [(''wal'', Dir [(''00000001'', Dir [(toy_wal, File [0x13])])])])])])]"

lemma toy_segs:
  "abs_segs ''/srv'' (path_join [''/srv'', ''tmp'', ''upload_000000010000000000000001'']) = [''srv'', ''tmp'', ''upload_000000010000000000000001'']"
  "abs_segs ''/srv'' (path_join [''/srv'', ''tmp'', ''download_000000010000000000000001'']) = [''srv'', ''tmp'', ''download_000000010000000000000001'']"
  "abs_segs ''/srv'' ''./backups'' = [''srv'', ''backups'']" "abs_segs ''/srv'' ''/srv/out'' = [''srv'', ''out'']"
  "abs_segs ''/srv'' (path_dirname ''/srv/out'') = [''srv'']" "abs_segs ''/srv'' ''/srv/seg'' = [''srv'', ''seg'']"
  by code_simp+

lemma toy_base: "local_basePath toy_config = ''./backups''"
  by (simp add: toy_config_def local_basePath_def text_column_def oget_def)

lemma toy_paths:
  "segs (pe_disk toy_pitr) (temp_file toy_pitr ''upload_'' toy_wal) = [''srv'', ''tmp'', ''upload_000000010000000000000001'']"
  "segs (pe_disk toy_pitr) (temp_file toy_pitr ''download_'' toy_wal) = [''srv'', ''tmp'', ''download_000000010000000000000001'']"
  "segs (pe_disk toy_pitr) (local_basePath toy_config) = [''srv'', ''backups'']"
  "segs (pe_disk toy_pitr) ''/srv/out'' = [''srv'', ''out'']" "segs (pe_disk toy_pitr) (path_dirname ''/srv/out'') = [''srv'']"
  "segs (pe_disk toy_pitr) ''/srv/seg'' = [''srv'', ''seg'']"
  "wal_key_path toy_pitr toy_wal = [''pitr'', ''db'', ''wal'', ''00000001'', toy_wal]"
  using toy_segs by (simp_all add: toy_pitr_def temp_file_def toy_base wal_key_path_def)

lemma toy_work: "work_paths toy_pitr toy_config toy_wal ''/srv/out'' =
   {[''srv'', ''tmp'', ''upload_000000010000000000000001''], [''srv'', ''tmp'', ''download_000000010000000000000001''],
    [''srv'', ''backups'', ''pitr'', ''db'', ''wal'', ''00000001'', toy_wal], [''srv'', ''out'']}"
  by (simp add: work_paths_def toy_paths)

lemma toy_ok: "pitr_ok toy_pitr"
  by (simp add: pitr_ok_def toy_pitr_def gzip_magic_def IV_LENGTH_def TAG_LENGTH_def)

lemma toy_names: "names_ok toy_pitr toy_wal"
  by (simp add: names_ok_def toy_pitr_def plain_name_def slash_def)

lemma toy_healthy:
  assumes "es = [] \<or> es = toy_archive"
  shows "healthy toy_pitr toy_config toy_wal ''/srv/out'' (st_disk (toy_site es))"
  unfolding healthy_def toy_paths
proof (intro conjI)
  show "places (work_paths toy_pitr toy_config toy_wal ''/srv/out'')" unfolding toy_work places_def by simp
  show "rooms (work_paths toy_pitr toy_config toy_wal ''/srv/out'') (st_disk (toy_site es))"
    using assms unfolding toy_work rooms_def by (auto simp: room_def toy_site_def toy_archive_def)
  show "wf_disk (st_disk (toy_site es))" using assms by (auto simp: toy_site_def toy_archive_def plain_name_def slash_def)
qed (simp_all add: toy_names, simp_all add: toy_pitr_def reliable_def is_absolute_def slash_def)

lemma toy_choice: "fst (store_choice toy_pitr (\<lambda>_ _. Inr JNull) None (st_proc (toy_site es))) = Inr (On_disk toy_config)"
  by (simp add: store_choice_def getDefaultStorage_def get_storage_or_null_def request_outcome.simps client_call_def http_def ask_def
      bnd_def gets_def ret_def toy_config_def)

lemma toy_wal_key: "fst (wal_key toy_pitr toy_pitr_key s) = Inr toy_pitr_key" "usable_key toy_pitr_key"
proof -
  have "length (to_hex (replicate 32 7)) \<noteq> 0" by (simp only: length_to_hex length_replicate)
  then have "truthy_s toy_pitr_key" by (simp only: toy_pitr_key_def truthy_s.simps length_0_conv not_False_eq_True)
  then show "fst (wal_key toy_pitr toy_pitr_key s) = Inr toy_pitr_key"
    by (simp add: wal_key_def Let_def or_so_def ret_def)
  show "usable_key toy_pitr_key" by (simp add: usable_key_def toy_pitr_key_def)
qed

lemma toy_source: "file_on (st_disk (toy_site es)) (segs (pe_disk toy_pitr) ''/srv/seg'') = Some [0x13, 0xD1, 5]"
  unfolding toy_paths by (simp add: toy_site_def file_on_def file_at_def)

lemma toy_new: "\<not> segment_present toy_pitr toy_config toy_wal (toy_site [])"
proof -
  have "local_obj (pe_disk toy_pitr) (local_basePath toy_config) (toy_site []) j = None" for j
    unfolding local_obj_def toy_paths by (simp add: toy_site_def file_on_def file_at_Dir)
  then show ?thesis by (simp add: local_wal.archived_def)
qed

lemma toy_torn: "local_obj (pe_disk toy_pitr) (local_basePath toy_config) (toy_site toy_archive) (wal_key_path toy_pitr toy_wal) = Some [0x13]"
  unfolding local_obj_def toy_paths by (simp add: toy_site_def toy_archive_def file_on_def file_at_def)

lemma toy_decodable: "decodable toy_pitr raw"
  by (simp add: decodable_def toy_pitr_def)


theorem archive_then_fetch_witness:
  "\<exists>s1 s3. archiveWal toy_pitr (\<lambda>_ _. Inr JNull) toy_wal ''/srv/seg'' None toy_pitr_key (toy_site []) = (Inr True, s1) \<and>
    fetchWal toy_pitr (\<lambda>_ _. Inr JNull) toy_wal ''/srv/out'' None toy_pitr_key ((toy_site [])\<lparr>st_disk := st_disk s1\<rparr>) = (Inr True, s3) \<and>
    file_on (st_disk s3) [''srv'', ''out''] = Some [0x13, 0xD1, 5]"
proof -
  obtain s1 where s1: "archiveWal toy_pitr (\<lambda>_ _. Inr JNull) toy_wal ''/srv/seg'' None toy_pitr_key (toy_site []) = (Inr True, s1)"
    and later: "\<And>s2 W' key'. st_disk s2 = st_disk s1 \<and> fst (store_choice toy_pitr W' None (st_proc s2)) = Inr (On_disk toy_config) \<and>
      fst (wal_key toy_pitr key' s2) = Inr toy_pitr_key \<Longrightarrow>
      \<exists>s3. fetchWal toy_pitr W' toy_wal ''/srv/out'' None key' s2 = (Inr True, s3) \<and>
        file_on (st_disk s3) (segs (pe_disk toy_pitr) ''/srv/out'') = Some [0x13, 0xD1, 5]"
    using archive_then_fetch [OF toy_ok toy_healthy [OF disjI1 [OF refl]] toy_choice toy_source toy_decodable toy_wal_key toy_new] by blast
  let ?s2 = "(toy_site [])\<lparr>st_disk := st_disk s1\<rparr>"
  have "fst (store_choice toy_pitr (\<lambda>_ _. Inr JNull) None (st_proc ?s2)) = Inr (On_disk toy_config)" using toy_choice by simp
  with later [of ?s2 "\<lambda>_ _. Inr JNull" toy_pitr_key] toy_wal_key(1) s1 show ?thesis unfolding toy_paths by simp
qed

lemma torn_segment_accepted_witness:
  "\<exists>s1. archiveWal toy_pitr (\<lambda>_ _. Inr JNull) toy_wal ''/srv/seg'' None toy_pitr_key (toy_site toy_archive) = (Inr True, s1) \<and>
    local_obj (pe_disk toy_pitr) (local_basePath toy_config) s1 (wal_key_path toy_pitr toy_wal) = Some [0x13]"
  using torn_segment_accepted [OF toy_healthy [OF disjI2 [OF refl]] toy_choice toy_source toy_torn] .

text \<open>An object that was encrypted under another key.\<close>

definition toy_sealed :: bytes where "toy_sealed = replicate 16 1 @ replicate 16 9 @ [1, 2, 3]"

definition toy_sealed_site :: pitr_site where
  "toy_sealed_site = toy_site [(''backups'', Dir [(''pitr'', Dir [(''db'', Dir [(''wal'', Dir [(''00000001'', Dir [(toy_wal, File toy_sealed)])])])])])]"

lemma wrong_key_hands_out_ciphertext_witness:
  "\<exists>s1. fetchWal toy_pitr (\<lambda>_ _. Inr JNull) toy_wal ''/srv/out'' None toy_pitr_key toy_sealed_site = (Inr True, s1) \<and>
    file_on (st_disk s1) [''srv'', ''out''] = Some toy_sealed"
proof -
  have h: "healthy toy_pitr toy_config toy_wal ''/srv/out'' (st_disk toy_sealed_site)"
  proof (rule healthyI [OF toy_healthy [OF disjI2 [OF refl]]])
    show "rooms (work_paths toy_pitr toy_config toy_wal ''/srv/out'') (st_disk toy_sealed_site)"
      unfolding toy_work rooms_def by (auto simp: room_def toy_site_def toy_sealed_site_def)
    show "wf_disk (st_disk toy_sealed_site)" by (simp add: toy_site_def toy_sealed_site_def plain_name_def slash_def)
  qed
  have o: "local_obj (pe_disk toy_pitr) (local_basePath toy_config) toy_sealed_site (wal_key_path toy_pitr toy_wal) = Some toy_sealed"
    unfolding local_obj_def toy_paths by (simp add: toy_site_def toy_sealed_site_def file_on_def file_at_def)
  have ch: "fst (store_choice toy_pitr (\<lambda>_ _. Inr JNull) None (st_proc toy_sealed_site)) = Inr (On_disk toy_config)"
    unfolding toy_sealed_site_def by (rule toy_choice)
  have k: "hex_bytes (the toy_pitr_key) = replicate 32 7" by (simp only: toy_pitr_key_def option.sel hex_bytes_to_hex)
  have "hd (replicate 32 (7 :: 8 word) @ [0]) = 7" by simp
  then have wrong: "unseal (pe_gcm toy_pitr) (hex_bytes (the toy_pitr_key)) \<lparr>sl_iv = take IV_LENGTH toy_sealed,
      sl_tag = take TAG_LENGTH (drop IV_LENGTH toy_sealed), sl_data = drop (IV_LENGTH + TAG_LENGTH) toy_sealed\<rparr> =
      Inl (new_Error ''Unsupported state or unable to authenticate data'')" unfolding k
    by (simp add: unseal_def toy_pitr_def toy_sealed_def IV_LENGTH_def TAG_LENGTH_def numeral_eq_Suc)
  have "\<not> gzip_magic toy_sealed" by (simp add: gzip_magic_def toy_sealed_def nth_append)
  from wrong_key_hands_out_ciphertext [OF h ch o toy_wal_key(1) wrong this] show ?thesis unfolding toy_paths .
qed

end
