(* ===== verification/PitrCorrect.thy ===== *)
theory PitrCorrect
  imports PitrRestore WalRecovery
begin

text \<open>
  What holds of base backups, status and recovery of \<open>PitrService\<close> and \<open>PitrRestore\<close>: which base
  backup a recovery starts from, what protects the target directory, how long the recovery is
  watched and what is reported, and that the status never shows a base backup.
\<close>

section \<open>Status\<close>

lemma toISOString_throws: "toISOString v what s \<noteq> (Inr x, s')"
  by (simp add: toISOString_def)

lemma getPitrStatus_cases:
  assumes "getPitrStatus P W s = (Inr st, s')"
  obtains su jobs s1 where "setupPitr P W False None s = (Inr su, s1)" and "list_successful P W ''asc'' s1 = (Inr jobs, s')"
    and "filter is_base jobs = []" and "pt_baseBackupCount st = 0" and "pt_readiness st = ''NOT_READY''" and "pt_setup st = su"
  using assms unfolding getPitrStatus_def Let_def
  by (fastforce elim!: bnd_InrE simp: toISOString_throws ret_def split: if_splits prod.splits)

text \<open>The status of a database never shows a base backup: whenever \<open>getPitrStatus\<close> returns, it counted no
  base backup and the readiness is \<open>NOT_READY\<close>. Rows reach it as JSON, in which a date is text, so the
  first base backup makes its \<open>toISOString\<close> call throw.\<close>

lemma pitr_status_never_ready:
  assumes "getPitrStatus P W s = (Inr st, s')"
  shows "pt_readiness st = ''NOT_READY'' \<and> pt_baseBackupCount st = 0"
  using assms by (rule getPitrStatus_cases) simp

section \<open>The base backup of a recovery\<close>

text \<open>The listing that \<open>orderBy: 'desc'\<close> asks for: no row started after an earlier one.\<close>

definition newest_first :: "pg_env \<Rightarrow> json list \<Rightarrow> bool" where
  "newest_first P jobs \<longleftrightarrow> sorted_wrt (\<lambda>a b. case (date_ms P (jget a ''startedAt''), date_ms P (jget b ''startedAt'')) of
     (Some m, Some n) \<Rightarrow> n \<le> m | _ \<Rightarrow> True) jobs"

definition start_ms :: "pg_env \<Rightarrow> json \<Rightarrow> int" where
  "start_ms P j = the (date_ms P (jget j ''startedAt''))"

text \<open>What a recovery to time \<open>t\<close> can start from: a base backup whose start is known and not after \<open>t\<close>.\<close>

definition candidate :: "pg_env \<Rightarrow> int \<Rightarrow> json \<Rightarrow> bool" where
  "candidate P t j \<longleftrightarrow> jget j ''backupType'' = Some (JStr ''pitr-base'') \<and>
     date_ms P (jget j ''startedAt'') = Some (start_ms P j) \<and> start_ms P j \<le> t"

lemma usable_iff_candidate: "usable_base P t j \<longleftrightarrow> candidate P t j"
  by (auto simp: usable_base_def is_base_def started_by_def candidate_def start_ms_def split: option.splits)

lemma usable_start: "usable_base P t j \<Longrightarrow> date_ms P (jget j ''startedAt'') = Some (start_ms P j)"
  by (simp add: usable_iff_candidate candidate_def)

lemma find_newest:
  assumes "newest_first P jobs" and "List.find (usable_base P t) jobs = Some b"
  shows "b \<in> set jobs" and "usable_base P t b" and "\<And>j. j \<in> set jobs \<Longrightarrow> usable_base P t j \<Longrightarrow> start_ms P j \<le> start_ms P b"
proof -
  have "b \<in> set jobs \<and> usable_base P t b \<and> (\<forall>j\<in>set jobs. usable_base P t j \<longrightarrow> start_ms P j \<le> start_ms P b)"
    using assms
  proof (induction jobs)
    case (Cons a as)
    show ?case
    proof (cases "usable_base P t a")
      case True
      with Cons.prems have ab: "a = b" by simp
      have "start_ms P j \<le> start_ms P a" if "j \<in> set as" "usable_base P t j" for j
        using Cons.prems(1) that usable_start [OF True] usable_start [OF that(2)] by (auto simp: newest_first_def)
      with True show ?thesis unfolding ab [symmetric] by auto
    next
      case False
      with Cons show ?thesis by (auto simp: newest_first_def)
    qed
  qed simp
  then show "b \<in> set jobs" and "usable_base P t b" and "\<And>j. j \<in> set jobs \<Longrightarrow> usable_base P t j \<Longrightarrow> start_ms P j \<le> start_ms P b"
    by blast+
qed

text \<open>C28: A recovery starts from the newest usable base backup: of the jobs listed newest first, one of type
  \<open>pitr-base\<close> that started at or before the requested time and after which no other such job started.
  When there is none the restore ends there with an error, before anything is written.\<close>

theorem restore_newest_base:
  assumes time: "restore_time P (ro_time ro) = Inr t"
    and target: "on_disk (check_target P ro (path_resolve (pg_cwd P) [ro_target ro])) s = (Inr (), s1)"
    and jobs: "list_successful P W ''desc'' s1 = (Inr jobs, s2)" and order: "newest_first P jobs"
  shows "if \<exists>j\<in>set jobs. candidate P t j
    then \<exists>b\<in>set jobs. candidate P t b \<and> (\<forall>j\<in>set jobs. candidate P t j \<longrightarrow> start_ms P j \<le> start_ms P b) \<and>
      restorePitr P W ro s = restore_from P W ro (path_resolve (pg_cwd P) [ro_target ro]) b s2
    else restorePitr P W ro s = (Inl (no_base (ro_time ro)), s2)"
proof (cases "List.find (usable_base P t) jobs")
  case None
  then have "\<not> (\<exists>j\<in>set jobs. candidate P t j)" by (simp add: find_None_iff usable_iff_candidate)
  with None time target jobs show ?thesis
    by (simp add: restorePitr_def choose_base_def Let_def bnd_def lift_res_def throw_def)
next
  case (Some b)
  from find_newest [OF order this] have b: "b \<in> set jobs" "candidate P t b"
    "\<forall>j\<in>set jobs. candidate P t j \<longrightarrow> start_ms P j \<le> start_ms P b" by (auto simp: usable_iff_candidate)
  have "restorePitr P W ro s = restore_from P W ro (path_resolve (pg_cwd P) [ro_target ro]) b s2"
    using Some time target jobs by (simp add: restorePitr_def choose_base_def Let_def bnd_def lift_res_def ret_def)
  with b show ?thesis by auto
qed

section \<open>The target directory\<close>

lemma check_target_refuses:
  assumes "node_at (d_root d) (segs (pg_disk P) absTarget) = Some (Dir es)" and "es \<noteq> []" and "\<not> ro_force ro"
  shows "\<exists>e n. check_target P ro absTarget d = (Inl e, d\<lparr>d_ops := n\<rparr>)"
  using assms by (auto simp: check_target_def existsSync_def readdir_count_def fs_try_def prog_defs Let_def split: option.split)

text \<open>Without \<open>force\<close> a target directory that holds anything is left exactly as it is: the restore ends
  with an error, the tree of files is unchanged, and no service, server or command was called.\<close>

lemma restore_protects_target:
  assumes "node_at (d_root (st_disk s)) (segs (pg_disk P) (path_resolve (pg_cwd P) [ro_target ro])) = Some (Dir es)"
    and "es \<noteq> []" and "\<not> ro_force ro"
  shows "\<exists>e s'. restorePitr P W ro s = (Inl e, s') \<and> d_root (st_disk s') = d_root (st_disk s) \<and> st_proc s' = st_proc s"
proof (cases "restore_time P (ro_time ro)")
  case (Inl e)
  then show ?thesis by (simp add: restorePitr_def bnd_def lift_res_def)
next
  case (Inr t)
  with check_target_refuses [OF assms] show ?thesis
    by (fastforce simp: restorePitr_def Let_def bnd_def lift_res_def on_disk_def)
qed

section \<open>Watching the recovery\<close>

definition pause :: call where "pause = Sleep 1000"

lemma poll_recovery_run: "\<exists>ok new. poll_recovery P W port s = (Inr ok, s\<lparr>calls := calls s @ new\<rparr>) \<and> pause \<notin> set new"
proof -
  have "wp (poll_recovery P W port) (\<lambda>_ s'. \<exists>new. s' = s\<lparr>calls := calls s @ new\<rparr> \<and> pause \<notin> set new) (\<lambda>_ _. False) s"
    unfolding poll_recovery_def
    by (auto simp: wp pause_def split: sum.split)
  then show ?thesis by (auto simp: wp_def split: prod.splits sum.splits)
qed

text \<open>The watch always ends, without an error: after \<open>n\<close> pauses, or sooner if the recovery was seen to be over.\<close>

lemma watch_recovery_run:
  "\<exists>ok new. watch_recovery P W port n s = (Inr ok, s\<lparr>calls := calls s @ new\<rparr>) \<and>
    length (filter (\<lambda>c. c = pause) new) \<le> n \<and> (ok \<or> length (filter (\<lambda>c. c = pause) new) = n)"
proof (induction n arbitrary: s)
  case 0
  show ?case by (rule exI [of _ False], rule exI [of _ "[]"]) (simp add: ret_def)
next
  case (Suc n)
  let ?s = "s\<lparr>calls := calls s @ [pause]\<rparr>"
  obtain ok new where p: "poll_recovery P W port ?s = (Inr ok, ?s\<lparr>calls := calls ?s @ new\<rparr>)" "pause \<notin> set new"
    using poll_recovery_run by blast
  have quiet: "filter (\<lambda>c. c = pause) new = []" using p(2) by (auto simp: filter_empty_conv)
  show ?case
  proof (cases ok)
    case True
    with p quiet show ?thesis
      by (intro exI [of _ True] exI [of _ "pause # new"]) (simp add: bnd_def ask_def ret_def flip: pause_def)
  next
    case False
    let ?t = "?s\<lparr>calls := calls ?s @ new\<rparr>"
    obtain ok' new' where r: "watch_recovery P W port n ?t = (Inr ok', ?t\<lparr>calls := calls ?t @ new'\<rparr>)"
      "length (filter (\<lambda>c. c = pause) new') \<le> n" "ok' \<or> length (filter (\<lambda>c. c = pause) new') = n"
      using Suc.IH by blast
    with False p quiet show ?thesis
      by (intro exI [of _ ok'] exI [of _ "pause # new @ new'"]) (simp add: bnd_def ask_def flip: pause_def)
  qed
qed

lemma watch_recovery_down:
  assumes "\<And>l p. \<exists>f. W l (Other ''pg.connect'' p) = Inl f"
  shows "watch_recovery P W port n s = (Inr False, s\<lparr>calls := calls s @
    concat (replicate n [pause, Other ''pg.connect'' (recovery_client P port)])\<rparr>)"
proof (induction n arbitrary: s)
  case (Suc n)
  have "poll_recovery P W port s = (Inr False, s\<lparr>calls := calls s @ [Other ''pg.connect'' (recovery_client P port)]\<rparr>)" for s
    using assms [of "calls s" "recovery_client P port"]
    by (auto simp: poll_recovery_def unit_call_def run_call_def ask_def prog_defs)
  with Suc.IH show ?case by (simp add: bnd_def ask_def flip: pause_def)
qed (simp add: ret_def)

text \<open>A recovery that never comes up is reported as a success: once the backup is unpacked and the start
  command returned, thirty refused connections, one second apart, lead to the same report, with
  \<open>success: true\<close> and the requested time as the recovered one, that a finished recovery has.\<close>

lemma recovery_unverified:
  assumes "restore_onto P W ro absTarget b s = (Inr (), s1)" and "\<And>l p. \<exists>f. W l (Other ''pg.connect'' p) = Inl f"
  shows "\<exists>s2. restore_from P W ro absTarget b s = (Inr (restore_report ro b absTarget), s2) \<and>
    jget (restore_report ro b absTarget) ''success'' = Some (JBool True) \<and>
    calls (st_proc s2) = calls (st_proc s1) @ concat (replicate 30 [Sleep 1000, Other ''pg.connect'' (recovery_client P (ro_port ro))])"
  using assms(1) watch_recovery_down [of W P "ro_port ro" maxRetries "st_proc s1", OF assms(2)]
  by (simp add: restore_from_def bnd_def ret_def on_proc_def maxRetries_def pause_def restore_report_def jobj_def)

section \<open>A concrete service\<close>

text \<open>Commands do nothing here, and a time of day is read off its first digits.\<close>

definition toy_pg :: pg_env where
  "toy_pg = \<lparr>pg_pitr = toy_pitr, pg_host = None, pg_port = None, pg_username = None, pg_password = JNull, pg_argv0 = ''node'',
     pg_argv1 = None, pg_exec = (\<lambda>_ d. (Inr [], d)), pg_millis = 5, pg_stamp = 6, pg_duration = JNum 0, pg_iso = str_int,
     pg_ended = JNull, pg_parse_date = (\<lambda>t. if all_digits (take 2 t) then Some (num_of_digits (take 2 t)) else None),
     pg_parse_json = (\<lambda>_. Inr JNull), pg_sha256 = text_of\<rparr>"

definition toy_restore :: pitr_restore where
  "toy_restore = \<lparr>ro_time = ''20Z'', ro_target = ''/srv/new'', ro_port = 5433, ro_storageName = None, ro_force = False\<rparr>"

definition toy_base_row :: "string \<Rightarrow> string \<Rightarrow> json" where
  "toy_base_row i t = JObj [(''id'', JStr i), (''backupType'', JStr ''pitr-base''), (''startedAt'', JStr t)]"

definition toy_jobs :: "json list" where
  "toy_jobs = [toy_base_row ''b3'' ''30Z'', toy_base_row ''b2'' ''20Z'', toy_base_row ''b1'' ''10Z'']"

text \<open>Services that answer: every setting is right and the metadata service lists \<open>jobs\<close>; the server is down or up.\<close>

definition toy_services :: "bool \<Rightarrow> json list \<Rightarrow> world" where
  "toy_services up jobs l c = (case c of
     Http _ _ _ \<Rightarrow> Inr (JObj [(''jobs'', JArr jobs)])
   | Other what _ \<Rightarrow> if what = ''pg.connect'' \<and> \<not> up
       then Inl \<lparr>f_code = ''ECONNREFUSED'', f_message = '''', f_axios = False, f_response = None\<rparr>
       else Inr (JObj [(''rows'', JArr [JObj [(''wal_level'', JStr ''replica''), (''archive_mode'', JStr ''on''),
         (''archive_command'', JStr ''pitr archive-wal'')]])])
   | _ \<Rightarrow> Inr JNull)"

lemma pitr_status_never_ready_witness:
  "\<exists>st s'. getPitrStatus toy_pg (toy_services True []) (toy_site []) = (Inr st, s') \<and> su_activelyWorking (pt_setup st) \<and>
    pt_readiness st = ''NOT_READY''"
proof -
  have "case fst (getPitrStatus toy_pg (toy_services True []) (toy_site [])) of Inl _ \<Rightarrow> False | Inr st \<Rightarrow> su_activelyWorking (pt_setup st)"
    by code_simp
  then obtain st where "fst (getPitrStatus toy_pg (toy_services True []) (toy_site [])) = Inr st" "su_activelyWorking (pt_setup st)"
    by (auto split: sum.splits)
  with pitr_status_never_ready [of toy_pg "toy_services True []" "toy_site []" st] show ?thesis by (metis prod.collapse)
qed

text \<open>A machine with the archive of base backup \<open>b2\<close>, and one whose target directory is in use.\<close>

definition toy_base_site :: pitr_site where
  "toy_base_site = toy_site [(''backups'', Dir [(''pitr'', Dir [(''db'', Dir [(''base'', Dir [(''b2'', Dir [(''b2.tar.gz'', File [1])])])])])])]"

definition toy_used_site :: pitr_site where
  "toy_used_site = toy_site [(''new'', Dir [(''PG_VERSION'', File [0x31])])]"

abbreviation toy_target :: string where "toy_target \<equiv> path_resolve (pg_cwd toy_pg) [ro_target toy_restore]"

lemma toy_usable: "usable_base toy_pg 20 (toy_base_row ''b2'' ''20Z'')" "usable_base toy_pg 20 (toy_base_row ''b1'' ''10Z'')"
  "\<not> usable_base toy_pg 20 (toy_base_row ''b3'' ''30Z'')" "newest_first toy_pg toy_jobs"
  by code_simp+

lemma toy_starts: "\<not> start_ms toy_pg (toy_base_row ''b2'' ''20Z'') \<le> start_ms toy_pg (toy_base_row ''b1'' ''10Z'')"
  by code_simp

theorem restore_newest_base_witness:
  "\<exists>s2. restorePitr toy_pg (toy_services True toy_jobs) toy_restore toy_base_site =
    restore_from toy_pg (toy_services True toy_jobs) toy_restore toy_target (toy_base_row ''b2'' ''20Z'') s2"
proof -
  have t: "restore_time toy_pg (ro_time toy_restore) = Inr 20" by code_simp
  have "fst (on_disk (check_target toy_pg toy_restore toy_target) toy_base_site) = Inr ()" by code_simp
  then obtain s1 where c: "on_disk (check_target toy_pg toy_restore toy_target) toy_base_site = (Inr (), s1)"
    and s1: "s1 = snd (on_disk (check_target toy_pg toy_restore toy_target) toy_base_site)" by (rule run_obtain)
  have "fst (list_successful toy_pg (toy_services True toy_jobs) ''desc'' s1) = Inr toy_jobs" unfolding s1 by code_simp
  then obtain s2 where l: "list_successful toy_pg (toy_services True toy_jobs) ''desc'' s1 = (Inr toy_jobs, s2)" by (rule run_obtain)
  have some: "\<exists>j\<in>set toy_jobs. candidate toy_pg 20 j" using toy_usable(1) by (auto simp: toy_jobs_def usable_iff_candidate)
  obtain b where b: "b \<in> set toy_jobs" "candidate toy_pg 20 b" "\<forall>j\<in>set toy_jobs. candidate toy_pg 20 j \<longrightarrow> start_ms toy_pg j \<le> start_ms toy_pg b"
    and r: "restorePitr toy_pg (toy_services True toy_jobs) toy_restore toy_base_site = restore_from toy_pg (toy_services True toy_jobs) toy_restore toy_target b s2"
    using restore_newest_base [OF t c l toy_usable(4)] some by auto
  have "b = toy_base_row ''b2'' ''20Z''"
    using b toy_usable toy_starts by (auto simp: toy_jobs_def usable_iff_candidate)
  with r show ?thesis by blast
qed

lemma restore_protects_target_witness:
  "\<exists>e s'. restorePitr toy_pg (toy_services True toy_jobs) toy_restore toy_used_site = (Inl e, s') \<and>
    d_root (st_disk s') = d_root (st_disk toy_used_site)"
proof -
  have n: "node_at (d_root (st_disk toy_used_site)) (segs (pg_disk toy_pg) toy_target) = Some (Dir [(''PG_VERSION'', File [0x31])])"
    by code_simp
  have "\<not> ro_force toy_restore" by (simp add: toy_restore_def)
  from restore_protects_target [OF n _ this] show ?thesis by blast
qed

lemma recovery_unverified_witness:
  "\<exists>s2. restore_from toy_pg (toy_services False toy_jobs) toy_restore toy_target (toy_base_row ''b2'' ''20Z'') toy_base_site =
    (Inr (restore_report toy_restore (toy_base_row ''b2'' ''20Z'') toy_target), s2)"
proof -
  have "fst (restore_onto toy_pg (toy_services False toy_jobs) toy_restore toy_target (toy_base_row ''b2'' ''20Z'') toy_base_site) = Inr ()"
    by code_simp
  then obtain s1 where r: "restore_onto toy_pg (toy_services False toy_jobs) toy_restore toy_target (toy_base_row ''b2'' ''20Z'') toy_base_site = (Inr (), s1)"
    by (rule run_obtain)
  have "\<exists>f. toy_services False toy_jobs l (Other ''pg.connect'' p) = Inl f" for l p by (simp add: toy_services_def)
  from recovery_unverified [OF r this] show ?thesis by blast
qed

end
