(* ===== verification/PgCorrect.thy ===== *)
theory PgCorrect
  imports PgChain PitrCorrect
begin

text \<open>
  What a PostgreSQL physical backup records and leaves on the disk, and what a restore of a chain leaves
  behind: no working directory and no running server, on every path.
\<close>

section \<open>Removing a directory\<close>

lemma node_at_drop: "p \<noteq> [] \<Longrightarrow> node_at (drop_node p n) p = None"
proof (induction p n rule: drop_node.induct)
  case (1 x xs es)
  then show ?case by (auto simp: delete_conv' update_conv split: option.split)
qed (auto split: node.splits)

lemma node_at_drop_File: "node_at (drop_node p (File b)) q = node_at (File b) q"
  by (cases p) simp_all

lemma file_at_drop_other: "\<not> prefix p q \<Longrightarrow> file_at (drop_node p n) q = file_at n q"
proof (induction p n arbitrary: q rule: drop_node.induct)
  case (1 x xs es)
  then show ?case
    by (cases q) (auto simp: file_at_Dir delete_conv' update_conv split: option.splits)
qed simp_all

definition gone :: "inc_env \<Rightarrow> string \<Rightarrow> pitr_site \<Rightarrow> bool" where
  "gone I p s \<longleftrightarrow> node_at (d_root (st_disk s)) (segs (inc_disk I) p) = None"

lemma rmSync_Inr: "segs E p \<noteq> [] \<Longrightarrow> rmSync E p d = (Inr x, d') \<Longrightarrow> node_at (d_root d') (segs E p) = None \<and>
    (\<forall>q. \<not> prefix (segs E p) q \<longrightarrow> file_on d' q = file_on d q)"
  by (auto simp: rmSync_def bnd_def gets_def set_root_def modify_st_def fs_try_def Let_def node_at_drop file_on_def file_at_drop_other
      split: option.splits)

lemma rmSync_reliable: "reliable E \<Longrightarrow> \<exists>d'. rmSync E p d = (Inr (), d')"
  by (simp add: rmSync_def bnd_def gets_def set_root_def modify_st_def fs_try_run)

lemma removeDir_gone:
  assumes "reliable E" and "segs E p \<noteq> []"
  shows "\<exists>d'. removeDir E p d = (Inr (), d') \<and> node_at (d_root d') (segs E p) = None"
proof (cases "node_at (d_root d) (segs E p) = None")
  case True
  then show ?thesis by (simp add: removeDir_def existsSync_def bnd_def gets_def ret_def)
next
  case False
  then have "removeDir E p d = rmSync E p d" by (simp add: removeDir_def existsSync_def bnd_def gets_def)
  with rmSync_reliable [OF assms(1)] rmSync_Inr [OF assms(2)] show ?thesis by metis
qed

section \<open>A restore cleans up\<close>

text \<open>How many servers were started and not killed.\<close>

fun server_change :: "call \<Rightarrow> int" where
  "server_change (Other what x) = (if what = ''spawn'' then 1 else if what = ''kill'' then -1 else 0)"
| "server_change _ = 0"

definition servers :: "pitr_site \<Rightarrow> int" where
  "servers s = sum_list (map server_change (calls (st_proc s)))"

lemma servers_disk [simp]: "servers (s\<lparr>st_disk := d\<rparr>) = servers s"
  by (simp add: servers_def)

abbreviation runs :: "int \<Rightarrow> pitr_site \<Rightarrow> bool" where "runs n s \<equiv> servers s = n"

lemma runs_on_disk: "stable (runs n) (on_disk m)"
  by (auto simp: stable_def on_disk_def split: prod.split)

lemma servers_log_call: "servers (snd (log_call c s)) = servers s + server_change c"
  by (simp add: log_call_run servers_def)

lemma runs_exec: "stable (runs n) (execAsync P c)"
  unfolding execAsync_def by (intro stable_bnd runs_on_disk) (simp add: stable_def servers_log_call)

lemma runs_sleep: "stable (runs n) (on_proc (ask W (Sleep k)))"
  by (auto simp: stable_def on_proc_def ask_def servers_def)

lemma runs_unpack: "stable (runs n) (unpack_steps I k js)"
  by (induction js arbitrary: k) (auto simp: unpack_step_def Let_def intro!: stable_bnd stable_if stable_ret stable_throw runs_on_disk runs_exec)

lemma runs_bin_path: "stable (runs n) (bin_path I name)"
  unfolding bin_path_def by (intro stable_bnd stable_try_catch stable_ret runs_exec)

lemma runs_wait: "stable (runs n) (wait_ready I W c k)"
  by (induction k) (auto intro!: stable_bnd stable_if stable_try_catch stable_ret runs_exec runs_sleep)

lemma bnd_app: "bnd m k s = (case m s of (r, t) \<Rightarrow> case r of Inl e \<Rightarrow> (Inl e, t) | Inr x \<Rightarrow> k x t)"
  by (simp add: bnd_def)

lemma caught_Inr: "\<exists>x s'. try_catch (seqp m (ret a)) (\<lambda>_. ret b) s = (Inr x, s')"
proof (cases "m s")
  case (Pair r t)
  then show ?thesis by (cases r) (simp_all add: try_catch_def bnd_def ret_def)
qed

lemma bin_path_Inr: "\<exists>p s'. bin_path I name s = (Inr p, s')"
  unfolding bin_path_def by (rule caught_Inr)

lemma wait_ready_Inr: "\<exists>ok s'. wait_ready I W c n s = (Inr ok, s')"
proof (induction n arbitrary: s)
  case (Suc n)
  obtain ok t where "try_catch (seqp (inc_exec I c) (ret True)) (\<lambda>_. ret False) s = (Inr ok, t)"
    using caught_Inr [of "inc_exec I c" True False s] by blast
  moreover obtain u where "on_proc (ask W (Sleep 500)) t = (Inr (W (calls (st_proc t)) (Sleep 500)), u)"
    by (simp add: on_proc_def ask_def)
  ultimately have "wait_ready I W c (Suc n) s = (if ok then (Inr True, t) else wait_ready I W c n u)"
    by (simp add: bnd_app ret_def)
  with Suc.IH [of u] show ?case by (cases ok) auto
qed (auto simp: ret_def intro: exI [of _ False])

lemma start_child_run: "\<exists>s'. start_child I c s = (Inr (), s') \<and> servers s' = servers s + 1"
proof -
  have "stable (runs n) (try_catch (seqp (on_disk (pg_exec (ie_pg I) c)) (ret ())) (\<lambda>_. ret ()))" for n
    by (intro stable_try_catch stable_bnd stable_ret runs_on_disk)
  then have "servers (snd (start_child I c s)) = servers s + 1"
    by (simp add: start_child_def bnd_def log_call_run stable_def servers_def)
  moreover have "\<exists>x s'. start_child I c s = (Inr x, s')" unfolding start_child_def by (simp only: bnd_app [of "log_call c" for c] log_call_run prod.case sum.case) (rule caught_Inr)
  ultimately show ?thesis by (metis old.unit.exhaust snd_conv)
qed

definition finish_dump :: "inc_env \<Rightarrow> string \<Rightarrow> (pitr_site, unit) prog" where
  "finish_dump I c = try_finally (inc_run I c) (seqp kill_child (on_disk (rmSync (inc_disk I) (work_dir I))))"

lemma finish_dump_run:
  assumes "segs (inc_disk I) (work_dir I) \<noteq> []" and "finish_dump I c s = (r, s')"
  shows "servers s' = servers s - 1 \<and> (\<forall>x. r = Inr x \<longrightarrow> gone I (work_dir I) s')"
proof -
  obtain q t where m: "inc_run I c s = (q, t)" by (meson surj_pair)
  have "stable (runs (servers s)) (inc_run I c)" by (intro stable_bnd stable_ret runs_exec)
  from stableD [OF this m] have t: "servers t = servers s" by simp
  let ?u = "t\<lparr>st_proc := st_proc t\<lparr>calls := calls (st_proc t) @ [Other ''kill'' (JStr ''SIGKILL'')]\<rparr>\<rparr>"
  have u: "servers ?u = servers t - 1" by (simp add: servers_def)
  obtain x d where rm: "rmSync (inc_disk I) (work_dir I) (st_disk t) = (x, d)" by (meson surj_pair)
  have f: "seqp kill_child (on_disk (rmSync (inc_disk I) (work_dir I))) t = (x, ?u\<lparr>st_disk := d\<rparr>)"
    using rm by (simp add: bnd_def kill_child_def log_call_run on_disk_def)
  from assms(2) m f have "s' = ?u\<lparr>st_disk := d\<rparr>" "\<And>y. r = Inr y \<Longrightarrow> x = Inr ()"
    by (auto simp: finish_dump_def try_finally_def split: sum.splits)
  with t u rmSync_Inr [OF assms(1)] rm show ?thesis by (auto simp: gone_def)
qed

lemma serve_and_dump_steps:
  obtains a b e s5 s6 ok where "wait_ready I W e 15 s5 = (Inr ok, s6)" and "servers s6 = servers s + 1"
    and "serve_and_dump I W s = (if \<not> ok then seqp kill_child (throw (new_Error ''Restored temporary PostgreSQL instance failed to start on port 5439.''))
      else finish_dump I (dump_command I a b)) s6"
proof -
  obtain a s1 where a: "bin_path I ''pg_dump'' s = (Inr a, s1)" using bin_path_Inr by blast
  obtain b s2 where b: "bin_path I ''psql'' s1 = (Inr b, s2)" using bin_path_Inr by blast
  obtain c s3 where c: "bin_path I ''postgres'' s2 = (Inr c, s3)" using bin_path_Inr by blast
  obtain s4 where d: "start_child I (dq c @ '' -D '' @ dq (combinedDir I) @ '' -p 5439 -k '' @ dq (ie_tmpdir I) @ '' -h 127.0.0.1'') s3 = (Inr (), s4)"
    "servers s4 = servers s3 + 1" using start_child_run by blast
  obtain e s5 where e: "bin_path I ''pg_isready'' s4 = (Inr e, s5)" using bin_path_Inr by blast
  obtain ok s6 where w: "wait_ready I W (dq e @ '' -h 127.0.0.1 -p 5439'') 15 s5 = (Inr ok, s6)" using wait_ready_Inr by blast
  have n: "servers s6 = servers s + 1"
    using stableD [OF runs_bin_path a] stableD [OF runs_bin_path b] stableD [OF runs_bin_path c] d(2)
      stableD [OF runs_bin_path e] stableD [OF runs_wait w] by simp
  have "serve_and_dump I W s = (if \<not> ok then seqp kill_child (throw (new_Error ''Restored temporary PostgreSQL instance failed to start on port 5439.''))
      else finish_dump I (dump_command I a b)) s6"
    unfolding serve_and_dump_def finish_dump_def
    by (subst bnd_app, simp only: a prod.case sum.case, subst bnd_app, simp only: b prod.case sum.case,
      subst bnd_app, simp only: c prod.case sum.case, subst bnd_app, simp only: d(1) prod.case sum.case,
      subst bnd_app, simp only: e prod.case sum.case, subst bnd_app, simp only: w prod.case sum.case)
  from that [OF w n this] show ?thesis .
qed

lemma serve_and_dump_run:
  assumes "segs (inc_disk I) (work_dir I) \<noteq> []" and "serve_and_dump I W s = (r, s')"
  shows "servers s' = servers s \<and> (\<forall>x. r = Inr x \<longrightarrow> gone I (work_dir I) s')"
proof (rule serve_and_dump_steps [of I W s])
  fix a b e s5 s6 ok assume n: "servers s6 = servers s + 1"
    and "serve_and_dump I W s = (if \<not> ok then seqp kill_child (throw (new_Error ''Restored temporary PostgreSQL instance failed to start on port 5439.''))
      else finish_dump I (dump_command I a b)) s6"
  from trans [OF assms(2) [symmetric] this(2)] have run: "(r, s') = (if \<not> ok then seqp kill_child (throw (new_Error ''Restored temporary PostgreSQL instance failed to start on port 5439.''))
      else finish_dump I (dump_command I a b)) s6" .
  show ?thesis
  proof (cases ok)
    case True
    with run have "finish_dump I (dump_command I a b) s6 = (r, s')" by simp
    from finish_dump_run [OF assms(1) this] n show ?thesis by simp
  next
    case False
    with run n show ?thesis by (simp add: bnd_def kill_child_def log_call_run throw_def servers_def)
  qed
qed

lemma rebuild_chain_run:
  assumes "segs (inc_disk I) (work_dir I) \<noteq> []" and "rebuild_chain I W tool js s = (r, s')"
  shows "servers s' = servers s \<and> (\<forall>x. r = Inr x \<longrightarrow> gone I (work_dir I) s')"
proof -
  have front: "stable (runs n) (bnd (unpack_steps I 0 js) (\<lambda>ds. seqp (inc_run I (combine_command I tool ds)) (on_disk (open_cluster I))))" for n
    by (intro stable_bnd stable_ret runs_unpack runs_exec runs_on_disk)
  have split: "rebuild_chain I W tool js = seqp (bnd (unpack_steps I 0 js) (\<lambda>ds. seqp (inc_run I (combine_command I tool ds)) (on_disk (open_cluster I))))
      (seqp (serve_and_dump I W) (ret (chain_report I)))" unfolding rebuild_chain_def bnd_assoc ..
  obtain q t where m: "bnd (unpack_steps I 0 js) (\<lambda>ds. seqp (inc_run I (combine_command I tool ds)) (on_disk (open_cluster I))) s = (q, t)" by (meson surj_pair)
  from stableD [OF front m] have t: "servers t = servers s" by simp
  obtain x u where d: "serve_and_dump I W t = (x, u)" by (meson surj_pair)
  from serve_and_dump_run [OF assms(1) d] t assms(2) m d show ?thesis
    by (cases q; cases x) (auto simp: split bnd_def ret_def)
qed

text \<open>However the rebuilding of a chain ends, and whatever the commands did to the disk, the working directory
  is gone and every temporary server that was started has been killed, on a disk that does not fail.\<close>

lemma restore_leaves_nothing:
  assumes "reliable (inc_disk I)" and "segs (inc_disk I) (work_dir I) \<noteq> []"
  shows "node_at (d_root (st_disk (snd (restore_work I W tool js s)))) (segs (inc_disk I) (work_dir I)) = None \<and>
    servers (snd (restore_work I W tool js s)) = servers s"
proof -
  obtain r t where m: "rebuild_chain I W tool js s = (r, t)" by (meson surj_pair)
  from rebuild_chain_run [OF assms(2) m] have t: "servers t = servers s" "\<And>x. r = Inr x \<Longrightarrow> gone I (work_dir I) t" by auto
  show ?thesis
  proof (cases r)
    case (Inr x)
    with m t show ?thesis by (simp add: restore_work_def try_catch_def gone_def)
  next
    case (Inl e)
    obtain d where "removeDir (inc_disk I) (work_dir I) (st_disk t) = (Inr (), d)" "node_at (d_root d) (segs (inc_disk I) (work_dir I)) = None"
      using removeDir_gone [OF assms] by blast
    with m t(1) Inl show ?thesis by (simp add: restore_work_def try_catch_def bnd_def on_disk_def throw_def)
  qed
qed

section \<open>What a backup records\<close>

abbreviation final_path :: "inc_env \<Rightarrow> inc_options \<Rightarrow> string" where
  "final_path I opts \<equiv> path_join [inc_outputDir I opts, inc_fileName I opts]"

lemma read_back: "readFileSync E p d = (Inr b, d') \<Longrightarrow> file_on d' (segs E p) = Some b"
  by (auto simp: readFileSync_def bnd_def gets_def fs_try_def Let_def ret_def throw_def file_on_def file_at_def split: option.splits node.splits)

lemma take_incremental_Inr:
  assumes "take_incremental I b opts l s = (Inr v, s')" and "segs (inc_disk I) (inc_tempDir I b) \<noteq> []"
    and "\<not> prefix (segs (inc_disk I) (inc_tempDir I b)) (segs (inc_disk I) (final_path I opts))"
  shows "\<exists>manifest content. v = inc_result I b opts l manifest content \<and> file_on (st_disk s') (segs (inc_disk I) (final_path I opts)) = Some content \<and>
    gone I (inc_tempDir I b) s'"
proof -
  from assms(1) obtain manifest content u w x where f: "on_disk (readFileSync (inc_disk I) (final_path I opts)) u = (Inr content, w)"
      and r: "on_disk (rmSync (inc_disk I) (inc_tempDir I b)) w = (Inr x, s')" and v: "v = inc_result I b opts l manifest content"
    unfolding take_incremental_def Let_def by (elim bnd_InrE) (auto simp: ret_def split: if_splits elim!: bnd_InrE)
  from f have "file_on (st_disk w) (segs (inc_disk I) (final_path I opts)) = Some content"
    by (auto elim!: on_diskE dest: read_back)
  moreover obtain d where d: "rmSync (inc_disk I) (inc_tempDir I b) (st_disk w) = (Inr x, d)" "s' = w\<lparr>st_disk := d\<rparr>"
    using r by (rule on_diskE)
  ultimately show ?thesis using rmSync_Inr [OF assms(2) d(1)] assms(3) v by (auto simp: gone_def)
qed

text \<open>C27: A physical backup that returns has left its archive where it says, with the size and checksum it reports,
  and no working directory. A full one starts a chain: level zero, no parent, its own base. An incremental
  one extends the chain of the parent that was chosen: the parent's identifier, one level higher, the same base.\<close>

theorem incremental_recorded:
  assumes "performIncrementalBackup I W b opts s = (Inr v, s')" and "segs (inc_disk I) (inc_tempDir I b) \<noteq> []"
    and "\<not> prefix (segs (inc_disk I) (inc_tempDir I b)) (segs (inc_disk I) (final_path I opts))"
  shows "(\<exists>content. file_on (st_disk s') (segs (inc_disk I) (final_path I opts)) = Some content \<and>
      jget v ''filePath'' = Some (JStr (final_path I opts)) \<and> jget v ''fileSize'' = Some (JNum (int (length content))) \<and>
      jget v ''checksum'' = Some (JStr (pg_sha256 (ie_pg I) content))) \<and>
    node_at (d_root (st_disk s')) (segs (inc_disk I) (inc_tempDir I b)) = None \<and>
    (if io_type opts = ''incremental''
     then \<exists>parent s0 s1. getParentBackup I W (io_parentBackupId opts) s0 = (Inr parent, s1) \<and>
       jget v ''parentBackupId'' = Some (or_null (jget parent ''id'')) \<and>
       jget v ''backupLevel'' = Some (JNum (level_of (jget parent ''backupLevel'') + 1)) \<and>
       jget v ''baseBackupId'' = Some (or_j (jget parent ''baseBackupId'') (or_null (jget parent ''id'')))
     else jget v ''parentBackupId'' = Some JNull \<and> jget v ''backupLevel'' = Some (JNum 0) \<and> jget v ''baseBackupId'' = Some (JStr b))"
proof -
  from assms(1) obtain l t t' u where l: "link_to_parent I W b opts t = (Inr l, t')"
    and k: "try_catch (take_incremental I b opts l) (\<lambda>e. seqp (on_disk (removeDir (inc_disk I) (inc_tempDir I b))) (throw (inc_failed opts e))) u = (Inr v, s')"
    unfolding performIncrementalBackup_def by (elim bnd_InrE) auto
  from k have "take_incremental I b opts l u = (Inr v, s')"
    by (auto simp: try_catch_def bnd_def throw_def split: prod.splits sum.splits)
  from take_incremental_Inr [OF this assms(2,3)] obtain manifest content where v: "v = inc_result I b opts l manifest content"
    and f: "file_on (st_disk s') (segs (inc_disk I) (final_path I opts)) = Some content" and g: "gone I (inc_tempDir I b) s'" by blast
  have fields: "jget v ''filePath'' = Some (JStr (final_path I opts))" "jget v ''fileSize'' = Some (JNum (int (length content)))"
      "jget v ''checksum'' = Some (JStr (pg_sha256 (ie_pg I) content))" "jget v ''parentBackupId'' = Some (or_null (il_parent l))"
      "jget v ''backupLevel'' = Some (JNum (il_level l))" "jget v ''baseBackupId'' = Some (il_base l)"
    by (simp_all add: v inc_result_def Let_def jobj_def)
  show ?thesis
  proof (cases "io_type opts = ''incremental''")
    case True
    with l obtain parent s1 s2 where p: "getParentBackup I W (io_parentBackupId opts) t = (Inr parent, s1)"
      and k: "bnd (getParentManifestPath I parent) (\<lambda>m. ret \<lparr>il_parent = jget parent ''id'', il_base = or_j (jget parent ''baseBackupId'') (or_null (jget parent ''id'')),
             il_level = level_of (jget parent ''backupLevel'') + 1, il_manifest = m\<rparr>) s1 = (Inr l, s2)"
      unfolding link_to_parent_def by (auto elim: bnd_InrE)
    from k have "il_parent l = jget parent ''id''" "il_base l = or_j (jget parent ''baseBackupId'') (or_null (jget parent ''id''))"
        "il_level l = level_of (jget parent ''backupLevel'') + 1" by (auto simp: ret_def elim!: bnd_InrE)
    with True p f g fields show ?thesis by (auto simp: gone_def)
  next
    case False
    with l have "l = \<lparr>il_parent = None, il_base = JStr b, il_level = 0, il_manifest = ''''\<rparr>" by (simp add: link_to_parent_def ret_def)
    with False f g fields show ?thesis by (simp add: gone_def or_null_def nullish_def)
  qed
qed

section \<open>A concrete service\<close>

text \<open>Commands that make what the program looks at: the manifest, the archive and the combined cluster.\<close>

definition toy_inc_exec :: "string \<Rightarrow> disk \<Rightarrow> (js_error + string) \<times> disk" where
  "toy_inc_exec c d = (let E = pg_disk toy_pg in
     if prefix ''pg_basebackup -h'' c then (Inr '''', snd (writeFileSync E ''/srv/pg_inc_b9/backup_manifest'' [7] d))
     else if prefix ''tar -czf'' c then (Inr '''', snd (writeFileSync E ''/srv/backups/f.tar.gz'' [8, 9] d))
     else if prefix (dq ''pg_combinebackup'') c then (Inr '''', snd (mkdirSync E ''/srv/pg_restore_chain_6/combined_cluster'' d))
     else if str_includes c ''server_version_num'' then (Inr ''180001'', d)
     else (Inr ''on'', d))"

definition toy_inc :: inc_env where
  "toy_inc = \<lparr>ie_pg = toy_pg\<lparr>pg_exec := toy_inc_exec\<rparr>, ie_tmpdir = ''/srv'', ie_homedir = ''/srv'', ie_backup_home = None,
     ie_timestamp = ''2026'', ie_created = JNull\<rparr>"

definition toy_row :: "string \<Rightarrow> json \<Rightarrow> json" where
  "toy_row i parent = JObj [(''id'', JStr i), (''status'', JStr ''success''), (''filePath'', JStr ''/srv/seg''),
     (''parentBackupId'', parent), (''dbType'', JStr ''postgresql''), (''dbName'', JStr ''db''), (''backupLevel'', JNum 3)]"

text \<open>A full backup \<open>b1\<close> and its increment \<open>b2\<close>; and a record that is its own parent.\<close>

definition toy_rows :: "string \<Rightarrow> json" where
  "toy_rows url = (if ends_with url ''/b2'' then toy_row ''b2'' (JStr ''b1'') else toy_row ''b1'' JNull)"

definition toy_records :: "(string \<Rightarrow> json) \<Rightarrow> world" where
  "toy_records rows l c = (case c of Http _ url _ \<Rightarrow> Inr (rows url) | _ \<Rightarrow> Inr JNull)"

abbreviation toy_table :: "string \<Rightarrow> json" where "toy_table i \<equiv> toy_rows (''/api/jobs/'' @ encodeURIComponent i)"

lemma toy_getJob: "fst (getJob (pe_client (pg_pitr (ie_pg toy_inc))) (toy_records rows) i False s) =
    Inr (rows (baseUrl s @ ''/api/jobs/'' @ encodeURIComponent i))"
  by (simp add: getJob_def get_or_null_def request_outcome.simps client_call_def http_def ask_def bnd_def gets_def ret_def toy_records_def)

lemma toy_known: "jobs_known toy_inc (toy_records toy_rows) toy_table"
proof -
  have "ends_with (x @ z) t = ends_with z t" if "length t \<le> length z" for x z t
    using that by (simp add: ends_with_def)
  from this [of "''/b2''"] have "toy_rows (x @ ''/api/jobs/'' @ y) = toy_rows (''/api/jobs/'' @ y)" for x y
    unfolding toy_rows_def by simp
  then show ?thesis by (simp add: jobs_known_def toy_getJob del: append.simps)
qed

lemma toy_known_loop: "jobs_known toy_inc (toy_records (\<lambda>_. toy_row ''a'' (JStr ''a''))) (\<lambda>_. toy_row ''a'' (JStr ''a''))"
  by (simp add: jobs_known_def toy_getJob)


text \<open>No command of it fails, so that a server that was started is dumped.\<close>

lemma toy_exec_run: "\<exists>out t. inc_exec toy_inc c s = (Inr out, t)"
  by (auto simp: execAsync_def bnd_def log_call_run on_disk_def toy_inc_def toy_inc_exec_def Let_def split: prod.split)

lemma toy_inc_run: "\<exists>t. inc_run toy_inc c s = (Inr (), t)"
  using toy_exec_run [of c s] by (auto simp: bnd_app ret_def)

lemma toy_work_dir: "segs (inc_disk toy_inc) (work_dir toy_inc) = [''srv'', ''pg_restore_chain_6'']"
  by code_simp

lemma toy_inc_reliable: "reliable (inc_disk toy_inc)"
  by (simp add: reliable_def toy_inc_def toy_pg_def toy_pitr_def)

lemma toy_finish: "\<exists>t. finish_dump toy_inc c s = (Inr (), t)"
proof -
  obtain t where t: "inc_run toy_inc c s = (Inr (), t)" using toy_inc_run by blast
  let ?u = "t\<lparr>st_proc := st_proc t\<lparr>calls := calls (st_proc t) @ [Other ''kill'' (JStr ''SIGKILL'')]\<rparr>\<rparr>"
  obtain d where "rmSync (inc_disk toy_inc) (work_dir toy_inc) (st_disk t) = (Inr (), d)" using rmSync_reliable [OF toy_inc_reliable] by blast
  then have "seqp kill_child (on_disk (rmSync (inc_disk toy_inc) (work_dir toy_inc))) t = (Inr (), ?u\<lparr>st_disk := d\<rparr>)"
    by (simp add: bnd_def kill_child_def log_call_run on_disk_def)
  with t show ?thesis by (simp add: finish_dump_def try_finally_def)
qed

lemma toy_wait: "\<exists>t. wait_ready toy_inc W c (Suc n) s = (Inr True, t)"
  using toy_exec_run [of c s] by (auto simp: bnd_app try_catch_def ret_def)

lemma toy_serve: "\<exists>t. serve_and_dump toy_inc W s = (Inr (), t)"
proof (rule serve_and_dump_steps [of toy_inc W s])
  fix a b e s5 s6 ok assume w: "wait_ready toy_inc W e 15 s5 = (Inr ok, s6)"
    and r: "serve_and_dump toy_inc W s = (if \<not> ok then seqp kill_child (throw (new_Error ''Restored temporary PostgreSQL instance failed to start on port 5439.''))
      else finish_dump toy_inc (dump_command toy_inc a b)) s6"
  have "wait_ready toy_inc W e 15 s5 = wait_ready toy_inc W e (Suc 14) s5" by (simp del: wait_ready.simps)
  moreover obtain t where "wait_ready toy_inc W e (Suc 14) s5 = (Inr True, t)" using toy_wait by blast
  ultimately have ok using w by (simp del: wait_ready.simps)
  then have "serve_and_dump toy_inc W s = finish_dump toy_inc (dump_command toy_inc a b) s6" using r by (simp only: not_True_eq_False if_False)
  then show ?thesis using toy_finish by metis
qed


lemma restore_leaves_nothing_witness:
  "\<forall>js W s. node_at (d_root (st_disk (snd (restore_work toy_inc W ''pg_combinebackup'' js s)))) [''srv'', ''pg_restore_chain_6''] = None"
proof (intro allI)
  fix js W s
  from restore_leaves_nothing [OF toy_inc_reliable, of W "''pg_combinebackup''" js s] show
    "node_at (d_root (st_disk (snd (restore_work toy_inc W ''pg_combinebackup'' js s)))) [''srv'', ''pg_restore_chain_6''] = None"
    unfolding toy_work_dir by simp
qed

definition toy_inc_options :: inc_options where
  "toy_inc_options = \<lparr>io_type = ''incremental'', io_output = None, io_name = Some ''f.tar.gz'', io_parentBackupId = Some ''b1''\<rparr>"

definition toy_manifest_site :: pitr_site where
  "toy_manifest_site = toy_site [(''.db-backup'', Dir [(''manifests'', Dir [(''b1.manifest'', File [7])])])]"

definition toy_link :: inc_link where
  "toy_link = \<lparr>il_parent = Some (JStr ''b1''), il_base = JStr ''b1'', il_level = 4, il_manifest = ''/srv/.db-backup/manifests/b1.manifest''\<rparr>"

theorem incremental_recorded_witness:
  "\<exists>v s'. performIncrementalBackup toy_inc (toy_records toy_rows) ''b9'' toy_inc_options toy_manifest_site = (Inr v, s') \<and>
    file_on (st_disk s') [''srv'', ''backups'', ''f.tar.gz''] = Some [8, 9] \<and> jget v ''checksum'' = Some (JStr (text_of [8, 9]))"
proof -
  let ?run = "performIncrementalBackup toy_inc (toy_records toy_rows) ''b9'' toy_inc_options toy_manifest_site"
  have p: "segs (inc_disk toy_inc) (final_path toy_inc toy_inc_options) = [''srv'', ''backups'', ''f.tar.gz'']"
    "segs (inc_disk toy_inc) (inc_tempDir toy_inc ''b9'') = [''srv'', ''pg_inc_b9'']" by code_simp+
  let ?I = toy_inc let ?W = "toy_records toy_rows" let ?s = toy_manifest_site
  have "fst (verifyPostgresRequirements ?I ?s) = Inr (JNum 180001, ''pg_combinebackup'')" by code_simp
  then obtain s1 where r1: "verifyPostgresRequirements ?I ?s = (Inr (JNum 180001, ''pg_combinebackup''), s1)"
    and s1: "s1 = snd (verifyPostgresRequirements ?I ?s)" by (rule run_obtain)
  have "fst (link_to_parent ?I ?W ''b9'' toy_inc_options s1) = Inr toy_link" unfolding s1 by code_simp
  then obtain s2 where r2: "link_to_parent ?I ?W ''b9'' toy_inc_options s1 = (Inr toy_link, s2)"
    and s2: "s2 = snd (link_to_parent ?I ?W ''b9'' toy_inc_options s1)" by (rule run_obtain)
  have "fst (on_disk (mkdirSync (inc_disk ?I) (inc_tempDir ?I ''b9'')) s2) = Inr ()" unfolding s2 s1 by code_simp
  then obtain s3 where r3: "on_disk (mkdirSync (inc_disk ?I) (inc_tempDir ?I ''b9'')) s2 = (Inr (), s3)"
    and s3: "s3 = snd (on_disk (mkdirSync (inc_disk ?I) (inc_tempDir ?I ''b9'')) s2)" by (rule run_obtain)
  let ?take = "take_incremental ?I ''b9'' toy_inc_options toy_link s3"
  have "case fst ?take of Inl _ \<Rightarrow> False | Inr v \<Rightarrow> file_on (st_disk (snd ?take)) [''srv'', ''backups'', ''f.tar.gz''] = Some [8, 9]"
    unfolding s3 s2 s1 by code_simp
  then obtain v s4 where t: "?take = (Inr v, s4)" and f: "file_on (st_disk s4) [''srv'', ''backups'', ''f.tar.gz''] = Some [8, 9]"
    by (cases ?take) (auto split: sum.splits)
  have r: "?run = (Inr v, s4)"
    unfolding performIncrementalBackup_def
    by (subst bnd_app, simp only: r1 prod.case sum.case, subst bnd_app, simp only: r2 prod.case sum.case,
      subst bnd_app, simp only: r3 prod.case sum.case try_catch_def t)
  have sha: "pg_sha256 (ie_pg toy_inc) = text_of" by (simp add: toy_inc_def toy_pg_def)
  from incremental_recorded [OF r] f have "jget v ''checksum'' = Some (JStr (text_of [8, 9]))" unfolding p sha by auto
  with r f show ?thesis by blast
qed

end
