(* ===== verification/DbAdapters.thy ===== *)
theory DbAdapters
  imports RestoreWorker
begin

text \<open>
  \<open>infrastructure/database\<close>: the adapters the command line uses to reach a database itself, and the
  factory that chooses one.

  Database drivers, child processes and files are calls to the world. A spawned process answers an
  object with \<open>code\<close>, \<open>stdout\<close> and \<open>stderr\<close>, or fails to start. The replay of a chain of incremental
  backups, which is the work of \<open>postgres-incremental.service.ts\<close> and of \<open>mysql/manager.ts\<close>, is one call
  here. A database configuration and the options of an operation are JavaScript objects; names of
  databases are text, lists of tables are lists of text.
\<close>

record adapter_env =
  ad_cwd :: string
  ad_now :: string
  ad_duration :: json

text \<open>The interface \<open>IDatabaseAdapter\<close>.\<close>

record db_adapter =
  supportedTypes :: "string list"
  testConnection :: "json \<Rightarrow> (proc, json) prog"
  adapter_backup :: "json \<Rightarrow> json \<Rightarrow> (proc, json) prog"
  adapter_restore :: "json \<Rightarrow> (proc, json) prog"

section \<open>The base adapter\<close>

definition executeCommand :: "world \<Rightarrow> string \<Rightarrow> string list \<Rightarrow> (string \<times> json) list \<Rightarrow> (proc, json) prog" where
  "executeCommand W cmd args env = bnd (run_call W (Other ''spawn'' (JObj [(''cmd'', JStr cmd),
       (''args'', JArr (map JStr args)), (''env'', JObj env)]))) (\<lambda>r.
     if jget r ''code'' = Some (JNum 0) then ret r
     else throw (new_Error (''Command '' @ cmd @ '' exited with code '' @ tpl (jget r ''code'') @ '': '' @
       js_String (or_j (jget r ''stderr'') (or_null (jget r ''stdout''))))))"

text \<open>\<open>String(config.key || d)\<close>, the optional lists of tables, and \<open>err.message\<close> as a result.\<close>

definition cfg_or :: "json \<Rightarrow> string \<Rightarrow> json \<Rightarrow> string" where
  "cfg_or c k d = js_String (or_j (jget c k) d)"

fun texts :: "json option \<Rightarrow> string list" where
  "texts (Some (JArr xs)) = map js_String xs"
| "texts _ = []"

definition flagged :: "string \<Rightarrow> string list \<Rightarrow> string list" where
  "flagged f xs = concat (map (\<lambda>t. [f, t]) xs)"

definition not_connected :: "js_error \<Rightarrow> json" where
  "not_connected e = JObj [(''success'', JBool False), (''error'', JStr (err_message e))]"

definition dashed :: "string \<Rightarrow> string" where
  "dashed t = map (\<lambda>c. if c = CHR 0x3A \<or> c = CHR 0x2E then CHR 0x2D else c) t"

definition stamped :: "adapter_env \<Rightarrow> json \<Rightarrow> json \<Rightarrow> string" where
  "stamped A cfg opts = or_s (text_column (Some opts) ''backupName'') (tpl (jget cfg ''database'') @ ''_'' @ dashed (ad_now A))"

definition output_file :: "adapter_env \<Rightarrow> json \<Rightarrow> string \<Rightarrow> string" where
  "output_file A opts name = path_resolve (ad_cwd A) [or_s (text_column (Some opts) ''outputPath'') ''./backups/local'', name]"

definition backup_done :: "adapter_env \<Rightarrow> json \<Rightarrow> string \<Rightarrow> json" where
  "backup_done A opts name = jobj [(''success'', Some (JBool True)), (''backupId'', jget opts ''backupId''),
     (''filePath'', Some (JStr (output_file A opts name))), (''fileName'', Some (JStr name)),
     (''fileSize'', Some (JNum 0)), (''duration'', Some (ad_duration A))]"

definition restore_done :: "string \<Rightarrow> json \<Rightarrow> json" where
  "restore_done m d = JObj [(''success'', JBool True), (''message'', JStr m), (''duration'', d)]"

fun first_row :: "json option \<Rightarrow> json option" where
  "first_row (Some (JArr (x # xs))) = Some x"
| "first_row _ = None"

section \<open>PostgreSQL\<close>

definition postgres_connection :: "json \<Rightarrow> json" where
  "postgres_connection c = jobj [(''host'', Some (or_j (jget c ''host'') (JStr ''localhost''))),
     (''port'', Some (or_j (jget c ''port'') (JNum 5432))), (''user'', jget c ''username''), (''password'', jget c ''password''),
     (''database'', jget c ''database''),
     (''ssl'', Some (if truthy_j (jget c ''ssl'') then JObj [(''rejectUnauthorized'', JBool False)] else JBool False))]"

definition postgres_test :: "world \<Rightarrow> json \<Rightarrow> (proc, json) prog" where
  "postgres_test W c = try_finally
     (try_catch
       (seqp (unit_call W (Other ''pg.connect'' (postgres_connection c)))
       (bnd (run_call W (Other ''pg.query'' (JStr ''SELECT version() as version, current_database() as db, current_user as user''))) (\<lambda>res.
        let row = first_row (jget res ''rows'') in
        seqp (unit_call W (Other ''pg.end'' JNull))
          (ret (JObj [(''success'', JBool True),
            (''version'', JStr (or_s (map_option (takeWhile (\<lambda>ch. ch \<noteq> CHR '','')) (text_column row ''version'')) ''PostgreSQL'')),
            (''details'', jobj [(''database'', oget row ''db''), (''user'', oget row ''user'')])])))))
       (\<lambda>e. ret (not_connected e)))
     (ignore_errors (unit_call W (Other ''pg.end'' JNull)))"

definition postgres_target :: "json \<Rightarrow> string \<Rightarrow> string list" where
  "postgres_target c h = [''-h'', cfg_or c ''host'' (JStr h), ''-p'', cfg_or c ''port'' (JNum 5432),
     ''-U'', cfg_or c ''username'' (JStr ''postgres''), ''-d'', tpl (jget c ''database'')]"

definition pg_password :: "json \<Rightarrow> (string \<times> json) list" where
  "pg_password c = [(''PGPASSWORD'', or_j (jget c ''password'') (JStr ''''))]"

definition postgres_backup :: "adapter_env \<Rightarrow> world \<Rightarrow> json \<Rightarrow> json \<Rightarrow> (proc, json) prog" where
  "postgres_backup A W c opts = (let name = stamped A c opts @ ''.dump'' in
     seqp (executeCommand W ''pg_dump'' (postgres_target c ''127.0.0.1'' @
         [''--format=custom'', ''--blobs'', ''--clean'', ''--if-exists'', ''-f'', output_file A opts name] @
         flagged ''-t'' (texts (jget opts ''tables'')) @ flagged ''-T'' (texts (jget opts ''excludeTables''))) (pg_password c))
       (ret (backup_done A opts name)))"

definition is_incremental :: "json option \<Rightarrow> bool" where
  "is_incremental r \<longleftrightarrow> oget r ''backupType'' = Some (JStr ''incremental'') \<or> truthy_j (oget r ''parentBackupId'')"

definition is_custom_dump :: "string \<Rightarrow> bool" where
  "is_custom_dump p \<longleftrightarrow> ends_with p ''.dump'' \<or> ends_with p ''.custom''"

definition postgres_restore :: "adapter_env \<Rightarrow> world \<Rightarrow> json \<Rightarrow> (proc, json) prog" where
  "postgres_restore A W opts = (let c = or_null (jget opts ''dbConfig''); p = tpl (jget opts ''backupFilePath''); r = jget opts ''backupRecord'' in
     if truthy_j r \<and> is_incremental r
     then bnd (run_call W (Other ''PostgresIncrementalService.restoreBackupChain'' (JArr [or_null (oget r ''id''), c]))) (\<lambda>d.
       ret (restore_done ''PostgreSQL incremental backup chain restored successfully'' (or_null (jget d ''duration''))))
     else seqp (if is_custom_dump p
         then executeCommand W ''pg_restore'' (postgres_target c ''localhost'' @
           [''--clean'', ''--if-exists'', ''--no-owner'', ''--no-privileges''] @ flagged ''-t'' (texts (jget opts ''tables'')) @ [p]) (pg_password c)
         else executeCommand W ''psql'' (postgres_target c ''localhost'' @ [''-f'', p]) (pg_password c))
       (ret (restore_done ''PostgreSQL restore completed successfully'' (ad_duration A))))"

section \<open>MySQL\<close>

definition mysql_connection :: "json \<Rightarrow> json" where
  "mysql_connection c = jobj [(''host'', Some (or_j (jget c ''host'') (JStr ''localhost''))),
     (''port'', Some (or_j (jget c ''port'') (JNum 3306))), (''user'', Some (or_j (jget c ''username'') (JStr ''root''))),
     (''password'', jget c ''password''), (''database'', jget c ''database''), (''connectTimeout'', Some (JNum 5000))]"

definition mysql_test :: "world \<Rightarrow> json \<Rightarrow> (proc, json) prog" where
  "mysql_test W c = try_catch
     (seqp (unit_call W (Other ''mysql.createConnection'' (mysql_connection c)))
     (bnd (run_call W (Other ''mysql.query'' (JStr ''SELECT VERSION() as version, DATABASE() as db, CURRENT_USER() as user''))) (\<lambda>rows.
      let row = first_row (Some rows) in
      seqp (unit_call W (Other ''mysql.end'' JNull))
        (ret (JObj [(''success'', JBool True), (''version'', or_j (oget row ''version'') (JStr ''MySQL'')),
          (''details'', jobj [(''database'', oget row ''db''), (''user'', oget row ''user'')])])))))
     (\<lambda>e. ret (not_connected e))"

definition mysql_target :: "json \<Rightarrow> string list" where
  "mysql_target c = [''-h'', cfg_or c ''host'' (JStr ''localhost''), ''-P'', cfg_or c ''port'' (JNum 3306), ''-u'', cfg_or c ''username'' (JStr ''root'')]"

definition mysql_password :: "json \<Rightarrow> string list" where
  "mysql_password c = (if truthy_j (jget c ''password'') then [''-p'' @ tpl (jget c ''password'')] else [])"

definition mysql_backup :: "adapter_env \<Rightarrow> world \<Rightarrow> json \<Rightarrow> json \<Rightarrow> (proc, json) prog" where
  "mysql_backup A W c opts = (let name = stamped A c opts @ ''.sql'' in
     seqp (executeCommand W ''mysqldump'' (mysql_target c @
         [''--single-transaction'', ''--quick'', ''--result-file'', output_file A opts name] @ mysql_password c @
         [tpl (jget c ''database'')] @ texts (jget opts ''tables'')) [])
       (ret (backup_done A opts name)))"

text \<open>\<open>backupRecord?.id || path.basename(backupFilePath).split('.')[0]\<close>\<close>

definition chain_id :: "json \<Rightarrow> string" where
  "chain_id opts = js_String (or_j (oget (jget opts ''backupRecord'') ''id'')
     (JStr (takeWhile (\<lambda>ch. ch \<noteq> CHR ''.'') (path_basename (tpl (jget opts ''backupFilePath'')) ''''))))"

text \<open>\<open>Some\<close>: the chain was restored. Every error of the block is swallowed.\<close>

definition mysql_chain :: "adapter_env \<Rightarrow> world \<Rightarrow> json \<Rightarrow> json \<Rightarrow> (proc, json option) prog" where
  "mysql_chain A W c opts = try_catch
     (bnd (run_call W (Other ''MySQLIncrementalBackupManager.getBackupChain'' (JStr (chain_id opts)))) (\<lambda>chain.
      if truthy_j (Some chain)
      then seqp (unit_call W (Other ''MySQLIncrementalBackupManager.restoreToPointInTime'' (JArr [c, JStr (chain_id opts)])))
        (ret (Some (restore_done ''MySQL incremental backup chain restored successfully'' (ad_duration A))))
      else ret None))
     (\<lambda>_. ret None)"

definition mysql_restore :: "adapter_env \<Rightarrow> world \<Rightarrow> json \<Rightarrow> (proc, json) prog" where
  "mysql_restore A W opts = (let c = or_null (jget opts ''dbConfig'') in
     bnd (mysql_chain A W c opts) (\<lambda>r. case r of Some d \<Rightarrow> ret d
     | None \<Rightarrow> seqp (executeCommand W ''mysql'' (mysql_target c @ mysql_password c @
           [tpl (jget c ''database''), ''-e'', ''source '' @ tpl (jget opts ''backupFilePath'')]) [])
         (ret (restore_done ''MySQL database restored successfully'' (ad_duration A)))))"

section \<open>MongoDB\<close>

definition mongo_uri :: "json \<Rightarrow> string" where
  "mongo_uri c = (if truthy_j (jget c ''connectionString'') then tpl (jget c ''connectionString'')
     else ''mongodb://'' @ (if truthy_j (jget c ''username'') \<and> truthy_j (jget c ''password'')
         then tpl (jget c ''username'') @ '':'' @ tpl (jget c ''password'') @ ''@'' else '''') @
       cfg_or c ''host'' (JStr ''localhost'') @ '':'' @ cfg_or c ''port'' (JNum 27017) @ ''/'' @ tpl (jget c ''database''))"

definition mongo_test :: "world \<Rightarrow> json \<Rightarrow> (proc, json) prog" where
  "mongo_test W c = try_finally
     (try_catch
       (seqp (unit_call W (Other ''mongo.connect'' (JStr (mongo_uri c))))
       (bnd (run_call W (Other ''mongo.serverStatus'' JNull)) (\<lambda>st.
        seqp (unit_call W (Other ''mongo.close'' JNull))
          (ret (JObj [(''success'', JBool True), (''version'', or_j (jget st ''version'') (JStr ''MongoDB'')),
            (''details'', jobj [(''database'', jget c ''database'')])])))))
       (\<lambda>e. ret (not_connected e)))
     (ignore_errors (unit_call W (Other ''mongo.close'' JNull)))"

definition mongo_target :: "json \<Rightarrow> string \<Rightarrow> string list" where
  "mongo_target c archive = [''--host'', cfg_or c ''host'' (JStr ''localhost''), ''--port'', cfg_or c ''port'' (JNum 27017),
     ''--db'', tpl (jget c ''database''), ''--archive='' @ archive]"

definition mongo_auth :: "json \<Rightarrow> string list" where
  "mongo_auth c = (if truthy_j (jget c ''username'') then [''--username'', tpl (jget c ''username'')] else []) @
     (if truthy_j (jget c ''password'') then [''--password'', tpl (jget c ''password'')] else [])"

definition mongo_backup :: "adapter_env \<Rightarrow> world \<Rightarrow> json \<Rightarrow> json \<Rightarrow> (proc, json) prog" where
  "mongo_backup A W c opts = (let name = stamped A c opts @ ''.archive'' in
     seqp (executeCommand W ''mongodump'' (mongo_target c (output_file A opts name) @ mongo_auth c) [])
       (ret (backup_done A opts name)))"

definition mongo_restore :: "adapter_env \<Rightarrow> world \<Rightarrow> json \<Rightarrow> (proc, json) prog" where
  "mongo_restore A W opts = (let c = or_null (jget opts ''dbConfig'') in
     seqp (executeCommand W ''mongorestore'' (mongo_target c (tpl (jget opts ''backupFilePath'')) @ [''--drop''] @ mongo_auth c) [])
       (ret (restore_done ''MongoDB database restored successfully'' (ad_duration A))))"

section \<open>SQLite\<close>

definition sqlite_test :: "world \<Rightarrow> json \<Rightarrow> (proc, json) prog" where
  "sqlite_test W c = (let p = tpl (jget c ''database'') in
     bnd (exists_file W p) (\<lambda>here.
     bnd (if here then ret False else exists_file W (p @ ''.db'')) (\<lambda>suffixed.
     let q = (if suffixed then p @ ''.db'' else p) in
     bnd (exists_file W q) (\<lambda>there.
       ret (JObj [(''success'', JBool True),
         (''version'', JStr (if there then ''SQLite 3.x'' else ''SQLite 3.x (new file will be created on write)'')),
         (''details'', JObj [(''database'', JStr q)])])))))"

definition sqlite_source :: "world \<Rightarrow> string \<Rightarrow> (proc, string) prog" where
  "sqlite_source W p =
     bnd (exists_file W p) (\<lambda>here. if here then ret p else
     bnd (exists_file W (p @ ''.db'')) (\<lambda>suffixed. if suffixed then ret (p @ ''.db'') else
     bnd (exists_file W ''backup-meta.db'') (\<lambda>meta. if meta then ret ''backup-meta.db''
       else throw (new_Error (''SQLite database file not found: '' @ p)))))"

definition ensure_dir :: "world \<Rightarrow> string \<Rightarrow> (proc, unit) prog" where
  "ensure_dir W d = bnd (exists_file W d) (\<lambda>there. if there then ret () else unit_call W (FileOp ''mkdirSync'' [d]))"

definition copy_file :: "world \<Rightarrow> string \<Rightarrow> string \<Rightarrow> (proc, unit) prog" where
  "copy_file W a b = unit_call W (FileOp ''copyFileSync'' [a, b])"

definition sqlite_backup :: "adapter_env \<Rightarrow> world \<Rightarrow> json \<Rightarrow> json \<Rightarrow> (proc, json) prog" where
  "sqlite_backup A W c opts = bnd (sqlite_source W (tpl (jget c ''database''))) (\<lambda>src.
     let name = (if truthy_s (text_column (Some opts) ''backupName'') then the (text_column (Some opts) ''backupName'') @ ''.db''
           else path_basename src ''.db'' @ ''_'' @ dashed (ad_now A) @ ''.db'');
         out = output_file A opts name in
     seqp (ensure_dir W (path_dirname out))
    (seqp (copy_file W src out) (ret (backup_done A opts name))))"

definition sqlite_restore :: "adapter_env \<Rightarrow> world \<Rightarrow> json \<Rightarrow> (proc, json) prog" where
  "sqlite_restore A W opts = (let target = path_resolve (ad_cwd A) [tpl (oget (jget opts ''dbConfig'') ''database'')];
       staged = target @ ''.restoring'' in
     seqp (ensure_dir W (path_dirname target))
    (seqp (copy_file W (tpl (jget opts ''backupFilePath'')) staged)
    (bnd (exists_file W target) (\<lambda>there.
     seqp (if there then unit_call W (FileOp ''unlinkSync'' [target]) else ret ())
    (seqp (copy_file W staged target)
    (seqp (unit_call W (FileOp ''unlinkSync'' [staged]))
      (ret (JObj [(''success'', JBool True), (''message'', JStr (''SQLite database restored successfully to '' @ target)),
        (''duration'', ad_duration A), (''details'', JObj [(''targetPath'', JStr target)])]))))))))"

section \<open>The factory\<close>

definition PostgresAdapter :: "adapter_env \<Rightarrow> world \<Rightarrow> db_adapter" where
  "PostgresAdapter A W = \<lparr>supportedTypes = [''postgresql'', ''postgres'', ''pg''], testConnection = postgres_test W,
     adapter_backup = postgres_backup A W, adapter_restore = postgres_restore A W\<rparr>"

definition MySQLAdapter :: "adapter_env \<Rightarrow> world \<Rightarrow> db_adapter" where
  "MySQLAdapter A W = \<lparr>supportedTypes = [''mysql'', ''mariadb''], testConnection = mysql_test W,
     adapter_backup = mysql_backup A W, adapter_restore = mysql_restore A W\<rparr>"

definition MongoDBAdapter :: "adapter_env \<Rightarrow> world \<Rightarrow> db_adapter" where
  "MongoDBAdapter A W = \<lparr>supportedTypes = [''mongodb'', ''mongo''], testConnection = mongo_test W,
     adapter_backup = mongo_backup A W, adapter_restore = mongo_restore A W\<rparr>"

definition SQLiteAdapter :: "adapter_env \<Rightarrow> world \<Rightarrow> db_adapter" where
  "SQLiteAdapter A W = \<lparr>supportedTypes = [''sqlite'', ''sqlite3''], testConnection = sqlite_test W,
     adapter_backup = sqlite_backup A W, adapter_restore = sqlite_restore A W\<rparr>"

definition all_adapters :: "adapter_env \<Rightarrow> world \<Rightarrow> db_adapter list" where
  "all_adapters A W = [PostgresAdapter A W, MySQLAdapter A W, MongoDBAdapter A W, SQLiteAdapter A W]"

definition UnsupportedDatabaseError :: "json option \<Rightarrow> js_error" where
  "UnsupportedDatabaseError t = JsError ''UNSUPPORTED_DATABASE_ERROR''
     (''Unsupported database type: '' @ tpl t @ ''. Supported types: postgresql, mysql, mongodb, sqlite'')"

definition getAdapter :: "db_adapter list \<Rightarrow> json option \<Rightarrow> (proc, db_adapter) prog" where
  "getAdapter as t = (let n = js_trim (js_lower (js_String (or_j t (JStr '''')))) in
     case List.find (\<lambda>a. n \<in> set (supportedTypes a)) as of
       None \<Rightarrow> throw (UnsupportedDatabaseError t) | Some a \<Rightarrow> ret a)"

end
