(* ===== verification/KeyService.thy ===== *)
theory KeyService
  imports KeyStore
begin

text \<open>
  The key store as its clients see it: the interface \<open>IKeystoreService\<close> of
  \<open>application/use-cases/backup.use-case.ts\<close> (\<open>IKeyManagerReadonly\<close> in the restore use case) as a record
  of operations, the contract of a store of keys as the locale \<open>keystore_service\<close>, with a map from
  backup identifiers to keys as the abstract state, and its interpretation on \<open>lib/key-manager.ts\<close>.
\<close>

record 's key_api =
  api_addKey :: "string \<Rightarrow> string \<Rightarrow> string \<Rightarrow> string \<Rightarrow> ('s, unit) prog"
  api_deleteKey :: "string \<Rightarrow> ('s, bool) prog"
  api_getKey :: "string \<Rightarrow> ('s, string option) prog"

definition keyManager :: "key_env \<Rightarrow> key_st key_api" where
  "keyManager E = \<lparr>api_addKey = addKey E, api_deleteKey = deleteKey E,
     api_getKey = (\<lambda>b. bnd (getKey E b) (\<lambda>e. ret (map_option ke_key e)))\<rparr>"

locale keystore_service =
  fixes K :: "'s key_api" and ready :: "'s \<Rightarrow> bool" and key_of :: "'s \<Rightarrow> string \<Rightarrow> string option"
  assumes addKey_law: "ready s \<Longrightarrow> \<exists>s'. api_addKey K b k n t s = (Inr (), s') \<and> ready s' \<and> key_of s' = (key_of s)(b \<mapsto> k)"
    and deleteKey_law: "ready s \<Longrightarrow> \<exists>s'. api_deleteKey K b s = (Inr (key_of s b \<noteq> None), s') \<and> ready s' \<and>
      key_of s' = (key_of s)(b := None)"
    and getKey_law: "ready s \<Longrightarrow> \<exists>s'. api_getKey K b s = (Inr (key_of s b), s') \<and> ready s' \<and> key_of s' = key_of s"
begin

lemma wp_addKey:
  assumes "ready s" and "\<And>s'. ready s' \<Longrightarrow> key_of s' = (key_of s)(b \<mapsto> k) \<Longrightarrow> Q () (p, s')"
  shows "wp (on_snd (api_addKey K b k n t)) Q E (p, s)"
  using addKey_law [OF assms(1), of b k n t] assms(2) by (auto simp: wp_def on_snd_def)

lemma wp_deleteKey:
  assumes "ready s" and "\<And>s'. ready s' \<Longrightarrow> key_of s' = (key_of s)(b := None) \<Longrightarrow> Q (key_of s b \<noteq> None) (p, s')"
  shows "wp (on_snd (api_deleteKey K b)) Q E (p, s)"
  using deleteKey_law [OF assms(1), of b] assms(2) by (auto simp: wp_def on_snd_def)

end

section \<open>The key manager provides it\<close>

definition usable :: "key_env \<Rightarrow> key_st \<Rightarrow> bool" where
  "usable E s \<longleftrightarrow> key_env_ok E \<and> ((\<exists>ks. holds E ks s) \<or> fresh E s)"

definition stored :: "key_env \<Rightarrow> key_st \<Rightarrow> string \<Rightarrow> string option" where
  "stored E s b = (case fst (getKey E b s) of Inr (Some e) \<Rightarrow> Some (ke_key e) | _ \<Rightarrow> None)"

lemma usable_load:
  assumes "usable E s"
  obtains ks s' where "loadKeystore E s = (Inr ks, s')" and "holds E ks s'" and "keystore s' = Some ks"
    and "stored E s = (\<lambda>b. map_option ke_key (find_key b (ks_keys ks)))"
proof -
  obtain ks s' where l: "loadKeystore E s = (Inr ks, s')" "holds E ks s'" "keystore s' = Some ks"
    using assms load_ready [of E s] unfolding usable_def by blast
  have "stored E s b = map_option ke_key (find_key b (ks_keys ks))" for b
    using l(1) by (simp add: stored_def getKey_def bnd_def ret_def split: option.split)
  with l that show ?thesis by blast
qed

lemma holds_stored: "key_env_ok E \<Longrightarrow> holds E ks s \<Longrightarrow> stored E s = (\<lambda>b. map_option ke_key (find_key b (ks_keys ks)))"
  by (rule ext) (simp add: stored_def getKey_holds split: option.split)

lemma holds_usable: "key_env_ok E \<Longrightarrow> holds E ks s \<Longrightarrow> usable E s"
  by (auto simp: usable_def)

lemma put_key_map:
  "(\<lambda>c. map_option ke_key (find_key c (put_key E b k n t xs))) = (\<lambda>c. map_option ke_key (find_key c xs))(b \<mapsto> k)"
  using put_key_same [of b E k n t xs] by (auto simp: fun_eq_iff put_key_other)

lemma filter_map:
  "(\<lambda>c. map_option ke_key (find_key c (filter (\<lambda>k. ke_backupId k \<noteq> b) xs))) =
    (\<lambda>c. map_option ke_key (find_key c xs))(b := None)"
  by (auto simp: fun_eq_iff find_key_def find_filter_ne find_filter_other)

lemma find_key_shorter:
  "length (filter (\<lambda>k. ke_backupId k \<noteq> b) xs) < length xs \<longleftrightarrow> find_key b xs \<noteq> None"
  unfolding length_filter_less_iff by (auto simp: find_key_def find_None_iff)

interpretation local_keys: keystore_service "keyManager E" "usable E" "stored E" for E
proof (unfold_locales, goal_cases)
  case (1 s b k n t)
  then have ok: "key_env_ok E" by (simp add: usable_def)
  obtain ks u where l: "loadKeystore E s = (Inr ks, u)" "holds E ks u" "stored E s = (\<lambda>b. map_option ke_key (find_key b (ks_keys ks)))"
    using 1 by (rule usable_load)
  obtain mk where "has_master E mk u" using l(2) by (auto simp: holds_def)
  then obtain s' where "update_store E (put_key E b k n t (ks_keys ks)) ks u = (Inr (), s')"
    "holds E (ks\<lparr>ks_keys := put_key E b k n t (ks_keys ks), ks_updatedAt := kv_now E\<rparr>) s'" using update_holds [OF ok] by blast
  with l ok show ?case
    by (intro exI [of _ s']) (simp add: keyManager_def addKey_def bnd_def holds_usable holds_stored put_key_map)
next
  case (2 s b)
  then have ok: "key_env_ok E" by (simp add: usable_def)
  obtain ks u where l: "loadKeystore E s = (Inr ks, u)" "holds E ks u" "keystore u = Some ks"
    "stored E s = (\<lambda>b. map_option ke_key (find_key b (ks_keys ks)))"
    using 2 by (rule usable_load)
  let ?xs = "filter (\<lambda>k. ke_backupId k \<noteq> b) (ks_keys ks)"
  show ?case
  proof (cases "find_key b (ks_keys ks)")
    case None
    then have "?xs = ks_keys ks" by (auto simp: find_key_def find_None_iff intro: filter_True)
    then have "deleteKey E b s = (Inr False, u)"
      using l by (simp add: deleteKey_def bnd_def Let_def set_store_def modify_st_def ret_def)
    with l ok None show ?thesis
      by (intro exI [of _ u]) (simp add: keyManager_def holds_usable holds_stored fun_eq_iff)
  next
    case (Some e)
    let ?u = "u\<lparr>keystore := Some (ks\<lparr>ks_keys := ?xs\<rparr>)\<rparr>"
    obtain mk where "has_master E mk ?u" using holds_master [OF l(2)] by blast
    then obtain s' where "update_store E ?xs ks ?u = (Inr (), s')"
      "holds E (ks\<lparr>ks_keys := ?xs, ks_updatedAt := kv_now E\<rparr>) s'" using update_holds [OF ok] by blast
    with l ok Some show ?thesis
      by (intro exI [of _ s']) (simp add: keyManager_def deleteKey_def bnd_def Let_def set_store_def modify_st_def ret_def
          find_key_shorter holds_usable holds_stored filter_map)
  qed
next
  case (3 s b)
  then have ok: "key_env_ok E" by (simp add: usable_def)
  obtain ks u where l: "loadKeystore E s = (Inr ks, u)" "holds E ks u" "stored E s = (\<lambda>b. map_option ke_key (find_key b (ks_keys ks)))"
    using 3 by (rule usable_load)
  with ok show ?case
    by (intro exI [of _ u]) (simp add: keyManager_def getKey_def bnd_def ret_def holds_usable holds_stored)
qed

end
