(* ===== verification/UseCases.thy ===== *)
theory UseCases
  imports DbAdapters KeyService StorageService
begin

text \<open>
  The use cases of the command line that start from a process on the user's machine: the repository
  they read through (\<open>infrastructure/repositories/prisma-backup.repository.ts\<close>), the factory of storage
  providers, and \<open>application/use-cases\<close> \<open>connect\<close>, \<open>list-backups\<close> and \<open>backup\<close>.

  The configuration file is the function \<open>ue_config\<close> (\<open>configStore.get\<close>); the key store is any
  implementation of its interface, so that a program acts on a pair of a process and the state of that
  store. The 32 random bytes of a new key are part of the environment. Identifiers the gateway answers are text.
\<close>

record usecase_env =
  ue_var :: "string \<Rightarrow> string option"
  ue_config :: "string \<Rightarrow> json option"
  ue_client :: meta_client
  ue_gateway :: string
  ue_random :: bytes

definition ConfigurationError :: "string \<Rightarrow> js_error" where
  "ConfigurationError m = JsError ''CONFIGURATION_ERROR'' m"

definition StorageNotFoundError :: "string \<Rightarrow> js_error" where
  "StorageNotFoundError n = JsError ''STORAGE_NOT_FOUND'' (''Storage location '' @ dquoted n @ '' not found'')"

definition StorageError :: "string \<Rightarrow> js_error" where
  "StorageError m = JsError ''STORAGE_ERROR'' m"

definition BackupExecutionError :: "string \<Rightarrow> js_error" where
  "BackupExecutionError m = JsError ''BACKUP_EXECUTION_ERROR'' m"

definition DatabaseConnectionError :: "string \<Rightarrow> js_error" where
  "DatabaseConnectionError m = JsError ''DATABASE_CONNECTION_ERROR'' m"

section \<open>The repository\<close>

definition or_none :: "json \<Rightarrow> json option" where
  "or_none r = if_truthy (Some r)"

definition findJobById :: "meta_client \<Rightarrow> world \<Rightarrow> string \<Rightarrow> (proc, json option) prog" where
  "findJobById C W i = bnd (getJob C W i False) (\<lambda>r. ret (or_none r))"

definition findManyJobs :: "meta_client \<Rightarrow> world \<Rightarrow> json \<Rightarrow> (proc, json) prog" where
  "findManyJobs C W ps = (let w = jget ps ''where'' in
     bnd (listJobs C W (jobj [(''status'', oget w ''status''), (''dbType'', oget w ''dbType''), (''dbName'', oget w ''dbName''),
         (''take'', jget ps ''take''), (''skip'', jget ps ''skip''),
         (''orderBy'', Some (JStr (if oget (jget ps ''orderBy'') ''startedAt'' = Some (JStr ''asc'') then ''asc'' else ''desc'')))])) (\<lambda>res.
       ret (or_j (jget res ''jobs'') (JArr []))))"

definition findStorageByName :: "meta_client \<Rightarrow> world \<Rightarrow> string \<Rightarrow> (proc, json option) prog" where
  "findStorageByName C W n = bnd (getStorage C W n) (\<lambda>r. ret (or_none r))"

definition findDefaultStorage :: "meta_client \<Rightarrow> world \<Rightarrow> (proc, json option) prog" where
  "findDefaultStorage C W = bnd (getDefaultStorage C W) (\<lambda>r. ret (or_none r))"

definition listStorages :: "meta_client \<Rightarrow> world \<Rightarrow> bool \<Rightarrow> (proc, json) prog" where
  "listStorages C W enabledOnly = bnd (listStorage C W (Some enabledOnly)) (\<lambda>r. ret (or_j (Some r) (JArr [])))"

section \<open>Storage providers\<close>

text \<open>What the constructors make of the factory's argument: \<open>LocalStorageProvider\<close> receives the path
  itself, a string.\<close>

datatype made_provider = LocalAt string | S3At s3_client

definition create_provider :: "(string \<Rightarrow> string option) \<Rightarrow> json \<Rightarrow> js_error + made_provider" where
  "create_provider var sc = (let type = js_lower (js_String (or_j (jget sc ''type'') (JStr ''local'')));
       cfg = Some (or_j (jget sc ''config'') (JObj []));
       env_or = (\<lambda>k. JStr (or_s (var k) '''')) in
     if type = ''s3'' then Inr (S3At (s3_new (JObj [(''type'', JStr ''s3''), (''bucket'', or_j (jget sc ''bucket'') (JStr '''')),
         (''region'', or_j (jget sc ''region'') (JStr ''us-east-1'')),
         (''accessKeyId'', or_j (jget sc ''accessKey'') (env_or ''AWS_ACCESS_KEY_ID'')),
         (''secretAccessKey'', or_j (jget sc ''secretKey'') (env_or ''AWS_SECRET_ACCESS_KEY'')),
         (''prefix'', or_null (or_chain [jget sc ''prefix'', oget cfg ''prefix'', Some (JStr '''')]))])))
     else if type = ''local'' then Inr (LocalAt (local_basePath (or_null (or_chain [jget sc ''basePath'', oget cfg ''basePath'',
         Some (JStr ''./backups'')]))))
     else Inl (StorageError (''Unsupported storage type: '' @ tpl (jget sc ''type''))))"

section \<open>Connect and list\<close>

definition connect_config :: "json \<Rightarrow> json" where
  "connect_config i = jobj (map (\<lambda>k. (k, jget i k)) [''type'', ''host'', ''port'', ''username'', ''password'', ''database'', ''ssl''])"

text \<open>The second component is the database configuration saved by \<open>setDatabase\<close>.\<close>

definition connect_use_case :: "db_adapter list \<Rightarrow> json \<Rightarrow> (proc \<times> json option, json) prog" where
  "connect_use_case as i =
     (if \<not> truthy_j (jget i ''database'') \<and> jget i ''type'' \<noteq> Some (JStr ''sqlite'')
      then throw (DatabaseConnectionError ''--database option is required for this database type'')
      else bnd (on_fst (getAdapter as (jget i ''type''))) (\<lambda>a.
           bnd (on_fst (testConnection a (connect_config i))) (\<lambda>r.
           if truthy_j (jget r ''success'')
           then seqp (modify_st (\<lambda>(p, _). (p, Some (connect_config i))))
             (ret (jobj [(''success'', Some (JBool True)), (''version'', jget r ''version''),
               (''database'', jget i ''database''), (''host'', jget i ''host'')]))
           else throw (DatabaseConnectionError (js_String (or_j (jget r ''error'') (JStr ''Connection failed'')))))))"

record list_input =
  li_type :: "string option"
  li_limit :: "int option"
  li_database :: "string option"
  li_status :: "string option"

definition if_text :: "string option \<Rightarrow> json option" where
  "if_text x = if_truthy (map_option JStr x)"

definition list_where :: "list_input \<Rightarrow> json" where
  "list_where i = jobj [(''backupType'', if_text (li_type i)), (''dbName'', if_text (li_database i)), (''status'', if_text (li_status i))]"

definition list_use_case :: "meta_client \<Rightarrow> world \<Rightarrow> list_input \<Rightarrow> (proc, json) prog" where
  "list_use_case C W i = findManyJobs C W (JObj [(''where'', list_where i),
     (''take'', JNum (if truthy_n (li_limit i) then min (the (li_limit i)) 500 else 50)),
     (''orderBy'', JObj [(''startedAt'', JStr ''desc'')])])"

section \<open>Backup\<close>

record backup_input =
  bi_type :: "string option"
  bi_incremental :: bool
  bi_parentId :: "string option"
  bi_physical :: bool
  bi_compress :: "bool option"
  bi_output :: "string option"
  bi_name :: "string option"
  bi_tables :: "json option"
  bi_excludeTables :: "json option"
  bi_async :: bool
  bi_storage :: "string option"
  bi_encrypt :: bool
  bi_key :: "string option"
  bi_noStoreKey :: bool

text \<open>\<open>AES256CryptoService.validateKey\<close> and \<open>generateKey\<close>.\<close>

definition is_hex :: "char \<Rightarrow> bool" where
  "is_hex c \<longleftrightarrow> hex_digit c \<noteq> None"

definition validateKey :: "string \<Rightarrow> bool" where
  "validateKey k \<longleftrightarrow> length k = 64 \<and> list_all is_hex k"

definition generateKey :: "usecase_env \<Rightarrow> string" where
  "generateKey U = to_hex (ue_random U)"

subsection \<open>Where the backup goes\<close>

definition save_path :: "usecase_env \<Rightarrow> backup_input \<Rightarrow> json option \<Rightarrow> json option" where
  "save_path U i cfg = or_chain [oget cfg ''basePath'', map_option JStr (bi_output i), ue_config U ''storage.localPath'']"

definition s3_target :: "json option \<Rightarrow> json option \<Rightarrow> json" where
  "s3_target st cfg = jobj [(''type'', Some (JStr ''s3'')), (''name'', oget st ''name''), (''bucket'', oget st ''bucket''),
     (''region'', oget st ''region''), (''accessKey'', oget st ''accessKey''), (''secretKey'', oget st ''secretKey''),
     (''prefix'', Some (or_j (oget cfg ''prefix'') (JStr '''')))]"

definition storage_config_of :: "json option \<Rightarrow> json option" where
  "storage_config_of st = Some (or_j (oget st ''config'') (JObj []))"

definition named_storage :: "usecase_env \<Rightarrow> world \<Rightarrow> backup_input \<Rightarrow> string \<Rightarrow> (proc, json \<times> json option) prog" where
  "named_storage U W i n =
     bnd (try_catch (findStorageByName (ue_client U) W n) (\<lambda>e. ret None)) (\<lambda>st.
     if st = None \<and> \<not> truthy_s (bi_storage i) then throw (StorageNotFoundError (or_s (bi_storage i) ''default''))
     else let cfg = storage_config_of st in
       ret (if oget st ''type'' = Some (JStr ''s3'') then s3_target st cfg
         else jobj [(''type'', Some (or_j (oget st ''type'') (JStr ''local''))), (''name'', Some (or_j (oget st ''name'') (JStr n))),
           (''basePath'', save_path U i cfg)],
         if_truthy (oget st ''id'')))"

definition default_storage :: "usecase_env \<Rightarrow> world \<Rightarrow> backup_input \<Rightarrow> (proc, json \<times> json option) prog" where
  "default_storage U W i =
     bnd (if truthy_s (ue_var U ''METADATA_SERVICE_URL'') \<or> ue_var U ''ENGINE'' = Some ''local''
        then try_catch (findDefaultStorage (ue_client U) W) (\<lambda>e. ret None) else ret None) (\<lambda>st.
     let cfg = storage_config_of st in
     ret (case st of
         Some d \<Rightarrow> (if oget st ''type'' = Some (JStr ''s3'') then s3_target st cfg
           else jobj [(''type'', Some (JStr ''local'')), (''name'', jget d ''name''), (''basePath'', save_path U i cfg)], jget d ''id'')
       | None \<Rightarrow> (jobj [(''type'', Some (JStr ''local'')), (''name'', Some (JStr ''local'')),
           (''basePath'', or_chain [map_option JStr (bi_output i), ue_config U ''storage.localPath'', Some (JStr ''./backups/local'')])], None)))"

definition pick_storage :: "usecase_env \<Rightarrow> world \<Rightarrow> backup_input \<Rightarrow> (proc, json \<times> json option) prog" where
  "pick_storage U W i = (if truthy_s (bi_storage i) then named_storage U W i (the (bi_storage i)) else default_storage U W i)"

subsection \<open>Its key\<close>

definition choose_key :: "usecase_env \<Rightarrow> backup_input \<Rightarrow> js_error + string option" where
  "choose_key U i = (if \<not> bi_encrypt i then Inr None
     else if truthy_s (bi_key i)
     then (if validateKey (the (bi_key i)) then Inr (bi_key i)
       else Inl (ConfigurationError ''Encryption key must be 64 hexadecimal characters (32 bytes)''))
     else Inr (Some (generateKey U)))"

definition keeps_key :: "backup_input \<Rightarrow> bool" where
  "keeps_key i \<longleftrightarrow> bi_encrypt i \<and> \<not> bi_noStoreKey i"

definition remember :: "'s key_api \<Rightarrow> json \<Rightarrow> string \<Rightarrow> string option \<Rightarrow> (proc \<times> 's, unit) prog" where
  "remember K db b k = (case k of None \<Rightarrow> ret ()
     | Some key \<Rightarrow> on_snd (api_addKey K b key (tpl (jget db ''database'')) (tpl (jget db ''type''))))"

definition forget_key :: "'s key_api \<Rightarrow> string \<Rightarrow> (proc \<times> 's, unit) prog" where
  "forget_key K b = seqp (on_snd (api_deleteKey K b)) (ret ())"

subsection \<open>The request\<close>

definition backup_request :: "usecase_env \<Rightarrow> backup_input \<Rightarrow> json \<Rightarrow> json \<Rightarrow> json option \<Rightarrow> string option \<Rightarrow> json" where
  "backup_request U i db storage loc key = JObj [(''dbConfig'', db),
     (''backupType'', JStr (if bi_incremental i then ''incremental'' else or_s (bi_type i) ''full'')),
     (''options'', jobj [
       (''compress'', Some (JBool (bi_compress i \<noteq> Some False))),
       (''tables'', bi_tables i),
       (''excludeTables'', bi_excludeTables i),
       (''outputPath'', or_chain [map_option JStr (bi_output i), ue_config U ''storage.localPath'']),
       (''backupName'', map_option JStr (bi_name i)),
       (''storage'', Some storage),
       (''storageLocationId'', if_truthy loc),
       (''encrypt'', Some (JBool (bi_encrypt i))),
       (''encryptionKey'', if_text key),
       (''storeKey'', Some (JBool (\<not> bi_noStoreKey i))),
       (''parentBackupId'', if_text (bi_parentId i)),
       (''physical'', Some (JBool (bi_physical i)))])]"

definition backup_url :: "usecase_env \<Rightarrow> string" where
  "backup_url U = ue_gateway U @ ''/api/backup''"

subsection \<open>Waiting for the job\<close>

text \<open>The loop of at most \<open>n\<close> attempts: the first answer whose status is not one of \<open>busy\<close>, and \<open>d\<close> when
  there was none. Errors of a poll are ignored.\<close>

fun poll_status :: "world \<Rightarrow> string \<Rightarrow> string list \<Rightarrow> nat \<Rightarrow> json \<Rightarrow> (proc, json) prog" where
  "poll_status W url busy 0 d = ret d"
| "poll_status W url busy (Suc n) d =
     seqp (ask W (Sleep 1000))
    (bnd (ask W (Http ''GET'' url JNull)) (\<lambda>r. case r of
       Inl f \<Rightarrow> poll_status W url busy n d
     | Inr v \<Rightarrow> if truthy_j (Some v) \<and> truthy_j (jget v ''status'') \<and> jget v ''status'' \<notin> Some ` JStr ` set busy
         then ret v else poll_status W url busy n d))"

definition backup_outcome :: "usecase_env \<Rightarrow> world \<Rightarrow> backup_input \<Rightarrow> json \<Rightarrow> (proc, json) prog" where
  "backup_outcome U W i data = (if truthy_j (jget data ''queued'') \<and> \<not> bi_async i
     then poll_status W (backup_url U @ ''/'' @ tpl (jget data ''backupId'') @ ''/status'') [''running'', ''queued''] 60 data
     else ret data)"

definition job_failed :: "json \<Rightarrow> bool" where
  "job_failed d \<longleftrightarrow> jget d ''status'' = Some (JStr ''failed'') \<or> truthy_j (jget d ''error'')"

definition backup_report :: "json \<Rightarrow> json \<Rightarrow> json" where
  "backup_report data d = jobj [(''success'', Some (JBool True)), (''backupId'', jget data ''backupId''),
     (''filePath'', jget d ''filePath''), (''fileName'', jget d ''fileName''), (''fileSize'', jget d ''fileSize''),
     (''duration'', jget d ''duration''),
     (''status'', Some (or_j (jget d ''status'') (JStr (if truthy_j (jget data ''queued'') then ''queued'' else ''success'')))),
     (''queued'', jget data ''queued'')]"

subsection \<open>The use case\<close>

definition post_backup_request :: "usecase_env \<Rightarrow> world \<Rightarrow> json \<Rightarrow> (proc, json) prog" where
  "post_backup_request U W req = bnd (run_call W (Http ''POST'' (backup_url U) req)) (\<lambda>data.
     if \<not> truthy_j (Some data) \<or> \<not> truthy_j (jget data ''success'')
     then throw (BackupExecutionError (js_String (or_j (jget data ''error'') (JStr ''Backup request rejected by gateway''))))
     else ret data)"

definition settle_key :: "'s key_api \<Rightarrow> backup_input \<Rightarrow> json \<Rightarrow> string option \<Rightarrow> json \<Rightarrow> json \<Rightarrow> (proc \<times> 's, json) prog" where
  "settle_key K i db key data d =
     (if job_failed d
      then seqp (if keeps_key i then forget_key K ''pending'' else ret ())
        (throw (BackupExecutionError (js_String (or_j (jget d ''error'') (JStr ''Backup job failed during execution'')))))
      else seqp (if keeps_key i \<and> truthy_s key
          then seqp (remember K db (tpl (jget data ''backupId'')) key) (forget_key K ''pending'') else ret ())
        (ret (backup_report data d)))"

definition backup_use_case :: "usecase_env \<Rightarrow> 's key_api \<Rightarrow> world \<Rightarrow> backup_input \<Rightarrow> (proc \<times> 's, json) prog" where
  "backup_use_case U K W i = (case if_truthy (ue_config U ''database'') of
     None \<Rightarrow> throw (ConfigurationError ''No database configuration found. Please run connect first.'')
   | Some db \<Rightarrow>
     bnd (on_fst (pick_storage U W i)) (\<lambda>(storage, loc).
     bnd (lift_res (choose_key U i)) (\<lambda>key.
     seqp (if keeps_key i then remember K db ''pending'' key else ret ())
    (bnd (on_fst (post_backup_request U W (backup_request U i db storage loc key))) (\<lambda>data.
     bnd (on_fst (backup_outcome U W i data)) (\<lambda>d. settle_key K i db key data d))))))"

end
