(* ===== verification/RestoreUseCase.thy ===== *)
theory RestoreUseCase
  imports UseCases
begin

text \<open>
  \<open>application/use-cases/restore.use-case.ts\<close>: a restore asked for on the command line. With a gateway
  at hand a real restore is delegated to the restore queue and watched; a dry run, or a process without a
  gateway, fetches the file, verifies, decrypts and decompresses it here and hands it to a database adapter.

  A program acts on the process with the temporary files it has noted, and on the state of the key store.
  The columns of a backup record that the database declares as text are text or null.
\<close>

record restore_uc_env =
  ru_base :: usecase_env
  ru_http :: bool
  ru_gateway :: "string option"
  ru_adapters :: "db_adapter list"
  ru_cwd :: string
  ru_home :: string
  ru_tmpdir :: string
  ru_millis :: string
  ru_duration :: json

record restore_input =
  ri_backupId :: "string option"
  ri_filePath :: "string option"
  ri_database :: "string option"
  ri_target :: "string option"
  ri_tables :: "json option"
  ri_key :: "string option"
  ri_dryRun :: bool
  ri_clean :: "bool option"
  ri_ifExists :: "bool option"
  ri_single :: "bool option"
  ri_skipChecksum :: "bool option"

type_synonym ('s, 'a) uprog = "((proc \<times> string list) \<times> 's, 'a) prog"

definition here :: "(proc, 'a) prog \<Rightarrow> ('s, 'a) uprog" where
  "here m = on_fst (on_fst m)"

definition note_temp :: "string \<Rightarrow> ('s, unit) uprog" where
  "note_temp f = on_fst (push_temp f)"

definition RestoreExecutionError :: "string \<Rightarrow> js_error" where
  "RestoreExecutionError m = JsError ''RESTORE_EXECUTION_ERROR'' m"

definition ChecksumMismatchError :: "string \<Rightarrow> string \<Rightarrow> js_error" where
  "ChecksumMismatchError expected actual = RestoreExecutionError
     (''Backup artifact checksum verification failed. Expected '' @ expected @ '', but calculated '' @ actual)"

definition restore_not_found :: "string \<Rightarrow> js_error" where
  "restore_not_found p = RestoreExecutionError (''Backup file not found at path: '' @ p)"

definition no_active_database :: js_error where
  "no_active_database = ConfigurationError ''No active database configuration found. Please run connect first.''"

section \<open>The record of the backup\<close>

definition dashboard_record :: "json \<Rightarrow> string \<Rightarrow> json option" where
  "dashboard_record data i = (case jget data ''backups'' of
     Some (JArr xs) \<Rightarrow> if_truthy (List.find (\<lambda>b. jget b ''id'' = Some (JStr i)) xs) | _ \<Rightarrow> None)"

definition ask_dashboard :: "restore_uc_env \<Rightarrow> world \<Rightarrow> string \<Rightarrow> (proc, json option) prog" where
  "ask_dashboard R W i = (if ru_http R \<and> truthy_s (ru_gateway R)
     then bnd (ask W (Http ''GET'' (the (ru_gateway R) @ ''/api/dashboard/backups'') (with_params (JObj [(''search'', JStr i)])))) (\<lambda>r.
       ret (case r of Inl f \<Rightarrow> None | Inr data \<Rightarrow> dashboard_record data i))
     else ret None)"

definition find_backup :: "restore_uc_env \<Rightarrow> world \<Rightarrow> restore_input \<Rightarrow> (proc, json option) prog" where
  "find_backup R W i = (if \<not> truthy_s (ri_backupId i) then ret None
     else let b = the (ri_backupId i) in
       bnd (try_catch (findJobById (ue_client (ru_base R)) W b) (\<lambda>e. ask_dashboard R W b)) (\<lambda>r.
       if r = None then throw (RestoreExecutionError (''Backup with ID '' @ dquoted b @ '' not found.'')) else ret r))"

section \<open>Delegation to the queue\<close>

definition delegates :: "restore_uc_env \<Rightarrow> restore_input \<Rightarrow> bool" where
  "delegates R i \<longleftrightarrow> \<not> ri_dryRun i \<and> ru_http R \<and> truthy_s (ru_gateway R)"

definition active_database :: "restore_uc_env \<Rightarrow> restore_input \<Rightarrow> js_error + json" where
  "active_database R i = (case if_truthy (ue_config (ru_base R) ''database'') of
     None \<Rightarrow> Inl no_active_database
   | Some db \<Rightarrow> Inr (jspread db (jobj [(''database'', or_chain [map_option JStr (ri_database i), jget db ''database''])])))"

definition restore_options :: "restore_input \<Rightarrow> json" where
  "restore_options i = jobj [
     (''clean'', Some (JBool (ri_clean i \<noteq> Some False))),
     (''ifExists'', Some (JBool (ri_ifExists i \<noteq> Some False))),
     (''dryRun'', Some (JBool False)),
     (''key'', map_option JStr (ri_key i)),
     (''skipChecksum'', map_option JBool (ri_skipChecksum i)),
     (''tables'', ri_tables i)]"

definition restore_request :: "restore_input \<Rightarrow> json \<Rightarrow> json" where
  "restore_request i db = jobj [(''dbConfig'', Some db), (''backupId'', map_option JStr (ri_backupId i)),
     (''filePath'', map_option JStr (ri_filePath i)), (''options'', Some (restore_options i))]"

definition restore_outcome :: "restore_uc_env \<Rightarrow> restore_input \<Rightarrow> json \<Rightarrow> json option \<Rightarrow> json" where
  "restore_outcome R i m details = jobj [(''success'', Some (JBool True)), (''backupId'', map_option JStr (ri_backupId i)),
     (''message'', Some m), (''duration'', Some (ru_duration R)), (''details'', details)]"

definition restore_url :: "restore_uc_env \<Rightarrow> string" where
  "restore_url R = the (ru_gateway R) @ ''/api/restore''"

definition delegate :: "restore_uc_env \<Rightarrow> world \<Rightarrow> restore_input \<Rightarrow> (proc, json) prog" where
  "delegate R W i =
     bnd (lift_res (active_database R i)) (\<lambda>db.
     bnd (run_call W (Http ''POST'' (restore_url R) (restore_request i db))) (\<lambda>data.
     if \<not> truthy_j (Some data) \<or> \<not> truthy_j (jget data ''success'')
     then throw (RestoreExecutionError (js_String (or_j (jget data ''error'') (JStr ''Restore request rejected by gateway''))))
     else bnd (poll_status W (restore_url R @ ''/'' @ encodeURIComponent (tpl (jget data ''restoreId'')) @ ''/status'')
         [''waiting'', ''active'', ''delayed'', ''queued''] 120 data) (\<lambda>d.
       if job_failed d
       then throw (RestoreExecutionError (js_String (or_j (jget d ''error'') (JStr ''Restore job failed during queue execution''))))
       else ret (restore_outcome R i (or_j (jget d ''message'') (JStr ''Database restore completed successfully via queue worker.'')) None))))"

section \<open>The file\<close>

definition s3_login :: "s3_client \<Rightarrow> json" where
  "s3_login c = jobj [(''region'', Some (s3_region c)), (''accessKeyId'', s3_accessKey c), (''secretAccessKey'', s3_secretKey c),
     (''Bucket'', s3_bucket c)]"

definition provider_start :: "world \<Rightarrow> made_provider \<Rightarrow> (proc, unit) prog" where
  "provider_start W c = (case c of
     S3At c \<Rightarrow> try_catch (unit_call W (Other ''ListObjects'' (s3_login c)))
       (\<lambda>e. throw (new_Error (''S3 initialization failed: Error: '' @ err_message e)))
   | LocalAt base \<Rightarrow> ensure_dir W base)"

definition provider_download :: "world \<Rightarrow> made_provider \<Rightarrow> json option \<Rightarrow> string \<Rightarrow> (proc, unit) prog" where
  "provider_download W c remote local = (case c of
     S3At c \<Rightarrow> s3_download W (s3_login c) remote local
   | LocalAt base \<Rightarrow> let src = path_join [base, tpl remote] in
       bnd (exists_file W src) (\<lambda>there.
       if \<not> there then throw (new_Error (''File not found: '' @ src))
       else seqp (ensure_dir W (path_dirname local)) (seqp (copy_file W src local) (unit_call W (FileOp ''statSync'' [local])))))"

definition staging_file :: "restore_uc_env \<Rightarrow> string \<Rightarrow> string \<Rightarrow> string" where
  "staging_file R kind name = path_join [ru_tmpdir R, ''db-backup-'' @ kind @ ''-'' @ ru_millis R @ ''-'' @ name]"

definition fetch_remote :: "restore_uc_env \<Rightarrow> world \<Rightarrow> json option \<Rightarrow> ('s, string) uprog" where
  "fetch_remote R W r = (case if_truthy (oget r ''storageLocation'') of
     None \<Rightarrow> throw (RestoreExecutionError ''Backup storage location metadata is missing for S3 download.'')
   | Some loc \<Rightarrow>
     bnd (lift_res (create_provider (ue_var (ru_base R)) loc)) (\<lambda>c.
     seqp (here (provider_start W c))
    (let target = staging_file R ''download'' (or_s (text_column r ''fileName'') ''backup.bin'') in
     seqp (note_temp target)
    (seqp (here (provider_download W c (or_chain [oget r ''storagePath'', oget r ''fileName'']) target))
      (ret target)))))"

definition local_base :: "restore_uc_env \<Rightarrow> string" where
  "local_base R = (case ue_config (ru_base R) ''storage.localPath'' of
     Some (JStr p) \<Rightarrow> if p \<noteq> '''' then p else path_join [ru_home R, ''.db-backup'', ''backups'']
   | _ \<Rightarrow> path_join [ru_home R, ''.db-backup'', ''backups''])"

definition in_local_base :: "restore_uc_env \<Rightarrow> world \<Rightarrow> json option \<Rightarrow> string \<Rightarrow> (proc, string) prog" where
  "in_local_base R W r p = (if truthy_s (text_column r ''fileName'')
     then let c = path_join [local_base R, the (text_column r ''fileName'')] in
       bnd (exists_file W c) (\<lambda>there. ret (if there then c else p))
     else ret p)"

definition from_container :: "restore_uc_env \<Rightarrow> world \<Rightarrow> json option \<Rightarrow> string \<Rightarrow> (proc, string) prog" where
  "from_container R W r p = bnd (if p = '''' then ret False else exists_file W p) (\<lambda>there.
     if \<not> there \<and> (case text_column r ''filePath'' of Some f \<Rightarrow> starts_with f ''/app/backups'' | None \<Rightarrow> False)
     then let c = path_join [ru_home R, ''.db-backup'', path_relative (ru_cwd R) ''/app/backups'' (the (text_column r ''filePath''))] in
       bnd (exists_file W c) (\<lambda>there. ret (if there then c else p))
     else ret p)"

definition find_local :: "restore_uc_env \<Rightarrow> world \<Rightarrow> restore_input \<Rightarrow> json option \<Rightarrow> (proc, string) prog" where
  "find_local R W i r = (if truthy_s (ri_filePath i) then ret (the (ri_filePath i))
     else let p = or_s (text_column r ''filePath'') '''' in
       bnd (exists_file W p) (\<lambda>there. if there then ret p
       else bnd (in_local_base R W r p) (from_container R W r)))"

definition get_file :: "restore_uc_env \<Rightarrow> world \<Rightarrow> restore_input \<Rightarrow> json option \<Rightarrow> ('s, string) uprog" where
  "get_file R W i r =
     bnd (if \<not> truthy_s (ri_backupId i) then ret (or_s (ri_filePath i) '''')
        else if kept_in_s3 r then fetch_remote R W r
        else here (find_local R W i r)) (\<lambda>p.
     bnd (if p = '''' then ret False else here (exists_file W p)) (\<lambda>there.
       if there then ret p else throw (restore_not_found p)))"

section \<open>Verification, decryption, decompression\<close>

definition looks_encrypted :: "restore_input \<Rightarrow> json option \<Rightarrow> string \<Rightarrow> bool" where
  "looks_encrypted i r p \<longleftrightarrow> truthy_j (oget r ''encrypted'') \<or> ends_with p ''.enc'' \<or> truthy_s (ri_key i)"

definition check_sum :: "world \<Rightarrow> restore_input \<Rightarrow> json option \<Rightarrow> string \<Rightarrow> (proc, unit) prog" where
  "check_sum W i r p = (if ri_skipChecksum i \<noteq> Some True \<and> truthy_s (text_column r ''checksum'') \<and> \<not> looks_encrypted i r p
     then bnd (run_call W (FileOp ''sha256'' [p])) (\<lambda>actual.
       if actual \<noteq> JStr (the (text_column r ''checksum''))
       then throw (ChecksumMismatchError (the (text_column r ''checksum'')) (js_String actual)) else ret ())
     else ret ())"

definition decryption_key :: "'s key_api \<Rightarrow> restore_input \<Rightarrow> ('s, string option) uprog" where
  "decryption_key K i = (if truthy_s (ri_key i) then ret (ri_key i)
     else if truthy_s (ri_backupId i)
     then bnd (on_snd (api_getKey K (the (ri_backupId i)))) (\<lambda>e. ret (case e of Some k \<Rightarrow> Some k | None \<Rightarrow> ri_key i))
     else ret (ri_key i))"

definition uncover :: "restore_uc_env \<Rightarrow> 's key_api \<Rightarrow> world \<Rightarrow> restore_input \<Rightarrow> json option \<Rightarrow> string \<Rightarrow> ('s, string) uprog" where
  "uncover R K W i r p = (if \<not> looks_encrypted i r p then ret p
     else bnd (decryption_key K i) (\<lambda>key.
       if \<not> truthy_s key then throw (ConfigurationError ''This backup is encrypted. Please provide an encryption key via --key <hex>.'')
       else let out = staging_file R ''decrypted'' (path_basename p ''.enc'') in
         seqp (note_temp out)
        (seqp (here (decryptFile W p out (the key) (Some (or_s (text_column r ''encryptionIv'') ''''))
            (Some (or_s (text_column r ''encryptionTag'') ''''))))
          (ret out))))"

definition inflate :: "restore_uc_env \<Rightarrow> world \<Rightarrow> string \<Rightarrow> ('s, string) uprog" where
  "inflate R W p = bnd (here (isCompressed W p)) (\<lambda>c.
     if \<not> c then ret p
     else let out = staging_file R ''decompressed'' (without_suffix ''.gz'' (path_basename p '''')) in
       seqp (note_temp out) (seqp (here (decompressFile W p out)) (ret out)))"

definition ready_file :: "restore_uc_env \<Rightarrow> 's key_api \<Rightarrow> world \<Rightarrow> restore_input \<Rightarrow> json option \<Rightarrow> ('s, string) uprog" where
  "ready_file R K W i r =
     bnd (get_file R W i r) (\<lambda>p.
     seqp (here (check_sum W i r p))
    (bnd (uncover R K W i r p) (\<lambda>d. inflate R W d)))"

section \<open>The database\<close>

definition adapter_options :: "restore_input \<Rightarrow> json option \<Rightarrow> json \<Rightarrow> string \<Rightarrow> json" where
  "adapter_options i r db p = jobj [(''backupFilePath'', Some (JStr p)), (''dbConfig'', Some db), (''tables'', ri_tables i),
     (''clean'', Some (JBool (ri_clean i \<noteq> Some False))), (''ifExists'', Some (JBool (ri_ifExists i \<noteq> Some False))),
     (''singleTransaction'', map_option JBool (ri_single i)), (''targetDir'', map_option JStr (ri_target i)),
     (''backupRecord'', Some (or_null r))]"

definition restore_here :: "restore_uc_env \<Rightarrow> restore_input \<Rightarrow> json option \<Rightarrow> string \<Rightarrow> (proc, json) prog" where
  "restore_here R i r p =
     bnd (lift_res (active_database R i)) (\<lambda>db.
     bnd (getAdapter (ru_adapters R) (or_chain [oget r ''dbType'', jget db ''type''])) (\<lambda>a.
     bnd (adapter_restore a (adapter_options i r db p)) (\<lambda>d.
       ret (restore_outcome R i (or_j (jget d ''message'') (JStr ''Database restore completed successfully.'')) (jget d ''details'')))))"

definition restore_locally :: "restore_uc_env \<Rightarrow> 's key_api \<Rightarrow> world \<Rightarrow> restore_input \<Rightarrow> json option \<Rightarrow> ('s, json) uprog" where
  "restore_locally R K W i r = bnd (ready_file R K W i r) (\<lambda>p.
     if ri_dryRun i
     then ret (restore_outcome R i (JStr ''Dry run completed successfully. Verification, decryption, and decompression passed.'') None)
     else here (restore_here R i r p))"

section \<open>The use case\<close>

definition check_input :: "world \<Rightarrow> restore_input \<Rightarrow> (proc, unit) prog" where
  "check_input W i = (if \<not> truthy_s (ri_backupId i) \<and> \<not> truthy_s (ri_filePath i)
     then throw (RestoreExecutionError ''Either --id <backupId> or direct file path is required for restore.'')
     else if truthy_s (ri_filePath i)
     then bnd (exists_file W (the (ri_filePath i))) (\<lambda>there.
       if there then ret () else throw (restore_not_found (the (ri_filePath i))))
     else ret ())"

definition run_use_case :: "restore_uc_env \<Rightarrow> 's key_api \<Rightarrow> world \<Rightarrow> restore_input \<Rightarrow> ('s, json) uprog" where
  "run_use_case R K W i = bnd (here (find_backup R W i)) (\<lambda>r.
     if delegates R i then here (delegate R W i) else restore_locally R K W i r)"

text \<open>\<open>tempFilesToClean\<close> lives for one call.\<close>

definition noting_temps :: "('s, 'a) uprog \<Rightarrow> (proc \<times> 's, 'a) prog" where
  "noting_temps m = (\<lambda>(p, s). case m ((p, []), s) of (r, ((p', ts), s')) \<Rightarrow> (r, (p', s')))"

definition restore_use_case :: "restore_uc_env \<Rightarrow> 's key_api \<Rightarrow> world \<Rightarrow> restore_input \<Rightarrow> (proc \<times> 's, json) prog" where
  "restore_use_case R K W i = seqp (on_fst (check_input W i))
     (noting_temps (try_finally (run_use_case R K W i) (on_fst (clean_temps W))))"

end
