(* ===== verification/BackupUseCorrect.thy ===== *)
theory BackupUseCorrect
  imports RestoreUseCase Traces
begin

text \<open>
  What the backup use case guarantees: the shape of the request it sends, and the custody of the key of an
  encrypted backup, proved for every implementation of the key store's contract and taken over to the key
  manager by its interpretation. Then what the storage factory and the list do with their configuration.
\<close>

lemma wp_here [wp]: "wp (on_fst m) Q E (p, s) = wp m (\<lambda>x p'. Q x (p', s)) (\<lambda>e p'. E e (p', s)) p"
  by (simp add: wp_def on_fst_def split: prod.split sum.split)

lemma wp_any: "(\<And>x p'. Q x (p', t)) \<Longrightarrow> (\<And>e p'. E e (p', t)) \<Longrightarrow> wp (on_fst m) Q E (p, t)"
  by (simp add: wp_def on_fst_def split: prod.split sum.split)

section \<open>The request of a backup\<close>

text \<open>The check of \<open>BackupOptionsSchema\<close> in \<open>schemas/backup.schema.ts\<close>, which the gateway applies.\<close>

definition key_rule :: "json \<Rightarrow> bool" where
  "key_rule req = (let opts = jget req ''options'' in \<not> truthy_j (oget opts ''encrypt'') \<or> (case oget opts ''encryptionKey'' of
     Some (JStr k) \<Rightarrow> length k = 64 \<and> list_all is_hex k | _ \<Rightarrow> False))"

definition valid_post :: "usecase_env \<Rightarrow> call \<Rightarrow> bool" where
  "valid_post U c \<longleftrightarrow> (\<forall>u req. c = Http ''POST'' u req \<longrightarrow> u = backup_url U \<and> key_rule req)"

lemma valid_post_simps [simp]:
  "valid_post U (Http ''GET'' u v)" "valid_post U (Sleep n)"
  "valid_post U (Http ''POST'' u req) \<longleftrightarrow> u = backup_url U \<and> key_rule req"
  by (auto simp: valid_post_def)

lemma is_hex_char: "n < 16 \<Longrightarrow> is_hex (hex_char n)"
  by (simp add: is_hex_def hex_digit_char del: hex_digit.simps)

lemma generated_key_valid:
  assumes "length (ue_random U) = 32"
  shows "validateKey (generateKey U)"
proof -
  have "list_all is_hex (to_hex bs)" for bs
  proof (induction bs)
    case (Cons b bs)
    have "unat b < 256" using unsigned_less [of b] by simp
    then have "unat b div 16 < 16" "unat b mod 16 < 16" by auto
    with Cons show ?case by (simp add: to_hex_def is_hex_char)
  qed (simp add: to_hex_def)
  with assms show ?thesis by (simp add: validateKey_def generateKey_def)
qed

lemma chosen_key_valid:
  assumes "length (ue_random U) = 32" and "choose_key U i = Inr key"
  shows "if bi_encrypt i then \<exists>k. key = Some k \<and> validateKey k \<and> k \<noteq> '''' else key = None"
proof (cases "bi_encrypt i")
  case True
  have "\<exists>k. key = Some k \<and> validateKey k"
    using True assms(2) [symmetric] generated_key_valid [OF assms(1)] by (cases "bi_key i") (auto simp: choose_key_def split: if_splits)
  moreover have "k \<noteq> ''''" if "validateKey k" for k using that by (auto simp: validateKey_def)
  ultimately show ?thesis using True by auto
qed (use assms(2) in \<open>simp add: choose_key_def\<close>)

lemma request_key_rule:
  assumes "length (ue_random U) = 32" and "choose_key U i = Inr key"
  shows "key_rule (backup_request U i db storage loc key)"
  using chosen_key_valid [OF assms]
  by (auto simp: key_rule_def backup_request_def oget_def jget_jobj if_text_def if_truthy_def validateKey_def split: if_splits)

lemma only_poll [only]: "(\<And>v. P (Http ''GET'' url v)) \<Longrightarrow> P (Sleep 1000) \<Longrightarrow> only P (poll_status W url busy n d)"
  by (induction n) (auto intro!: only split: sum.split)

lemma only_named: "only (valid_post U) (pick_storage U W i)"
  unfolding pick_storage_def named_storage_def default_storage_def findStorageByName_def findDefaultStorage_def
    getStorage_def getDefaultStorage_def Let_def
  by (intro only) simp_all

text \<open>A predicate on calls, kept by a program on a process and something else.\<close>

definition all_calls :: "(call \<Rightarrow> bool) \<Rightarrow> proc \<times> 's \<Rightarrow> bool" where
  "all_calls P = (\<lambda>(p, s). \<forall>c\<in>set (calls p). P c)"

lemma stable_here: "only P m \<Longrightarrow> stable (all_calls P) (on_fst m)"
  unfolding stable_def only_def
proof (intro allI impI)
  fix ps :: "proc \<times> 's" assume m: "traces m (\<lambda>l r new. \<forall>c\<in>set new. P c)" and ps: "all_calls P ps"
  obtain p s where p: "ps = (p, s)" by fastforce
  obtain new r b where "m p = (r, p\<lparr>calls := calls p @ new, baseUrl := b\<rparr>)" "\<forall>c\<in>set new. P c"
    using m by (rule tracesE)
  with ps p show "all_calls P (snd (on_fst m ps))" by (auto simp: all_calls_def on_fst_def)
qed

lemma stable_there [stable]: "stable (all_calls P) (on_snd m)"
  by (auto simp: stable_def all_calls_def on_snd_def split: prod.split)

lemma stable_remember [stable]: "stable (all_calls P) (remember K db b k)"
  by (cases k) (simp_all add: remember_def stable)

lemma stable_forget_key [stable]: "stable (all_calls P) (forget_key K b)"
  unfolding forget_key_def by (intro stable)

lemma backup_posts:
  assumes "length (ue_random U) = 32"
  shows "stable (all_calls (valid_post U)) (backup_use_case U K W i)"
proof -
  have post: "only (valid_post U) (post_backup_request U W (backup_request U i db storage loc key))" if "choose_key U i = Inr key" for db storage loc key
    unfolding post_backup_request_def using request_key_rule [OF assms that] by (intro only) simp
  have wait: "only (valid_post U) (backup_outcome U W i data)" for data
    unfolding backup_outcome_def by (intro only) simp_all
  have settle: "stable (all_calls P) (settle_key K i db key data d)" for P db key data d
    unfolding settle_key_def by (intro stable)
  have chosen: "stable P (bnd (lift_res (choose_key U i)) k)" if "\<And>key. choose_key U i = Inr key \<Longrightarrow> stable P (k key)"
    for P :: "proc \<times> 'a \<Rightarrow> bool" and k :: "string option \<Rightarrow> (proc \<times> 'a, json) prog"
    using that by (cases "choose_key U i") (auto simp: stable_def bnd_def lift_res_def)
  show ?thesis
    unfolding backup_use_case_def
    by (auto split: option.split intro!: stable stable_here only_named chosen post wait settle)
qed

text \<open>C34: Whatever key the user gives and whatever the services answer, the only request that the
  backup use case posts goes to the gateway's backup route, and it is well-formed there: with encryption on, it
  carries a key of 64 hexadecimal digits, as the schema of the gateway demands.\<close>

theorem posted_request_valid:
  assumes "length (ue_random U) = 32" and "calls p = []" and "backup_use_case U K W i (p, s) = (r, (p', s'))"
    and "Http ''POST'' u req \<in> set (calls p')"
  shows "u = backup_url U \<and> key_rule req"
  using stableD [OF backup_posts [OF assms(1)] assms(3)] assms(2,4) by (auto simp: all_calls_def)

section \<open>Custody of the key\<close>

definition used_key :: "usecase_env \<Rightarrow> backup_input \<Rightarrow> string" where
  "used_key U i = or_s (bi_key i) (generateKey U)"

lemma chosen_key: "choose_key U i = Inr key \<Longrightarrow> key = (if bi_encrypt i then Some (used_key U i) else None)"
  by (cases "bi_key i") (auto simp: choose_key_def used_key_def split: if_splits)

lemma report_backupId [simp]: "jget (backup_report data d) ''backupId'' = jget data ''backupId''"
  by (simp add: backup_report_def jget_jobj split: option.split)

text \<open>The state of the store after a run, as a map from names to keys: what the run promises, whatever the outcome.\<close>

definition custody :: "usecase_env \<Rightarrow> backup_input \<Rightarrow> (string \<Rightarrow> string option) \<Rightarrow> js_error + json \<Rightarrow> (string \<Rightarrow> string option) \<Rightarrow> bool" where
  "custody U i m r m' \<longleftrightarrow> (if \<not> keeps_key i then m' = m else case r of
     Inr v \<Rightarrow> m' = (m(tpl (jget v ''backupId'') \<mapsto> used_key U i))(''pending'' := None)
   | Inl e \<Rightarrow> m' = m \<or> m' = m(''pending'' \<mapsto> used_key U i) \<or> m' = m(''pending'' := None))"

lemma bnd_lift: "bnd (lift_res (Inr x)) k = k x"
  by (simp add: fun_eq_iff bnd_def lift_res_def)

lemma unchanged: "custody U i m (Inl e) m"
  by (simp add: custody_def)

context keystore_service begin

abbreviation kept :: "usecase_env \<Rightarrow> backup_input \<Rightarrow> 's \<Rightarrow> js_error + json \<Rightarrow> proc \<times> 's \<Rightarrow> bool" where
  "kept U i s r \<equiv> (\<lambda>(p, s'). ready s' \<and> custody U i (key_of s) r (key_of s'))"

lemma wp_remember:
  assumes "ready s" and "\<And>s'. ready s' \<Longrightarrow> key_of s' = (key_of s)(b \<mapsto> k) \<Longrightarrow> Q () (p, s')"
  shows "wp (remember K db b (Some k)) Q E (p, s)"
  unfolding remember_def option.case using assms by (rule wp_addKey)

lemma wp_forget_key:
  assumes "ready s" and "\<And>s'. ready s' \<Longrightarrow> key_of s' = (key_of s)(b := None) \<Longrightarrow> Q () (p, s')"
  shows "wp (forget_key K b) Q E (p, s)"
  unfolding forget_key_def wp_bnd using assms by (intro wp_deleteKey) (auto simp: wp)

lemma settle_keeps:
  assumes "ready t" and "key_of t = (if keeps_key i then (key_of s)(''pending'' \<mapsto> used_key U i) else key_of s)"
    and "key = (if bi_encrypt i then Some (used_key U i) else None)" and "bi_encrypt i \<Longrightarrow> used_key U i \<noteq> ''''"
  shows "wp (settle_key K i db key data d) (\<lambda>v. kept U i s (Inr v)) (\<lambda>e. kept U i s (Inl e)) (p, t)"
proof (cases "keeps_key i")
  case False
  with assms show ?thesis by (simp add: settle_key_def custody_def wp)
next
  case True
  then have key: "key = Some (used_key U i)" and "used_key U i \<noteq> ''''" using assms(3,4) by (simp_all add: keeps_key_def)
  then show ?thesis
    using True assms(1,2)
    by (auto simp: settle_key_def key custody_def wp fun_eq_iff intro!: wp_remember wp_forget_key)
qed

lemma backup_keeps:
  assumes "ready s" and "length (ue_random U) = 32"
  shows "wp (backup_use_case U K W i) (\<lambda>v. kept U i s (Inr v)) (\<lambda>e. kept U i s (Inl e)) (p, s)"
proof -
  have same: "kept U i s (Inl e) (p', s)" for e p' using assms(1) by (simp add: unchanged)
  have pending: "kept U i s (Inl e) (p', t)"
    if "ready t" "key_of t = (if keeps_key i then (key_of s)(''pending'' \<mapsto> used_key U i) else key_of s)" for e p' t
    using that by (simp add: custody_def)
  have tail: "wp (bnd (on_fst m) (\<lambda>data. bnd (on_fst (n data)) (\<lambda>d. settle_key K i db key data d)))
      (\<lambda>v. kept U i s (Inr v)) (\<lambda>e. kept U i s (Inl e)) (p', t)"
    if c: "choose_key U i = Inr key" and t: "ready t" "key_of t = (if keeps_key i then (key_of s)(''pending'' \<mapsto> used_key U i) else key_of s)"
    for m n db key p' t
  proof -
    have "used_key U i \<noteq> ''''" if "bi_encrypt i"
      using chosen_key_valid [OF assms(2) c] chosen_key [OF c] that by simp
    then have "wp (settle_key K i db key data d) (\<lambda>v. kept U i s (Inr v)) (\<lambda>e. kept U i s (Inl e)) (p'', t)" for data d p''
      by (rule settle_keeps [OF t chosen_key [OF c]])
    then show ?thesis unfolding wp_bnd by (intro wp_any pending [OF t])
  qed
  have body: "wp (bnd (lift_res (choose_key U i)) (\<lambda>key. seqp (if keeps_key i then remember K db ''pending'' key else ret ())
      (bnd (on_fst (m key)) (\<lambda>data. bnd (on_fst (n data)) (\<lambda>d. settle_key K i db key data d)))))
      (\<lambda>v. kept U i s (Inr v)) (\<lambda>e. kept U i s (Inl e)) (p', s)" for m n db p'
  proof (cases "choose_key U i")
    case (Inl e)
    with same show ?thesis by (simp add: wp)
  next
    case (Inr key)
    show ?thesis
    proof (cases "keeps_key i")
      case False
      with Inr tail [OF Inr assms(1)] show ?thesis by (simp add: bnd_lift)
    next
      case True
      then have "key = Some (used_key U i)" using chosen_key [OF Inr] by (simp add: keeps_key_def)
      then show ?thesis
        using Inr True tail [OF Inr] by (auto simp: bnd_lift wp_bnd [of "remember _ _ _ _"] intro!: wp_remember [OF assms(1)])
    qed
  qed
  show ?thesis
    unfolding backup_use_case_def
    by (auto simp: wp_throw assms(1) unchanged wp_bnd [of "on_fst _"] split: option.split intro!: wp_any body)
qed

end

text \<open>The same for the key manager, and across the end of the process.\<close>

lemma restart_stored:
  assumes "usable E s"
  shows "usable E (restart s) \<and> stored E (restart s) = stored E s"
proof -
  have ok: "key_env_ok E" using assms by (simp add: usable_def)
  consider ks where "holds E ks s" | "fresh E s" using assms by (auto simp: usable_def)
  then show ?thesis
  proof cases
    case 1
    with restart_holds [OF 1] ok show ?thesis by (auto simp: holds_stored intro: holds_usable)
  next
    case 2
    have none: "stored E t = (\<lambda>_. None)" if f: "fresh E t" for t
    proof -
      have "loadKeystore E t = start_empty E t" using f by (simp add: loadKeystore_def bnd_def get_st_def fresh_def)
      moreover obtain k where "has_master E k t \<or> masterKey t = None \<and> files t (MASTER_KEY_FILE E) = None" using f unfolding fresh_def by blast
      then obtain u where "start_empty E t = (Inr (emptyStore E), u)" using start_empty_holds [OF ok] by metis
      ultimately show ?thesis by (simp add: stored_def getKey_def bnd_def ret_def emptyStore_def find_key_def fun_eq_iff)
    qed
    have "fresh E (restart s)" using 2 by (auto simp: fresh_def restart_def has_master_def)
    with 2 ok none show ?thesis by (simp add: usable_def)
  qed
qed

lemma backup_custody:
  assumes "usable E s" and "length (ue_random U) = 32" and "backup_use_case U (keyManager E) W i (p, s) = (r, (p', s'))"
  shows "usable E s' \<and> custody U i (stored E s) r (stored E s')"
  using local_keys.backup_keeps [OF assms(1,2), where i = i and W = W and p = p] assms(3) by (cases r) (simp_all add: wp_def)


text \<open>A backup that ended in an error (its answer may have been lost on the way while the gateway went on) has left its key at most
  under the provisional name; the next encrypted backup that succeeds discards it for good.\<close>

lemma key_of_failed_backup_lost:
  assumes "usable E s" and "length (ue_random U) = 32" and "length (ue_random U') = 32" and "keeps_key i'"
    and "backup_use_case U (keyManager E) W i (p, s) = (Inl e, (p1, s1))"
    and "backup_use_case U' (keyManager E) W' i' (q, s1) = (Inr v, (q', s'))"
    and "used_key U i \<notin> ran (stored E s)" and "used_key U' i' \<noteq> used_key U i"
  shows "used_key U i \<notin> ran (stored E s')"
proof -
  have one: "usable E s1" "custody U i (stored E s) (Inl e) (stored E s1)" using backup_custody [OF assms(1,2,5)] by auto
  then have only_pending: "stored E s1 c \<noteq> Some (used_key U i)" if "c \<noteq> ''pending''" for c
    using assms(7) that by (auto simp: custody_def ran_def split: if_splits)
  have "stored E s' = ((stored E s1)(tpl (jget v ''backupId'') \<mapsto> used_key U' i'))(''pending'' := None)"
    using backup_custody [OF one(1) assms(3,6)] assms(4) by (simp add: custody_def)
  with only_pending assms(8) show ?thesis by (auto simp: ran_def)
qed

section \<open>Storage and lists\<close>

text \<open>A storage name nobody knows is not reported: the request goes out with a local storage of that name.\<close>

lemma try_none: "\<exists>x q. try_catch (findStorageByName C W n) (\<lambda>e. ret None) p = (Inr x, q)"
  by (cases "findStorageByName C W n p") (auto simp: try_catch_def ret_def split: sum.split)

lemma unknown_storage_becomes_local:
  assumes "bi_storage i = Some n" and "n \<noteq> ''''" and "try_catch (findStorageByName (ue_client U) W n) (\<lambda>e. ret None) p = (Inr None, q)"
  shows "\<exists>st. pick_storage U W i p = (Inr (st, None), q) \<and> jget st ''type'' = Some (JStr ''local'') \<and> jget st ''name'' = Some (JStr n)"
  using assms
  by (simp add: pick_storage_def named_storage_def bnd_def ret_def Let_def storage_config_of_def oget_def if_truthy_def or_j_def jget_jobj)

text \<open>The S3 client the factory makes has no credentials, and the local provider ignores the configured path.\<close>

lemma factory_drops_credentials:
  assumes "create_provider var sc = Inr (S3At c)"
  shows "s3_accessKey c = None \<and> s3_secretKey c = None"
  using assms by (auto simp: create_provider_def Let_def s3_new_def split: if_splits)

lemma factory_drops_path:
  assumes "create_provider var sc = Inr (LocalAt b)" and "jget sc ''basePath'' = Some (JStr t)" and "t \<noteq> ''''"
  shows "b = ''./backups''"
  using assms by (auto simp: create_provider_def Let_def local_basePath_def text_column_def oget_def or_null_def split: if_splits)

text \<open>The list command's type filter never reaches the metadata service.\<close>

lemma list_ignores_type: "list_use_case C W (i\<lparr>li_type := t\<rparr>) = list_use_case C W i"
  by (simp add: list_use_case_def findManyJobs_def list_where_def oget_def jget_jobj Let_def)

section \<open>A run\<close>

definition shop :: usecase_env where
  "shop = \<lparr>ue_var = (\<lambda>_. None), ue_config = (\<lambda>k. if k = ''database'' then Some (JObj [(''type'', JStr ''mysql''), (''database'', JStr ''shop'')]) else None),
     ue_client = sample_client, ue_gateway = ''http://gw'', ue_random = replicate 32 7\<rparr>"

definition secret_backup :: backup_input where
  "secret_backup = \<lparr>bi_type = None, bi_incremental = False, bi_parentId = None, bi_physical = False, bi_compress = None,
     bi_output = None, bi_name = None, bi_tables = None, bi_excludeTables = None, bi_async = False, bi_storage = None,
     bi_encrypt = True, bi_key = None, bi_noStoreKey = False\<rparr>"

definition good_gateway :: world where
  "good_gateway l c = (case c of Http m u v \<Rightarrow> Inr (JObj [(''success'', JBool True), (''backupId'', JStr ''b1''), (''status'', JStr ''success'')])
     | _ \<Rightarrow> Inr JNull)"

lemma secret_key: "choose_key shop secret_backup = Inr (Some (generateKey shop))" "keeps_key secret_backup"
  "length (ue_random shop) = 32" "used_key shop secret_backup = generateKey shop"
  by (simp_all add: choose_key_def keeps_key_def used_key_def shop_def secret_backup_def)

lemma secret_storage: "wp (pick_storage shop W secret_backup) (\<lambda>_ _. True) (\<lambda>_ _. False) p"
  by (simp add: pick_storage_def default_storage_def secret_backup_def shop_def wp Let_def)

lemma secret_post:
  "wp (post_backup_request U good_gateway req)
    (\<lambda>v p'. jget v ''backupId'' = Some (JStr ''b1'') \<and> jget v ''queued'' = None \<and> \<not> job_failed v \<and>
      (\<exists>req. Http ''POST'' (backup_url U) req \<in> set (calls p'))) (\<lambda>_ _. False) p"
  by (simp add: post_backup_request_def wp good_gateway_def job_failed_def) blast

lemma secret_key_there: "truthy_s (Some (generateKey shop))"
  using chosen_key_valid [OF secret_key(3,1)] secret_key(2) by (auto simp: keeps_key_def)

lemma secret_run:
  "\<exists>v p' s' req. backup_use_case shop (keyManager toy_keys) good_gateway secret_backup (sample_proc, new_machine) = (Inr v, (p', s')) \<and>
     jget v ''backupId'' = Some (JStr ''b1'') \<and> Http ''POST'' (backup_url shop) req \<in> set (calls p')"
proof -
  let ?Q = "\<lambda>v ps. jget v ''backupId'' = Some (JStr ''b1'') \<and> (\<exists>req. Http ''POST'' (backup_url shop) req \<in> set (calls (fst ps)))"
  have ready: "usable toy_keys new_machine" using toy_keys_ok new_machine_fresh by (simp add: usable_def)
  obtain db where db: "if_truthy (ue_config shop ''database'') = Some db" by (simp add: shop_def if_truthy_def)
  have settle: "wp (settle_key (keyManager toy_keys) secret_backup db (Some (generateKey shop)) v v) ?Q (\<lambda>_ _. False) (p, s)"
    if "usable toy_keys s" "\<not> job_failed v" "?Q v (p, s)" for v p s
    using that secret_key(2) secret_key_there
    by (auto simp: settle_key_def wp intro!: local_keys.wp_remember local_keys.wp_forget_key)
  have post: "wp (bnd (on_fst (post_backup_request shop good_gateway req)) (\<lambda>data.
      bnd (on_fst (backup_outcome shop good_gateway secret_backup data)) (\<lambda>d.
        settle_key (keyManager toy_keys) secret_backup db (Some (generateKey shop)) data d))) ?Q (\<lambda>_ _. False) (p, s)"
    if "usable toy_keys s" for req p s
    unfolding wp_bnd wp_here
    by (rule wp_mono [OF secret_post]) (auto simp: backup_outcome_def wp intro!: settle that)
  have "wp (backup_use_case shop (keyManager toy_keys) good_gateway secret_backup) ?Q (\<lambda>_ _. False) (sample_proc, new_machine)"
    unfolding backup_use_case_def db option.case wp_bnd [of "on_fst (pick_storage _ _ _)"] wp_here
    by (rule wp_mono [OF secret_storage])
      (auto simp: secret_key bnd_lift wp_bnd [of "remember _ _ _ _"] intro!: local_keys.wp_remember ready post)
  then show ?thesis
    by (cases "backup_use_case shop (keyManager toy_keys) good_gateway secret_backup (sample_proc, new_machine)")
      (auto simp: wp_def split: sum.splits)
qed

theorem posted_request_valid_witness:
  "\<exists>u req. u = backup_url shop \<and> key_rule req \<and> Http ''POST'' u req \<in>
     set (calls (fst (snd (backup_use_case shop (keyManager toy_keys) good_gateway secret_backup (sample_proc, new_machine)))))"
proof -
  obtain v p' s' req where run: "backup_use_case shop (keyManager toy_keys) good_gateway secret_backup (sample_proc, new_machine) = (Inr v, (p', s'))"
    and post: "Http ''POST'' (backup_url shop) req \<in> set (calls p')" using secret_run by blast
  have "calls sample_proc = []" by (simp add: sample_proc_def)
  from posted_request_valid [OF secret_key(3) this run post] run post show ?thesis by auto
qed

definition next_day :: restore_input where
  "next_day = \<lparr>ri_backupId = Some ''b1'', ri_filePath = None, ri_database = None, ri_target = None, ri_tables = None, ri_key = None,
     ri_dryRun = True, ri_clean = None, ri_ifExists = None, ri_single = None, ri_skipChecksum = None\<rparr>"


end
