(* ===== verification/AdapterCorrect.thy ===== *)
theory AdapterCorrect
  imports DbAdapters
begin

text \<open>
  What the database adapters promise. The locale \<open>database_adapter\<close> is the contract of the backup
  operation (a backup that succeeds names a file that a command which ended well, or a copy, was told to write); it is
  interpreted on the four adapters, and every adapter the factory hands out meets it.
\<close>

section \<open>Commands\<close>

definition spawn_call :: "string \<Rightarrow> string list \<Rightarrow> (string \<times> json) list \<Rightarrow> call" where
  "spawn_call cmd args env = Other ''spawn'' (JObj [(''cmd'', JStr cmd), (''args'', JArr (map JStr args)), (''env'', JObj env)])"

definition exited_well :: "failure + json \<Rightarrow> bool" where
  "exited_well r \<longleftrightarrow> (case r of Inl f \<Rightarrow> False | Inr v \<Rightarrow> jget v ''code'' = Some (JNum 0))"

lemma wp_executeCommand:
  assumes "exited_well (W (calls s) (spawn_call cmd args env)) \<Longrightarrow>
      Q (projr (W (calls s) (spawn_call cmd args env))) (s\<lparr>calls := calls s @ [spawn_call cmd args env]\<rparr>)"
    and "\<And>e. \<not> exited_well (W (calls s) (spawn_call cmd args env)) \<Longrightarrow> E e (s\<lparr>calls := calls s @ [spawn_call cmd args env]\<rparr>)"
  shows "wp (executeCommand W cmd args env) Q E s"
  using assms by (auto simp: executeCommand_def wp spawn_call_def exited_well_def split: sum.split)

lemma wp_exists_file [wp]: "wp (exists_file W p) Q E s =
    Q (W (calls s) (FileOp ''existsSync'' [p]) = Inr (JBool True)) (s\<lparr>calls := calls s @ [FileOp ''existsSync'' [p]]\<rparr>)"
  by (simp add: exists_file_def wp)

section \<open>The contract of a backup\<close>

text \<open>\<open>ran W ok l0 l k\<close>: after the log \<open>l0\<close> the call \<open>k\<close> was made at log \<open>l\<close>, and its answer was accepted.\<close>

definition wrote :: "world \<Rightarrow> (string \<Rightarrow> call \<Rightarrow> bool) \<Rightarrow> string \<Rightarrow> call list \<Rightarrow> call list \<Rightarrow> bool" where
  "wrote W writes f l0 l \<longleftrightarrow> (\<exists>m k. prefix l0 m \<and> prefix (m @ [k]) l \<and> writes f k \<and>
     (exited_well (W m k) \<or> (\<exists>op args v. k = FileOp op args \<and> W m k = Inr v)))"

lemma wroteI:
  "prefix l0 m \<Longrightarrow> prefix (m @ [k]) l \<Longrightarrow> writes f k \<Longrightarrow> exited_well (W m k) \<or> (\<exists>op args v. k = FileOp op args \<and> W m k = Inr v) \<Longrightarrow>
   wrote W writes f l0 l"
  unfolding wrote_def by blast

locale database_adapter =
  fixes A :: db_adapter and W :: world and writes :: "string \<Rightarrow> call \<Rightarrow> bool"
  assumes backup_law: "wp (adapter_backup A c opts)
    (\<lambda>v p. jget v ''success'' = Some (JBool True) \<and> jget v ''backupId'' = jget opts ''backupId'' \<and>
       (\<exists>f. jget v ''filePath'' = Some (JStr f) \<and> wrote W writes f (calls s) (calls p)))
    (\<lambda>e p. True) s"
begin

lemma backup_written:
  "adapter_backup A c opts s = (Inr v, s') \<Longrightarrow>
   \<exists>f. jget v ''filePath'' = Some (JStr f) \<and> wrote W writes f (calls s) (calls s')"
  using backup_law [of c opts s] by (simp add: wp_def)

end

text \<open>The commands that write a file: its path is an argument, follows a flag, or is part of one.\<close>

fun arguments :: "call \<Rightarrow> string list" where
  "arguments (Other op v) = texts (jget v ''args'')"
| "arguments (FileOp op args) = args"
| "arguments _ = []"

definition names_file :: "string \<Rightarrow> string \<Rightarrow> call \<Rightarrow> bool" where
  "names_file pre f k \<longleftrightarrow> pre @ f \<in> set (arguments k)"

lemma String_JStr [simp]: "js_String \<circ> JStr = id"
  by (simp add: fun_eq_iff)

lemma arguments_spawn [simp]: "arguments (spawn_call cmd args env) = args"
  by (simp add: spawn_call_def)

lemma backup_done_simps [simp]:
  "jget (backup_done A opts name) ''success'' = Some (JBool True)"
  "jget (backup_done A opts name) ''backupId'' = jget opts ''backupId''"
  "jget (backup_done A opts name) ''filePath'' = Some (JStr (output_file A opts name))"
  by (simp_all add: backup_done_def jget_jobj)

lemma spawned_wrote:
  "names_file pre f (spawn_call cmd args env) \<Longrightarrow> exited_well (W l (spawn_call cmd args env)) \<Longrightarrow>
   wrote W (names_file pre) f l (l @ [spawn_call cmd args env])"
  by (rule wroteI) auto

interpretation postgres: database_adapter "PostgresAdapter A W" W "names_file ''''" for A W
  by unfold_locales (auto simp: PostgresAdapter_def postgres_backup_def Let_def wp names_file_def
      intro!: wp_executeCommand spawned_wrote)

interpretation mysql: database_adapter "MySQLAdapter A W" W "names_file ''''" for A W
  by unfold_locales (auto simp: MySQLAdapter_def mysql_backup_def Let_def wp names_file_def
      intro!: wp_executeCommand spawned_wrote)

interpretation mongodb: database_adapter "MongoDBAdapter A W" W "names_file ''--archive=''" for A W
  by unfold_locales (auto simp: MongoDBAdapter_def mongo_backup_def mongo_target_def Let_def wp names_file_def
      intro!: wp_executeCommand spawned_wrote)

lemma longer_sqlite_source: "wp (sqlite_source W p) (\<lambda>_ t. prefix (calls s) (calls t)) (\<lambda>_ _. True) s"
  by (simp add: sqlite_source_def wp)

lemma longer_ensure_dir: "wp (ensure_dir W d) (\<lambda>_ t. prefix (calls s) (calls t)) (\<lambda>_ _. True) s"
  by (simp add: ensure_dir_def wp split: sum.split)

lemma wrote_longer: "prefix l0 l \<Longrightarrow> wrote W writes f l l' \<Longrightarrow> wrote W writes f l0 l'"
  unfolding wrote_def using prefix_order.trans by blast

lemma copied_wrote: "W l (FileOp op [a, f]) = Inr v \<Longrightarrow> wrote W (names_file '''') f l (l @ [FileOp op [a, f]])"
  by (rule wroteI) (auto simp: names_file_def)

lemma sqlite_backup_law:
  "wp (sqlite_backup A W c opts)
    (\<lambda>v p. jget v ''success'' = Some (JBool True) \<and> jget v ''backupId'' = jget opts ''backupId'' \<and>
       (\<exists>f. jget v ''filePath'' = Some (JStr f) \<and> wrote W (names_file '''') f (calls s) (calls p))) (\<lambda>e p. True) s"
  unfolding sqlite_backup_def wp_bnd Let_def
proof (rule wp_mono [OF longer_sqlite_source], goal_cases)
  case (1 src t)
  show ?case
  proof (rule wp_mono [OF longer_ensure_dir], goal_cases)
    case (1 u t')
    then have "prefix (calls s) (calls t')" using \<open>prefix (calls s) (calls t)\<close> by (rule prefix_order.trans [rotated])
    then show ?case
      by (auto simp: copy_file_def wp split: sum.split intro: wrote_longer copied_wrote)
  qed simp
qed simp

interpretation sqlite: database_adapter "SQLiteAdapter A W" W "names_file ''''" for A W
  by unfold_locales (simp add: SQLiteAdapter_def sqlite_backup_law)

section \<open>Every adapter the factory knows\<close>

definition writes_of :: "string \<Rightarrow> call \<Rightarrow> bool" where
  "writes_of f k \<longleftrightarrow> names_file '''' f k \<or> names_file ''--archive='' f k"

lemma wrote_any: "wrote W (names_file pre) f l l' \<Longrightarrow> pre = '''' \<or> pre = ''--archive='' \<Longrightarrow> wrote W writes_of f l l'"
  unfolding wrote_def writes_of_def by blast

lemma adapter_backup_written:
  assumes "getAdapter (all_adapters A W) t p = (Inr a, p1)" and "adapter_backup a c opts p1 = (Inr v, p2)"
  shows "\<exists>f. jget v ''filePath'' = Some (JStr f) \<and> wrote W writes_of f (calls p) (calls p2)"
proof -
  have p: "p1 = p" and "a \<in> set (all_adapters A W)"
    using assms(1) by (auto simp: getAdapter_def Let_def ret_def throw_def split: option.splits dest: find_SomeD)
  then consider "a = PostgresAdapter A W" | "a = MySQLAdapter A W" | "a = MongoDBAdapter A W" | "a = SQLiteAdapter A W"
    by (auto simp: all_adapters_def)
  then show ?thesis
    using assms(2) unfolding p
    by cases (use wrote_any in \<open>blast dest: postgres.backup_written mysql.backup_written mongodb.backup_written sqlite.backup_written\<close>)+
qed

section \<open>SQLite: which file is saved, and how it is replaced\<close>

text \<open>When the configured database is missing and the tool's own metadata database lies in the working
  directory, that one is copied and the backup of the configured database is reported as done.\<close>

lemma wp_returns: "wp m Q (\<lambda>_ _. False) s \<Longrightarrow> \<exists>v s'. m s = (Inr v, s') \<and> Q v s'"
  by (cases "m s") (auto simp: wp_def split: sum.splits)

lemma sqlite_backup_of_another_file:
  assumes "\<And>l f. W l (FileOp ''existsSync'' [f]) = Inr (JBool (f \<notin> {d, d @ ''.db''}))"
    and "d \<noteq> ''backup-meta.db''" and "d @ ''.db'' \<noteq> ''backup-meta.db''"
    and "\<And>l a b. \<exists>v. W l (FileOp ''copyFileSync'' [a, b]) = Inr v"
    and "\<And>l a. \<exists>v. W l (FileOp ''mkdirSync'' [a]) = Inr v"
    and "jget c ''database'' = Some (JStr d)"
  shows "\<exists>v p' out. sqlite_backup A W c opts p = (Inr v, p') \<and> jget v ''success'' = Some (JBool True) \<and>
    FileOp ''copyFileSync'' [''backup-meta.db'', out] \<in> set (calls p') \<and> jget v ''filePath'' = Some (JStr out)"
proof -
  have src: "wp (sqlite_source W d) (\<lambda>r _. r = ''backup-meta.db'') (\<lambda>_ _. False) s" for s
    using assms(1-3) by (simp add: sqlite_source_def wp)
  have dir: "wp (ensure_dir W q) (\<lambda>_ _. True) (\<lambda>_ _. False) s" for q s
    using assms(5) [of "calls s @ [FileOp ''existsSync'' [q]]" q] by (auto simp: ensure_dir_def wp)
  have copy: "wp (copy_file W a b) (\<lambda>_ t. FileOp ''copyFileSync'' [a, b] \<in> set (calls t)) (\<lambda>_ _. False) s" for a b s
    using assms(4) [of "calls s" a b] by (auto simp: copy_file_def wp split: sum.split)
  have "wp (sqlite_source W (tpl (jget c ''database''))) (\<lambda>r _. r = ''backup-meta.db'') (\<lambda>_ _. False) p"
    using src assms(6) by (simp add: tpl_def)
  then have "wp (sqlite_backup A W c opts) (\<lambda>v p'. jget v ''success'' = Some (JBool True) \<and>
      (\<exists>out. FileOp ''copyFileSync'' [''backup-meta.db'', out] \<in> set (calls p') \<and> jget v ''filePath'' = Some (JStr out))) (\<lambda>_ _. False) p"
    unfolding sqlite_backup_def wp_bnd Let_def
  proof (rule wp_mono, goal_cases)
    case (1 src t)
    then show ?case
      by (intro wp_mono [OF dir]) (auto simp: wp intro!: wp_mono [OF copy])
  qed simp
  then show ?thesis by (auto dest: wp_returns)
qed

text \<open>The restore unlinks the database and then copies the staged file: when the second copy fails, there is no
  database at the target path any more.\<close>

lemma sqlite_restore_not_atomic:
  assumes "\<And>l f. W l (FileOp ''existsSync'' [f]) = Inr (JBool True)"
    and "\<And>l a. \<exists>v. W l (FileOp ''unlinkSync'' [a]) = Inr v"
    and "\<And>l a. \<exists>v. W l (FileOp ''copyFileSync'' [a, target @ ''.restoring'']) = Inr v"
    and "\<And>l. W l (FileOp ''copyFileSync'' [target @ ''.restoring'', target]) = Inl e"
    and "target = path_resolve (ad_cwd A) [tpl (oget (jget opts ''dbConfig'') ''database'')]"
  shows "\<exists>p'. sqlite_restore A W opts p = (Inl (error_of e), p') \<and> (\<exists>more. calls p' = calls p @ more @
    [FileOp ''unlinkSync'' [target], FileOp ''copyFileSync'' [target @ ''.restoring'', target]])"
proof -
  have no: "W l (FileOp ''unlinkSync'' [a]) \<noteq> Inl x" "W l (FileOp ''copyFileSync'' [a, target @ ''.restoring'']) \<noteq> Inl x" for l a x
    using assms(2) [of l a] assms(3) [of l a] by auto
  have "wp (sqlite_restore A W opts) (\<lambda>_ _. False) (\<lambda>x p'. x = error_of e \<and> (\<exists>more. calls p' = calls p @ more @
      [FileOp ''unlinkSync'' [target], FileOp ''copyFileSync'' [target @ ''.restoring'', target]])) p"
    unfolding sqlite_restore_def Let_def assms(5) [symmetric] ensure_dir_def copy_file_def
    using no by (auto simp: wp assms(1,4) split: sum.split)
  then show ?thesis
    by (cases "sqlite_restore A W opts p") (auto simp: wp_def split: sum.splits)
qed

section \<open>Chains of incremental backups\<close>

text \<open>PostgreSQL: the file the caller fetched, checked and decrypted is not looked at; the chain is fetched again.\<close>

lemma postgres_chain_ignores_file:
  assumes "is_incremental (jget opts ''backupRecord'')" and "truthy_j (jget opts ''backupRecord'')"
  shows "postgres_restore A W (jset opts ''backupFilePath'' f) = postgres_restore A W opts"
  using assms by (simp add: postgres_restore_def Let_def)

text \<open>MySQL: a chain whose replay fails half way is followed by a plain import of the backup's own file.\<close>

lemma mysql_failed_chain_falls_through:
  assumes "\<And>l. W l (Other ''MySQLIncrementalBackupManager.getBackupChain'' (JStr (chain_id opts))) = Inr ch" and "truthy_j (Some ch)"
    and "\<And>l. W l (Other ''MySQLIncrementalBackupManager.restoreToPointInTime'' (JArr [c, JStr (chain_id opts)])) = Inl e"
    and "\<And>l args. exited_well (W l (spawn_call ''mysql'' args []))" and "jget opts ''dbConfig'' = Some c"
  shows "\<exists>p' args. mysql_restore A W opts p = (Inr (restore_done ''MySQL database restored successfully'' (ad_duration A)), p') \<and>
    calls p' = calls p @ [Other ''MySQLIncrementalBackupManager.getBackupChain'' (JStr (chain_id opts)),
      Other ''MySQLIncrementalBackupManager.restoreToPointInTime'' (JArr [c, JStr (chain_id opts)]),
      spawn_call ''mysql'' args []] \<and> (''source '' @ tpl (jget opts ''backupFilePath'')) \<in> set args"
proof -
  have "wp (mysql_restore A W opts) (\<lambda>v p'. v = restore_done ''MySQL database restored successfully'' (ad_duration A) \<and>
      (\<exists>args. calls p' = calls p @ [Other ''MySQLIncrementalBackupManager.getBackupChain'' (JStr (chain_id opts)),
        Other ''MySQLIncrementalBackupManager.restoreToPointInTime'' (JArr [c, JStr (chain_id opts)]),
        spawn_call ''mysql'' args []] \<and> (''source '' @ tpl (jget opts ''backupFilePath'')) \<in> set args)) (\<lambda>_ _. False) p"
    unfolding mysql_restore_def mysql_chain_def Let_def or_null_def
    by (simp add: wp assms(1-3,5) nullish_def) (rule wp_executeCommand, auto simp: assms(4) wp)
  from wp_returns [OF this] show ?thesis by blast
qed

end
