(* ===== verification/RestoreUseCorrect.thy ===== *)
theory RestoreUseCorrect
  imports BackupUseCorrect AdapterCorrect RestoreCorrect
begin

text \<open>
  What becomes of a restore asked for on the command line: delegated to the queue, where waiting ends in a
  report of success and a stored key is of no use, or run in this process.
\<close>

section \<open>A restore in the queue\<close>

text \<open>An answer of the status route that does not end the wait.\<close>

definition still_waiting :: "string list \<Rightarrow> failure + json \<Rightarrow> bool" where
  "still_waiting busy r \<longleftrightarrow> (case r of Inl f \<Rightarrow> True | Inr v \<Rightarrow>
     \<not> (truthy_j (Some v) \<and> truthy_j (jget v ''status'') \<and> jget v ''status'' \<notin> Some ` JStr ` set busy))"

lemma poll_never_done:
  assumes "\<And>l. still_waiting busy (W l (Http ''GET'' url JNull))"
  shows "poll_status W url busy n d p = (Inr d, p\<lparr>calls := calls p @ concat (replicate n [Sleep 1000, Http ''GET'' url JNull])\<rparr>)"
proof (induction n arbitrary: p)
  case (Suc n)
  let ?q = "p\<lparr>calls := calls p @ [Sleep 1000, Http ''GET'' url JNull]\<rparr>"
  have "poll_status W url busy (Suc n) d p = poll_status W url busy n d ?q"
    using assms [of "calls p @ [Sleep 1000]"]
    by (auto simp: bnd_def ask_def still_waiting_def split: sum.split)
  with Suc.IH [of ?q] show ?case by simp
qed (simp add: ret_def)

definition wait_states :: "string list" where
  "wait_states = [''waiting'', ''active'', ''delayed'', ''queued'']"

text \<open>A delegated restore leaves no temporary files behind and does not touch the key store.\<close>

lemma noting_here: "noting_temps (try_finally (here m) (on_fst (clean_temps W))) = on_fst m"
  by (auto simp: fun_eq_iff noting_temps_def try_finally_def here_def on_fst_def clean_temps_def gets_def bnd_def ret_def
      split: prod.split sum.split)

lemma delegated_restore:
  assumes "delegates R i"
  shows "restore_use_case R K W i = on_fst (seqp (check_input W i) (bnd (find_backup R W i) (\<lambda>r. delegate R W i)))"
proof -
  have here: "bnd (here m) (\<lambda>r. here (n r)) = here (bnd m n)" for m :: "(proc, 'x) prog" and n :: "'x \<Rightarrow> (proc, 'y) prog"
    by (auto simp: fun_eq_iff here_def on_fst_def bnd_def split: prod.split sum.split)
  have there: "seqp (on_fst m) (on_fst n) = on_fst (seqp m n)" for m :: "(proc, 'x) prog" and n :: "(proc, 'y) prog"
    by (auto simp: fun_eq_iff on_fst_def bnd_def split: prod.split sum.split)
  show ?thesis using assms by (simp add: restore_use_case_def run_use_case_def here noting_here there)
qed

lemma unfinished_restore:
  assumes "delegates R i" and "check_input W i p = (Inr (), p1)" and "find_backup R W i p1 = (Inr r, p2)"
    and "active_database R i = Inr db"
    and "\<And>l. W l (Http ''POST'' (restore_url R) (restore_request i db)) = Inr data"
    and "truthy_j (jget data ''success'')" and "\<not> job_failed data"
    and "\<And>l u. still_waiting wait_states (W l (Http ''GET'' u JNull))"
  shows "\<exists>q. restore_use_case R K W i (p, s) =
      (Inr (restore_outcome R i (or_j (jget data ''message'') (JStr ''Database restore completed successfully via queue worker.'')) None), (q, s)) \<and>
    Http ''POST'' (restore_url R) (restore_request i db) \<in> set (calls q)"
proof -
  have data: "truthy_j (Some data)" using assms(6) by (cases data) auto
  have "poll_status W u wait_states n data q = (Inr data, q\<lparr>calls := calls q @ concat (replicate n [Sleep 1000, Http ''GET'' u JNull])\<rparr>)"
    for u n q by (rule poll_never_done) (rule assms(8))
  then have "\<exists>q. delegate R W i p2 = (Inr (restore_outcome R i (or_j (jget data ''message'')
      (JStr ''Database restore completed successfully via queue worker.'')) None), q) \<and>
      Http ''POST'' (restore_url R) (restore_request i db) \<in> set (calls q)"
    using assms(4-7) data by (simp add: delegate_def bnd_def lift_res_def run_call_def ask_def ret_def wait_states_def)
  with assms(2,3) show ?thesis by (auto simp: delegated_restore [OF assms(1)] bnd_def on_fst_def)
qed

text \<open>A restore that has not ended after 120 polls is reported as completed: when the gateway has accepted the
  request and every status it then gives is "waiting", "active", "delayed" or "queued" (or no answer at all), the
  use case returns success, with the message that the restore was accepted or completed, and no error.\<close>

lemma restore_unfinished_reported_done:
  assumes "delegates R i" and "check_input W i p = (Inr (), p1)" and "find_backup R W i p1 = (Inr r, p2)"
    and "active_database R i = Inr db"
    and "\<And>l. W l (Http ''POST'' (restore_url R) (restore_request i db)) = Inr data"
    and "truthy_j (jget data ''success'')" and "\<not> job_failed data"
    and "\<And>l u. still_waiting wait_states (W l (Http ''GET'' u JNull))"
  shows "\<exists>v p'. restore_use_case R K W i (p, s) = (Inr v, (p', s)) \<and> jget v ''success'' = Some (JBool True) \<and>
    jget v ''message'' = Some (or_j (jget data ''message'') (JStr ''Database restore completed successfully via queue worker.''))"
proof -
  from unfinished_restore [OF assms(1-7), where K = K and s = s] assms(8)
  show ?thesis by (auto simp: restore_outcome_def jget_jobj)
qed

section \<open>A stored key and the queue\<close>

definition keyless_post :: "call \<Rightarrow> bool" where
  "keyless_post c \<longleftrightarrow> (\<forall>u req. c = Http ''POST'' u req \<longrightarrow> oget (jget req ''options'') ''key'' = None)"

lemma keyless_simps [simp]: "keyless_post (Http ''GET'' u v)" "keyless_post (Sleep n)" "keyless_post (FileOp f a)" "keyless_post (Other f x)"
  by (auto simp: keyless_post_def)

lemma keyless_request [simp]: "ri_key i = None \<Longrightarrow> keyless_post (Http ''POST'' u (restore_request i db))"
  by (auto simp: keyless_post_def restore_request_def restore_options_def jget_jobj oget_def split: option.splits)

lemma only_exists_file [only]: "P (FileOp ''existsSync'' [f]) \<Longrightarrow> only P (exists_file W f)"
  unfolding exists_file_def by (intro only)

lemma only_lift_res [only]: "only P (lift_res r)"
  unfolding only_def by (rule traces_pure [where r = r]) (simp_all add: lift_res_def)

lemma delegated_posts_keyless:
  assumes "delegates R i" and "ri_key i = None"
  shows "stable (all_calls keyless_post) (restore_use_case R K W i)"
proof -
  have check: "only keyless_post (check_input W i)"
    unfolding check_input_def by (intro only) simp
  have find: "only keyless_post (find_backup R W i)"
    unfolding find_backup_def findJobById_def getJob_def ask_dashboard_def Let_def by (intro only) simp_all
  have "only keyless_post (delegate R W i)"
    unfolding delegate_def using assms(2) by (intro only) simp_all
  with check find show ?thesis unfolding delegated_restore [OF assms(1)] by (intro stable_here only)
qed

text \<open>A key kept in the key store does not help a restore that goes through the queue: without a key on the
  command line the use case posts options without one, whatever the store holds, and with those options the
  restore worker refuses an encrypted backup unless a key is in its own environment.\<close>

lemma stored_key_never_sent:
  assumes "delegates R i" and "ri_key i = None" and "calls p = []"
    and "restore_use_case R K W i (p, s) = (r, (p', s'))" and "Http ''POST'' u req \<in> set (calls p')"
    and "Some (rj_options j) = jget req ''options''" and "truthy_j (oget rec ''encrypted'')"
    and "\<not> truthy_s (we_var (re_worker Q) ''BACKUP_ENCRYPTION_KEY'')"
  shows "decrypt Q V j rec f st = (Inl (new_Error ''Backup is encrypted, but no decryption key was provided.''), st)"
proof -
  have "oget (jget req ''options'') ''key'' = None"
    using stableD [OF delegated_posts_keyless [OF assms(1,2)] assms(4)] assms(3,5) by (auto simp: all_calls_def keyless_post_def)
  then have "jget (rj_options j) ''key'' = None" using assms(6) [symmetric] by (simp add: oget_def)
  then have "\<not> truthy_s (restore_key Q j)" using assms(8) by (simp add: restore_key_def text_column_def oget_def)
  then show ?thesis using assms(7) by (simp add: decrypt_def needs_key_def throw_def)
qed

section \<open>A restore here\<close>

text \<open>Programs that never return a value.\<close>

definition never :: "('s, 'a) prog \<Rightarrow> bool" where
  "never m \<longleftrightarrow> (\<forall>s. isl (fst (m s)))"

lemma never_bnd: "(\<And>x. never (k x)) \<Longrightarrow> never (bnd m k)"
  by (auto simp: never_def bnd_def split: prod.split sum.split)

lemma never_first: "never m \<Longrightarrow> never (bnd m k)"
  unfolding never_def bnd_def by (auto split: prod.split sum.split) (metis isl_def fst_conv sum.disc(2))

lemma never_wp: "never m \<longleftrightarrow> (\<forall>s. wp m (\<lambda>_ _. False) (\<lambda>_ _. True) s)"
proof -
  have "isl (fst (m s)) = wp m (\<lambda>_ _. False) (\<lambda>_ _. True) s" for s
    by (cases "m s"; cases "fst (m s)") (auto simp: wp_def)
  then show ?thesis by (simp add: never_def)
qed

lemma never_throw: "never (throw e)"
  by (simp add: never_def throw_def)

lemma never_here: "never m \<Longrightarrow> never (here m)"
  by (auto simp: never_def here_def on_fst_def split: prod.split) (metis fst_conv)

text \<open>A dry run of an encrypted backup always fails: the record of a backup has no columns
  "encryptionIv" and "encryptionTag" (the metadata service stores both in "encryptionMetadata"), so the
  decipher is created with an empty initialization vector, which Node's crypto rejects; no key, right or wrong, helps.\<close>

lemma encrypted_dry_run_fails:
  assumes "\<not> delegates R i" and "check_input W i p = (Inr (), p1)" and "find_backup R W i p1 = (Inr (Some rec), p2)"
    and "truthy_j (jget rec ''encrypted'')" and "jget rec ''encryptionIv'' = None" and "jget rec ''encryptionTag'' = None"
    and "\<And>l k t. isl (W l (Other ''createDecipheriv'' (JArr [JStr k, JStr '''', JStr t])))"
  shows "isl (fst (restore_use_case R K W i (p, s)))"
proof -
  have cipher: "never (decryptFile W f out k (Some '''') (Some ''''))" for f out k
  proof -
    have "wp (decryptFile W f out k (Some '''') (Some '''')) (\<lambda>_ _. False) (\<lambda>_ _. True) t" for t
      using assms(7) [of "calls t" k "''''"] by (auto simp: decryptFile_def buffer_from_def wp split: sum.split)
    then show ?thesis by (simp add: never_wp)
  qed
  have "never (uncover R K W i (Some rec) f)" for f
    using assms(4-6)
    by (auto simp: uncover_def looks_encrypted_def oget_def text_column_def Let_def
        intro!: never_bnd never_throw never_here [OF cipher] never_first [OF never_here [OF cipher]])
  then have "never (restore_locally R K W i (Some rec))"
    unfolding restore_locally_def ready_file_def by (intro never_first never_bnd)
  then have "isl (fst (restore_locally R K W i (Some rec) ((p2, []), s)))" by (simp add: never_def)
  then have "isl (fst (run_use_case R K W i ((p1, []), s)))"
    using assms(1,3) by (simp add: run_use_case_def bnd_def here_def on_fst_def)
  then show ?thesis
    using assms(2) by (auto simp: restore_use_case_def noting_temps_def bnd_def on_fst_def [of "check_input W i"]
        try_finally_def split: prod.split sum.split)
qed

section \<open>Runs\<close>

definition shop_restore :: restore_uc_env where
  "shop_restore = \<lparr>ru_base = shop, ru_http = True, ru_gateway = Some ''http://gw'', ru_adapters = [], ru_cwd = ''/'', ru_home = ''/home/u'',
     ru_tmpdir = ''/tmp'', ru_millis = ''1'', ru_duration = JNum 120\<rparr>"

text \<open>A queue that never gets to the job; the metadata service knows an encrypted backup.\<close>

definition stuck_queue :: world where
  "stuck_queue l c = (case c of
     Http m u v \<Rightarrow> if m = ''POST'' then Inr (JObj [(''success'', JBool True), (''restoreId'', JStr ''r1''), (''status'', JStr ''queued'')])
       else Inr (JObj [(''status'', JStr ''active''), (''encrypted'', JBool True), (''filePath'', JStr ''/b.enc'')])
   | FileOp f a \<Rightarrow> Inr (JBool True)
   | _ \<Rightarrow> Inl \<lparr>f_code = ''ERR_CRYPTO_INVALID_IV'', f_message = ''Invalid initialization vector'', f_axios = False, f_response = None\<rparr>)"

definition secret_record :: json where
  "secret_record = JObj [(''status'', JStr ''active''), (''encrypted'', JBool True), (''filePath'', JStr ''/b.enc'')]"

lemma secret_found: "\<exists>q. find_backup shop_restore stuck_queue next_day sample_proc = (Inr (Some secret_record), q)"
proof -
  have "fst (find_backup shop_restore stuck_queue next_day sample_proc) = Inr (Some secret_record)" by code_simp
  then show ?thesis by (rule run_obtain) blast
qed

definition real_restore :: restore_input where
  "real_restore = next_day\<lparr>ri_dryRun := False\<rparr>"

lemma real_found: "\<exists>q. find_backup shop_restore stuck_queue real_restore sample_proc = (Inr (Some secret_record), q)"
proof -
  have "find_backup R W (i\<lparr>ri_dryRun := b\<rparr>) = find_backup R W i" for R W i b by (simp add: find_backup_def)
  with secret_found show ?thesis by (simp add: real_restore_def)
qed

lemma real_checks:
  "delegates shop_restore real_restore" "check_input stuck_queue real_restore p = (Inr (), p)" "check_input stuck_queue next_day p = (Inr (), p)"
  by (simp_all add: delegates_def shop_restore_def real_restore_def next_day_def check_input_def ret_def)

definition shop_db :: json where
  "shop_db = jspread (JObj [(''type'', JStr ''mysql''), (''database'', JStr ''shop'')]) (jobj [(''database'', Some (JStr ''shop''))])"

lemma real_database: "active_database shop_restore real_restore = Inr shop_db"
  by (simp add: active_database_def shop_restore_def shop_def if_truthy_def real_restore_def next_day_def shop_db_def)

definition queued :: json where
  "queued = JObj [(''success'', JBool True), (''restoreId'', JStr ''r1''), (''status'', JStr ''queued'')]"

lemma stuck_answers:
  "stuck_queue l (Http ''POST'' u v) = Inr queued" "still_waiting wait_states (stuck_queue l (Http ''GET'' u JNull))"
  by (simp_all add: stuck_queue_def queued_def still_waiting_def wait_states_def)

lemma queued_simps: "truthy_j (jget queued ''success'')" "\<not> job_failed queued" "jget queued ''message'' = None"
  by (simp_all add: queued_def job_failed_def)

lemma restore_unfinished_reported_done_witness:
  "\<exists>v p'. restore_use_case shop_restore (keyManager toy_keys) stuck_queue real_restore (sample_proc, new_machine) = (Inr v, (p', new_machine)) \<and>
     jget v ''success'' = Some (JBool True) \<and>
     jget v ''message'' = Some (JStr ''Database restore completed successfully via queue worker.'')"
proof -
  obtain q where "find_backup shop_restore stuck_queue real_restore sample_proc = (Inr (Some secret_record), q)" using real_found by blast
  from restore_unfinished_reported_done [OF real_checks(1,2) this real_database stuck_answers(1) queued_simps(1,2) stuck_answers(2)]
  show ?thesis by (simp add: queued_simps(3) or_j_def)
qed

lemma stored_key_never_sent_witness:
  "\<exists>j req. Some (rj_options j) = jget req ''options'' \<and>
     Http ''POST'' (restore_url shop_restore) req \<in> set (calls (fst (snd
       (restore_use_case shop_restore (keyManager toy_keys) stuck_queue real_restore (sample_proc, new_machine))))) \<and>
     decrypt sample_restore_env stuck_queue j (Some secret_record) ''/b.enc'' (sample_proc, []) =
       (Inl (new_Error ''Backup is encrypted, but no decryption key was provided.''), (sample_proc, []))"
proof -
  obtain q where f: "find_backup shop_restore stuck_queue real_restore sample_proc = (Inr (Some secret_record), q)" using real_found by blast
  obtain v p' where run: "restore_use_case shop_restore (keyManager toy_keys) stuck_queue real_restore (sample_proc, new_machine) = (Inr v, (p', new_machine))"
    and post: "Http ''POST'' (restore_url shop_restore) (restore_request real_restore shop_db) \<in> set (calls p')"
    using unfinished_restore [OF real_checks(1,2) f real_database stuck_answers(1) queued_simps(1,2) stuck_answers(2),
        where K = "keyManager toy_keys" and s = new_machine] by blast
  let ?j = "sample_restore_job\<lparr>rj_options := restore_options real_restore\<rparr>"
  have key: "ri_key real_restore = None" "calls sample_proc = []" by (simp_all add: real_restore_def next_day_def sample_proc_def)
  have opts: "Some (rj_options ?j) = jget (restore_request real_restore shop_db) ''options''" by (simp add: restore_request_def jget_jobj)
  have rec: "truthy_j (oget (Some secret_record) ''encrypted'')" by (simp add: secret_record_def oget_def)
  have env: "\<not> truthy_s (we_var (re_worker sample_restore_env) ''BACKUP_ENCRYPTION_KEY'')"
    by (simp add: sample_restore_env_def sample_worker_def)
  show ?thesis
    using stored_key_never_sent [OF real_checks(1) key run post opts rec env] opts post
    by (intro exI [of _ ?j] exI [of _ "restore_request real_restore shop_db"]) (simp add: run)
qed

lemma encrypted_dry_run_fails_witness:
  "isl (fst (restore_use_case shop_restore (keyManager toy_keys) stuck_queue next_day (sample_proc, new_machine)))"
proof -
  obtain q where f: "find_backup shop_restore stuck_queue next_day sample_proc = (Inr (Some secret_record), q)" using secret_found by blast
  have "\<not> delegates shop_restore next_day" by (simp add: delegates_def next_day_def)
  moreover have "truthy_j (jget secret_record ''encrypted'')" "jget secret_record ''encryptionIv'' = None" "jget secret_record ''encryptionTag'' = None"
    by (simp_all add: secret_record_def)
  moreover have "isl (stuck_queue l (Other ''createDecipheriv'' (JArr [JStr k, JStr '''', JStr t])))" for l k t by (simp add: stuck_queue_def)
  ultimately show ?thesis by (rule encrypted_dry_run_fails [OF _ real_checks(3) f])
qed

end
