(* ===== verification/DumpService.thy ===== *)
theory DumpService
  imports StorageService MysqlTransforms DbAdapters
begin

text \<open>
  What the database services of PostgreSQL, MongoDB and SQLite share
  (\<open>microservices/database-services/*/service.ts\<close> repeat this code): the checksum and encryption
  transforms, the pipeline from the dump to the storage, the description of the result, the handlers.

  A stream is its chunks and the error that broke it. The intermediate streams are joined by \<open>.pipe\<close>, which
  hands no errors on, and the source has no listener for \<open>error\<close>: a source that is destroyed takes the
  process down. That is the error code \<open>uncaughtException\<close>, which no \<open>catch\<close> block of the model catches.
  What a started process gives is the parameter \<open>du_run\<close>, indexed by the calls made so far: the chunks that get
  through, a failure to start, the exit code, the messages on stderr, and whether the sign of an error (the
  \<open>close\<close> event, a message on stderr) comes too late, when the end of the output has been passed on and the
  stream is gone (\<open>dr_late\<close>).
\<close>

section \<open>The environment\<close>

record dump_run =
  dr_chunks :: "bytes list"
  dr_failed :: "js_error option"
  dr_exit :: int
  dr_late :: bool
  dr_stderr :: "string list"

record dump_env =
  du_disk :: disk_env
  du_host :: host_env
  du_var :: "string \<Rightarrow> string option"
  du_gcm :: gcm
  du_sha :: "bytes \<Rightarrow> string"
  du_b64 :: "bytes \<Rightarrow> string"
  du_gzip :: "bytes list \<Rightarrow> bytes list"
  du_chunks :: "bytes \<Rightarrow> bytes list"
  du_iv :: bytes
  du_uuid :: string
  du_now :: string
  du_version :: json
  du_uptime :: json
  du_duration :: json
  du_run :: "call list \<Rightarrow> dump_run"

definition uncaught :: "js_error \<Rightarrow> js_error" where
  "uncaught e = JsError ''uncaughtException'' (err_message e)"

definition crashed :: "js_error \<Rightarrow> bool" where
  "crashed e \<longleftrightarrow> err_code e = ''uncaughtException''"

section \<open>Transforms\<close>

text \<open>\<open>ChecksumTransform\<close>: what was hashed, and its size.\<close>

record checksum_tr =
  ck_data :: bytes
  ck_size :: nat

definition checksum_chunk :: "checksum_tr \<Rightarrow> bytes \<Rightarrow> bytes \<times> checksum_tr" where
  "checksum_chunk st c = (c, st\<lparr>ck_data := ck_data st @ c, ck_size := ck_size st + length c\<rparr>)"

fun checksum_all :: "checksum_tr \<Rightarrow> bytes list \<Rightarrow> bytes list \<times> checksum_tr" where
  "checksum_all st [] = ([], st)"
| "checksum_all st (c # cs) = (case checksum_chunk st c of (out, st') \<Rightarrow>
     case checksum_all st' cs of (outs, st'') \<Rightarrow> (out # outs, st''))"

text \<open>\<open>EncryptionTransform\<close>: \<open>update\<close> per chunk, the tag at the end; \<open>final\<close> of GCM gives no bytes.\<close>

record cipher_tr =
  cp_iv :: bytes
  cp_key :: bytes
  cp_ct :: bytes
  cp_tag :: "bytes option"
  cp_final :: bool

definition new_cipher :: "string \<Rightarrow> bytes \<Rightarrow> js_error + cipher_tr" where
  "new_cipher key iv = (if length (hex_bytes key) \<noteq> 32 then Inl invalid_key_length
     else Inr \<lparr>cp_iv = iv, cp_key = hex_bytes key, cp_ct = [], cp_tag = None, cp_final = False\<rparr>)"

definition cipher_chunk :: "gcm \<Rightarrow> cipher_tr \<Rightarrow> bytes \<Rightarrow> bytes \<times> cipher_tr" where
  "cipher_chunk G st c = (let e = gcm_xor G (cp_key st) (cp_iv st) (length (cp_ct st)) c in (e, st\<lparr>cp_ct := cp_ct st @ e\<rparr>))"

definition cipher_flush :: "gcm \<Rightarrow> cipher_tr \<Rightarrow> cipher_tr" where
  "cipher_flush G st = (if \<not> cp_final st
     then st\<lparr>cp_tag := Some (g_tag G (cp_key st) (cp_iv st) (cp_ct st)), cp_final := True\<rparr> else st)"

fun cipher_all :: "gcm \<Rightarrow> cipher_tr \<Rightarrow> bytes list \<Rightarrow> bytes list \<times> cipher_tr" where
  "cipher_all G st [] = ([], st)"
| "cipher_all G st (c # cs) = (case cipher_chunk G st c of (out, st') \<Rightarrow>
     case cipher_all G st' cs of (outs, st'') \<Rightarrow> (out # outs, st''))"

definition cipher_metadata :: "dump_env \<Rightarrow> cipher_tr \<Rightarrow> json" where
  "cipher_metadata D st = (case cp_tag st of None \<Rightarrow> JNull
     | Some t \<Rightarrow> JObj [(''iv'', JStr (du_b64 D (cp_iv st))), (''tag'', JStr (du_b64 D t)), (''algorithm'', JStr ''aes-256-gcm'')])"

section \<open>The pipeline\<close>

type_synonym source = "bytes list \<times> js_error option"

record piped =
  pp_stream :: stream
  pp_check :: checksum_tr
  pp_cipher :: "cipher_tr option"

definition through_cipher :: "gcm \<Rightarrow> bool \<Rightarrow> cipher_tr option \<Rightarrow> bytes list \<Rightarrow> bytes list \<times> cipher_tr option" where
  "through_cipher G ended c cs = (case c of None \<Rightarrow> (cs, None)
     | Some st \<Rightarrow> (case cipher_all G st cs of (outs, st') \<Rightarrow> (outs, Some (if ended then cipher_flush G st' else st'))))"

definition run_pipeline :: "dump_env \<Rightarrow> bool \<Rightarrow> cipher_tr option \<Rightarrow> source \<Rightarrow> piped" where
  "run_pipeline D compress c src =
     (let zs = (if compress then du_gzip D (fst src) else fst src);
          (cs, ck) = checksum_all \<lparr>ck_data = [], ck_size = 0\<rparr> zs;
          (outs, c') = through_cipher (du_gcm D) (snd src = None) c cs in
      \<lparr>pp_stream = (concat outs, snd src), pp_check = ck, pp_cipher = c'\<rparr>)"

section \<open>Options\<close>

definition storage_option :: "json \<Rightarrow> json" where
  "storage_option opts = or_j (jget opts ''storage'') (JObj [(''type'', JStr ''local''), (''basePath'', JStr ''./backups'')])"

definition dump_key :: "json \<Rightarrow> js_error + string option" where
  "dump_key opts = (if \<not> truthy_j (jget opts ''encrypt'') then Inr None
     else case if_truthy (jget opts ''encryptionKey'') of
       None \<Rightarrow> Inl (new_Error ''Encryption enabled but no key provided'')
     | Some k \<Rightarrow> if length (js_String k) \<noteq> 64 then Inl (new_Error ''Encryption key must be 64 hexadecimal characters (32 bytes)'')
         else Inr (Some (js_String k)))"

definition dump_name :: "json \<Rightarrow> string \<Rightarrow> string \<Rightarrow> string \<Rightarrow> string" where
  "dump_name opts base packed plain = (if truthy_j (jget opts ''encrypt'') then base @ ''_encrypted.enc''
     else base @ ''.'' @ (if truthy_j (jget opts ''compress'') then packed else plain))"

definition optional_cipher :: "dump_env \<Rightarrow> string option \<Rightarrow> js_error + cipher_tr option" where
  "optional_cipher D key = (case key of None \<Rightarrow> Inr None
     | Some k \<Rightarrow> (case new_cipher k (du_iv D) of Inl e \<Rightarrow> Inl e | Inr c \<Rightarrow> Inr (Some c)))"

section \<open>Storing\<close>

text \<open>What sets a service apart: its name, the directory it writes to, the one it reports, the text of its errors.\<close>

record dump_kind =
  dk_type :: string
  dk_write :: "json \<Rightarrow> string"
  dk_report :: "json \<Rightarrow> string"
  dk_failed :: string
  dk_kill :: bool

definition to_s3 :: "dump_env \<Rightarrow> world \<Rightarrow> json \<Rightarrow> stream \<Rightarrow> string \<Rightarrow> ('z site_scheme, json) prog" where
  "to_s3 D W st stm name =
     (if \<not> truthy_j (jget st ''bucket'') then throw (new_Error ''S3 bucket is required for s3 storage type'')
      else if \<not> truthy_j (jget st ''accessKey'') \<or> \<not> truthy_j (jget st ''secretKey'')
      then throw (new_Error ''S3 accessKey and secretKey are required for s3 storage type'')
      else let pv = s3_provider (du_disk D) W (jobj [(''type'', Some (JStr ''s3'')), (''bucket'', jget st ''bucket''),
             (''region'', Some (or_j (jget st ''region'') (JStr ''us-east-1''))), (''accessKey'', jget st ''accessKey''), (''secretKey'', jget st ''secretKey'')]) in
        seqp (pv_initialize pv) (pv_uploadStream pv stm name))"

definition to_disk :: "dump_env \<Rightarrow> string \<Rightarrow> stream \<Rightarrow> string \<Rightarrow> ('z site_scheme, json) prog" where
  "to_disk D dir stm name = (let dest = path_join [dir, name] in
     seqp (on_disk (ensureDir (du_disk D) dir))
    (seqp (on_disk (pipe_to (du_disk D) stm dest))
    (bnd (on_disk (statSync (du_disk D) dest)) (\<lambda>n. ret (path_and_size dest n)))))"

definition store_dump :: "dump_env \<Rightarrow> world \<Rightarrow> dump_kind \<Rightarrow> json \<Rightarrow> stream \<Rightarrow> string \<Rightarrow> ('z site_scheme, json) prog" where
  "store_dump D W k st stm name = (if jget st ''type'' = Some (JStr ''s3'') then to_s3 D W st stm name
     else to_disk D (dk_write k st) stm name)"

section \<open>The result\<close>

definition dump_path :: "dump_kind \<Rightarrow> json \<Rightarrow> string \<Rightarrow> string" where
  "dump_path k st name = (if jget st ''type'' = Some (JStr ''s3'')
     then ''s3://'' @ tpl (jget st ''bucket'') @ ''/'' @
       (if truthy_j (jget st ''prefix'') then tpl (jget st ''prefix'') @ ''/'' else '''') @ name
     else path_join [dk_report k st, name])"

definition stored_where :: "json \<Rightarrow> string \<Rightarrow> json \<Rightarrow> json" where
  "stored_where st name receipt = (let s3 = (jget st ''type'' = Some (JStr ''s3'')) in
     jobj ([(''name'', Some (or_j (jget st ''name'') (JStr (if s3 then ''s3-storage'' else ''local-storage'')))), (''type'', jget st ''type'')] @
       (if s3 then [(''bucket'', jget st ''bucket''), (''region'', Some (or_j (jget st ''region'') (JStr ''us-east-1''))),
           (''key'', Some (JStr name)), (''etag'', jget receipt ''etag''), (''versionId'', jget receipt ''versionId'')] else []) @
       (if jget st ''type'' = Some (JStr ''local'') then [(''path'', Some (or_j (jget st ''basePath'') (JStr ''./backups'')))] else [])))"

definition is_encrypted :: "json \<Rightarrow> json" where
  "is_encrypted opts = or_j (jget opts ''encrypt'') (JBool False)"

definition encryption_type :: "json \<Rightarrow> json" where
  "encryption_type opts = (if truthy_j (jget opts ''encrypt'') then JStr ''aes-256-gcm'' else JNull)"

definition encryption_metadata :: "dump_env \<Rightarrow> piped \<Rightarrow> json" where
  "encryption_metadata D pl = (case pp_cipher pl of None \<Rightarrow> JNull | Some c \<Rightarrow> cipher_metadata D c)"

record dump_job =
  dj_id :: string
  dj_type :: json
  dj_dbName :: "json option"
  dj_opts :: json
  dj_file :: string

definition dump_checksum :: "dump_env \<Rightarrow> piped \<Rightarrow> json" where
  "dump_checksum D pl = JStr (du_sha D (ck_data (pp_check pl)))"

definition dump_size :: "piped \<Rightarrow> json" where
  "dump_size pl = JNum (int (ck_size (pp_check pl)))"

definition dump_metadata :: "dump_env \<Rightarrow> dump_kind \<Rightarrow> dump_job \<Rightarrow> piped \<Rightarrow> json \<Rightarrow> json" where
  "dump_metadata D k j pl receipt = (let opts = dj_opts j in
     jobj [(''id'', Some (JStr (dj_id j))), (''dbType'', Some (JStr (dk_type k))), (''dbName'', dj_dbName j), (''backupType'', Some (dj_type j)),
       (''size'', Some (dump_size pl)), (''checksum'', Some (dump_checksum D pl)), (''createdAt'', Some (JStr (du_now D))),
       (''compression'', Some (JStr (if truthy_j (jget opts ''compress'') then ''gzip'' else ''none''))),
       (''encrypted'', Some (is_encrypted opts)), (''encryptionType'', Some (encryption_type opts)),
       (''encryptionMetadata'', Some (encryption_metadata D pl)), (''storage'', Some (stored_where (storage_option opts) (dj_file j) receipt))])"

definition dump_result :: "dump_env \<Rightarrow> dump_kind \<Rightarrow> dump_job \<Rightarrow> piped \<Rightarrow> json \<Rightarrow> json" where
  "dump_result D k j pl receipt = jobj [(''success'', Some (JBool True)), (''backupId'', Some (JStr (dj_id j))),
     (''filePath'', Some (JStr (dump_path k (storage_option (dj_opts j)) (dj_file j)))), (''fileSize'', Some (dump_size pl)),
     (''duration'', Some (du_duration D)), (''metadata'', Some (dump_metadata D k j pl receipt)), (''fileName'', Some (JStr (dj_file j))),
     (''checksum'', Some (dump_checksum D pl)), (''encrypted'', Some (is_encrypted (dj_opts j))),
     (''encryptionType'', Some (encryption_type (dj_opts j))), (''encryptionMetadata'', Some (encryption_metadata D pl))]"

section \<open>From the dump to the result\<close>

definition give_up :: "world \<Rightarrow> dump_kind \<Rightarrow> js_error \<Rightarrow> ('z site_scheme, 'a) prog" where
  "give_up W k e = (if crashed e then throw e
     else seqp (if dk_kill k then on_proc (ignore_errors (unit_call W (Other ''kill'' (JStr ''SIGTERM'')))) else ret ())
       (throw (new_Error (dk_failed k @ err_message e))))"

definition stream_backup :: "dump_env \<Rightarrow> world \<Rightarrow> dump_kind \<Rightarrow> dump_job \<Rightarrow> string option \<Rightarrow> source \<Rightarrow> ('z site_scheme, json) prog" where
  "stream_backup D W k j key src = bnd (lift_res (optional_cipher D key)) (\<lambda>c.
     let pl = run_pipeline D (truthy_j (jget (dj_opts j) ''compress'')) c src in
     try_catch (bnd (store_dump D W k (storage_option (dj_opts j)) (pp_stream pl) (dj_file j)) (\<lambda>receipt.
        ret (dump_result D k j pl receipt)))
       (give_up W k))"

definition spawn_of :: "string \<Rightarrow> string list \<Rightarrow> (string \<times> json) list \<Rightarrow> call" where
  "spawn_of cmd args env = Other ''spawn'' (JObj [(''cmd'', JStr cmd), (''args'', JArr (map JStr args)), (''env'', JObj env)])"

definition start_dump :: "dump_env \<Rightarrow> world \<Rightarrow> string \<Rightarrow> string list \<Rightarrow> (string \<times> json) list \<Rightarrow> ('z site_scheme, dump_run) prog" where
  "start_dump D W cmd args env = seqp (on_proc (ask W (spawn_of cmd args env))) (gets (\<lambda>s. du_run D (calls (st_proc s))))"

text \<open>A tool that is waited for; \<open>good\<close> are the exit codes that pass.\<close>

definition run_tool :: "world \<Rightarrow> string \<Rightarrow> string \<Rightarrow> int list \<Rightarrow> string list \<Rightarrow> (string \<times> json) list \<Rightarrow> ('z site_scheme, unit) prog" where
  "run_tool W cmd what good args env = bnd (on_proc (run_call W (spawn_of cmd args env))) (\<lambda>r.
     if jget r ''code'' \<in> set (map (\<lambda>n. Some (JNum n)) good) then ret ()
     else throw (new_Error (what @ '' failed with code '' @ js_String (or_null (jget r ''code'')) @ '': '' @ tpl (jget r ''stderr''))))"

section \<open>Handlers\<close>

definition env_or :: "dump_env \<Rightarrow> json \<Rightarrow> string \<Rightarrow> string \<Rightarrow> json \<Rightarrow> string" where
  "env_or D c k var d = js_String (or_null (or_chain [jget c k, map_option JStr (du_var D var), Some d]))"

definition request_id :: "dump_env \<Rightarrow> json \<Rightarrow> string" where
  "request_id D opts = or_s (text_column (Some opts) ''backupId'') (du_uuid D)"

definition handle_backup :: "string \<Rightarrow> ('z site_scheme, json) prog \<Rightarrow> ('z site_scheme, response) prog" where
  "handle_backup i m = try_catch (bnd m answer) (\<lambda>e. if crashed e then throw e
     else respond 500 (JObj [(''success'', JBool False), (''backupId'', JStr i), (''error'', JStr (err_message e))]))"

definition handle_restore :: "('z site_scheme, json) prog \<Rightarrow> ('z site_scheme, response) prog" where
  "handle_restore m = try_catch (bnd m answer) (\<lambda>e. respond 500 (JObj [(''success'', JBool False), (''error'', JStr (err_message e))]))"

definition service_health :: "dump_env \<Rightarrow> string \<Rightarrow> ('z site_scheme, response) prog" where
  "service_health D name = answer (JObj [(''service'', JStr name), (''status'', JStr ''healthy''), (''version'', du_version D),
     (''uptime'', du_uptime D), (''timestamp'', JStr (du_now D))])"

definition restore_answer :: "dump_env \<Rightarrow> string \<Rightarrow> json" where
  "restore_answer D m = JObj [(''success'', JBool True), (''duration'', du_duration D), (''message'', JStr m)]"

end
