(* ===== verification/DumpServices.thy ===== *)
theory DumpServices
  imports DumpService PgIncremental
begin

text \<open>
  The database services of PostgreSQL, MongoDB and SQLite (\<open>microservices/database-services/postgres\<close>,
  \<open>mongodb\<close> and \<open>sqlite\<close>, each a \<open>service.ts\<close>): the arguments they start the tools with, what they make of the
  way a tool ends, and their routes. \<open>POST /backup\<close> is modelled on bodies that passed \<open>BackupRequestSchema\<close>:
  the configuration and the options are objects. The body of \<open>POST /restore\<close> is not validated; it is taken to
  hold an object with the connection, a path, and options that are an object. What happens to a process after
  it has been killed, when the answer has been sent, is not modelled.
\<close>

section \<open>PostgreSQL\<close>

definition pg_kind :: "dump_env \<Rightarrow> dump_kind" where
  "pg_kind D = \<lparr>dk_type = ''postgresql'',
     dk_write = (\<lambda>st. resolveContainerStoragePath (du_host D) (text_column (Some st) ''basePath'')),
     dk_report = (\<lambda>st. or_s (text_column (Some st) ''basePath'') (resolveContainerStoragePath (du_host D) None)),
     dk_failed = ''Backup execution failed: '', dk_kill = True\<rparr>"

definition pg_login :: "dump_env \<Rightarrow> json \<Rightarrow> string list" where
  "pg_login D c = [''-h'', resolveDatabaseHost (du_host D) (or_so (text_column (Some c) ''host'') (du_var D ''POSTGRES_HOST'')),
     ''-p'', env_or D c ''port'' ''POSTGRES_PORT'' (JNum 5432), ''-U'', env_or D c ''username'' ''POSTGRES_USER'' (JStr ''postgres''),
     ''-d'', tpl (jget c ''database'')]"

definition pg_secret :: "dump_env \<Rightarrow> json \<Rightarrow> (string \<times> json) list" where
  "pg_secret D c = [(''PGPASSWORD'', JStr (env_or D c ''password'' ''POSTGRES_PASSWORD'' (JStr '''')))]"

definition pg_dump_args :: "dump_env \<Rightarrow> json \<Rightarrow> json \<Rightarrow> string list" where
  "pg_dump_args D c opts = pg_login D c @ [''--format=custom'', ''--verbose'', ''--no-owner'', ''--no-privileges'', ''--blobs'', ''--clean'', ''--if-exists''] @
     flagged ''-t'' (texts (jget opts ''tables'')) @ flagged ''-T'' (texts (jget opts ''excludeTables''))"

text \<open>The \<open>close\<close> event with another code than 0 destroys the stream, unless that has ended before;
  \<open>pgDumpError\<close> is not looked at again.\<close>

definition pg_dump_failed :: "dump_run \<Rightarrow> js_error" where
  "pg_dump_failed r = new_Error (''pg_dump execution failed with exit code '' @ str_int (dr_exit r) @ '': '' @
     (let m = js_trim (concat (dr_stderr r)) in if m = '''' then ''Connection failed or database not found'' else m))"

definition pg_source :: "dump_run \<Rightarrow> source" where
  "pg_source r = (dr_chunks r, case dr_failed r of Some e \<Rightarrow> Some (uncaught e)
     | None \<Rightarrow> if dr_exit r \<noteq> 0 \<and> \<not> dr_late r then Some (uncaught (pg_dump_failed r)) else None)"

text \<open>Incremental and physical backups are those of \<open>PostgresIncrementalService\<close>, which is given the connection
  and five of the options.\<close>

definition is_physical_request :: "string \<Rightarrow> json \<Rightarrow> bool" where
  "is_physical_request t opts \<longleftrightarrow> t = ''incremental'' \<or> truthy_j (jget opts ''physical'')"

definition inc_for :: "inc_env \<Rightarrow> json \<Rightarrow> inc_env" where
  "inc_for I c = I\<lparr>ie_pg := (ie_pg I)\<lparr>pg_pitr := (pg_pitr (ie_pg I))\<lparr>pe_database := tpl (jget c ''database'')\<rparr>,
     pg_host := text_column (Some c) ''host'', pg_port := (case jget c ''port'' of Some (JNum n) \<Rightarrow> Some n | _ \<Rightarrow> None),
     pg_username := text_column (Some c) ''username'', pg_password := or_null (jget c ''password'')\<rparr>\<rparr>"

definition physical_options :: "string \<Rightarrow> json \<Rightarrow> inc_options" where
  "physical_options t opts = \<lparr>io_type = (if t = ''incremental'' then ''incremental'' else ''full''),
     io_output = text_column (Some opts) ''outputPath'', io_name = text_column (Some opts) ''backupName'',
     io_parentBackupId = text_column (Some opts) ''parentBackupId''\<rparr>"

definition physical_answer :: "json \<Rightarrow> json" where
  "physical_answer r = jobj [(''success'', Some (JBool True)), (''backupId'', jget r ''backupId''), (''filePath'', jget r ''filePath''),
     (''fileSize'', jget r ''fileSize''), (''duration'', jget r ''duration''), (''metadata'', jget r ''metadata''),
     (''fileName'', jget r ''fileName''), (''checksum'', jget r ''checksum'')]"

definition pg_physical :: "inc_env \<Rightarrow> world \<Rightarrow> string \<Rightarrow> json \<Rightarrow> string \<Rightarrow> json \<Rightarrow> (pitr_site, json) prog" where
  "pg_physical I W i c t opts = (let I' = inc_for I c in
     seqp (new_incremental I')
    (bnd (performIncrementalBackup I' W i (physical_options t opts)) (\<lambda>r. ret (physical_answer r))))"

definition pg_job :: "dump_env \<Rightarrow> string \<Rightarrow> json \<Rightarrow> string \<Rightarrow> json \<Rightarrow> dump_job" where
  "pg_job D i c t opts = \<lparr>dj_id = i, dj_type = JStr t, dj_dbName = jget c ''database'', dj_opts = opts,
     dj_file = dump_name opts (tpl (jget c ''database'') @ ''_'' @ dashed (du_now D)) ''gz'' ''dump''\<rparr>"

definition pg_logical :: "dump_env \<Rightarrow> world \<Rightarrow> string \<Rightarrow> json \<Rightarrow> string \<Rightarrow> json \<Rightarrow> ('z site_scheme, json) prog" where
  "pg_logical D W i c t opts = bnd (lift_res (dump_key opts)) (\<lambda>key.
     bnd (start_dump D W ''pg_dump'' (pg_dump_args D c opts) (pg_secret D c)) (\<lambda>r.
       stream_backup D W (pg_kind D) (pg_job D i c t opts) key (pg_source r)))"

definition pg_performBackup :: "dump_env \<Rightarrow> inc_env \<Rightarrow> world \<Rightarrow> string \<Rightarrow> json \<Rightarrow> string \<Rightarrow> json \<Rightarrow> (pitr_site, json) prog" where
  "pg_performBackup D I W i c t opts = (if is_physical_request t opts then pg_physical I W i c t opts else pg_logical D W i c t opts)"

text \<open>A dump in the custom format is recognised by the suffix of the file or its first five bytes.\<close>

definition says_PGDMP :: "dump_env \<Rightarrow> string \<Rightarrow> (disk, bool) prog" where
  "says_PGDMP D p = bnd (existsSync (du_disk D) p) (\<lambda>there. if \<not> there then ret False
     else try_catch (bnd (readFileSync (du_disk D) p) (\<lambda>b. ret (take 5 b = ascii ''PGDMP''))) (\<lambda>_. ret False))"

definition pg_performRestore :: "dump_env \<Rightarrow> world \<Rightarrow> json \<Rightarrow> string \<Rightarrow> json \<Rightarrow> ('z site_scheme, json) prog" where
  "pg_performRestore D W c p opts =
     bnd (if is_custom_dump p then ret True else on_disk (says_PGDMP D p)) (\<lambda>custom.
     seqp (if custom
         then run_tool W ''pg_restore'' ''pg_restore'' [0, 1] (pg_login D c @ [''--clean'', ''--if-exists'', ''--no-owner'', ''--no-privileges''] @
           flagged ''-t'' (texts (jget opts ''tables'')) @ [p]) (pg_secret D c)
         else run_tool W ''psql'' ''psql restore'' [0] (pg_login D c @ [''-f'', p]) (pg_secret D c))
       (ret (restore_answer D ''PostgreSQL restore completed successfully'')))"

definition pg_post_backup :: "dump_env \<Rightarrow> inc_env \<Rightarrow> world \<Rightarrow> json \<Rightarrow> string \<Rightarrow> json \<Rightarrow> (pitr_site, response) prog" where
  "pg_post_backup D I W c t opts = (let i = request_id D opts in handle_backup i (pg_performBackup D I W i c t opts))"

definition pg_post_restore :: "dump_env \<Rightarrow> world \<Rightarrow> json \<Rightarrow> string \<Rightarrow> json \<Rightarrow> ('z site_scheme, response) prog" where
  "pg_post_restore D W c p opts = handle_restore (pg_performRestore D W c p opts)"

definition pg_health :: "dump_env \<Rightarrow> ('z site_scheme, response) prog" where
  "pg_health D = service_health D ''postgres-backup-service''"

section \<open>MongoDB\<close>

definition plain_dir :: "json \<Rightarrow> string" where
  "plain_dir st = or_s (text_column (Some st) ''basePath'') ''./backups''"

definition mongo_kind :: dump_kind where
  "mongo_kind = \<lparr>dk_type = ''mongodb'', dk_write = plain_dir, dk_report = plain_dir,
     dk_failed = ''MongoDB backup execution failed: '', dk_kill = True\<rparr>"

definition mongo_dump_args :: "dump_env \<Rightarrow> json \<Rightarrow> json \<Rightarrow> string list" where
  "mongo_dump_args D c opts = [''--host'', resolveDatabaseHost (du_host D) (Some (or_s (text_column (Some c) ''host'') ''127.0.0.1'')),
     ''--port'', cfg_or c ''port'' (JNum 27017), ''--db'', tpl (jget c ''database''), ''--archive''] @ mongo_auth c @
     (if truthy_j (jget c ''connectionString'') then [''--uri'', tpl (jget c ''connectionString'')] else []) @
     flagged ''--collection'' (texts (jget opts ''tables''))"

text \<open>A message on stderr with one of three words destroys the stream; the exit code is not looked at.\<close>

definition alarming :: "string \<Rightarrow> bool" where
  "alarming m \<longleftrightarrow> str_includes m ''ERROR'' \<or> str_includes m ''Failed'' \<or> str_includes m ''error''"

definition mongo_source :: "dump_run \<Rightarrow> source" where
  "mongo_source r = (dr_chunks r, case dr_failed r of Some e \<Rightarrow> Some (uncaught e)
     | None \<Rightarrow> if dr_late r then None
         else map_option (\<lambda>m. uncaught (new_Error (''mongodump error: '' @ m))) (List.find alarming (dr_stderr r)))"

definition mongo_job :: "dump_env \<Rightarrow> string \<Rightarrow> json \<Rightarrow> string \<Rightarrow> json \<Rightarrow> dump_job" where
  "mongo_job D i c t opts = \<lparr>dj_id = i, dj_type = JStr t, dj_dbName = jget c ''database'', dj_opts = opts,
     dj_file = dump_name opts (tpl (jget c ''database'') @ ''_'' @ dashed (du_now D)) ''gz'' ''archive''\<rparr>"

definition mongo_performBackup :: "dump_env \<Rightarrow> world \<Rightarrow> string \<Rightarrow> json \<Rightarrow> string \<Rightarrow> json \<Rightarrow> ('z site_scheme, json) prog" where
  "mongo_performBackup D W i c t opts = bnd (lift_res (dump_key opts)) (\<lambda>key.
     bnd (start_dump D W ''mongodump'' (mongo_dump_args D c opts) []) (\<lambda>r.
       stream_backup D W mongo_kind (mongo_job D i c t opts) key (mongo_source r)))"

definition mongo_restore_args :: "dump_env \<Rightarrow> json \<Rightarrow> string \<Rightarrow> string list" where
  "mongo_restore_args D c p = [''--host'', resolveDatabaseHost (du_host D)
       (Some (or_s (text_column (Some c) ''host'') (or_s (du_var D ''MONGODB_HOST'') ''localhost''))),
     ''--port'', env_or D c ''port'' ''MONGODB_PORT'' (JNum 27017), ''--db'', tpl (jget c ''database''), ''--archive='' @ p, ''--drop''] @ mongo_auth c @
     (if truthy_j (jget c ''authSource'') then [''--authenticationDatabase'', tpl (jget c ''authSource'')] else [])"

definition mongo_performRestore :: "dump_env \<Rightarrow> world \<Rightarrow> json \<Rightarrow> string \<Rightarrow> ('z site_scheme, json) prog" where
  "mongo_performRestore D W c p = seqp (run_tool W ''mongorestore'' ''mongorestore'' [0] (mongo_restore_args D c p) [])
     (ret (restore_answer D ''MongoDB restore completed successfully''))"

definition mongo_post_backup :: "dump_env \<Rightarrow> world \<Rightarrow> json \<Rightarrow> string \<Rightarrow> json \<Rightarrow> ('z site_scheme, response) prog" where
  "mongo_post_backup D W c t opts = (let i = request_id D opts in handle_backup i (mongo_performBackup D W i c t opts))"

definition mongo_post_restore :: "dump_env \<Rightarrow> world \<Rightarrow> json \<Rightarrow> string \<Rightarrow> ('z site_scheme, response) prog" where
  "mongo_post_restore D W c p = handle_restore (mongo_performRestore D W c p)"

definition mongo_health :: "dump_env \<Rightarrow> ('z site_scheme, response) prog" where
  "mongo_health D = service_health D ''mongodb-backup-service''"

section \<open>SQLite\<close>

definition sqlite_kind :: dump_kind where
  "sqlite_kind = \<lparr>dk_type = ''sqlite'', dk_write = plain_dir, dk_report = plain_dir,
     dk_failed = ''SQLite backup execution failed: '', dk_kill = False\<rparr>"

definition sqlite_db :: "dump_env \<Rightarrow> string \<Rightarrow> (disk, string) prog" where
  "sqlite_db D p = (let E = du_disk D in
     bnd (existsSync E p) (\<lambda>here. if here then ret p else
     bnd (existsSync E (p @ ''.db'')) (\<lambda>suffixed. if suffixed then ret (p @ ''.db'') else
     bnd (existsSync E ''backup-meta.db'') (\<lambda>meta. if meta then ret ''backup-meta.db''
       else throw (new_Error (''SQLite database file not found: '' @ p @ ''. Please verify the file path.''))))))"

text \<open>\<open>createReadStream\<close>: an error has no listener.\<close>

definition read_stream :: "dump_env \<Rightarrow> string \<Rightarrow> (disk, source) prog" where
  "read_stream D p = try_catch (bnd (readFileSync (du_disk D) p) (\<lambda>b. ret (du_chunks D b, None)))
     (\<lambda>e. ret ([], Some (uncaught e)))"

definition sqlite_job :: "dump_env \<Rightarrow> string \<Rightarrow> string \<Rightarrow> string \<Rightarrow> json \<Rightarrow> dump_job" where
  "sqlite_job D i src t opts = \<lparr>dj_id = i, dj_type = JStr t, dj_dbName = Some (JStr (path_basename src ''.db'')), dj_opts = opts,
     dj_file = dump_name opts (path_basename src ''.db'' @ ''_'' @ dashed (du_now D)) ''db.gz'' ''db''\<rparr>"

definition sqlite_performBackup :: "dump_env \<Rightarrow> world \<Rightarrow> string \<Rightarrow> json \<Rightarrow> string \<Rightarrow> json \<Rightarrow> ('z site_scheme, json) prog" where
  "sqlite_performBackup D W i c t opts = bnd (on_disk (sqlite_db D (tpl (jget c ''database'')))) (\<lambda>src.
     bnd (lift_res (dump_key opts)) (\<lambda>key.
     bnd (on_disk (read_stream D src)) (\<lambda>s.
       stream_backup D W sqlite_kind (sqlite_job D i src t opts) key s)))"

definition sqlite_performRestore :: "dump_env \<Rightarrow> json \<Rightarrow> string \<Rightarrow> (disk, json) prog" where
  "sqlite_performRestore D c p = (let E = du_disk D; target = path_resolve (v_cwd E) [tpl (jget c ''database'')]; staged = target @ ''.restoring'' in
     seqp (ensureDir E (path_dirname target))
    (seqp (copyFileSync E p staged)
    (bnd (existsSync E target) (\<lambda>there.
     seqp (if there then unlinkSync E target else ret ())
    (seqp (copyFileSync E staged target)
    (seqp (unlinkSync E staged)
      (ret (restore_answer D (''SQLite database restore_answer successfully to '' @ target)))))))))"

definition sqlite_post_backup :: "dump_env \<Rightarrow> world \<Rightarrow> json \<Rightarrow> string \<Rightarrow> json \<Rightarrow> ('z site_scheme, response) prog" where
  "sqlite_post_backup D W c t opts = (let i = request_id D opts in handle_backup i (sqlite_performBackup D W i c t opts))"

definition sqlite_post_restore :: "dump_env \<Rightarrow> json \<Rightarrow> string \<Rightarrow> ('z site_scheme, response) prog" where
  "sqlite_post_restore D c p = handle_restore (on_disk (sqlite_performRestore D c p))"

definition sqlite_health :: "dump_env \<Rightarrow> ('z site_scheme, response) prog" where
  "sqlite_health D = service_health D ''sqlite-backup-service''"

end
