(* ===== verification/DumpCorrect.thy ===== *)
theory DumpCorrect
  imports DumpServices StorageCorrect
begin

text \<open>
  Correctness of the database services of PostgreSQL, MongoDB and SQLite. Each of them ends in the shared
  pipeline, which is the contract \<open>streaming_service\<close>; what a stored backup holds is proved once from it. Then:
  what the restore worker makes of an encrypted backup, which failures of a dump go unnoticed, which options
  a physical backup ignores, and the restore of a SQLite file.
\<close>

section \<open>The transforms\<close>

lemma checksum_all_run [simp]: "checksum_all st cs =
    (cs, st\<lparr>ck_data := ck_data st @ concat cs, ck_size := ck_size st + length (concat cs)\<rparr>)"
  by (induction cs arbitrary: st) (simp_all add: checksum_chunk_def)

lemma cipher_all_run: "cipher_all G st cs = (outs, st') \<Longrightarrow>
    concat outs = gcm_xor G (cp_key st) (cp_iv st) (length (cp_ct st)) (concat cs) \<and> st' = st\<lparr>cp_ct := cp_ct st @ concat outs\<rparr>"
proof (induction cs arbitrary: st outs)
  case (Cons c cs)
  let ?e = "gcm_xor G (cp_key st) (cp_iv st) (length (cp_ct st)) c"
  from Cons.prems obtain os where os: "cipher_all G (st\<lparr>cp_ct := cp_ct st @ ?e\<rparr>) cs = (os, st')" "outs = ?e # os"
    by (auto simp: cipher_chunk_def Let_def split: prod.splits)
  from Cons.IH [OF os(1)] os(2) show ?case by (simp add: gcm_xor_append)
qed simp

text \<open>What goes through the checksum: the dump, compressed when that was asked for.\<close>

definition packed :: "dump_env \<Rightarrow> json \<Rightarrow> source \<Rightarrow> bytes" where
  "packed D opts src = concat (if truthy_j (jget opts ''compress'') then du_gzip D (fst src) else fst src)"

lemma pipeline_check [simp]: "ck_data (pp_check (run_pipeline D z c src)) = concat (if z then du_gzip D (fst src) else fst src)"
    "ck_size (pp_check (run_pipeline D z c src)) = length (concat (if z then du_gzip D (fst src) else fst src))"
    "snd (pp_stream (run_pipeline D z c src)) = snd src"
  by (simp_all add: run_pipeline_def Let_def split: prod.split)

lemma pipeline_in_clear: "run_pipeline D z None src =
    \<lparr>pp_stream = (concat (if z then du_gzip D (fst src) else fst src), snd src),
     pp_check = pp_check (run_pipeline D z None src), pp_cipher = None\<rparr>"
  by (simp add: run_pipeline_def Let_def through_cipher_def)

text \<open>A whole encrypted stream, with the tag taken at its end, opens to what was hashed.\<close>

lemma pipeline_opened:
  assumes "new_cipher k (du_iv D) = Inr c" and "snd src = None"
  obtains st t where "pp_cipher (run_pipeline D z (Some c) src) = Some st" and "cp_iv st = du_iv D" and "cp_tag st = Some t"
    and "fst (pp_stream (run_pipeline D z (Some c) src)) = gcm_xor (du_gcm D) (hex_bytes k) (du_iv D) 0 (concat (if z then du_gzip D (fst src) else fst src))"
    and "unseal (du_gcm D) (hex_bytes k) \<lparr>sl_iv = du_iv D, sl_tag = t, sl_data = fst (pp_stream (run_pipeline D z (Some c) src))\<rparr> =
      Inr (concat (if z then du_gzip D (fst src) else fst src))"
proof -
  let ?zs = "if z then du_gzip D (fst src) else fst src"
  have len: "length (hex_bytes k) = 32" and c: "c = \<lparr>cp_iv = du_iv D, cp_key = hex_bytes k, cp_ct = [], cp_tag = None, cp_final = False\<rparr>"
    using assms(1) by (auto simp: new_cipher_def split: if_splits)
  obtain outs st' where run: "cipher_all (du_gcm D) c ?zs = (outs, st')" by fastforce
  from cipher_all_run [OF run]
  have ct: "concat outs = gcm_xor (du_gcm D) (hex_bytes k) (du_iv D) 0 (concat ?zs)" and st': "st' = c\<lparr>cp_ct := concat outs\<rparr>"
    by (simp_all add: c)
  define st where "st = cipher_flush (du_gcm D) st'"
  have pl: "pp_cipher (run_pipeline D z (Some c) src) = Some st" "fst (pp_stream (run_pipeline D z (Some c) src)) = concat outs"
    using run assms(2) by (auto simp: run_pipeline_def Let_def through_cipher_def st_def split: prod.splits)
  show thesis
  proof (rule that [OF pl(1)])
    show "cp_iv st = du_iv D" "cp_tag st = Some (g_tag (du_gcm D) (hex_bytes k) (du_iv D) (concat outs))"
      by (simp_all add: st_def cipher_flush_def st' c)
  qed (simp_all add: pl ct unseal_def len)
qed

section \<open>Storing\<close>

lemma give_up_fails [simp]: "give_up W k e s \<noteq> (Inr x, s')"
  by (auto simp: give_up_def bnd_def throw_def split: prod.splits sum.splits if_splits)

lemma try_catch_Inr: "try_catch m h s = (Inr x, s') \<longleftrightarrow> m s = (Inr x, s') \<or> (\<exists>e s1. m s = (Inl e, s1) \<and> h e s1 = (Inr x, s'))"
  by (auto simp: try_catch_def split: prod.splits sum.splits)

lemma to_disk_Inr:
  assumes "to_disk D dir stm name s = (Inr x, s')"
  shows "snd stm = None \<and> file_on (st_disk s') (segs (du_disk D) (path_join [dir, name])) = Some (fst stm)"
proof -
  let ?E = "du_disk D" and ?dest = "path_join [dir, name]"
  from assms obtain s1 s2 n where 1: "on_disk (pipe_to ?E stm ?dest) s1 = (Inr (), s2)" and 2: "on_disk (statSync ?E ?dest) s2 = (Inr n, s')"
    by (auto simp: to_disk_def Let_def bnd_Inr_iff ret_def)
  from 1 have "pipe_to ?E stm ?dest (st_disk s1) = (Inr (), st_disk s2)" by (rule on_diskE) simp
  then have "snd stm = None \<and> file_on (st_disk s2) (segs ?E ?dest) = Some (fst stm)"
    by (auto simp: pipe_to_def bnd_Inr_iff ret_def throw_def dest: writeFileSync_Inr split: option.splits)
  moreover have "file_on (st_disk s') p = file_on (st_disk s2) p" for p
    using 2 withinD [OF within_stat [of "{}"]] by (auto elim!: on_diskE)
  ultimately show ?thesis by simp
qed

text \<open>Every answer of the shared code is the description of a file that is there.\<close>

lemma stream_backup_Inr:
  assumes "stream_backup D W k j key src s = (Inr v, s')" and "jget (storage_option (dj_opts j)) ''type'' \<noteq> Some (JStr ''s3'')"
  obtains c pl receipt where "optional_cipher D key = Inr c" and "pl = run_pipeline D (truthy_j (jget (dj_opts j) ''compress'')) c src"
    and "snd src = None" and "v = dump_result D k j pl receipt"
    and "file_on (st_disk s') (segs (du_disk D) (path_join [dk_write k (storage_option (dj_opts j)), dj_file j])) = Some (fst (pp_stream pl))"
proof -
  from assms(1) obtain c s1 where c: "optional_cipher D key = Inr c" and run: "(let pl = run_pipeline D (truthy_j (jget (dj_opts j) ''compress'')) c src in
     try_catch (bnd (store_dump D W k (storage_option (dj_opts j)) (pp_stream pl) (dj_file j)) (\<lambda>receipt.
        ret (dump_result D k j pl receipt))) (give_up W k)) s1 = (Inr v, s')"
    unfolding stream_backup_def by (rule bnd_InrE) (auto simp: lift_res_def split: sum.splits)
  define pl where "pl = run_pipeline D (truthy_j (jget (dj_opts j) ''compress'')) c src"
  from run obtain receipt where st: "store_dump D W k (storage_option (dj_opts j)) (pp_stream pl) (dj_file j) s1 = (Inr receipt, s')"
    and v: "v = dump_result D k j pl receipt"
    by (auto simp: pl_def [symmetric] try_catch_Inr bnd_Inr_iff ret_def)
  from to_disk_Inr [of D "dk_write k (storage_option (dj_opts j))" "pp_stream pl" "dj_file j" s1 receipt s'] st assms(2)
  have "snd (pp_stream pl) = None" and "file_on (st_disk s') (segs (du_disk D) (path_join [dk_write k (storage_option (dj_opts j)), dj_file j])) = Some (fst (pp_stream pl))"
    by (auto simp: store_dump_def)
  with c pl_def v show thesis by (intro that) (auto simp: pl_def)
qed

section \<open>The contract of the services\<close>

text \<open>A reader of the backup: it has the answer of the service, the options with the key, and the bytes that
  were stored. Base64 and gzip are given by their inverses.\<close>

definition read_back :: "dump_env \<Rightarrow> (string \<Rightarrow> bytes) \<Rightarrow> (bytes \<Rightarrow> bytes) \<Rightarrow> json \<Rightarrow> json \<Rightarrow> bytes \<Rightarrow> js_error + bytes" where
  "read_back D unb64 gunzip opts v b = (let m = jget v ''encryptionMetadata'' in
     case (if truthy_j (jget v ''encrypted'')
       then unseal (du_gcm D) (hex_bytes (tpl (jget opts ''encryptionKey'')))
         \<lparr>sl_iv = unb64 (tpl (oget m ''iv'')), sl_tag = unb64 (tpl (oget m ''tag'')), sl_data = b\<rparr>
       else Inr b) of
       Inl e \<Rightarrow> Inl e | Inr p \<Rightarrow> Inr (if truthy_j (jget opts ''compress'') then gunzip p else p))"

definition undoes :: "dump_env \<Rightarrow> (string \<Rightarrow> bytes) \<Rightarrow> (bytes \<Rightarrow> bytes) \<Rightarrow> bool" where
  "undoes D unb64 gunzip \<longleftrightarrow> (\<forall>x. unb64 (du_b64 D x) = x) \<and> (\<forall>cs. gunzip (concat (du_gzip D cs)) = concat cs)"

definition in_s3 :: "json \<Rightarrow> bool" where
  "in_s3 opts \<longleftrightarrow> jget (storage_option opts) ''type'' = Some (JStr ''s3'')"

lemma dump_result_fields [simp]:
  "jget (dump_result D k j pl r) ''success'' = Some (JBool True)" "jget (dump_result D k j pl r) ''backupId'' = Some (JStr (dj_id j))"
  "jget (dump_result D k j pl r) ''fileName'' = Some (JStr (dj_file j))" "jget (dump_result D k j pl r) ''checksum'' = Some (dump_checksum D pl)"
  "jget (dump_result D k j pl r) ''encrypted'' = Some (is_encrypted (dj_opts j))"
  "jget (dump_result D k j pl r) ''filePath'' = Some (JStr (dump_path k (storage_option (dj_opts j)) (dj_file j)))"
  "jget (dump_result D k j pl r) ''encryptionMetadata'' = Some (encryption_metadata D pl)"
  by (simp_all add: dump_result_def jobj_def)

lemma truthy_encrypted [simp]: "truthy_j (Some (is_encrypted opts)) = truthy_j (jget opts ''encrypt'')"
  by (cases "jget opts ''encrypt''") (simp_all add: is_encrypted_def or_j_def)

lemma dump_key_Inr: "dump_key opts = Inr key \<Longrightarrow>
    (case key of None \<Rightarrow> \<not> truthy_j (jget opts ''encrypt'') | Some k \<Rightarrow> truthy_j (jget opts ''encrypt'') \<and> k = tpl (jget opts ''encryptionKey''))"
  by (auto simp: dump_key_def if_truthy_def tpl_def split: if_splits option.splits)

locale streaming_service =
  fixes D :: dump_env and W :: world and kind :: dump_kind
    and perform :: "string \<Rightarrow> json \<Rightarrow> string \<Rightarrow> json \<Rightarrow> ('z site_scheme, json) prog"
    and dumped :: "json \<Rightarrow> json \<Rightarrow> 'z site_scheme \<Rightarrow> bytes list"
  assumes streams: "perform i c t opts s = (Inr v, s') \<Longrightarrow> \<exists>key j src s0. dump_key opts = Inr key \<and> dj_opts j = opts \<and> dj_id j = i \<and>
      fst src = dumped c opts s \<and> stream_backup D W kind j key src s0 = (Inr v, s')"
begin

lemma stored:
  assumes "perform i c t opts s = (Inr v, s')" and "\<not> in_s3 opts"
  obtains key c' j src receipt where "dump_key opts = Inr key" and "dj_opts j = opts" and "dj_id j = i" and "fst src = dumped c opts s" and "snd src = None"
    and "optional_cipher D key = Inr c'" and "v = dump_result D kind j (run_pipeline D (truthy_j (jget opts ''compress'')) c' src) receipt"
    and "file_on (st_disk s') (segs (du_disk D) (path_join [dk_write kind (storage_option opts), tpl (jget v ''fileName'')])) =
      Some (fst (pp_stream (run_pipeline D (truthy_j (jget opts ''compress'')) c' src)))"
proof -
  from streams [OF assms(1)] obtain key j src s0 where a: "dump_key opts = Inr key" "dj_opts j = opts" "dj_id j = i" "fst src = dumped c opts s"
    and run: "stream_backup D W kind j key src s0 = (Inr v, s')" by blast
  from assms(2) have "jget (storage_option (dj_opts j)) ''type'' \<noteq> Some (JStr ''s3'')" by (simp add: in_s3_def a)
  with run show thesis
  proof (rule stream_backup_Inr, goal_cases)
    case (1 c' pl receipt)
    with a show ?case by (intro that [OF a(1-4), of c' receipt]) (simp_all add: tpl_def)
  qed
qed

lemma reads_back:
  assumes "perform i c t opts s = (Inr v, s')" and "\<not> in_s3 opts" and "undoes D unb64 gunzip"
  shows "\<exists>b. file_on (st_disk s') (segs (du_disk D) (path_join [dk_write kind (storage_option opts), tpl (jget v ''fileName'')])) = Some b \<and>
    read_back D unb64 gunzip opts v b = Inr (concat (dumped c opts s))"
proof -
  let ?z = "truthy_j (jget opts ''compress'')"
  from assms(1,2) show ?thesis
  proof (rule stored, goal_cases)
    case (1 key c' j src receipt)
    have opn: "(if ?z then gunzip (concat (if ?z then du_gzip D (fst src) else fst src)) else concat (if ?z then du_gzip D (fst src) else fst src)) =
        concat (dumped c opts s)" using assms(3) 1(4) by (simp add: undoes_def)
    show ?case
    proof (cases key)
      case None
      with 1 have "c' = None" by (simp add: optional_cipher_def)
      then have "fst (pp_stream (run_pipeline D ?z c' src)) = concat (if ?z then du_gzip D (fst src) else fst src)"
        by (subst \<open>c' = None\<close>, subst pipeline_in_clear) simp
      moreover have "\<not> truthy_j (jget opts ''encrypt'')" using dump_key_Inr [OF 1(1)] None by simp
      ultimately show ?thesis using 1(2,7,8) opn by (simp add: read_back_def)
    next
      case (Some k)
      then obtain cp where cp: "new_cipher k (du_iv D) = Inr cp" "c' = Some cp"
        using 1(6) by (auto simp: optional_cipher_def split: sum.splits)
      have k: "truthy_j (jget opts ''encrypt'')" "k = tpl (jget opts ''encryptionKey'')" using dump_key_Inr [OF 1(1)] Some by simp_all
      from cp(1) 1(5) show ?thesis
      proof (rule pipeline_opened [of k D cp src ?z], goal_cases)
        case (1 st u)
        with \<open>dj_opts j = opts\<close> \<open>v = _\<close> \<open>file_on _ _ = _\<close> cp(2) k opn assms(3) show ?case
          by (simp add: read_back_def encryption_metadata_def cipher_metadata_def undoes_def oget_def tpl_def)
      qed
    qed
  qed
qed

lemma ciphertext:
  assumes "perform i c t opts s = (Inr v, s')" and "\<not> in_s3 opts" and "truthy_j (jget opts ''encrypt'')"
  shows "file_on (st_disk s') (segs (du_disk D) (path_join [dk_write kind (storage_option opts), tpl (jget v ''fileName'')])) =
    Some (gcm_xor (du_gcm D) (hex_bytes (tpl (jget opts ''encryptionKey''))) (du_iv D) 0 (packed D opts (dumped c opts s, None)))"
  using assms(1,2)
proof (rule stored, goal_cases)
  case (1 key c' j src receipt)
  then obtain k where k: "key = Some k" "k = tpl (jget opts ''encryptionKey'')"
    using dump_key_Inr [OF 1(1)] assms(3) by (cases key) auto
  with 1(6) obtain cp where cp: "new_cipher k (du_iv D) = Inr cp" "c' = Some cp" by (auto simp: optional_cipher_def split: sum.splits)
  from cp(1) 1(5) show ?case
    by (rule pipeline_opened [of k D cp src "truthy_j (jget opts ''compress'')"]) (use 1(4,8) k(2) cp(2) in \<open>simp add: packed_def\<close>)
qed

text \<open>The checksum is that of the dump before it was encrypted.\<close>

lemma checksum_in_clear:
  assumes "perform i c t opts s = (Inr v, s')" and "\<not> in_s3 opts"
  shows "jget v ''checksum'' = Some (JStr (du_sha D (packed D opts (dumped c opts s, None))))"
  using assms by (rule stored) (simp add: dump_checksum_def packed_def)

end

section \<open>The three services\<close>

definition pg_dumped :: "dump_env \<Rightarrow> json \<Rightarrow> json \<Rightarrow> 'z site_scheme \<Rightarrow> bytes list" where
  "pg_dumped D c opts s = dr_chunks (du_run D (calls (st_proc s) @ [spawn_of ''pg_dump'' (pg_dump_args D c opts) (pg_secret D c)]))"

definition mongo_dumped :: "dump_env \<Rightarrow> json \<Rightarrow> json \<Rightarrow> 'z site_scheme \<Rightarrow> bytes list" where
  "mongo_dumped D c opts s = dr_chunks (du_run D (calls (st_proc s) @ [spawn_of ''mongodump'' (mongo_dump_args D c opts) []]))"

definition sqlite_dumped :: "dump_env \<Rightarrow> json \<Rightarrow> json \<Rightarrow> 'z site_scheme \<Rightarrow> bytes list" where
  "sqlite_dumped D c opts s = (case fst (sqlite_db D (tpl (jget c ''database'')) (st_disk s)) of Inl e \<Rightarrow> []
     | Inr p \<Rightarrow> du_chunks D (nullish (file_on (st_disk s) (segs (du_disk D) p)) []))"

lemma start_dump_Inr: "start_dump D W cmd args env s = (Inr r, s') \<Longrightarrow> r = du_run D (calls (st_proc s) @ [spawn_of cmd args env])"
  by (auto simp: start_dump_def bnd_def on_proc_def ask_def gets_def)

lemma lift_res_Inr [simp]: "lift_res r s = (Inr x, s') \<longleftrightarrow> r = Inr x \<and> s' = s"
  by (auto simp: lift_res_def)

interpretation pg_service: streaming_service D W "pg_kind D" "pg_logical D W" "pg_dumped D" for D W
proof (unfold_locales, goal_cases)
  case (1 i c t opts s v s')
  then obtain key r s1 where "dump_key opts = Inr key" and "start_dump D W ''pg_dump'' (pg_dump_args D c opts) (pg_secret D c) s = (Inr r, s1)"
    and "stream_backup D W (pg_kind D) (pg_job D i c t opts) key (pg_source r) s1 = (Inr v, s')"
    by (auto simp: pg_logical_def bnd_Inr_iff)
  then show ?case
    by (intro exI [of _ key] exI [of _ "pg_job D i c t opts"] exI [of _ "pg_source r"] exI [of _ s1])
      (auto simp: pg_job_def pg_source_def pg_dumped_def dest: start_dump_Inr)
qed

interpretation mongo_service: streaming_service D W mongo_kind "mongo_performBackup D W" "mongo_dumped D" for D W
proof (unfold_locales, goal_cases)
  case (1 i c t opts s v s')
  then obtain key r s1 where "dump_key opts = Inr key" and "start_dump D W ''mongodump'' (mongo_dump_args D c opts) [] s = (Inr r, s1)"
    and "stream_backup D W mongo_kind (mongo_job D i c t opts) key (mongo_source r) s1 = (Inr v, s')"
    by (auto simp: mongo_performBackup_def bnd_Inr_iff)
  then show ?case
    by (intro exI [of _ key] exI [of _ "mongo_job D i c t opts"] exI [of _ "mongo_source r"] exI [of _ s1])
      (auto simp: mongo_job_def mongo_source_def mongo_dumped_def dest: start_dump_Inr)
qed

text \<open>A source that broke is never stored, on the disk or in S3.\<close>

lemma store_complete: "store_dump D W k st stm name s = (Inr x, s') \<Longrightarrow> snd stm = None"
  by (auto simp: store_dump_def to_s3_def Let_def bnd_Inr_iff throw_def s3_provider_def s3_uploadStream_def
    split: if_splits option.splits dest: to_disk_Inr)

lemma stream_backup_complete: "stream_backup D W k j key src s = (Inr v, s') \<Longrightarrow> snd src = None"
  by (auto simp: stream_backup_def bnd_Inr_iff Let_def try_catch_Inr dest!: store_complete)

lemma sqlite_db_keeps: "snd (sqlite_db D p s) = s"
  by (simp add: sqlite_db_def Let_def bnd_def existsSync_def gets_def ret_def throw_def)

lemma read_stream_Inr: "read_stream D p s = (Inr src, s') \<Longrightarrow> snd src = None \<Longrightarrow> \<exists>b. file_on s (segs (du_disk D) p) = Some b \<and> fst src = du_chunks D b"
  by (auto simp: read_stream_def try_catch_def bnd_def ret_def split: prod.splits sum.splits dest!: readFileSync_Inr)

interpretation sqlite_service: streaming_service D W sqlite_kind "sqlite_performBackup D W" "sqlite_dumped D" for D W
proof (unfold_locales, goal_cases)
  case (1 i c t opts s v s')
  then obtain p key src s1 s2 where p: "on_disk (sqlite_db D (tpl (jget c ''database''))) s = (Inr p, s1)" and key: "dump_key opts = Inr key"
    and r: "on_disk (read_stream D p) s1 = (Inr src, s2)" and run: "stream_backup D W sqlite_kind (sqlite_job D i p t opts) key src s2 = (Inr v, s')"
    by (auto simp: sqlite_performBackup_def bnd_Inr_iff)
  from p have db: "sqlite_db D (tpl (jget c ''database'')) (st_disk s) = (Inr p, st_disk s1)" by (auto elim: on_diskE)
  then have same: "st_disk s1 = st_disk s" using sqlite_db_keeps by (metis snd_conv)
  from r same have "read_stream D p (st_disk s) = (Inr src, st_disk s2)" by (auto elim: on_diskE)
  from read_stream_Inr [OF this stream_backup_complete [OF run]] have "fst src = sqlite_dumped D c opts s"
    by (auto simp: sqlite_dumped_def db)
  with key run show ?case
    by (intro exI [of _ key] exI [of _ "sqlite_job D i p t opts"] exI [of _ src] exI [of _ s2]) (simp add: sqlite_job_def)
qed

section \<open>What is stored can be read back\<close>

definition services :: "dump_env \<Rightarrow> world \<Rightarrow> (dump_kind \<times> (string \<Rightarrow> json \<Rightarrow> string \<Rightarrow> json \<Rightarrow> ('z site_scheme, json) prog) \<times>
    (json \<Rightarrow> json \<Rightarrow> 'z site_scheme \<Rightarrow> bytes list)) set" where
  "services D W = {(pg_kind D, pg_logical D W, pg_dumped D), (mongo_kind, mongo_performBackup D W, mongo_dumped D),
     (sqlite_kind, sqlite_performBackup D W, sqlite_dumped D)}"

lemma servicesE:
  assumes "(kind, backup, dumped) \<in> services D W"
  obtains "kind = pg_kind D" "backup = pg_logical D W" "dumped = pg_dumped D"
    | "kind = mongo_kind" "backup = mongo_performBackup D W" "dumped = mongo_dumped D"
    | "kind = sqlite_kind" "backup = sqlite_performBackup D W" "dumped = sqlite_dumped D"
  using assms by (auto simp: services_def)

text \<open>Where a service wrote the file of the backup it answers with.\<close>

definition written_to :: "dump_env \<Rightarrow> dump_kind \<Rightarrow> json \<Rightarrow> json \<Rightarrow> string list" where
  "written_to D k opts v = segs (du_disk D) (path_join [dk_write k (storage_option opts), tpl (jget v ''fileName'')])"

text \<open>C6: When one of the three services answers a backup request for local storage with a result, the file it
  wrote holds the dump: opened with the key of the request and the initialisation vector and the tag of
  the answer (when encryption was asked for), and decompressed (when compression was), it is what the dump tool
  or the database file gave, byte for byte.\<close>

theorem service_backup_roundtrip:
  assumes "(kind, backup, dumped) \<in> services D W" and "backup i c t opts s = (Inr v, s')" and "\<not> in_s3 opts" and "undoes D unb64 gunzip"
  shows "\<exists>b. file_on (st_disk s') (written_to D kind opts v) = Some b \<and> read_back D unb64 gunzip opts v b = Inr (concat (dumped c opts s))"
  using assms(1)
proof (cases rule: servicesE)
  case 1
  with assms(2-4) show ?thesis by (simp add: written_to_def pg_service.reads_back)
next
  case 2
  with assms(2-4) show ?thesis by (simp add: written_to_def mongo_service.reads_back)
next
  case 3
  with assms(2-4) show ?thesis by (simp add: written_to_def sqlite_service.reads_back)
qed

lemma service_checksum:
  assumes "(kind, backup, dumped) \<in> services D W" and "backup i c t opts s = (Inr v, s')" and "\<not> in_s3 opts"
  shows "jget v ''checksum'' = Some (JStr (du_sha D (packed D opts (dumped c opts s, None))))"
  using assms(1)
proof (cases rule: servicesE)
  case 1
  with assms(2,3) show ?thesis by (simp add: pg_service.checksum_in_clear)
next
  case 2
  with assms(2,3) show ?thesis by (simp add: mongo_service.checksum_in_clear)
next
  case 3
  with assms(2,3) show ?thesis by (simp add: sqlite_service.checksum_in_clear)
qed

section \<open>A service on a small disk\<close>

definition byte_text :: "bytes \<Rightarrow> string" where "byte_text b = CHR ''#'' # text_of b"
definition text_byte :: "string \<Rightarrow> bytes" where "text_byte t = ascii (tl t)"

lemma text_byte_text [simp]: "text_byte (byte_text b) = b"
  by (simp add: text_byte_def byte_text_def)

definition sample_dump :: dump_env where
  "sample_dump = \<lparr>du_disk = \<lparr>v_cwd = ''/w'', v_fail = (\<lambda>_. None), v_torn = (\<lambda>_. None)\<rparr>, du_host = docker_env, du_var = (\<lambda>_. None), du_gcm = toy_gcm,
     du_sha = byte_text, du_b64 = byte_text, du_gzip = (\<lambda>cs. [0x1F, 0x8B] # cs), du_chunks = (\<lambda>b. [b]), du_iv = [9], du_uuid = ''u'', du_now = ''now'',
     du_version = JNull, du_uptime = JNum 1, du_duration = JNum 1,
     du_run = (\<lambda>_. \<lparr>dr_chunks = [[1, 2]], dr_failed = None, dr_exit = 1, dr_late = True, dr_stderr = [''refused'']\<rparr>)\<rparr>"

definition sample_world :: world where "sample_world = (\<lambda>_ _. Inr JNull)"

definition sample_site :: site where
  "sample_site = \<lparr>st_disk = \<lparr>d_root = Dir [(''w'', Dir [(''a.db'', File [1, 2, 3])])], d_ops = 0\<rparr>, st_proc = \<lparr>calls = [], baseUrl = ''''\<rparr>\<rparr>"

definition sample_request :: json where
  "sample_request = JObj [(''compress'', JBool True), (''encrypt'', JBool True), (''encryptionKey'', JStr (replicate 64 CHR ''a''))]"

definition sample_answer :: "js_error + json" where
  "sample_answer = fst (sqlite_performBackup sample_dump sample_world ''i'' (JObj [(''database'', JStr ''a'')]) ''full'' sample_request sample_site)"

lemma sample_undoes: "undoes sample_dump text_byte (drop 2)"
  by (simp add: undoes_def sample_dump_def)

lemma sample_local: "\<not> in_s3 sample_request"
  by (simp add: in_s3_def storage_option_def sample_request_def or_j_def)

lemma sample_answered: "\<not> isl sample_answer"
  by code_simp

lemma sample_dumped: "sqlite_dumped sample_dump (JObj [(''database'', JStr ''a'')]) sample_request sample_site = [[1, 2, 3]]"
  by code_simp

lemma sample_run:
  obtains v s' where "sqlite_performBackup sample_dump sample_world ''i'' (JObj [(''database'', JStr ''a'')]) ''full'' sample_request sample_site = (Inr v, s')"
  using sample_answered unfolding sample_answer_def by (metis prod.collapse sum.collapse(2))

lemma sqlite_in_services: "(sqlite_kind, sqlite_performBackup D W, sqlite_dumped D) \<in> services D W"
  by (simp add: services_def)

theorem service_backup_roundtrip_witness:
  "\<exists>v s' b. sqlite_performBackup sample_dump sample_world ''i'' (JObj [(''database'', JStr ''a'')]) ''full'' sample_request sample_site = (Inr v, s') \<and>
     file_on (st_disk s') (written_to sample_dump sqlite_kind sample_request v) = Some b \<and>
     read_back sample_dump text_byte (drop 2) sample_request v b = Inr [1, 2, 3]"
proof -
  obtain v s' where run: "sqlite_performBackup sample_dump sample_world ''i'' (JObj [(''database'', JStr ''a'')]) ''full'' sample_request sample_site = (Inr v, s')"
    by (rule sample_run)
  from service_backup_roundtrip [OF sqlite_in_services run sample_local sample_undoes] run show ?thesis
    by (auto simp: sample_dumped)
qed

section \<open>The restore worker refuses what was encrypted\<close>

lemma xor_fixes: "(a :: 8 word) = xor a k \<Longrightarrow> k = 0"
proof -
  assume h: "a = xor a k"
  have "k = xor a (xor a k)" by (simp add: xor.assoc [symmetric])
  also have "\<dots> = 0" by (simp add: h [symmetric])
  finally show "k = 0" .
qed

lemma service_ciphertext:
  assumes "(kind, backup, dumped) \<in> services D W" and "backup i c t opts s = (Inr v, s')" and "\<not> in_s3 opts" and "truthy_j (jget opts ''encrypt'')"
  shows "file_on (st_disk s') (written_to D kind opts v) =
    Some (gcm_xor (du_gcm D) (hex_bytes (tpl (jget opts ''encryptionKey''))) (du_iv D) 0 (packed D opts (dumped c opts s, None)))"
  using assms(1)
proof (cases rule: servicesE)
  case 1
  with assms(2-4) show ?thesis by (simp add: written_to_def pg_service.ciphertext)
next
  case 2
  with assms(2-4) show ?thesis by (simp add: written_to_def mongo_service.ciphertext)
next
  case 3
  with assms(2-4) show ?thesis by (simp add: written_to_def sqlite_service.ciphertext)
qed


definition sample_restore :: restore_job where
  "sample_restore = \<lparr>rj_restoreId = ''r'', rj_backupId = Some ''i'', rj_filePath = None, rj_db = JNull, rj_options = JObj []\<rparr>"

lemma sample_encrypted: "truthy_j (jget sample_request ''encrypt'')"
    "packed sample_dump sample_request (sqlite_dumped sample_dump (JObj [(''database'', JStr ''a'')]) sample_request sample_site, None) \<noteq> []"
    "g_stream (du_gcm sample_dump) k iv 0 \<noteq> 0" "inj (du_sha sample_dump)" "du_sha sample_dump x \<noteq> ''''"
proof -
  show "inj (du_sha sample_dump)" by (rule inj_on_inverseI [where g = text_byte]) (simp add: sample_dump_def)
  show "packed sample_dump sample_request (sqlite_dumped sample_dump (JObj [(''database'', JStr ''a'')]) sample_request sample_site, None) \<noteq> []"
    unfolding sample_dumped by (simp add: packed_def sample_dump_def sample_request_def)
qed (simp_all add: sample_request_def sample_dump_def toy_gcm_def byte_text_def)


section \<open>A dump that failed\<close>

lemma to_disk_run:
  assumes "reliable (du_disk D)" and "dir \<noteq> []" and "plain_name name"
    and "rooms {segs (du_disk D) dir @ [name]} (st_disk s)"
  shows "\<exists>v s'. to_disk D dir (b, None) name s = (Inr v, s') \<and> file_on (st_disk s') (segs (du_disk D) dir @ [name]) = Some b"
proof -
  let ?E = "du_disk D" let ?q = "segs ?E dir @ [name]" let ?dest = "path_join [dir, name]"
  have dest: "segs ?E ?dest = ?q" using path_join_file(1) [OF assms(2), of "[name]"] assms(3) by simp
  have K: "places {?q}" by (simp add: places_def)
  obtain d1 where 1: "ensureDir ?E dir (st_disk s) = (Inr (), d1)" "rooms {?q} d1" "is_dir (node_at (d_root d1) (butlast ?q))"
    using ensure_parent_run [OF assms(1) K assms(4), of ?q dir] by auto
  obtain d2 where 2: "writeFileSync ?E ?dest b d1 = (Inr (), d2)" "file_on d2 ?q = Some b"
    using writeFileSync_run [OF assms(1) K 1(2), of ?dest b] 1(3) dest by auto
  have "statSync ?E ?dest d2 = (Inr (int (length b)), d2\<lparr>d_ops := Suc (d_ops d2)\<rparr>)"
    using assms(1) 2(2) dest by (intro statSync_run) simp_all
  with 1(1) 2 show ?thesis
    by (simp add: to_disk_def Let_def bnd_def on_disk_def pipe_to_def ret_def)
qed

text \<open>A \<open>pg_dump\<close> that ends with an error is answered as a successful backup when its \<open>close\<close> event comes after
  the end of its output has been passed on, as it does for an output of a few bytes or none: status 200 and
  \<open>success: true\<close>, with whatever had been written until then as the backup file. \<open>pgDumpError\<close> is not looked at again.\<close>

lemma failed_dump_reported_done:
  assumes "\<not> is_physical_request t opts" and "\<not> truthy_j (jget opts ''encrypt'')" and "\<not> in_s3 opts"
    and "r = du_run D (calls (st_proc s) @ [spawn_of ''pg_dump'' (pg_dump_args D c opts) (pg_secret D c)])"
    and "dr_exit r \<noteq> 0" and "dr_failed r = None" and "dr_late r"
    and "reliable (du_disk D)" and "dir = dk_write (pg_kind D) (storage_option opts)" and "dir \<noteq> []"
    and "name = dj_file (pg_job D i c t opts)" and "plain_name name"
    and "rooms {segs (du_disk D) dir @ [name]} (st_disk s)"
  shows "\<exists>v s'. pg_post_backup D I W c t opts s = (Inr \<lparr>rs_status = 200, rs_body = v\<rparr>, s') \<and> jget v ''success'' = Some (JBool True) \<and>
    file_on (st_disk s') (segs (du_disk D) dir @ [name]) = Some (packed D opts (dr_chunks r, None))"
proof -
  let ?i = "request_id D opts"
  let ?s = "s\<lparr>st_proc := (st_proc s)\<lparr>calls := calls (st_proc s) @ [spawn_of ''pg_dump'' (pg_dump_args D c opts) (pg_secret D c)]\<rparr>\<rparr>"
  let ?pl = "run_pipeline D (truthy_j (jget opts ''compress'')) None (dr_chunks r, None)"
  have pl: "pp_stream ?pl = (packed D opts (dr_chunks r, None), None)" by (subst pipeline_in_clear) (simp add: packed_def)
  have fields: "dj_file (pg_job D ?i c t opts) = name" "dj_opts (pg_job D ?i c t opts) = opts" by (simp_all add: pg_job_def assms(11))
  obtain receipt s' where run: "to_disk D dir (pp_stream ?pl) name ?s = (Inr receipt, s')"
    and at: "file_on (st_disk s') (segs (du_disk D) dir @ [name]) = Some (packed D opts (dr_chunks r, None))"
    using to_disk_run [OF assms(8,10,12), of ?s "packed D opts (dr_chunks r, None)"] assms(13) unfolding pl by auto
  have start: "start_dump D W ''pg_dump'' (pg_dump_args D c opts) (pg_secret D c) s = (Inr r, ?s)"
    by (simp add: start_dump_def bnd_def on_proc_def ask_def gets_def assms(4))
  have src: "pg_source r = (dr_chunks r, None)" using assms(6,7) by (simp add: pg_source_def)
  have "store_dump D W (pg_kind D) (storage_option opts) (pp_stream ?pl) name ?s = (Inr receipt, s')"
    using run assms(3,9) by (simp add: store_dump_def in_s3_def)
  then have "stream_backup D W (pg_kind D) (pg_job D ?i c t opts) None (dr_chunks r, None) ?s =
      (Inr (dump_result D (pg_kind D) (pg_job D ?i c t opts) ?pl receipt), s')"
    by (simp add: stream_backup_def optional_cipher_def fields Let_def try_catch_def bnd_def lift_res_def ret_def)
  moreover have "dump_key opts = Inr None" using assms(2) by (simp add: dump_key_def)
  ultimately have "pg_logical D W ?i c t opts s = (Inr (dump_result D (pg_kind D) (pg_job D ?i c t opts) ?pl receipt), s')"
    using start src by (simp add: pg_logical_def bnd_def lift_res_def)
  with assms(1) at show ?thesis
    by (simp add: pg_post_backup_def Let_def pg_performBackup_def handle_backup_def try_catch_def bnd_def answer_def respond_def ret_def)
qed

definition sample_pitr :: pitr_site where
  "sample_pitr = \<lparr>st_disk = \<lparr>d_root = Dir [], d_ops = 0\<rparr>, st_proc = \<lparr>calls = [], baseUrl = ''''\<rparr>,
     ps_keys = \<lparr>masterKey = None, keystore = None, files = (\<lambda>_. None), randoms = 0, writes = 0\<rparr>, ps_randoms = 0\<rparr>"

lemma sample_names: "plain_name ''a_now.dump''" "plain_name ''backups''" "plain_name ''app''"
  by (simp_all add: plain_name_def slash_def)

lemma sample_dir: "dk_write (pg_kind sample_dump) (storage_option (JObj [])) = abs_dir [''app'', ''backups'']"
  by code_simp

lemma sample_file: "dj_file (pg_job sample_dump i (JObj [(''database'', JStr ''a'')]) t (JObj [])) = ''a_now.dump''"
  by (simp add: pg_job_def) code_simp

lemma failed_dump_reported_done_witness:
  "\<forall>I. \<exists>v s'. pg_post_backup sample_dump I sample_world (JObj [(''database'', JStr ''a'')]) ''full'' (JObj []) sample_pitr =
       (Inr \<lparr>rs_status = 200, rs_body = v\<rparr>, s') \<and> jget v ''success'' = Some (JBool True) \<and>
     file_on (st_disk s') [''app'', ''backups'', ''a_now.dump''] = Some [1, 2]"
proof (rule allI)
  fix I
  let ?r = "\<lparr>dr_chunks = [[1, 2]], dr_failed = None, dr_exit = 1, dr_late = True, dr_stderr = [''refused'']\<rparr>"
  let ?c = "JObj [(''database'', JStr ''a'')]"
  have segs: "segs (du_disk sample_dump) (abs_dir [''app'', ''backups'']) = [''app'', ''backups'']"
    using abs_segs_abs_dir [of "[''app'', ''backups'']"] sample_names by simp
  have "\<exists>v s'. pg_post_backup sample_dump I sample_world ?c ''full'' (JObj []) sample_pitr = (Inr \<lparr>rs_status = 200, rs_body = v\<rparr>, s') \<and>
      jget v ''success'' = Some (JBool True) \<and>
      file_on (st_disk s') (segs (du_disk sample_dump) (abs_dir [''app'', ''backups'']) @ [''a_now.dump'']) = Some (packed sample_dump (JObj []) (dr_chunks ?r, None))"
  proof (rule failed_dump_reported_done)
    show "\<not> is_physical_request ''full'' (JObj [])" by (simp add: is_physical_request_def)
    show "?r = du_run sample_dump (calls (st_proc sample_pitr) @ [spawn_of ''pg_dump'' (pg_dump_args sample_dump ?c (JObj [])) (pg_secret sample_dump ?c)])"
      by (simp add: sample_dump_def)
    show "rooms {segs (du_disk sample_dump) (abs_dir [''app'', ''backups'']) @ [''a_now.dump'']} (st_disk sample_pitr)"
      by (simp add: segs rooms_def room_def sample_pitr_def)
    show "abs_dir [''app'', ''backups''] = dk_write (pg_kind sample_dump) (storage_option (JObj []))" by (simp only: sample_dir)
    show "''a_now.dump'' = dj_file (pg_job sample_dump (request_id sample_dump (JObj [])) ?c ''full'' (JObj []))" by (simp only: sample_file)
  qed (simp_all add: sample_names in_s3_def storage_option_def or_j_def reliable_def sample_dump_def abs_dir_def)
  then show "\<exists>v s'. pg_post_backup sample_dump I sample_world ?c ''full'' (JObj []) sample_pitr = (Inr \<lparr>rs_status = 200, rs_body = v\<rparr>, s') \<and>
      jget v ''success'' = Some (JBool True) \<and> file_on (st_disk s') [''app'', ''backups'', ''a_now.dump''] = Some [1, 2]"
    by (simp add: segs packed_def)
qed

section \<open>What a physical backup ignores\<close>

text \<open>A physical backup of PostgreSQL (an incremental one, or \<open>physical: true\<close>) is the same whether the request asks for
  encryption or not, with whatever key and storage: what is stored is not encrypted, in the local directory, and
  the answer does not say so.\<close>

lemma physical_backup_ignores_encryption:
  assumes "is_physical_request t opts"
  shows "pg_performBackup D I W i c t (jset (jset (jset opts ''encrypt'' e) ''encryptionKey'' k) ''storage'' st) = pg_performBackup D I W i c t opts"
  using assms by (simp add: pg_performBackup_def is_physical_request_def pg_physical_def physical_options_def text_column_def oget_def)

lemma physical_backup_ignores_encryption_witness:
  "\<forall>D I W i c. pg_performBackup D I W i c ''incremental'' (jset (jset (jset (JObj []) ''encrypt'' (JBool True)) ''encryptionKey''
     (JStr (replicate 64 CHR ''a''))) ''storage'' (JObj [(''type'', JStr ''s3'')])) = pg_performBackup D I W i c ''incremental'' (JObj [])"
  by (intro allI physical_backup_ignores_encryption) (simp add: is_physical_request_def)

section \<open>The restore of a SQLite file\<close>

lemma parent_of_file: "file_on s (ds @ [x]) = Some b \<Longrightarrow> is_dir (node_at (d_root s) ds)"
  by (auto simp: file_on_def dest!: file_at_SomeD simp: node_at_append split: option.splits node.splits) (metis is_dir.simps node.exhaust node_at_File not_Cons_self2 option.discI)

lemma remove_run:
  assumes "reliable E" and "rooms K s" and "segs E p \<in> K"
  shows "\<exists>s'. bnd (existsSync E p) (\<lambda>there. if there then unlinkSync E p else ret ()) s = (Inr (), s') \<and> rooms K s' \<and>
    (\<forall>q. file_on s' q = (if q = segs E p then None else file_on s q))"
proof (cases "node_at (d_root s) (segs E p)")
  case None
  then have "file_on s (segs E p) = None" by (simp add: file_on_def file_at_def)
  with None assms(2) show ?thesis by (auto simp: bnd_def existsSync_def gets_def ret_def)
next
  case (Some n)
  with assms(2,3) obtain b where "n = File b" by (cases n) (auto simp: rooms_def room_def)
  with Some have b: "file_on s (segs E p) = Some b" by (simp add: file_on_def file_at_def)
  from unlinkSync_run [OF assms(1,2) b assms(3)] existsSync_file [OF b] show ?thesis by (simp add: bnd_def)
qed


definition sample_two :: disk where
  "sample_two = \<lparr>d_root = Dir [(''w'', Dir [(''a.db'', File [1]), (''b.db'', File [7, 8])])], d_ops = 0\<rparr>"


section \<open>The path a service reports\<close>

lemma normal_relative: "plain_name f \<Longrightarrow> path_join [''./backups'', f] = ''backups/'' @ f"
proof -
  assume f: "plain_name f"
  have b: "split_on slash ''./backups'' = [''.'', ''backups'']" by (simp add: slash_def)
  have s: "split_on slash f = [f]" using f by (simp add: plain_name_def split_on_plain)
  define q where "q = ''./backups'' @ slash # f"
  have seg: "path_segments True q = [''backups'', f]"
    using f unfolding q_def path_segments_def split_on_sep b s by (auto simp: plain_name_def)
  have q: "q \<noteq> []" "last q \<noteq> slash" "\<not> is_absolute q" using f plain_last [OF f, of "''./backups/''"]
    by (auto simp: q_def is_absolute_def slash_def plain_name_def)
  have "path_join [''./backups'', f] = path_normalize q"
    using f by (simp add: path_join_def plain_name_def q_def)
  also have "\<dots> = ''backups'' @ slash # f"
    using q by (simp add: path_normalize_def Let_def seg)
  finally show ?thesis by (simp add: slash_def)
qed

text \<open>In a container, a PostgreSQL backup that names no storage is written below the backup directory of the container, but
  reported as \<open>backups/<file>\<close>; the restore worker maps that path to the backup directory itself and loses the
  name of the file, which is there.\<close>

lemma default_backup_not_found:
  assumes "pg_logical D W i c t opts s = (Inr v, s')" and "\<not> truthy_j (jget opts ''storage'')" and "is_container (du_host D)"
    and "base = or_s (BACKUP_PATH (du_host D)) ''/app/backups''" and "jget v ''fileName'' = Some (JStr name)"
    and "plain_name name" and "index_of name ''.db-backup'' = None"
    and "re_host R = du_host D" and "\<not> truthy_s (rj_filePath j)" and "text_column r ''filePath'' = text_column (Some v) ''filePath''"
  shows "first_path R j r = base \<and> file_on (st_disk s') (segs (du_disk D) (path_join [base, name])) \<noteq> None"
proof -
  have st: "storage_option opts = JObj [(''type'', JStr ''local''), (''basePath'', JStr ''./backups'')]"
    using assms(2) by (simp add: storage_option_def or_j_def)
  have local: "\<not> in_s3 opts" by (simp add: in_s3_def st)
  have base: "dk_write (pg_kind D) (storage_option opts) = base"
    using assms(3,4) by (simp add: pg_kind_def st resolveContainerStoragePath_def Let_def text_column_def oget_def starts_with_def)
  from pg_service.stored [OF assms(1) local] obtain key c' jb src receipt
    where j: "dj_opts jb = opts" and v: "v = dump_result D (pg_kind D) jb (run_pipeline D (truthy_j (jget opts ''compress'')) c' src) receipt"
      and at: "file_on (st_disk s') (segs (du_disk D) (path_join [dk_write (pg_kind D) (storage_option opts), tpl (jget v ''fileName'')])) \<noteq> None"
    by (metis option.distinct(1))
  have name: "dj_file jb = name" using assms(5) by (simp add: v)
  have "text_column r ''filePath'' = Some (''backups/'' @ name)"
    using assms(10) normal_relative [OF assms(6)]
    by (simp add: v dump_path_def j st name pg_kind_def text_column_def oget_def)
  then have "first_path R j r = resolveContainerStoragePath (du_host D) (Some (''backups/'' @ name))"
    using assms(8,9) by (cases "rj_filePath j") (simp_all add: first_path_def Let_def)
  also have "\<dots> = base"
    using assms(3,4,7) by (simp add: resolveContainerStoragePath_def Let_def starts_with_def)
  finally show ?thesis using at by (simp add: base assms(5) tpl_def)
qed

definition sample_pg :: "js_error + json" where
  "sample_pg = fst (pg_logical sample_dump sample_world ''i'' (JObj [(''database'', JStr ''a'')]) ''full'' (JObj []) sample_site)"

lemma sample_pg_named: "(case sample_pg of Inl e \<Rightarrow> None | Inr v \<Rightarrow> jget v ''fileName'') = Some (JStr ''a_now.dump'')"
  by code_simp

lemma default_backup_not_found_witness:
  "\<forall>R. \<exists>v s'. pg_logical sample_dump sample_world ''i'' (JObj [(''database'', JStr ''a'')]) ''full'' (JObj []) sample_site = (Inr v, s') \<and>
     first_path (R\<lparr>re_host := docker_env\<rparr>) sample_restore (Some v) = ''/app/backups'' \<and>
     file_on (st_disk s') (segs (du_disk sample_dump) (path_join [''/app/backups'', ''a_now.dump''])) \<noteq> None"
proof (rule allI)
  fix R :: restore_env
  let ?c = "JObj [(''database'', JStr ''a'')]"
  obtain v s' where run: "pg_logical sample_dump sample_world ''i'' ?c ''full'' (JObj []) sample_site = (Inr v, s')"
    and named: "jget v ''fileName'' = Some (JStr ''a_now.dump'')"
    using sample_pg_named unfolding sample_pg_def
    by (cases "fst (pg_logical sample_dump sample_world ''i'' ?c ''full'' (JObj []) sample_site)") (auto elim: run_obtain)
  have host: "is_container (du_host sample_dump)" "''/app/backups'' = or_s (BACKUP_PATH (du_host sample_dump)) ''/app/backups''"
    "re_host (R\<lparr>re_host := docker_env\<rparr>) = du_host sample_dump" by (simp_all add: sample_dump_def docker_env_def is_container_def)
  have idx: "index_of ''a_now.dump'' ''.db-backup'' = None" by code_simp
  have "\<not> truthy_s (rj_filePath sample_restore)" by (simp add: sample_restore_def)
  from default_backup_not_found [OF run _ host(1,2) named sample_names(1) idx host(3) this refl] run
  show "\<exists>v s'. pg_logical sample_dump sample_world ''i'' ?c ''full'' (JObj []) sample_site = (Inr v, s') \<and>
     first_path (R\<lparr>re_host := docker_env\<rparr>) sample_restore (Some v) = ''/app/backups'' \<and>
     file_on (st_disk s') (segs (du_disk sample_dump) (path_join [''/app/backups'', ''a_now.dump''])) \<noteq> None" by simp
qed

text \<open>Exit code 1 of \<open>pg_restore\<close>, which means that statements failed, is an answer with status 200.\<close>

lemma pg_restore_errors_ignored:
  assumes "is_custom_dump p" and "\<And>cs k. W cs k = Inr (JObj [(''code'', JNum 1), (''stderr'', JStr m)])"
  shows "\<exists>v s'. pg_post_restore D W c p opts s = (Inr \<lparr>rs_status = 200, rs_body = v\<rparr>, s') \<and> jget v ''success'' = Some (JBool True)"
  using assms by (simp add: pg_post_restore_def pg_performRestore_def handle_restore_def try_catch_def run_tool_def on_proc_def run_call_def
    ask_def bnd_def ret_def answer_def respond_def restore_answer_def)

end
