(* ===== verification/Validation.thy ===== *)
theory Validation
  imports MetadataService World
begin

text \<open>
  Request validation: \<open>middleware/validation.middleware.ts\<close>. A schema is the function that \<open>safeParse\<close> of the
  schema library makes of it: the issues found in a value, or the output for it (types with defaults and trimmed
  strings filled in). What a schema accepts is a hypothesis where it matters.
\<close>

section \<open>The request\<close>

record raw_request =
  vr_body :: "json option"
  vr_query :: json
  vr_params :: json
  vr_headers :: json

type_synonym schema = "json option \<Rightarrow> json + json"

record validation_target =
  vt_body :: "schema option"
  vt_query :: "schema option"
  vt_params :: "schema option"
  vt_headers :: "schema option"

section \<open>Issues\<close>

text \<open>An item of the path of an issue is written by its \<open>key\<close>, if it is an object with one.\<close>

definition path_item :: "json \<Rightarrow> string" where
  "path_item x = (case jget x ''key'' of Some k \<Rightarrow> js_String k | None \<Rightarrow> js_String x)"

definition issue_field :: "json \<Rightarrow> string" where
  "issue_field x = (case jget x ''path'' of Some (JArr (p # ps)) \<Rightarrow> join_with ''.'' (map path_item (p # ps)) | _ \<Rightarrow> ''root'')"

definition format_issue :: "json \<Rightarrow> json" where
  "format_issue x = jobj [(''field'', Some (JStr (issue_field x))), (''message'', jget x ''message''),
     (''expected'', jget x ''expected''), (''received'', jget x ''received'')]"

definition formatIssues :: "json \<Rightarrow> json list" where
  "formatIssues issues = (case issues of JArr xs \<Rightarrow> map format_issue xs
   | _ \<Rightarrow> [JObj [(''field'', JStr ''root''), (''message'', JStr ''Validation failed'')]])"

section \<open>The middleware\<close>

text \<open>One part of the request: the issues so far and, when there are none in it, the part replaced.\<close>

definition check_part :: "schema option \<Rightarrow> json option \<Rightarrow> (json \<Rightarrow> raw_request \<Rightarrow> raw_request) \<Rightarrow>
    json list \<times> raw_request \<Rightarrow> json list \<times> raw_request" where
  "check_part sch v put st = (case sch of None \<Rightarrow> st
   | Some parse \<Rightarrow> (case parse v of Inl issues \<Rightarrow> (fst st @ formatIssues issues, snd st) | Inr out \<Rightarrow> (fst st, put out (snd st))))"

definition check_request :: "validation_target \<Rightarrow> raw_request \<Rightarrow> json list \<times> raw_request" where
  "check_request T r =
     check_part (vt_headers T) (Some (vr_headers r)) (\<lambda>_ q. q)
    (check_part (vt_params T) (Some (vr_params r)) (\<lambda>out q. q\<lparr>vr_params := jspread (vr_params q) out\<rparr>)
    (check_part (vt_query T) (Some (vr_query r)) (\<lambda>out q. q\<lparr>vr_query := jspread (vr_query q) out\<rparr>)
    (check_part (vt_body T) (vr_body r) (\<lambda>out q. q\<lparr>vr_body := Some out\<rparr>) ([], r))))"

definition validation_failed :: "json list \<Rightarrow> response" where
  "validation_failed issues = \<lparr>rs_status = 400, rs_body = JObj [(''success'', JBool False), (''error'', JStr ''Validation Error''),
     (''message'', JStr (''Validation failed: '' @
        join_with ''; '' (map (\<lambda>i. tpl (jget i ''field'') @ '': '' @ tpl (jget i ''message'')) issues))),
     (''issues'', JArr issues)]\<rparr>"

text \<open>\<open>next()\<close> is the handler on the request as it is then.\<close>

definition validateRequest :: "validation_target \<Rightarrow> (raw_request \<Rightarrow> ('s, response) prog) \<Rightarrow> raw_request \<Rightarrow> ('s, response) prog" where
  "validateRequest T handler r = (case check_request T r of (issues, q) \<Rightarrow>
     if issues \<noteq> [] then ret (validation_failed issues) else handler q)"

definition no_target :: validation_target where
  "no_target = \<lparr>vt_body = None, vt_query = None, vt_params = None, vt_headers = None\<rparr>"

definition validateBody :: "schema \<Rightarrow> (raw_request \<Rightarrow> ('s, response) prog) \<Rightarrow> raw_request \<Rightarrow> ('s, response) prog" where
  "validateBody sch = validateRequest (no_target\<lparr>vt_body := Some sch\<rparr>)"

definition validateQuery :: "schema \<Rightarrow> (raw_request \<Rightarrow> ('s, response) prog) \<Rightarrow> raw_request \<Rightarrow> ('s, response) prog" where
  "validateQuery sch = validateRequest (no_target\<lparr>vt_query := Some sch\<rparr>)"

definition validateParams :: "schema \<Rightarrow> (raw_request \<Rightarrow> ('s, response) prog) \<Rightarrow> raw_request \<Rightarrow> ('s, response) prog" where
  "validateParams sch = validateRequest (no_target\<lparr>vt_params := Some sch\<rparr>)"

text \<open>What axios makes of a response: a status that is not 2xx is an error.\<close>

definition axios_reply :: "response \<Rightarrow> failure + json" where
  "axios_reply r = (if 200 \<le> rs_status r \<and> rs_status r < 300 then Inr (rs_body r)
     else Inl \<lparr>f_code = (if rs_status r < 500 then ''ERR_BAD_REQUEST'' else ''ERR_BAD_RESPONSE''),
       f_message = ''Request failed with status code '' @ str_int (rs_status r), f_axios = True, f_response = Some (rs_status r, rs_body r)\<rparr>)"

section \<open>The gate\<close>

definition accepts :: "schema option \<Rightarrow> json option \<Rightarrow> bool" where
  "accepts sch v = (case sch of None \<Rightarrow> True | Some parse \<Rightarrow> \<not> isl (parse v))"

definition all_accept :: "validation_target \<Rightarrow> raw_request \<Rightarrow> bool" where
  "all_accept T r \<longleftrightarrow> accepts (vt_body T) (vr_body r) \<and> accepts (vt_query T) (Some (vr_query r)) \<and>
     accepts (vt_params T) (Some (vr_params r)) \<and> accepts (vt_headers T) (Some (vr_headers r))"

text \<open>A schema that refuses a value reports an issue.\<close>

definition reports :: "schema option \<Rightarrow> bool" where
  "reports sch \<longleftrightarrow> (case sch of None \<Rightarrow> True | Some parse \<Rightarrow> (\<forall>v. parse v \<noteq> Inl (JArr [])))"

lemma formatIssues_eq_Nil [simp]: "formatIssues issues = [] \<longleftrightarrow> issues = JArr []"
  by (cases issues) (simp_all add: formatIssues_def)

lemma check_part_issues: "reports sch \<Longrightarrow> fst (check_part sch v put st) = [] \<longleftrightarrow> fst st = [] \<and> accepts sch v"
  by (auto simp: check_part_def reports_def accepts_def formatIssues_eq_Nil split: option.split sum.split)

lemma check_request_issues:
  assumes "reports (vt_body T)" and "reports (vt_query T)" and "reports (vt_params T)" and "reports (vt_headers T)"
  shows "fst (check_request T r) = [] \<longleftrightarrow> all_accept T r"
  unfolding check_request_def using assms by (auto simp: check_part_issues all_accept_def)

lemma validateBody_refuses:
  assumes "sch (vr_body r) = Inl issues" and "issues \<noteq> JArr []"
  shows "validateBody sch handler r s = (Inr (validation_failed (formatIssues issues)), s)"
  using assms by (simp add: validateBody_def validateRequest_def check_request_def check_part_def no_target_def ret_def)

lemma validateBody_passes:
  assumes "sch (vr_body r) = Inr out"
  shows "validateBody sch handler r = handler (r\<lparr>vr_body := Some out\<rparr>)"
  using assms by (simp add: validateBody_def validateRequest_def check_request_def check_part_def no_target_def)

lemma axios_reply_failed [simp]: "isl (axios_reply (validation_failed issues))"
  by (simp add: axios_reply_def validation_failed_def)

end
