(* ===== verification/MysqlService.thy ===== *)
theory MysqlService
  imports MysqlRestore Validation
begin

text \<open>
  The MySQL service around the manager: \<open>microservices/database-services/mysql/routes.ts\<close>, the health route and the
  shutdown of \<open>mysql/service.ts\<close>, and \<open>getInstance\<close> of \<open>mysql/manager.ts\<close>.

  A backup directory has the state of a manager on it (\<open>mgr\<close>): the files, and the fields of the shared
  instance. A route that makes a manager of its own works on the same files with fields of its own. Bodies have
  passed their schemas; the time limit of the instance is part of \<open>db_env\<close>. Entries of the catalogue were
  written by the manager, so a full backup has the property \<open>parentBackupId\<close> with the value \<open>null\<close>.
\<close>

section \<open>State\<close>

record mysql_env =
  me_mgr :: mgr_env
  me_db :: db_env
  me_cwd :: string
  me_uuid :: string
  me_now :: int
  me_iso :: "int \<Rightarrow> string"
  me_date :: "string \<Rightarrow> int option"
  me_days :: "int \<Rightarrow> json"
  me_version :: json
  me_uptime :: json

record mysql_svc =
  ms_instance :: "string option"
  ms_dirs :: "string \<Rightarrow> mgr"
  ms_down :: bool

definition mysql_dir :: "mysql_env \<Rightarrow> string option \<Rightarrow> string" where
  "mysql_dir M baseDir = or_s baseDir (path_join [me_cwd M, ''backups'', ''mysql''])"

definition env_at :: "mysql_env \<Rightarrow> string \<Rightarrow> mgr_env" where
  "env_at M d = (me_mgr M)\<lparr>e_dir := d\<rparr>"

definition on_dir :: "string \<Rightarrow> (mgr, 'a) prog \<Rightarrow> (mysql_svc, 'a) prog" where
  "on_dir d m = (\<lambda>s. case m (ms_dirs s d) of (r, g) \<Rightarrow> (r, s\<lparr>ms_dirs := (ms_dirs s)(d := g)\<rparr>))"

text \<open>\<open>getInstance(baseDir)\<close>: the first call chooses the directory.\<close>

definition getInstance :: "mysql_env \<Rightarrow> string option \<Rightarrow> (mysql_svc, string) prog" where
  "getInstance M baseDir = bnd (gets ms_instance) (\<lambda>i. case i of
     Some d \<Rightarrow> ret d
   | None \<Rightarrow> seqp (modify_st (\<lambda>s. s\<lparr>ms_instance := Some (mysql_dir M baseDir)\<rparr>)) (ret (mysql_dir M baseDir)))"

text \<open>\<open>new MySQLIncrementalBackupManager(baseDir)\<close>: fields of its own on the same files.\<close>

definition new_manager :: "mgr \<Rightarrow> mgr" where
  "new_manager g = g\<lparr>m_flock := new_flock, m_isRestoring := False, m_conn := None, m_connPromise := None, m_procs := []\<rparr>"

definition with_manager :: "mysql_env \<Rightarrow> string option \<Rightarrow> (string \<Rightarrow> (mgr, 'a) prog) \<Rightarrow> (mysql_svc, 'a) prog" where
  "with_manager M baseDir m = (let d = mysql_dir M baseDir in on_dir d (\<lambda>g. case m d (new_manager g) of (r, g') \<Rightarrow>
     (r, g'\<lparr>m_flock := m_flock g, m_isRestoring := m_isRestoring g, m_conn := m_conn g, m_connPromise := m_connPromise g, m_procs := m_procs g\<rparr>)))"

section \<open>Results as JSON\<close>

definition opt_s :: "string option \<Rightarrow> json option" where "opt_s x = map_option JStr x"

definition meta_json :: "mysql_env \<Rightarrow> backup_meta \<Rightarrow> json" where
  "meta_json M m = jobj [(''id'', Some (JStr (meta_id m))), (''type'', Some (JStr (if meta_type m = Full then ''full'' else ''incremental''))),
     (''database'', Some (JStr (database m))), (''baseBackupId'', opt_s (baseBackupId m)),
     (''parentBackupId'', Some (or_null (opt_s (parentBackupId m)))), (''backupLevel'', map_option JNum (backupLevel m)),
     (''fullBackupId'', opt_s (fullBackupId m)), (''startBinlogFile'', Some (JStr (startBinlogFile m))),
     (''startBinlogPosition'', Some (JNum (startBinlogPosition m))), (''endBinlogFile'', opt_s (endBinlogFile m)),
     (''endBinlogPosition'', map_option JNum (endBinlogPosition m)), (''binlogFiles'', map_option (\<lambda>fs. JArr (map JStr fs)) (binlogFiles m)),
     (''timestamp'', Some (JStr (me_iso M (timestamp m)))), (''file'', Some (JStr (file_name m))), (''size'', Some (JNum (meta_size m))),
     (''checksum'', opt_s (checksum m)), (''encrypted'', Some (JBool (encrypted m))), (''status'', map_option (\<lambda>x. JStr (status_str x)) (status m))]"

definition chain_json :: "mysql_env \<Rightarrow> backup_chain \<Rightarrow> json" where
  "chain_json M c = JObj [(''fullBackup'', meta_json M (fullBackup c)), (''increments'', JArr (map (meta_json M) (increments c)))]"

definition sealed_json :: "string \<times> string option \<times> string \<times> int \<Rightarrow> json" where
  "sealed_json x = (case x of (iv, tag, alg, ver) \<Rightarrow> JObj [(''iv'', JStr iv), (''tag'', or_null (opt_s tag)),
     (''algorithm'', JStr alg), (''version'', JNum ver)])"

text \<open>\<open>{ success: true, backupId, ...result }\<close>: the identifier is that of the result.\<close>

definition backup_answer :: "mysql_env \<Rightarrow> backup_result \<Rightarrow> json" where
  "backup_answer M r = (let m = res_metadata r; inc = (meta_type m = Incremental) in
     jobj ([(''success'', Some (JBool True)), (''backupId'', Some (JStr (res_backupId r))), (''file'', Some (JStr (res_file r)))] @
       (if inc then [(''startBinlogFile'', Some (JStr (startBinlogFile m))), (''startBinlogPosition'', Some (JNum (startBinlogPosition m)))] else []) @
       [(''binlogFile'', Some (JStr (startBinlogFile m))), (''binlogPosition'', Some (JNum (startBinlogPosition m))),
        (''endBinlogFile'', opt_s (endBinlogFile m)), (''endBinlogPosition'', map_option JNum (endBinlogPosition m)),
        (''baseBackupId'', opt_s (baseBackupId m)), (''parentBackupId'', Some (or_null (opt_s (parentBackupId m)))),
        (''backupLevel'', map_option JNum (backupLevel m)), (''size'', Some (JNum (meta_size m))), (''metadata'', Some (meta_json M m)),
        (''checksum'', Some (JStr (res_checksum r))), (''encryptionMetadata'', if inc then None else map_option sealed_json (res_encryption r))]))"

section \<open>POST /backup\<close>

record mysql_backup_req =
  mb_cfg :: db_config
  mb_type :: string
  mb_opts :: backup_options
  mb_parent :: "string option"
  mb_dir :: "string option"

definition mysql_failed :: "string option \<Rightarrow> js_error \<Rightarrow> ('s, response) prog" where
  "mysql_failed i e = respond 500 (jobj [(''success'', Some (JBool False)), (''backupId'', opt_s i), (''error'', Some (JStr (err_message e)))])"

definition check_privileges :: "db_env \<Rightarrow> db_config \<Rightarrow> (mgr, unit) prog" where
  "check_privileges D cfg = bnd (validatePrivileges D cfg) (\<lambda>(valid, missing). if valid then ret ()
     else throw (new_Error (''Missing required MySQL privileges: '' @ join_with '', '' missing)))"

definition check_binlog :: "db_env \<Rightarrow> db_config \<Rightarrow> (mgr, unit) prog" where
  "check_binlog D cfg = bnd (checkBinlogStatus D cfg) (\<lambda>st. if bs_enabled st then ret ()
     else throw (new_Error (''Binlog is not enabled. '' @ or_s (bs_error st) ''Please enable log_bin in MySQL config.'')))"

definition default_parent :: "mgr_env \<Rightarrow> (mgr, string) prog" where
  "default_parent E = bnd (listBackupChains E) (\<lambda>chains.
     if chains = [] then throw (new_Error ''No full backup found. Please create a full backup first.'')
     else let latest = last chains in
       ret (meta_id (if increments latest \<noteq> [] then last (increments latest) else fullBackup latest)))"

definition choose_parent :: "mgr_env \<Rightarrow> string option \<Rightarrow> (mgr, string) prog" where
  "choose_parent E requested = (if truthy_s requested then ret (the requested) else default_parent E)"

definition take_backup :: "mgr_env \<Rightarrow> db_env \<Rightarrow> mysql_backup_req \<Rightarrow> (mgr, backup_result) prog" where
  "take_backup E D q =
     (if mb_type q = ''full'' \<or> mb_type q = ''full-backup'' then createFullBackup E D (mb_cfg q) (mb_opts q)
      else if mb_type q = ''incremental''
      then bnd (choose_parent E (mb_parent q)) (\<lambda>parentId. createIncrementalBackup E D (mb_cfg q) parentId (mb_opts q))
      else throw (new_Error (''Unsupported backup type: '' @ mb_type q)))"

definition mysql_run_backup :: "mgr_env \<Rightarrow> db_env \<Rightarrow> mysql_backup_req \<Rightarrow> (mgr, backup_result) prog" where
  "mysql_run_backup E D q =
     seqp (check_privileges D (mb_cfg q))
    (seqp (when_p (mb_type q = ''incremental'') (check_binlog D (mb_cfg q)))
       (take_backup E D q))"

definition mysql_post_backup :: "mysql_env \<Rightarrow> mysql_backup_req \<Rightarrow> (mysql_svc, response) prog" where
  "mysql_post_backup M q = try_catch
     (bnd (getInstance M (mb_dir q)) (\<lambda>d.
      bnd (on_dir d (mysql_run_backup (env_at M d) (me_db M) q)) (\<lambda>r. answer (backup_answer M r))))
     (mysql_failed (Some (or_s (o_backupId (mb_opts q)) (me_uuid M))))"

section \<open>The other routes\<close>

definition mysql_get_backups :: "mysql_env \<Rightarrow> string option \<Rightarrow> (mysql_svc, response) prog" where
  "mysql_get_backups M backupDir = try_catch
     (bnd (with_manager M backupDir (\<lambda>d. listBackupChains (env_at M d))) (\<lambda>chains.
      answer (JObj [(''success'', JBool True), (''chains'', JArr (map (chain_json M) chains)), (''total'', JNum (int (length chains)))])))
     (mysql_failed None)"

record mysql_restore_req =
  mr_cfg :: db_config
  mr_backupId :: string
  mr_targetTime :: "string option"
  mr_dir :: "string option"

text \<open>An invalid date restricts nothing, and its \<open>toISOString\<close> throws when the restore is over.\<close>

definition target_text :: "mysql_env \<Rightarrow> string option \<Rightarrow> js_error + string" where
  "target_text M t = (if \<not> truthy_s t then Inr ''latest''
     else case me_date M (the t) of None \<Rightarrow> Inl (new_Error ''Invalid time value'') | Some d \<Rightarrow> Inr (me_iso M d))"

definition mysql_run_restore :: "mysql_env \<Rightarrow> mgr_env \<Rightarrow> mysql_restore_req \<Rightarrow> (mgr, unit) prog" where
  "mysql_run_restore M E q = bnd (getBackupChain E (mr_backupId q)) (\<lambda>chain.
     if chain = None then throw (chain_not_found (mr_backupId q))
     else restoreToPointInTime E (me_db M) (mr_cfg q) (mr_backupId q)
       (if truthy_s (mr_targetTime q) then me_date M (the (mr_targetTime q)) else None))"

definition mysql_post_restore :: "mysql_env \<Rightarrow> mysql_restore_req \<Rightarrow> (mysql_svc, response) prog" where
  "mysql_post_restore M q = try_catch
     (bnd (getInstance M (mr_dir q)) (\<lambda>d.
      seqp (on_dir d (mysql_run_restore M (env_at M d) q))
     (bnd (lift_res (target_text M (mr_targetTime q))) (\<lambda>t.
      answer (JObj [(''success'', JBool True), (''backupId'', JStr (mr_backupId q)), (''targetTime'', JStr t),
        (''message'', JStr ''Restore completed successfully'')])))))
     (mysql_failed (Some (mr_backupId q)))"

text \<open>The body of \<open>POST /restore\<close> behind \<open>validateBody(MySQLRestoreSchema)\<close>, of which \<open>accept\<close> is the parser.\<close>

definition bool_column :: "json option \<Rightarrow> string \<Rightarrow> bool option" where
  "bool_column r k = (case oget r k of Some (JBool b) \<Rightarrow> Some b | _ \<Rightarrow> None)"

definition num_column :: "json option \<Rightarrow> string \<Rightarrow> int option" where
  "num_column r k = (case oget r k of Some (JNum n) \<Rightarrow> Some n | _ \<Rightarrow> None)"

definition db_config_of :: "json option \<Rightarrow> db_config" where
  "db_config_of c = \<lparr>host = text_column c ''host'', port = num_column c ''port'', username = text_column c ''username'',
     password = text_column c ''password'', cfg_database = or_s (text_column c ''database'') '''', ssl = bool_column c ''ssl'',
     connectionString = text_column c ''connectionString''\<rparr>"

definition restore_req_of :: "json option \<Rightarrow> mysql_restore_req" where
  "restore_req_of b = \<lparr>mr_cfg = db_config_of (oget b ''dbConfig''), mr_backupId = or_s (text_column b ''backupId'') '''',
     mr_targetTime = text_column b ''targetTime'', mr_dir = text_column (oget b ''options'') ''backupDir''\<rparr>"

definition mysql_restore_api :: "mysql_env \<Rightarrow> schema \<Rightarrow> raw_request \<Rightarrow> (mysql_svc, response) prog" where
  "mysql_restore_api M accept = validateBody accept (\<lambda>q. mysql_post_restore M (restore_req_of (vr_body q)))"

definition mysql_check_binlog :: "mysql_env \<Rightarrow> db_config \<Rightarrow> (mysql_svc, response) prog" where
  "mysql_check_binlog M cfg = try_catch
     (bnd (with_manager M None (\<lambda>_. checkBinlogStatus (me_db M) cfg)) (\<lambda>st.
      answer (jobj [(''success'', Some (JBool True)), (''enabled'', Some (JBool (bs_enabled st))), (''format'', Some (JStr (bs_format st))),
        (''retention'', map_option (me_days M) (bs_retention st)), (''error'', opt_s (bs_error st))])))
     (mysql_failed None)"

definition mysql_cleanup :: "mysql_env \<Rightarrow> int option \<Rightarrow> string option \<Rightarrow> (mysql_svc, response) prog" where
  "mysql_cleanup M retentionDays backupDir = (let n = or_n retentionDays 7 in try_catch
     (seqp (with_manager M backupDir (\<lambda>d. cleanup (env_at M d) (me_now M) n))
       (answer (JObj [(''success'', JBool True), (''retentionDays'', JNum n), (''message'', JStr ''Cleanup completed successfully'')])))
     (mysql_failed None))"

definition mysql_health :: "mysql_env \<Rightarrow> (mysql_svc, response) prog" where
  "mysql_health M = answer (JObj [(''service'', JStr ''mysql-backup-service''), (''status'', JStr ''healthy''), (''version'', me_version M),
     (''uptime'', me_uptime M), (''timestamp'', JStr (me_iso M (me_now M)))])"

text \<open>\<open>shutdown\<close> of the process: once, and whatever the manager throws.\<close>

definition mysql_shutdown :: "mysql_env \<Rightarrow> (mysql_svc, unit) prog" where
  "mysql_shutdown M = bnd (gets ms_down) (\<lambda>down. if down then ret ()
     else seqp (modify_st (\<lambda>s. s\<lparr>ms_down := True\<rparr>))
       (try_catch (bnd (getInstance M None) (\<lambda>d. on_dir d (shutdown (env_at M d) (me_db M)))) (\<lambda>_. ret ())))"

end
