(* ===== verification/MysqlServiceCorrect.thy ===== *)
theory MysqlServiceCorrect
  imports MysqlService MysqlBackupCorrect RestoreCorrect
begin

text \<open>
  Correctness of the routes of the MySQL service, over the theorems of the manager: what an answered backup
  leaves in the catalogue, which parent an incremental gets when the request names none, and what becomes of a
  restore that the restore worker asks for.
\<close>

section \<open>Runs of the routes\<close>

lemma seqp_Inr: "seqp m n s = (Inr y, s') \<longleftrightarrow> (\<exists>x t. m s = (Inr x, t) \<and> n t = (Inr y, s'))"
  by (rule bnd_Inr_iff)

lemma mysql_failed_status: "mysql_failed i e s = (Inr v, s') \<Longrightarrow> rs_status v = 500"
  by (auto simp: mysql_failed_def respond_def ret_def)

lemma getInstance_run: "\<exists>d. getInstance M b s = (Inr d, s\<lparr>ms_instance := Some d\<rparr>) \<and>
    d = (case ms_instance s of None \<Rightarrow> mysql_dir M b | Some d \<Rightarrow> d)"
  by (cases "ms_instance s") (simp_all add: getInstance_def bnd_def gets_def ret_def modify_st_def)

lemma on_dir_Inr: "on_dir d m s = (Inr x, s') \<Longrightarrow> \<exists>g. m (ms_dirs s d) = (Inr x, g) \<and> s' = s\<lparr>ms_dirs := (ms_dirs s)(d := g)\<rparr>"
  by (auto simp: on_dir_def split: prod.splits)

text \<open>A successful answer of \<open>POST /backup\<close> comes from a run of the manager on one directory.\<close>

lemma post_backup_Inr:
  assumes "mysql_post_backup M q s = (Inr \<lparr>rs_status = 200, rs_body = v\<rparr>, s')"
  obtains d r g where "d = (case ms_instance s of None \<Rightarrow> mysql_dir M (mb_dir q) | Some d \<Rightarrow> d)" and "ms_instance s' = Some d"
    and "mysql_run_backup (env_at M d) (me_db M) q (ms_dirs s d) = (Inr r, g)" and "ms_dirs s' d = g" and "v = backup_answer M r"
proof -
  let ?d = "case ms_instance s of None \<Rightarrow> mysql_dir M (mb_dir q) | Some d \<Rightarrow> d"
  have "(bnd (getInstance M (mb_dir q)) (\<lambda>d. bnd (on_dir d (mysql_run_backup (env_at M d) (me_db M) q)) (\<lambda>r. answer (backup_answer M r)))) s =
      (Inr \<lparr>rs_status = 200, rs_body = v\<rparr>, s')"
    using assms mysql_failed_status by (fastforce simp: mysql_post_backup_def try_catch_def split: prod.splits sum.splits)
  then obtain r t where "on_dir ?d (mysql_run_backup (env_at M ?d) (me_db M) q) (s\<lparr>ms_instance := Some ?d\<rparr>) = (Inr r, t)"
    and "answer (backup_answer M r) t = (Inr \<lparr>rs_status = 200, rs_body = v\<rparr>, s')"
    using getInstance_run [of M "mb_dir q" s] by (auto simp: bnd_Inr_iff)
  then show thesis by (intro that [of ?d r]) (auto simp: answer_def respond_def ret_def dest!: on_dir_Inr)
qed

lemma same_iff: "same (m_meta s) (m_files s) t \<longleftrightarrow> m_meta t = m_meta s \<and> m_files t = m_files s"
  by (simp add: same_def)

text \<open>The checks before a backup leave the catalogue and the files as they are.\<close>

lemma stable_check_privileges: "stable (same M F) (check_privileges D cfg)"
  unfolding check_privileges_def by (auto intro!: stable same.st_privileges split: prod.split)

lemma stable_check_binlog: "stable (same M F) (check_binlog D cfg)"
  unfolding check_binlog_def by (auto intro!: stable same.st_check)

lemma run_backup_Inr:
  assumes "mysql_run_backup E D q g = (Inr r, g')"
  obtains g1 where "m_meta g1 = m_meta g" and "m_files g1 = m_files g" and "take_backup E D q g1 = (Inr r, g')"
proof -
  from assms obtain u a w b where 1: "check_privileges D (mb_cfg q) g = (Inr u, a)"
    and 2: "when_p (mb_type q = ''incremental'') (check_binlog D (mb_cfg q)) a = (Inr w, b)" and 3: "take_backup E D q b = (Inr r, g')"
    unfolding mysql_run_backup_def bnd_Inr_iff by blast
  have "same (m_meta g) (m_files g) b"
    using stableD [OF stable_when [OF stable_check_binlog] 2] stableD [OF stable_check_privileges 1] by (simp add: same_def)
  with 3 show thesis by (intro that) (simp_all add: same_def)
qed

lemma answer_fields [simp]: "jget (backup_answer M r) ''success'' = Some (JBool True)" "jget (backup_answer M r) ''backupId'' = Some (JStr (res_backupId r))"
    "jget (backup_answer M r) ''metadata'' = Some (meta_json M (res_metadata r))" "jget (backup_answer M r) ''filePath'' = None"
    "jget (backup_answer M r) ''fileName'' = None"
  by (simp_all add: backup_answer_def jobj_def Let_def split: option.split)

section \<open>A concrete service for the witnesses\<close>

definition sample_service :: mysql_env where
  "sample_service = \<lparr>me_mgr = sample_env, me_db = sample_db, me_cwd = ''/w'', me_uuid = ''u'', me_now = 40 * day_ms, me_iso = (\<lambda>_. ''2026''),
     me_date = (\<lambda>s. if s = ''2026'' then Some 0 else None), me_days = JNum, me_version = JStr ''1'', me_uptime = JNum 1\<rparr>"

definition sample_svc :: mysql_svc where
  "sample_svc = \<lparr>ms_instance = Some ''/d'', ms_dirs = (\<lambda>_. sample_mgr), ms_down = False\<rparr>"

definition sample_post :: "string \<Rightarrow> mysql_backup_req" where
  "sample_post t = \<lparr>mb_cfg = sample_cfg, mb_type = t, mb_opts = sample_opts, mb_parent = None, mb_dir = None\<rparr>"

lemma sample_service_fields [simp]: "env_at sample_service ''/d'' = sample_env" "me_db sample_service = sample_db"
    "ms_instance sample_svc = Some ''/d''" "ms_dirs sample_svc d = sample_mgr" "mb_cfg (sample_post t) = sample_cfg"
    "mb_type (sample_post t) = t" "mb_opts (sample_post t) = sample_opts" "mb_parent (sample_post t) = None"
  by (simp_all add: sample_service_def sample_svc_def sample_post_def env_at_def sample_env_def)

lemma post_backup_answers:
  assumes "mysql_run_backup (env_at M d) (me_db M) q (ms_dirs s d) = (Inr r, g)" and "ms_instance s = Some d"
  shows "\<exists>s'. mysql_post_backup M q s = (Inr \<lparr>rs_status = 200, rs_body = backup_answer M r\<rparr>, s')"
  using assms by (simp add: mysql_post_backup_def getInstance_def try_catch_def bnd_def gets_def ret_def on_dir_def answer_def respond_def)

lemma sample_full_answered: "\<exists>v s'. mysql_post_backup sample_service (sample_post ''full'') sample_svc = (Inr \<lparr>rs_status = 200, rs_body = v\<rparr>, s')"
proof -
  have "fst (check_privileges sample_db sample_cfg sample_mgr) = Inr ()" by code_simp
  then obtain s0 where priv: "check_privileges sample_db sample_cfg sample_mgr = (Inr (), s0)"
    and s0: "s0 = snd (check_privileges sample_db sample_cfg sample_mgr)" by (rule run_obtain)
  have 0: "backup_path sample_env (''b'' @ ''.sql.gz'') = ''/d/b.sql.gz''" by code_simp
  have "fst (new_backup_id sample_db ''full'' sample_opts s0) = Inr ''b''" unfolding s0 by code_simp
  then obtain s1 where 1: "new_backup_id sample_db ''full'' sample_opts s0 = (Inr ''b'', s1)"
    and s1: "s1 = snd (new_backup_id sample_db ''full'' sample_opts s0)" by (rule run_obtain)
  have "fst (getCurrentBinlogPosition sample_db sample_cfg s1) = Inr (''bin.3'', 7)" unfolding s1 s0 by code_simp
  then obtain s2 where 2: "getCurrentBinlogPosition sample_db sample_cfg s1 = (Inr (''bin.3'', 7), s2)"
    and s2: "s2 = snd (getCurrentBinlogPosition sample_db sample_cfg s1)" by (rule run_obtain)
  let ?spawn = "spawn ''mysqldump'' (mysqldump_args sample_db sample_cfg sample_opts) (password sample_cfg)"
  obtain p where "fst (?spawn s2) = Inr p" by (simp add: spawn_def next_tick_def prog_defs)
  then obtain s3 where 3: "?spawn s2 = (Inr p, s3)" and s3: "s3 = snd (?spawn s2)" by (rule run_obtain)
  have "fst (open_output ''/d/b.sql.gz'' s3) = Inr ()" by (simp add: open_output_def set_file_def prog_defs)
  then obtain s4 where 4: "open_output ''/d/b.sql.gz'' s3 = (Inr (), s4)"
    and s4: "s4 = snd (open_output ''/d/b.sql.gz'' s3)" by (rule run_obtain)
  let ?dump = "dump_to_file sample_db ''mysqldump'' True p ''/d/b.sql.gz''"
  have "fst (?dump s4) = Inr ()" unfolding s4 s3 s2 s1 s0 by code_simp
  then obtain s5 where 5: "?dump s4 = (Inr (), s5)" and s5: "s5 = snd (?dump s4)" by (rule run_obtain)
  have "\<not> isl (fst (finish_full sample_env sample_db sample_cfg sample_opts ''b'' (''bin.3'', 7) s5))"
    unfolding s5 s4 s3 s2 s1 s0 by code_simp
  then obtain r g where 6: "finish_full sample_env sample_db sample_cfg sample_opts ''b'' (''bin.3'', 7) s5 = (Inr r, g)"
    using not_isl_obtain by blast
  have "createFullBackup sample_env sample_db sample_cfg sample_opts s0 = (Inr r, g)"
    by (simp only: createFullBackup_def bnd_def 0 1 2 3 4 5 6 prod.case sum.case)
  then have "mysql_run_backup sample_env sample_db (sample_post ''full'') sample_mgr = (Inr r, g)"
    by (simp add: mysql_run_backup_def take_backup_def bnd_def when_p_def ret_def priv)
  then show ?thesis using post_backup_answers [of sample_service "''/d''" "sample_post ''full''" sample_svc r g] by fastforce
qed

section \<open>A backup that was answered can be restored\<close>



section \<open>The parent of an incremental backup\<close>

lemma stable_sameI: "(\<And>s r s'. m s = (r, s') \<Longrightarrow> m_meta s' = m_meta s \<and> m_files s' = m_files s) \<Longrightarrow> stable (same M F) m"
  unfolding stable_def same_def by (metis surjective_pairing)

lemma stable_acquire: "stable (same M F) (lock_acquire E)"
  by (rule stable_sameI) (rule lock_acquire_frame)

lemma stable_release: "stable (same M F) (lock_release E)"
  by (rule stable_sameI) (blast dest: lock_release_frame)

lemma stable_locked: "stable (same M F) m \<Longrightarrow> stable (same M F) (locked E m)"
  unfolding locked_def by (intro stable stable_acquire stable_release)

lemma stable_collect: "stable (same M F) (collect_chains E xs)"
proof (induction xs)
  case (Cons m ms)
  have "stable (same M F) (getBackupChain E (meta_id m))"
    by (rule stable_sameI) (blast dest: getBackupChain_run)
  with Cons show ?case by (auto intro!: stable)
qed (simp add: stable)

lemma stable_listBackupChains: "stable (same M F) (listBackupChains E)"
  unfolding listBackupChains_def by (intro stable_locked stable stable_collect same.st_list)

definition full_backups :: "meta_content \<Rightarrow> backup_meta list" where
  "full_backups c = filter (\<lambda>m. meta_type m = Full \<and> status m = Some Success) (entries_of c)"

lemma default_parent_Inr:
  assumes "default_parent E g = (Inr i, g')" and "distinct (map meta_id (entries_of (m_meta g)))"
    and "\<forall>m\<in>set (entries_of (m_meta g)). meta_type m = Full \<longrightarrow> \<not> truthy_s (parentBackupId m)"
  shows "full_backups (m_meta g) \<noteq> [] \<and> i = meta_id (last (full_backups (m_meta g))) \<and> m_meta g' = m_meta g \<and> m_files g' = m_files g"
proof -
  from assms(1) obtain cs g1 where list: "listBackupChains E g = (Inr cs, g1)"
    and rest: "(if cs = [] then throw (new_Error ''No full backup found. Please create a full backup first.'')
       else let latest = last cs in ret (meta_id (if increments latest \<noteq> [] then last (increments latest) else fullBackup latest))) g1 = (Inr i, g')"
    unfolding default_parent_def bnd_Inr_iff by blast
  have cs: "cs = map (\<lambda>m. \<lparr>fullBackup = m, increments = []\<rparr>) (full_backups (m_meta g))"
    unfolding full_backups_def by (rule listBackupChains_full [OF list assms(2,3)])
  have "same (m_meta g) (m_files g) g1" using stableD [OF stable_listBackupChains list] by (simp add: same_def)
  with rest cs show ?thesis
    by (auto simp: same_def throw_def ret_def Let_def last_map split: if_splits)
qed

text \<open>An incremental backup whose request names no parent hangs directly below the full backup that stands last in the
  catalogue, whichever database that is of, and never below an increment: the chains the route looks at have none.\<close>

lemma automatic_parent_is_full:
  assumes "mysql_post_backup M q s = (Inr \<lparr>rs_status = 200, rs_body = v\<rparr>, s')" and "mb_type q = ''incremental''" and "plain (mb_opts q)"
    and "\<not> truthy_s (mb_parent q)" and "ms_instance s = Some d" and "cat = m_meta (ms_dirs s d)"
    and "distinct (map meta_id (entries_of cat))" and "\<forall>m\<in>set (entries_of cat). meta_type m = Full \<longrightarrow> \<not> truthy_s (parentBackupId m)"
  shows "\<exists>i m. jget v ''backupId'' = Some (JStr i) \<and> find_meta (entries_of (m_meta (ms_dirs s' d))) i = Some m \<and>
    full_backups cat \<noteq> [] \<and> parentBackupId m = Some (meta_id (last (full_backups cat)))"
  using assms(1)
proof (rule post_backup_Inr, goal_cases)
  case (1 d' r g)
  then have d: "d' = d" by (simp add: assms(5))
  from 1(3) obtain g1 where cat: "m_meta g1 = cat" and t: "take_backup (env_at M d) (me_db M) q g1 = (Inr r, g)"
    unfolding d by (rule run_backup_Inr) (simp add: assms(6))
  from t obtain i g2 where p: "default_parent (env_at M d) g1 = (Inr i, g2)"
    and inc: "createIncrementalBackup (env_at M d) (me_db M) (mb_cfg q) i (mb_opts q) g2 = (Inr r, g)"
    using assms(2,4) by (auto simp: take_backup_def choose_parent_def bnd_Inr_iff)
  from default_parent_Inr [OF p] cat assms(7,8)
  have par: "full_backups cat \<noteq> []" "i = meta_id (last (full_backups cat))" by simp_all
  from createIncrementalBackup_stored [OF inc assms(3)] have "parentBackupId (res_metadata r) = Some i"
    and "meta_id (res_metadata r) = res_backupId r" and "entries_of (m_meta g) = put_meta (res_metadata r) (entries_of (m_meta g2))"
    by (auto simp: inc_metadata_def)
  then show ?case using 1(4,5) par d by (auto simp: find_put_meta)
qed

definition full_pl :: inc_plan where
  "full_pl = \<lparr>pl_base = ''f'', pl_level = 1, pl_startFile = ''bin.1'', pl_startPos = 100,
     pl_endFile = ''bin.3'', pl_endPos = 7, pl_files = [''bin.1'', ''bin.2'', ''bin.3'']\<rparr>"

lemma sample_incremental_answered:
  "\<exists>v s'. mysql_post_backup sample_service (sample_post ''incremental'') sample_svc = (Inr \<lparr>rs_status = 200, rs_body = v\<rparr>, s')"
proof -
  have "fst (check_privileges sample_db sample_cfg sample_mgr) = Inr ()" by code_simp
  then obtain a where priv: "check_privileges sample_db sample_cfg sample_mgr = (Inr (), a)"
    and a: "a = snd (check_privileges sample_db sample_cfg sample_mgr)" by (rule run_obtain)
  have "fst (check_binlog sample_db sample_cfg a) = Inr ()" unfolding a by code_simp
  then obtain b where binlog: "check_binlog sample_db sample_cfg a = (Inr (), b)"
    and b: "b = snd (check_binlog sample_db sample_cfg a)" by (rule run_obtain)
  have "fst (default_parent sample_env b) = Inr ''f''" unfolding b a by code_simp
  then obtain s0 where par: "default_parent sample_env b = (Inr ''f'', s0)"
    and s0: "s0 = snd (default_parent sample_env b)" by (rule run_obtain)
  have 0: "backup_path sample_env (''b'' @ ''.sql.gz'') = ''/d/b.sql.gz''" by code_simp
  have "fst (prepare_incremental sample_env sample_db sample_cfg ''f'' s0) = Inr full_pl" unfolding s0 b a by code_simp
  then obtain s1 where 1: "prepare_incremental sample_env sample_db sample_cfg ''f'' s0 = (Inr full_pl, s1)"
    and s1: "s1 = snd (prepare_incremental sample_env sample_db sample_cfg ''f'' s0)" by (rule run_obtain)
  have "fst (new_backup_id sample_db ''inc'' sample_opts s1) = Inr ''b''" unfolding s1 s0 b a by code_simp
  then obtain s2 where 2: "new_backup_id sample_db ''inc'' sample_opts s1 = (Inr ''b'', s2)"
    and s2: "s2 = snd (new_backup_id sample_db ''inc'' sample_opts s1)" by (rule run_obtain)
  let ?spawn = "spawn ''mysqlbinlog'' (mysqlbinlog_args sample_db sample_cfg (pl_startPos full_pl) (pl_endPos full_pl) (pl_files full_pl))
      (password sample_cfg)"
  obtain p where "fst (?spawn s2) = Inr p" by (simp add: spawn_def next_tick_def prog_defs)
  then obtain s3 where 3: "?spawn s2 = (Inr p, s3)" and s3: "s3 = snd (?spawn s2)" by (rule run_obtain)
  have "fst (open_output ''/d/b.sql.gz'' s3) = Inr ()" by (simp add: open_output_def set_file_def prog_defs)
  then obtain s4 where 4: "open_output ''/d/b.sql.gz'' s3 = (Inr (), s4)"
    and s4: "s4 = snd (open_output ''/d/b.sql.gz'' s3)" by (rule run_obtain)
  let ?dump = "dump_to_file sample_db ''mysqlbinlog'' False p ''/d/b.sql.gz''"
  have "fst (?dump s4) = Inr ()" unfolding s4 s3 s2 s1 s0 b a by code_simp
  then obtain s5 where 5: "?dump s4 = (Inr (), s5)" and s5: "s5 = snd (?dump s4)" by (rule run_obtain)
  have "\<not> isl (fst (finish_incremental sample_env sample_db sample_cfg sample_opts full_pl ''f'' ''b'' s5))"
    unfolding s5 s4 s3 s2 s1 s0 b a by code_simp
  then obtain r g where 6: "finish_incremental sample_env sample_db sample_cfg sample_opts full_pl ''f'' ''b'' s5 = (Inr r, g)"
    using not_isl_obtain by blast
  have "createIncrementalBackup sample_env sample_db sample_cfg ''f'' sample_opts s0 = (Inr r, g)"
    by (simp only: createIncrementalBackup_def run_incremental_def try_catch_def bnd_def 0 1 2 3 4 5 6 prod.case sum.case)
  then have "mysql_run_backup sample_env sample_db (sample_post ''incremental'') sample_mgr = (Inr r, g)"
    by (simp add: mysql_run_backup_def take_backup_def choose_parent_def bnd_def when_p_def ret_def priv binlog par)
  then show ?thesis using post_backup_answers [of sample_service "''/d''" "sample_post ''incremental''" sample_svc r g] by fastforce
qed

lemma automatic_parent_is_full_witness:
  "\<exists>v s' i m. mysql_post_backup sample_service (sample_post ''incremental'') sample_svc = (Inr \<lparr>rs_status = 200, rs_body = v\<rparr>, s') \<and>
     find_meta (entries_of (m_meta (ms_dirs s' ''/d''))) i = Some m \<and> parentBackupId m = Some ''f''"
proof -
  obtain v s' where run: "mysql_post_backup sample_service (sample_post ''incremental'') sample_svc = (Inr \<lparr>rs_status = 200, rs_body = v\<rparr>, s')"
    using sample_incremental_answered by blast
  have full: "full_backups (m_meta sample_mgr) = [sample_full]" by (simp add: full_backups_def sample_defs)
  have "\<exists>i m. jget v ''backupId'' = Some (JStr i) \<and> find_meta (entries_of (m_meta (ms_dirs s' ''/d''))) i = Some m \<and>
      full_backups (m_meta sample_mgr) \<noteq> [] \<and> parentBackupId m = Some (meta_id (last (full_backups (m_meta sample_mgr))))"
    by (rule automatic_parent_is_full [OF run]) (simp_all add: sample_defs)
  with run full show ?thesis by (auto simp: sample_full_def)
qed

section \<open>Restores that come from the queue\<close>

definition posted :: "json \<Rightarrow> raw_request" where
  "posted b = \<lparr>vr_body = Some b, vr_query = JObj [], vr_params = JObj [], vr_headers = JObj []\<rparr>"

text \<open>What the other end answers when the MySQL service, in the state \<open>S l\<close> after the calls \<open>l\<close>, serves a body.\<close>

definition mysql_served :: "mysql_env \<Rightarrow> schema \<Rightarrow> (call list \<Rightarrow> mysql_svc) \<Rightarrow> call list \<Rightarrow> json \<Rightarrow> failure + json" where
  "mysql_served M accept S l b = (case fst (mysql_restore_api M accept (posted b) (S l)) of
     Inl e \<Rightarrow> Inl \<lparr>f_code = ''ECONNRESET'', f_message = err_message e, f_axios = True, f_response = None\<rparr>
   | Inr r \<Rightarrow> axios_reply r)"

lemma mysql_served_refused:
  assumes "accept (Some b) = Inl issues" and "issues \<noteq> JArr []"
  shows "isl (mysql_served M accept S l b)"
proof -
  have "mysql_restore_api M accept (posted b) (S l) = (Inr (validation_failed (formatIssues issues)), S l)"
    unfolding mysql_restore_api_def by (rule validateBody_refuses) (use assms in \<open>simp_all add: posted_def\<close>)
  then show ?thesis by (simp add: mysql_served_def)
qed

lemma run_call_Inr: "run_call W c s = (Inr v, s') \<Longrightarrow> W (calls s) c = Inr v"
  by (auto simp: run_call_def ask_def bnd_def ret_def throw_def split: sum.splits)

lemma dispatch_posts:
  assumes "dispatch R W j p s = (Inr v, s')"
  shows "\<exists>l u d. serviceRegistry (we_var (re_worker R)) (tpl (jget (rj_db j) ''type'')) = Some u \<and>
    W l (Http ''POST'' (u @ ''/restore'') (JObj [(''dbConfig'', rj_db j), (''backupFilePath'', JStr p), (''options'', rj_options j)])) = Inr d"
  using assms by (auto simp: dispatch_def Let_def bnd_Inr_iff seqp_Inr getServiceUrl_def ret_def throw_def
      split: option.splits dest!: run_call_Inr)

lemma handleRestoreJob_dispatches:
  assumes "handleRestoreJob R W j s = (Inr v, s')"
  shows "\<exists>p t t'. dispatch R W j p t = (Inr v, t')"
proof -
  from assms obtain x t where "with_temps (try_finally (guarded_restore R W j) (clean_temps W)) x = (Inr v, t)"
    unfolding handleRestoreJob_def seqp_Inr by blast
  then obtain u where "guarded_restore R W j (x, []) = (Inr v, u)"
    by (auto simp: with_temps_def try_finally_def split: prod.splits sum.splits)
  then have "run_restore R W j (x, []) = (Inr v, u)"
    by (auto simp: try_catch_def bnd_def throw_def split: prod.splits sum.splits)
  then obtain p y where "on_fst (dispatch R W j p) y = (Inr v, u)" unfolding run_restore_def bnd_Inr_iff by blast
  then show ?thesis by (cases "dispatch R W j p (fst y)") (auto simp: on_fst_def split: prod.splits)
qed

text \<open>C38: The restore worker never succeeds on a MySQL backup. Whatever the rest of the system answers, and in whatever state
  the MySQL service is, the request of the worker names a file and no \<open>backupId\<close>; the service answers it with status 400, as its
  schema requires that property, and the job fails.\<close>

theorem mysql_restore_job_fails:
  assumes "jget (rj_db j) ''type'' = Some (JStr ''mysql'')" and "serviceRegistry (we_var (re_worker R)) ''mysql'' = Some u"
    and "\<forall>l b. W l (Http ''POST'' (u @ ''/restore'') b) = mysql_served M accept S l b"
    and "\<forall>b. jget b ''backupId'' = None \<longrightarrow> (\<exists>x xs. accept (Some b) = Inl (JArr (x # xs)))"
  shows "isl (fst (handleRestoreJob R W j s))"
proof (rule ccontr)
  assume "\<not> isl (fst (handleRestoreJob R W j s))"
  then obtain v s' where "handleRestoreJob R W j s = (Inr v, s')"
    using not_isl_obtain by blast
  then obtain q x x' where "dispatch R W j q x = (Inr v, x')" by (auto dest!: handleRestoreJob_dispatches)
  from dispatch_posts [OF this] obtain l p d where "W l (Http ''POST'' (u @ ''/restore'')
      (JObj [(''dbConfig'', rj_db j), (''backupFilePath'', JStr p), (''options'', rj_options j)])) = Inr d"
    using assms(1,2) by (auto simp: tpl_def)
  then have ok: "mysql_served M accept S l (JObj [(''dbConfig'', rj_db j), (''backupFilePath'', JStr p), (''options'', rj_options j)]) = Inr d"
    by (simp only: assms(3) [rule_format])
  obtain y ys where "accept (Some (JObj [(''dbConfig'', rj_db j), (''backupFilePath'', JStr p), (''options'', rj_options j)])) = Inl (JArr (y # ys))"
    using assms(4) [rule_format, of "JObj [(''dbConfig'', rj_db j), (''backupFilePath'', JStr p), (''options'', rj_options j)]"] by auto
  then have "isl (mysql_served M accept S l (JObj [(''dbConfig'', rj_db j), (''backupFilePath'', JStr p), (''options'', rj_options j)]))"
    by (rule mysql_served_refused) simp
  with ok show False by simp
qed

definition needs_backupId :: schema where
  "needs_backupId v = (case v of Some b \<Rightarrow> (if jget b ''backupId'' = None then Inl (JArr [JObj [(''message'', JStr ''Invalid key'')]]) else Inr b)
     | None \<Rightarrow> Inl (JArr [JNull]))"

definition mysql_world :: world where
  "mysql_world l c = (case c of
     Http m u b \<Rightarrow> if m = ''POST'' \<and> u = ''http://localhost:3011/restore'' then mysql_served sample_service needs_backupId (\<lambda>_. sample_svc) l b
       else restore_world l c
   | _ \<Rightarrow> restore_world l c)"

theorem mysql_restore_job_fails_witness:
  "isl (fst (handleRestoreJob sample_restore_env mysql_world sample_restore_job sample_proc))"
  by (rule mysql_restore_job_fails [where u = "''http://localhost:3011''" and M = sample_service and accept = needs_backupId and S = "\<lambda>_. sample_svc"])
    (simp_all add: sample_restore_job_def sample_restore_env_def sample_worker_def serviceRegistry_def mysql_world_def needs_backupId_def)

end
