(* ===== verification/Gateway.thy ===== *)
theory Gateway
  imports Validation MetadataClient CredentialScrubber
begin

text \<open>
  The API gateway: \<open>config/env.ts\<close>, the middleware of \<open>middleware\<close> and \<open>app.ts\<close>, \<open>services/backup.service.ts\<close>,
  \<open>services/restore.service.ts\<close>, the controllers for backups, restores, health and the system, the proxy in
  \<open>routes/metadata.routes.ts\<close>, and the chains of \<open>routes/index.ts\<close> for backups and restores.

  A service answers a JSON value or fails with an error object (\<open>http_error\<close>: what \<open>errorHandler\<close> looks at). The
  headers of outgoing requests are not part of a call. A call whose status the code reads is \<open>Other ''axios''\<close> with a
  reply \<open>{ status, data }\<close>. The query of a request is kept as its decoded pairs; the rate limiter is a call.
\<close>

section \<open>Configuration\<close>

definition parsePort :: "string option \<Rightarrow> int \<Rightarrow> int" where
  "parsePort val d = (if \<not> truthy_s val then d
     else case js_parseInt (the val) of JNum n \<Rightarrow> if n \<le> 0 \<or> n > 65535 then d else n | _ \<Rightarrow> d)"

definition parseCorsOrigins :: "string option \<Rightarrow> string list" where
  "parseCorsOrigins val = (if \<not> truthy_s val then [''http://localhost:5173'', ''http://localhost:3000'']
     else filter (\<lambda>s. s \<noteq> '''') (map js_trim (split_on (CHR '','') (the val))))"

record gateway_config =
  NODE_ENV' :: string
  GATEWAY_PORT :: int
  ORCHESTRATOR_URL :: string
  METADATA_SERVICE_URL :: string
  REDIS_PORT :: int
  CORS_ORIGIN :: "string list"
  RATE_LIMIT_POINTS :: json
  RATE_LIMIT_DURATION :: json
  RATE_LIMIT_BACKUP_POINTS :: json
  RATE_LIMIT_BACKUP_DURATION :: json
  MAX_CONCURRENT_BACKUPS :: json
  isProduction :: bool

definition env_int :: "(string \<Rightarrow> string option) \<Rightarrow> string \<Rightarrow> string \<Rightarrow> json" where
  "env_int var k d = js_parseInt (or_s (var k) d)"

definition read_env :: "(string \<Rightarrow> string option) \<Rightarrow> gateway_config" where
  "read_env var = (let nodeEnv = or_s (var ''NODE_ENV'') ''development'' in
     \<lparr>NODE_ENV' = nodeEnv, GATEWAY_PORT = parsePort (or_so (var ''GATEWAY_PORT'') (var ''PORT'')) 3000,
      ORCHESTRATOR_URL = or_s (var ''ORCHESTRATOR_URL'') ''http://localhost:3001'',
      METADATA_SERVICE_URL = or_s (var ''METADATA_SERVICE_URL'') ''http://127.0.0.1:3005'',
      REDIS_PORT = parsePort (var ''REDIS_PORT'') 6379, CORS_ORIGIN = parseCorsOrigins (var ''CORS_ORIGIN''),
      RATE_LIMIT_POINTS = env_int var ''RATE_LIMIT_POINTS'' ''100'', RATE_LIMIT_DURATION = env_int var ''RATE_LIMIT_DURATION'' ''60'',
      RATE_LIMIT_BACKUP_POINTS = env_int var ''RATE_LIMIT_BACKUP_POINTS'' ''10'',
      RATE_LIMIT_BACKUP_DURATION = env_int var ''RATE_LIMIT_BACKUP_DURATION'' ''60'',
      MAX_CONCURRENT_BACKUPS = env_int var ''MAX_CONCURRENT_BACKUPS'' ''3'', isProduction = (nodeEnv = ''production'')\<rparr>)"

section \<open>Requests and errors\<close>

record gw_request =
  gr_raw :: raw_request
  gr_method :: string
  gr_path :: string
  gr_pairs :: "(string \<times> string) list"
  gr_origin :: "string option"
  gr_ip :: "string option"
  gr_clientId :: "string option"

record gw_env =
  ge_config :: gateway_config
  ge_client :: meta_client
  ge_is_error :: "failure \<Rightarrow> bool"
  ge_redis :: string
  ge_now :: int
  ge_iso :: "int \<Rightarrow> string"

record http_error =
  he_message :: string
  he_status :: "int option"
  he_name :: string
  he_issues :: "json option"

definition plain_error :: "string \<Rightarrow> http_error" where
  "plain_error m = \<lparr>he_message = m, he_status = None, he_name = ''Error'', he_issues = None\<rparr>"

definition of_request :: "req_error \<Rightarrow> http_error" where
  "of_request e = \<lparr>he_message = re_message e, he_status = re_status e, he_name = ''Error'', he_issues = None\<rparr>"

definition of_failure :: "failure \<Rightarrow> http_error" where
  "of_failure f = \<lparr>he_message = f_message f, he_status = map_option fst (f_response f),
     he_name = (if f_axios f then ''AxiosError'' else ''Error''), he_issues = None\<rparr>"

text \<open>\<open>errorHandler\<close>: the credentials of the message are masked.\<close>

definition errorHandler :: "gw_env \<Rightarrow> http_error \<Rightarrow> response" where
  "errorHandler G e = (let code = (case he_status e of Some n \<Rightarrow> if n = 0 then 500 else n | None \<Rightarrow> 500);
       cleanMsg = sanitizeErrorMessage (Some (or_s (Some (he_message e)) ''Internal Server Error'')) in
     \<lparr>rs_status = code, rs_body = jobj [(''success'', Some (JBool False)),
        (''error'', Some (JStr (or_s (Some (he_name e)) ''Internal Server Error''))),
        (''message'', Some (JStr (if isProduction (ge_config G) \<and> code = 500 then ''An unexpected internal server error occurred'' else cleanMsg))),
        (''issues'', if truthy_j (he_issues e) then he_issues e else None)]\<rparr>)"

definition error_of_class :: "string \<Rightarrow> string \<Rightarrow> int \<Rightarrow> json option \<Rightarrow> http_error" where
  "error_of_class name message statusCode issues = \<lparr>he_message = message, he_status = Some statusCode, he_name = name, he_issues = issues\<rparr>"

section \<open>Middleware\<close>

type_synonym gw_handler = "gw_request \<Rightarrow> (proc, response) prog"

definition authMiddleware :: "gw_handler \<Rightarrow> gw_handler" where
  "authMiddleware handler r = (case text_column (Some (vr_headers (gr_raw r))) ''x-client-id'' of
     Some i \<Rightarrow> if i \<noteq> '''' then handler (r\<lparr>gr_clientId := Some i\<rparr>)
       else respond 400 (JObj [(''success'', JBool False), (''error'', JStr ''Missing x-client-id header''),
         (''message'', JStr ''A valid x-client-id header is required for this request'')])
   | None \<Rightarrow> respond 400 (JObj [(''success'', JBool False), (''error'', JStr ''Missing x-client-id header''),
         (''message'', JStr ''A valid x-client-id header is required for this request'')]))"

definition limiter_key :: "gw_request \<Rightarrow> string" where
  "limiter_key r = or_s (or_so (gr_clientId r) (gr_ip r)) ''unknown''"

definition consume :: "string \<Rightarrow> string \<Rightarrow> call" where
  "consume kp key = Other ''rateLimiter.consume'' (JObj [(''keyPrefix'', JStr kp), (''key'', JStr key)])"

text \<open>\<open>createRateLimiter\<close>: \<open>error instanceof Error\<close> is \<open>ge_is_error\<close>.\<close>

definition createRateLimiter :: "gw_env \<Rightarrow> world \<Rightarrow> string \<Rightarrow> gw_handler \<Rightarrow> gw_handler" where
  "createRateLimiter G W kp handler r = bnd (ask W (consume kp (limiter_key r))) (\<lambda>x. case x of
     Inr _ \<Rightarrow> handler r
   | Inl f \<Rightarrow> if ge_is_error G f \<and> str_includes (f_message f) ''Rate limit exceeded''
       then respond 429 (JObj [(''success'', JBool False), (''error'', JStr ''Too Many Requests''),
         (''message'', JStr ''Rate limit exceeded. Please try again later.'')])
       else handler r)"

definition apiRateLimiter :: "gw_env \<Rightarrow> world \<Rightarrow> gw_handler \<Rightarrow> gw_handler" where
  "apiRateLimiter G W = createRateLimiter G W ''gateway_rate_limit_api''"

definition backupRateLimiter :: "gw_env \<Rightarrow> world \<Rightarrow> gw_handler \<Rightarrow> gw_handler" where
  "backupRateLimiter G W = createRateLimiter G W ''gateway_rate_limit_backup''"

definition cors :: "gw_env \<Rightarrow> gw_handler \<Rightarrow> gw_handler" where
  "cors G handler r = (if \<not> truthy_s (gr_origin r) \<or> the (gr_origin r) \<in> set (CORS_ORIGIN (ge_config G)) then handler r
     else ret (errorHandler G (plain_error ''Blocked by CORS policy'')))"

definition gw_validateBody :: "schema \<Rightarrow> gw_handler \<Rightarrow> gw_handler" where
  "gw_validateBody sch handler r = validateBody sch (\<lambda>q. handler (r\<lparr>gr_raw := q\<rparr>)) (gr_raw r)"

definition gw_validateParams :: "schema \<Rightarrow> gw_handler \<Rightarrow> gw_handler" where
  "gw_validateParams sch handler r = validateParams sch (\<lambda>q. handler (r\<lparr>gr_raw := q\<rparr>)) (gr_raw r)"

definition unknown_endpoint :: gw_handler where
  "unknown_endpoint r = respond 404 (JObj [(''success'', JBool False), (''error'', JStr ''Not Found''),
     (''message'', JStr (''Cannot '' @ gr_method r @ '' '' @ gr_path r))])"

section \<open>Services\<close>

text \<open>\<open>backupRepository.findJobById\<close>, with the status its error carries.\<close>

definition find_backup_job :: "gw_env \<Rightarrow> world \<Rightarrow> string \<Rightarrow> (proc, http_error + json) prog" where
  "find_backup_job G W i = bnd (request_outcome (ge_client G) W (client_call W ''GET'' (''/api/jobs/'' @ encodeURIComponent i)
       (with_params (JObj [(''includeLogs'', JBool False)]))) (''Get job '' @ quoted i) 1) (\<lambda>r. ret (case r of
     Inr v \<Rightarrow> Inr v
   | Inl e \<Rightarrow> if str_includes (re_message e) ''HTTP 404'' then Inr JNull else Inl (of_request e)))"

definition svc_triggerBackup :: "gw_env \<Rightarrow> world \<Rightarrow> json \<Rightarrow> (proc, failure + json) prog" where
  "svc_triggerBackup G W payload = http W ''POST'' (ORCHESTRATOR_URL (ge_config G) @ ''/backup'') payload"

definition svc_getBackupStatus :: "gw_env \<Rightarrow> world \<Rightarrow> string \<Rightarrow> (proc, http_error + json) prog" where
  "svc_getBackupStatus G W i = bnd (http W ''GET'' (ORCHESTRATOR_URL (ge_config G) @ ''/backup/'' @ i @ ''/status'') no_params) (\<lambda>x. case x of
     Inr v \<Rightarrow> ret (Inr v)
   | Inl _ \<Rightarrow> bnd (find_backup_job G W i) (\<lambda>y. ret (case y of
       Inl e \<Rightarrow> Inl e
     | Inr job \<Rightarrow> if \<not> truthy_j (Some job) then Inl (plain_error (''Backup job '' @ i @ '' not found''))
         else Inr (jobj [(''id'', jget job ''id''), (''status'', jget job ''status''),
           (''error'', if truthy_j (jget job ''error'') then jget job ''error'' else None)]))))"

definition dry_run_answer :: "json \<Rightarrow> json" where
  "dry_run_answer b = jobj [(''success'', Some (JBool True)),
     (''message'', Some (JStr ''Dry run completed successfully. Verification passed.'')), (''backupId'', jget b ''backupId'')]"

definition forward_restore :: "gw_env \<Rightarrow> world \<Rightarrow> json \<Rightarrow> (proc, http_error + json) prog" where
  "forward_restore G W b = (if truthy_j (oget (jget b ''options'') ''dryRun'') then ret (Inr (dry_run_answer b))
     else bnd (http W ''POST'' (ORCHESTRATOR_URL (ge_config G) @ ''/restore'') b) (\<lambda>x. ret (case x of
       Inl f \<Rightarrow> Inl (of_failure f) | Inr v \<Rightarrow> Inr v)))"

definition svc_restoreBackup :: "gw_env \<Rightarrow> world \<Rightarrow> json option \<Rightarrow> (proc, http_error + json) prog" where
  "svc_restoreBackup G W body = (case body of
     None \<Rightarrow> ret (Inl ((plain_error (''Cannot read properties of undefined (reading '' @ quoted ''backupId'' @ '')''))\<lparr>he_name := ''TypeError''\<rparr>))
   | Some b \<Rightarrow> if truthy_j (jget b ''backupId'')
       then bnd (find_backup_job G W (tpl (jget b ''backupId''))) (\<lambda>y. case y of
           Inl e \<Rightarrow> ret (Inl e)
         | Inr job \<Rightarrow> if \<not> truthy_j (Some job) then ret (Inl (plain_error (''Backup record not found for id: '' @ tpl (jget b ''backupId''))))
             else forward_restore G W b)
       else forward_restore G W b)"

definition svc_getRestoreStatus :: "gw_env \<Rightarrow> world \<Rightarrow> string \<Rightarrow> (proc, http_error + json) prog" where
  "svc_getRestoreStatus G W i = bnd (http W ''GET'' (ORCHESTRATOR_URL (ge_config G) @ ''/restore/'' @ encodeURIComponent i @ ''/status'') no_params)
     (\<lambda>x. ret (case x of Inl f \<Rightarrow> Inl (of_failure f) | Inr v \<Rightarrow> Inr v))"

section \<open>Controllers\<close>

definition param_id :: "gw_request \<Rightarrow> string" where
  "param_id r = tpl (jget (vr_params (gr_raw r)) ''id'')"

definition or_next :: "gw_env \<Rightarrow> http_error + json \<Rightarrow> (proc, response) prog" where
  "or_next G x = (case x of Inl e \<Rightarrow> ret (errorHandler G e) | Inr v \<Rightarrow> answer v)"

definition ctl_triggerBackup :: "gw_env \<Rightarrow> world \<Rightarrow> gw_handler" where
  "ctl_triggerBackup G W r = bnd (svc_triggerBackup G W (or_null (vr_body (gr_raw r)))) (\<lambda>x. case x of
     Inr v \<Rightarrow> answer v
   | Inl f \<Rightarrow> (case f_response f of
       Some (st, d) \<Rightarrow> if f_axios f then respond st d else ret (errorHandler G (of_failure f))
     | None \<Rightarrow> ret (errorHandler G (of_failure f))))"

definition ctl_getBackupStatus :: "gw_env \<Rightarrow> world \<Rightarrow> gw_handler" where
  "ctl_getBackupStatus G W r = bnd (svc_getBackupStatus G W (param_id r)) (or_next G)"

definition ctl_restoreBackup :: "gw_env \<Rightarrow> world \<Rightarrow> gw_handler" where
  "ctl_restoreBackup G W r = bnd (svc_restoreBackup G W (vr_body (gr_raw r))) (or_next G)"

definition ctl_getRestoreStatus :: "gw_env \<Rightarrow> world \<Rightarrow> gw_handler" where
  "ctl_getRestoreStatus G W r = bnd (svc_getRestoreStatus G W (param_id r)) (or_next G)"

section \<open>Chains of routes\<close>

definition post_api_backup :: "gw_env \<Rightarrow> world \<Rightarrow> schema \<Rightarrow> gw_handler" where
  "post_api_backup G W sch = cors G (authMiddleware (backupRateLimiter G W (gw_validateBody sch (ctl_triggerBackup G W))))"

definition get_api_backup_status :: "gw_env \<Rightarrow> world \<Rightarrow> schema \<Rightarrow> gw_handler" where
  "get_api_backup_status G W sch = cors G (authMiddleware (backupRateLimiter G W (gw_validateParams sch (ctl_getBackupStatus G W))))"

definition post_api_restore :: "gw_env \<Rightarrow> world \<Rightarrow> gw_handler" where
  "post_api_restore G W = cors G (authMiddleware (apiRateLimiter G W (ctl_restoreBackup G W)))"

definition get_api_restore_status :: "gw_env \<Rightarrow> world \<Rightarrow> gw_handler" where
  "get_api_restore_status G W = cors G (authMiddleware (apiRateLimiter G W (ctl_getRestoreStatus G W)))"

section \<open>The proxy of the metadata service\<close>

text \<open>The query parser of Express (\<open>querystring.parse\<close> of Node): a repeated key has an array of its values.\<close>

definition add_param :: "json \<Rightarrow> string \<times> string \<Rightarrow> json" where
  "add_param q kv = (case jget q (fst kv) of
     None \<Rightarrow> JObj (jfields q @ [(fst kv, JStr (snd kv))])
   | Some (JArr xs) \<Rightarrow> jset q (fst kv) (JArr (xs @ [JStr (snd kv)]))
   | Some v \<Rightarrow> jset q (fst kv) (JArr [v, JStr (snd kv)]))"

definition parse_query :: "(string \<times> string) list \<Rightarrow> json" where
  "parse_query pairs = foldl add_param (JObj []) pairs"

text \<open>\<open>originalUrl\<close> has the query of the request, and \<open>params\<close> is that query again.\<close>

definition proxied_call :: "gw_env \<Rightarrow> gw_request \<Rightarrow> call" where
  "proxied_call G r = Other ''axios'' (JObj [(''method'', JStr (gr_method r)),
     (''url'', JStr (or_s (Some (METADATA_SERVICE_URL (ge_config G))) ''http://127.0.0.1:3005'' @ gr_path r)),
     (''search'', JArr (map (\<lambda>(k, v). JArr [JStr k, JStr v]) (gr_pairs r))),
     (''params'', parse_query (gr_pairs r)), (''data'', or_null (vr_body (gr_raw r)))])"

definition js_int :: "json option \<Rightarrow> int" where
  "js_int v = (case v of Some (JNum n) \<Rightarrow> n | _ \<Rightarrow> 0)"

definition forwardToMetadataService :: "gw_env \<Rightarrow> world \<Rightarrow> gw_handler" where
  "forwardToMetadataService G W r = bnd (ask W (proxied_call G r)) (\<lambda>x. case x of
     Inr v \<Rightarrow> respond (js_int (jget v ''status'')) (or_null (jget v ''data''))
   | Inl f \<Rightarrow> respond 502 (JObj [(''error'', JStr ''Metadata service gateway error''), (''message'', JStr (f_message f))]))"

section \<open>Health and system\<close>

definition axios_get :: "string \<Rightarrow> int \<Rightarrow> call" where
  "axios_get url timeout = Other ''axios'' (JObj [(''method'', JStr ''GET''), (''url'', JStr url), (''timeout'', JNum timeout)])"

definition status_only :: "string \<Rightarrow> json" where
  "status_only s = JObj [(''status'', JStr s)]"

definition unhealthy :: "string \<Rightarrow> json" where
  "unhealthy m = JObj [(''status'', JStr ''unhealthy''), (''error'', JStr m)]"

text \<open>One dependency: what is reported, and whether the gateway counts as healthy with it.\<close>

definition check_metadata :: "gw_env \<Rightarrow> world \<Rightarrow> (proc, json \<times> bool) prog" where
  "check_metadata G W = try_catch
     (bnd (mc_health (ge_client G) W) (\<lambda>meta.
        if meta = JNull then throw (new_Error (''Cannot read properties of null (reading '' @ quoted ''status'' @ '')''))
        else let ok = (jget meta ''status'' = Some (JStr ''healthy'')) in ret (status_only (if ok then ''healthy'' else ''degraded''), ok)))
     (\<lambda>e. ret (unhealthy (err_message e), False))"

definition check_redis :: "gw_env \<Rightarrow> world \<Rightarrow> (proc, json \<times> bool) prog" where
  "check_redis G W = (if ge_redis G = ''ready'' then ret (status_only ''healthy'', True)
     else bnd (ask W (Other ''redis.ping'' JNull)) (\<lambda>x. ret (case x of
       Inr pong \<Rightarrow> (status_only (if pong = JStr ''PONG'' then ''healthy'' else ''degraded''), True)
     | Inl f \<Rightarrow> (unhealthy (f_message f), False))))"

definition check_orchestrator :: "gw_env \<Rightarrow> world \<Rightarrow> (proc, json \<times> bool) prog" where
  "check_orchestrator G W = bnd (ask W (axios_get (ORCHESTRATOR_URL (ge_config G) @ ''/health'') 1500)) (\<lambda>x. ret (case x of
     Inr v \<Rightarrow> (let ok = (jget v ''status'' = Some (JNum 200)) in (status_only (if ok then ''healthy'' else ''degraded''), ok))
   | Inl f \<Rightarrow> (unhealthy (f_message f), False)))"

definition ctl_getHealth :: "gw_env \<Rightarrow> world \<Rightarrow> gw_handler" where
  "ctl_getHealth G W r =
     (if jget (vr_query (gr_raw r)) ''shallow'' = Some (JStr ''true'')
      then answer (JObj [(''service'', JStr ''api-gateway''), (''status'', JStr ''healthy''), (''timestamp'', JStr (ge_iso G (ge_now G)))])
      else bnd (check_metadata G W) (\<lambda>(m, ok1). bnd (check_redis G W) (\<lambda>(d, ok2). bnd (check_orchestrator G W) (\<lambda>(orch, ok3).
        let healthy = (ok1 \<and> ok2 \<and> ok3) \<or> NODE_ENV' (ge_config G) = ''test'';
            deps = JObj [(''gateway'', status_only ''healthy''), (''metadataService'', m), (''redis'', d), (''orchestrator'', orch)] in
        respond (if healthy then 200 else 503) (JObj [(''service'', JStr ''api-gateway''),
          (''status'', JStr (if healthy then ''healthy'' else ''unhealthy'')), (''timestamp'', JStr (ge_iso G (ge_now G))),
          (''dependencies'', deps), (''services'', deps)])))))"

definition limit_status :: "json \<Rightarrow> json \<Rightarrow> json \<Rightarrow> json" where
  "limit_status points duration st = JObj [(''points'', points), (''duration'', duration),
     (''remaining'', nullish (jget st ''remainingPoints'') points), (''msBeforeNext'', or_j (jget st ''msBeforeNext'') (JNum 0))]"

definition mask_id :: "string \<Rightarrow> string" where
  "mask_id i = (if length i > 8 then take 8 i @ ''...'' else i)"

definition limiter_get :: "world \<Rightarrow> string \<Rightarrow> string \<Rightarrow> (proc, json) prog" where
  "limiter_get W kp key = run_call W (Other ''rateLimiter.get'' (JObj [(''keyPrefix'', JStr kp), (''key'', JStr key)]))"

definition ctl_getRateLimitStatus :: "gw_env \<Rightarrow> world \<Rightarrow> gw_handler" where
  "ctl_getRateLimitStatus G W r = (let c = ge_config G; i = limiter_key r in try_catch
     (bnd (limiter_get W ''gateway_rate_limit_api'' i) (\<lambda>a. bnd (limiter_get W ''gateway_rate_limit_backup'' i) (\<lambda>b.
      answer (JObj [(''clientId'', JStr (mask_id i)), (''limits'', JObj
        [(''api'', limit_status (RATE_LIMIT_POINTS c) (RATE_LIMIT_DURATION c) a),
         (''backup'', limit_status (RATE_LIMIT_BACKUP_POINTS c) (RATE_LIMIT_BACKUP_DURATION c) b)])]))))
     (\<lambda>_. respond 500 (error_body ''Failed to get rate limit status'')))"

definition service_ports :: "(string \<times> string) list" where
  "service_ports = [(''postgresql'', ''3010''), (''mysql'', ''3011''), (''mongodb'', ''3012''), (''sqlite'', ''3013'')]"

fun services_health :: "world \<Rightarrow> (string \<times> string) list \<Rightarrow> (proc, (string \<times> json) list) prog" where
  "services_health W [] = ret []"
| "services_health W ((service, port) # rest) =
     bnd (ask W (axios_get (''http://localhost:'' @ port @ ''/health'') 3000)) (\<lambda>x.
     bnd (services_health W rest) (\<lambda>hs.
     ret ((service, case x of Inr v \<Rightarrow> or_null (jget v ''data'')
       | Inl _ \<Rightarrow> unhealthy ''Service unreachable'') # hs)))"

definition ctl_getServicesHealth :: "world \<Rightarrow> gw_handler" where
  "ctl_getServicesHealth W r = bnd (services_health W service_ports) (\<lambda>hs. answer (JObj hs))"

end
