(* ===== verification/GatewayCorrect.thy ===== *)
theory GatewayCorrect
  imports Gateway
begin

text \<open>
  What the gateway does with requests: its rate limit, its dry runs of a restore, and what the metadata service
  sees of a query that came through the proxy.
\<close>

section \<open>The chain in front of the handlers\<close>

lemma cors_same [simp]: "gr_origin r = None \<Longrightarrow> cors G handler r = handler r"
  by (simp add: cors_def)

lemma auth_passes: "text_column (Some (vr_headers (gr_raw r))) ''x-client-id'' = Some i \<Longrightarrow> i \<noteq> '''' \<Longrightarrow>
    authMiddleware handler r = handler (r\<lparr>gr_clientId := Some i\<rparr>)"
  by (simp add: authMiddleware_def)

lemma auth_required: "text_column (Some (vr_headers (gr_raw r))) ''x-client-id'' \<in> {None, Some ''''} \<Longrightarrow>
    \<exists>b. authMiddleware handler r s = (Inr \<lparr>rs_status = 400, rs_body = b\<rparr>, s)"
  by (auto simp: authMiddleware_def respond_def ret_def)

text \<open>The limiter rejects with an \<open>Error\<close> when its store fails, and with a value of another class when the limit is
  reached.\<close>

definition limiter_rejects :: "gw_env \<Rightarrow> world \<Rightarrow> bool" where
  "limiter_rejects G W \<longleftrightarrow> (\<forall>l kp key f. W l (consume kp key) = Inl f \<longrightarrow> ge_is_error G f \<longrightarrow>
     \<not> str_includes (f_message f) ''Rate limit exceeded'')"

abbreviation counted :: "proc \<Rightarrow> string \<Rightarrow> string \<Rightarrow> proc" where
  "counted s kp key \<equiv> s\<lparr>calls := calls s @ [consume kp key]\<rparr>"

lemma limiter_passes:
  assumes "limiter_rejects G W"
  shows "createRateLimiter G W kp handler r s = handler r (counted s kp (limiter_key r))"
proof (cases "W (calls s) (consume kp (limiter_key r))")
  case (Inl f)
  with assms have "(ge_is_error G f \<and> str_includes (f_message f) ''Rate limit exceeded'') = False" by (auto simp: limiter_rejects_def)
  with Inl show ?thesis by (simp only: createRateLimiter_def ask_def bnd_def prod.case sum.case if_False)
qed (simp add: createRateLimiter_def ask_def bnd_def)

section \<open>Queries through the proxy\<close>

definition str_object :: "(string \<times> string) list \<Rightarrow> json" where
  "str_object ps = JObj (map (\<lambda>(k, v). (k, JStr v)) ps)"

definition twice_object :: "(string \<times> string) list \<Rightarrow> json" where
  "twice_object ps = JObj (map (\<lambda>(k, v). (k, JArr [JStr v, JStr v])) ps)"

text \<open>What the service parses: axios appends the parameters, serialised by \<open>ser\<close>, to the query of the URL.\<close>

definition proxied_query :: "(json \<Rightarrow> (string \<times> string) list) \<Rightarrow> (string \<times> string) list \<Rightarrow> json" where
  "proxied_query ser pairs = parse_query (pairs @ ser (parse_query pairs))"

definition serialises :: "(json \<Rightarrow> (string \<times> string) list) \<Rightarrow> bool" where
  "serialises ser \<longleftrightarrow> (\<forall>ps. ser (str_object ps) = ps)"

lemma proxied_call_query:
  "\<exists>x. proxied_call G r = Other ''axios'' x \<and> jget x ''search'' = Some (JArr (map (\<lambda>(k, v). JArr [JStr k, JStr v]) (gr_pairs r))) \<and>
     jget x ''params'' = Some (parse_query (gr_pairs r))"
  by (simp add: proxied_call_def)

lemma map_of_str: "map_of (map (\<lambda>(k, v). (k, f v)) ps) k = map_option f (map_of ps k)"
  by (induction ps) auto

lemma parse_query_distinct: "distinct (map fst ps) \<Longrightarrow> parse_query ps = str_object ps"
proof (induction ps rule: rev_induct)
  case (snoc p ps)
  then have "map_of ps (fst p) = None" by (auto simp: map_of_eq_None_iff)
  with snoc show ?case by (cases p) (simp add: parse_query_def add_param_def str_object_def map_of_str)
qed (simp add: parse_query_def str_object_def)

text \<open>Objects as maps: the order of their keys does not matter to a reader.\<close>

lemma jget_add_param:
  "jget (add_param q (a, w)) k = (if k = a then Some (case jget q a of None \<Rightarrow> JStr w | Some (JArr xs) \<Rightarrow> JArr (xs @ [JStr w]) | Some v \<Rightarrow> JArr [v, JStr w])
     else jget q k)"
proof (cases "jget q a")
  case None
  then show ?thesis by (auto simp: add_param_def jget_fields map_add_def split: option.split)
next
  case (Some v)
  then show ?thesis by (cases v) (simp_all add: add_param_def)
qed

lemma jget_parse_query_again:
  assumes "distinct (map fst ps)"
  shows "jget (parse_query (ps @ ps)) k = map_option (\<lambda>v. JArr [JStr v, JStr v]) (map_of ps k)"
proof -
  have "jget (foldl add_param (str_object ps) qs) k =
      (case map_of qs k of Some w \<Rightarrow> map_option (\<lambda>v. JArr [JStr v, JStr w]) (map_of ps k) | None \<Rightarrow> map_option JStr (map_of ps k))"
    if "set qs \<subseteq> set ps" and "distinct (map fst qs)" for qs k
    using that
  proof (induction qs arbitrary: k rule: rev_induct)
    case Nil
    then show ?case by (simp add: str_object_def map_of_str)
  next
    case (snoc p qs)
    obtain a w where p: "p = (a, w)" by fastforce
    have a: "map_of ps a = Some w" using snoc.prems assms p by simp
    have none: "map_of qs a = None" using snoc.prems p by (auto simp: map_of_eq_None_iff)
    have ih: "jget (foldl add_param (str_object ps) qs) j =
        (case map_of qs j of Some w \<Rightarrow> map_option (\<lambda>v. JArr [JStr v, JStr w]) (map_of ps j) | None \<Rightarrow> map_option JStr (map_of ps j))" for j
      using snoc by simp
    show ?case by (simp add: p jget_add_param ih a none map_add_def split: option.split)
  qed
  from this [of ps k] assms show ?thesis
    by (simp add: parse_query_distinct [unfolded parse_query_def] parse_query_def) (cases "map_of ps k"; simp)
qed

lemma proxied_query_twice:
  assumes "distinct (map fst ps)" and "serialises ser"
  shows "jget (proxied_query ser ps) k = map_option (\<lambda>v. JArr [JStr v, JStr v]) (map_of ps k)"
  using assms(2) jget_parse_query_again [OF assms(1)] by (simp add: proxied_query_def parse_query_distinct [OF assms(1)] serialises_def)

text \<open>A filter on \<open>enabled\<close> is turned round: the service compares the array with the text \<open>true\<close>.\<close>

lemma proxied_enabled_inverted:
  assumes "distinct (map fst ps)" and "serialises ser" and "map_of ps ''enabled'' = Some v"
  shows "enabled_where (proxied_query ser ps) = JObj [(''enabled'', JBool False)]"
  using assms(3) by (simp add: enabled_where_def proxied_query_twice [OF assms(1,2)] jobj_def)

text \<open>A count becomes a listing, which has no property \<open>count\<close>.\<close>

lemma proxied_count_lost:
  assumes "distinct (map fst ps)" and "serialises ser"
  shows "\<not> count_only (proxied_query ser ps)"
  by (simp add: count_only_def proxied_query_twice [OF assms] split: option.split)

section \<open>A concrete gateway for the witnesses\<close>

definition sample_gateway :: gw_env where
  "sample_gateway = \<lparr>ge_config = read_env (\<lambda>_. None), ge_client = fst (new_client None None None None None),
     ge_is_error = (\<lambda>f. f_code f \<noteq> ''RateLimiterRes''), ge_redis = ''ready'', ge_now = 0, ge_iso = (\<lambda>_. ''2026'')\<rparr>"

definition sample_gw :: "json \<Rightarrow> gw_request" where
  "sample_gw b = \<lparr>gr_raw = \<lparr>vr_body = Some b, vr_query = JObj [], vr_params = JObj [], vr_headers = JObj [(''x-client-id'', JStr ''c1'')]\<rparr>,
     gr_method = ''GET'', gr_path = ''/api/jobs'', gr_pairs = [(''status'', ''FAILED''), (''take'', ''5'')], gr_origin = None, gr_ip = None, gr_clientId = None\<rparr>"

definition gw_proc :: proc where
  "gw_proc = \<lparr>calls = [], baseUrl = ''http://127.0.0.1:3005''\<rparr>"

text \<open>The points of every client are used up.\<close>

definition limited_world :: world where
  "limited_world l c = (case c of
     Other w x \<Rightarrow> Inl \<lparr>f_code = ''RateLimiterRes'', f_message = '''', f_axios = False, f_response = None\<rparr>
   | _ \<Rightarrow> Inr (JObj [(''success'', JBool True)]))"

lemma limited_world_rejects: "limiter_rejects sample_gateway limited_world"
  by (simp add: limiter_rejects_def limited_world_def consume_def sample_gateway_def)

lemma sample_gw_fields [simp]: "gr_origin (sample_gw b) = None" "vr_body (gr_raw (sample_gw b)) = Some b"
    "text_column (Some (vr_headers (gr_raw (sample_gw b)))) ''x-client-id'' = Some ''c1''"
    "gr_pairs (sample_gw b) = [(''status'', ''FAILED''), (''take'', ''5'')]"
  by (simp_all add: sample_gw_def text_column_def oget_def)

definition plain_ser :: "json \<Rightarrow> (string \<times> string) list" where
  "plain_ser x = map (\<lambda>(k, v). (k, js_String v)) (jfields x)"

lemma plain_ser_serialises: "serialises plain_ser"
  by (simp add: serialises_def plain_ser_def str_object_def comp_def case_prod_unfold)

definition sample_http :: http_env where
  "sample_http = \<lparr>he_date = id, he_now = JNull, he_day_ago = JNull, he_uptime = JNull, he_stringify = js_String\<rparr>"

definition no_prisma :: "unit prisma" where
  "no_prisma t action x = ret JNull"

definition proxy_world :: world where
  "proxy_world l c = (let a = fst (get_jobs no_prisma sample_http
       \<lparr>rq_param = '''', rq_query = proxied_query plain_ser [(''status'', ''FAILED''), (''take'', ''5'')], rq_body = JNull\<rparr> ()) in
     Inr (JObj [(''status'', JNum (rs_status a)), (''data'', rs_body a)]))"

section \<open>Properties\<close>



text \<open>A dry run of a restore that names a file verifies nothing: it is answered with status 200 and the message that the
  verification has passed, and apart from the rate limiter nothing was asked; the file need not exist.\<close>

lemma dry_run_verifies_nothing:
  assumes "limiter_rejects G W" and "gr_origin r = None" and "text_column (Some (vr_headers (gr_raw r))) ''x-client-id'' = Some i" and "i \<noteq> ''''"
    and "vr_body (gr_raw r) = Some b" and "\<not> truthy_j (jget b ''backupId'')" and "truthy_j (oget (jget b ''options'') ''dryRun'')"
  shows "post_api_restore G W r s = (Inr \<lparr>rs_status = 200, rs_body = dry_run_answer b\<rparr>, counted s ''gateway_rate_limit_api'' i)"
  using assms by (simp add: post_api_restore_def auth_passes apiRateLimiter_def limiter_passes limiter_key_def or_s_def
      ctl_restoreBackup_def svc_restoreBackup_def forward_restore_def bnd_def ret_def or_next_def answer_def respond_def)

lemma dry_run_verifies_nothing_witness:
  "post_api_restore sample_gateway limited_world (sample_gw (JObj [(''filePath'', JStr ''/no/such/file''), (''options'', JObj [(''dryRun'', JBool True)])])) gw_proc =
     (Inr \<lparr>rs_status = 200, rs_body = JObj [(''success'', JBool True), (''message'', JStr ''Dry run completed successfully. Verification passed.'')]\<rparr>,
      counted gw_proc ''gateway_rate_limit_api'' ''c1'')"
  using dry_run_verifies_nothing [OF limited_world_rejects, where i = "''c1''" and s = gw_proc
      and r = "sample_gw (JObj [(''filePath'', JStr ''/no/such/file''), (''options'', JObj [(''dryRun'', JBool True)])])"]
  by (simp add: oget_def dry_run_answer_def jobj_def)

text \<open>C12: A listing of jobs by status fails when it goes through the gateway, as it does for every client outside the containers. The
  proxy sends the query twice, in the URL and as parameters, so the service reads every value as an array of two, and answers
  status 500, since an array has no \<open>split\<close>; the gateway passes that on.\<close>

theorem proxied_status_filter_fails:
  assumes "distinct (map fst (gr_pairs r))" and "serialises ser"
    and "map_of (gr_pairs r) ''status'' = Some st"
    and "\<forall>l. W l (proxied_call G r) = (let a = fst (get_jobs P H \<lparr>rq_param = '''', rq_query = proxied_query ser (gr_pairs r), rq_body = JNull\<rparr> (D l)) in
        Inr (JObj [(''status'', JNum (rs_status a)), (''data'', rs_body a)]))"
  shows "forwardToMetadataService G W r s = (Inr \<lparr>rs_status = 500, rs_body = JObj [(''error'', JStr ''Internal metadata error''),
      (''message'', JStr ''status.split is not a function'')]\<rparr>, s\<lparr>calls := calls s @ [proxied_call G r]\<rparr>)"
proof -
  have "fst (get_jobs P H \<lparr>rq_param = '''', rq_query = proxied_query ser (gr_pairs r), rq_body = JNull\<rparr> d) =
      \<lparr>rs_status = 500, rs_body = JObj [(''error'', JStr ''Internal metadata error''), (''message'', JStr ''status.split is not a function'')]\<rparr>" for d
    using assms(3) by (simp add: get_jobs_def Let_def proxied_query_twice [OF assms(1,2)] handle_def throw_def internal_error_def)
  with assms(4) have "W (calls s) (proxied_call G r) = Inr (JObj [(''status'', JNum 500), (''data'', JObj [(''error'', JStr ''Internal metadata error''),
      (''message'', JStr ''status.split is not a function'')])])" by (simp add: Let_def)
  then show ?thesis by (simp add: forwardToMetadataService_def ask_def bnd_def respond_def ret_def js_int_def or_null_def)
qed

theorem proxied_status_filter_fails_witness:
  "\<exists>s. forwardToMetadataService sample_gateway proxy_world (sample_gw JNull) gw_proc = (Inr \<lparr>rs_status = 500,
     rs_body = JObj [(''error'', JStr ''Internal metadata error''), (''message'', JStr ''status.split is not a function'')]\<rparr>, s)"
  using proxied_status_filter_fails [OF _ plain_ser_serialises, of "sample_gw JNull" "''FAILED''" proxy_world sample_gateway no_prisma sample_http "\<lambda>_. ()" gw_proc]
  by (auto simp: proxy_world_def)

end
