(* ===== verification/Dashboard.thy ===== *)
theory Dashboard
  imports Orchestrator Gateway
begin

text \<open>
  The dashboard: \<open>repositories/backup.repository.ts\<close>, \<open>services/dashboard.service.ts\<close> and
  \<open>controllers/dashboard.controller.ts\<close>. Dates in rows are ISO strings; \<open>de_date\<close> is the time of one. Percentages and sizes
  are floating-point renderings and parameters. The members of a \<open>Promise.all\<close> run in order.
\<close>

section \<open>The repository\<close>

text \<open>\<open>where?.status?.in || where?.status\<close>\<close>

definition repo_status :: "json \<Rightarrow> json option" where
  "repo_status w = (let s = oget (jget w ''status'') ''in'' in if truthy_j s then s else jget w ''status'')"

definition repo_findManyJobs :: "meta_client \<Rightarrow> world \<Rightarrow> json \<Rightarrow> int option \<Rightarrow> int option \<Rightarrow> string option \<Rightarrow> (proc, json option) prog" where
  "repo_findManyJobs C W w tk sk order = bnd (listJobs C W (jobj [(''status'', repo_status w), (''dbType'', jget w ''dbType''),
       (''dbName'', jget w ''dbName''), (''since'', oget (jget w ''startedAt'') ''gte''), (''take'', map_option JNum tk),
       (''skip'', map_option JNum sk), (''orderBy'', Some (JStr (if order = Some ''asc'' then ''asc'' else ''desc'')))])) (\<lambda>res.
     if res = JNull then throw (new_Error (''Cannot read properties of null (reading '' @ quoted ''jobs'' @ '')'')) else ret (jget res ''jobs''))"

definition findLogs :: "meta_client \<Rightarrow> world \<Rightarrow> json \<Rightarrow> int option \<Rightarrow> (proc, json) prog" where
  "findLogs C W w tk = getLogs C W (jobj [(''backupJobId'', jget w ''backupJobId''), (''level'', jget w ''level''), (''take'', map_option JNum tk)])"

definition countJobsSince :: "meta_client \<Rightarrow> world \<Rightarrow> string \<Rightarrow> string list option \<Rightarrow> (proc, json) prog" where
  "countJobsSince C W since statuses = countJobs C W (jobj [(''startedAt'', Some (JObj [(''gte'', JStr since)])),
     (''status'', map_option (\<lambda>xs. JObj [(''in'', JArr (map JStr xs))]) statuses)])"

definition findRecentFailedJobs :: "meta_client \<Rightarrow> world \<Rightarrow> string \<Rightarrow> int \<Rightarrow> (proc, json option) prog" where
  "findRecentFailedJobs C W since limit = bnd (listJobs C W (JObj [(''status'', JArr [JStr ''FAILED'', JStr ''failed'']), (''since'', JStr since),
       (''take'', JNum limit), (''orderBy'', JStr ''desc'')])) (\<lambda>res.
     if res = JNull then throw (new_Error (''Cannot read properties of null (reading '' @ quoted ''jobs'' @ '')'')) else ret (jget res ''jobs''))"

section \<open>Environment and texts\<close>

record dash_env =
  de_gw :: gw_env
  de_worker :: worker_env
  de_date :: "json \<Rightarrow> int option"
  de_percent :: "int \<Rightarrow> int \<Rightarrow> int"
  de_size :: "int \<Rightarrow> string"
  de_elapsed :: json

definition nowStr :: "dash_env \<Rightarrow> string" where
  "nowStr D = ge_iso (de_gw D) (ge_now (de_gw D))"

definition day_ago :: "dash_env \<Rightarrow> string" where
  "day_ago D = ge_iso (de_gw D) (ge_now (de_gw D) - 24 * 60 * 60 * 1000)"

definition toIso :: "dash_env \<Rightarrow> json option \<Rightarrow> string option" where
  "toIso D d = (if \<not> truthy_j d then None
     else case de_date D (the d) of None \<Rightarrow> Some (js_String (the d)) | Some t \<Rightarrow> Some (ge_iso (de_gw D) t))"

definition humanizeError :: "json option \<Rightarrow> string" where
  "humanizeError rawError = (if \<not> truthy_j rawError then ''No detailed error message was recorded.''
     else let err = js_String (the rawError); has = (\<lambda>x. str_includes err x) in
       if has ''ECONNREFUSED'' then ''Database Connection Error: The target database server refused the connection. Please verify that the database service is running on the specified host and port.''
       else if has ''ETIMEDOUT'' \<or> has ''timeout'' then ''Connection Timeout: The database or network request timed out. High server load or firewall block might be delaying responses.''
       else if has ''Access denied'' \<or> has ''Authentication failed'' \<or> has ''password'' \<or> has ''ER_ACCESS_DENIED''
         then ''Authentication Failure: The configured database credentials (username/password) were rejected by the database server.''
       else if has ''NoSuchBucket'' \<or> has ''InvalidAccessKeyId'' \<or> has ''SignatureDoesNotMatch'' \<or> has ''s3''
         then ''S3 Storage Error: Cloud storage provider rejected the upload. Check your AWS access key, secret key, or S3 bucket name.''
       else if has ''ENOSPC'' \<or> has ''space left on device'' then ''Storage Disk Full: The local disk destination ran out of available storage space during backup creation.''
       else if has ''pg_dump'' \<or> has ''mysqldump'' \<or> has ''mongodump'' then ''CLI Tool Error: The underlying database backup binary failed to execute. Ensure native client utilities are installed.''
       else if has ''Queue is full'' then ''Queue Saturation: The backup queue has reached maximum allowed waiting items. Please allow current backups to finish.''
       else ''Operational Issue: '' @ (if length err > 180 then take 180 err @ ''...'' else err))"

definition formatBytes :: "dash_env \<Rightarrow> json option \<Rightarrow> string" where
  "formatBytes D bytes = (case bytes of Some (JNum n) \<Rightarrow> if n = 0 then ''0 B'' else de_size D n | _ \<Rightarrow> ''0 B'')"

definition not_iterable :: "string \<Rightarrow> js_error" where
  "not_iterable what = new_Error (what @ '' is not iterable'')"

definition rows_of :: "string \<Rightarrow> json option \<Rightarrow> js_error + json list" where
  "rows_of what v = (case v of Some (JArr xs) \<Rightarrow> Inr xs | _ \<Rightarrow> Inl (not_iterable what))"

section \<open>Queue statistics\<close>

record queue_counts =
  qc_waiting :: json
  qc_active :: json
  qc_completed :: json
  qc_failed :: json
  qc_delayed :: json
  qc_total :: json

text \<open>\<open>queue.getXCount().catch(() => 0)\<close>\<close>

definition count_or_zero :: "world \<Rightarrow> string \<Rightarrow> string \<Rightarrow> (proc, json) prog" where
  "count_or_zero W q what = bnd (ask W (QAsk q what JNull)) (\<lambda>x. ret (case x of Inl _ \<Rightarrow> JNum 0 | Inr v \<Rightarrow> v))"

definition queue_counts_of :: "world \<Rightarrow> string \<Rightarrow> (proc, queue_counts) prog" where
  "queue_counts_of W q =
     bnd (count_or_zero W q ''getWaitingCount'') (\<lambda>w. bnd (count_or_zero W q ''getActiveCount'') (\<lambda>a.
     bnd (count_or_zero W q ''getCompletedCount'') (\<lambda>c. bnd (count_or_zero W q ''getFailedCount'') (\<lambda>f.
     bnd (count_or_zero W q ''getDelayedCount'') (\<lambda>d.
       ret \<lparr>qc_waiting = w, qc_active = a, qc_completed = c, qc_failed = f, qc_delayed = d,
         qc_total = js_plus (js_plus (js_plus (js_plus w a) c) f) d\<rparr>)))))"

record queue_stats =
  st_backup :: queue_counts
  st_storage :: queue_counts
  st_notification :: queue_counts

definition getQueueStats :: "dash_env \<Rightarrow> world \<Rightarrow> (proc, queue_stats) prog" where
  "getQueueStats D W =
     bnd (queue_counts_of W (BACKUP_QUEUE (de_worker D))) (\<lambda>b. bnd (queue_counts_of W (STORAGE_QUEUE (de_worker D))) (\<lambda>s.
     bnd (queue_counts_of W (NOTIFICATION_QUEUE (de_worker D))) (\<lambda>n.
       ret \<lparr>st_backup = b, st_storage = s, st_notification = n\<rparr>)))"

definition counts_json :: "queue_counts \<Rightarrow> json" where
  "counts_json q = JObj [(''waiting'', qc_waiting q), (''active'', qc_active q), (''completed'', qc_completed q), (''failed'', qc_failed q),
     (''delayed'', qc_delayed q), (''total'', qc_total q)]"

definition stats_json :: "queue_stats \<Rightarrow> json" where
  "stats_json s = JObj [(''backupQueue'', counts_json (st_backup s)), (''storageQueue'', counts_json (st_storage s)),
     (''notificationQueue'', counts_json (st_notification s))]"

section \<open>Active backups\<close>

definition stage_of :: "json \<Rightarrow> string" where
  "stage_of progress = (case progress of
     JNum n \<Rightarrow> if n < 30 then ''Exporting Database'' else if n < 80 then ''Executing Backup'' else if n < 90 then ''Writing Storage'' else ''Finalizing & Notifying''
   | JNaN \<Rightarrow> ''Finalizing & Notifying'' | _ \<Rightarrow> ''Processing Dump'')"

text \<open>The progress of the job in the queue, if it is a number; errors of the lookup are ignored.\<close>

definition queue_progress :: "dash_env \<Rightarrow> world \<Rightarrow> json option \<Rightarrow> (proc, json) prog" where
  "queue_progress D W i = bnd (ask W (QAsk (BACKUP_QUEUE (de_worker D)) ''getJob'' (or_null i))) (\<lambda>x. ret (case x of
     Inl _ \<Rightarrow> JNull
   | Inr q \<Rightarrow> (case jget q ''progress'' of Some (JNum n) \<Rightarrow> JNum n | Some JNaN \<Rightarrow> JNaN | _ \<Rightarrow> JNull)))"

definition elapsed_since :: "dash_env \<Rightarrow> json option \<Rightarrow> json" where
  "elapsed_since D startedAt = (case startedAt of None \<Rightarrow> JNaN | Some v \<Rightarrow>
     (case (if v = JNull then Some 0 else de_date D v) of None \<Rightarrow> JNaN | Some t \<Rightarrow> JNum (max 0 ((ge_now (de_gw D) - t) div 1000))))"

definition storage_type_of :: "json \<Rightarrow> json" where
  "storage_type_of job = first_truthy [jget job ''storageType'', oget (jget job ''storageLocation'') ''type''] (JStr ''local'')"

definition storage_name_of :: "json \<Rightarrow> json" where
  "storage_name_of job = or_j (oget (jget job ''storageLocation'') ''name'') JNull"

definition active_backup :: "dash_env \<Rightarrow> json \<Rightarrow> json \<Rightarrow> json" where
  "active_backup D job progress = jobj [(''id'', jget job ''id''), (''dbType'', jget job ''dbType''), (''dbName'', jget job ''dbName''),
     (''backupType'', jget job ''backupType''), (''status'', jget job ''status''),
     (''startedAt'', Some (JStr (or_s (toIso D (jget job ''startedAt'')) (nowStr D)))), (''elapsedSeconds'', Some (elapsed_since D (jget job ''startedAt''))),
     (''stage'', Some (JStr (stage_of progress))), (''progress'', Some progress), (''fileName'', jget job ''fileName''),
     (''storageLocationName'', Some (storage_name_of job)), (''storageType'', Some (storage_type_of job)), (''error'', jget job ''error'')]"

fun active_backups :: "dash_env \<Rightarrow> world \<Rightarrow> json list \<Rightarrow> (proc, json list) prog" where
  "active_backups D W [] = ret []"
| "active_backups D W (job # jobs) = bnd (queue_progress D W (jget job ''id'')) (\<lambda>progress.
     bnd (active_backups D W jobs) (\<lambda>rest. ret (active_backup D job progress # rest)))"

definition getActiveBackups :: "dash_env \<Rightarrow> world \<Rightarrow> (proc, json list) prog" where
  "getActiveBackups D W = try_catch
     (bnd (getActiveJobs (we_client (de_worker D)) W) (\<lambda>jobs. bnd (lift_res (rows_of ''activeJobs'' (Some jobs))) (active_backups D W)))
     (\<lambda>_. ret [])"

section \<open>Health\<close>

record service_item =
  si_name :: string
  si_port :: int
  si_status :: string
  si_url :: string
  si_details :: json

definition servicesToPing :: "(string \<times> string \<times> int) list" where
  "servicesToPing =
     [(''API Gateway'', ''http://localhost:3000/health'', 3000), (''Backup Orchestrator'', ''http://localhost:3001/health'', 3001),
      (''Scheduler Service'', ''http://localhost:3020/health'', 3020), (''Storage Service'', ''http://localhost:3030/health'', 3030),
      (''Notification Service'', ''http://localhost:3040/health'', 3040), (''PostgreSQL Service'', ''http://localhost:3010/health'', 3010),
      (''MySQL Service'', ''http://localhost:3011/health'', 3011), (''MongoDB Service'', ''http://localhost:3012/health'', 3012),
      (''SQLite Service'', ''http://localhost:3013/health'', 3013)]"

definition ping_service :: "world \<Rightarrow> string \<times> string \<times> int \<Rightarrow> (proc, service_item) prog" where
  "ping_service W svc = (case svc of (name, url, pt) \<Rightarrow> bnd (ask W (axios_get url 2500)) (\<lambda>x. ret (case x of
     Inr v \<Rightarrow> \<lparr>si_name = name, si_port = pt, si_status = (if jget v ''status'' = Some (JNum 200) then ''healthy'' else ''degraded''),
       si_url = url, si_details = or_null (jget v ''data'')\<rparr>
   | Inl _ \<Rightarrow> \<lparr>si_name = name, si_port = pt, si_status = ''unhealthy'', si_url = url, si_details = JObj [(''error'', JStr ''Service unreachable'')]\<rparr>)))"

fun ping_services :: "world \<Rightarrow> (string \<times> string \<times> int) list \<Rightarrow> (proc, service_item list) prog" where
  "ping_services W [] = ret []"
| "ping_services W (svc # svcs) = bnd (ping_service W svc) (\<lambda>i. bnd (ping_services W svcs) (\<lambda>rest. ret (i # rest)))"

record system_health =
  sh_status :: string
  sh_services :: "service_item list"
  sh_workers :: "json list"
  sh_redis :: bool

definition worker_json :: "bool \<Rightarrow> string \<Rightarrow> json \<Rightarrow> json \<Rightarrow> json" where
  "worker_json redis name concurrency active = JObj [(''name'', JStr name), (''concurrency'', concurrency), (''activeCount'', active),
     (''status'', JStr (if redis then ''running'' else ''offline''))]"

definition overall_status :: "bool \<Rightarrow> service_item list \<Rightarrow> string" where
  "overall_status redis services = (let unhealthyCount = length (filter (\<lambda>s. si_status s = ''unhealthy'') services) in
     if \<not> redis \<or> unhealthyCount \<ge> 3 then ''critical'' else if unhealthyCount > 0 then ''degraded'' else ''healthy'')"

definition MAX_CONCURRENT :: "dash_env \<Rightarrow> json" where
  "MAX_CONCURRENT D = env_int (we_var (de_worker D)) ''MAX_CONCURRENT_BACKUPS'' ''3''"

definition getSystemHealth :: "dash_env \<Rightarrow> world \<Rightarrow> (proc, system_health) prog" where
  "getSystemHealth D W = bnd (ping_services W servicesToPing) (\<lambda>services.
     let redis = (ge_redis (de_gw D) = ''ready'' \<or> ge_redis (de_gw D) = ''connect'') in
     bnd (getQueueStats D W) (\<lambda>q.
     ret \<lparr>sh_status = overall_status redis services, sh_services = services,
       sh_workers = [worker_json redis ''Backup Worker'' (MAX_CONCURRENT D) (qc_active (st_backup q)),
         worker_json redis ''Storage Worker'' (env_int (we_var (de_worker D)) ''MAX_CONCURRENT_STORAGE'' ''5'') (qc_active (st_storage q)),
         worker_json redis ''Notification Worker'' (JNum 10) (qc_active (st_notification q))],
       sh_redis = redis\<rparr>))"

definition service_json :: "dash_env \<Rightarrow> service_item \<Rightarrow> json" where
  "service_json D s = JObj [(''name'', JStr (si_name s)), (''port'', JNum (si_port s)), (''status'', JStr (si_status s)), (''url'', JStr (si_url s)),
     (''responseTimeMs'', de_elapsed D), (''details'', si_details s)]"

definition health_json :: "dash_env \<Rightarrow> system_health \<Rightarrow> json" where
  "health_json D h = JObj [(''status'', JStr (sh_status h)), (''services'', JArr (map (service_json D) (sh_services h))), (''workers'', JArr (sh_workers h)),
     (''redisConnected'', JBool (sh_redis h)), (''timestamp'', JStr (nowStr D))]"

section \<open>Alerts\<close>

definition alert :: "string \<Rightarrow> string \<Rightarrow> string \<Rightarrow> string \<Rightarrow> string \<Rightarrow> string \<Rightarrow> string \<Rightarrow> json" where
  "alert i kind title message action timestamp source = JObj [(''id'', JStr i), (''type'', JStr kind), (''title'', JStr title), (''message'', JStr message),
     (''humanizedAction'', JStr action), (''timestamp'', JStr timestamp), (''source'', JStr source)]"

definition failed_alert :: "dash_env \<Rightarrow> json \<Rightarrow> json" where
  "failed_alert D job = alert (''failed-job-'' @ tpl (jget job ''id'')) ''error'' (''Backup Failed: '' @ tpl (jget job ''dbType'') @ ''/'' @ tpl (jget job ''dbName''))
     (humanizeError (jget job ''error'')) ''Check database connectivity and credentials in CLI'' (or_s (toIso D (jget job ''startedAt'')) (nowStr D)) ''Backup Execution''"

text \<open>\<open>waiting >= MAX_QUEUE_SIZE * 0.8\<close> on integers.\<close>

definition nearly_full :: "json \<Rightarrow> json \<Rightarrow> bool" where
  "nearly_full waiting limit = (case (waiting, limit) of (JNum w, JNum m) \<Rightarrow> 10 * w \<ge> 8 * m | _ \<Rightarrow> False)"

definition queue_alerts :: "dash_env \<Rightarrow> world \<Rightarrow> (proc, json list) prog" where
  "queue_alerts D W = bnd (ask W (QAsk (BACKUP_QUEUE (de_worker D)) ''getWaitingCount'' JNull)) (\<lambda>x. ret (case x of
     Inl _ \<Rightarrow> []
   | Inr waiting \<Rightarrow> let limit = env_int (we_var (de_worker D)) ''MAX_QUEUE_SIZE'' ''50'' in
       if nearly_full waiting limit
       then [alert ''queue-saturation'' ''warning'' ''Queue Saturation Warning''
         (''Backup queue is '' @ str_int (de_percent D (js_int (Some waiting)) (js_int (Some limit))) @ ''% full ('' @ js_String waiting @ ''/'' @ js_String limit @ '' jobs waiting).'')
         ''Wait for current backups to finish before submitting new CLI backup commands.'' (nowStr D) ''BullMQ Queue Manager'']
       else []))"

definition offline_alert :: "dash_env \<Rightarrow> service_item \<Rightarrow> json" where
  "offline_alert D s = alert (''svc-offline-'' @ si_name s) ''warning'' (''Service Offline: '' @ si_name s)
     (''Service at '' @ si_url s @ '' did not respond to health check.'') ''Inspect container logs via \"dbvault logs\" or run \"dbvault restart\"'' (nowStr D) ''System Health Check''"

definition getAlerts :: "dash_env \<Rightarrow> world \<Rightarrow> (proc, json list) prog" where
  "getAlerts D W = bnd (findRecentFailedJobs (we_client (de_worker D)) W (day_ago D) 5) (\<lambda>jobs.
     bnd (lift_res (rows_of ''failedJobs'' jobs)) (\<lambda>failed.
     bnd (queue_alerts D W) (\<lambda>full.
     bnd (getSystemHealth D W) (\<lambda>h.
       ret (map (failed_alert D) failed @ full @ map (offline_alert D) (filter (\<lambda>s. si_status s \<noteq> ''healthy'') (sh_services h)))))))"

section \<open>Summary\<close>

definition success_rate :: "dash_env \<Rightarrow> json \<Rightarrow> json \<Rightarrow> json" where
  "success_rate D t24 f24 = (case (t24, f24) of
     (JNum t, JNum f) \<Rightarrow> JNum (if t > 0 then de_percent D (max 0 (t - f)) t else 100) | _ \<Rightarrow> JNaN)"

definition catch_zero :: "(proc, json) prog \<Rightarrow> (proc, json) prog" where
  "catch_zero m = try_catch m (\<lambda>_. ret (JNum 0))"

definition some_failed :: "json \<Rightarrow> bool" where
  "some_failed n \<longleftrightarrow> (case n of JNum k \<Rightarrow> k > 0 | _ \<Rightarrow> False)"

definition health_or_null :: "dash_env \<Rightarrow> world \<Rightarrow> (proc, system_health option) prog" where
  "health_or_null D W = try_catch (bnd (getSystemHealth D W) (\<lambda>h. ret (Some h))) (\<lambda>_. ret None)"

definition system_status :: "system_health option \<Rightarrow> json \<Rightarrow> queue_stats \<Rightarrow> string" where
  "system_status h failed q = (case h of Some x \<Rightarrow> sh_status x
     | None \<Rightarrow> if some_failed failed \<or> some_failed (qc_failed (st_backup q)) then ''degraded'' else ''healthy'')"

definition getSummary :: "dash_env \<Rightarrow> world \<Rightarrow> (proc, json) prog" where
  "getSummary D W = (let C = we_client (de_worker D) in
     bnd (getActiveBackups D W) (\<lambda>active. bnd (getQueueStats D W) (\<lambda>q.
     bnd (catch_zero (countJobsSince C W (day_ago D) None)) (\<lambda>total.
     bnd (catch_zero (countJobsSince C W (day_ago D) (Some [''failed'', ''FAILED'']))) (\<lambda>failed.
     bnd (health_or_null D W) (\<lambda>h. bnd (getAlerts D W) (\<lambda>alerts.
     ret (JObj [(''activeBackupsCount'', JNum (int (length active))), (''maxConcurrencyLimit'', MAX_CONCURRENT D),
       (''activeConcurrencyCount'', or_j (Some (qc_active (st_backup q))) (JNum (int (length active)))), (''queueStats'', stats_json q),
       (''successRate24h'', success_rate D total failed), (''totalBackups24h'', total), (''failedBackups24h'', failed),
       (''systemStatus'', JStr (system_status h failed q)), (''alertsCount'', JNum (int (length alerts))), (''timestamp'', JStr (nowStr D))]))))))))"

section \<open>History and logs\<close>

record history_query =
  hq_status :: "string option"
  hq_dbType :: "string option"
  hq_search :: "string option"
  hq_limit :: "json option"
  hq_page :: "json option"

text \<open>\<open>Math.min(m, Math.max(1, x || d))\<close>; \<open>NaN\<close> is falsy.\<close>

definition num_default :: "json option \<Rightarrow> int \<Rightarrow> int" where
  "num_default x d = (case x of Some (JNum n) \<Rightarrow> if n = 0 then d else n | _ \<Rightarrow> d)"

definition page_limit :: "history_query \<Rightarrow> int" where
  "page_limit q = min 100 (max 1 (num_default (hq_limit q) 20))"

definition page_no :: "history_query \<Rightarrow> int" where
  "page_no q = max 1 (num_default (hq_page q) 1)"

definition wanted :: "string option \<Rightarrow> bool" where
  "wanted x \<longleftrightarrow> truthy_s x \<and> x \<noteq> Some ''all''"

definition contains_any :: "string \<Rightarrow> json" where
  "contains_any q = JArr (map (\<lambda>k. JObj [(k, JObj [(''contains'', JStr q)])]) [''id'', ''dbName'', ''fileName'', ''backupName''])"

definition history_where :: "history_query \<Rightarrow> json" where
  "history_where q = jobj
     [(''status'', if wanted (hq_status q) then (let s = js_trim (the (hq_status q)) in
         Some (JObj [(''in'', JArr [JStr (js_lower s), JStr (js_upper s)])])) else None),
      (''dbType'', if wanted (hq_dbType q) then Some (JStr (js_lower (the (hq_dbType q)))) else None),
      (''OR'', if truthy_s (hq_search q) \<and> js_trim (the (hq_search q)) \<noteq> '''' then Some (contains_any (js_trim (the (hq_search q)))) else None)]"

definition history_item :: "dash_env \<Rightarrow> json \<Rightarrow> json" where
  "history_item D job = jobj [(''id'', jget job ''id''), (''dbType'', jget job ''dbType''), (''dbName'', jget job ''dbName''),
     (''backupType'', jget job ''backupType''), (''status'', jget job ''status''),
     (''startedAt'', Some (JStr (or_s (toIso D (jget job ''startedAt'')) (nowStr D)))),
     (''completedAt'', Some (case toIso D (jget job ''completedAt'') of None \<Rightarrow> JNull | Some t \<Rightarrow> JStr t)),
     (''durationSeconds'', Some (or_j (jget job ''duration'') JNull)), (''fileSizeBytes'', Some (or_j (jget job ''fileSize'') JNull)),
     (''formattedSize'', Some (JStr (formatBytes D (jget job ''fileSize'')))), (''fileName'', jget job ''fileName''), (''filePath'', jget job ''filePath''),
     (''storageType'', Some (storage_type_of job)), (''storageName'', Some (storage_name_of job)), (''error'', jget job ''error''),
     (''humanError'', Some (if truthy_j (jget job ''error'') then JStr (humanizeError (jget job ''error'')) else JNull)), (''metadata'', jget job ''metadata'')]"

definition getBackupHistory :: "dash_env \<Rightarrow> world \<Rightarrow> history_query \<Rightarrow> (proc, json) prog" where
  "getBackupHistory D W q = (let C = we_client (de_worker D); limit = page_limit q; page = page_no q; w = history_where q in
     bnd (repo_findManyJobs C W w (Some limit) (Some ((page - 1) * limit)) (Some ''desc'')) (\<lambda>jobs.
     bnd (countJobs C W w) (\<lambda>total.
     bnd (lift_res (rows_of ''jobs'' jobs)) (\<lambda>rows.
     ret (JObj [(''backups'', JArr (map (history_item D) rows)), (''total'', total), (''page'', JNum page), (''limit'', JNum limit)])))))"

record logs_query =
  lq_level :: "string option"
  lq_jobId :: "string option"
  lq_search :: "string option"
  lq_limit :: "json option"

definition logs_where :: "logs_query \<Rightarrow> json" where
  "logs_where q = jobj
     [(''level'', if truthy_s (lq_level q) \<and> lq_level q \<noteq> Some ''ALL'' then Some (JStr (js_upper (the (lq_level q)))) else None),
      (''backupJobId'', if truthy_s (lq_jobId q) \<and> js_trim (the (lq_jobId q)) \<noteq> '''' then Some (JStr (js_trim (the (lq_jobId q)))) else None),
      (''message'', if truthy_s (lq_search q) \<and> js_trim (the (lq_search q)) \<noteq> ''''
         then Some (JObj [(''contains'', JStr (js_trim (the (lq_search q))))]) else None)]"

definition log_item :: "dash_env \<Rightarrow> json \<Rightarrow> json" where
  "log_item D l = jobj [(''id'', jget l ''id''), (''backupJobId'', jget l ''backupJobId''),
     (''timestamp'', Some (JStr (or_s (toIso D (jget l ''timestamp'')) (nowStr D)))),
     (''level'', Some (JStr (or_s (map_option js_upper (text_column (Some l) ''level'')) ''INFO''))), (''message'', jget l ''message''), (''details'', jget l ''details'')]"

definition dash_getLogs :: "dash_env \<Rightarrow> world \<Rightarrow> logs_query \<Rightarrow> (proc, json list) prog" where
  "dash_getLogs D W q = bnd (findLogs (we_client (de_worker D)) W (logs_where q) (Some (min 200 (max 1 (num_default (lq_limit q) 50))))) (\<lambda>logs.
     bnd (lift_res (rows_of ''logs'' (Some logs))) (\<lambda>rows. ret (map (log_item D) rows)))"

section \<open>Cancelling and triggering\<close>

definition cancelWaitingJob :: "dash_env \<Rightarrow> world \<Rightarrow> string \<Rightarrow> (proc, json) prog" where
  "cancelWaitingJob D W i = (let q = BACKUP_QUEUE (de_worker D) in
     bnd (run_call W (QAsk q ''getJob'' (JStr i))) (\<lambda>queueJob.
     if \<not> truthy_j (Some queueJob) then throw (new_Error (''Job '' @ i @ '' not found in backup queue''))
     else bnd (run_call W (QAsk q ''getState'' (JStr i))) (\<lambda>state.
       if state \<noteq> JStr ''waiting'' \<and> state \<noteq> JStr ''delayed''
       then throw (new_Error (''Only WAITING or DELAYED jobs can be safely cancelled. Current job state is '' @ quoted (js_String state) @ ''.''))
       else seqp (unit_call W (QAsk q ''remove'' (JStr i)))
           (seqp (set_job (de_worker D) W i (JObj [(''status'', JStr ''CANCELLED''), (''completedAt'', JStr (nowStr D)),
              (''error'', JStr ''Cancelled by operator via Dashboard while waiting in queue.'')]))
             (ret (JObj [(''success'', JBool True), (''message'', JStr (''Job '' @ i @ '' was removed from the waiting queue safely.''))]))))))"

record trigger_payload =
  tp_dbType :: "string option"
  tp_dbName :: "string option"
  tp_backupType :: "string option"
  tp_storageType :: "string option"

definition trigger_body :: "dash_env \<Rightarrow> trigger_payload \<Rightarrow> json" where
  "trigger_body D p = (let dbName = or_s (tp_dbName p) ''appdb''; backupType = or_s (tp_backupType p) ''full''; st = or_s (tp_storageType p) ''local'' in
     JObj [(''dbConfig'', JObj [(''type'', JStr (js_lower (or_s (tp_dbType p) ''postgresql''))), (''database'', JStr dbName)]),
       (''backupType'', JStr backupType),
       (''options'', JObj [(''backupName'', JStr (dbName @ ''_'' @ backupType @ ''_'' @ str_int (ge_now (de_gw D)))),
          (''storage'', JObj [(''name'', JStr st), (''type'', JStr st)])])])"

definition trigger_error :: "failure \<Rightarrow> js_error" where
  "trigger_error f = new_Error (js_String (first_truthy
     [case f_response f of None \<Rightarrow> None | Some (_, d) \<Rightarrow> jget d ''error'', Some (JStr (f_message f))] (JStr ''Failed to trigger backup'')))"

definition dash_triggerBackup :: "dash_env \<Rightarrow> world \<Rightarrow> trigger_payload \<Rightarrow> (proc, json) prog" where
  "dash_triggerBackup D W p = bnd (http W ''POST'' (or_s (we_var (de_worker D) ''ORCHESTRATOR_URL'') ''http://localhost:3001'' @ ''/backup'') (trigger_body D p)) (\<lambda>x. case x of
     Inl f \<Rightarrow> throw (trigger_error f)
   | Inr v \<Rightarrow> if v = JNull then throw (new_Error (''Cannot read properties of null (reading '' @ quoted ''backupId'' @ '')''))
       else ret (jobj [(''success'', Some (JBool True)), (''backupId'', jget v ''backupId''),
         (''message'', Some (or_j (jget v ''message'') (JStr (''Quick backup triggered for '' @ js_lower (or_s (tp_dbType p) ''postgresql'') @ ''/'' @ or_s (tp_dbName p) ''appdb''))))]))"

section \<open>The controller\<close>

definition dash_reply :: "string \<Rightarrow> int \<Rightarrow> (proc, json) prog \<Rightarrow> (proc, response) prog" where
  "dash_reply what st m = try_catch (bnd m answer) (\<lambda>e. respond st (JObj [(''error'', JStr what), (''message'', JStr (err_message e))]))"

definition query_int :: "json \<Rightarrow> string \<Rightarrow> json option" where
  "query_int q k = (if truthy_j (jget q k) then Some (js_parseInt (js_String (the (jget q k)))) else None)"

definition dash_getSummary :: "dash_env \<Rightarrow> world \<Rightarrow> gw_handler" where
  "dash_getSummary D W r = dash_reply ''Failed to retrieve dashboard summary'' 500 (getSummary D W)"

definition dash_getActiveBackups :: "dash_env \<Rightarrow> world \<Rightarrow> gw_handler" where
  "dash_getActiveBackups D W r = dash_reply ''Failed to retrieve active backups'' 500 (bnd (getActiveBackups D W) (\<lambda>xs. ret (JArr xs)))"

definition dash_getQueues :: "dash_env \<Rightarrow> world \<Rightarrow> gw_handler" where
  "dash_getQueues D W r = dash_reply ''Failed to retrieve queue stats'' 500 (bnd (getQueueStats D W) (\<lambda>s. ret (stats_json s)))"

definition history_query_of :: "json \<Rightarrow> history_query" where
  "history_query_of q = \<lparr>hq_status = text_column (Some q) ''status'', hq_dbType = text_column (Some q) ''dbType'', hq_search = text_column (Some q) ''search'',
     hq_limit = query_int q ''limit'', hq_page = query_int q ''page''\<rparr>"

definition dash_getBackups :: "dash_env \<Rightarrow> world \<Rightarrow> gw_handler" where
  "dash_getBackups D W r = dash_reply ''Failed to retrieve backup history'' 500 (getBackupHistory D W (history_query_of (vr_query (gr_raw r))))"

definition logs_query_of :: "json \<Rightarrow> logs_query" where
  "logs_query_of q = \<lparr>lq_level = text_column (Some q) ''level'', lq_jobId = text_column (Some q) ''jobId'', lq_search = text_column (Some q) ''search'',
     lq_limit = query_int q ''limit''\<rparr>"

definition dash_get_logs :: "dash_env \<Rightarrow> world \<Rightarrow> gw_handler" where
  "dash_get_logs D W r = dash_reply ''Failed to retrieve logs'' 500 (bnd (dash_getLogs D W (logs_query_of (vr_query (gr_raw r)))) (\<lambda>xs. ret (JArr xs)))"

definition dash_getAlerts :: "dash_env \<Rightarrow> world \<Rightarrow> gw_handler" where
  "dash_getAlerts D W r = dash_reply ''Failed to retrieve alerts'' 500 (bnd (getAlerts D W) (\<lambda>xs. ret (JArr xs)))"

definition dash_getHealth :: "dash_env \<Rightarrow> world \<Rightarrow> gw_handler" where
  "dash_getHealth D W r = dash_reply ''Failed to retrieve system health'' 500 (bnd (getSystemHealth D W) (\<lambda>h. ret (health_json D h)))"

definition dash_cancel :: "dash_env \<Rightarrow> world \<Rightarrow> gw_handler" where
  "dash_cancel D W r = dash_reply ''Job cancellation rejected'' 400 (cancelWaitingJob D W (param_id r))"

definition trigger_payload_of :: "json option \<Rightarrow> trigger_payload" where
  "trigger_payload_of b = \<lparr>tp_dbType = text_column b ''dbType'', tp_dbName = text_column b ''dbName'', tp_backupType = text_column b ''backupType'',
     tp_storageType = text_column b ''storageType''\<rparr>"

definition dash_trigger :: "dash_env \<Rightarrow> world \<Rightarrow> gw_handler" where
  "dash_trigger D W r = dash_reply ''Trigger failed'' 400 (dash_triggerBackup D W (trigger_payload_of (vr_body (gr_raw r))))"

end
