(* ===== verification/DashboardCorrect.thy ===== *)
theory DashboardCorrect
  imports Dashboard GatewayCorrect
begin

text \<open>
  What the dashboard shows and does: a search in the history or the logs changes nothing, the pages of the history follow
  one another without gap or overlap, and a record is cancelled only after its job has been taken out of the queue.
\<close>

section \<open>Search\<close>

lemma jget_history_where [simp]:
  "jget (history_where q) ''status'' = (if wanted (hq_status q) then
     Some (JObj [(''in'', JArr [JStr (js_lower (js_trim (the (hq_status q)))), JStr (js_upper (js_trim (the (hq_status q))))])]) else None)"
  "jget (history_where q) ''dbType'' = (if wanted (hq_dbType q) then Some (JStr (js_lower (the (hq_dbType q)))) else None)"
  "jget (history_where q) ''dbName'' = None" "jget (history_where q) ''startedAt'' = None"
  by (simp_all add: history_where_def jget_jobj Let_def)

lemma jget_logs_where:
  "jget (logs_where q) ''level'' = (if truthy_s (lq_level q) \<and> lq_level q \<noteq> Some ''ALL'' then Some (JStr (js_upper (the (lq_level q)))) else None)"
  "jget (logs_where q) ''backupJobId'' = (if truthy_s (lq_jobId q) \<and> js_trim (the (lq_jobId q)) \<noteq> '''' then Some (JStr (js_trim (the (lq_jobId q)))) else None)"
  by (simp_all add: logs_where_def jget_jobj)

text \<open>What the repository and the client look at in a filter.\<close>

lemma repo_findManyJobs_cong:
  assumes "\<forall>k\<in>{''status'', ''dbType'', ''dbName'', ''startedAt''}. jget w k = jget w' k"
  shows "repo_findManyJobs C W w tk sk order = repo_findManyJobs C W w' tk sk order"
  using assms by (simp add: repo_findManyJobs_def repo_status_def Let_def)

lemma countJobs_cong:
  assumes "\<forall>k\<in>{''status'', ''dbType'', ''dbName'', ''startedAt''}. jget w k = jget w' k"
  shows "countJobs C W w = countJobs C W w'"
  using assms by (simp add: countJobs_def)

section \<open>Pages\<close>

text \<open>A metadata service with the rows \<open>rows\<close> for a filter: a listing is a slice of them.\<close>

definition pages_of :: "world \<Rightarrow> json list \<Rightarrow> bool" where
  "pages_of W rows \<longleftrightarrow> (\<forall>l b p. W l (Http ''GET'' (b @ ''/api/jobs'') (with_params p)) = Inr (case (jget p ''take'', jget p ''skip'') of
     (Some (JNum t), Some (JNum k)) \<Rightarrow> JObj [(''jobs'', JArr (take (nat t) (drop (nat k) rows)))]
   | _ \<Rightarrow> JObj [(''count'', JNum (int (length rows)))]))"

lemma request_answered:
  assumes "W (calls s) (Http m (baseUrl s @ path) p) = Inr v"
  shows "request C W m path p what s = (Inr v, s\<lparr>calls := calls s @ [Http m (baseUrl s @ path) p]\<rparr>)"
  using assms by (simp add: request_def request_outcome.simps client_call_def gets_def http_def ask_def bnd_def ret_def)

lemma page_jobs:
  assumes "pages_of W rows"
  shows "\<exists>s'. repo_findManyJobs C W w (Some t) (Some k) order s = (Inr (Some (JArr (take (nat t) (drop (nat k) rows)))), s')"
proof -
  let ?p = "jobj [(''status'', repo_status w), (''dbType'', jget w ''dbType''), (''dbName'', jget w ''dbName''),
      (''since'', oget (jget w ''startedAt'') ''gte''), (''take'', Some (JNum t)), (''skip'', Some (JNum k)),
      (''orderBy'', Some (JStr (if order = Some ''asc'' then ''asc'' else ''desc'')))]"
  let ?q = "case jget ?p ''status'' of Some (JArr xs) \<Rightarrow> jset ?p ''status'' (JStr (js_String (JArr xs))) | _ \<Rightarrow> ?p"
  have "jget ?q ''take'' = Some (JNum t)" "jget ?q ''skip'' = Some (JNum k)"
    by (auto simp: jget_jobj split: option.split json.split)
  then have "W (calls s) (Http ''GET'' (baseUrl s @ ''/api/jobs'') (with_params ?q)) =
      Inr (JObj [(''jobs'', JArr (take (nat t) (drop (nat k) rows)))])"
    using assms by (simp add: pages_of_def)
  then show ?thesis
    by (simp add: repo_findManyJobs_def listJobs_def bnd_def request_answered ret_def)
qed

lemma page_count:
  assumes "pages_of W rows"
  shows "\<exists>n s'. countJobs C W w s = (Inr n, s')"
proof -
  let ?p = "jobj [(''countOnly'', Some (JStr ''true'')), (''status'', map_option count_status (if_truthy (jget w ''status''))),
          (''since'', case jget w ''startedAt'' of None \<Rightarrow> None | Some d \<Rightarrow> if_truthy (jget d ''gte'')),
          (''dbType'', if_truthy (jget w ''dbType'')), (''dbName'', if_truthy (jget w ''dbName''))]"
  have "jget ?p ''take'' = None" by (simp add: jget_jobj)
  then have "W (calls s) (Http ''GET'' (baseUrl s @ ''/api/jobs'') (with_params ?p)) = Inr (JObj [(''count'', JNum (int (length rows)))])"
    using assms by (simp add: pages_of_def)
  then show ?thesis by (simp add: countJobs_def bnd_def request_answered field_or_def ret_def)
qed

definition backups_in :: "js_error + json \<Rightarrow> json list" where
  "backups_in r = (case r of Inl _ \<Rightarrow> [] | Inr v \<Rightarrow> (case jget v ''backups'' of Some (JArr xs) \<Rightarrow> xs | _ \<Rightarrow> []))"

lemma history_page:
  assumes "pages_of W rows"
  shows "backups_in (fst (getBackupHistory D W q s)) =
    map (history_item D) (take (nat (page_limit q)) (drop (nat ((page_no q - 1) * page_limit q)) rows))"
proof -
  obtain s1 where 1: "repo_findManyJobs (we_client (de_worker D)) W (history_where q) (Some (page_limit q)) (Some ((page_no q - 1) * page_limit q))
      (Some ''desc'') s = (Inr (Some (JArr (take (nat (page_limit q)) (drop (nat ((page_no q - 1) * page_limit q)) rows)))), s1)"
    using page_jobs [OF assms] by blast
  obtain n s2 where 2: "countJobs (we_client (de_worker D)) W (history_where q) s1 = (Inr n, s2)" using page_count [OF assms] by blast
  show ?thesis by (simp add: getBackupHistory_def Let_def bnd_def 1 2 rows_of_def lift_res_def ret_def backups_in_def)
qed

lemma page_limit_bounds: "1 \<le> page_limit q" "page_limit q \<le> 100"
  by (simp_all add: page_limit_def)

lemma page_fields [simp]: "page_limit (q\<lparr>hq_page := p\<rparr>) = page_limit q" "page_no (q\<lparr>hq_page := Some (JNum (1 + int n))\<rparr>) = 1 + int n"
  by (simp_all add: page_limit_def page_no_def num_default_def)

lemma slices_concat: "concat (map (\<lambda>p. take l (drop (p * l) xs)) [0..<n]) = take (n * l) xs"
proof (induction n)
  case (Suc n)
  have "take (Suc n * l) xs = take (n * l) xs @ take l (drop (n * l) xs)"
    by (simp only: mult_Suc add.commute [of l "n * l"] take_add)
  with Suc show ?case by simp
qed simp

section \<open>Properties\<close>

text \<open>C39: What is typed into a search field of the dashboard has no effect: the history and the logs make the same requests and
  give the same answer without it. The repository passes on neither the \<open>OR\<close> of the one filter nor the \<open>message\<close> of the other.\<close>

theorem search_ignored:
  "getBackupHistory D W q = getBackupHistory D W (q\<lparr>hq_search := x\<rparr>) \<and> dash_getLogs D W g = dash_getLogs D W (g\<lparr>lq_search := y\<rparr>)"
proof -
  let ?q = "q\<lparr>hq_search := x\<rparr>"
  have "jget (history_where q) k = jget (history_where ?q) k" if "k \<in> {''status'', ''dbType'', ''dbName'', ''startedAt''}" for k
    using that by auto
  then have "repo_findManyJobs C W (history_where q) tk sk ord = repo_findManyJobs C W (history_where ?q) tk sk ord"
    and "countJobs C W (history_where q) = countJobs C W (history_where ?q)" for C tk sk ord
    by (blast intro: repo_findManyJobs_cong countJobs_cong)+
  then have "getBackupHistory D W q = getBackupHistory D W ?q" by (simp add: getBackupHistory_def Let_def page_limit_def page_no_def)
  moreover have "dash_getLogs D W g = dash_getLogs D W (g\<lparr>lq_search := y\<rparr>)" by (simp add: dash_getLogs_def findLogs_def jget_logs_where)
  ultimately show ?thesis ..
qed

text \<open>C9: The pages of the history partition it: reading the pages 1 to n one after another gives the first \<open>n\<close> times \<open>limit\<close> rows,
  each once and in order, where the limit is between 1 and 100 whatever the request says.\<close>

theorem history_pages_partition:
  assumes "pages_of W rows"
  shows "concat (map (\<lambda>p. backups_in (fst (getBackupHistory D W (q\<lparr>hq_page := Some (JNum (int (Suc p)))\<rparr>) s))) [0..<n]) =
    map (history_item D) (take (n * nat (page_limit q)) rows)"
proof -
  have "backups_in (fst (getBackupHistory D W (q\<lparr>hq_page := Some (JNum (int (Suc p)))\<rparr>) s)) =
      map (history_item D) (take (nat (page_limit q)) (drop (p * nat (page_limit q)) rows))" for p
    using history_page [OF assms, of D "q\<lparr>hq_page := Some (JNum (int (Suc p)))\<rparr>" s] page_limit_bounds(1) [of q]
    by (simp add: nat_mult_distrib)
  then have "concat (map (\<lambda>p. backups_in (fst (getBackupHistory D W (q\<lparr>hq_page := Some (JNum (int (Suc p)))\<rparr>) s))) [0..<n]) =
      concat (map (\<lambda>p. map (history_item D) (take (nat (page_limit q)) (drop (p * nat (page_limit q)) rows))) [0..<n])" by simp
  also have "\<dots> = map (history_item D) (concat (map (\<lambda>p. take (nat (page_limit q)) (drop (p * nat (page_limit q)) rows)) [0..<n]))"
    by (simp add: map_concat comp_def)
  also have "\<dots> = map (history_item D) (take (n * nat (page_limit q)) rows)" by (simp only: slices_concat)
  finally show ?thesis .
qed

definition five_rows :: "json list" where
  "five_rows = map (\<lambda>i. JObj [(''id'', JStr i)]) [''a'', ''b'', ''c'', ''d'', ''e'']"

definition paged_world :: world where
  "paged_world l c = (case c of
     Http m u p \<Rightarrow> (case jget p ''params'' of Some x \<Rightarrow> Inr (case (jget x ''take'', jget x ''skip'') of
         (Some (JNum t), Some (JNum k)) \<Rightarrow> JObj [(''jobs'', JArr (take (nat t) (drop (nat k) five_rows)))]
       | _ \<Rightarrow> JObj [(''count'', JNum (int (length five_rows)))]) | None \<Rightarrow> Inr JNull)
   | _ \<Rightarrow> Inr JNull)"

definition two_a_page :: history_query where
  "two_a_page = \<lparr>hq_status = None, hq_dbType = None, hq_search = None, hq_limit = Some (JNum 2), hq_page = None\<rparr>"

theorem history_pages_partition_witness:
  "\<forall>D s. concat (map (\<lambda>p. backups_in (fst (getBackupHistory D paged_world (two_a_page\<lparr>hq_page := Some (JNum (int (Suc p)))\<rparr>) s))) [0..<3]) =
    map (history_item D) five_rows"
proof (intro allI)
  fix D s
  have "pages_of paged_world five_rows" by (simp add: pages_of_def paged_world_def with_params_def)
  from history_pages_partition [OF this, of D two_a_page s 3]
  show "concat (map (\<lambda>p. backups_in (fst (getBackupHistory D paged_world (two_a_page\<lparr>hq_page := Some (JNum (int (Suc p)))\<rparr>) s))) [0..<3]) =
      map (history_item D) five_rows"
    by (simp add: page_limit_def two_a_page_def num_default_def five_rows_def)
qed

text \<open>C10: The dashboard touches the record of a job only after the queue has named the job waiting or delayed and has taken it out. In
  every other case (job not found, running or finished, queue unreachable, removal refused) no request is made to the metadata service.\<close>

theorem cancel_only_after_removal:
  assumes "cancelWaitingJob D W i s = (r, s')" and "Http m u p \<in> set (drop (length (calls s)) (calls s'))"
  shows "\<exists>st v. W (calls s @ [QAsk (BACKUP_QUEUE (de_worker D)) ''getJob'' (JStr i)]) (QAsk (BACKUP_QUEUE (de_worker D)) ''getState'' (JStr i)) = Inr (JStr st) \<and>
    st \<in> {''waiting'', ''delayed''} \<and>
    W (calls s @ [QAsk (BACKUP_QUEUE (de_worker D)) ''getJob'' (JStr i), QAsk (BACKUP_QUEUE (de_worker D)) ''getState'' (JStr i)])
      (QAsk (BACKUP_QUEUE (de_worker D)) ''remove'' (JStr i)) = Inr v"
proof -
  let ?q = "BACKUP_QUEUE (de_worker D)"
  let ?get = "QAsk ?q ''getJob'' (JStr i)" and ?state = "QAsk ?q ''getState'' (JStr i)" and ?remove = "QAsk ?q ''remove'' (JStr i)"
  note defs = cancelWaitingJob_def Let_def bnd_def run_call_def unit_call_def ask_def ret_def throw_def
  show ?thesis
  proof (cases "W (calls s) ?get")
    case (Inl f)
    with assms show ?thesis by (auto simp: defs)
  next
    case get: (Inr job)
    show ?thesis
    proof (cases "W (calls s @ [?get]) ?state")
      case (Inl f)
      with assms get show ?thesis by (auto simp: defs split: if_splits)
    next
      case state: (Inr st)
      show ?thesis
      proof (cases "W (calls s @ [?get, ?state]) ?remove")
        case (Inl f)
        with assms get state show ?thesis by (auto simp: defs split: if_splits)
      next
        case (Inr v)
        with assms get state show ?thesis by (auto simp: defs split: if_splits)
      qed
    qed
  qed
qed

definition sample_dash :: dash_env where
  "sample_dash = \<lparr>de_gw = sample_gateway, de_worker = \<lparr>we_client = ge_client sample_gateway, we_var = (\<lambda>_. None), we_now = JNull, we_seconds = JNull,
     we_stringify = js_String, we_fixed = js_String, we_megabytes = js_String\<rparr>, de_date = (\<lambda>_. None), de_percent = (\<lambda>a b. a * 100 div b),
     de_size = str_int, de_elapsed = JNum 1\<rparr>"

definition queue_world :: world where
  "queue_world l c = (case c of QAsk q what x \<Rightarrow> Inr (if what = ''getState'' then JStr ''waiting'' else JBool True) | _ \<Rightarrow> Inr (JObj []))"

theorem cancel_only_after_removal_witness:
  "\<exists>st v. queue_world [QAsk ''backup-queue'' ''getJob'' (JStr ''j'')] (QAsk ''backup-queue'' ''getState'' (JStr ''j'')) = Inr (JStr st) \<and>
    st \<in> {''waiting'', ''delayed''} \<and>
    queue_world [QAsk ''backup-queue'' ''getJob'' (JStr ''j''), QAsk ''backup-queue'' ''getState'' (JStr ''j'')]
      (QAsk ''backup-queue'' ''remove'' (JStr ''j'')) = Inr v"
proof -
  have q: "BACKUP_QUEUE (de_worker sample_dash) = ''backup-queue''" by (simp add: BACKUP_QUEUE_def sample_dash_def)
  have "\<exists>r s' p. cancelWaitingJob sample_dash queue_world ''j'' gw_proc = (r, s') \<and>
      Http ''PATCH'' ''http://127.0.0.1:3005/api/jobs/j'' p \<in> set (calls s')"
    by (simp add: cancelWaitingJob_def Let_def bnd_def run_call_def unit_call_def ask_def ret_def q queue_world_def set_job_def updateJob_def
        request_answered gw_proc_def encodeURIComponent_def uri_safe_def)
  then obtain r s' p where "cancelWaitingJob sample_dash queue_world ''j'' gw_proc = (r, s')"
    and "Http ''PATCH'' ''http://127.0.0.1:3005/api/jobs/j'' p \<in> set (drop (length (calls gw_proc)) (calls s'))"
    by (auto simp: gw_proc_def)
  from cancel_only_after_removal [OF this] show ?thesis by (simp add: q gw_proc_def)
qed

end
