(* ===== verification/NotificationService.thy ===== *)
theory NotificationService
  imports WorkerCorrect MetadataService
begin

text \<open>
  \<open>microservices/notification-service/index.ts\<close>: the notification service with its two test endpoints, and what a request
  delivers. The webhook of Slack and the mail transport are calls; bodies have passed \<open>NotificationRequestSchema\<close>.
\<close>

section \<open>Delivery\<close>

definition slack_required :: js_error where
  "slack_required = new_Error ''Slack webhook URL is required''"

definition sendSlackNotification :: "world \<Rightarrow> json \<Rightarrow> json \<Rightarrow> (proc, json) prog" where
  "sendSlackNotification W config message = (let webhookUrl = or_j (jget config ''webhookUrl'') (or_j (jget config ''webhook'') JNull) in
     if \<not> truthy_j (Some webhookUrl) then throw slack_required
     else seqp (unit_call W (Other ''slack'' (jobj [(''url'', Some webhookUrl), (''text'', jget message ''text''),
         (''attachments'', Some (or_j (jget message ''attachments'') (JArr []))), (''blocks'', if truthy_j (jget message ''blocks'') then jget message ''blocks'' else None)])))
       (ret (JObj [(''success'', JBool True), (''platform'', JStr ''slack'')])))"

definition notify_smtp_port :: "worker_env \<Rightarrow> json option \<Rightarrow> json" where
  "notify_smtp_port E p = js_parseInt (js_String (first_truthy [p, env_json E ''SMTP_PORT''] (JStr ''587'')))"

definition smtp_secure :: "worker_env \<Rightarrow> bool" where
  "smtp_secure E \<longleftrightarrow> we_var E ''SMTP_SECURE'' = Some ''true''"

definition service_smtp :: "worker_env \<Rightarrow> json \<Rightarrow> json" where
  "service_smtp E config = JObj [(''host'', first_truthy [jget config ''smtpHost'', env_json E ''SMTP_HOST''] (JStr ''smtp.gmail.com'')),
     (''port'', notify_smtp_port E (jget config ''smtpPort'')),
     (''secure'', first_truthy [jget config ''smtpSecure'', Some (JBool (smtp_secure E))] (JBool False)),
     (''auth'', JObj [(''user'', first_truthy [jget config ''username'', jget config ''smtpUser'', env_json E ''SMTP_USER''] JNull),
        (''pass'', first_truthy [jget config ''password'', jget config ''smtpPassword'', env_json E ''SMTP_PASS''] JNull)])]"

definition has_login :: "json \<Rightarrow> bool" where
  "has_login smtp \<longleftrightarrow> truthy_j (oget (jget smtp ''auth'') ''user'') \<and> truthy_j (oget (jget smtp ''auth'') ''pass'')"

definition or_undefined :: "json option list \<Rightarrow> json option" where
  "or_undefined xs = (let v = first_truthy xs JNull in if truthy_j (Some v) then Some v else None)"

definition sendEmailNotification :: "worker_env \<Rightarrow> world \<Rightarrow> json \<Rightarrow> json \<Rightarrow> (proc, json) prog" where
  "sendEmailNotification E W config message = (let smtp = service_smtp E config in
     if \<not> has_login smtp then throw (new_Error ''SMTP credentials are required. Please configure email notification.'')
     else bnd (html_of message) (\<lambda>html.
       bnd (run_call W (Other ''sendMail'' (jobj [(''transport'', Some smtp),
           (''from'', Some (first_truthy [jget config ''from'', env_json E ''SMTP_FROM''] (or_null (oget (jget smtp ''auth'') ''user'')))),
           (''to'', or_undefined [jget config ''to'', env_json E ''SMTP_TO'']),
           (''subject'', Some (or_j (jget message ''subject'') (JStr ''DB Backup Notification''))), (''text'', jget message ''text''), (''html'', html)]))) (\<lambda>info.
       ret (jobj [(''success'', Some (JBool True)), (''platform'', Some (JStr ''email'')), (''messageId'', jget info ''messageId'')]))))"

text \<open>The audit record; its failure is only logged.\<close>

definition service_audit :: "worker_env \<Rightarrow> json \<Rightarrow> json option \<Rightarrow> json \<Rightarrow> json \<Rightarrow> json" where
  "service_audit E type backupId config message = jobj
     [(''backupJobId'', Some (or_j backupId JNull)), (''type'', Some type), (''status'', Some (JStr ''sent'')),
      (''recipient'', or_undefined [jget config ''recipient'', jget config ''channel'', jget config ''to'', jget config ''webhookUrl'']),
      (''subject'', jget message ''subject''), (''message'', jget message ''text''), (''sentAt'', Some (we_now E))]"

definition deliver :: "worker_env \<Rightarrow> world \<Rightarrow> json \<Rightarrow> json \<Rightarrow> json \<Rightarrow> (proc, json) prog" where
  "deliver E W type config message =
     (if type = JStr ''slack'' then sendSlackNotification W config message
      else if type = JStr ''email'' then sendEmailNotification E W config message
      else throw (new_Error (''Unsupported notification type: '' @ js_String type)))"

definition sendNotification :: "worker_env \<Rightarrow> world \<Rightarrow> json \<Rightarrow> json option \<Rightarrow> json \<Rightarrow> json \<Rightarrow> (proc, json) prog" where
  "sendNotification E W type backupId config message = bnd (deliver E W type config message) (\<lambda>result.
     seqp (ignore_errors (seqp (recordNotification (we_client E) W (service_audit E type backupId config message)) (ret ()))) (ret result))"

section \<open>Handlers\<close>

definition notify_failed :: "js_error \<Rightarrow> ('s, response) prog" where
  "notify_failed e = respond 500 (JObj [(''success'', JBool False), (''error'', JStr (err_message e))])"

definition post_notify :: "worker_env \<Rightarrow> world \<Rightarrow> json \<Rightarrow> (proc, response) prog" where
  "post_notify E W b = try_catch
     (bnd (sendNotification E W (or_null (jget b ''type'')) (jget b ''backupId'') (or_null (jget b ''config'')) (or_null (jget b ''message''))) (\<lambda>result.
        answer (JObj [(''success'', JBool True), (''result'', result)])))
     notify_failed"

definition check_mark :: string where
  "check_mark = [CHR 0xE2, CHR 0x9C, CHR 0x85]"

definition test_message :: "worker_env \<Rightarrow> json \<Rightarrow> json" where
  "test_message E url = JObj [(''url'', url), (''text'', JStr (check_mark @ '' DB Backup CLI - Test Notification'')),
     (''attachments'', JArr [JObj [(''color'', JStr ''#36a64f''), (''title'', JStr (check_mark @ '' Test Notification'')),
        (''text'', JStr ''Your Slack integration is working correctly.''),
        (''fields'', JArr [notice_field ''Time'' (we_now E), notice_field ''Service'' (JStr ''DB Backup CLI'')]),
        (''footer'', JStr ''DB Backup CLI''), (''ts'', we_seconds E)]])]"

definition post_test_slack :: "worker_env \<Rightarrow> world \<Rightarrow> json \<Rightarrow> (proc, response) prog" where
  "post_test_slack E W b = try_catch (let url = first_truthy [jget b ''webhookUrl'', env_json E ''SLACK_WEBHOOK_URL''] JNull in
     if \<not> truthy_j (Some url) then throw slack_required
     else seqp (unit_call W (Other ''slack'' (test_message E url)))
       (answer (JObj [(''success'', JBool True), (''message'', JStr ''Test Slack notification sent'')])))
     notify_failed"

definition test_smtp :: "worker_env \<Rightarrow> json" where
  "test_smtp E = jobj [(''host'', Some (first_truthy [env_json E ''SMTP_HOST''] (JStr ''smtp.gmail.com''))), (''port'', Some (notify_smtp_port E None)),
     (''secure'', Some (JBool (smtp_secure E))), (''auth'', Some (jobj [(''user'', env_json E ''SMTP_USER''), (''pass'', env_json E ''SMTP_PASS'')]))]"

definition test_mail_text :: string where
  "test_mail_text = ''This is a test email from DB Backup CLI.'' @ newline @ newline @ ''If you received this, your email configuration is working correctly!''"

definition post_test_email :: "worker_env \<Rightarrow> world \<Rightarrow> json \<Rightarrow> (proc, response) prog" where
  "post_test_email E W b = try_catch (let smtp = test_smtp E; to = or_undefined [jget b ''to'', env_json E ''SMTP_TO''] in
     if \<not> has_login smtp then throw (new_Error ''SMTP credentials not configured in environment'')
     else bnd (run_call W (Other ''sendMail'' (jobj [(''transport'', Some smtp),
           (''from'', Some (first_truthy [env_json E ''SMTP_FROM''] (or_null (env_json E ''SMTP_USER'')))), (''to'', to),
           (''subject'', Some (JStr ''DB Backup CLI - Test Email'')), (''text'', Some (JStr test_mail_text)),
           (''html'', Some (JStr ''<h2>DB Backup CLI - Test Email</h2><p>If you received this, your email configuration is working correctly!</p>''))]))) (\<lambda>info.
       answer (jobj [(''success'', Some (JBool True)), (''message'', Some (JStr ''Test email sent'')), (''messageId'', jget info ''messageId''), (''to'', to)])))
     notify_failed"

definition notify_health :: "json \<Rightarrow> json \<Rightarrow> ('s, response) prog" where
  "notify_health version uptime = answer (JObj [(''service'', JStr ''notification-service''), (''status'', JStr ''healthy''), (''version'', version), (''uptime'', uptime)])"

section \<open>What is delivered\<close>

definition delivery :: "call \<Rightarrow> bool" where
  "delivery c \<longleftrightarrow> (\<exists>x. c = Other ''slack'' x \<or> c = Other ''sendMail'' x)"

text \<open>At most one delivery is tried, as the first call; its outcome decides.\<close>

definition one_delivery :: "world \<Rightarrow> call list \<Rightarrow> bool \<Rightarrow> call list \<Rightarrow> bool" where
  "one_delivery W l ok new \<longleftrightarrow> (if ok then \<exists>c v rest. new = c # rest \<and> delivery c \<and> W l c = Inr v \<and> (\<forall>d\<in>set rest. \<not> delivery d)
     else new = [] \<or> (\<exists>c f. new = [c] \<and> delivery c \<and> W l c = Inl f))"

definition tried_once :: "world \<Rightarrow> call list \<Rightarrow> js_error + 'a \<Rightarrow> call list \<Rightarrow> bool" where
  "tried_once W l r new \<longleftrightarrow> one_delivery W l (\<not> isl r) new \<and> length new \<le> 1"

lemma tried_throw: "traces (throw e) (tried_once W)"
  by (rule traces_throw) (simp add: tried_once_def one_delivery_def)

lemma tried_if: "(c \<Longrightarrow> traces m R) \<Longrightarrow> (\<not> c \<Longrightarrow> traces n R) \<Longrightarrow> traces (if c then m else n) R"
  by simp

lemma tried_call:
  assumes "delivery c"
  shows "traces (bnd (run_call W c) (\<lambda>v. ret (g v))) (tried_once W)"
proof (rule tracesI)
  fix s
  show "\<exists>new r b. bnd (run_call W c) (\<lambda>v. ret (g v)) s = (r, s\<lparr>calls := calls s @ new, baseUrl := b\<rparr>) \<and> tried_once W (calls s) r new"
    using assms by (intro exI [of _ "[c]"] exI [of _ "case W (calls s) c of Inl f \<Rightarrow> Inl (error_of f) | Inr v \<Rightarrow> Inr (g v)"] exI [of _ "baseUrl s"])
      (auto simp: bnd_def run_call_def ask_def ret_def throw_def tried_once_def one_delivery_def split: sum.split)
qed

lemma unit_call_ret: "seqp (unit_call W c) (ret x) = bnd (run_call W c) (\<lambda>_. ret x)"
  by (rule ext) (simp add: unit_call_def bnd_def ret_def split: prod.split sum.split)

lemma html_then:
  assumes "\<And>h. traces (k h) (tried_once W)"
  shows "traces (bnd (html_of message) k) (tried_once W)"
proof -
  let ?h = "html_of message :: (proc, json option) prog"
  have "(\<exists>e. ?h = throw e) \<or> (\<exists>h. ?h = ret h)"
    by (auto simp: html_of_def split: option.split json.split)
  then show ?thesis
  proof (elim disjE exE)
    fix e
    assume "?h = throw e"
    then have "bnd ?h k = throw e" by (auto simp: bnd_def throw_def)
    then show ?thesis by (simp only: tried_throw)
  next
    fix h
    assume "?h = ret h"
    then have "bnd ?h k = k h" by (auto simp: bnd_def ret_def)
    with assms show ?thesis by simp
  qed
qed

lemma tried_deliver: "traces (deliver E W type config message) (tried_once W)"
  unfolding deliver_def sendSlackNotification_def sendEmailNotification_def Let_def unit_call_ret
  by (intro tried_if tried_throw tried_call html_then) (auto simp: delivery_def)

lemma only_audit: "only (\<lambda>c. \<not> delivery c) (ignore_errors (seqp (recordNotification C W d) (ret ())))"
  unfolding recordNotification_def by (intro only) (auto simp: delivery_def)

text \<open>C11: A request delivers at most once and the answer tells whether it did. Status 200 means that exactly one message was given to
  Slack or to the mail server, which took it, whatever became of the audit record; status 500 means that none was sent, or that the one
  that was tried was refused, and then nothing is recorded.\<close>

theorem notification_sent_once:
  "\<exists>a new. fst (post_notify E W b s) = Inr a \<and> calls (snd (post_notify E W b s)) = calls s @ new \<and> rs_status a \<in> {200, 500} \<and>
    one_delivery W (calls s) (rs_status a = 200) new"
proof -
  let ?type = "or_null (jget b ''type'')" and ?config = "or_null (jget b ''config'')" and ?message = "or_null (jget b ''message'')"
  let ?audit = "ignore_errors (seqp (recordNotification (we_client E) W (service_audit E ?type (jget b ''backupId'') ?config ?message)) (ret ()))"
  obtain n1 r1 b1 where d: "deliver E W ?type ?config ?message s = (r1, s\<lparr>calls := calls s @ n1, baseUrl := b1\<rparr>)"
    and once: "tried_once W (calls s) r1 n1" by (rule tracesE [OF tried_deliver])
  show ?thesis
  proof (cases r1)
    case (Inl e)
    with d once show ?thesis
      by (auto simp: post_notify_def sendNotification_def try_catch_def bnd_def notify_failed_def respond_def ret_def tried_once_def)
  next
    case (Inr result)
    let ?s = "s\<lparr>calls := calls s @ n1, baseUrl := b1\<rparr>"
    obtain n2 r2 b2 where a: "?audit ?s = (r2, ?s\<lparr>calls := calls ?s @ n2, baseUrl := b2\<rparr>)" and q: "\<forall>c\<in>set n2. \<not> delivery c"
      by (rule tracesE [OF only_audit [unfolded only_def]])
    have "\<not> isl r2" using a by (auto simp: ignore_errors_def try_catch_def ret_def split: prod.splits sum.splits)
    then obtain u where "r2 = Inr u" by (cases r2) auto
    with d a Inr have "fst (post_notify E W b s) = Inr \<lparr>rs_status = 200, rs_body = JObj [(''success'', JBool True), (''result'', result)]\<rparr>"
      and "calls (snd (post_notify E W b s)) = calls s @ n1 @ n2"
      by (auto simp: post_notify_def sendNotification_def try_catch_def bnd_def answer_def respond_def ret_def)
    with once q Inr show ?thesis by (auto simp: tried_once_def one_delivery_def)
  qed
qed

end
