(* ===== verification/ContainerRuntime.thy ===== *)
theory ContainerRuntime
  imports Gateway RestoreWorker Traces
begin

text \<open>
  Starting and stopping the background services: \<open>infrastructure/process-runner.ts\<close>, \<open>infrastructure/types.ts\<close>,
  \<open>infrastructure/docker-compose.adapter.ts\<close> and \<open>infrastructure/docker-runtime.ts\<close>.

  A command is a call \<open>exec\<close> that answers its exit code and output. Time is the sum of what the process has slept and of
  any non-negative time its calls took (\<open>clock\<close>). The state is the log of calls and the fields of the compose adapter.
  Messages for the progress display and printing are left out.
\<close>

section \<open>Time\<close>

fun sleep_ms :: "call \<Rightarrow> int" where
  "sleep_ms (Sleep n) = max 0 n"
| "sleep_ms _ = 0"

text \<open>The calls, the last one first; \<open>lag\<close> is the time the last call took beyond a sleep.\<close>

fun spent :: "(call list \<Rightarrow> nat) \<Rightarrow> call list \<Rightarrow> int" where
  "spent lag [] = 0"
| "spent lag (c # cs) = sleep_ms c + int (lag (c # cs)) + spent lag cs"

definition clock :: "(call list \<Rightarrow> nat) \<Rightarrow> call list \<Rightarrow> int" where
  "clock lag l = spent lag (rev l)"

lemma sleep_ms_nonneg: "0 \<le> sleep_ms c"
  by (cases c) auto

lemma clock_snoc [simp]: "clock lag (l @ [c]) = clock lag l + sleep_ms c + int (lag (c # rev l))"
  by (simp add: clock_def)

lemma clock_mono: "clock lag l \<le> clock lag (l @ k)"
proof (induction k rule: rev_induct)
  case (snoc c k)
  have "clock lag (l @ k) \<le> clock lag ((l @ k) @ [c])" using sleep_ms_nonneg [of c] by (simp add: clock_def)
  with snoc show ?case by simp
qed simp

section \<open>The process runner\<close>

datatype proc_event = Out string | Err string | SpawnError string string | Closed "int option" "string option" | TimerFired | GraceOver

record exec_result =
  er_exit :: int
  er_stdout :: string
  er_stderr :: string

record runner =
  pr_out :: string
  pr_err :: string
  pr_timedOut :: bool
  pr_killed :: bool
  pr_signals :: "string list"

definition new_runner :: runner where
  "new_runner = \<lparr>pr_out = '''', pr_err = '''', pr_timedOut = False, pr_killed = False, pr_signals = []\<rparr>"

definition buffered :: "int \<Rightarrow> string \<Rightarrow> string \<Rightarrow> string" where
  "buffered maxBuffer buf chunk = (if int (length buf) < maxBuffer then buf @ chunk else buf)"

text \<open>Handlers of the child. \<open>kill\<close> tells whether a signal could be sent; \<open>child.killed\<close> is true once one was.\<close>

fun on_event :: "int \<Rightarrow> (string \<Rightarrow> bool) \<Rightarrow> proc_event \<Rightarrow> runner \<Rightarrow> runner" where
  "on_event mb kill (Out c) p = p\<lparr>pr_out := buffered mb (pr_out p) c\<rparr>"
| "on_event mb kill (Err c) p = p\<lparr>pr_err := buffered mb (pr_err p) c\<rparr>"
| "on_event mb kill TimerFired p = p\<lparr>pr_timedOut := True, pr_killed := pr_killed p \<or> kill ''SIGTERM'', pr_signals := pr_signals p @ [''SIGTERM'']\<rparr>"
| "on_event mb kill GraceOver p = (if pr_killed p then p else p\<lparr>pr_killed := kill ''SIGKILL'', pr_signals := pr_signals p @ [''SIGKILL'']\<rparr>)"
| "on_event mb kill _ p = p"

definition close_result :: "string \<Rightarrow> string list \<Rightarrow> int \<Rightarrow> runner \<Rightarrow> int option \<Rightarrow> string option \<Rightarrow> exec_result" where
  "close_result cmd args timeout p code signal =
     (if pr_timedOut p then \<lparr>er_exit = 124, er_stdout = pr_out p,
        er_stderr = ''Process timed out after '' @ str_int timeout @ ''ms: '' @ cmd @ '' '' @ join_with '' '' args\<rparr>
      else \<lparr>er_exit = nullish code (if truthy_s signal then 1 else 0), er_stdout = js_trim (pr_out p), er_stderr = js_trim (pr_err p)\<rparr>)"

text \<open>The promise settles with the first \<open>error\<close> or \<open>close\<close> event; \<open>None\<close> while it is pending.\<close>

fun run_process :: "string \<Rightarrow> string list \<Rightarrow> int \<Rightarrow> int \<Rightarrow> (string \<Rightarrow> bool) \<Rightarrow> proc_event list \<Rightarrow> runner \<Rightarrow> (js_error + exec_result) option \<times> runner" where
  "run_process cmd args timeout mb kill [] p = (None, p)"
| "run_process cmd args timeout mb kill (e # es) p = (case e of
     SpawnError code m \<Rightarrow> (Some (if code = ''ENOENT'' then Inr \<lparr>er_exit = 127, er_stdout = pr_out p, er_stderr = ''Command not found: '' @ cmd\<rparr>
        else Inl (JsError code m)), p)
   | Closed code signal \<Rightarrow> (Some (Inr (close_result cmd args timeout p code signal)), p)
   | _ \<Rightarrow> run_process cmd args timeout mb kill es (on_event mb kill e p))"

text \<open>What the other parts see of it.\<close>

definition exec :: "world \<Rightarrow> string \<Rightarrow> string list \<Rightarrow> json \<Rightarrow> (proc, exec_result) prog" where
  "exec W cmd args opts = bnd (run_call W (Other ''exec'' (JObj [(''command'', JStr cmd), (''args'', JArr (map JStr args)), (''options'', opts)]))) (\<lambda>v.
     ret \<lparr>er_exit = js_int (jget v ''exitCode''), er_stdout = or_s (text_column (Some v) ''stdout'') '''', er_stderr = or_s (text_column (Some v) ''stderr'') ''''\<rparr>)"

definition run_tool_plain :: "world \<Rightarrow> string \<Rightarrow> string list \<Rightarrow> (proc, exec_result) prog" where
  "run_tool_plain W cmd args = exec W cmd args (JObj [])"

definition failed_ok :: "exec_result \<Rightarrow> bool" where
  "failed_ok r \<longleftrightarrow> er_exit r = 0"

definition output_of :: "exec_result \<Rightarrow> string" where
  "output_of r = (if er_stderr r \<noteq> '''' then er_stderr r else er_stdout r)"

section \<open>Environment and errors\<close>

record rt_env =
  rt_var :: "string \<Rightarrow> string option"
  rt_config :: "string \<Rightarrow> string option"
  rt_home :: string
  rt_module :: "string list"
  rt_cwd :: string
  rt_platform :: string
  rt_version :: string
  rt_lag :: "call list \<Rightarrow> nat"
  rt_start :: int
  rt_date :: "string \<Rightarrow> int option"
  rt_parse :: "string \<Rightarrow> json option"

definition rt_clock :: "rt_env \<Rightarrow> call list \<Rightarrow> int" where
  "rt_clock R l = rt_start R + clock (rt_lag R) l"

definition desktop :: "rt_env \<Rightarrow> bool" where
  "desktop R \<longleftrightarrow> rt_platform R = ''win32'' \<or> rt_platform R = ''darwin''"

definition DockerNotInstalled :: "rt_env \<Rightarrow> js_error" where
  "DockerNotInstalled R = JsError ''DOCKER_NOT_INSTALLED'' (''Docker is not installed on this system.'' @ newline @ ''Please install Docker from '' @
     (if rt_platform R = ''win32'' then ''https://docs.docker.com/desktop/setup/install/windows-install/''
      else if rt_platform R = ''darwin'' then ''https://docs.docker.com/desktop/setup/install/mac-install/'' else ''https://docs.docker.com/get-docker/''))"

definition DockerDaemonNotRunning :: "rt_env \<Rightarrow> string \<Rightarrow> js_error" where
  "DockerDaemonNotRunning R message = JsError ''DOCKER_DAEMON_NOT_RUNNING'' (message @ newline @
     (if desktop R then ''Please start Docker Desktop and retry.''
      else ''Please start Docker Desktop or the Docker system service (e.g., '' @ quoted ''sudo systemctl start docker'' @ '') and retry.''))"

definition DockerPermissionDenied :: "string \<Rightarrow> js_error" where
  "DockerPermissionDenied details = JsError ''DOCKER_PERMISSION_DENIED'' (''Docker permission denied.'' @ newline @ details @ newline @
     ''Please ensure your user has permissions to access the Docker daemon socket (e.g. add user to '' @ quoted ''docker'' @ '' group: '' @
     quoted ''sudo usermod -aG docker $USER'' @ '').'')"

definition DockerComposeUnavailable :: js_error where
  "DockerComposeUnavailable = JsError ''DOCKER_COMPOSE_UNAVAILABLE'' (''Docker Compose is unavailable.'' @ newline @
     ''Please install or enable the Docker Compose plugin (e.g., '' @ quoted ''docker compose'' @ '') and retry.'')"

definition ComposeFileNotFound :: "string \<Rightarrow> js_error" where
  "ComposeFileNotFound p = JsError ''COMPOSE_FILE_NOT_FOUND'' (''Docker Compose file could not be located.'' @ newline @ ''Searched location: '' @ p @ newline @
     ''Please reinstall the package or verify the repository structure.'')"

definition PortConflict :: "json \<Rightarrow> js_error" where
  "PortConflict p = JsError ''PORT_CONFLICT'' (''Host port '' @ js_String p @ '' is already in use by another process.'' @ newline @
     ''Please stop the conflicting process or configure a different port using DB_BACKUP_PORT.'')"

definition bullet :: "string \<Rightarrow> string" where
  "bullet s = ''  '' @ [CHR 0xE2, CHR 0x80, CHR 0xA2] @ '' '' @ s"

definition InvalidEngine :: "string \<Rightarrow> js_error" where
  "InvalidEngine engine = JsError ''INVALID_ENGINE'' (''Invalid execution engine: \"'' @ engine @ ''\".'' @ newline @ newline @ ''Supported engines:'' @ newline @
     bullet ''docker (default)'' @ newline @ bullet ''local'')"

definition ImagePull :: "string \<Rightarrow> string \<Rightarrow> js_error" where
  "ImagePull img reason = JsError ''IMAGE_PULL_FAILED'' (''Unable to obtain DB Backup image: \"'' @ img @ ''\".'' @ newline @
     (if reason \<noteq> '''' then ''Reason: '' @ reason @ newline else '''') @ newline @ ''Troubleshooting:'' @ newline @ join_with newline (map bullet
       [''Check internet connectivity'', ''Verify Docker registry authentication (docker login)'', ''Verify the configured image and version'',
        ''You can build the image locally via: docker build -t '' @ img @ '' .'']))"

definition bad_service :: "string \<times> int \<times> string option \<Rightarrow> string" where
  "bad_service x = (case x of (name, pt, e) \<Rightarrow> ''  '' @ [CHR 0xE2, CHR 0x9C, CHR 0x97] @ '' '' @ name @
     (if pt \<noteq> 0 then '' (port '' @ str_int pt @ '')'' else '''') @ '': '' @ or_s e ''Unresponsive'')"

definition InfrastructureTimeout :: "(string \<times> int \<times> string option) list \<Rightarrow> string \<Rightarrow> js_error" where
  "InfrastructureTimeout failed seconds = JsError ''INFRASTRUCTURE_TIMEOUT'' (''Infrastructure startup timed out after '' @ seconds @ ''s.'' @ newline @ newline @
     ''Failing service(s):'' @ newline @ join_with newline (map bad_service failed) @ newline @ newline @ ''Troubleshooting:'' @ newline @
     ''  Inspect service logs: docker compose logs <service-name>'')"

definition round_seconds :: "int \<Rightarrow> string" where
  "round_seconds ms = str_int ((ms + 500) div 1000)"

section \<open>The compose adapter\<close>

record adapter =
  composeCommand :: "string list option"
  cachedComposeFilePath :: "string option"

type_synonym infra = "proc \<times> adapter"

definition getBackupDirectory :: "rt_env \<Rightarrow> world \<Rightarrow> (infra, string) prog" where
  "getBackupDirectory R W = (let d = path_join [rt_home R, ''.db-backup''] in
     bnd (on_fst (exists_file W d)) (\<lambda>there.
     seqp (when_p (\<not> there) (on_fst (ignore_errors (unit_call W (FileOp ''mkdirSync'' [d]))))) (ret d)))"

fun first_file :: "world \<Rightarrow> string list \<Rightarrow> (proc, string option) prog" where
  "first_file W [] = ret None"
| "first_file W (p # ps) = bnd (exists_file W p) (\<lambda>there. if there then ret (Some p) else first_file W ps)"

text \<open>The directory of the module and those above it, without the root, given by their segments.\<close>

definition upward :: "string list \<Rightarrow> string list" where
  "upward segs = map (\<lambda>n. [slash] @ join_with [slash] (take n segs)) (rev [1..<Suc (length segs)])"

definition compose_candidates :: "rt_env \<Rightarrow> string list" where
  "compose_candidates R = concat (map (\<lambda>d. [path_join [d, ''docker-compose.yaml''], path_join [d, ''docker-compose.yml'']]) (upward (rt_module R)))
     @ [path_join [rt_cwd R, ''docker-compose.yaml'']]"

definition set_file_path :: "string \<Rightarrow> (infra, string) prog" where
  "set_file_path p = seqp (modify_st (\<lambda>(s, a). (s, a\<lparr>cachedComposeFilePath := Some p\<rparr>))) (ret p)"

definition cached_file :: "world \<Rightarrow> (infra, string option) prog" where
  "cached_file W = bnd (gets (\<lambda>(s, a). cachedComposeFilePath a)) (\<lambda>c.
     if truthy_s c then bnd (on_fst (exists_file W (the c))) (\<lambda>there. ret (if there then c else None)) else ret None)"

definition resolveComposeFilePath :: "rt_env \<Rightarrow> world \<Rightarrow> string option \<Rightarrow> (infra, string) prog" where
  "resolveComposeFilePath R W custom =
     (if truthy_s custom
      then bnd (on_fst (exists_file W (the custom))) (\<lambda>there.
        if there then set_file_path (path_resolve (rt_cwd R) [the custom]) else throw (ComposeFileNotFound (the custom)))
      else bnd (cached_file W) (\<lambda>c. case c of Some p \<Rightarrow> ret p
        | None \<Rightarrow> bnd (on_fst (first_file W (compose_candidates R))) (\<lambda>f. case f of Some p \<Rightarrow> set_file_path p
            | None \<Rightarrow> throw (ComposeFileNotFound (path_join [[slash] @ join_with [slash] (rt_module R), ''docker-compose.yaml''])))))"

definition tool_works :: "world \<Rightarrow> string \<Rightarrow> string list \<Rightarrow> (proc, bool) prog" where
  "tool_works W cmd args = bnd (run_tool_plain W cmd args) (\<lambda>r. ret (failed_ok r))"

definition isDockerInstalled :: "world \<Rightarrow> (proc, bool) prog" where
  "isDockerInstalled W = tool_works W ''docker'' [''--version'']"

definition docker_server_version :: "string list" where
  "docker_server_version = [''info'', ''--format'', ''{{.ServerVersion}}'']"

definition isDockerDaemonRunning :: "world \<Rightarrow> (proc, bool) prog" where
  "isDockerDaemonRunning W = tool_works W ''docker'' docker_server_version"

definition set_compose :: "string list \<Rightarrow> (infra, string list) prog" where
  "set_compose c = seqp (modify_st (\<lambda>(s, a). (s, a\<lparr>composeCommand := Some c\<rparr>))) (ret c)"

definition getComposeCommand :: "world \<Rightarrow> (infra, string list) prog" where
  "getComposeCommand W = bnd (gets (\<lambda>(s, a). composeCommand a)) (\<lambda>c. case c of Some x \<Rightarrow> ret x
     | None \<Rightarrow> bnd (on_fst (tool_works W ''docker'' [''compose'', ''version''])) (\<lambda>v2.
         if v2 then set_compose [''docker'', ''compose'']
         else bnd (on_fst (tool_works W ''docker-compose'' [''version''])) (\<lambda>v1.
           if v1 then set_compose [''docker-compose''] else throw DockerComposeUnavailable)))"

definition validatePrerequisites :: "rt_env \<Rightarrow> world \<Rightarrow> (infra, unit) prog" where
  "validatePrerequisites R W = bnd (on_fst (isDockerInstalled W)) (\<lambda>installed.
     if \<not> installed then throw (DockerNotInstalled R)
     else bnd (on_fst (isDockerDaemonRunning W)) (\<lambda>running.
       if \<not> running then throw (DockerDaemonNotRunning R ''Docker is installed, but the Docker daemon is not running.'')
       else seqp (getComposeCommand W) (ret ())))"

definition runCompose :: "rt_env \<Rightarrow> world \<Rightarrow> string list \<Rightarrow> string option \<Rightarrow> (infra, exec_result) prog" where
  "runCompose R W args custom = bnd (getComposeCommand W) (\<lambda>c. bnd (resolveComposeFilePath R W custom) (\<lambda>f. bnd (getBackupDirectory R W) (\<lambda>d.
     on_fst (exec W (hd c) (tl c @ [''-f'', f] @ args)
       (JObj [(''env'', JObj [(''BACKUP_DIR'', JStr d)]), (''timeout'', JNum 180000)])))))"

definition compose_or_fail :: "rt_env \<Rightarrow> world \<Rightarrow> string \<Rightarrow> string list \<Rightarrow> string option \<Rightarrow> (infra, unit) prog" where
  "compose_or_fail R W what args custom = seqp (validatePrerequisites R W) (bnd (runCompose R W args custom) (\<lambda>r.
     if failed_ok r then ret () else throw (new_Error (''Failed to '' @ what @ '' Docker services: '' @ output_of r))))"

definition compose_up :: "rt_env \<Rightarrow> world \<Rightarrow> string list \<Rightarrow> string option \<Rightarrow> (infra, unit) prog" where
  "compose_up R W services custom = compose_or_fail R W ''start'' ([''up'', ''-d''] @ services) custom"

definition compose_pull :: "rt_env \<Rightarrow> world \<Rightarrow> string list \<Rightarrow> string option \<Rightarrow> (infra, unit) prog" where
  "compose_pull R W services custom = seqp (validatePrerequisites R W) (seqp (runCompose R W ([''pull''] @ services) custom) (ret ()))"

definition compose_stop :: "rt_env \<Rightarrow> world \<Rightarrow> string list \<Rightarrow> string option \<Rightarrow> (infra, unit) prog" where
  "compose_stop R W services custom = compose_or_fail R W ''stop'' ([''stop''] @ services) custom"

definition compose_restart :: "rt_env \<Rightarrow> world \<Rightarrow> string list \<Rightarrow> string option \<Rightarrow> (infra, unit) prog" where
  "compose_restart R W services custom = compose_or_fail R W ''restart'' ([''restart''] @ services) custom"

definition compose_ps :: "rt_env \<Rightarrow> world \<Rightarrow> string option \<Rightarrow> (infra, string) prog" where
  "compose_ps R W custom = bnd (runCompose R W [''ps''] custom) (\<lambda>r. ret (er_stdout r))"

end
