(* ===== verification/DockerRuntime.thy ===== *)
theory DockerRuntime
  imports ContainerRuntime
begin

text \<open>
  \<open>infrastructure/docker-runtime.ts\<close>: the life of the production container. The loop that waits for readiness reads the
  clock, so it ends, since each round sleeps a second. Only the variables added to those of the process are given with a
  command; progress messages and the echo of the logs are left out.
\<close>

section \<open>Configuration and state of the container\<close>

record runtime_config =
  imageRepository :: string
  imageVersion :: string
  imageTag :: string
  containerName :: string
  hostPort :: json
  composeFile :: string
  backupDir :: string

definition or_chain_s :: "string option list \<Rightarrow> string \<Rightarrow> string" where
  "or_chain_s xs d = or_s (foldr or_so xs None) d"

definition resolveConfig :: "rt_env \<Rightarrow> world \<Rightarrow> (infra, runtime_config) prog" where
  "resolveConfig R W =
     (let rawImage = or_chain_s [rt_var R ''DB_BACKUP_IMAGE'', rt_config R ''docker.image''] ''rithish2006/dbvault'';
          rawVersion = or_chain_s [rt_var R ''DB_BACKUP_VERSION'', rt_config R ''docker.version'', rt_config R ''version''] (rt_version R);
          name = or_chain_s [rt_var R ''DB_BACKUP_CONTAINER'', rt_config R ''docker.containerName''] ''db-backup'' in
      bnd (resolveComposeFilePath R W None) (\<lambda>f. bnd (getBackupDirectory R W) (\<lambda>d.
      ret \<lparr>imageRepository = hd (split_on (CHR '':'') rawImage), imageVersion = rawVersion,
        imageTag = (if str_includes rawImage '':'' then rawImage else rawImage @ '':'' @ rawVersion), containerName = name,
        hostPort = js_parseInt (or_chain_s [rt_var R ''DB_BACKUP_PORT'', rt_var R ''PORT''] ''3000''), composeFile = f, backupDir = d\<rparr>)))"

definition checkPrerequisites :: "rt_env \<Rightarrow> world \<Rightarrow> (infra, unit) prog" where
  "checkPrerequisites R W = bnd (on_fst (run_tool_plain W ''docker'' [''--version''])) (\<lambda>v.
     if \<not> failed_ok v then throw (DockerNotInstalled R)
     else bnd (on_fst (run_tool_plain W ''docker'' docker_server_version)) (\<lambda>info.
       if failed_ok info then seqp (getComposeCommand W) (ret ())
       else let err = js_lower (output_of info) in
         if str_includes err ''permission denied'' \<or> str_includes err ''dial unix'' then throw (DockerPermissionDenied (output_of info))
         else throw (DockerDaemonNotRunning R (output_of info))))"

record container_state =
  cs_exists :: bool
  cs_running :: bool
  cs_status :: string
  cs_health :: "string option"
  cs_image :: "string option"
  cs_id :: "string option"
  cs_uptime :: "string option"

definition missing_container :: container_state where
  "missing_container = \<lparr>cs_exists = False, cs_running = False, cs_status = ''missing'', cs_health = None, cs_image = None, cs_id = None, cs_uptime = None\<rparr>"

definition inspect_format :: string where
  "inspect_format = ''{{.State.Status}}|{{if .State.Health}}{{.State.Health.Status}}{{else}}none{{end}}|{{.Config.Image}}|{{.Id}}|{{.State.StartedAt}}''"

definition nth_field :: "string list \<Rightarrow> nat \<Rightarrow> string option" where
  "nth_field xs n = (if n < length xs then Some (xs ! n) else None)"

definition uptime_of :: "rt_env \<Rightarrow> int \<Rightarrow> string option \<Rightarrow> string option" where
  "uptime_of R now startedAt = (if truthy_s startedAt \<and> startedAt \<noteq> Some ''0001-01-01T00:00:00Z''
     then (case rt_date R (the startedAt) of None \<Rightarrow> None
       | Some t \<Rightarrow> let diff = max 0 ((now - t) div 1000); mins = diff div 60; secs = diff mod 60 in
           Some (if mins > 0 then str_int mins @ ''m '' @ str_int secs @ ''s'' else str_int secs @ ''s''))
     else None)"

definition read_state :: "rt_env \<Rightarrow> int \<Rightarrow> exec_result \<Rightarrow> container_state" where
  "read_state R now r = (if \<not> failed_ok r \<or> js_trim (er_stdout r) = '''' then missing_container
     else let xs = split_on (CHR ''|'') (js_trim (er_stdout r)); running = (nth_field xs 0 = Some ''running'') in
       \<lparr>cs_exists = True, cs_running = running, cs_status = (if running then ''running'' else ''stopped''),
        cs_health = (if nth_field xs 1 \<noteq> Some ''none'' then nth_field xs 1 else None), cs_image = nth_field xs 2,
        cs_id = (if truthy_s (nth_field xs 3) then map_option (take 12) (nth_field xs 3) else None), cs_uptime = uptime_of R now (nth_field xs 4)\<rparr>)"

definition inspect_container :: "rt_env \<Rightarrow> world \<Rightarrow> string \<Rightarrow> (proc, container_state) prog" where
  "inspect_container R W name = bnd (run_tool_plain W ''docker'' [''inspect'', ''--format'', inspect_format, name]) (\<lambda>r.
     bnd (gets calls) (\<lambda>l. ret (read_state R (rt_clock R l) r)))"

definition getContainerState :: "rt_env \<Rightarrow> world \<Rightarrow> string \<Rightarrow> (infra, container_state) prog" where
  "getContainerState R W name = on_fst (inspect_container R W name)"

section \<open>Port and image\<close>

definition connect_call :: "json \<Rightarrow> int \<Rightarrow> call" where
  "connect_call p timeout = Other ''net.connect'' (JObj [(''port'', p), (''host'', JStr ''127.0.0.1''), (''timeout'', JNum timeout)])"

text \<open>\<open>socket.connect\<close> throws at once on a port out of range or \<open>NaN\<close>.\<close>

fun valid_port :: "json \<Rightarrow> bool" where
  "valid_port (JNum n) \<longleftrightarrow> 0 \<le> n \<and> n < 65536"
| "valid_port _ \<longleftrightarrow> False"

definition bad_port :: "json \<Rightarrow> js_error" where
  "bad_port p = JsError ''ERR_SOCKET_BAD_PORT'' (''Port should be >= 0 and < 65536. Received type number ('' @ js_String p @ '').'')"

definition checkPortAvailability :: "rt_env \<Rightarrow> world \<Rightarrow> json \<Rightarrow> string \<Rightarrow> (infra, unit) prog" where
  "checkPortAvailability R W p name = (if \<not> valid_port p then throw (bad_port p)
     else bnd (on_fst (ask W (connect_call p 1000))) (\<lambda>x.
     if isl x then ret ()
     else bnd (getContainerState R W name) (\<lambda>st. if cs_running st then ret () else throw (PortConflict p))))"

definition ensureImage :: "world \<Rightarrow> string \<Rightarrow> (infra, unit) prog" where
  "ensureImage W tag = bnd (on_fst (run_tool_plain W ''docker'' [''image'', ''inspect'', tag])) (\<lambda>r.
     if failed_ok r then ret ()
     else bnd (on_fst (exec W ''docker'' [''pull'', tag] (JObj [(''timeout'', JNum 300000)]))) (\<lambda>p.
       if failed_ok p then ret () else throw (ImagePull tag (output_of p))))"

section \<open>Readiness\<close>

record probe =
  pb_healthy :: bool
  pb_data :: "json option"
  pb_error :: "string option"

definition dep_healthy :: "json option \<Rightarrow> string \<Rightarrow> bool" where
  "dep_healthy deps k \<longleftrightarrow> oget (oget deps k) ''status'' = Some (JStr ''healthy'')"

definition all_healthy :: "json \<Rightarrow> bool" where
  "all_healthy d \<longleftrightarrow> (let deps = jget d ''dependencies'' in
     dep_healthy deps ''gateway'' \<and> dep_healthy deps ''metadataService'' \<and> dep_healthy deps ''redis'' \<and> dep_healthy deps ''orchestrator'')"

definition bad_dependencies :: "json \<Rightarrow> string" where
  "bad_dependencies deps = join_with '', '' (map (\<lambda>(k, v). k @ '': '' @ tpl (jget v ''status'') @
       (if truthy_j (jget v ''error'') then '' ('' @ tpl (jget v ''error'') @ '')'' else ''''))
     (filter (\<lambda>(k, v). jget v ''status'' \<noteq> Some (JStr ''healthy'')) (jfields deps)))"

definition gateway_health :: call where
  "gateway_health = axios_get ''http://127.0.0.1:3000/health'' 2000"

definition null_entry :: string where
  "null_entry = ''Cannot read properties of null (reading '' @ quoted ''status'' @ '')''"

text \<open>Every status is accepted. A dependency that is \<open>null\<close> in an unhealthy answer makes the filter throw, which is caught.\<close>

definition probe_result :: "failure + json \<Rightarrow> probe" where
  "probe_result x = (case x of
     Inl f \<Rightarrow> \<lparr>pb_healthy = False, pb_data = None, pb_error = Some (or_s (Some (f_message f)) ''Connection refused'')\<rparr>
   | Inr v \<Rightarrow> let st = jget v ''status''; d = jget v ''data''; http = ''HTTP '' @ tpl st in
       if st = Some (JNum 200) \<and> truthy_j d then \<lparr>pb_healthy = all_healthy (the d), pb_data = d, pb_error = None\<rparr>
       else if list_ex (\<lambda>(k, v). v = JNull) (case oget d ''dependencies'' of None \<Rightarrow> [] | Some ds \<Rightarrow> jfields ds)
         then \<lparr>pb_healthy = False, pb_data = None, pb_error = Some null_entry\<rparr>
       else \<lparr>pb_healthy = False, pb_data = d, pb_error = Some (if truthy_j (oget d ''dependencies'')
          then or_s (Some (bad_dependencies (the (oget d ''dependencies'')))) http else http)\<rparr>)"

definition probeGatewayHealth :: "world \<Rightarrow> (proc, probe) prog" where
  "probeGatewayHealth W = bnd (ask W gateway_health) (\<lambda>x. ret (probe_result x))"

lemma probe_run: "probeGatewayHealth W s = (Inr (probe_result (W (calls s) gateway_health)), s\<lparr>calls := calls s @ [gateway_health]\<rparr>)"
  by (simp add: probeGatewayHealth_def ask_def bnd_def ret_def)

definition not_ready :: "string \<Rightarrow> int \<Rightarrow> js_error" where
  "not_ready lastError timeout = InfrastructureTimeout
     [(''All-in-One Container (db-backup)'', 3000, Some (''Readiness check timed out: '' @ lastError))] (round_seconds timeout)"

definition slept :: "proc \<Rightarrow> proc" where
  "slept s = s\<lparr>calls := calls s @ [Sleep 1000]\<rparr>"

lemma clock_slept: "rt_clock R (calls s) + 1000 \<le> rt_clock R (calls (slept (s\<lparr>calls := calls s @ [c]\<rparr>)))"
proof -
  have "clock (rt_lag R) (calls s) \<le> clock (rt_lag R) (calls s @ [c])" by (rule clock_mono)
  then show ?thesis by (simp add: slept_def rt_clock_def del: append_assoc clock_snoc) (simp add: clock_snoc del: append_assoc)
qed

lemma clock_probed: "(Inr p, s1) = probeGatewayHealth W s \<Longrightarrow> rt_clock R (calls s) + 1000 \<le> rt_clock R (calls (slept s1))"
  using clock_slept [of R s gateway_health] by (simp add: probe_run)

function wait_loop :: "rt_env \<Rightarrow> world \<Rightarrow> int \<Rightarrow> int \<Rightarrow> string \<Rightarrow> (proc, json) prog" where
  "wait_loop R W start timeout lastError s =
     (if rt_clock R (calls s) - start < timeout
      then (case probeGatewayHealth W s of
        (Inl e, s1) \<Rightarrow> (Inl e, s1)
      | (Inr p, s1) \<Rightarrow> if pb_healthy p \<and> truthy_j (pb_data p) then (Inr (the (pb_data p)), s1)
          else wait_loop R W start timeout (or_s (pb_error p) lastError) (slept s1))
      else (Inl (not_ready lastError timeout), s))"
  by pat_completeness auto
termination
proof (relation "measure (\<lambda>(R, W, start, timeout, lastError, s). nat (timeout - (rt_clock R (calls s) - start)))", goal_cases)
  case (2 R W start timeout lastError s r s1 p)
  then have "rt_clock R (calls s) + 1000 \<le> rt_clock R (calls (slept s1))" by (intro clock_probed) simp
  with 2 show ?case by simp
qed simp

declare wait_loop.simps [simp del]

definition waitForReady :: "rt_env \<Rightarrow> world \<Rightarrow> int option \<Rightarrow> (infra, json) prog" where
  "waitForReady R W timeout = on_fst (bnd (gets (\<lambda>s. rt_clock R (calls s))) (\<lambda>start.
     wait_loop R W start (nullish timeout 45000) ''Readiness check timed out waiting for Gateway & internal microservices''))"

section \<open>Start, stop, restart\<close>

record stop_result =
  sr_stopped :: bool
  sr_wasRunning :: bool
  sr_message :: string

definition dquote :: "string \<Rightarrow> string" where
  "dquote s = ''\"'' @ s @ ''\"''"

definition stop_container :: "world \<Rightarrow> runtime_config \<Rightarrow> container_state \<Rightarrow> (infra, stop_result) prog" where
  "stop_container W cfg st =
     (if \<not> cs_exists st then ret \<lparr>sr_stopped = False, sr_wasRunning = False, sr_message = ''Container '' @ dquote (containerName cfg) @ '' does not exist.''\<rparr>
      else if \<not> cs_running st then ret \<lparr>sr_stopped = False, sr_wasRunning = False, sr_message = ''Container '' @ dquote (containerName cfg) @ '' is already stopped.''\<rparr>
      else bnd (on_fst (exec W ''docker'' [''stop'', containerName cfg] (JObj [(''timeout'', JNum 30000)]))) (\<lambda>r.
        if failed_ok r then ret \<lparr>sr_stopped = True, sr_wasRunning = True,
          sr_message = ''Container '' @ dquote (containerName cfg) @ '' stopped successfully. User data and volumes preserved.''\<rparr>
        else throw (new_Error (''Failed to stop container '' @ dquote (containerName cfg) @ '': '' @ output_of r))))"

definition rt_stop :: "rt_env \<Rightarrow> world \<Rightarrow> (infra, stop_result) prog" where
  "rt_stop R W = seqp (checkPrerequisites R W) (bnd (resolveConfig R W) (\<lambda>cfg.
     bnd (getContainerState R W (containerName cfg)) (stop_container W cfg)))"

definition is_outdated :: "bool \<Rightarrow> runtime_config \<Rightarrow> container_state \<Rightarrow> bool" where
  "is_outdated upgrade cfg st \<longleftrightarrow> (let current = or_s (cs_image st) '''' in
     upgrade \<and> cs_exists st \<and> current \<noteq> '''' \<and> \<not> ends_with current ('':'' @ imageVersion cfg) \<and> \<not> ends_with current '':latest'')"

text \<open>Case 0: the outdated container is stopped and removed.\<close>

definition drop_outdated :: "rt_env \<Rightarrow> world \<Rightarrow> bool \<Rightarrow> runtime_config \<Rightarrow> container_state \<Rightarrow> (infra, container_state) prog" where
  "drop_outdated R W upgrade cfg st = (if is_outdated upgrade cfg st
     then seqp (rt_stop R W) (seqp (on_fst (run_tool_plain W ''docker'' [''rm'', ''-f'', containerName cfg]))
       (ret (st\<lparr>cs_exists := False, cs_running := False\<rparr>)))
     else ret st)"

definition image_prefix :: "runtime_config \<Rightarrow> string" where
  "image_prefix cfg = (if str_includes (imageRepository cfg) ''/'' then hd (split_on (CHR ''/'') (imageRepository cfg)) @ ''/'' else '''')"

definition create_container :: "world \<Rightarrow> runtime_config \<Rightarrow> (infra, unit) prog" where
  "create_container W cfg = seqp (ensureImage W (imageTag cfg)) (bnd (getComposeCommand W) (\<lambda>c.
     bnd (on_fst (exec W (hd c) (tl c @ [''-f'', composeFile cfg, ''up'', ''-d'', ''db-backup'']) (JObj [(''env'', JObj
       [(''IMAGE'', JStr (imageTag cfg)), (''IMAGE_PREFIX'', JStr (image_prefix cfg)), (''VERSION'', JStr (imageVersion cfg)),
        (''PORT'', JStr (js_String (hostPort cfg))), (''BACKUP_DIR'', JStr (backupDir cfg))])]))) (\<lambda>r.
     if failed_ok r then ret () else throw (new_Error (''Failed to create container via Compose: '' @ output_of r)))))"

definition start_existing :: "world \<Rightarrow> runtime_config \<Rightarrow> (infra, unit) prog" where
  "start_existing W cfg = bnd (on_fst (run_tool_plain W ''docker'' [''start'', containerName cfg])) (\<lambda>r.
     if failed_ok r then ret () else throw (new_Error (''Failed to start container '' @ containerName cfg @ '': '' @ output_of r)))"

record start_result =
  sa_state :: container_state
  sa_alreadyRunning :: bool
  sa_health :: json

definition running_container :: "rt_env \<Rightarrow> world \<Rightarrow> int option \<Rightarrow> container_state \<Rightarrow> (infra, start_result) prog" where
  "running_container R W timeout st = bnd (on_fst (probeGatewayHealth W)) (\<lambda>p.
     if pb_healthy p \<and> truthy_j (pb_data p) then ret \<lparr>sa_state = st, sa_alreadyRunning = True, sa_health = the (pb_data p)\<rparr>
     else bnd (waitForReady R W timeout) (\<lambda>h. ret \<lparr>sa_state = st, sa_alreadyRunning = True, sa_health = h\<rparr>))"

definition launch_container :: "rt_env \<Rightarrow> world \<Rightarrow> int option \<Rightarrow> runtime_config \<Rightarrow> container_state \<Rightarrow> (infra, start_result) prog" where
  "launch_container R W timeout cfg st =
     seqp (checkPortAvailability R W (hostPort cfg) (containerName cfg))
    (seqp (if cs_exists st \<and> \<not> cs_running st then start_existing W cfg else create_container W cfg)
    (bnd (waitForReady R W timeout) (\<lambda>h. bnd (getContainerState R W (containerName cfg)) (\<lambda>final.
      ret \<lparr>sa_state = final, sa_alreadyRunning = False, sa_health = h\<rparr>))))"

definition rt_start_container :: "rt_env \<Rightarrow> world \<Rightarrow> int option \<Rightarrow> bool \<Rightarrow> (infra, start_result) prog" where
  "rt_start_container R W timeout upgrade = seqp (checkPrerequisites R W) (bnd (resolveConfig R W) (\<lambda>cfg.
     bnd (getContainerState R W (containerName cfg)) (\<lambda>st0. bnd (drop_outdated R W upgrade cfg st0) (\<lambda>st.
     if cs_running st then running_container R W timeout st else launch_container R W timeout cfg st))))"

definition rt_restart :: "rt_env \<Rightarrow> world \<Rightarrow> int option \<Rightarrow> (infra, container_state \<times> json) prog" where
  "rt_restart R W timeout = seqp (checkPrerequisites R W) (bnd (resolveConfig R W) (\<lambda>cfg.
     bnd (getContainerState R W (containerName cfg)) (\<lambda>st.
     seqp (if cs_running st
       then bnd (on_fst (exec W ''docker'' [''restart'', containerName cfg] (JObj [(''timeout'', JNum 30000)]))) (\<lambda>r.
         if failed_ok r then ret () else throw (new_Error (''Failed to restart container '' @ dquote (containerName cfg) @ '': '' @ output_of r)))
       else seqp (rt_start_container R W timeout False) (ret ()))
    (bnd (waitForReady R W timeout) (\<lambda>h. bnd (getContainerState R W (containerName cfg)) (\<lambda>final. ret (final, h)))))))"

section \<open>Status and logs\<close>

record runtime_status =
  ru_docker :: bool
  ru_daemon :: bool
  ru_container :: container_state
  ru_config :: runtime_config
  ru_healthy :: bool
  ru_details :: "json option"

definition docker_status :: "world \<Rightarrow> (proc, bool \<times> bool) prog" where
  "docker_status W = try_catch (bnd (isDockerInstalled W) (\<lambda>installed.
     if \<not> installed then ret (False, False)
     else try_catch (bnd (isDockerDaemonRunning W) (\<lambda>running. ret (True, running))) (\<lambda>_. ret (True, False)))) (\<lambda>_. ret (False, False))"

definition rt_status :: "rt_env \<Rightarrow> world \<Rightarrow> (infra, runtime_status) prog" where
  "rt_status R W = bnd (resolveConfig R W) (\<lambda>cfg. bnd (on_fst (docker_status W)) (\<lambda>(installed, running).
     bnd (getContainerState R W (containerName cfg)) (\<lambda>st.
     if cs_running st
     then bnd (on_fst (probeGatewayHealth W)) (\<lambda>p. ret \<lparr>ru_docker = installed, ru_daemon = running, ru_container = st, ru_config = cfg,
       ru_healthy = pb_healthy p, ru_details = pb_data p\<rparr>)
     else ret \<lparr>ru_docker = installed, ru_daemon = running, ru_container = st, ru_config = cfg, ru_healthy = False, ru_details = None\<rparr>)))"

definition logs_args :: "bool \<Rightarrow> int option \<Rightarrow> string \<Rightarrow> string list" where
  "logs_args follow tail name = [''logs''] @ (case tail of Some n \<Rightarrow> if n \<noteq> 0 then [''--tail'', str_int n] else [] | None \<Rightarrow> []) @
     (if follow then [''-f''] else []) @ [name]"

text \<open>Following runs \<open>docker logs\<close> on the terminal until it ends; 130 is an interrupt.\<close>

definition rt_logs :: "rt_env \<Rightarrow> world \<Rightarrow> bool \<Rightarrow> int option \<Rightarrow> (infra, unit) prog" where
  "rt_logs R W follow tail = seqp (checkPrerequisites R W) (bnd (resolveConfig R W) (\<lambda>cfg.
     bnd (getContainerState R W (containerName cfg)) (\<lambda>st.
     if \<not> cs_exists st then throw (new_Error (''Container '' @ dquote (containerName cfg) @ '' does not exist. Run \"dbvault start\" first.''))
     else let args = logs_args follow tail (containerName cfg) in
       if follow then bnd (on_fst (run_call W (Other ''spawn'' (JObj [(''command'', JStr ''docker''), (''args'', JArr (map JStr args))])))) (\<lambda>code.
           if code = JNum 0 \<or> code = JNum 130 then ret () else throw (new_Error (''docker logs exited with code '' @ js_String code)))
       else seqp (on_fst (run_tool_plain W ''docker'' args)) (ret ()))))"

end
