(* ===== verification/InfrastructureManager.thy ===== *)
theory InfrastructureManager
  imports DockerRuntime
begin

text \<open>
  \<open>infrastructure/infrastructure-manager.ts\<close> and \<open>local.adapter.ts\<close>: the check that the services a command needs are up, their
  start, and the wait until they answer. The probes of one round, which the code issues together, are taken one after the other.
  No prober is injected, as in the instance the command line uses; the spinner is left out. The manager has one field, the promise of
  the running startup, whose life is the last section.
\<close>

section \<open>The local adapter\<close>

definition ecosystem_name :: string where
  "ecosystem_name = ''ecosystem.config.js''"

definition module_dir :: "rt_env \<Rightarrow> string" where
  "module_dir R = [slash] @ join_with [slash] (rt_module R)"

definition resolveEcosystemPath :: "rt_env \<Rightarrow> world \<Rightarrow> (proc, string) prog" where
  "resolveEcosystemPath R W = bnd (first_file W (map (\<lambda>d. path_join [d, ecosystem_name]) (upward (rt_module R)) @ [path_join [rt_cwd R, ecosystem_name]]))
     (\<lambda>f. ret (case f of Some p \<Rightarrow> p | None \<Rightarrow> path_resolve (rt_cwd R) [module_dir R, ''../../../ecosystem.config.js'']))"

definition isPm2Available :: "world \<Rightarrow> (proc, bool) prog" where
  "isPm2Available W = tool_works W ''pm2'' [''--version'']"

definition local_start :: "rt_env \<Rightarrow> world \<Rightarrow> (proc, unit) prog" where
  "local_start R W = bnd (isPm2Available W) (\<lambda>there.
     if \<not> there then throw (new_Error (''PM2 is required for local execution engine.'' @ newline @ ''Please install PM2 via: npm install -g pm2''))
     else bnd (resolveEcosystemPath R W) (\<lambda>p. bnd (run_tool_plain W ''pm2'' [''start'', p]) (\<lambda>r.
       if failed_ok r then ret () else throw (new_Error (''Failed to start local services with PM2: '' @ output_of r)))))"

definition local_stop :: "world \<Rightarrow> (proc, unit) prog" where
  "local_stop W = bnd (isPm2Available W) (\<lambda>there.
     if there then seqp (run_tool_plain W ''pm2'' [''stop'', ''all'']) (ret ()) else ret ())"

text \<open>\<open>some\<close> stops at the first match and throws, into the handler, on a \<open>null\<close> before it.\<close>

fun some_online :: "json list \<Rightarrow> bool" where
  "some_online [] = False"
| "some_online (p # ps) = (p \<noteq> JNull \<and> (oget (jget p ''pm2_env'') ''status'' = Some (JStr ''online'') \<or> some_online ps))"

definition online_list :: "json option \<Rightarrow> bool" where
  "online_list v = (case v of Some (JArr ps) \<Rightarrow> some_online ps | _ \<Rightarrow> False)"

definition isRunning :: "rt_env \<Rightarrow> world \<Rightarrow> (proc, bool) prog" where
  "isRunning R W = bnd (isPm2Available W) (\<lambda>there. if \<not> there then ret False
     else bnd (run_tool_plain W ''pm2'' [''jlist'']) (\<lambda>r. ret (failed_ok r \<and> online_list (rt_parse R (er_stdout r)))))"

section \<open>Engine and services\<close>

datatype engine = EngineDocker | EngineLocal

definition getEngine :: "rt_env \<Rightarrow> js_error + engine" where
  "getEngine R = (let raw = js_trim (js_lower (or_chain_s [rt_var R ''ENGINE'', rt_config R ''engine''] ''docker'')) in
     if raw = ''docker'' then Inr EngineDocker else if raw = ''local'' then Inr EngineLocal else Inl (InvalidEngine raw))"

record service_def =
  sv_name :: string
  sv_key :: string
  sv_port :: int
  sv_url :: "string option"
  sv_http :: bool

definition http_service :: "string \<Rightarrow> string \<Rightarrow> int \<Rightarrow> service_def" where
  "http_service name key p = \<lparr>sv_name = name, sv_key = key, sv_port = p, sv_url = Some (''http://localhost:'' @ str_int p @ ''/health''), sv_http = True\<rparr>"

definition KNOWN_SERVICES :: "service_def list" where
  "KNOWN_SERVICES =
    [\<lparr>sv_name = ''Redis'', sv_key = ''redis'', sv_port = 6379, sv_url = None, sv_http = False\<rparr>,
     http_service ''API Gateway'' ''api-gateway'' 3000,
     http_service ''Backup Orchestrator'' ''backup-orchestrator'' 3001,
     http_service ''PostgreSQL Worker'' ''postgres-backup'' 3010,
     http_service ''MySQL Worker'' ''mysql-backup'' 3011,
     http_service ''MongoDB Worker'' ''mongodb-backup'' 3012,
     http_service ''SQLite Worker'' ''sqlite-backup'' 3013]"

definition known_keys :: "string list" where
  "known_keys = map sv_key KNOWN_SERVICES"

definition service_of :: "string \<Rightarrow> service_def" where
  "service_of key = (case find (\<lambda>d. sv_key d = key) KNOWN_SERVICES of Some d \<Rightarrow> d
     | None \<Rightarrow> \<lparr>sv_name = key, sv_key = key, sv_port = 0, sv_url = None, sv_http = False\<rparr>)"

record ensure_options =
  eo_dbType :: "string option"
  eo_services :: "string list option"
  eo_timeout :: "int option"

definition worker_key :: "string \<Rightarrow> string list" where
  "worker_key db = (if db = ''postgresql'' \<or> db = ''postgres'' then [''postgres-backup'']
     else if db = ''mysql'' \<or> db = ''mariadb'' then [''mysql-backup'']
     else if db = ''mongodb'' \<or> db = ''mongo'' then [''mongodb-backup'']
     else if db = ''sqlite'' then [''sqlite-backup''] else [])"

definition resolveRequiredServiceKeys :: "ensure_options \<Rightarrow> string list" where
  "resolveRequiredServiceKeys opts = (case eo_services opts of
     Some (k # ks) \<Rightarrow> k # ks
   | _ \<Rightarrow> [''redis'', ''api-gateway'', ''backup-orchestrator''] @ (case eo_dbType opts of None \<Rightarrow> [] | Some db \<Rightarrow> worker_key (js_trim (js_lower db))))"

section \<open>Probes\<close>

record svc_health =
  sh_name :: string
  sh_key :: string
  sh_port :: int
  sh_url :: "string option"
  sh_status :: string
  sh_error :: "string option"
  sh_ms :: int
  sh_details :: "json option"

definition is_up :: "svc_health \<Rightarrow> bool" where
  "is_up h \<longleftrightarrow> sh_status h = ''healthy''"

definition health_of :: "service_def \<Rightarrow> string option \<Rightarrow> bool \<Rightarrow> string option \<Rightarrow> json option \<Rightarrow> int \<Rightarrow> svc_health" where
  "health_of svc url up err details ms = \<lparr>sh_name = sv_name svc, sh_key = sv_key svc, sh_port = sv_port svc, sh_url = url,
     sh_status = (if up then ''healthy'' else ''unhealthy''), sh_error = err, sh_ms = ms, sh_details = details\<rparr>"

text \<open>The deep health answer of the gateway; the database services have no entry and stand in for the orchestrator.\<close>

definition gateway_says :: "string \<Rightarrow> json \<Rightarrow> bool" where
  "gateway_says key d = (let deps = jget d ''dependencies'' in
     if key = ''api-gateway'' then dep_healthy deps ''gateway'' \<or> jget d ''status'' = Some (JStr ''healthy'')
     else if key = ''redis'' then dep_healthy deps ''redis''
     else if key = ''backup-orchestrator'' then dep_healthy deps ''orchestrator''
     else if key = ''metadata-service'' then dep_healthy deps ''metadataService''
     else dep_healthy deps ''orchestrator'')"

definition gateway_probe :: call where
  "gateway_probe = axios_get ''http://127.0.0.1:3000/health'' 1500"

definition vouched :: "string \<Rightarrow> failure + json \<Rightarrow> json option" where
  "vouched key x = (case x of Inl _ \<Rightarrow> None
     | Inr v \<Rightarrow> (case jget v ''data'' of
         Some d \<Rightarrow> if jget v ''status'' = Some (JNum 200) \<and> truthy_j (Some d) \<and> gateway_says key d then Some d else None
       | None \<Rightarrow> None))"

definition http_up :: "json \<Rightarrow> bool" where
  "http_up v \<longleftrightarrow> (let st = oget (jget v ''data'') ''status'' in
     jget v ''status'' = Some (JNum 200) \<and> (st = Some (JStr ''healthy'') \<or> \<not> truthy_j st))"

definition direct_probe :: "rt_env \<Rightarrow> world \<Rightarrow> service_def \<Rightarrow> int \<Rightarrow> (proc, svc_health) prog" where
  "direct_probe R W svc start = (if \<not> sv_http svc
     then bnd (ask W (connect_call (JNum (sv_port svc)) 1500)) (\<lambda>x. bnd (gets (\<lambda>s. rt_clock R (calls s) - start)) (\<lambda>ms.
       ret (case x of Inl f \<Rightarrow> health_of svc None False (Some (f_message f)) None ms | Inr _ \<Rightarrow> health_of svc None True None None ms)))
     else bnd (ask W (axios_get (nullish (sv_url svc) ''undefined'') 1500)) (\<lambda>x. bnd (gets (\<lambda>s. rt_clock R (calls s) - start)) (\<lambda>ms.
       ret (case x of Inl f \<Rightarrow> health_of svc (sv_url svc) False (Some (or_s (Some (f_message f)) ''Connection refused'')) None ms
         | Inr v \<Rightarrow> health_of svc (sv_url svc) (http_up v) None (jget v ''data'') ms))))"

definition checkServiceHealth :: "rt_env \<Rightarrow> world \<Rightarrow> service_def \<Rightarrow> (proc, svc_health) prog" where
  "checkServiceHealth R W svc = bnd (gets (\<lambda>s. rt_clock R (calls s))) (\<lambda>start. bnd (ask W gateway_probe) (\<lambda>x.
     case vouched (sv_key svc) x of
       Some d \<Rightarrow> bnd (gets (\<lambda>s. rt_clock R (calls s) - start)) (\<lambda>ms. ret (health_of svc None True None (Some d) ms))
     | None \<Rightarrow> direct_probe R W svc start))"

fun checkServices :: "rt_env \<Rightarrow> world \<Rightarrow> string list \<Rightarrow> (proc, svc_health list) prog" where
  "checkServices R W [] = ret []"
| "checkServices R W (k # ks) = bnd (checkServiceHealth R W (service_of k)) (\<lambda>h. bnd (checkServices R W ks) (\<lambda>hs. ret (h # hs)))"

section \<open>The wait\<close>

lemma only_gets [only]: "only P (gets f)"
proof (rule onlyI)
  fix s :: proc
  show "\<exists>new r b. gets f s = (r, s\<lparr>calls := calls s @ new, baseUrl := b\<rparr>) \<and> (\<forall>c\<in>set new. P c)"
    by (intro exI [of _ "[]"] exI [of _ "Inr (f s)"] exI [of _ "baseUrl s"]) (simp add: gets_def)
qed

lemma only_direct_probe [only]: "only (\<lambda>c. True) (direct_probe R W svc start)"
  unfolding direct_probe_def by (intro only) simp_all

lemma only_checkServiceHealth [only]: "only (\<lambda>c. True) (checkServiceHealth R W svc)"
  unfolding checkServiceHealth_def by (intro only) (auto intro: only split: option.split)

lemma only_checkServices [only]: "only (\<lambda>c. True) (checkServices R W ks)"
  by (induction ks) (auto intro!: only)

lemma only_clock: "only P m \<Longrightarrow> m s = (r, s') \<Longrightarrow> rt_clock R (calls s) \<le> rt_clock R (calls s')"
  unfolding only_def by (drule (1) tracesD) (auto simp: rt_clock_def intro: clock_mono)

lemma clock_checked: "(r, s1) = checkServices R W ks s \<Longrightarrow> rt_clock R (calls s) + 1000 \<le> rt_clock R (calls (slept s1))"
  using only_clock [OF only_checkServices, of R W ks s r s1 R] by (simp add: slept_def rt_clock_def)

text \<open>A comparison with \<open>NaN\<close> is false.\<close>

definition in_time :: "rt_env \<Rightarrow> int \<Rightarrow> json \<Rightarrow> proc \<Rightarrow> bool" where
  "in_time R start timeout s \<longleftrightarrow> (case timeout of JNum t \<Rightarrow> rt_clock R (calls s) - start < t | _ \<Rightarrow> False)"

definition services_timeout :: "svc_health list \<Rightarrow> json \<Rightarrow> js_error" where
  "services_timeout hs timeout = InfrastructureTimeout (map (\<lambda>h. (sh_name h, sh_port h, sh_error h)) (filter (\<lambda>h. \<not> is_up h) hs))
     (case timeout of JNum t \<Rightarrow> round_seconds t | _ \<Rightarrow> ''NaN'')"

function wait_services :: "rt_env \<Rightarrow> world \<Rightarrow> string list \<Rightarrow> int \<Rightarrow> json \<Rightarrow> (proc, svc_health list) prog" where
  "wait_services R W ks start timeout s =
     (if in_time R start timeout s
      then (case checkServices R W ks s of
        (Inl e, s1) \<Rightarrow> (Inl e, s1)
      | (Inr hs, s1) \<Rightarrow> if list_all is_up hs then (Inr hs, s1) else wait_services R W ks start timeout (slept s1))
      else bnd (checkServices R W ks) (\<lambda>hs. throw (services_timeout hs timeout)) s)"
  by pat_completeness auto
termination
proof (relation "measure (\<lambda>(R, W, ks, start, timeout, s). case timeout of JNum t \<Rightarrow> nat (t - (rt_clock R (calls s) - start)) | _ \<Rightarrow> 0)", goal_cases)
  case (2 R W ks start timeout s r s1 hs)
  then have "rt_clock R (calls s) + 1000 \<le> rt_clock R (calls (slept s1))" by (intro clock_checked)
  with 2 show ?case by (simp add: in_time_def split: json.splits)
qed simp

declare wait_services.simps [simp del]

definition wait_until_up :: "rt_env \<Rightarrow> world \<Rightarrow> string list \<Rightarrow> json \<Rightarrow> (proc, svc_health list) prog" where
  "wait_until_up R W ks timeout = bnd (gets (\<lambda>s. rt_clock R (calls s))) (\<lambda>start. wait_services R W ks start timeout)"

section \<open>Startup\<close>

definition startup_timeout :: "rt_env \<Rightarrow> ensure_options \<Rightarrow> json" where
  "startup_timeout R opts = (case eo_timeout opts of Some t \<Rightarrow> JNum t
     | None \<Rightarrow> js_parseInt (or_s (rt_var R ''INFRA_STARTUP_TIMEOUT'') ''45000''))"

definition start_engine :: "rt_env \<Rightarrow> world \<Rightarrow> engine \<Rightarrow> (infra, unit) prog" where
  "start_engine R W e = (case e of
     EngineDocker \<Rightarrow> seqp (validatePrerequisites R W) (compose_up R W [] None)
   | EngineLocal \<Rightarrow> on_fst (local_start R W))"

definition performEnsureInfrastructure :: "rt_env \<Rightarrow> world \<Rightarrow> ensure_options \<Rightarrow> (infra, unit) prog" where
  "performEnsureInfrastructure R W opts = bnd (lift_res (getEngine R)) (\<lambda>e. let ks = resolveRequiredServiceKeys opts in
     bnd (on_fst (checkServices R W ks)) (\<lambda>hs.
     if list_all is_up hs then ret ()
     else seqp (start_engine R W e) (seqp (on_fst (wait_until_up R W ks (startup_timeout R opts))) (ret ()))))"

definition default_wait :: "rt_env \<Rightarrow> world \<Rightarrow> string list option \<Rightarrow> (infra, unit) prog" where
  "default_wait R W services = seqp (on_fst (wait_until_up R W (nullish services known_keys) (JNum 45000))) (ret ())"

definition infra_start :: "rt_env \<Rightarrow> world \<Rightarrow> string list option \<Rightarrow> (infra, unit) prog" where
  "infra_start R W services = bnd (lift_res (getEngine R)) (\<lambda>e. seqp (case e of
     EngineDocker \<Rightarrow> compose_up R W (nullish services []) None
   | EngineLocal \<Rightarrow> on_fst (local_start R W)) (default_wait R W services))"

definition infra_stop :: "rt_env \<Rightarrow> world \<Rightarrow> string list option \<Rightarrow> (infra, unit) prog" where
  "infra_stop R W services = bnd (lift_res (getEngine R)) (\<lambda>e. case e of
     EngineDocker \<Rightarrow> compose_stop R W (nullish services []) None
   | EngineLocal \<Rightarrow> on_fst (local_stop W))"

definition infra_restart :: "rt_env \<Rightarrow> world \<Rightarrow> string list option \<Rightarrow> (infra, unit) prog" where
  "infra_restart R W services = bnd (lift_res (getEngine R)) (\<lambda>e. seqp (case e of
     EngineDocker \<Rightarrow> compose_restart R W (nullish services []) None
   | EngineLocal \<Rightarrow> seqp (on_fst (local_stop W)) (on_fst (local_start R W))) (default_wait R W services))"

section \<open>Status\<close>

record infra_status =
  is_engine :: engine
  is_docker :: bool
  is_daemon :: bool
  is_compose :: "string option"
  is_file :: "string option"
  is_backups :: string
  is_running :: bool
  is_healthy :: bool
  is_services :: "svc_health list"

text \<open>One handler around the three questions keeps what was answered before a failure.\<close>

definition docker_facts :: "world \<Rightarrow> (infra, bool \<times> bool \<times> string option) prog" where
  "docker_facts W = try_catch (bnd (on_fst (isDockerInstalled W)) (\<lambda>installed.
     if \<not> installed then ret (False, False, None)
     else try_catch (bnd (on_fst (isDockerDaemonRunning W)) (\<lambda>daemon.
       try_catch (bnd (getComposeCommand W) (\<lambda>c. ret (True, daemon, Some (join_with '' '' c)))) (\<lambda>_. ret (True, daemon, None))))
       (\<lambda>_. ret (True, False, None)))) (\<lambda>_. ret (False, False, None))"

definition infrastructure_status :: "rt_env \<Rightarrow> world \<Rightarrow> (infra, infra_status) prog" where
  "infrastructure_status R W = bnd (lift_res (getEngine R)) (\<lambda>e. bnd (getBackupDirectory R W) (\<lambda>dir.
     bnd (try_catch (bnd (resolveComposeFilePath R W None) (\<lambda>f. ret (Some f))) (\<lambda>_. ret None)) (\<lambda>f.
     bnd (if e = EngineDocker then docker_facts W else ret (False, False, None)) (\<lambda>(installed, daemon, compose).
     bnd (on_fst (checkServices R W known_keys)) (\<lambda>hs.
     ret \<lparr>is_engine = e, is_docker = installed, is_daemon = daemon, is_compose = compose, is_file = f, is_backups = dir,
       is_running = list_ex is_up hs, is_healthy = list_all is_up hs, is_services = hs\<rparr>)))))"

section \<open>Concurrent callers\<close>

text \<open>
  \<open>ensureInfrastructure\<close> as the events of one process: a call, and the end of the startup. \<open>active\<close> is the running startup,
  with its options, and the callers that wait for its promise.
\<close>

datatype ensure_event = EnsureCall nat ensure_options | StartupEnds "js_error + unit"

record ensurer =
  active :: "(ensure_options \<times> nat list) option"
  startups :: "ensure_options list"
  outcomes :: "(nat \<times> (js_error + unit)) list"

definition no_startup :: ensurer where
  "no_startup = \<lparr>active = None, startups = [], outcomes = []\<rparr>"

fun ensureInfrastructure :: "ensure_event \<Rightarrow> ensurer \<Rightarrow> ensurer" where
  "ensureInfrastructure (EnsureCall c opts) m = (case active m of
     None \<Rightarrow> m\<lparr>active := Some (opts, [c]), startups := startups m @ [opts]\<rparr>
   | Some (running, waiting) \<Rightarrow> m\<lparr>active := Some (running, waiting @ [c])\<rparr>)"
| "ensureInfrastructure (StartupEnds r) m = (case active m of
     None \<Rightarrow> m
   | Some (running, waiting) \<Rightarrow> m\<lparr>active := None, outcomes := outcomes m @ map (\<lambda>c. (c, r)) waiting\<rparr>)"

end
