(* ===== verification/InfraCorrect.thy ===== *)
theory InfraCorrect
  imports InfrastructureManager
begin

text \<open>
  What the start of the infrastructure promises: the waits end and succeed only on a healthy answer, no operation of the container
  removes it unless an upgrade was asked for, and a startup serves every caller that arrives while it runs.
\<close>

section \<open>The waits\<close>

definition rounds :: "int \<Rightarrow> nat" where
  "rounds ms = nat ((ms + 999) div 1000)"

lemma rounds_step: "t \<le> t' - 1000 \<Longrightarrow> 0 < T - t \<Longrightarrow> Suc (rounds (T - t')) \<le> rounds (T - t)"
  unfolding rounds_def by linarith

definition wait_outcome :: "int \<Rightarrow> js_error + json \<Rightarrow> bool" where
  "wait_outcome timeout r \<longleftrightarrow> (case r of Inr d \<Rightarrow> all_healthy d | Inl e \<Rightarrow> \<exists>m. e = not_ready m timeout)"

lemma probe_healthy: "pb_healthy (probe_result x) \<Longrightarrow> \<exists>d. pb_data (probe_result x) = Some d \<and> all_healthy d"
  by (auto simp: probe_result_def Let_def split: sum.splits if_splits option.splits elim!: truthy_j.elims)

lemma wait_loop_bounded: "\<exists>r new. wait_loop R W start timeout lastError s = (r, s\<lparr>calls := calls s @ new\<rparr>) \<and> wait_outcome timeout r
    \<and> length new \<le> 2 * rounds (timeout - (rt_clock R (calls s) - start)) \<and> set new \<subseteq> {gateway_health, Sleep 1000}"
proof (induction R W start timeout lastError s rule: wait_loop.induct)
  case (1 R W start timeout lastError s)
  let ?x = "W (calls s) gateway_health" and ?s1 = "s\<lparr>calls := calls s @ [gateway_health]\<rparr>"
  show ?case
  proof (cases "rt_clock R (calls s) - start < timeout")
    case False
    then show ?thesis by (subst wait_loop.simps) (intro exI [of _ "Inl (not_ready lastError timeout)"] exI [of _ "[]"], auto simp: wait_outcome_def)
  next
    case in_time: True
    note step = wait_loop.simps [of R W start timeout lastError s] probe_run
    show ?thesis
    proof (cases "pb_healthy (probe_result ?x) \<and> truthy_j (pb_data (probe_result ?x))")
      case True
      with probe_healthy have "all_healthy (the (pb_data (probe_result ?x)))" by fastforce
      moreover have "1 \<le> 2 * rounds (timeout - (rt_clock R (calls s) - start))" using in_time by (simp add: rounds_def)
      ultimately show ?thesis using in_time True
        by (intro exI [of _ "Inr (the (pb_data (probe_result ?x)))"] exI [of _ "[gateway_health]"]) (simp add: step wait_outcome_def)
    next
      case False
      let ?s2 = "slept ?s1"
      from "1.IH" [OF in_time probe_run [symmetric] refl False] obtain r new
        where IH: "wait_loop R W start timeout (or_s (pb_error (probe_result ?x)) lastError) ?s2 = (r, ?s2\<lparr>calls := calls ?s2 @ new\<rparr>)"
          "wait_outcome timeout r" "length new \<le> 2 * rounds (timeout - (rt_clock R (calls ?s2) - start))" "set new \<subseteq> {gateway_health, Sleep 1000}"
        by auto
      have "Suc (rounds (timeout - (rt_clock R (calls ?s2) - start))) \<le> rounds (timeout - (rt_clock R (calls s) - start))"
        using rounds_step [of "rt_clock R (calls s) - start" "rt_clock R (calls ?s2) - start" timeout] clock_slept [of R s gateway_health] in_time by simp
      with IH in_time False show ?thesis
        by (intro exI [of _ r] exI [of _ "gateway_health # Sleep 1000 # new"]) (auto simp: step slept_def)
    qed
  qed
qed

text \<open>C14: the wait for readiness always ends, after at most one probe and one sleep for every second of its timeout; it makes no other
  call, succeeds only on an answer that names gateway, metadata service, Redis and orchestrator healthy, and fails only with the timeout error.\<close>

theorem readiness_bounded: "\<exists>r new. waitForReady R W t (s, a) = (r, (s\<lparr>calls := calls s @ new\<rparr>, a)) \<and> wait_outcome (nullish t 45000) r
    \<and> length new \<le> 2 * rounds (nullish t 45000) \<and> set new \<subseteq> {gateway_health, Sleep 1000}"
  using wait_loop_bounded [of R W "rt_clock R (calls s)" "nullish t 45000"
      "''Readiness check timed out waiting for Gateway & internal microservices''" s]
  by (auto simp: waitForReady_def on_fst_def bnd_def gets_def)

section \<open>The services a command needs\<close>

definition last_round_up :: "rt_env \<Rightarrow> world \<Rightarrow> string list \<Rightarrow> proc \<Rightarrow> bool" where
  "last_round_up R W ks s' \<longleftrightarrow> (\<exists>s hs. checkServices R W ks s = (Inr hs, s') \<and> list_all is_up hs)"

lemma wait_services_up: "wait_services R W ks start timeout s = (Inr hs, s') \<Longrightarrow> last_round_up R W ks s'"
proof (induction R W ks start timeout s rule: wait_services.induct)
  case (1 R W ks start timeout s)
  from "1.prems" show ?case
    by (subst (asm) wait_services.simps)
      (auto simp: last_round_up_def bnd_def throw_def split: if_splits prod.splits sum.splits dest: "1.IH" [unfolded last_round_up_def])
qed

lemma wait_until_up_all: "wait_until_up R W ks timeout s = (Inr hs, s') \<Longrightarrow> last_round_up R W ks s'"
  by (auto simp: wait_until_up_def bnd_def gets_def dest: wait_services_up)

text \<open>C17: when the check of the infrastructure returns, the last thing it did was a round of probes over every required service, and
  that round found each of them healthy.\<close>

theorem ensured_means_probed: "performEnsureInfrastructure R W opts (s, a) = (Inr (), (s', a')) \<Longrightarrow>
    last_round_up R W (resolveRequiredServiceKeys opts) s'"
  by (auto simp: performEnsureInfrastructure_def Let_def bnd_def lift_res_def on_fst_def ret_def last_round_up_def
      split: sum.splits prod.splits if_splits dest: wait_until_up_all [unfolded last_round_up_def])

definition up_answer :: json where
  "up_answer = JObj [(''status'', JNum 200), (''data'', JObj [(''dependencies'', JObj
     [(''gateway'', JObj [(''status'', JStr ''healthy'')]), (''redis'', JObj [(''status'', JStr ''healthy'')]),
      (''orchestrator'', JObj [(''status'', JStr ''healthy'')])])])]"

text \<open>A world whose gateway answers after the compose stack was started.\<close>

definition up_world :: world where
  "up_world l c = (if c = gateway_probe \<and> length l < 8 then Inl \<lparr>f_code = '''', f_message = ''refused'', f_axios = True, f_response = None\<rparr>
     else case c of Other what arg \<Rightarrow> if what = ''net.connect'' \<or> what = ''axios'' \<and> length l < 8
         then Inl \<lparr>f_code = '''', f_message = ''refused'', f_axios = True, f_response = None\<rparr>
         else if what = ''exec'' then Inr (JObj [(''exitCode'', JNum 0)]) else Inr up_answer
     | _ \<Rightarrow> Inr (JBool True))"

definition plain_env :: rt_env where
  "plain_env = \<lparr>rt_var = (\<lambda>_. None), rt_config = (\<lambda>_. None), rt_home = ''/root'', rt_module = [''app''], rt_cwd = ''/app'', rt_platform = ''linux'',
     rt_version = ''1.0.0'', rt_lag = (\<lambda>_. 0), rt_start = 0, rt_date = (\<lambda>_. None), rt_parse = (\<lambda>_. None)\<rparr>"

definition mysql_options :: ensure_options where
  "mysql_options = \<lparr>eo_dbType = Some '' MySQL'', eo_services = None, eo_timeout = None\<rparr>"

definition fresh_infra :: infra where
  "fresh_infra = (\<lparr>calls = [], baseUrl = ''''\<rparr>, \<lparr>composeCommand = None, cachedComposeFilePath = None\<rparr>)"

theorem ensured_means_probed_witness: "fst (performEnsureInfrastructure plain_env up_world mysql_options fresh_infra) = Inr ()
    \<and> last_round_up plain_env up_world [''redis'', ''api-gateway'', ''backup-orchestrator'', ''mysql-backup'']
        (fst (snd (performEnsureInfrastructure plain_env up_world mysql_options fresh_infra)))"
proof (rule conjI)
  let ?run = "performEnsureInfrastructure plain_env up_world mysql_options fresh_infra"
  show ok: "fst ?run = Inr ()" by code_simp
  have ks: "resolveRequiredServiceKeys mysql_options = [''redis'', ''api-gateway'', ''backup-orchestrator'', ''mysql-backup'']" by code_simp
  have "performEnsureInfrastructure plain_env up_world mysql_options (fst fresh_infra, snd fresh_infra) = (Inr (), (fst (snd ?run), snd (snd ?run)))"
    using ok by (metis prod.collapse)
  from ensured_means_probed [OF this] show "last_round_up plain_env up_world [''redis'', ''api-gateway'', ''backup-orchestrator'', ''mysql-backup'']
      (fst (snd ?run))" by (simp only: ks)
qed

section \<open>Concurrent callers\<close>

definition callers_of :: "ensure_event list \<Rightarrow> nat list" where
  "callers_of es = concat (map (\<lambda>e. case e of EnsureCall c _ \<Rightarrow> [c] | StartupEnds _ \<Rightarrow> []) es)"

definition pending :: "ensurer \<Rightarrow> nat list" where
  "pending m = (case active m of None \<Rightarrow> [] | Some (_, cs) \<Rightarrow> cs)"

definition ensure_events :: "ensure_event list \<Rightarrow> ensurer" where
  "ensure_events es = fold ensureInfrastructure es no_startup"

definition ends :: "ensure_event list \<Rightarrow> nat" where
  "ends es = length (filter (\<lambda>e. case e of StartupEnds _ \<Rightarrow> True | _ \<Rightarrow> False) es)"

lemma ensure_events_snoc [simp]: "ensure_events (es @ [e]) = ensureInfrastructure e (ensure_events es)"
  by (simp add: ensure_events_def)

definition single_flight :: "ensure_event list \<Rightarrow> ensurer \<Rightarrow> bool" where
  "single_flight es m \<longleftrightarrow> map fst (outcomes m) @ pending m = callers_of es
     \<and> length (startups m) \<le> ends es + (if active m = None then 0 else 1)
     \<and> (case active m of None \<Rightarrow> True | Some (running, cs) \<Rightarrow> startups m \<noteq> [] \<and> last (startups m) = running \<and> cs \<noteq> [])"

text \<open>C16: however calls and the ends of startups interleave, every caller is answered exactly once, in the order of the calls, or still
  waits; at most one startup runs at a time, and a caller that waits, waits for the last one started.\<close>

theorem ensure_single_flight: "single_flight es (ensure_events es)"
proof (induction es rule: rev_induct)
  case Nil
  show ?case by (simp add: single_flight_def ensure_events_def no_startup_def callers_of_def pending_def ends_def)
next
  case (snoc e es)
  then show ?case
    by (cases e) (auto simp: single_flight_def callers_of_def pending_def ends_def comp_def split: option.splits if_splits)
qed

text \<open>The options of a caller that finds a startup running are not looked at.\<close>

lemma waiting_caller_unchecked:
  "active m = Some (running, cs) \<Longrightarrow> let m' = ensureInfrastructure (StartupEnds r) (ensureInfrastructure (EnsureCall c opts) m) in
    (c, r) \<in> set (outcomes m') \<and> startups m' = startups m"
  by simp

text \<open>A database service counts as healthy when the gateway names the orchestrator healthy.\<close>

lemma database_probe_vouched: "gateway_says ''mysql-backup'' d = dep_healthy (jget d ''dependencies'') ''orchestrator''"
  by (simp add: gateway_says_def Let_def)

section \<open>The container is kept\<close>

fun subcommand :: "string list \<Rightarrow> string" where
  "subcommand [] = ''''"
| "subcommand [x] = x"
| "subcommand (x # y # xs) = (if x = ''compose'' \<or> x = ''image'' then subcommand (y # xs) else if x = ''-f'' then subcommand xs else x)"

definition exec_args :: "json \<Rightarrow> string list" where
  "exec_args arg = (case jget arg ''args'' of Some (JArr xs) \<Rightarrow> map (\<lambda>x. case x of JStr t \<Rightarrow> t | _ \<Rightarrow> '''') xs | _ \<Rightarrow> [])"

text \<open>The commands that neither remove a container nor an image nor a volume.\<close>

definition keeping :: "string list" where
  "keeping = [''--version'', ''version'', ''info'', ''inspect'', ''pull'', ''up'', ''start'', ''stop'', ''restart'', ''logs'']"

fun harmless :: "call \<Rightarrow> bool" where
  "harmless (Other what arg) \<longleftrightarrow> (what = ''exec'' \<longrightarrow> subcommand (exec_args arg) \<in> set keeping)"
| "harmless _ \<longleftrightarrow> True"

definition compose_ok :: "string list \<Rightarrow> bool" where
  "compose_ok c \<longleftrightarrow> c = [''docker'', ''compose''] \<or> c = [''docker-compose'']"

definition adapter_ok :: "adapter \<Rightarrow> bool" where
  "adapter_ok a \<longleftrightarrow> (case composeCommand a of None \<Rightarrow> True | Some c \<Rightarrow> compose_ok c)"

definition stays_to :: "('a \<Rightarrow> bool) \<Rightarrow> (infra, 'a) prog \<Rightarrow> bool" where
  "stays_to Q m \<longleftrightarrow> (\<forall>s a. adapter_ok a \<longrightarrow> (\<exists>r new a' b. m (s, a) = (r, (s\<lparr>calls := calls s @ new, baseUrl := b\<rparr>, a'))
     \<and> adapter_ok a' \<and> (\<forall>c\<in>set new. harmless c) \<and> (case r of Inr x \<Rightarrow> Q x | Inl _ \<Rightarrow> True)))"

abbreviation stays :: "(infra, 'a) prog \<Rightarrow> bool" where
  "stays m \<equiv> stays_to (\<lambda>_. True) m"

named_theorems stays

lemma stays_toE:
  assumes "stays_to Q m" and "adapter_ok a"
  obtains r new a' b where "m (s, a) = (r, (s\<lparr>calls := calls s @ new, baseUrl := b\<rparr>, a'))" and "adapter_ok a'"
    and "\<forall>c\<in>set new. harmless c" and "case r of Inr x \<Rightarrow> Q x | Inl _ \<Rightarrow> True"
  using assms unfolding stays_to_def by blast

lemma stays_to_bnd:
  assumes "stays_to Q m" and "\<And>x. Q x \<Longrightarrow> stays_to Q' (k x)"
  shows "stays_to Q' (bnd m k)"
  unfolding stays_to_def
proof (intro allI impI)
  fix s :: proc and a assume a: "adapter_ok a"
  obtain r new a' b where m: "m (s, a) = (r, (s\<lparr>calls := calls s @ new, baseUrl := b\<rparr>, a'))" "adapter_ok a'" "\<forall>c\<in>set new. harmless c"
    "case r of Inr x \<Rightarrow> Q x | Inl _ \<Rightarrow> True"
    using assms(1) a by (rule stays_toE)
  let ?t = "s\<lparr>calls := calls s @ new, baseUrl := b\<rparr>"
  show "\<exists>r new a' b. bnd m k (s, a) = (r, (s\<lparr>calls := calls s @ new, baseUrl := b\<rparr>, a'))
     \<and> adapter_ok a' \<and> (\<forall>c\<in>set new. harmless c) \<and> (case r of Inr x \<Rightarrow> Q' x | Inl _ \<Rightarrow> True)"
  proof (cases r)
    case (Inl e)
    with m show ?thesis
      by (intro exI [of _ "Inl e"] exI [of _ new] exI [of _ a'] exI [of _ b]) (simp add: bnd_def)
  next
    case (Inr x)
    with m have "stays_to Q' (k x)" using assms(2) by simp
    then obtain r2 new2 a2 b2 where k: "k x (?t, a') = (r2, (?t\<lparr>calls := calls ?t @ new2, baseUrl := b2\<rparr>, a2))" "adapter_ok a2"
      "\<forall>c\<in>set new2. harmless c" "case r2 of Inr x \<Rightarrow> Q' x | Inl _ \<Rightarrow> True"
      using m(2) by (rule stays_toE)
    with m Inr show ?thesis
      by (intro exI [of _ r2] exI [of _ "new @ new2"] exI [of _ a2] exI [of _ b2]) (auto simp: bnd_def)
  qed
qed

lemma stays_bnd [stays]: "stays m \<Longrightarrow> (\<And>x. stays (k x)) \<Longrightarrow> stays (bnd m k)"
  by (rule stays_to_bnd) simp

lemma stays_pure: "(\<And>s a. adapter_ok a \<Longrightarrow> m (s, a) = (r, (s, f a)) \<and> adapter_ok (f a)) \<Longrightarrow> (case r of Inr x \<Rightarrow> Q x | Inl _ \<Rightarrow> True) \<Longrightarrow> stays_to Q m"
  unfolding stays_to_def
  by (metis append_Nil2 empty_iff empty_set proc.surjective proc.update_convs(1) proc.update_convs(2))

lemma stays_ret: "Q x \<Longrightarrow> stays_to Q (ret x)"
  by (rule stays_pure [where f = "\<lambda>a. a" and r = "Inr x"]) (simp_all add: ret_def)

lemma stays_throw: "stays_to Q (throw e)"
  by (rule stays_pure [where f = "\<lambda>a. a" and r = "Inl e"]) (simp_all add: throw_def)

lemmas stays_units [stays] = stays_ret [where Q = "\<lambda>_. True", OF TrueI] stays_throw [where Q = "\<lambda>_. True"]

lemma stays_if [stays]: "(b \<Longrightarrow> stays m) \<Longrightarrow> (\<not> b \<Longrightarrow> stays n) \<Longrightarrow> stays (if b then m else n)"
  by simp

lemma stays_on_fst: "only harmless m \<Longrightarrow> stays (on_fst m)"
  unfolding stays_to_def
proof (intro allI impI)
  fix s :: proc and a assume a: "only harmless m" "adapter_ok a"
  obtain r new b where "m s = (r, s\<lparr>calls := calls s @ new, baseUrl := b\<rparr>)" "\<forall>c\<in>set new. harmless c"
    using a(1) unfolding only_def by (rule tracesE)
  with a(2) show "\<exists>r new a' b. on_fst m (s, a) = (r, (s\<lparr>calls := calls s @ new, baseUrl := b\<rparr>, a'))
     \<and> adapter_ok a' \<and> (\<forall>c\<in>set new. harmless c) \<and> (case r of Inr x \<Rightarrow> True | Inl _ \<Rightarrow> True)"
    by (intro exI [of _ r] exI [of _ new] exI [of _ a] exI [of _ b]) (simp add: on_fst_def split: sum.split)
qed

lemma exec_args_run [simp]: "exec_args (JObj [(''command'', JStr cmd), (''args'', JArr (map JStr xs)), (''options'', opts)]) = xs"
  by (simp add: exec_args_def comp_def)

lemma only_exec: "subcommand args \<in> set keeping \<Longrightarrow> only harmless (exec W cmd args opts)"
  unfolding exec_def by (intro only) simp

lemma stays_exec [stays]: "subcommand args \<in> set keeping \<Longrightarrow> stays (on_fst (exec W cmd args opts))"
  by (intro stays_on_fst only_exec)

lemma stays_tool [stays]: "subcommand args \<in> set keeping \<Longrightarrow> stays (on_fst (run_tool_plain W cmd args))"
  unfolding run_tool_plain_def by (rule stays_exec)

lemma stays_works [stays]: "subcommand args \<in> set keeping \<Longrightarrow> stays (on_fst (tool_works W cmd args))"
  unfolding tool_works_def run_tool_plain_def by (intro stays_on_fst only only_exec)

lemma stays_exists [stays]: "stays (on_fst (exists_file W p))"
  unfolding exists_file_def by (intro stays_on_fst only) simp

lemma only_first_file: "only harmless (first_file W ps)"
  by (induction ps) (auto intro!: only simp: exists_file_def)

lemma stays_set_file_path [stays]: "stays (set_file_path p)"
  unfolding set_file_path_def
  by (rule stays_pure [where f = "\<lambda>a. a\<lparr>cachedComposeFilePath := Some p\<rparr>" and r = "Inr p"])
    (simp_all add: bnd_def modify_st_def ret_def adapter_ok_def)

lemma stays_gets [stays]: "stays (gets f)"
  unfolding stays_to_def
proof (intro allI impI)
  fix s :: proc and a assume "adapter_ok a"
  then show "\<exists>r new a' b. gets f (s, a) = (r, (s\<lparr>calls := calls s @ new, baseUrl := b\<rparr>, a'))
     \<and> adapter_ok a' \<and> (\<forall>c\<in>set new. harmless c) \<and> (case r of Inr x \<Rightarrow> True | Inl _ \<Rightarrow> True)"
    by (intro exI [of _ "Inr (f (s, a))"] exI [of _ "[]"] exI [of _ a] exI [of _ "baseUrl s"]) (simp add: gets_def)
qed

lemma stays_cached_file [stays]: "stays (cached_file W)"
  unfolding cached_file_def by (intro stays)

lemma stays_first_file [stays]: "stays (on_fst (first_file W ps))"
  by (intro stays_on_fst only_first_file)

lemma stays_option [stays]: "stays m \<Longrightarrow> (\<And>x. stays (k x)) \<Longrightarrow> stays (case v of None \<Rightarrow> m | Some x \<Rightarrow> k x)"
  by (cases v) simp_all

lemma stays_resolve_file [stays]: "stays (resolveComposeFilePath R W custom)"
  unfolding resolveComposeFilePath_def by (intro stays)

lemma stays_backup_directory [stays]: "stays (getBackupDirectory R W)"
  unfolding getBackupDirectory_def Let_def when_p_def by (intro stays stays_on_fst only) simp_all

lemma stays_resolveConfig [stays]: "stays (resolveConfig R W)"
  unfolding resolveConfig_def Let_def by (intro stays)

lemma stays_set_compose: "compose_ok c \<Longrightarrow> stays_to compose_ok (set_compose c)"
  unfolding set_compose_def
  by (rule stays_pure [where f = "\<lambda>a. a\<lparr>composeCommand := Some c\<rparr>" and r = "Inr c"])
    (simp_all add: bnd_def modify_st_def ret_def adapter_ok_def)

lemma stays_compose_command: "stays_to compose_ok (getComposeCommand W)"
  unfolding stays_to_def
proof (intro allI impI)
  fix s :: proc and a assume a: "adapter_ok a"
  let ?m = "bnd (on_fst (tool_works W ''docker'' [''compose'', ''version''])) (\<lambda>v2.
         if v2 then set_compose [''docker'', ''compose'']
         else bnd (on_fst (tool_works W ''docker-compose'' [''version''])) (\<lambda>v1.
           if v1 then set_compose [''docker-compose''] else throw DockerComposeUnavailable))"
  have new: "stays_to compose_ok ?m"
    by (intro stays_to_bnd [where Q = "\<lambda>_. True"] stays) (auto simp: keeping_def compose_ok_def intro!: stays_set_compose stays_throw stays_to_bnd [where Q = "\<lambda>_. True"] stays)
  show "\<exists>r new a' b. getComposeCommand W (s, a) = (r, (s\<lparr>calls := calls s @ new, baseUrl := b\<rparr>, a'))
     \<and> adapter_ok a' \<and> (\<forall>c\<in>set new. harmless c) \<and> (case r of Inr x \<Rightarrow> compose_ok x | Inl _ \<Rightarrow> True)"
  proof (cases "composeCommand a")
    case None
    then have "getComposeCommand W (s, a) = ?m (s, a)" by (simp add: getComposeCommand_def bnd_def gets_def)
    with new a show ?thesis unfolding stays_to_def by simp
  next
    case (Some c)
    with a show ?thesis
      by (intro exI [of _ "Inr c"] exI [of _ "[]"] exI [of _ a] exI [of _ "baseUrl s"])
        (simp add: getComposeCommand_def bnd_def gets_def ret_def adapter_ok_def)
  qed
qed

lemma stays_compose [stays]: "(\<And>c. compose_ok c \<Longrightarrow> stays (k c)) \<Longrightarrow> stays (bnd (getComposeCommand W) k)"
  by (rule stays_to_bnd [OF stays_compose_command])

lemma compose_subcommand [simp]: "compose_ok c \<Longrightarrow> k \<notin> {''compose'', ''image'', ''-f''} \<Longrightarrow> subcommand (tl c @ ''-f'' # f # k # ks) = k"
  by (cases ks) (auto simp: compose_ok_def)

lemma harmless_probes [simp]: "harmless gateway_health" "harmless (axios_get u n)" "harmless (connect_call p n)"
  by (simp_all add: gateway_health_def axios_get_def connect_call_def)

lemma only_probe [only]: "only harmless (probeGatewayHealth W)"
  unfolding probeGatewayHealth_def by (intro only) simp

lemma only_wait_loop: "only harmless (wait_loop R W start timeout lastError)"
proof (rule onlyI)
  fix s
  obtain r new where "wait_loop R W start timeout lastError s = (r, s\<lparr>calls := calls s @ new\<rparr>)" "set new \<subseteq> {gateway_health, Sleep 1000}"
    using wait_loop_bounded by blast
  moreover have "s\<lparr>calls := calls s @ new\<rparr> = s\<lparr>calls := calls s @ new, baseUrl := baseUrl s\<rparr>" by simp
  ultimately show "\<exists>new r b. wait_loop R W start timeout lastError s = (r, s\<lparr>calls := calls s @ new, baseUrl := b\<rparr>) \<and> (\<forall>c\<in>set new. harmless c)"
    by (intro exI [of _ new] exI [of _ r] exI [of _ "baseUrl s"] conjI) auto
qed

lemma stays_wait [stays]: "stays (waitForReady R W timeout)"
  unfolding waitForReady_def by (intro stays_on_fst only only_wait_loop)

lemma stays_probe [stays]: "stays (on_fst (probeGatewayHealth W))"
  by (intro stays_on_fst only)

lemma stays_prerequisites [stays]: "stays (checkPrerequisites R W)"
  unfolding checkPrerequisites_def Let_def by (intro stays) (simp_all add: keeping_def docker_server_version_def)

lemma stays_state [stays]: "stays (getContainerState R W name)"
  unfolding getContainerState_def inspect_container_def run_tool_plain_def
  by (intro stays_on_fst only only_exec) (simp add: keeping_def)

lemma stays_port [stays]: "stays (checkPortAvailability R W p name)"
  unfolding checkPortAvailability_def by (intro stays stays_on_fst only) simp

lemma stays_image [stays]: "stays (ensureImage W tag)"
  unfolding ensureImage_def by (intro stays) (simp_all add: keeping_def)

lemma stays_stop_container [stays]: "stays (stop_container W cfg st)"
  unfolding stop_container_def by (intro stays) (simp_all add: keeping_def)

lemma stays_stop [stays]: "stays (rt_stop R W)"
  unfolding rt_stop_def by (intro stays)

lemma stays_drop: "\<not> is_outdated upgrade cfg st \<Longrightarrow> stays (drop_outdated R W upgrade cfg st)"
  unfolding drop_outdated_def by (simp add: stays)

lemma stays_create [stays]: "stays (create_container W cfg)"
  unfolding create_container_def by (intro stays) (simp_all add: keeping_def)

lemma stays_start_existing [stays]: "stays (start_existing W cfg)"
  unfolding start_existing_def by (intro stays) (simp add: keeping_def)

lemma stays_running [stays]: "stays (running_container R W timeout st)"
  unfolding running_container_def by (intro stays)

lemma stays_launch [stays]: "stays (launch_container R W timeout cfg st)"
  unfolding launch_container_def by (intro stays)

lemma stays_start [stays]: "stays (rt_start_container R W timeout False)"
  unfolding rt_start_container_def by (intro stays stays_drop) (simp add: is_outdated_def Let_def)


section \<open>The process runner\<close>

text \<open>Once a signal could be sent \<open>child.killed\<close> is true, so a child that ignores \<open>SIGTERM\<close> is not killed.\<close>

lemma sigkill_never_sent: "kill ''SIGTERM'' \<Longrightarrow> pr_signals (on_event mb kill GraceOver (on_event mb kill TimerFired new_runner)) = [''SIGTERM'']"
  by (simp add: new_runner_def)

end
