(* ===== verification/Spec2Isabelle.thy ===== *)
theory Spec2Isabelle
  imports MysqlRestore MetadataCorrect RedisLock KeyStore RestoreCorrect OrchestratorCorrect SchedulerCorrect PgCorrect
    RestoreUseCorrect DumpCorrect MysqlServiceCorrect GatewayCorrect DashboardCorrect NotificationService InfraCorrect
begin

text \<open>
  Verification of DBVault (TypeScript), a backup system made of services that talk over HTTP, BullMQ
  queues and a shared volume. Paths below are relative to \<open>src/src\<close>.

  \<^bold>\<open>The parts and how they interact.\<close> The scheduler fires cron tasks and, under a Redis lock per database,
  asks the orchestrator for a backup. The orchestrator creates a job record through the metadata service
  and queues a job. The backup worker takes it, calls the service of the database (for MySQL the manager
  below), records the result through the metadata service, and queues an upload or a notification, which
  the storage and notification workers carry out. The restore worker fetches, verifies, decrypts and
  unpacks a backup file and hands it to the service of the database. The MySQL manager keeps its own
  catalogue (\<open>metadata.json\<close>), guarded by a lock file, of chains of full and incremental backups.

  \<^bold>\<open>Theories.\<close>
  \<^item> \<open>Prelude\<close>: JavaScript values as options, programs with errors and state (\<open>prog\<close>), \<open>try\<close>/\<open>catch\<close>/\<open>finally\<close>,
    a weakest-precondition calculus (collection \<open>wp\<close>). \<open>Bytes\<close>, \<open>NodePath\<close>, \<open>Json\<close>: buffers, \<open>path\<close>, JSON
    values and coercions.
  \<^item> \<open>FileLock\<close> (\<open>microservices/database-services/mysql/locks/reentrant-file-lock.ts\<close>): the re-entrant lock file;
    a system of processes as a step relation, with mutual exclusion by rule induction; a locale for
    balanced critical sections, interpreted on the lock.
  \<^item> \<open>MysqlTransforms\<close>, \<open>BinlogHeader\<close> (\<open>mysql/transforms\<close>): encryption, decryption, checksum and binlog
    coordinate, chunk by chunk; regular expressions as backtracking matchers.
  \<^item> \<open>ServiceUtils\<close> (\<open>microservices/shared/utils/service-utils.ts\<close>): hosts and paths in containers.
  \<^item> \<open>MysqlMeta\<close>, \<open>MysqlChain\<close> (\<open>mysql/manager.ts\<close>): the catalogue and its operations; chains and their
    validation against declarative definitions of a chain; expiry; interleaved saves.
  \<^item> \<open>MysqlBackup\<close>, \<open>MysqlBackupCorrect\<close>, \<open>MysqlRestore\<close> (\<open>mysql/manager.ts\<close>): connections, child processes with
    retry and time limit, full and incremental backups, restore of one backup and to a point in time;
    what a successful backup leaves in the catalogue, and in which order a restore applies it.
  \<^item> \<open>MetadataService\<close>, \<open>MetadataCorrect\<close> (\<open>microservices/metadata-service/index.ts\<close>): every HTTP handler over a
    parameter for the Prisma client; at most one default storage location.
  \<^item> \<open>RedisLock\<close> (\<open>lib/distributed-lock.ts\<close>): the lock over a parameter for Redis; instances as a step relation
    with mutual exclusion; the locale \<open>lease\<close> for code that runs under a lock, interpreted on it.
  \<^item> \<open>KeyStore\<close> (\<open>lib/key-manager.ts\<close>): the encrypted key store on disk.
  \<^item> \<open>World\<close>: calls between services. A call is appended to the log of its process and its reply is any
    function of the log (\<open>world\<close>), so a theorem over all worlds covers every pattern of failures.
    \<open>Traces\<close>: rules for what a program adds to the log (\<open>traces\<close>, \<open>only\<close>, \<open>answered\<close>).
  \<^item> \<open>MetadataClient\<close>, \<open>ClientCorrect\<close> (\<open>lib/metadata-client.ts\<close>): retries with exponential waits, the fallback
    to the gateway, all methods.
  \<^item> \<open>BackupWorker\<close>, \<open>WorkerCorrect\<close> (\<open>microservices/backup-worker/index.ts\<close>): the processors of the backup,
    storage and notification queues; they refine the life of a job, an abstract machine of four phases.
  \<^item> \<open>RestoreWorker\<close>, \<open>RestoreCorrect\<close> (\<open>microservices/backup-worker/restore.worker.ts\<close> and the download, decryption
    and decompression of \<open>infrastructure\<close> and \<open>storage-service/providers/s3.ts\<close>): verification before use and
    removal of temporary files, on every path.
  \<^item> \<open>CredentialScrubber\<close> (\<open>utils/credential-scrubber.ts\<close>): what is masked does not influence the output.
  \<^item> \<open>Orchestrator\<close>, \<open>OrchestratorCorrect\<close> (\<open>microservices/backup-orchestrator/index.ts\<close>): every handler; an
    accepted backup is queued once, a refused one never.
  \<^item> \<open>Scheduler\<close>, \<open>SchedulerCorrect\<close> (\<open>microservices/scheduler-service/index.ts\<close>): every handler, executions under
    the lease of the distributed lock, start-up.
  \<^item> \<open>FileTree\<close>: a disk as a tree of files, the calls of Node on it (each may fail, a write may be torn), and a
    frame calculus: \<open>within A m\<close> says that \<open>m\<close> changes no file outside the paths \<open>A\<close>.
  \<^item> \<open>StorageService\<close>, \<open>StorageCorrect\<close> (\<open>microservices/storage-service\<close>): the interface of a provider, both
    providers, the handlers; the locale \<open>storage_provider\<close> states the contract of a store of objects and is
    interpreted on the local provider, whose handlers stay below the base directory.
  \<^item> \<open>WalArchive\<close>, \<open>WalCorrect\<close>, \<open>WalRecovery\<close> (\<open>services/postgres-pitr.service.ts\<close>): archiving and fetching of
    write-ahead log segments. The locale \<open>wal_store\<close> extends \<open>storage_provider\<close> by a way back (what was uploaded
    is downloaded); archiving then fetching is proved inside it and taken out by its interpretation on the
    local provider.
  \<^item> \<open>PitrService\<close>, \<open>PitrRestore\<close>, \<open>PitrCorrect\<close> (same file): configuration of the server, base backups, status,
    recovery to a point in time: which base backup it starts from, what it never overwrites, and how long
    it watches the new server.
  \<^item> \<open>PgIncremental\<close>, \<open>PgChain\<close>, \<open>PgCorrect\<close> (\<open>services/postgres-incremental.service.ts\<close>): physical and incremental
    backups of PostgreSQL and the restore of a chain. The walk along the parent links is a partial function;
    it returns exactly when the links end, and then the lineage of the backup is rebuilt in order.
  \<^item> \<open>KeyService\<close>: the interface of the key store as its clients see it; the locale \<open>keystore_service\<close> is the
    contract of a map from names to keys, interpreted on \<open>KeyStore\<close>.
  \<^item> \<open>DbAdapters\<close>, \<open>AdapterCorrect\<close> (\<open>infrastructure/database\<close>): the four adapters and their factory; the locale
    \<open>database_adapter\<close> (a successful backup names a file that was written) holds of each of them.
  \<^item> \<open>UseCases\<close>, \<open>RestoreUseCase\<close> (\<open>application/use-cases\<close>, \<open>infrastructure/repositories\<close>,
    \<open>infrastructure/storage\<close>): connect, list, backup and restore on the command line, over any key store that meets
    its contract. \<open>BackupUseCorrect\<close>: the request is well-formed, and the key of a backup is found again by a later
    process. \<open>RestoreUseCorrect\<close>: what a delegated and a local restore do, composed with the restore worker.

  \<^item> \<open>DumpService\<close>, \<open>DumpServices\<close>, \<open>DumpCorrect\<close> (\<open>microservices/database-services/postgres/service.ts\<close>, \<open>mongodb\<close>,
    \<open>sqlite\<close>): dump, compression, checksum, encryption and storage as one pipeline, and the routes. The locale
    \<open>streaming_service\<close>, interpreted on the three services, says that every answer is that of the pipeline; from
    it: what is stored opens to what was dumped, and what the restore worker makes of it.
  \<^item> \<open>MysqlService\<close>, \<open>MysqlServiceCorrect\<close> (\<open>mysql/routes.ts\<close>, \<open>mysql/service.ts\<close>): the routes over the manager and its
    shared instance; an answered backup is restorable, the parent an incremental gets, and why the restore worker
    cannot restore a MySQL backup.
  \<^item> \<open>Validation\<close> (\<open>middleware/validation.middleware.ts\<close>): the middleware over a parameter for each schema.
  \<^item> \<open>Gateway\<close>, \<open>GatewayCorrect\<close> (\<open>config/env.ts\<close>, \<open>middleware\<close>, \<open>app.ts\<close>, \<open>routes\<close>, \<open>services/backup.service.ts\<close>,
    \<open>services/restore.service.ts\<close>, \<open>controllers\<close>): the chains in front of the handlers, forwarding, health, and the
    proxy of the metadata service, composed with its handlers.
  \<^item> \<open>Dashboard\<close>, \<open>DashboardCorrect\<close> (\<open>repositories/backup.repository.ts\<close>, \<open>services/dashboard.service.ts\<close>,
    \<open>controllers/dashboard.controller.ts\<close>): statistics, history, alerts, health, cancelling and triggering.
  \<^item> \<open>NotificationService\<close> (\<open>microservices/notification-service/index.ts\<close>): the handlers, and what they deliver.
  \<^item> \<open>ContainerRuntime\<close>, \<open>DockerRuntime\<close>, \<open>InfrastructureManager\<close>, \<open>InfraCorrect\<close> (\<open>infrastructure/process-runner.ts\<close>,
    \<open>docker-compose.adapter.ts\<close>, \<open>docker-runtime.ts\<close>, \<open>infrastructure-manager.ts\<close>, \<open>local.adapter.ts\<close>): child processes as a
    machine over their events, the life of the production container, the check of the services before a command. The
    clock is that of the log of calls: every sleep and any non-negative delay of the others; so the waits end, and
    the commands that touch the container are those that keep it.

  \<^bold>\<open>Correspondence.\<close> A class or closure is a record of its fields; a method or handler is one definition of
  the same name where Isabelle allows it, with the branches and the order of calls of the code. An
  exception is \<open>Inl\<close> of an error, \<open>T | null | undefined\<close> an option (JSON values keep \<open>null\<close> as \<open>JNull\<close> and a
  missing property as \<open>None\<close>). A request body or row is a \<open>json\<close> value. \<open>Promise.all\<close> runs its members in
  order; \<open>await\<close> is sequencing, and where two requests interleave (locks, saves) the steps are those of a
  step relation or an explicit schedule. Logging is left out.

  \<^bold>\<open>Bounds.\<close> No definition uses fuel. The one loop that may not end, \<open>walk_chain\<close>, is a partial function whose
  value is \<open>None\<close> then; the other recursive definitions terminate by structure or by a measure (attempts left of
  a request, of a lock or of the recovery monitor, visited entries of a chain, remaining input). Fields of file headers are 8-bit
  words and 32-bit lengths; other numbers are JavaScript integers in the range where they are exact, and
  floating-point renderings (\<open>toFixed\<close>) come from outside.

  \<^bold>\<open>Parameters and assumptions.\<close> Ciphers, hashes, JSON and base64 texts, the clock, the environment, random
  identifiers, the Prisma client, Redis, BullMQ, node-cron, gzip, the rate limiter, axios, the answers of S3 and of database servers,
  child processes, shell commands and, outside \<open>FileTree\<close>, files are parameters;
  what a theorem needs of them is a named hypothesis (\<open>redis_ok\<close>, the laws of the key store, of the cipher,
  of gzip and of the catalogue's file, how the rate limiter rejects, how axios writes a query, a \<open>reliable\<close> disk with room for the files at hand), met by a concrete instance in its witness. Also assumed: the entries of
  \<open>metadata.json\<close> have the declared types; a started child process reports its end; the cutoff of the
  clean-up is not shifted by a change to daylight saving time; a file of the key store that exists can be
  read; bodies have passed the request schemas, so objects are objects; text columns hold text or null;
  numbers in environment variables are decimal; text is treated as bytes, white space as ASCII.

  \<^bold>\<open>Not modelled.\<close> The command line, most of the configuration, logging, the OpenAPI text and the schemas (declarations
  of a library) have no state of their own. Symbolic links, file modes
  and concurrent writers of one file tree are not part of \<open>FileTree\<close>. In the database services, what happens to a
  killed tool or to the process after the answer is not followed. Of the gateway, the server process and the static files
  are left out.
\<close>

end
